(* ===== verification/Prelude.thy ===== *)
theory Prelude
  imports Complex_Main "HOL-Library.AList" "HOL-Library.Sublist"
begin

text \<open>
  Shared vocabulary of the development: the JavaScript values, strings, maps, sets and
  results that the TypeScript sources under \<^verbatim>\<open>src/network/src\<close> compute with, and the
  host platform they call.

  Strings are lists of code units below 256 (HOL's \<^typ>\<open>string\<close>). \<open>js_lower\<close>, \<open>js_trim\<close>
  and \<open>is_js_space\<close> are exact on those code units. A \<^verbatim>\<open>Map\<close> is an association list in
  insertion order (\<^const>\<open>AList.update\<close> keeps the place of an existing key and appends a new
  one, as \<^verbatim>\<open>Map.set\<close> does); a \<^verbatim>\<open>Set\<close> is a list without duplicates in insertion order.
  Code that throws returns a sum, with \<open>Inl\<close> for the error.
\<close>

named_theorems platform_simps "evaluation of the string, map and set helpers on closed terms"


subsection \<open>Strings\<close>

definition lower_char :: "char \<Rightarrow> char" where
  "lower_char c =
     (let n = (of_char c :: nat)
      in if (65 \<le> n \<and> n \<le> 90) \<or> (192 \<le> n \<and> n \<le> 222 \<and> n \<noteq> 215)
         then char_of (n + 32) else c)"

definition js_lower :: "string \<Rightarrow> string" where
  "js_lower s = map lower_char s"

definition is_js_space :: "char \<Rightarrow> bool" where
  "is_js_space c =
     (let n = (of_char c :: nat) in (9 \<le> n \<and> n \<le> 13) \<or> n = 32 \<or> n = 160)"

definition js_trim :: "string \<Rightarrow> string" where
  "js_trim s = rev (dropWhile is_js_space (rev (dropWhile is_js_space s)))"

definition is_digit :: "char \<Rightarrow> bool" where
  "is_digit c = (let n = (of_char c :: nat) in 48 \<le> n \<and> n \<le> 57)"

definition digit_value :: "char \<Rightarrow> nat" where
  "digit_value c = of_char c - 48"

definition decimal_value :: "string \<Rightarrow> nat" where
  "decimal_value s = foldl (\<lambda>n c. 10 * n + digit_value c) 0 s"

text \<open>\<^verbatim>\<open>value.replace(/\.$/, "")\<close>: one trailing dot is dropped.\<close>

definition drop_trailing_dot :: "string \<Rightarrow> string" where
  "drop_trailing_dot s = (if s \<noteq> [] \<and> last s = CHR ''.'' then butlast s else s)"

fun js_split :: "char \<Rightarrow> string \<Rightarrow> string list" where
  "js_split d [] = [[]]"
| "js_split d (c # cs) =
     (if c = d then [] # js_split d cs
      else (case js_split d cs of [] \<Rightarrow> [[c]] | w # ws \<Rightarrow> (c # w) # ws))"

fun js_join :: "string \<Rightarrow> string list \<Rightarrow> string" where
  "js_join d [] = []"
| "js_join d [w] = w"
| "js_join d (w # v # ws) = w @ d @ js_join d (v # ws)"

text \<open>The operator \<^verbatim>\<open><\<close> on strings: lexicographic by code unit.\<close>

fun js_less :: "string \<Rightarrow> string \<Rightarrow> bool" where
  "js_less _ [] = False"
| "js_less [] (_ # _) = True"
| "js_less (c # cs) (d # ds) =
     ((of_char c :: nat) < of_char d \<or> (c = d \<and> js_less cs ds))"

definition js_le :: "string \<Rightarrow> string \<Rightarrow> bool" where
  "js_le s t = (\<not> js_less t s)"

lemma js_less_irrefl [simp]: "\<not> js_less s s"
  by (induction s) auto

lemma js_less_trans: "js_less s t \<Longrightarrow> js_less t u \<Longrightarrow> js_less s u"
proof (induction s t arbitrary: u rule: js_less.induct)
  case (1 s)
  then show ?case by simp
next
  case (2 d ds)
  then show ?case by (cases u) auto
next
  case (3 c cs d ds)
  then show ?case by (cases u) (auto elim: less_trans)
qed

lemma js_less_total: "s \<noteq> t \<Longrightarrow> js_less s t \<or> js_less t s"
  by (induction s t rule: js_less.induct) (auto simp: neq_Nil_conv)

lemma js_le_refl [simp]: "js_le s s"
  by (simp add: js_le_def)

lemma js_le_trans: "js_le s t \<Longrightarrow> js_le t u \<Longrightarrow> js_le s u"
  unfolding js_le_def using js_less_trans js_less_total by metis

lemma js_less_imp_le: "js_less s t \<Longrightarrow> js_le s t"
  unfolding js_le_def using js_less_trans js_less_irrefl by blast

lemma js_not_less: "\<not> js_less t s \<longleftrightarrow> js_le s t"
  by (simp add: js_le_def)

lemma js_le_antisym: "js_le s t \<Longrightarrow> js_le t s \<Longrightarrow> s = t"
  unfolding js_le_def using js_less_total by blast

lemma js_split_nonempty [simp]: "js_split d s \<noteq> []"
  by (induction s) (auto split: list.splits)

lemma js_split_no_sep: "w \<in> set (js_split d s) \<Longrightarrow> d \<notin> set w"
  by (induction s arbitrary: w) (auto split: if_splits list.splits)

lemma js_join_split: "js_join [d] (js_split d s) = s"
proof (induction s)
  case Nil
  then show ?case by simp
next
  case (Cons c s)
  obtain w ws where w: "js_split d s = w # ws"
    using js_split_nonempty by (cases "js_split d s") auto
  with Cons show ?case by (cases ws) auto
qed

lemma js_split_Nil_sep: "d \<notin> set w \<Longrightarrow> js_split d (w @ d # s) = w # js_split d s"
  by (induction w) auto

lemma js_split_no_sep_eq: "d \<notin> set w \<Longrightarrow> js_split d w = [w]"
  by (induction w) auto

lemma js_split_join:
  "ws \<noteq> [] \<Longrightarrow> \<forall>w \<in> set ws. d \<notin> set w \<Longrightarrow> js_split d (js_join [d] ws) = ws"
  by (induction "[d]" ws rule: js_join.induct) (auto simp: js_split_Nil_sep js_split_no_sep_eq)

lemma length_js_lower [simp]: "length (js_lower s) = length s"
  by (simp add: js_lower_def)

lemma lower_char_idem [simp]: "lower_char (lower_char c) = lower_char c"
  by (simp add: lower_char_def Let_def)

lemma js_lower_idem [simp]: "js_lower (js_lower s) = js_lower s"
  by (simp add: js_lower_def)

lemma js_lower_append [simp]: "js_lower (s @ t) = js_lower s @ js_lower t"
  by (simp add: js_lower_def)

lemma dropWhile_idem_last:
  "dropWhile P (rev (dropWhile P (rev xs))) = rev (dropWhile P (rev (dropWhile P xs)))"
proof (induction xs)
  case Nil
  then show ?case by simp
next
  case (Cons x xs)
  then show ?case
    by (cases "P x") (auto simp: dropWhile_append dest: set_dropWhileD)
qed

lemma js_trim_idem [simp]: "js_trim (js_trim s) = js_trim s"
proof -
  let ?d = "dropWhile is_js_space"
  have "?d (?d xs) = ?d xs" for xs by (induction xs) auto
  then show ?thesis
    unfolding js_trim_def by (metis dropWhile_idem_last rev_rev_ident)
qed


subsection \<open>Maps and sets in insertion order\<close>

abbreviation js_map_set :: "'k \<Rightarrow> 'v \<Rightarrow> ('k \<times> 'v) list \<Rightarrow> ('k \<times> 'v) list" where
  "js_map_set \<equiv> AList.update"

abbreviation js_map_delete :: "'k \<Rightarrow> ('k \<times> 'v) list \<Rightarrow> ('k \<times> 'v) list" where
  "js_map_delete \<equiv> AList.delete"

definition js_set_add :: "'a \<Rightarrow> 'a list \<Rightarrow> 'a list" where
  "js_set_add x xs = (if x \<in> set xs then xs else xs @ [x])"

definition js_unique :: "'a list \<Rightarrow> 'a list" where
  "js_unique xs = fold js_set_add xs []"

lemma set_js_set_add [simp]: "set (js_set_add x xs) = insert x (set xs)"
  by (auto simp: js_set_add_def)

lemma distinct_js_set_add [simp]: "distinct (js_set_add x xs) = distinct xs"
  by (auto simp: js_set_add_def)

lemma set_fold_js_set_add [simp]: "set (fold js_set_add ys xs) = set xs \<union> set ys"
  by (induction ys arbitrary: xs) auto

lemma distinct_fold_js_set_add [simp]: "distinct (fold js_set_add ys xs) = distinct xs"
  by (induction ys arbitrary: xs) auto

lemma set_js_unique [simp]: "set (js_unique xs) = set xs"
  by (simp add: js_unique_def)

lemma distinct_js_unique [simp]: "distinct (js_unique xs)"
  by (simp add: js_unique_def)

lemma fold_js_set_add_distinct:
  "distinct (xs @ ys) \<Longrightarrow> fold js_set_add ys xs = xs @ ys"
  by (induction ys arbitrary: xs) (auto simp: js_set_add_def)

lemma js_unique_distinct: "distinct xs \<Longrightarrow> js_unique xs = xs"
  by (simp add: js_unique_def fold_js_set_add_distinct)

lemma js_unique_Nil [simp]: "js_unique xs = [] \<longleftrightarrow> xs = []"
  by (metis set_empty set_js_unique)

lemma map_of_filter_key:
  "map_of (filter (\<lambda>(k, v). P k) xs) k = (if P k then map_of xs k else None)"
  by (induction xs) auto

lemma distinct_map_fst_filter: "distinct (map fst xs) \<Longrightarrow> distinct (map fst (filter P xs))"
  by (induction xs) auto


lemma find_SomeD: "find P xs = Some x \<Longrightarrow> x \<in> set xs \<and> P x"
  by (induction xs) (auto split: if_splits)


subsection \<open>Results\<close>

definition and_then :: "'e + 'a \<Rightarrow> ('a \<Rightarrow> 'e + 'b) \<Rightarrow> 'e + 'b" where
  "and_then r f = (case r of Inl e \<Rightarrow> Inl e | Inr x \<Rightarrow> f x)"

definition map_error :: "('e \<Rightarrow> 'f) \<Rightarrow> 'e + 'a \<Rightarrow> 'f + 'a" where
  "map_error f r = (case r of Inl e \<Rightarrow> Inl (f e) | Inr x \<Rightarrow> Inr x)"

text \<open>\<^verbatim>\<open>xs.map(f)\<close> with a callback that may throw: the first error ends it.\<close>

fun map_result :: "('a \<Rightarrow> 'e + 'b) \<Rightarrow> 'a list \<Rightarrow> 'e + 'b list" where
  "map_result f [] = Inr []"
| "map_result f (x # xs) =
     and_then (f x) (\<lambda>y. and_then (map_result f xs) (\<lambda>ys. Inr (y # ys)))"

lemma and_then_simps [simp]:
  "and_then (Inl e) f = Inl e"
  "and_then (Inr x) f = f x"
  by (simp_all add: and_then_def)

lemma map_error_simps [simp]:
  "map_error g (Inl e) = Inl (g e)"
  "map_error g (Inr x) = Inr x"
  by (simp_all add: map_error_def)

lemma and_then_Inr: "and_then r f = Inr y \<longleftrightarrow> (\<exists>x. r = Inr x \<and> f x = Inr y)"
  by (cases r) auto

lemma and_then_Inl: "and_then r f = Inl e \<longleftrightarrow> r = Inl e \<or> (\<exists>x. r = Inr x \<and> f x = Inl e)"
  by (cases r) auto

lemma map_error_Inr [simp]: "map_error g r = Inr y \<longleftrightarrow> r = Inr y"
  by (cases r) auto

lemma map_result_Inr:
  "map_result f xs = Inr ys \<longleftrightarrow> list_all2 (\<lambda>x y. f x = Inr y) xs ys"
  by (induction xs arbitrary: ys) (auto simp: and_then_Inr list_all2_Cons1)

lemma map_result_length: "map_result f xs = Inr ys \<Longrightarrow> length ys = length xs"
  by (auto simp: map_result_Inr dest: list_all2_lengthD)

lemma map_result_mem: "map_result f xs = Inr ys \<Longrightarrow> y \<in> set ys \<Longrightarrow> \<exists>x \<in> set xs. f x = Inr y"
  by (induction xs arbitrary: ys) (fastforce simp: and_then_Inr)+

lemma map_result_map: "(\<And>x. x \<in> set xs \<Longrightarrow> f x = Inr (g x)) \<Longrightarrow> map_result f xs = Inr (map g xs)"
  by (induction xs) auto


subsection \<open>JavaScript values of type unknown\<close>

text \<open>
  Numbers are the finite rationals (every finite double is one) and the non-finite values.
  \<open>JUndefined\<close> is the value of an absent property.
\<close>

datatype jsnum = Fin rat | Infinite bool | NaN

datatype jsval =
    JUndefined
  | JNull
  | JBool bool
  | JNum jsnum
  | JStr string
  | JArr "jsval list"
  | JObj "(string \<times> jsval) list"

text \<open>Property access on a value; an absent property reads as undefined.\<close>

definition get_prop :: "jsval \<Rightarrow> string \<Rightarrow> jsval" where
  "get_prop v k =
     (case v of JObj kvs \<Rightarrow> (case map_of kvs k of None \<Rightarrow> JUndefined | Some x \<Rightarrow> x)
      | _ \<Rightarrow> JUndefined)"

fun is_str :: "jsval \<Rightarrow> bool" where
  "is_str (JStr _) = True"
| "is_str _ = False"

fun is_bool :: "jsval \<Rightarrow> bool" where
  "is_bool (JBool _) = True"
| "is_bool _ = False"

fun is_num :: "jsval \<Rightarrow> bool" where
  "is_num (JNum _) = True"
| "is_num _ = False"

text \<open>\<^verbatim>\<open>v && typeof v === "object"\<close>: true of arrays too.\<close>

fun is_objectish :: "jsval \<Rightarrow> bool" where
  "is_objectish (JObj _) = True"
| "is_objectish (JArr _) = True"
| "is_objectish _ = False"

text \<open>\<^verbatim>\<open>v && typeof v === "object" && !Array.isArray(v)\<close>.\<close>

fun is_record :: "jsval \<Rightarrow> bool" where
  "is_record (JObj _) = True"
| "is_record _ = False"

fun truthy :: "jsval \<Rightarrow> bool" where
  "truthy JUndefined = False"
| "truthy JNull = False"
| "truthy (JBool b) = b"
| "truthy (JNum n) = (n \<noteq> Fin 0 \<and> n \<noteq> NaN)"
| "truthy (JStr s) = (s \<noteq> [])"
| "truthy (JArr _) = True"
| "truthy (JObj _) = True"

definition js_array_every :: "(jsval \<Rightarrow> bool) \<Rightarrow> jsval \<Rightarrow> bool" where
  "js_array_every p v = (case v of JArr xs \<Rightarrow> list_all p xs | _ \<Rightarrow> False)"

fun str_of :: "jsval \<Rightarrow> string" where
  "str_of (JStr s) = s"
| "str_of _ = []"

fun elements :: "jsval \<Rightarrow> jsval list" where
  "elements (JArr xs) = xs"
| "elements _ = []"

text \<open>\<^verbatim>\<open>a ?? b\<close>.\<close>

fun nullish_or :: "jsval \<Rightarrow> jsval \<Rightarrow> jsval" where
  "nullish_or JUndefined w = w"
| "nullish_or JNull w = w"
| "nullish_or v w = v"

fun str_opt :: "jsval \<Rightarrow> string option" where
  "str_opt (JStr s) = Some s"
| "str_opt _ = None"

definition opt_str :: "string option \<Rightarrow> jsval" where
  "opt_str x = (case x of None \<Rightarrow> JUndefined | Some s \<Rightarrow> JStr s)"

lemma is_str_iff: "is_str v \<longleftrightarrow> (\<exists>s. v = JStr s)"
  by (cases v) auto

lemma is_record_iff: "is_record v \<longleftrightarrow> (\<exists>kvs. v = JObj kvs)"
  by (cases v) auto

lemma str_opt_eq_Some: "str_opt v = Some s \<longleftrightarrow> v = JStr s"
  by (cases v) auto

lemma nullish_or_JStr [simp]: "nullish_or (JStr s) w = JStr s"
  by simp

text \<open>A truthy optional string: \<^verbatim>\<open>x ? ... : ...\<close> on \<^verbatim>\<open>string | undefined\<close>.\<close>

definition truthy_str :: "string option \<Rightarrow> bool" where
  "truthy_str x = (case x of None \<Rightarrow> False | Some s \<Rightarrow> s \<noteq> [])"

definition keep_truthy :: "string option \<Rightarrow> string option" where
  "keep_truthy x = (if truthy_str x then x else None)"

definition nonempty_str :: "string \<Rightarrow> string option" where
  "nonempty_str s = (if s = [] then None else Some s)"


subsection \<open>The host platform\<close>

text \<open>
  A parsed \<^verbatim>\<open>URL\<close>: the components the sources read, as the host's \<^verbatim>\<open>URL\<close> class returns
  them (\<open>href\<close> is \<^verbatim>\<open>url.toString()\<close>).
\<close>

record url =
  href :: string
  protocol :: string
  username :: string
  password :: string
  hostname :: string
  pathname :: string
  search_params :: "(string \<times> string) list"

definition search_get :: "url \<Rightarrow> string \<Rightarrow> string option" where
  "search_get u k = map_of (search_params u) k"

text \<open>
  What the sources call of the host and of packages, as one record that every definition
  using it takes as an argument:
  \<^item> \<open>new_url\<close>: \<^verbatim>\<open>new URL(s)\<close>, \<open>None\<close> where the constructor throws;
  \<^item> \<open>date_parse\<close>: \<^verbatim>\<open>Date.parse(s)\<close> in milliseconds, \<open>None\<close> for NaN;
  \<^item> \<open>iso_string\<close>: \<^verbatim>\<open>date.toISOString()\<close> of a valid date given in milliseconds;
  \<^item> \<open>sha256_json\<close>: the hexadecimal SHA-256 of \<^verbatim>\<open>JSON.stringify\<close> of a canonical value;
  \<^item> \<open>locale_le\<close>: \<^verbatim>\<open>left.localeCompare(right) <= 0\<close>;
  \<^item> \<open>verify_ed25519\<close>: \<^verbatim>\<open>crypto.verify\<close> on the JSON text of a canonical value, a PEM key and
    the bytes that \<^verbatim>\<open>Buffer.from(signature, "base64url")\<close> reads, false where one of them throws.
\<close>

record platform =
  new_url :: "string \<Rightarrow> url option"
  date_parse :: "string \<Rightarrow> int option"
  iso_string :: "int \<Rightarrow> string"
  sha256_json :: "jsval \<Rightarrow> string"
  locale_le :: "string \<Rightarrow> string \<Rightarrow> bool"
  verify_ed25519 :: "jsval \<Rightarrow> string \<Rightarrow> jsval \<Rightarrow> bool"


subsection \<open>Errors of the network services\<close>

text \<open>
  The tagged errors of \<^verbatim>\<open>errors.ts\<close>. \<open>'c\<close> is the type of the \<^verbatim>\<open>cause\<close> payload, which the
  source leaves \<^verbatim>\<open>unknown\<close>.
\<close>

datatype 'c network_error =
    ContractValidationError string 'c
  | DestinationParseError string string
  | EventPublicationError string 'c
  | KeyMaterialError string 'c
  | PersistenceError string 'c
  | PolicyPublicationError string 'c
  | SigningCustodyError string 'c

text \<open>
  The \<^verbatim>\<open>Error\<close> thrown by a failed check of an unknown value: one constructor per message
  of the validators, with the label and the values the message is rendered from.
\<close>

datatype check_error =
    MustBeObject string
  | MustBeArray string
  | MustBeNonEmptyString string
  | MustContainOnlyStrings string
  | MustBeFiniteNumber string
  | MustBeNonNegativeInteger string
  | MustBeBoolean string
  | MustBeValidUrl string
  | MustUseHttps string
  | MustNotIncludeCredentials string
  | MustBeDnsHostname string
  | MustStartWithSlash string
  | MustBeOneOf string "string list"
  | MustBeStatus string
  | NotAStaleBehavior string
  | WrongArtifactType string string jsval
  | NotADelegatedAuthorityManifest jsval
  | NotEqual string "string option" "string option"
  | Missing string
  | RefMismatch string string string
  | InvalidTimeValue

text \<open>An uncaught throw, which ends the running effect as a defect instead of a typed error.\<close>

datatype defect = InvalidUrl string | TypeError string | ErrorThrown string

definition destinationParseError :: "string \<Rightarrow> 'c network_error" where
  "destinationParseError payload =
     DestinationParseError ''Decoded QR payload does not contain a URL destination.'' payload"

lemmas string_eval =
  js_lower_def lower_char_def js_trim_def is_js_space_def is_digit_def digit_value_def
  decimal_value_def drop_trailing_dot_def js_unique_def js_set_add_def js_le_def

declare string_eval [platform_simps]

end
