(* ===== verification/VerifierCache.thy ===== *)
theory VerifierCache
  imports Prelude
begin

text \<open>
  The verifier cache of \<^verbatim>\<open>network/src/services/verifier-cache.ts\<close>, with the accepted-root
  policy of \<^verbatim>\<open>accepted-root-policy.ts\<close>.

  \<open>verifier_cache\<close> is the closure state of \<^verbatim>\<open>makeInMemoryVerifierCache\<close>: the four
  collections and the accepted-root policy. Every method of the returned object is one
  definition that takes the state and returns the new one (and the method's result). The
  second half is the destination resolution: which policy answers for a host, and whether
  the scanned destination is bound by it or a mismatch with reason codes.
\<close>

named_theorems cache_ops "effects of the cache writers on the four collections"


subsection \<open>Data\<close>

record issuer_namespace =
  ns_root_program_id :: string
  ns_delegated_authority_id :: string
  ns_issuer_id :: string

record issuer_projection =
  ip_namespace :: issuer_namespace
  ip_issuer_display_name :: string
  ip_assurance_tier :: string
  ip_destination_policy_id :: string
  ip_allowed_hosts :: "string list"
  ip_cache_generated_at :: string
  ip_cache_expires_at :: string

record destination_policy_rule =
  dr_destination_id :: string
  dr_expected_final_url :: string
  dr_allowed_hosts :: "string list"
  dr_allow_subdomains :: bool
  dr_path_prefixes :: "string list"
  dr_query_policy :: string
  dr_allowed_query_keys :: "string list option"

record redirect_policy_projection =
  rp_resolver_urls :: "string list"
  rp_expected_final_destinations :: "string list"
  rp_allowed_redirect_hosts :: "string list"
  rp_max_redirect_hops :: int
  rp_nested_shorteners_allowed :: bool
  rp_scanner_must_display_resolver_and_final_destination :: bool

record destination_policy_projection =
  dp_namespace :: issuer_namespace
  dp_destination_policy_id :: string
  dp_approved_destinations :: "destination_policy_rule list"
  dp_redirect_policy :: redirect_policy_projection
  dp_allowed_hosts :: "string list"
  dp_allow_subdomains :: bool
  dp_cache_generated_at :: string
  dp_cache_expires_at :: string

datatype binding_status = Bound | Mismatch

record destination_resolution =
  res_issuer :: issuer_projection
  res_policy :: destination_policy_projection
  res_destination :: destination_policy_rule
  res_binding_status :: binding_status
  res_reason_codes :: "string list"
  res_resolver_url :: "string option"
  res_final_url :: "string option"
  res_observed_redirect_hops :: "int option"

text \<open>The optional fields \<^verbatim>\<open>DestinationResolutionExtras\<close> a resolution is built with.\<close>

record resolution_extras =
  ex_resolver_url :: "string option"
  ex_final_url :: "string option"
  ex_observed_redirect_hops :: "int option"

record delegated_authority_key =
  dak_root_program_id :: string
  dak_delegated_authority_id :: string


subsection \<open>Accepted roots\<close>

type_synonym accepted_root_policy = "string \<Rightarrow> bool"

definition makeAcceptedRootPolicy :: "string list \<Rightarrow> accepted_root_policy" where
  "makeAcceptedRootPolicy acceptedRootProgramIds =
     (\<lambda>rootProgramId. rootProgramId \<in> set acceptedRootProgramIds)"

definition acceptAllRootsPolicy :: accepted_root_policy where
  "acceptAllRootsPolicy = (\<lambda>_. True)"


subsection \<open>Keys\<close>

definition unit_separator :: string where
  "unit_separator = [char_of (31 :: nat)]"

definition verifierCachePolicyKey :: "issuer_namespace \<Rightarrow> string \<Rightarrow> string" where
  "verifierCachePolicyKey ns policy_id =
     js_join unit_separator
       [ns_root_program_id ns, ns_delegated_authority_id ns, ns_issuer_id ns, policy_id]"

definition policy_key :: "destination_policy_projection \<Rightarrow> string" where
  "policy_key p = verifierCachePolicyKey (dp_namespace p) (dp_destination_policy_id p)"

definition issuer_key :: "issuer_projection \<Rightarrow> string" where
  "issuer_key i = verifierCachePolicyKey (ip_namespace i) (ip_destination_policy_id i)"

definition authorityIssuerKey :: "issuer_namespace \<Rightarrow> string" where
  "authorityIssuerKey ns =
     js_join unit_separator
       [ns_root_program_id ns, ns_delegated_authority_id ns, ns_issuer_id ns]"

definition authority_prefix :: "string \<Rightarrow> string \<Rightarrow> string" where
  "authority_prefix root_id authority_id = js_join unit_separator [root_id, authority_id, []]"

definition namespaceEquals :: "issuer_namespace \<Rightarrow> issuer_namespace \<Rightarrow> bool" where
  "namespaceEquals l r \<longleftrightarrow>
     ns_root_program_id l = ns_root_program_id r \<and>
     ns_delegated_authority_id l = ns_delegated_authority_id r \<and>
     ns_issuer_id l = ns_issuer_id r"

definition delegatedAuthorityEquals :: "issuer_namespace \<Rightarrow> delegated_authority_key \<Rightarrow> bool" where
  "delegatedAuthorityEquals ns key \<longleftrightarrow>
     ns_root_program_id ns = dak_root_program_id key \<and>
     ns_delegated_authority_id ns = dak_delegated_authority_id key"

lemma namespaceEquals_iff [simp]: "namespaceEquals l r \<longleftrightarrow> l = r"
  by (cases l; cases r) (auto simp: namespaceEquals_def)


subsection \<open>State and writers\<close>

record verifier_cache =
  issuersByPolicyKey :: "(string \<times> issuer_projection) list"
  policiesByKey :: "(string \<times> destination_policy_projection) list"
  activeDelegatedAuthoritiesByRoot :: "(string \<times> string list) list"
  activeIssuersByAuthority :: "string list"
  acceptedRoots :: accepted_root_policy

record root_authority_context =
  rac_root_program_id :: string
  rac_active_delegated_authority_ids :: "string list"

record delegated_authority_issuer_context =
  daic_root_program_id :: string
  daic_delegated_authority_id :: string
  daic_active_issuer_ids :: "string list"

definition mergeRootAuthorityContextSync ::
  "root_authority_context \<Rightarrow> verifier_cache \<Rightarrow> verifier_cache" where
  "mergeRootAuthorityContextSync ctx s =
     (let existing = (case map_of (activeDelegatedAuthoritiesByRoot s) (rac_root_program_id ctx) of
                        None \<Rightarrow> [] | Some xs \<Rightarrow> xs)
      in s\<lparr>activeDelegatedAuthoritiesByRoot :=
             js_map_set (rac_root_program_id ctx)
               (fold js_set_add (rac_active_delegated_authority_ids ctx) existing)
               (activeDelegatedAuthoritiesByRoot s)\<rparr>)"

definition replaceRootAuthorityContextSync ::
  "root_authority_context \<Rightarrow> verifier_cache \<Rightarrow> verifier_cache" where
  "replaceRootAuthorityContextSync ctx s =
     s\<lparr>activeDelegatedAuthoritiesByRoot :=
         js_map_set (rac_root_program_id ctx)
           (js_unique (rac_active_delegated_authority_ids ctx))
           (activeDelegatedAuthoritiesByRoot s)\<rparr>"

definition mergeDelegatedAuthorityIssuerContextSync ::
  "delegated_authority_issuer_context \<Rightarrow> verifier_cache \<Rightarrow> verifier_cache" where
  "mergeDelegatedAuthorityIssuerContextSync ctx s =
     s\<lparr>activeIssuersByAuthority :=
         fold (\<lambda>issuerId. js_set_add (authorityIssuerKey
                 \<lparr>ns_root_program_id = daic_root_program_id ctx,
                  ns_delegated_authority_id = daic_delegated_authority_id ctx,
                  ns_issuer_id = issuerId\<rparr>))
           (daic_active_issuer_ids ctx) (activeIssuersByAuthority s)\<rparr>"

definition replaceDelegatedAuthorityIssuerContextSync ::
  "delegated_authority_issuer_context \<Rightarrow> verifier_cache \<Rightarrow> verifier_cache" where
  "replaceDelegatedAuthorityIssuerContextSync ctx s =
     (let pre = authority_prefix (daic_root_program_id ctx) (daic_delegated_authority_id ctx)
      in mergeDelegatedAuthorityIssuerContextSync ctx
           (s\<lparr>activeIssuersByAuthority :=
                filter (\<lambda>key. \<not> prefix pre key) (activeIssuersByAuthority s)\<rparr>))"

definition seedAuthorityContext :: "issuer_namespace \<Rightarrow> verifier_cache \<Rightarrow> verifier_cache" where
  "seedAuthorityContext ns s =
     mergeDelegatedAuthorityIssuerContextSync
       \<lparr>daic_root_program_id = ns_root_program_id ns,
        daic_delegated_authority_id = ns_delegated_authority_id ns,
        daic_active_issuer_ids = [ns_issuer_id ns]\<rparr>
       (mergeRootAuthorityContextSync
         \<lparr>rac_root_program_id = ns_root_program_id ns,
          rac_active_delegated_authority_ids = [ns_delegated_authority_id ns]\<rparr> s)"

definition putProjection :: "issuer_projection \<Rightarrow> verifier_cache \<Rightarrow> verifier_cache" where
  "putProjection projection s =
     s\<lparr>issuersByPolicyKey :=
         js_map_set (issuer_key projection) projection (issuersByPolicyKey s)\<rparr>"

definition upsertIssuer :: "issuer_projection \<Rightarrow> verifier_cache \<Rightarrow> verifier_cache \<times> issuer_projection"
where
  "upsertIssuer projection s = (putProjection projection s, projection)"

definition upsertDestinationPolicy ::
  "destination_policy_projection \<Rightarrow> verifier_cache \<Rightarrow>
     verifier_cache \<times> destination_policy_projection" where
  "upsertDestinationPolicy projection s =
     (s\<lparr>policiesByKey := js_map_set (policy_key projection) projection (policiesByKey s)\<rparr>,
      projection)"

definition upsertRootAuthorityContext ::
  "root_authority_context \<Rightarrow> verifier_cache \<Rightarrow> verifier_cache" where
  "upsertRootAuthorityContext ctx s = replaceRootAuthorityContextSync ctx s"

definition upsertDelegatedAuthorityIssuerContext ::
  "delegated_authority_issuer_context \<Rightarrow> verifier_cache \<Rightarrow> verifier_cache" where
  "upsertDelegatedAuthorityIssuerContext ctx s = replaceDelegatedAuthorityIssuerContextSync ctx s"

definition updateIssuerAssuranceTier ::
  "issuer_namespace \<Rightarrow> string \<Rightarrow> verifier_cache \<Rightarrow> verifier_cache \<times> bool" where
  "updateIssuerAssuranceTier ns tier s =
     (s\<lparr>issuersByPolicyKey :=
          map (\<lambda>(k, issuer).
                 if namespaceEquals (ip_namespace issuer) ns
                 then (k, issuer\<lparr>ip_assurance_tier := tier\<rparr>) else (k, issuer))
              (issuersByPolicyKey s)\<rparr>,
      list_ex (\<lambda>(k, issuer). namespaceEquals (ip_namespace issuer) ns) (issuersByPolicyKey s))"

definition removeIssuer :: "issuer_namespace \<Rightarrow> verifier_cache \<Rightarrow> verifier_cache \<times> bool" where
  "removeIssuer ns s =
     (s\<lparr>issuersByPolicyKey :=
          filter (\<lambda>(k, issuer). \<not> namespaceEquals (ip_namespace issuer) ns) (issuersByPolicyKey s)\<rparr>,
      list_ex (\<lambda>(k, issuer). namespaceEquals (ip_namespace issuer) ns) (issuersByPolicyKey s))"

definition removeDestinationPolicy ::
  "issuer_namespace \<Rightarrow> string \<Rightarrow> verifier_cache \<Rightarrow> verifier_cache \<times> bool" where
  "removeDestinationPolicy ns policy_id s =
     (let key = verifierCachePolicyKey ns policy_id
      in (s\<lparr>policiesByKey := js_map_delete key (policiesByKey s)\<rparr>,
          map_of (policiesByKey s) key \<noteq> None))"

definition removeDestinationPoliciesForIssuer ::
  "issuer_namespace \<Rightarrow> verifier_cache \<Rightarrow> verifier_cache \<times> bool" where
  "removeDestinationPoliciesForIssuer ns s =
     (s\<lparr>policiesByKey :=
          filter (\<lambda>(k, policy). \<not> namespaceEquals (dp_namespace policy) ns) (policiesByKey s)\<rparr>,
      list_ex (\<lambda>(k, policy). namespaceEquals (dp_namespace policy) ns) (policiesByKey s))"

definition removeDelegatedAuthority ::
  "delegated_authority_key \<Rightarrow> verifier_cache \<Rightarrow> verifier_cache \<times> bool" where
  "removeDelegatedAuthority key s =
     (let inAuthority = (\<lambda>ns. delegatedAuthorityEquals ns key);
          removedIssuer = list_ex (\<lambda>(k, issuer). inAuthority (ip_namespace issuer)) (issuersByPolicyKey s);
          removedPolicy = list_ex (\<lambda>(k, policy). inAuthority (dp_namespace policy)) (policiesByKey s);
          authorities = map_of (activeDelegatedAuthoritiesByRoot s) (dak_root_program_id key);
          removedAuthority = (case authorities of None \<Rightarrow> False
                              | Some xs \<Rightarrow> dak_delegated_authority_id key \<in> set xs);
          pre = authority_prefix (dak_root_program_id key) (dak_delegated_authority_id key);
          removedActive = list_ex (prefix pre) (activeIssuersByAuthority s)
      in (s\<lparr>issuersByPolicyKey :=
              filter (\<lambda>(k, issuer). \<not> inAuthority (ip_namespace issuer)) (issuersByPolicyKey s),
            policiesByKey :=
              filter (\<lambda>(k, policy). \<not> inAuthority (dp_namespace policy)) (policiesByKey s),
            activeDelegatedAuthoritiesByRoot :=
              (case authorities of None \<Rightarrow> activeDelegatedAuthoritiesByRoot s
               | Some xs \<Rightarrow> js_map_set (dak_root_program_id key)
                   (filter (\<lambda>a. a \<noteq> dak_delegated_authority_id key) xs)
                   (activeDelegatedAuthoritiesByRoot s)),
            activeIssuersByAuthority :=
              filter (\<lambda>k. \<not> prefix pre k) (activeIssuersByAuthority s)\<rparr>,
          removedIssuer \<or> removedPolicy \<or> removedAuthority \<or> removedActive))"

definition makeInMemoryVerifierCache ::
  "issuer_projection list \<Rightarrow> destination_policy_projection list \<Rightarrow> accepted_root_policy \<Rightarrow>
     verifier_cache" where
  "makeInMemoryVerifierCache initial initialDestinationPolicies roots =
     (let empty = \<lparr>issuersByPolicyKey = [], policiesByKey = [],
                   activeDelegatedAuthoritiesByRoot = [], activeIssuersByAuthority = [],
                   acceptedRoots = roots\<rparr>;
          seeded = fold (\<lambda>p s. seedAuthorityContext (ip_namespace p) (putProjection p s))
                     initial empty
      in fold (\<lambda>p s. seedAuthorityContext (dp_namespace p) (fst (upsertDestinationPolicy p s)))
           initialDestinationPolicies seeded)"


subsection \<open>Host and authority matching\<close>

definition ruleAllowsHost :: "destination_policy_rule \<Rightarrow> string \<Rightarrow> bool" where
  "ruleAllowsHost destination host =
     list_ex (\<lambda>allowedHost.
       let normalizedAllowedHost = js_lower allowedHost
       in host = normalizedAllowedHost \<or>
          (dr_allow_subdomains destination \<and> suffix (''.'' @ normalizedAllowedHost) host))
       (dr_allowed_hosts destination)"

definition policyAllowsHost :: "destination_policy_projection \<Rightarrow> string \<Rightarrow> bool" where
  "policyAllowsHost policy host =
     list_ex (\<lambda>destination. ruleAllowsHost destination host) (dp_approved_destinations policy)"

definition policyAllowsLookupHost ::
  "platform \<Rightarrow> destination_policy_projection \<Rightarrow> string \<Rightarrow> bool" where
  "policyAllowsLookupHost P policy host =
     (policyAllowsHost policy host \<or>
      list_ex (\<lambda>resolverUrl. case new_url P resolverUrl of None \<Rightarrow> False
                 | Some parsed \<Rightarrow> js_lower (hostname parsed) = host)
        (rp_resolver_urls (dp_redirect_policy policy)))"

definition hasAuthorityContext :: "verifier_cache \<Rightarrow> issuer_namespace \<Rightarrow> bool" where
  "hasAuthorityContext s ns =
     ((case map_of (activeDelegatedAuthoritiesByRoot s) (ns_root_program_id ns) of
         None \<Rightarrow> False | Some xs \<Rightarrow> ns_delegated_authority_id ns \<in> set xs) \<and>
      authorityIssuerKey ns \<in> set (activeIssuersByAuthority s))"

text \<open>The policies are visited in insertion order; a match without its issuer ends the search.\<close>

fun findPolicyMatch ::
  "destination_policy_projection list \<Rightarrow> string \<Rightarrow> (string \<times> issuer_projection) list \<Rightarrow>
     accepted_root_policy \<Rightarrow> (issuer_namespace \<Rightarrow> bool) \<Rightarrow>
     (destination_policy_projection \<Rightarrow> string \<Rightarrow> bool) \<Rightarrow>
     (issuer_projection \<times> destination_policy_projection) option" where
  "findPolicyMatch [] host issuers roots hasContext allowsHost = None"
| "findPolicyMatch (policy # policies) host issuers roots hasContext allowsHost =
     (if \<not> roots (ns_root_program_id (dp_namespace policy)) then
        findPolicyMatch policies host issuers roots hasContext allowsHost
      else if \<not> hasContext (dp_namespace policy) then
        findPolicyMatch policies host issuers roots hasContext allowsHost
      else if \<not> allowsHost policy host then
        findPolicyMatch policies host issuers roots hasContext allowsHost
      else (case map_of issuers (policy_key policy) of
              None \<Rightarrow> None
            | Some issuer \<Rightarrow> Some (issuer, policy)))"

definition findPolicyMatchWithAuthorityContext ::
  "verifier_cache \<Rightarrow> string \<Rightarrow> (destination_policy_projection \<Rightarrow> string \<Rightarrow> bool) \<Rightarrow>
     (issuer_projection \<times> destination_policy_projection) option" where
  "findPolicyMatchWithAuthorityContext s host allowsHost =
     findPolicyMatch (map snd (policiesByKey s)) host (issuersByPolicyKey s) (acceptedRoots s)
       (hasAuthorityContext s) allowsHost"


subsection \<open>Materialised issuer\<close>

definition minIsoDate :: "string \<Rightarrow> string list \<Rightarrow> string" where
  "minIsoDate d ds = foldl (\<lambda>m date. if js_less date m then date else m) d ds"

definition maxIsoDate :: "string \<Rightarrow> string list \<Rightarrow> string" where
  "maxIsoDate d ds = foldl (\<lambda>m date. if js_less m date then date else m) d ds"

definition materializedAllowedHosts ::
  "destination_policy_projection \<Rightarrow> string \<Rightarrow> string list" where
  "materializedAllowedHosts policy host =
     (if list_ex (\<lambda>allowedHost. js_lower allowedHost = host) (dp_allowed_hosts policy)
      then dp_allowed_hosts policy else dp_allowed_hosts policy @ [host])"

definition materializeIssuer ::
  "issuer_projection \<Rightarrow> destination_policy_projection \<Rightarrow> string \<Rightarrow> issuer_projection" where
  "materializeIssuer issuer policy host =
     issuer\<lparr>ip_allowed_hosts := materializedAllowedHosts policy host,
            ip_cache_generated_at :=
              maxIsoDate (ip_cache_generated_at issuer) [dp_cache_generated_at policy],
            ip_cache_expires_at :=
              minIsoDate (ip_cache_expires_at issuer) [dp_cache_expires_at policy]\<rparr>"


subsection \<open>Destination resolution\<close>

definition max_safe_integer :: int where
  "max_safe_integer = 2 ^ 53 - 1"

definition parseRedirectHopCount :: "string option \<Rightarrow> int option" where
  "parseRedirectHopCount value =
     (case value of
        None \<Rightarrow> Some 0
      | Some v \<Rightarrow>
          (let normalized = js_trim v
           in if \<not> (normalized \<noteq> [] \<and> list_all is_digit normalized) then None
              else (let hops = int (decimal_value normalized)
                    in if hops \<le> max_safe_integer then Some hops else None)))"

definition redirectFinalDestinationAllowed ::
  "platform \<Rightarrow> destination_policy_projection \<Rightarrow> url \<Rightarrow> bool" where
  "redirectFinalDestinationAllowed P policy finalUrl =
     list_ex (\<lambda>expected. map_option href (new_url P expected) = Some (href finalUrl))
       (rp_expected_final_destinations (dp_redirect_policy policy))"

definition matchedResolverUrl ::
  "platform \<Rightarrow> redirect_policy_projection \<Rightarrow> url \<Rightarrow> string option" where
  "matchedResolverUrl P redirectPolicy destinationUrl =
     find (\<lambda>resolverUrl. case new_url P resolverUrl of None \<Rightarrow> False
             | Some parsed \<Rightarrow> js_lower (hostname parsed) = js_lower (hostname destinationUrl) \<and>
                             pathname parsed = pathname destinationUrl)
       (rp_resolver_urls redirectPolicy)"

definition fallbackDestination ::
  "destination_policy_projection \<Rightarrow> string \<Rightarrow> destination_policy_rule" where
  "fallbackDestination policy host =
     (case dp_approved_destinations policy of
        rule # _ \<Rightarrow> rule
      | [] \<Rightarrow> \<lparr>dr_destination_id = ''dest:unknown'',
              dr_expected_final_url = ''https://'' @ host @ ''/'',
              dr_allowed_hosts = [host], dr_allow_subdomains = False,
              dr_path_prefixes = [], dr_query_policy = ''none'',
              dr_allowed_query_keys = None\<rparr>)"

definition first_allowed_host :: "destination_policy_rule \<Rightarrow> string" where
  "first_allowed_host destination =
     (case dr_allowed_hosts destination of [] \<Rightarrow> [] | h # _ \<Rightarrow> h)"

definition no_extras :: resolution_extras where
  "no_extras = \<lparr>ex_resolver_url = None, ex_final_url = None, ex_observed_redirect_hops = None\<rparr>"

definition boundResolution ::
  "issuer_projection \<Rightarrow> destination_policy_projection \<Rightarrow> destination_policy_rule \<Rightarrow>
     resolution_extras \<Rightarrow> destination_resolution" where
  "boundResolution issuer policy destination extras =
     \<lparr>res_issuer = materializeIssuer issuer policy (first_allowed_host destination),
      res_policy = policy, res_destination = destination, res_binding_status = Bound,
      res_reason_codes = [''destination_bound''],
      res_resolver_url = ex_resolver_url extras, res_final_url = ex_final_url extras,
      res_observed_redirect_hops = ex_observed_redirect_hops extras\<rparr>"

definition mismatchResolution ::
  "issuer_projection \<Rightarrow> destination_policy_projection \<Rightarrow> destination_policy_rule \<Rightarrow>
     string list \<Rightarrow> resolution_extras \<Rightarrow> destination_resolution" where
  "mismatchResolution issuer policy destination reasonCodes extras =
     \<lparr>res_issuer = materializeIssuer issuer policy (first_allowed_host destination),
      res_policy = policy, res_destination = destination, res_binding_status = Mismatch,
      res_reason_codes = reasonCodes,
      res_resolver_url = ex_resolver_url extras, res_final_url = ex_final_url extras,
      res_observed_redirect_hops = ex_observed_redirect_hops extras\<rparr>"

definition directDestinationMismatchReasons ::
  "destination_policy_rule \<Rightarrow> url \<Rightarrow> string list" where
  "directDestinationMismatchReasons destination destinationUrl =
     (let keys = map fst (search_params destinationUrl);
          allowedQueryKeys = (case dr_allowed_query_keys destination of None \<Rightarrow> [] | Some ks \<Rightarrow> ks)
      in (if dr_path_prefixes destination \<noteq> [] \<and>
             \<not> list_ex (\<lambda>pre. prefix pre (pathname destinationUrl)) (dr_path_prefixes destination)
          then [''destination_path_not_approved''] else [])
       @ (if dr_query_policy destination = ''none'' \<and> keys \<noteq> []
          then [''destination_query_not_approved''] else [])
       @ (if allowedQueryKeys \<noteq> [] \<and> list_ex (\<lambda>key. key \<notin> set allowedQueryKeys) keys
          then [''destination_query_not_approved''] else []))"

definition resolveRedirectDestination ::
  "platform \<Rightarrow> issuer_projection \<Rightarrow> destination_policy_projection \<Rightarrow> url \<Rightarrow> string \<Rightarrow>
     destination_resolution" where
  "resolveRedirectDestination P issuer policy destinationUrl resolverUrl =
     (let fallback = fallbackDestination policy (hostname destinationUrl);
          observedHops = parseRedirectHopCount (search_get destinationUrl ''hops'');
          hopCodes = (case observedHops of
                        None \<Rightarrow> [''redirect_hop_count_invalid'']
                      | Some n \<Rightarrow> if n > rp_max_redirect_hops (dp_redirect_policy policy)
                                  then [''redirect_hop_limit_exceeded''] else []);
          finalUrl = (case search_get destinationUrl ''final'' of
                        None \<Rightarrow> None | Some f \<Rightarrow> if f = [] then None else new_url P f);
          finalCodes = (case finalUrl of
                          None \<Rightarrow> [''redirect_final_destination_missing'']
                        | Some u \<Rightarrow> if redirectFinalDestinationAllowed P policy u then []
                                    else [''redirect_final_destination_mismatch'']);
          nestedCodes = (if \<not> rp_nested_shorteners_allowed (dp_redirect_policy policy) \<and>
                            search_get destinationUrl ''nested'' = Some ''1''
                         then [''nested_shortener_not_allowed''] else []);
          reasonCodes = hopCodes @ finalCodes @ nestedCodes;
          extras = \<lparr>ex_resolver_url = Some resolverUrl, ex_final_url = map_option href finalUrl,
                    ex_observed_redirect_hops = observedHops\<rparr>
      in if reasonCodes = [] then boundResolution issuer policy fallback extras
         else mismatchResolution issuer policy fallback reasonCodes extras)"

definition resolveDestination ::
  "platform \<Rightarrow> issuer_projection \<Rightarrow> destination_policy_projection \<Rightarrow> url \<Rightarrow> string \<Rightarrow>
     destination_resolution" where
  "resolveDestination P issuer policy destinationUrl lookupHost =
     (case keep_truthy (matchedResolverUrl P (dp_redirect_policy policy) destinationUrl) of
        Some resolverUrl \<Rightarrow> resolveRedirectDestination P issuer policy destinationUrl resolverUrl
      | None \<Rightarrow>
          (case find (\<lambda>destination. ruleAllowsHost destination (js_lower (hostname destinationUrl)))
                  (dp_approved_destinations policy) of
             None \<Rightarrow> mismatchResolution issuer policy (fallbackDestination policy lookupHost)
                       [''destination_host_not_approved''] no_extras
           | Some matched \<Rightarrow>
               (let reasonCodes = directDestinationMismatchReasons matched destinationUrl
                in if reasonCodes = []
                   then boundResolution issuer policy matched
                          (no_extras\<lparr>ex_final_url := Some (href destinationUrl)\<rparr>)
                   else mismatchResolution issuer policy matched reasonCodes no_extras)))"

definition resolveByHost :: "verifier_cache \<Rightarrow> string \<Rightarrow> issuer_projection option" where
  "resolveByHost s host =
     (let normalizedHost = js_lower host
      in case findPolicyMatchWithAuthorityContext s normalizedHost policyAllowsHost of
           None \<Rightarrow> None
         | Some (issuer, policy) \<Rightarrow> Some (materializeIssuer issuer policy normalizedHost))"

definition resolveByDestination ::
  "platform \<Rightarrow> verifier_cache \<Rightarrow> url \<Rightarrow> string option \<Rightarrow> destination_resolution option" where
  "resolveByDestination P s destinationUrl issuerHintHost =
     (let lookupHost = js_lower (case issuerHintHost of None \<Rightarrow> hostname destinationUrl
                                 | Some h \<Rightarrow> h)
      in case findPolicyMatchWithAuthorityContext s lookupHost (policyAllowsLookupHost P) of
           None \<Rightarrow> None
         | Some (issuer, policy) \<Rightarrow>
             Some (resolveDestination P issuer policy destinationUrl lookupHost))"


subsection \<open>The demo projections\<close>

definition demoNamespace :: issuer_namespace where
  "demoNamespace =
     \<lparr>ns_root_program_id = ''root:qrtrust-demo:2026'',
      ns_delegated_authority_id = ''authority:qrtrust-demo:merchant-web'',
      ns_issuer_id = ''issuer:acme-demo''\<rparr>"

definition demoIssuerProjection :: issuer_projection where
  "demoIssuerProjection =
     \<lparr>ip_namespace = demoNamespace,
      ip_issuer_display_name = ''ACME Demo'',
      ip_assurance_tier = ''verified_business'',
      ip_destination_policy_id = ''policy:acme-demo:web-payments:v1'',
      ip_allowed_hosts = [''acme.example'', ''checkout.acme.example''],
      ip_cache_generated_at = ''2026-05-17T00:00:00Z'',
      ip_cache_expires_at = ''2026-12-31T23:59:59Z''\<rparr>"

definition demoDestinationPolicyProjection :: destination_policy_projection where
  "demoDestinationPolicyProjection =
     \<lparr>dp_namespace = ip_namespace demoIssuerProjection,
      dp_destination_policy_id = ip_destination_policy_id demoIssuerProjection,
      dp_approved_destinations =
        [\<lparr>dr_destination_id = ''dest:acme-demo:pay'',
          dr_expected_final_url = ''https://acme.example/pay'',
          dr_allowed_hosts = [''acme.example'', ''checkout.acme.example''],
          dr_allow_subdomains = False,
          dr_path_prefixes = [''/pay''],
          dr_query_policy = ''allow_known_payment_query'',
          dr_allowed_query_keys = None\<rparr>],
      dp_redirect_policy =
        \<lparr>rp_resolver_urls = [''https://qr.acme.example/r/pay''],
         rp_expected_final_destinations = [''https://acme.example/pay''],
         rp_allowed_redirect_hosts = [''acme.example''],
         rp_max_redirect_hops = 1,
         rp_nested_shorteners_allowed = False,
         rp_scanner_must_display_resolver_and_final_destination = True\<rparr>,
      dp_allowed_hosts = [''acme.example'', ''checkout.acme.example''],
      dp_allow_subdomains = False,
      dp_cache_generated_at = ip_cache_generated_at demoIssuerProjection,
      dp_cache_expires_at = ip_cache_expires_at demoIssuerProjection\<rparr>"

definition makeDemoVerifierCache :: verifier_cache where
  "makeDemoVerifierCache =
     makeInMemoryVerifierCache [demoIssuerProjection] [demoDestinationPolicyProjection]
       acceptAllRootsPolicy"

lemmas demo_defs =
  demoNamespace_def demoIssuerProjection_def demoDestinationPolicyProjection_def


subsection \<open>The writer interface as operations\<close>

text \<open>
  One constructor per writing method of \<^verbatim>\<open>VerifierCacheWriterShape\<close>; \<open>cache_step\<close> is the
  state change of the call and a list of operations is a history of calls.
\<close>

datatype cache_op =
    OpUpsertIssuer issuer_projection
  | OpUpsertDestinationPolicy destination_policy_projection
  | OpUpsertRootAuthorityContext root_authority_context
  | OpUpsertDelegatedAuthorityIssuerContext delegated_authority_issuer_context
  | OpUpdateIssuerAssuranceTier issuer_namespace string
  | OpRemoveIssuer issuer_namespace
  | OpRemoveDestinationPolicy issuer_namespace string
  | OpRemoveDestinationPoliciesForIssuer issuer_namespace
  | OpRemoveDelegatedAuthority delegated_authority_key

fun cache_step :: "cache_op \<Rightarrow> verifier_cache \<Rightarrow> verifier_cache" where
  "cache_step (OpUpsertIssuer p) s = fst (upsertIssuer p s)"
| "cache_step (OpUpsertDestinationPolicy p) s = fst (upsertDestinationPolicy p s)"
| "cache_step (OpUpsertRootAuthorityContext c) s = upsertRootAuthorityContext c s"
| "cache_step (OpUpsertDelegatedAuthorityIssuerContext c) s =
     upsertDelegatedAuthorityIssuerContext c s"
| "cache_step (OpUpdateIssuerAssuranceTier ns t) s = fst (updateIssuerAssuranceTier ns t s)"
| "cache_step (OpRemoveIssuer ns) s = fst (removeIssuer ns s)"
| "cache_step (OpRemoveDestinationPolicy ns i) s = fst (removeDestinationPolicy ns i s)"
| "cache_step (OpRemoveDestinationPoliciesForIssuer ns) s =
     fst (removeDestinationPoliciesForIssuer ns s)"
| "cache_step (OpRemoveDelegatedAuthority k) s = fst (removeDelegatedAuthority k s)"

definition cache_run :: "cache_op list \<Rightarrow> verifier_cache \<Rightarrow> verifier_cache" where
  "cache_run ops s = fold cache_step ops s"

lemmas cache_writer_defs =
  upsertIssuer_def putProjection_def upsertDestinationPolicy_def
  upsertRootAuthorityContext_def replaceRootAuthorityContextSync_def
  mergeRootAuthorityContextSync_def
  upsertDelegatedAuthorityIssuerContext_def replaceDelegatedAuthorityIssuerContextSync_def
  mergeDelegatedAuthorityIssuerContextSync_def seedAuthorityContext_def
  updateIssuerAssuranceTier_def removeIssuer_def removeDestinationPolicy_def
  removeDestinationPoliciesForIssuer_def removeDelegatedAuthority_def

end
