(* ===== verification/Fixtures.thy ===== *)
theory Fixtures
  imports VerifierCache
begin

text \<open>
  Concrete inputs on which the properties are exercised: a platform with a small table of
  URLs and timestamps, one issuer with its destination policy, and the cache that holds
  them. Nothing here models code.
\<close>

definition fx_url :: "string \<Rightarrow> string \<Rightarrow> string \<Rightarrow> (string \<times> string) list \<Rightarrow> url" where
  "fx_url u host path params =
     \<lparr>href = u, protocol = ''https:'', username = [], password = [],
      hostname = host, pathname = path, search_params = params\<rparr>"

definition fx_pay :: url where
  "fx_pay = fx_url ''https://h.x/pay'' ''h.x'' ''/pay'' []"

definition fx_other :: url where
  "fx_other = fx_url ''https://h.x/no'' ''h.x'' ''/no'' []"

definition fx_unknown :: url where
  "fx_unknown = fx_url ''https://z.x/'' ''z.x'' ''/'' []"

definition fx_hop :: url where
  "fx_hop = fx_url ''https://q.x/r'' ''q.x'' ''/r''
     [(''hops'', ''1''), (''final'', ''https://h.x/pay'')]"

definition fx_urls :: "(string \<times> url) list" where
  "fx_urls = [(''https://h.x/pay'', fx_pay), (''https://h.x/no'', fx_other),
              (''https://z.x/'', fx_unknown), (''https://q.x/r'', fx_hop),
              (''https://h.x/'', fx_url ''https://h.x/'' ''h.x'' ''/'' [])]"

definition fx_dates :: "(string \<times> int) list" where
  "fx_dates = [(''2026-01-01T00:00:00.000Z'', 1767225600000),
               (''2026-06-01T00:00:00.000Z'', 1780272000000),
               (''2026-12-31T00:00:00.000Z'', 1798675200000)]"

definition fx_iso :: "int \<Rightarrow> string" where
  "fx_iso t = (if t < 1780272000000 then ''2026-01-01T00:00:00.000Z''
               else if t < 1798675200000 then ''2026-06-01T00:00:00.000Z''
               else ''2026-12-31T00:00:00.000Z'')"

definition fx_platform :: platform where
  "fx_platform =
     \<lparr>new_url = map_of fx_urls, date_parse = map_of fx_dates, iso_string = fx_iso,
      sha256_json = (\<lambda>_. ''00''), locale_le = js_le,
      verify_ed25519 = (\<lambda>_ pem sig. sig = JStr pem)\<rparr>"

definition fx_now :: int where
  "fx_now = 1780272000000"

definition fx_ns :: issuer_namespace where
  "fx_ns = \<lparr>ns_root_program_id = ''root:r'', ns_delegated_authority_id = ''authority:a'',
            ns_issuer_id = ''issuer:i''\<rparr>"

definition fx_key :: delegated_authority_key where
  "fx_key = \<lparr>dak_root_program_id = ''root:r'', dak_delegated_authority_id = ''authority:a''\<rparr>"

definition fx_issuer :: issuer_projection where
  "fx_issuer =
     \<lparr>ip_namespace = fx_ns, ip_issuer_display_name = ''I'', ip_assurance_tier = ''t'',
      ip_destination_policy_id = ''policy:p'', ip_allowed_hosts = [''h.x''],
      ip_cache_generated_at = ''2026-01-01T00:00:00.000Z'',
      ip_cache_expires_at = ''2026-12-31T00:00:00.000Z''\<rparr>"

definition fx_rule :: destination_policy_rule where
  "fx_rule =
     \<lparr>dr_destination_id = ''d'', dr_expected_final_url = ''https://h.x/pay'',
      dr_allowed_hosts = [''h.x''], dr_allow_subdomains = False, dr_path_prefixes = [''/pay''],
      dr_query_policy = ''none'', dr_allowed_query_keys = None\<rparr>"

definition fx_redirect :: redirect_policy_projection where
  "fx_redirect =
     \<lparr>rp_resolver_urls = [''https://q.x/r''],
      rp_expected_final_destinations = [''https://h.x/pay''],
      rp_allowed_redirect_hosts = [''h.x''], rp_max_redirect_hops = 1,
      rp_nested_shorteners_allowed = False,
      rp_scanner_must_display_resolver_and_final_destination = True\<rparr>"

definition fx_policy :: destination_policy_projection where
  "fx_policy =
     \<lparr>dp_namespace = fx_ns, dp_destination_policy_id = ''policy:p'',
      dp_approved_destinations = [fx_rule], dp_redirect_policy = fx_redirect,
      dp_allowed_hosts = [''h.x''], dp_allow_subdomains = False,
      dp_cache_generated_at = ''2026-01-01T00:00:00.000Z'',
      dp_cache_expires_at = ''2026-12-31T00:00:00.000Z''\<rparr>"

definition fx_cache :: verifier_cache where
  "fx_cache = makeInMemoryVerifierCache [fx_issuer] [fx_policy] acceptAllRootsPolicy"

end
