(* ===== verification/VerifierCacheFacts.thy ===== *)
theory VerifierCacheFacts
  imports VerifierCache Fixtures
begin

text \<open>
  What the verifier cache guarantees: its representation invariant over every history of
  calls, the meaning of a policy match, the conditions behind a bound resolution, and the
  effect of the removals on later resolutions.
\<close>


subsection \<open>Representation invariant\<close>

text \<open>Every entry is stored under its own key, no key is stored twice, sets have no duplicates.\<close>

definition entries :: "('k \<Rightarrow> 'v \<Rightarrow> bool) \<Rightarrow> ('k \<times> 'v) list \<Rightarrow> bool" where
  "entries Q xs \<longleftrightarrow> list_all (\<lambda>(k, v). Q k v) xs"

definition cache_wf :: "verifier_cache \<Rightarrow> bool" where
  "cache_wf s \<longleftrightarrow>
     distinct (map fst (issuersByPolicyKey s)) \<and>
     entries (\<lambda>k i. k = issuer_key i) (issuersByPolicyKey s) \<and>
     distinct (map fst (policiesByKey s)) \<and>
     entries (\<lambda>k p. k = policy_key p) (policiesByKey s) \<and>
     distinct (map fst (activeDelegatedAuthoritiesByRoot s)) \<and>
     entries (\<lambda>r xs. distinct xs) (activeDelegatedAuthoritiesByRoot s) \<and>
     distinct (activeIssuersByAuthority s)"

lemma entries_Nil [simp]: "entries Q []"
  by (simp add: entries_def)

lemma entries_update: "entries Q xs \<Longrightarrow> Q k v \<Longrightarrow> entries Q (AList.update k v xs)"
  unfolding entries_def by (induction xs) auto

lemma entries_filter: "entries Q xs \<Longrightarrow> entries Q (filter P xs)"
  by (auto simp: entries_def list_all_iff)

lemma entries_delete: "entries Q xs \<Longrightarrow> entries Q (AList.delete k xs)"
  by (simp add: AList.delete_eq entries_filter)

lemma entries_lookup: "entries Q xs \<Longrightarrow> map_of xs k = Some v \<Longrightarrow> Q k v"
  by (auto simp: entries_def list_all_iff dest!: map_of_SomeD)

lemma entries_mem: "entries Q xs \<Longrightarrow> (k, v) \<in> set xs \<Longrightarrow> Q k v"
  by (auto simp: entries_def list_all_iff)

lemmas entry_rules = entries_update entries_filter entries_delete
  AList.distinct_update AList.distinct_delete distinct_map_fst_filter

lemma distinct_fold_add [simp]:
  "distinct (fold (\<lambda>x. js_set_add (f x)) ys xs) = distinct xs"
  by (induction ys arbitrary: xs) auto

lemma tier_entries:
  "map (fst \<circ> (\<lambda>(k, i). if c i then (k, f i) else (k, i))) xs = map fst xs"
  "entries Q xs \<Longrightarrow> (\<And>k i. Q k i \<Longrightarrow> Q k (f i)) \<Longrightarrow>
     entries Q (map (\<lambda>(k, i). if c i then (k, f i) else (k, i)) xs)"
  by (auto simp: entries_def list_all_iff split: if_splits)

lemma wf_merge_root: "cache_wf s \<Longrightarrow> cache_wf (mergeRootAuthorityContextSync c s)"
  by (auto simp: cache_wf_def mergeRootAuthorityContextSync_def Let_def
           intro!: entry_rules split: option.splits dest: entries_lookup)

lemma wf_replace_root: "cache_wf s \<Longrightarrow> cache_wf (replaceRootAuthorityContextSync c s)"
  by (auto simp: cache_wf_def replaceRootAuthorityContextSync_def intro!: entry_rules)

lemma wf_merge_issuers: "cache_wf s \<Longrightarrow> cache_wf (mergeDelegatedAuthorityIssuerContextSync c s)"
  by (auto simp: cache_wf_def mergeDelegatedAuthorityIssuerContextSync_def)

lemma wf_replace_issuers:
  "cache_wf s \<Longrightarrow> cache_wf (replaceDelegatedAuthorityIssuerContextSync c s)"
  unfolding replaceDelegatedAuthorityIssuerContextSync_def Let_def
  by (rule wf_merge_issuers) (auto simp: cache_wf_def)

lemma wf_seed: "cache_wf s \<Longrightarrow> cache_wf (seedAuthorityContext ns s)"
  by (simp add: seedAuthorityContext_def wf_merge_root wf_merge_issuers)

lemma wf_put: "cache_wf s \<Longrightarrow> cache_wf (putProjection p s)"
  by (auto simp: cache_wf_def putProjection_def intro!: entry_rules)

lemma wf_policy: "cache_wf s \<Longrightarrow> cache_wf (fst (upsertDestinationPolicy p s))"
  by (auto simp: cache_wf_def upsertDestinationPolicy_def intro!: entry_rules)

lemma wf_tier: "cache_wf s \<Longrightarrow> cache_wf (fst (updateIssuerAssuranceTier ns t s))"
  by (simp add: cache_wf_def updateIssuerAssuranceTier_def tier_entries issuer_key_def
           del: namespaceEquals_iff)

lemma wf_remove_issuer: "cache_wf s \<Longrightarrow> cache_wf (fst (removeIssuer ns s))"
  by (auto simp: cache_wf_def removeIssuer_def intro!: entry_rules)

lemma wf_remove_policy: "cache_wf s \<Longrightarrow> cache_wf (fst (removeDestinationPolicy ns i s))"
  by (auto simp: cache_wf_def removeDestinationPolicy_def Let_def intro!: entry_rules)

lemma wf_remove_policies: "cache_wf s \<Longrightarrow> cache_wf (fst (removeDestinationPoliciesForIssuer ns s))"
  by (auto simp: cache_wf_def removeDestinationPoliciesForIssuer_def intro!: entry_rules)

lemma wf_remove_authority: "cache_wf s \<Longrightarrow> cache_wf (fst (removeDelegatedAuthority k s))"
  by (auto simp: cache_wf_def removeDelegatedAuthority_def Let_def
           intro!: entry_rules split: option.splits dest: entries_lookup)

lemmas wf_writers = wf_put wf_policy wf_replace_root wf_replace_issuers wf_tier
  wf_remove_issuer wf_remove_policy wf_remove_policies wf_remove_authority

lemma wf_step: "cache_wf s \<Longrightarrow> cache_wf (cache_step op s)"
  by (cases op)
     (simp_all add: upsertIssuer_def upsertRootAuthorityContext_def
        upsertDelegatedAuthorityIssuerContext_def wf_writers)

lemma wf_run: "cache_wf s \<Longrightarrow> cache_wf (cache_run ops s)"
  unfolding cache_run_def by (induction ops arbitrary: s) (auto intro: wf_step)

lemma fold_wf: "(\<And>x s. cache_wf s \<Longrightarrow> cache_wf (f x s)) \<Longrightarrow> cache_wf s \<Longrightarrow> cache_wf (fold f xs s)"
  by (induction xs arbitrary: s) auto

lemma wf_make: "cache_wf (makeInMemoryVerifierCache is ps roots)"
  unfolding makeInMemoryVerifierCache_def Let_def
  by (intro fold_wf wf_seed wf_put wf_policy) (auto simp: cache_wf_def)


subsection \<open>Policy matching\<close>

definition namespace_trusted :: "verifier_cache \<Rightarrow> issuer_namespace \<Rightarrow> bool" where
  "namespace_trusted s ns \<longleftrightarrow> acceptedRoots s (ns_root_program_id ns) \<and> hasAuthorityContext s ns"

lemma findPolicyMatch_find:
  "findPolicyMatch ps host issuers roots ctx allows =
     (case find (\<lambda>p. roots (ns_root_program_id (dp_namespace p)) \<and> ctx (dp_namespace p) \<and>
                     allows p host) ps of
        None \<Rightarrow> None
      | Some p \<Rightarrow> map_option (\<lambda>i. (i, p)) (map_of issuers (policy_key p)))"
  by (induction ps) (auto split: option.splits)

lemma match_Some:
  assumes "findPolicyMatchWithAuthorityContext s host allows = Some (i, p)"
  shows "p \<in> snd ` set (policiesByKey s)" "namespace_trusted s (dp_namespace p)"
    "allows p host" "map_of (issuersByPolicyKey s) (policy_key p) = Some i"
  using assms
  by (auto simp: findPolicyMatchWithAuthorityContext_def findPolicyMatch_find namespace_trusted_def
           find_Some_iff in_set_conv_nth image_iff Bex_def split: option.splits)
     (metis nth_mem snd_conv prod.collapse)+

lemma resolveByDestination_match:
  assumes "resolveByDestination P s u h = Some r"
  obtains i p host where "findPolicyMatchWithAuthorityContext s host (policyAllowsLookupHost P) = Some (i, p)"
    "r = resolveDestination P i p u host"
  using assms by (auto simp: resolveByDestination_def Let_def split: option.splits prod.splits)

lemmas resolution_shapes = boundResolution_def mismatchResolution_def

lemma resolution_fields [simp]:
  "res_policy (resolveDestination P i p u host) = p"
  "res_policy (boundResolution i p d e) = p"
  "res_policy (mismatchResolution i p d cs e) = p"
  "res_binding_status (boundResolution i p d e) = Bound"
  "res_binding_status (mismatchResolution i p d cs e) = Mismatch"
  "res_issuer (boundResolution i p d e) = materializeIssuer i p (first_allowed_host d)"
  "res_issuer (mismatchResolution i p d cs e) = materializeIssuer i p (first_allowed_host d)"
  "res_reason_codes (boundResolution i p d e) = [''destination_bound'']"
  "res_reason_codes (mismatchResolution i p d cs e) = cs"
  by (auto simp: resolution_shapes resolveDestination_def resolveRedirectDestination_def Let_def
           split: option.splits)

lemma resolved_trusted:
  "resolveByDestination P s u h = Some r \<Longrightarrow> namespace_trusted s (dp_namespace (res_policy r))"
  by (elim resolveByDestination_match) (auto dest: match_Some(2))

lemma resolved_stored:
  "resolveByDestination P s u h = Some r \<Longrightarrow> res_policy r \<in> snd ` set (policiesByKey s)"
  by (elim resolveByDestination_match) (auto dest: match_Some(1))


subsection \<open>What a bound resolution means\<close>

definition path_approved :: "destination_policy_rule \<Rightarrow> url \<Rightarrow> bool" where
  "path_approved d u \<longleftrightarrow>
     dr_path_prefixes d = [] \<or> (\<exists>pre \<in> set (dr_path_prefixes d). prefix pre (pathname u))"

definition query_approved :: "destination_policy_rule \<Rightarrow> url \<Rightarrow> bool" where
  "query_approved d u \<longleftrightarrow>
     (dr_query_policy d = ''none'' \<longrightarrow> search_params u = []) \<and>
     (case dr_allowed_query_keys d of None \<Rightarrow> True
      | Some ks \<Rightarrow> ks = [] \<or> fst ` set (search_params u) \<subseteq> set ks)"

definition direct_ok :: "destination_policy_projection \<Rightarrow> url \<Rightarrow> destination_policy_rule \<Rightarrow> bool" where
  "direct_ok p u d \<longleftrightarrow>
     find (\<lambda>d. ruleAllowsHost d (js_lower (hostname u))) (dp_approved_destinations p) = Some d \<and>
     path_approved d u \<and> query_approved d u"

definition redirect_ok :: "platform \<Rightarrow> destination_policy_projection \<Rightarrow> url \<Rightarrow> url \<Rightarrow> int \<Rightarrow> bool" where
  "redirect_ok P p u final hops \<longleftrightarrow>
     parseRedirectHopCount (search_get u ''hops'') = Some hops \<and>
     hops \<le> rp_max_redirect_hops (dp_redirect_policy p) \<and>
     (\<exists>f. search_get u ''final'' = Some f \<and> f \<noteq> [] \<and> new_url P f = Some final) \<and>
     redirectFinalDestinationAllowed P p final \<and>
     (rp_nested_shorteners_allowed (dp_redirect_policy p) \<or> search_get u ''nested'' \<noteq> Some ''1'')"

lemma directReasons_Nil:
  "directDestinationMismatchReasons d u = [] \<longleftrightarrow> path_approved d u \<and> query_approved d u"
  by (auto simp: directDestinationMismatchReasons_def path_approved_def query_approved_def Let_def
           list_ex_iff subset_iff image_iff split: option.splits)

lemma redirect_bound_iff:
  "res_binding_status (resolveRedirectDestination P i p u rv) = Bound \<longleftrightarrow>
     (\<exists>final hops. redirect_ok P p u final hops)"
  by (auto simp: resolveRedirectDestination_def redirect_ok_def Let_def not_less
           split: option.splits if_splits)

lemma redirect_bound_fields:
  assumes "redirect_ok P p u final hops"
  shows "resolveRedirectDestination P i p u rv =
           boundResolution i p (fallbackDestination p (hostname u))
             \<lparr>ex_resolver_url = Some rv, ex_final_url = Some (href final),
              ex_observed_redirect_hops = Some hops\<rparr>"
  using assms
  by (auto simp: resolveRedirectDestination_def redirect_ok_def Let_def not_less
           split: option.splits if_splits)

lemma resolveDestination_bound_iff:
  "res_binding_status (resolveDestination P i p u host) = Bound \<longleftrightarrow>
     (case keep_truthy (matchedResolverUrl P (dp_redirect_policy p) u) of
        Some rv \<Rightarrow> (\<exists>final hops. redirect_ok P p u final hops)
      | None \<Rightarrow> (\<exists>d. direct_ok p u d))"
  by (auto simp: resolveDestination_def redirect_bound_iff directReasons_Nil direct_ok_def Let_def
           split: option.splits)

lemma mismatch_has_reasons:
  "res_binding_status (resolveDestination P i p u host) = Mismatch \<Longrightarrow>
     res_reason_codes (resolveDestination P i p u host) \<noteq> []"
  by (auto simp: resolveDestination_def resolveRedirectDestination_def Let_def
           split: option.splits if_splits)


subsection \<open>Removals\<close>

definition authority_inactive :: "delegated_authority_key \<Rightarrow> verifier_cache \<Rightarrow> bool" where
  "authority_inactive key s \<longleftrightarrow>
     (case map_of (activeDelegatedAuthoritiesByRoot s) (dak_root_program_id key) of
        None \<Rightarrow> True | Some xs \<Rightarrow> dak_delegated_authority_id key \<notin> set xs)"

fun reactivates :: "delegated_authority_key \<Rightarrow> cache_op \<Rightarrow> bool" where
  "reactivates key (OpUpsertRootAuthorityContext c) =
     (rac_root_program_id c = dak_root_program_id key \<and>
      dak_delegated_authority_id key \<in> set (rac_active_delegated_authority_ids c))"
| "reactivates key _ = False"

lemma remove_authority_inactive: "authority_inactive key (fst (removeDelegatedAuthority key s))"
  by (auto simp: authority_inactive_def removeDelegatedAuthority_def Let_def AList.update_conv'
           split: option.splits)

lemma step_inactive:
  "authority_inactive key s \<Longrightarrow> \<not> reactivates key op \<Longrightarrow> authority_inactive key (cache_step op s)"
  by (cases op)
     (auto simp: authority_inactive_def cache_writer_defs Let_def AList.update_conv'
           split: option.splits if_splits)

lemma run_inactive:
  "authority_inactive key s \<Longrightarrow> \<forall>op \<in> set ops. \<not> reactivates key op \<Longrightarrow>
     authority_inactive key (cache_run ops s)"
  unfolding cache_run_def by (induction ops arbitrary: s) (auto intro: step_inactive)

lemma inactive_not_trusted:
  "authority_inactive key s \<Longrightarrow> delegatedAuthorityEquals ns key \<Longrightarrow> \<not> namespace_trusted s ns"
  by (auto simp: authority_inactive_def delegatedAuthorityEquals_def namespace_trusted_def
           hasAuthorityContext_def split: option.splits)

lemma inactive_unresolved:
  "authority_inactive key s \<Longrightarrow> resolveByDestination P s u h = Some r \<Longrightarrow>
     \<not> delegatedAuthorityEquals (dp_namespace (res_policy r)) key"
  using inactive_not_trusted resolved_trusted by blast

definition no_policy_of :: "issuer_namespace \<Rightarrow> verifier_cache \<Rightarrow> bool" where
  "no_policy_of ns s \<longleftrightarrow> entries (\<lambda>k p. dp_namespace p \<noteq> ns) (policiesByKey s)"

fun publishes_for :: "issuer_namespace \<Rightarrow> cache_op \<Rightarrow> bool" where
  "publishes_for ns (OpUpsertDestinationPolicy p) = (dp_namespace p = ns)"
| "publishes_for ns _ = False"

lemma step_no_policy:
  "no_policy_of ns s \<Longrightarrow> \<not> publishes_for ns op \<Longrightarrow> no_policy_of ns (cache_step op s)"
  by (cases op) (auto simp: no_policy_of_def cache_writer_defs Let_def intro!: entry_rules)

lemma run_no_policy:
  "no_policy_of ns s \<Longrightarrow> \<forall>op \<in> set ops. \<not> publishes_for ns op \<Longrightarrow> no_policy_of ns (cache_run ops s)"
  unfolding cache_run_def by (induction ops arbitrary: s) (auto intro: step_no_policy)

lemma remove_policies_none: "no_policy_of ns (fst (removeDestinationPoliciesForIssuer ns s))"
  by (auto simp: no_policy_of_def removeDestinationPoliciesForIssuer_def entries_def list_all_iff)

lemma no_policy_unresolved:
  "no_policy_of ns s \<Longrightarrow> resolveByDestination P s u h = Some r \<Longrightarrow> dp_namespace (res_policy r) \<noteq> ns"
  by (auto simp: no_policy_of_def dest!: resolved_stored dest: entries_mem)

subsection \<open>Keys\<close>

definition separator_free :: "string \<Rightarrow> bool" where
  "separator_free s \<longleftrightarrow> char_of (31 :: nat) \<notin> set s"

definition namespace_separator_free :: "issuer_namespace \<Rightarrow> bool" where
  "namespace_separator_free ns \<longleftrightarrow>
     separator_free (ns_root_program_id ns) \<and> separator_free (ns_delegated_authority_id ns) \<and>
     separator_free (ns_issuer_id ns)"

lemma join_separator_inj:
  assumes "js_join unit_separator xs = js_join unit_separator ys"
    and "xs \<noteq> []" "ys \<noteq> []" "list_all separator_free xs" "list_all separator_free ys"
  shows "xs = ys"
proof -
  let ?c = "char_of (31 :: nat)"
  have "js_split ?c (js_join unit_separator xs) = xs" "js_split ?c (js_join unit_separator ys) = ys"
    using assms(2-) by (auto simp: unit_separator_def separator_free_def list_all_iff intro: js_split_join)
  with assms(1) show ?thesis by metis
qed

lemma policy_key_inj:
  assumes "namespace_separator_free ns" "separator_free i"
    and "namespace_separator_free ns'" "separator_free i'"
    and "verifierCachePolicyKey ns i = verifierCachePolicyKey ns' i'"
  shows "ns = ns' \<and> i = i'"
proof -
  have "[ns_root_program_id ns, ns_delegated_authority_id ns, ns_issuer_id ns, i] =
        [ns_root_program_id ns', ns_delegated_authority_id ns', ns_issuer_id ns', i']"
    using assms
    by (intro join_separator_inj) (auto simp: verifierCachePolicyKey_def namespace_separator_free_def)
  then show ?thesis
    by (auto intro!: issuer_namespace.equality)
qed

lemma policy_key_collision:
  "verifierCachePolicyKey
     \<lparr>ns_root_program_id = ''r'' @ unit_separator @ ''a'', ns_delegated_authority_id = ''b'',
      ns_issuer_id = ''i''\<rparr> ''p'' =
   verifierCachePolicyKey
     \<lparr>ns_root_program_id = ''r'', ns_delegated_authority_id = ''a'' @ unit_separator @ ''b'',
      ns_issuer_id = ''i''\<rparr> ''p''"
  by code_simp

subsection \<open>Materialised validity window\<close>

lemma minIsoDate_pair: "minIsoDate a [b] = (if js_less b a then b else a)"
  by (simp add: minIsoDate_def)

lemma maxIsoDate_pair: "maxIsoDate a [b] = (if js_less a b then b else a)"
  by (simp add: maxIsoDate_def)

lemma minIsoDate_bounds [simp]:
  "js_le (minIsoDate a [b]) a" "js_le (minIsoDate a [b]) b"
  by (auto simp: minIsoDate_pair js_not_less intro: js_less_imp_le)

lemma maxIsoDate_bounds [simp]:
  "js_le a (maxIsoDate a [b])" "js_le b (maxIsoDate a [b])"
  by (auto simp: maxIsoDate_pair js_not_less intro: js_less_imp_le)

lemma materialized_fields [simp]:
  "ip_namespace (materializeIssuer i p h) = ip_namespace i"
  "ip_cache_generated_at (materializeIssuer i p h) =
     maxIsoDate (ip_cache_generated_at i) [dp_cache_generated_at p]"
  "ip_cache_expires_at (materializeIssuer i p h) =
     minIsoDate (ip_cache_expires_at i) [dp_cache_expires_at p]"
  by (simp_all add: materializeIssuer_def)

lemma resolved_issuer:
  assumes "resolveByDestination P s u h = Some r"
  obtains i host where "map_of (issuersByPolicyKey s) (policy_key (res_policy r)) = Some i"
    "res_issuer r = materializeIssuer i (res_policy r) host"
  using assms
proof (elim resolveByDestination_match)
  fix i p host
  assume m: "findPolicyMatchWithAuthorityContext s host (policyAllowsLookupHost P) = Some (i, p)"
    and r: "r = resolveDestination P i p u host"
  have "\<exists>k. res_issuer r = materializeIssuer i p k"
    unfolding r by (auto simp: resolveDestination_def resolveRedirectDestination_def Let_def
        split: option.splits)
  with m r that show thesis by (auto dest: match_Some(4))
qed

lemma mixed_precision_order:
  "minIsoDate ''2026-01-01T00:00:00Z'' [''2026-01-01T00:00:00.500Z''] =
     ''2026-01-01T00:00:00.500Z''"
  by code_simp


subsection \<open>The cache as its clients see it\<close>

text \<open>
  The reader promises that what it resolves is under a trusted namespace, that a mismatch
  says why, and that the validity it reports lies within the policy's.
\<close>

locale verifier_cache_reader =
  fixes resolve :: "'s \<Rightarrow> url \<Rightarrow> string option \<Rightarrow> destination_resolution option"
    and trusted :: "'s \<Rightarrow> issuer_namespace \<Rightarrow> bool"
  assumes resolve_trusted: "resolve s u h = Some r \<Longrightarrow> trusted s (dp_namespace (res_policy r))"
    and resolve_mismatch: "resolve s u h = Some r \<Longrightarrow> res_binding_status r = Mismatch \<Longrightarrow>
          res_reason_codes r \<noteq> []"
    and resolve_expiry: "resolve s u h = Some r \<Longrightarrow>
          js_le (ip_cache_expires_at (res_issuer r)) (dp_cache_expires_at (res_policy r))"

text \<open>
  The writer promises, on top, that a removed authority is inactive and stays so until a
  root context names it again, and that an inactive authority has no trusted namespace.
\<close>

locale verifier_cache_writer = verifier_cache_reader resolve trusted
  for resolve :: "'s \<Rightarrow> url \<Rightarrow> string option \<Rightarrow> destination_resolution option"
    and trusted :: "'s \<Rightarrow> issuer_namespace \<Rightarrow> bool" +
  fixes step :: "cache_op \<Rightarrow> 's \<Rightarrow> 's"
    and inactive :: "delegated_authority_key \<Rightarrow> 's \<Rightarrow> bool"
  assumes inactive_untrusted: "inactive key s \<Longrightarrow> delegatedAuthorityEquals ns key \<Longrightarrow> \<not> trusted s ns"
    and remove_inactive: "inactive key (step (OpRemoveDelegatedAuthority key) s)"
    and step_inactive: "inactive key s \<Longrightarrow> \<not> reactivates key op \<Longrightarrow> inactive key (step op s)"
begin

lemma run_stays_inactive:
  "inactive key s \<Longrightarrow> \<forall>op \<in> set ops. \<not> reactivates key op \<Longrightarrow> inactive key (fold step ops s)"
  by (induction ops arbitrary: s) (auto intro: step_inactive)

lemma inactive_never_resolved:
  "inactive key s \<Longrightarrow> resolve s u h = Some r \<Longrightarrow>
     \<not> delegatedAuthorityEquals (dp_namespace (res_policy r)) key"
  using inactive_untrusted resolve_trusted by blast

lemma removed_never_resolved:
  assumes "\<forall>op \<in> set ops. \<not> reactivates key op"
    and "resolve (fold step ops (step (OpRemoveDelegatedAuthority key) s)) u h = Some r"
  shows "\<not> delegatedAuthorityEquals (dp_namespace (res_policy r)) key"
  using assms remove_inactive run_stays_inactive inactive_never_resolved by blast

end

interpretation vc: verifier_cache_writer "resolveByDestination P" namespace_trusted
  cache_step authority_inactive for P
proof unfold_locales
  fix s u h r
  assume r: "resolveByDestination P s u h = Some r"
  show "namespace_trusted s (dp_namespace (res_policy r))"
    using r by (rule resolved_trusted)
  show "js_le (ip_cache_expires_at (res_issuer r)) (dp_cache_expires_at (res_policy r))"
    using r by (elim resolved_issuer) simp
  assume "res_binding_status r = Mismatch"
  with r show "res_reason_codes r \<noteq> []"
    by (elim resolveByDestination_match) (auto dest: mismatch_has_reasons)
qed (auto simp: inactive_not_trusted remove_authority_inactive intro: step_inactive)


subsection \<open>Properties\<close>

text \<open>
  C8. A destination resolved as bound is answered by a policy that is stored in the cache,
  under an accepted root and an active authority and issuer; and either the scanned URL
  itself satisfies the first approved rule for its host (path prefix and query), or it is a
  resolver URL whose declared final URL is an expected one within the hop limit.
\<close>

theorem bound_resolution_authorised:
  assumes "resolveByDestination P s u hint = Some r" and "res_binding_status r = Bound"
  shows "res_policy r \<in> snd ` set (policiesByKey s) \<and>
    namespace_trusted s (dp_namespace (res_policy r)) \<and>
    ((\<exists>d. direct_ok (res_policy r) u d) \<or>
     (\<exists>rv final hops. matchedResolverUrl P (dp_redirect_policy (res_policy r)) u = Some rv \<and>
        redirect_ok P (res_policy r) u final hops))"
proof -
  obtain i p host where "r = resolveDestination P i p u host"
    using assms(1) by (rule resolveByDestination_match)
  then show ?thesis
    using assms resolved_stored [OF assms(1)] resolved_trusted [OF assms(1)]
    by (auto simp: resolveDestination_bound_iff keep_truthy_def split: option.splits if_splits)
qed

theorem bound_resolution_authorised_witness:
  "let r = the (resolveByDestination fx_platform fx_cache fx_pay None) in
   res_policy r \<in> snd ` set (policiesByKey fx_cache) \<and>
   namespace_trusted fx_cache (dp_namespace (res_policy r))"
proof -
  obtain r where r: "resolveByDestination fx_platform fx_cache fx_pay None = Some r"
    "res_binding_status r = Bound"
  proof -
    have "map_option res_binding_status (resolveByDestination fx_platform fx_cache fx_pay None) = Some Bound"
      by code_simp
    then show thesis using that by auto
  qed
  show ?thesis
    using bound_resolution_authorised [OF r] r(1) by (simp add: Let_def)
qed


text \<open>
  Once a delegated authority is removed, no history of cache calls makes a destination
  resolve under it again, unless the history holds a root authority context that names it
  as active.
\<close>

theorem removed_authority_stays_unresolved:
  assumes "\<forall>op \<in> set ops. \<not> reactivates key op"
    and "resolveByDestination P (cache_run ops (fst (removeDelegatedAuthority key s))) u hint = Some r"
  shows "\<not> delegatedAuthorityEquals (dp_namespace (res_policy r)) key"
  using vc.removed_never_resolved [OF assms(1)] assms(2) by (simp add: cache_run_def)

definition fx_ns2 :: issuer_namespace where
  "fx_ns2 = fx_ns\<lparr>ns_delegated_authority_id := ''authority:b''\<rparr>"

definition fx_cache2 :: verifier_cache where
  "fx_cache2 = makeInMemoryVerifierCache [fx_issuer, fx_issuer\<lparr>ip_namespace := fx_ns2\<rparr>]
     [fx_policy, fx_policy\<lparr>dp_namespace := fx_ns2\<rparr>] acceptAllRootsPolicy"

theorem removed_authority_stays_unresolved_witness:
  "\<not> delegatedAuthorityEquals (dp_namespace (res_policy (the (resolveByDestination fx_platform
      (cache_run [OpUpsertIssuer fx_issuer, OpUpsertDestinationPolicy fx_policy]
        (fst (removeDelegatedAuthority fx_key fx_cache2))) fx_pay None)))) fx_key"
proof -
  let ?ops = "[OpUpsertIssuer fx_issuer, OpUpsertDestinationPolicy fx_policy]"
  let ?r = "resolveByDestination fx_platform
      (cache_run ?ops (fst (removeDelegatedAuthority fx_key fx_cache2))) fx_pay None"
  have "map_option res_binding_status ?r = Some Bound" by code_simp
  then obtain r where r: "?r = Some r" by auto
  show ?thesis
    using removed_authority_stays_unresolved [OF _ r] r by simp
qed

text \<open>
  After an issuer's policies are removed, no history of cache calls that publishes no
  policy in the issuer's namespace makes a destination resolve in that namespace.
\<close>

theorem removed_issuer_stays_unresolved:
  assumes "\<forall>op \<in> set ops. \<not> publishes_for ns op"
    and "resolveByDestination P
      (cache_run ops (fst (removeDestinationPoliciesForIssuer ns s))) u hint = Some r"
  shows "dp_namespace (res_policy r) \<noteq> ns"
  using assms run_no_policy remove_policies_none no_policy_unresolved by blast

theorem removed_issuer_stays_unresolved_witness:
  "dp_namespace (res_policy (the (resolveByDestination fx_platform
      (cache_run [OpUpsertIssuer fx_issuer] (fst (removeDestinationPoliciesForIssuer fx_ns fx_cache2)))
      fx_pay None))) \<noteq> fx_ns"
proof -
  let ?r = "resolveByDestination fx_platform
      (cache_run [OpUpsertIssuer fx_issuer] (fst (removeDestinationPoliciesForIssuer fx_ns fx_cache2)))
      fx_pay None"
  have "map_option res_binding_status ?r = Some Bound" by code_simp
  then obtain r where r: "?r = Some r" by auto
  show ?thesis
    using removed_issuer_stays_unresolved [OF _ r] r by simp
qed

text \<open>
  Every history of cache calls on a new cache leaves each issuer and policy stored under
  its own key, no key twice, and no duplicates in the authority sets.
\<close>

theorem cache_histories_well_formed:
  "cache_wf (cache_run ops (makeInMemoryVerifierCache issuers policies roots))"
  by (intro wf_run wf_make)

text \<open>
  Two namespaces and policy ids whose components hold no unit separator have the same
  cache key only if they are the same, so a policy cannot be answered by the issuer of
  another namespace.
\<close>

theorem policy_key_injective:
  assumes "namespace_separator_free ns" "separator_free i"
    and "namespace_separator_free ns'" "separator_free i'"
  shows "verifierCachePolicyKey ns i = verifierCachePolicyKey ns' i' \<longleftrightarrow> ns = ns' \<and> i = i'"
  using assms policy_key_inj by blast

theorem policy_key_injective_witness:
  "verifierCachePolicyKey fx_ns ''policy:p'' \<noteq> verifierCachePolicyKey fx_ns2 ''policy:p''"
proof -
  have "namespace_separator_free fx_ns" "separator_free ''policy:p''" "namespace_separator_free fx_ns2"
    by code_simp+
  then show ?thesis
    using policy_key_injective [of fx_ns "''policy:p''" fx_ns2 "''policy:p''"]
    by (simp add: fx_ns_def fx_ns2_def)
qed

text \<open>
  A lookup takes the first stored policy whose root is accepted, whose authority and
  issuer are active and which allows the host; if that policy has no issuer, nothing is
  returned even when a later policy would match.
\<close>

theorem policy_lookup_is_first_eligible:
  "findPolicyMatchWithAuthorityContext s host allows =
     (case find (\<lambda>p. namespace_trusted s (dp_namespace p) \<and> allows p host)
             (map snd (policiesByKey s)) of
        None \<Rightarrow> None
      | Some p \<Rightarrow> map_option (\<lambda>i. (i, p)) (map_of (issuersByPolicyKey s) (policy_key p)))"
  by (simp add: findPolicyMatchWithAuthorityContext_def findPolicyMatch_find namespace_trusted_def
      conj_assoc)

lemma filter_neq: "filter P xs \<noteq> xs \<longleftrightarrow> list_ex (\<lambda>x. \<not> P x) xs"
  by (metis (mono_tags, lifting) Bex_set filter_id_conv)

lemma cache_eq_iff:
  fixes s t :: verifier_cache
  shows "s = t \<longleftrightarrow> issuersByPolicyKey s = issuersByPolicyKey t \<and> policiesByKey s = policiesByKey t \<and>
     activeDelegatedAuthoritiesByRoot s = activeDelegatedAuthoritiesByRoot t \<and>
     activeIssuersByAuthority s = activeIssuersByAuthority t \<and> acceptedRoots s = acceptedRoots t"
  by (cases s; cases t) auto

lemma delete_neq: "AList.delete k xs \<noteq> xs \<longleftrightarrow> map_of xs k \<noteq> None"
  by (auto simp: AList.delete_eq filter_neq list_ex_iff map_of_eq_None_iff image_iff) force

lemma update_filter_neq:
  assumes "map_of xs k = Some v"
  shows "AList.update k (filter P v) xs \<noteq> xs \<longleftrightarrow> filter P v \<noteq> v"
proof -
  have "AList.update k (filter P v) xs = xs \<Longrightarrow> filter P v = v"
    using assms AList.update_conv' [of k "filter P v" xs] by (auto simp: fun_eq_iff split: if_splits)
  then show ?thesis using assms AList.update_triv by fastforce
qed

text \<open>
  Each removal reports true exactly when it changed the cache.
\<close>

theorem removals_report_change:
  "(snd (removeIssuer ns s) \<longleftrightarrow> fst (removeIssuer ns s) \<noteq> s) \<and>
   (snd (removeDestinationPolicy ns i s) \<longleftrightarrow> fst (removeDestinationPolicy ns i s) \<noteq> s) \<and>
   (snd (removeDestinationPoliciesForIssuer ns s) \<longleftrightarrow>
      fst (removeDestinationPoliciesForIssuer ns s) \<noteq> s) \<and>
   (snd (removeDelegatedAuthority key s) \<longleftrightarrow> fst (removeDelegatedAuthority key s) \<noteq> s)"
proof (intro conjI)
  show "snd (removeIssuer ns s) \<longleftrightarrow> fst (removeIssuer ns s) \<noteq> s"
    by (auto simp: removeIssuer_def cache_eq_iff filter_neq list_ex_iff)
  show "snd (removeDestinationPolicy ns i s) \<longleftrightarrow> fst (removeDestinationPolicy ns i s) \<noteq> s"
    by (simp add: removeDestinationPolicy_def Let_def cache_eq_iff delete_neq)
  show "snd (removeDestinationPoliciesForIssuer ns s) \<longleftrightarrow>
      fst (removeDestinationPoliciesForIssuer ns s) \<noteq> s"
    by (auto simp: removeDestinationPoliciesForIssuer_def cache_eq_iff filter_neq list_ex_iff)
  show "snd (removeDelegatedAuthority key s) \<longleftrightarrow> fst (removeDelegatedAuthority key s) \<noteq> s"
    by (cases "map_of (activeDelegatedAuthoritiesByRoot s) (dak_root_program_id key)")
       (auto simp: removeDelegatedAuthority_def Let_def cache_eq_iff filter_neq list_ex_iff
          update_filter_neq)
qed

end
