(* ===== verification/RuntimeSafety.thy ===== *)
theory RuntimeSafety
  imports Prelude Fixtures
begin

text \<open>
  Present-time destination safety, \<^verbatim>\<open>network/src/services/runtime-safety.ts\<close>: the verdict
  types, the three deterministic providers, and the composite provider with the merge of its
  signals. A provider is a function from the inspection input to a verdict; the one way it
  can fail is the \<^verbatim>\<open>URL\<close> constructor throwing on the final URL, which is the left of the sum.
\<close>

subsection \<open>Types\<close>

datatype runtime_safety_status = Clear | Unavailable | Risky | Blocked

record runtime_safety_input =
  rsi_destinationUrl :: url
  rsi_resolverUrl :: "string option"
  rsi_finalUrl :: "string option"
  rsi_observedRedirectHops :: "int option"
  rsi_observedAt :: int

record runtime_safety_verdict =
  rv_status :: runtime_safety_status
  rv_provider :: string
  rv_observed_at :: string
  rv_effective_url :: string
  rv_risk_score_delta :: int
  rv_reason_codes :: "string list"
  rv_message :: string

record runtime_safety_signal =
  rs_status :: runtime_safety_status
  rs_provider :: string
  rs_risk_score_delta :: int
  rs_reason_codes :: "string list"
  rs_message :: string

type_synonym runtime_provider = "runtime_safety_input \<Rightarrow> defect + runtime_safety_verdict"
type_synonym signal_source = "runtime_safety_input \<Rightarrow> defect + runtime_safety_signal"

record deterministic_options =
  do_riskyHosts :: "string list option"
  do_blockedHosts :: "string list option"
  do_unavailableHosts :: "string list option"

record redirect_inspector_options =
  ri_providerName :: "string option"
  ri_maxRedirectHops :: "int option"
  ri_riskyResolverHosts :: "string list option"
  ri_blockedResolverHosts :: "string list option"
  ri_unavailableResolverHosts :: "string list option"

record reputation_options =
  ro_providerName :: "string option"
  ro_riskyHosts :: "string list option"
  ro_blockedHosts :: "string list option"
  ro_unavailableHosts :: "string list option"
  ro_newlyRegisteredHosts :: "string list option"
  ro_suspiciousTlds :: "string list option"

record composite_options =
  co_providerName :: "string option"
  co_redirectInspector :: "signal_source option"
  co_reputationProvider :: "signal_source option"

text \<open>How much a status restrains the scanner; the merge of signals is the maximum.\<close>

instantiation runtime_safety_status :: linorder
begin

fun severity :: "runtime_safety_status \<Rightarrow> nat" where
  "severity Clear = 0"
| "severity Unavailable = 1"
| "severity Risky = 2"
| "severity Blocked = 3"

definition less_eq_runtime_safety_status :: "runtime_safety_status \<Rightarrow> runtime_safety_status \<Rightarrow> bool"
  where "less_eq_runtime_safety_status a b \<longleftrightarrow> severity a \<le> severity b"

definition less_runtime_safety_status :: "runtime_safety_status \<Rightarrow> runtime_safety_status \<Rightarrow> bool"
  where "less_runtime_safety_status a b \<longleftrightarrow> severity a < severity b"

instance
proof
  fix x y :: runtime_safety_status
  show "x \<le> y \<Longrightarrow> y \<le> x \<Longrightarrow> x = y"
    by (cases x; cases y) (simp_all add: less_eq_runtime_safety_status_def)
qed (auto simp: less_eq_runtime_safety_status_def less_runtime_safety_status_def)

end


subsection \<open>Helpers\<close>

definition default_str :: "string \<Rightarrow> string option \<Rightarrow> string" where
  "default_str d x = (case x of None \<Rightarrow> d | Some s \<Rightarrow> s)"

definition parseEffectiveUrl :: "platform \<Rightarrow> runtime_safety_input \<Rightarrow> defect + url" where
  "parseEffectiveUrl P input =
     (case keep_truthy (rsi_finalUrl input) of
        None \<Rightarrow> Inr (rsi_destinationUrl input)
      | Some f \<Rightarrow> (case new_url P f of None \<Rightarrow> Inl (InvalidUrl f) | Some u \<Rightarrow> Inr u))"

definition parseOptionalUrl :: "platform \<Rightarrow> string option \<Rightarrow> url option" where
  "parseOptionalUrl P value =
     (case keep_truthy value of None \<Rightarrow> None | Some s \<Rightarrow> new_url P s)"

definition runtimeMode :: "url \<Rightarrow> runtime_safety_status option" where
  "runtimeMode u =
     (let mode = js_lower (case search_get u ''runtime'' of Some m \<Rightarrow> m
                           | None \<Rightarrow> (case search_get u ''risk'' of Some m \<Rightarrow> m | None \<Rightarrow> []))
      in if mode = ''clear'' then Some Clear
         else if mode = ''risky'' then Some Risky
         else if mode = ''blocked'' then Some Blocked
         else if mode = ''unavailable'' then Some Unavailable
         else None)"

definition includesHost :: "string list option \<Rightarrow> string \<Rightarrow> bool" where
  "includesHost hosts host =
     (case hosts of None \<Rightarrow> False | Some hs \<Rightarrow> list_ex (\<lambda>candidate. js_lower candidate = host) hs)"

definition makeVerdict ::
  "platform \<Rightarrow> runtime_safety_input \<Rightarrow> runtime_safety_status \<Rightarrow> string option \<Rightarrow> int \<Rightarrow>
     string list \<Rightarrow> string \<Rightarrow> runtime_safety_verdict" where
  "makeVerdict P input status provider delta codes message =
     \<lparr>rv_status = status,
      rv_provider = default_str ''deterministic-runtime-safety'' provider,
      rv_observed_at = iso_string P (rsi_observedAt input),
      rv_effective_url = default_str (href (rsi_destinationUrl input)) (rsi_finalUrl input),
      rv_risk_score_delta = delta, rv_reason_codes = codes, rv_message = message\<rparr>"

definition signal ::
  "runtime_safety_status \<Rightarrow> string \<Rightarrow> int \<Rightarrow> string list \<Rightarrow> string \<Rightarrow> runtime_safety_signal" where
  "signal status provider delta codes message =
     \<lparr>rs_status = status, rs_provider = provider, rs_risk_score_delta = delta,
      rs_reason_codes = codes, rs_message = message\<rparr>"


subsection \<open>Providers\<close>

definition clear_inspect :: "platform \<Rightarrow> runtime_provider" where
  "clear_inspect P input =
     Inr (makeVerdict P input Clear None 0 [''runtime_clear'']
            ''Runtime provider did not report current destination risk.'')"

definition deterministic_inspect :: "platform \<Rightarrow> deterministic_options \<Rightarrow> runtime_provider" where
  "deterministic_inspect P options input =
     and_then (parseEffectiveUrl P input) (\<lambda>effectiveUrl.
       let mode = runtimeMode effectiveUrl;
           host = js_lower (hostname effectiveUrl)
       in Inr (
         if mode = Some Blocked \<or> includesHost (do_blockedHosts options) host then
           makeVerdict P input Blocked None 70 [''runtime_destination_blocked'']
             ''Runtime provider reports that this destination should not be opened right now.''
         else if mode = Some Unavailable \<or> includesHost (do_unavailableHosts options) host then
           makeVerdict P input Unavailable None 30 [''runtime_provider_unavailable'']
             ''Runtime provider is unavailable, so present-time destination safety could not be checked.''
         else if mode = Some Risky \<or> includesHost (do_riskyHosts options) host then
           makeVerdict P input Risky None 45 [''runtime_destination_risky'']
             ''Runtime provider reports elevated destination risk at scan time.''
         else
           makeVerdict P input Clear None 0 [''runtime_clear'']
             ''Runtime provider did not report current destination risk.''))"

definition redirect_inspect :: "platform \<Rightarrow> redirect_inspector_options \<Rightarrow> signal_source" where
  "redirect_inspect P options input =
     (let provider = default_str ''deterministic-redirect-inspector'' (ri_providerName options)
      in and_then (parseEffectiveUrl P input) (\<lambda>effectiveUrl.
       let destHost = js_lower (hostname (rsi_destinationUrl input));
           resolverHost = (case parseOptionalUrl P (rsi_resolverUrl input) of
                             None \<Rightarrow> destHost | Some u \<Rightarrow> js_lower (hostname u));
           observedHops = (case rsi_observedRedirectHops input of None \<Rightarrow> 0 | Some n \<Rightarrow> n);
           maxRedirectHops = (case ri_maxRedirectHops options of None \<Rightarrow> 1 | Some n \<Rightarrow> n)
       in Inr (
         if includesHost (ri_unavailableResolverHosts options) resolverHost then
           signal Unavailable provider 30 [''runtime_redirect_inspector_unavailable'']
             ''Redirect inspector is unavailable, so the resolver chain could not be checked at scan time.''
         else if includesHost (ri_blockedResolverHosts options) resolverHost then
           signal Blocked provider 70 [''runtime_redirect_resolver_blocked'']
             ''Redirect inspector reports that the resolver should not be used right now.''
         else if observedHops > maxRedirectHops \<or>
                 includesHost (ri_riskyResolverHosts options) resolverHost then
           signal Risky provider 35 [''runtime_redirect_chain_risky'']
             ''Redirect inspector reports elevated risk in the resolver chain.''
         else if truthy_str (rsi_finalUrl input) \<and> \<not> truthy_str (rsi_resolverUrl input) \<and>
                 js_lower (hostname effectiveUrl) \<noteq> destHost then
           signal Risky provider 35 [''runtime_unexpected_redirect'']
             ''A final destination was observed without an approved resolver context.''
         else
           signal Clear provider 0 [''runtime_redirect_clear'']
             ''Redirect inspection did not report scan-time risk.'')))"

definition reputation_inspect :: "platform \<Rightarrow> reputation_options \<Rightarrow> signal_source" where
  "reputation_inspect P options input =
     (let provider = default_str ''deterministic-reputation-provider'' (ro_providerName options)
      in and_then (parseEffectiveUrl P input) (\<lambda>effectiveUrl.
       let host = js_lower (hostname effectiveUrl);
           tld = last (js_split CHR ''.'' host);
           risky = includesHost (ro_riskyHosts options) host;
           newly = includesHost (ro_newlyRegisteredHosts options) host;
           suspicious = (case ro_suspiciousTlds options of None \<Rightarrow> False
                         | Some ts \<Rightarrow> list_ex (\<lambda>candidate. js_lower candidate = tld) ts);
           reasonCodes = (if risky then [''runtime_reputation_risky''] else [])
                       @ (if newly then [''runtime_domain_newly_registered''] else [])
                       @ (if suspicious then [''runtime_suspicious_tld''] else []);
           riskScoreDelta = (if risky then 45 else 0) + (if newly then 35 else 0)
                          + (if suspicious then 15 else 0)
       in Inr (
         if includesHost (ro_unavailableHosts options) host then
           signal Unavailable provider 30 [''runtime_reputation_unavailable'']
             ''Reputation provider is unavailable, so present-time destination reputation could not be checked.''
         else if includesHost (ro_blockedHosts options) host then
           signal Blocked provider 70 [''runtime_reputation_blocked'']
             ''Reputation provider reports that this destination should not be opened right now.''
         else if riskScoreDelta > 0 then
           signal Risky provider riskScoreDelta reasonCodes
             ''Reputation provider reports elevated destination risk at scan time.''
         else
           signal Clear provider 0 [''runtime_reputation_clear'']
             ''Reputation provider did not report scan-time risk.'')))"


subsection \<open>Merging signals\<close>

definition mergedStatus :: "runtime_safety_signal list \<Rightarrow> runtime_safety_status" where
  "mergedStatus signals =
     (if list_ex (\<lambda>s. rs_status s = Blocked) signals then Blocked
      else if list_ex (\<lambda>s. rs_status s = Risky) signals then Risky
      else if list_ex (\<lambda>s. rs_status s = Unavailable) signals then Unavailable
      else Clear)"

definition mergedMessage :: "runtime_safety_status \<Rightarrow> runtime_safety_signal list \<Rightarrow> string" where
  "mergedMessage status signals =
     (case find (\<lambda>s. rs_status s = status) signals of
        Some decisive \<Rightarrow> rs_message decisive
      | None \<Rightarrow> if status = Clear
                then ''Runtime providers did not report current destination risk.''
                else ''Runtime providers reported scan-time destination risk.'')"

definition mergeSignals ::
  "platform \<Rightarrow> runtime_safety_input \<Rightarrow> string \<Rightarrow> runtime_safety_signal list \<Rightarrow>
     runtime_safety_verdict" where
  "mergeSignals P input provider signals =
     (if signals = [] then
        makeVerdict P input Clear (Some provider) 0 [''runtime_clear'']
          ''No runtime providers reported current destination risk.''
      else
        let status = mergedStatus signals
        in makeVerdict P input status (Some provider)
             (min 100 (sum_list (map rs_risk_score_delta signals)))
             (js_unique (concat (map rs_reason_codes signals)))
             (mergedMessage status signals))"

definition composite_inspect :: "platform \<Rightarrow> composite_options \<Rightarrow> runtime_provider" where
  "composite_inspect P options input =
     (let sources = (case co_redirectInspector options of None \<Rightarrow> [] | Some f \<Rightarrow> [f]) @
                    (case co_reputationProvider options of None \<Rightarrow> [] | Some f \<Rightarrow> [f])
      in and_then (map_result (\<lambda>f. f input) sources) (\<lambda>signals.
           Inr (mergeSignals P input (default_str ''runtime-safety'' (co_providerName options)) signals)))"


subsection \<open>Contracts of the providers\<close>

text \<open>What a signal source promises: a clear signal scores nothing, any other scores.\<close>

locale runtime_signal_source =
  fixes inspect :: signal_source
  assumes signal_risk: "inspect i = Inr s \<Longrightarrow> 0 \<le> rs_risk_score_delta s"
    and signal_clear: "inspect i = Inr s \<Longrightarrow> rs_status s = Clear \<longleftrightarrow> rs_risk_score_delta s = 0"
    and signal_codes: "inspect i = Inr s \<Longrightarrow> rs_reason_codes s \<noteq> []"

text \<open>What the scanner relies on: a verdict scored between 0 and 100, 0 exactly when clear.\<close>

locale runtime_verdict_provider =
  fixes inspect :: runtime_provider
  assumes verdict_risk: "inspect i = Inr v \<Longrightarrow> 0 \<le> rv_risk_score_delta v \<and> rv_risk_score_delta v \<le> 100"
    and verdict_clear: "inspect i = Inr v \<Longrightarrow> rv_status v = Clear \<longleftrightarrow> rv_risk_score_delta v = 0"
    and verdict_codes: "inspect i = Inr v \<Longrightarrow> rv_reason_codes v \<noteq> []"

lemma verdict_fields [simp]:
  "rv_status (makeVerdict P i st pr d cs m) = st"
  "rv_risk_score_delta (makeVerdict P i st pr d cs m) = d"
  "rv_reason_codes (makeVerdict P i st pr d cs m) = cs"
  "rv_message (makeVerdict P i st pr d cs m) = m"
  by (simp_all add: makeVerdict_def)

lemma signal_fields [simp]:
  "rs_status (signal st pr d cs m) = st"
  "rs_risk_score_delta (signal st pr d cs m) = d"
  "rs_reason_codes (signal st pr d cs m) = cs"
  "rs_message (signal st pr d cs m) = m"
  by (simp_all add: signal_def)

lemma mergedStatus_Clear: "mergedStatus ss = Clear \<longleftrightarrow> (\<forall>s \<in> set ss. rs_status s = Clear)"
proof -
  have "x = Clear \<longleftrightarrow> x \<noteq> Blocked \<and> x \<noteq> Risky \<and> x \<noteq> Unavailable" for x
    by (cases x) auto
  then show ?thesis by (auto simp: mergedStatus_def list_ex_iff)
qed

lemma mergedStatus_upper: "s \<in> set ss \<Longrightarrow> rs_status s \<le> mergedStatus ss"
  by (cases "rs_status s")
     (auto simp: mergedStatus_def list_ex_iff less_eq_runtime_safety_status_def)

lemma mergedStatus_attained: "ss \<noteq> [] \<Longrightarrow> mergedStatus ss \<in> rs_status ` set ss"
proof (cases "mergedStatus ss")
  case Clear
  moreover assume "ss \<noteq> []"
  ultimately show ?thesis
    using mergedStatus_Clear [of ss] by (cases ss) auto
qed (auto simp: mergedStatus_def list_ex_iff split: if_splits intro: rev_image_eqI)

lemma sum_list_zero_iff:
  "\<forall>x \<in> set xs. 0 \<le> f x \<Longrightarrow> sum_list (map f xs) = (0::int) \<longleftrightarrow> (\<forall>x \<in> set xs. f x = 0)"
proof (induction xs)
  case (Cons x xs)
  have "0 \<le> sum_list (map f xs)" by (rule sum_list_nonneg) (use Cons.prems in auto)
  with Cons show ?case by (auto simp: add_nonneg_eq_0_iff)
qed simp

interpretation clear: runtime_verdict_provider "clear_inspect P" for P
  by unfold_locales (auto simp: clear_inspect_def)

interpretation deterministic: runtime_verdict_provider "deterministic_inspect P opts" for P opts
  by unfold_locales (auto simp: deterministic_inspect_def Let_def and_then_Inr split: if_splits)

interpretation redirect: runtime_signal_source "redirect_inspect P opts" for P opts
  by unfold_locales
     (auto simp: redirect_inspect_def Let_def and_then_Inr split: if_splits)

interpretation reputation: runtime_signal_source "reputation_inspect P opts" for P opts
  by unfold_locales
     (auto simp: reputation_inspect_def Let_def and_then_Inr split: if_splits)

text \<open>The composite of two such sources keeps the verdict's contract.\<close>

locale composite_sources =
  redir: runtime_signal_source redir + rep: runtime_signal_source rep
  for redir :: signal_source and rep :: signal_source
begin

lemma merged_signals:
  assumes "map_result (\<lambda>f. f i) [redir, rep] = Inr ss"
  shows "\<forall>s \<in> set ss. 0 \<le> rs_risk_score_delta s \<and> (rs_status s = Clear \<longleftrightarrow> rs_risk_score_delta s = 0) \<and>
           rs_reason_codes s \<noteq> []" "ss \<noteq> []"
  using assms redir.signal_risk redir.signal_clear redir.signal_codes
    rep.signal_risk rep.signal_clear rep.signal_codes
  by (auto simp: and_then_Inr)

end

lemma merge_contract:
  assumes "\<forall>s \<in> set ss. 0 \<le> rs_risk_score_delta s \<and> (rs_status s = Clear \<longleftrightarrow> rs_risk_score_delta s = 0) \<and>
             rs_reason_codes s \<noteq> []" "ss \<noteq> []"
  shows "0 \<le> rv_risk_score_delta (mergeSignals P i pr ss) \<and> rv_risk_score_delta (mergeSignals P i pr ss) \<le> 100"
    "rv_status (mergeSignals P i pr ss) = Clear \<longleftrightarrow> rv_risk_score_delta (mergeSignals P i pr ss) = 0"
    "rv_reason_codes (mergeSignals P i pr ss) \<noteq> []"
proof -
  have nonneg: "0 \<le> sum_list (map rs_risk_score_delta ss)"
    using assms(1) by (auto intro!: sum_list_nonneg)
  then show "0 \<le> rv_risk_score_delta (mergeSignals P i pr ss) \<and> rv_risk_score_delta (mergeSignals P i pr ss) \<le> 100"
    using assms(2) by (simp add: mergeSignals_def Let_def)
  have "sum_list (map rs_risk_score_delta ss) = 0 \<longleftrightarrow> (\<forall>s \<in> set ss. rs_risk_score_delta s = 0)"
    by (rule sum_list_zero_iff) (use assms(1) in blast)
  also have "\<dots> \<longleftrightarrow> (\<forall>s \<in> set ss. rs_status s = Clear)"
    using assms(1) by blast
  finally have "min 100 (sum_list (map rs_risk_score_delta ss)) = 0 \<longleftrightarrow>
      (\<forall>s \<in> set ss. rs_status s = Clear)"
    using nonneg by linarith
  then show "rv_status (mergeSignals P i pr ss) = Clear \<longleftrightarrow> rv_risk_score_delta (mergeSignals P i pr ss) = 0"
    using assms(2) by (simp add: mergeSignals_def Let_def mergedStatus_Clear)
  show "rv_reason_codes (mergeSignals P i pr ss) \<noteq> []"
    using assms by (cases ss) (auto simp: mergeSignals_def Let_def)
qed

sublocale composite_sources \<subseteq> composite:
  runtime_verdict_provider
    "composite_inspect P \<lparr>co_providerName = n, co_redirectInspector = Some redir,
                          co_reputationProvider = Some rep\<rparr>" for P n
proof unfold_locales
  fix i v
  assume v: "composite_inspect P \<lparr>co_providerName = n, co_redirectInspector = Some redir,
                          co_reputationProvider = Some rep\<rparr> i = Inr v"
  obtain ss where ss: "map_result (\<lambda>f. f i) [redir, rep] = Inr ss"
    and v': "v = mergeSignals P i (default_str ''runtime-safety'' n) ss"
    using v by (auto simp: composite_inspect_def Let_def and_then_Inr)
  note c = merge_contract [OF merged_signals [OF ss]]
  show "0 \<le> rv_risk_score_delta v \<and> rv_risk_score_delta v \<le> 100" unfolding v' by (rule c)
  show "rv_status v = Clear \<longleftrightarrow> rv_risk_score_delta v = 0" unfolding v' by (rule c)
  show "rv_reason_codes v \<noteq> []" unfolding v' by (rule c)
qed

interpretation standard: composite_sources "redirect_inspect P ro" "reputation_inspect P po" for P ro po
  by unfold_locales


subsection \<open>Properties\<close>

text \<open>
  The merged status of the runtime signals is the most restrictive one: blocked before
  risky before unavailable before clear.
\<close>

theorem merged_status_is_most_restrictive:
  "mergedStatus signals = fold max (map rs_status signals) Clear"
proof -
  have le: "Clear \<le> x" for x
    by (cases x) (simp_all add: less_eq_runtime_safety_status_def)
  have fold: "fold max (map rs_status ss) Clear = Max (insert Clear (rs_status ` set ss))" for ss
    using Max.set_eq_fold [of Clear "map rs_status ss"] by simp
  show ?thesis
    unfolding fold
  proof (rule Max_eqI [symmetric])
    show "mergedStatus signals \<in> insert Clear (rs_status ` set signals)"
      using mergedStatus_attained [of signals] by (cases "signals = []") (auto simp: mergedStatus_def)
  qed (use mergedStatus_upper le in auto)
qed

text \<open>
  The composite of the redirect inspector and the reputation provider scores every
  verdict between 0 and 100, scores 0 exactly when the verdict is clear, gives a reason, and
  lists each reason once.
\<close>

theorem composite_verdict_bounds:
  assumes "composite_inspect P \<lparr>co_providerName = n,
             co_redirectInspector = Some (redirect_inspect P ro),
             co_reputationProvider = Some (reputation_inspect P po)\<rparr> input = Inr v"
  shows "0 \<le> rv_risk_score_delta v \<and> rv_risk_score_delta v \<le> 100 \<and>
    (rv_status v = Clear \<longleftrightarrow> rv_risk_score_delta v = 0) \<and>
    rv_reason_codes v \<noteq> [] \<and> distinct (rv_reason_codes v)"
proof -
  have "distinct (rv_reason_codes v)"
    using assms by (auto simp: composite_inspect_def Let_def and_then_Inr mergeSignals_def)
  with standard.composite.verdict_risk [OF assms] standard.composite.verdict_clear [OF assms]
    standard.composite.verdict_codes [OF assms]
  show ?thesis by blast
qed

definition fx_runtime_input :: runtime_safety_input where
  "fx_runtime_input = \<lparr>rsi_destinationUrl = fx_pay, rsi_resolverUrl = None, rsi_finalUrl = None,
     rsi_observedRedirectHops = Some 2, rsi_observedAt = fx_now\<rparr>"

definition fx_redirect_options :: redirect_inspector_options where
  "fx_redirect_options = \<lparr>ri_providerName = None, ri_maxRedirectHops = None,
     ri_riskyResolverHosts = None, ri_blockedResolverHosts = None,
     ri_unavailableResolverHosts = None\<rparr>"

definition fx_reputation_options :: reputation_options where
  "fx_reputation_options = \<lparr>ro_providerName = None, ro_riskyHosts = Some [''H.x''],
     ro_blockedHosts = None, ro_unavailableHosts = None, ro_newlyRegisteredHosts = Some [''h.x''],
     ro_suspiciousTlds = Some [''X'']\<rparr>"

theorem composite_verdict_bounds_witness:
  "\<exists>v. composite_inspect fx_platform \<lparr>co_providerName = None,
         co_redirectInspector = Some (redirect_inspect fx_platform fx_redirect_options),
         co_reputationProvider = Some (reputation_inspect fx_platform fx_reputation_options)\<rparr>
       fx_runtime_input = Inr v \<and> rv_risk_score_delta v = 100 \<and> distinct (rv_reason_codes v)"
proof -
  let ?r = "composite_inspect fx_platform \<lparr>co_providerName = None,
         co_redirectInspector = Some (redirect_inspect fx_platform fx_redirect_options),
         co_reputationProvider = Some (reputation_inspect fx_platform fx_reputation_options)\<rparr>
       fx_runtime_input"
  have "map_sum id rv_risk_score_delta ?r = Inr 100" by code_simp
  then obtain v where v: "?r = Inr v" "rv_risk_score_delta v = 100"
    by (cases ?r) auto
  then show ?thesis using composite_verdict_bounds [OF v(1)] by blast
qed

end
