(* ===== verification/Hash.thy ===== *)
theory Hash
  imports Prelude "HOL-Library.Multiset"
begin

text \<open>
  Canonical JSON and artifact hashes, \<^verbatim>\<open>network/src/hash.ts\<close>: \<open>canonicalizeForJson\<close> drops
  undefined properties, sorts the rest by the host's \<^verbatim>\<open>localeCompare\<close> and turns what JSON
  cannot carry into null. The hash is the platform's SHA-256 of the canonical value. Objects
  are entry lists in the order of \<^verbatim>\<open>Object.entries\<close>; the reordering of integer-like
  property names is not modelled (no artifact of the sources has one).
\<close>

fun insort_by :: "('a \<Rightarrow> 'a \<Rightarrow> bool) \<Rightarrow> 'a \<Rightarrow> 'a list \<Rightarrow> 'a list" where
  "insort_by le x [] = [x]"
| "insort_by le x (y # ys) = (if le x y then x # y # ys else y # insort_by le x ys)"

text \<open>A stable sort, as \<^verbatim>\<open>Array.prototype.sort\<close> is.\<close>

definition sort_by :: "('a \<Rightarrow> 'a \<Rightarrow> bool) \<Rightarrow> 'a list \<Rightarrow> 'a list" where
  "sort_by le xs = foldr (insort_by le) xs []"

fun canonicalizeForJson :: "(string \<Rightarrow> string \<Rightarrow> bool) \<Rightarrow> jsval \<Rightarrow> jsval" where
  "canonicalizeForJson le JUndefined = JNull"
| "canonicalizeForJson le JNull = JNull"
| "canonicalizeForJson le (JBool b) = JBool b"
| "canonicalizeForJson le (JNum n) = JNum n"
| "canonicalizeForJson le (JStr s) = JStr s"
| "canonicalizeForJson le (JArr xs) =
     JArr (map (\<lambda>x. if x = JUndefined then JNull else canonicalizeForJson le x) xs)"
| "canonicalizeForJson le (JObj kvs) =
     JObj (sort_by (\<lambda>a b. le (fst a) (fst b))
            (map (\<lambda>(k, v). (k, canonicalizeForJson le v))
              (filter (\<lambda>(k, v). v \<noteq> JUndefined) kvs)))"

definition hashJson :: "platform \<Rightarrow> jsval \<Rightarrow> string" where
  "hashJson P v = sha256_json P (canonicalizeForJson (locale_le P) v)"

definition sha256_of :: "platform \<Rightarrow> jsval \<Rightarrow> string" where
  "sha256_of P v = ''sha256:'' @ hashJson P v"


subsection \<open>The order of properties does not matter\<close>

text \<open>\<open>json_perm v w\<close>: equal up to the order in which objects list their properties.\<close>

inductive json_perm :: "jsval \<Rightarrow> jsval \<Rightarrow> bool" where
  leaf: "json_perm v v"
| arr: "list_all2 json_perm xs ys \<Longrightarrow> json_perm (JArr xs) (JArr ys)"
| obj: "list_all2 (\<lambda>a b. fst a = fst b \<and> json_perm (snd a) (snd b)) kvs zs \<Longrightarrow>
        mset zs = mset kvs' \<Longrightarrow> json_perm (JObj kvs) (JObj kvs')"
monos list_all2_mono

fun distinct_keys :: "jsval \<Rightarrow> bool" where
  "distinct_keys (JArr xs) = list_all distinct_keys xs"
| "distinct_keys (JObj kvs) =
     (distinct (map fst kvs) \<and> list_all (\<lambda>(k, v). distinct_keys v) kvs)"
| "distinct_keys _ = True"

text \<open>
  What \<^verbatim>\<open>localeCompare\<close> promises is a total preorder: it answers 0 for canonically equivalent
  strings, so two different names may be tied. \<open>separated_keys le v\<close>: no object of \<open>v\<close> has two
  different properties whose names are tied.
\<close>

definition total_preorder :: "(string \<Rightarrow> string \<Rightarrow> bool) \<Rightarrow> bool" where
  "total_preorder le \<longleftrightarrow>
     (\<forall>a b. le a b \<or> le b a) \<and> (\<forall>a b c. le a b \<longrightarrow> le b c \<longrightarrow> le a c)"

definition tied :: "(string \<Rightarrow> string \<Rightarrow> bool) \<Rightarrow> string \<Rightarrow> string \<Rightarrow> bool" where
  "tied le a b \<longleftrightarrow> le a b \<and> le b a"

fun separated_keys :: "(string \<Rightarrow> string \<Rightarrow> bool) \<Rightarrow> jsval \<Rightarrow> bool" where
  "separated_keys le (JArr xs) = list_all (separated_keys le) xs"
| "separated_keys le (JObj kvs) =
     (list_all (\<lambda>a. list_all (\<lambda>b. tied le (fst a) (fst b) \<longrightarrow> fst a = fst b) kvs) kvs \<and>
      list_all (\<lambda>(k, v). separated_keys le v) kvs)"
| "separated_keys le _ = True"

lemma js_le_total: "js_le a b \<or> js_le b a"
  using js_less_imp_le [of a b] by (auto simp: js_not_less [symmetric])

lemma total_preorder_js_le_on: "total_preorder (\<lambda>a b. js_le (f a) (f b))"
  unfolding total_preorder_def using js_le_total js_le_trans by blast

lemma insort_by_commute:
  assumes "\<And>a b. le a b \<or> le b a" "\<And>a b c. le a b \<Longrightarrow> le b c \<Longrightarrow> le a c"
    and "\<not> (le x y \<and> le y x)"
  shows "insort_by le x (insort_by le y zs) = insort_by le y (insort_by le x zs)"
proof (induction zs)
  case Nil
  then show ?case using assms(1) [of x y] assms(3) by auto
next
  case (Cons z zs)
  then show ?case
    using assms(1) [of x y] assms(2) [of x y z] assms(2) [of y x z] assms(3) by auto
qed

lemma mset_insort_by [simp]: "mset (insort_by le x xs) = add_mset x (mset xs)"
  by (induction xs) auto

lemma mset_sort_by [simp]: "mset (sort_by le xs) = mset xs"
  unfolding sort_by_def by (induction xs) auto

lemma sort_by_perm:
  fixes le :: "string \<Rightarrow> string \<Rightarrow> bool"
  assumes le: "total_preorder le" and "distinct (map fst xs)" and "mset xs = mset ys"
    and sep: "\<And>x y. x \<in> set xs \<Longrightarrow> y \<in> set xs \<Longrightarrow> tied le (fst x) (fst y) \<Longrightarrow> fst x = fst y"
  shows "sort_by (\<lambda>a b. le (fst a) (fst b)) xs = sort_by (\<lambda>a b. le (fst a) (fst b)) ys"
proof -
  let ?le = "\<lambda>a b. le (fst a) (fst b)"
  have inj: "inj_on fst (set xs)" and d: "distinct xs"
    using assms(2) by (simp_all add: distinct_map)
  have comm: "insort_by ?le x (insort_by ?le y zs) = insort_by ?le y (insort_by ?le x zs)"
    if "x \<in> set xs" "y \<in> set xs" for x y zs
  proof (cases "x = y")
    case False
    then have "\<not> tied le (fst x) (fst y)" using inj that sep [OF that] by (auto simp: inj_on_def)
    then show ?thesis
      using le by (intro insort_by_commute) (auto simp: total_preorder_def tied_def)
  qed simp
  show ?thesis
    unfolding sort_by_def foldr_conv_fold
    by (rule fold_multiset_equiv [THEN fun_cong]) (use comm assms(3) in \<open>auto simp: fun_eq_iff\<close>)
qed


lemma canon_keys: "map fst (map (\<lambda>(k, v). (k, f v)) kvs) = map fst kvs"
  by (induction kvs) auto

lemma json_perm_undefined: "json_perm v w \<Longrightarrow> v = JUndefined \<longleftrightarrow> w = JUndefined"
  by (auto elim: json_perm.cases)

lemma distinct_keys_entry:
  "distinct_keys (JObj kvs) \<Longrightarrow> (k, v) \<in> set kvs \<Longrightarrow> distinct_keys v"
  by (auto simp: list_all_iff)

text \<open>
  The canonical form, hence the hash and the signed payload of an artifact, does not depend
  on the order in which its objects list their properties, as long as the comparison ties no two
  of their names.
\<close>

theorem canonical_form_ignores_property_order:
  assumes "total_preorder le" and "json_perm v w" and "distinct_keys v" and "separated_keys le v"
  shows "canonicalizeForJson le v = canonicalizeForJson le w"
  using assms(2-4)
proof (induction rule: json_perm.induct)
  case (leaf v)
  show ?case by (rule refl)
next
  case (arr xs ys)
  then have "list_all2 (\<lambda>x y. canonicalizeForJson le x = canonicalizeForJson le y \<and>
      (x = JUndefined \<longleftrightarrow> y = JUndefined)) xs ys"
    by (auto simp: list_all2_conv_all_nth list_all_length dest: json_perm_undefined)
  then show ?case by (induction rule: list_all2_induct) auto
next
  case (obj kvs zs kvs')
  let ?f = "\<lambda>kvs. map (\<lambda>(k, v). (k, canonicalizeForJson le v)) (filter (\<lambda>(k, v). v \<noteq> JUndefined) kvs)"
  have "list_all2 (\<lambda>a b. fst a = fst b \<and> canonicalizeForJson le (snd a) = canonicalizeForJson le (snd b) \<and>
      (snd a = JUndefined \<longleftrightarrow> snd b = JUndefined)) kvs zs"
    using obj by (auto simp: list_all2_conv_all_nth list_all_length case_prod_beta dest: json_perm_undefined)
  then have same: "?f kvs = ?f zs"
    by (induction rule: list_all2_induct) auto
  have perm: "mset (?f zs) = mset (?f kvs')"
    using obj by (simp add: mset_map mset_filter)
  have "distinct (map fst (?f kvs))"
    using obj.prems by (simp add: canon_keys del: map_map) (auto simp: distinct_map_fst_filter)
  moreover have "fst x = fst y"
    if "x \<in> set (?f kvs)" "y \<in> set (?f kvs)" "tied le (fst x) (fst y)" for x y
  proof -
    have "\<forall>a \<in> set kvs. \<forall>b \<in> set kvs. tied le (fst a) (fst b) \<longrightarrow> fst a = fst b"
      using obj.prems(2) by (simp add: list_all_iff)
    then show ?thesis using that by force
  qed
  ultimately have "sort_by (\<lambda>a b. le (fst a) (fst b)) (?f zs) = sort_by (\<lambda>a b. le (fst a) (fst b)) (?f kvs')"
    using sort_by_perm [OF assms(1) _ perm] same by metis
  with same show ?case by simp
qed

text \<open>Tied names stay in the order in which the object lists them.\<close>

lemma tied_names_keep_their_order:
  assumes "le a b" and "le b a" and "a \<noteq> b"
  shows "json_perm (JObj [(a, JStr s), (b, JStr t)]) (JObj [(b, JStr t), (a, JStr s)]) \<and>
    canonicalizeForJson le (JObj [(a, JStr s), (b, JStr t)]) \<noteq>
    canonicalizeForJson le (JObj [(b, JStr t), (a, JStr s)])"
proof
  show "json_perm (JObj [(a, JStr s), (b, JStr t)]) (JObj [(b, JStr t), (a, JStr s)])"
    by (rule json_perm.obj [of _ "[(a, JStr s), (b, JStr t)]"]) (auto intro: json_perm.leaf)
qed (use assms in \<open>simp add: sort_by_def\<close>)

end
