(* ===== verification/Contracts.thy ===== *)
theory Contracts
  imports VerifierCache Hash
begin

text \<open>
  The wire contracts of \<^verbatim>\<open>network/src/contracts.ts\<close>: the scanner decision, the event
  envelope with its schema checks, and the destination fingerprint shown to the user.
  A schema over a struct that is already typed holds by the record's type; a refinement
  (non-empty, pattern, date-time, positive integer) is a conjunct of \<open>envelope_valid\<close>.
\<close>

datatype decision_color = Green | Orange | Red

datatype cache_freshness_status = Fresh | Stale | Expired | Unavailable_cache | Not_applicable

record destination =
  dst_display_host :: string
  dst_fingerprint :: string
  dst_url :: string
  dst_resolver_url :: "string option"
  dst_final_url :: "string option"

record trust_step =
  ts_status :: string
  ts_label :: string
  ts_message :: string
  ts_reason_codes :: "string list option"

record trust_path =
  tp_issuer_legitimacy :: trust_step
  tp_destination_binding :: trust_step
  tp_runtime_safety :: trust_step
  tp_scanner_decision :: trust_step

record hold_to_open =
  ho_required :: bool
  ho_duration_ms :: int
  ho_reason_codes :: "string list"

record cache_freshness =
  cf_status :: cache_freshness_status
  cf_cache_generated_at :: "string option"
  cf_cache_expires_at :: "string option"

record governance_projection =
  gp_root_program_id :: string
  gp_delegated_authority_id :: string
  gp_issuer_id :: string
  gp_destination_policy_id :: string

record scanner_decision =
  sd_decision_id :: string
  sd_decided_at :: string
  sd_decision_color :: decision_color
  sd_decision_state :: string
  sd_reason_codes :: "string list"
  sd_risk_score :: "int option"
  sd_destination :: destination
  sd_trust_path :: trust_path
  sd_hold_to_open :: hold_to_open
  sd_cache_freshness :: cache_freshness
  sd_governance :: "governance_projection option"

record event_envelope =
  ee_event_id :: string
  ee_type :: string
  ee_occurred_at :: string
  ee_root_program_id :: string
  ee_delegated_authority_id :: "string option"
  ee_issuer_id :: "string option"
  ee_destination_policy_id :: "string option"
  ee_artifact_id :: string
  ee_artifact_hash :: string
  ee_artifact_ref :: "string option"
  ee_version :: int
  ee_previous_version :: "int option"
  ee_reason :: "string option"

definition opt_all :: "('a \<Rightarrow> bool) \<Rightarrow> 'a option \<Rightarrow> bool" where
  "opt_all p x = (case x of None \<Rightarrow> True | Some y \<Rightarrow> p y)"

text \<open>\<^verbatim>\<open>^(root:|control-plane$)\<close>.\<close>

definition root_program_id_ok :: "string \<Rightarrow> bool" where
  "root_program_id_ok s = (prefix ''root:'' s \<or> s = ''control-plane'')"

definition envelope_valid :: "platform \<Rightarrow> event_envelope \<Rightarrow> bool" where
  "envelope_valid P e \<longleftrightarrow>
     ee_event_id e \<noteq> [] \<and> ee_type e \<noteq> [] \<and>
     date_parse P (ee_occurred_at e) \<noteq> None \<and>
     root_program_id_ok (ee_root_program_id e) \<and>
     opt_all (prefix ''authority:'') (ee_delegated_authority_id e) \<and>
     opt_all (prefix ''issuer:'') (ee_issuer_id e) \<and>
     opt_all (prefix ''policy:'') (ee_destination_policy_id e) \<and>
     ee_artifact_id e \<noteq> [] \<and> prefix ''sha256:'' (ee_artifact_hash e) \<and>
     1 \<le> ee_version e \<and> opt_all (\<lambda>v. 1 \<le> v) (ee_previous_version e)"

definition decodeEventEnvelope ::
  "platform \<Rightarrow> event_envelope \<Rightarrow> event_envelope + event_envelope" where
  "decodeEventEnvelope P e = (if envelope_valid P e then Inr e else Inl e)"

text \<open>Every field of the decision schema is unrefined, so decoding a typed decision returns it.\<close>

definition decodeScannerDecision :: "scanner_decision \<Rightarrow> scanner_decision + scanner_decision" where
  "decodeScannerDecision d = Inr d"

definition fingerprintHost :: "string \<Rightarrow> string" where
  "fingerprintHost host =
     (let normalized = js_lower (js_trim host);
          tld = last (js_split CHR ''.'' normalized);
          first3 = take 3 normalized;
          last3 = drop (length normalized - 3) normalized
      in first3 @ ''...'' @ last3 @ ''.'' @ tld)"

definition destinationFromUrl :: "url \<Rightarrow> destination" where
  "destinationFromUrl u =
     \<lparr>dst_display_host = hostname u, dst_fingerprint = fingerprintHost (hostname u),
      dst_url = href u, dst_resolver_url = None, dst_final_url = None\<rparr>"


subsection \<open>A decision as JSON\<close>

definition opt_prop :: "string \<Rightarrow> ('a \<Rightarrow> jsval) \<Rightarrow> 'a option \<Rightarrow> (string \<times> jsval) list" where
  "opt_prop k f x = (case x of None \<Rightarrow> [] | Some y \<Rightarrow> [(k, f y)])"

definition strings_json :: "string list \<Rightarrow> jsval" where
  "strings_json xs = JArr (map JStr xs)"

definition int_json :: "int \<Rightarrow> jsval" where
  "int_json n = JNum (Fin (of_int n))"

definition trust_step_json :: "trust_step \<Rightarrow> jsval" where
  "trust_step_json t = JObj ([(''status'', JStr (ts_status t)), (''label'', JStr (ts_label t)),
     (''message'', JStr (ts_message t))] @ opt_prop ''reason_codes'' strings_json (ts_reason_codes t))"

fun color_string :: "decision_color \<Rightarrow> string" where
  "color_string Green = ''green''"
| "color_string Orange = ''orange''"
| "color_string Red = ''red''"

fun freshness_string :: "cache_freshness_status \<Rightarrow> string" where
  "freshness_string Fresh = ''fresh''"
| "freshness_string Stale = ''stale''"
| "freshness_string Expired = ''expired''"
| "freshness_string Unavailable_cache = ''unavailable''"
| "freshness_string Not_applicable = ''not_applicable''"

definition governance_json :: "governance_projection \<Rightarrow> jsval" where
  "governance_json g = JObj [(''root_program_id'', JStr (gp_root_program_id g)),
     (''delegated_authority_id'', JStr (gp_delegated_authority_id g)),
     (''issuer_id'', JStr (gp_issuer_id g)),
     (''destination_policy_id'', JStr (gp_destination_policy_id g))]"

definition decision_json :: "scanner_decision \<Rightarrow> jsval" where
  "decision_json d =
     (let dst = sd_destination d; tp = sd_trust_path d; ho = sd_hold_to_open d;
          cf = sd_cache_freshness d
      in JObj ([(''decision_id'', JStr (sd_decision_id d)), (''decided_at'', JStr (sd_decided_at d)),
          (''decision_color'', JStr (color_string (sd_decision_color d))),
          (''decision_state'', JStr (sd_decision_state d)),
          (''reason_codes'', strings_json (sd_reason_codes d))]
        @ opt_prop ''risk_score'' int_json (sd_risk_score d)
        @ [(''destination'', JObj ([(''display_host'', JStr (dst_display_host dst)),
              (''fingerprint'', JStr (dst_fingerprint dst)), (''url'', JStr (dst_url dst))]
              @ opt_prop ''resolver_url'' JStr (dst_resolver_url dst)
              @ opt_prop ''final_url'' JStr (dst_final_url dst))),
           (''trust_path'', JObj [
              (''issuer_legitimacy'', trust_step_json (tp_issuer_legitimacy tp)),
              (''destination_binding'', trust_step_json (tp_destination_binding tp)),
              (''runtime_safety'', trust_step_json (tp_runtime_safety tp)),
              (''scanner_decision'', trust_step_json (tp_scanner_decision tp))]),
           (''hold_to_open'', JObj [(''required'', JBool (ho_required ho)),
              (''duration_ms'', int_json (ho_duration_ms ho)),
              (''reason_codes'', strings_json (ho_reason_codes ho))]),
           (''cache_freshness'', JObj ([(''status'', JStr (freshness_string (cf_status cf)))]
              @ opt_prop ''cache_generated_at'' JStr (cf_cache_generated_at cf)
              @ opt_prop ''cache_expires_at'' JStr (cf_cache_expires_at cf)))]
        @ opt_prop ''governance'' governance_json (sd_governance d)))"


subsection \<open>Facts\<close>

lemma fingerprint_length: "length (fingerprintHost host) \<ge> 4"
  by (simp add: fingerprintHost_def Let_def)

lemma decode_envelope_Inr [simp]:
  "decodeEventEnvelope P e = Inr e' \<longleftrightarrow> envelope_valid P e \<and> e' = e"
  by (auto simp: decodeEventEnvelope_def)

end
