(* ===== verification/DomainProof.thy ===== *)
theory DomainProof
  imports Fixtures Hash
begin

text \<open>
  The domain-proof boundary of \<^verbatim>\<open>network/src/services/domain-proof.ts\<close> and the publication
  gate of \<^verbatim>\<open>destination-policy-publication-gate.ts\<close>: whether an issuer has proved control of
  every host a destination policy approves, before the policy may be published.

  Building the URL of a host can throw in the host's URL parser; the left of the sum is that
  defect. Reason codes are the strings of the sources.
\<close>

subsection \<open>Types\<close>

datatype domain_proof_method =
  Dns_txt | Https_well_known | Payment_processor | Enterprise_directory | Manual_review

datatype proof_verification_status =
  Proof_pending | Proof_verified | Proof_failed | Proof_expired | Proof_revoked

datatype enrollment_status =
  Enrollment_pending | Enrollment_active | Enrollment_suspended | Enrollment_revoked
| Enrollment_expired

datatype domain_control_status =
  Control_verified | Control_pending | Control_failed | Control_expired | Control_revoked
| Control_missing | Control_not_evaluated

record issuer_enrollment =
  ie_namespace :: issuer_namespace
  ie_issuer_display_name :: string
  ie_assurance_tier :: string
  ie_enrollment_status :: enrollment_status

record domain_proof =
  dpr_namespace :: issuer_namespace
  dpr_domain :: string
  dpr_proof_method :: domain_proof_method
  dpr_verification_status :: proof_verification_status
  dpr_verified_at :: "string option"
  dpr_expires_at :: "string option"
  dpr_evidence_ref :: "string option"

record boundary_decision =
  bd_issuer_active :: bool
  bd_domain_control :: domain_control_status
  bd_supports_binding :: bool
  bd_reason_codes :: "string list"
  bd_matched_domain :: "string option"
  bd_proof_method :: "domain_proof_method option"
  bd_proof_expires_at :: "string option"

record gate_input =
  gi_issuer :: issuer_enrollment
  gi_destination_policy :: destination_policy_projection
  gi_domain_proofs :: "domain_proof list"
  gi_observed_at :: int

record host_decision =
  hd_destination_id :: string
  hd_host :: string
  hd_evaluated_url :: string
  hd_domain_control :: domain_control_status
  hd_supports_binding :: bool
  hd_publishable :: bool
  hd_reason_codes :: "string list"
  hd_matched_domain :: "string option"
  hd_proof_method :: "domain_proof_method option"
  hd_proof_expires_at :: "string option"

record rule_decision =
  rd_destination_id :: string
  rd_expected_final_url :: string
  rd_publishable :: bool
  rd_host_decisions :: "host_decision list"
  rd_reason_codes :: "string list"

datatype publication_status = Publishable | Publication_blocked

record gate_decision =
  gd_publication_status :: publication_status
  gd_publishable :: bool
  gd_reason_codes :: "string list"
  gd_rule_decisions :: "rule_decision list"
  gd_verified_hosts :: "string list"
  gd_blocked_hosts :: "string list"


subsection \<open>Domain-proof boundary\<close>

definition normalizeDomain :: "string \<Rightarrow> string" where
  "normalizeDomain domain = drop_trailing_dot (js_lower (js_trim domain))"

definition covers_host :: "bool \<Rightarrow> string \<Rightarrow> string \<Rightarrow> bool" where
  "covers_host subdomains normalized host =
     (host = normalized \<or> (subdomains \<and> suffix (''.'' @ normalized) host))"

definition hostMatchesAllowedHost :: "destination_policy_rule \<Rightarrow> string \<Rightarrow> string \<Rightarrow> bool" where
  "hostMatchesAllowedHost rule allowedHost destinationHost =
     covers_host (dr_allow_subdomains rule) (normalizeDomain allowedHost) destinationHost"

definition proofCoversDestination :: "destination_policy_rule \<Rightarrow> string \<Rightarrow> string \<Rightarrow> bool" where
  "proofCoversDestination rule proofDomain destinationHost =
     covers_host (dr_allow_subdomains rule) (normalizeDomain proofDomain) destinationHost"

definition isSubdomainOfAnyAllowedHost :: "destination_policy_rule \<Rightarrow> string \<Rightarrow> bool" where
  "isSubdomainOfAnyAllowedHost rule destinationHost =
     list_ex (\<lambda>allowedHost. suffix (''.'' @ normalizeDomain allowedHost) destinationHost)
       (dr_allowed_hosts rule)"

definition matchingDestinationRule ::
  "destination_policy_rule list \<Rightarrow> string \<Rightarrow> destination_policy_rule option" where
  "matchingDestinationRule rules destinationHost =
     find (\<lambda>rule. list_ex (\<lambda>allowedHost. hostMatchesAllowedHost rule allowedHost destinationHost)
             (dr_allowed_hosts rule)) rules"

definition mostSpecificDomainProof ::
  "gate_input \<Rightarrow> destination_policy_rule \<Rightarrow> string \<Rightarrow> domain_proof option" where
  "mostSpecificDomainProof input rule destinationHost =
     (case sort_by (\<lambda>l r. length (normalizeDomain (dpr_domain r)) \<le> length (normalizeDomain (dpr_domain l)))
             (filter (\<lambda>proof. proofCoversDestination rule (dpr_domain proof) destinationHost)
               (filter (\<lambda>proof. namespaceEquals (dpr_namespace proof) (ie_namespace (gi_issuer input)))
                 (gi_domain_proofs input))) of
        [] \<Rightarrow> None | proof # _ \<Rightarrow> Some proof)"

fun control_of_status :: "proof_verification_status \<Rightarrow> domain_control_status" where
  "control_of_status Proof_pending = Control_pending"
| "control_of_status Proof_verified = Control_verified"
| "control_of_status Proof_failed = Control_failed"
| "control_of_status Proof_expired = Control_expired"
| "control_of_status Proof_revoked = Control_revoked"

definition effectiveDomainControlStatus ::
  "platform \<Rightarrow> domain_proof \<Rightarrow> int \<Rightarrow> domain_control_status" where
  "effectiveDomainControlStatus P proof observedAt =
     (if dpr_verification_status proof = Proof_verified \<and>
         (case keep_truthy (dpr_expires_at proof) of None \<Rightarrow> False
          | Some e \<Rightarrow> js_le e (iso_string P observedAt))
      then Control_expired else control_of_status (dpr_verification_status proof))"

fun reasonCodeForProofStatus :: "domain_control_status \<Rightarrow> string" where
  "reasonCodeForProofStatus Control_verified = ''domain_proof_verified''"
| "reasonCodeForProofStatus Control_pending = ''domain_proof_pending''"
| "reasonCodeForProofStatus Control_failed = ''domain_proof_failed''"
| "reasonCodeForProofStatus Control_expired = ''domain_proof_expired''"
| "reasonCodeForProofStatus Control_revoked = ''domain_proof_revoked''"
| "reasonCodeForProofStatus Control_missing = ''domain_proof_missing''"
| "reasonCodeForProofStatus Control_not_evaluated = ''domain_proof_missing''"

definition no_binding :: "bool \<Rightarrow> domain_control_status \<Rightarrow> string list \<Rightarrow> boundary_decision" where
  "no_binding active control codes =
     \<lparr>bd_issuer_active = active, bd_domain_control = control, bd_supports_binding = False,
      bd_reason_codes = codes, bd_matched_domain = None, bd_proof_method = None,
      bd_proof_expires_at = None\<rparr>"

definition evaluateDomainProofBoundary ::
  "platform \<Rightarrow> gate_input \<Rightarrow> url \<Rightarrow> boundary_decision" where
  "evaluateDomainProofBoundary P input destination_url =
     (if ie_enrollment_status (gi_issuer input) \<noteq> Enrollment_active then
        no_binding False Control_not_evaluated [''domain_control_not_identity'', ''issuer_not_active'']
      else
        let codes = [''domain_control_not_identity'', ''issuer_active''];
            destinationHost = normalizeDomain (hostname destination_url)
        in case matchingDestinationRule
                  (dp_approved_destinations (gi_destination_policy input)) destinationHost of
             None \<Rightarrow> no_binding True Control_not_evaluated
                       (codes @ [''destination_policy_host_not_approved''])
           | Some rule \<Rightarrow>
               (let codes = codes @ [''destination_policy_host_approved'']
                in case mostSpecificDomainProof input rule destinationHost of
                     None \<Rightarrow> no_binding True Control_missing
                       (codes @ (if isSubdomainOfAnyAllowedHost rule destinationHost \<and>
                                    \<not> dr_allow_subdomains rule
                                 then [''subdomain_requires_explicit_policy''] else [])
                              @ [''domain_proof_missing''])
                   | Some proof \<Rightarrow>
                       (let domainControl = effectiveDomainControlStatus P proof (gi_observed_at input)
                        in \<lparr>bd_issuer_active = True, bd_domain_control = domainControl,
                            bd_supports_binding = (domainControl = Control_verified),
                            bd_reason_codes = codes @ [reasonCodeForProofStatus domainControl],
                            bd_matched_domain = Some (normalizeDomain (dpr_domain proof)),
                            bd_proof_method = Some (dpr_proof_method proof),
                            bd_proof_expires_at = keep_truthy (dpr_expires_at proof)\<rparr>)))"


subsection \<open>Publication gate\<close>

definition is_dns_label :: "string \<Rightarrow> bool" where
  "is_dns_label label =
     (label \<noteq> [] \<and> length label \<le> 63 \<and> \<not> prefix ''-'' label \<and> \<not> suffix ''-'' label \<and>
      list_all (\<lambda>c. (97 \<le> (of_char c :: nat) \<and> of_char c \<le> (122 :: nat)) \<or> is_digit c \<or> c = CHR ''-'')
        label)"

text \<open>The host test shared by the gate and by the two policy decoders, on a normalised host.\<close>

definition dns_hostname_ok :: "string \<Rightarrow> bool" where
  "dns_hostname_ok host =
     (\<not> (host = [] \<or> length host > 253 \<or> sublist ''://'' host \<or>
         CHR ''/'' \<in> set host \<or> CHR '':'' \<in> set host \<or> list_ex is_js_space host) \<and>
      list_all is_dns_label (js_split CHR ''.'' host))"

definition isDnsHostname :: "string \<Rightarrow> bool" where
  "isDnsHostname value = dns_hostname_ok (normalizeDomain value)"

definition uniqueStrings :: "string list \<Rightarrow> string list" where
  "uniqueStrings values = js_unique (filter (\<lambda>v. v \<noteq> []) values)"

definition parseExpectedFinalUrl :: "platform \<Rightarrow> string \<Rightarrow> url option" where
  "parseExpectedFinalUrl P value =
     (case new_url P value of
        None \<Rightarrow> None
      | Some u \<Rightarrow> if protocol u \<noteq> ''https:'' \<or> username u \<noteq> [] \<or> password u \<noteq> [] then None
                  else Some u)"

definition destinationHostCandidates :: "destination_policy_rule \<Rightarrow> url \<Rightarrow> string list" where
  "destinationHostCandidates rule expectedUrl =
     uniqueStrings (hostname expectedUrl # map normalizeDomain (dr_allowed_hosts rule))"

definition urlForHost :: "platform \<Rightarrow> string \<Rightarrow> string \<Rightarrow> defect + url" where
  "urlForHost P host proto =
     (case new_url P (proto @ ''//'' @ host @ ''/'') of
        None \<Rightarrow> Inl (InvalidUrl (proto @ ''//'' @ host @ ''/'')) | Some u \<Rightarrow> Inr u)"

definition evaluateHostPublication ::
  "platform \<Rightarrow> gate_input \<Rightarrow> string \<Rightarrow> url \<Rightarrow> host_decision" where
  "evaluateHostPublication P input destinationId destinationUrl =
     (let boundary = evaluateDomainProofBoundary P input destinationUrl;
          publishable = bd_supports_binding boundary \<and> bd_domain_control boundary = Control_verified
      in \<lparr>hd_destination_id = destinationId,
          hd_host = normalizeDomain (hostname destinationUrl),
          hd_evaluated_url = href destinationUrl,
          hd_domain_control = bd_domain_control boundary,
          hd_supports_binding = bd_supports_binding boundary,
          hd_publishable = publishable,
          hd_reason_codes = js_unique (bd_reason_codes boundary @
            [if publishable then ''destination_policy_host_verified''
             else ''destination_policy_host_not_verified'']),
          hd_matched_domain = keep_truthy (bd_matched_domain boundary),
          hd_proof_method = bd_proof_method boundary,
          hd_proof_expires_at = keep_truthy (bd_proof_expires_at boundary)\<rparr>)"

definition blocked_rule :: "destination_policy_rule \<Rightarrow> string \<Rightarrow> rule_decision" where
  "blocked_rule rule code =
     \<lparr>rd_destination_id = dr_destination_id rule,
      rd_expected_final_url = dr_expected_final_url rule, rd_publishable = False,
      rd_host_decisions = [], rd_reason_codes = [code, ''destination_policy_rule_blocked'']\<rparr>"

definition evaluateRulePublication ::
  "platform \<Rightarrow> gate_input \<Rightarrow> destination_policy_rule \<Rightarrow> defect + rule_decision" where
  "evaluateRulePublication P input rule =
     (case parseExpectedFinalUrl P (dr_expected_final_url rule) of
        None \<Rightarrow> Inr (blocked_rule rule ''destination_policy_expected_url_invalid'')
      | Some expectedUrl \<Rightarrow>
          (let hostCandidates = destinationHostCandidates rule expectedUrl
           in if list_ex (\<lambda>host. \<not> isDnsHostname host) hostCandidates then
                Inr (blocked_rule rule ''destination_policy_host_invalid'')
              else
                and_then (map_result (\<lambda>host. urlForHost P host (protocol expectedUrl)) hostCandidates)
                  (\<lambda>hostUrls.
                    let hostDecisions =
                          map (evaluateHostPublication P input (dr_destination_id rule)) hostUrls;
                        publishable = hostDecisions \<noteq> [] \<and> list_all hd_publishable hostDecisions
                    in Inr \<lparr>rd_destination_id = dr_destination_id rule,
                            rd_expected_final_url = dr_expected_final_url rule,
                            rd_publishable = publishable,
                            rd_host_decisions = hostDecisions,
                            rd_reason_codes = js_unique (concat (map hd_reason_codes hostDecisions) @
                              [if publishable then ''destination_policy_rule_publishable''
                               else ''destination_policy_rule_blocked''])\<rparr>)))"

definition blocked_gate :: "string \<Rightarrow> gate_decision" where
  "blocked_gate code =
     \<lparr>gd_publication_status = Publication_blocked, gd_publishable = False,
      gd_reason_codes = [code], gd_rule_decisions = [], gd_verified_hosts = [],
      gd_blocked_hosts = []\<rparr>"

definition evaluateDestinationPolicyPublicationGate ::
  "platform \<Rightarrow> gate_input \<Rightarrow> defect + gate_decision" where
  "evaluateDestinationPolicyPublicationGate P input =
     (if \<not> namespaceEquals (ie_namespace (gi_issuer input)) (dp_namespace (gi_destination_policy input)) then
        Inr (blocked_gate ''destination_policy_issuer_namespace_mismatch'')
      else if dp_approved_destinations (gi_destination_policy input) = [] then
        Inr (blocked_gate ''destination_policy_has_no_destinations'')
      else
        and_then (map_result (evaluateRulePublication P input)
                    (dp_approved_destinations (gi_destination_policy input)))
          (\<lambda>ruleDecisions.
            let hosts = (\<lambda>p. concat (map (\<lambda>rd. map hd_host (filter p (rd_host_decisions rd))) ruleDecisions));
                publishable = ruleDecisions \<noteq> [] \<and> list_all rd_publishable ruleDecisions
            in Inr \<lparr>gd_publication_status = (if publishable then Publishable else Publication_blocked),
                    gd_publishable = publishable,
                    gd_reason_codes = js_unique (concat (map rd_reason_codes ruleDecisions)),
                    gd_rule_decisions = ruleDecisions,
                    gd_verified_hosts = uniqueStrings (hosts hd_publishable),
                    gd_blocked_hosts = uniqueStrings (hosts (\<lambda>h. \<not> hd_publishable h))\<rparr>))"


subsection \<open>What a publishable gate means\<close>

text \<open>
  Control of the host of a URL is proved: the issuer is active, a policy rule approves the
  host, and a verified proof of the issuer's own namespace covers the host and has not
  expired at the observation time.
\<close>

definition proof_current :: "platform \<Rightarrow> domain_proof \<Rightarrow> int \<Rightarrow> bool" where
  "proof_current P proof now \<longleftrightarrow>
     dpr_verification_status proof = Proof_verified \<and>
     (case keep_truthy (dpr_expires_at proof) of None \<Rightarrow> True
      | Some e \<Rightarrow> js_less (iso_string P now) e)"

definition host_proved :: "platform \<Rightarrow> gate_input \<Rightarrow> url \<Rightarrow> bool" where
  "host_proved P input u \<longleftrightarrow>
     ie_enrollment_status (gi_issuer input) = Enrollment_active \<and>
     (\<exists>rule \<in> set (dp_approved_destinations (gi_destination_policy input)).
        (\<exists>h \<in> set (dr_allowed_hosts rule). hostMatchesAllowedHost rule h (normalizeDomain (hostname u))) \<and>
        (\<exists>proof \<in> set (gi_domain_proofs input).
           dpr_namespace proof = ie_namespace (gi_issuer input) \<and>
           proofCoversDestination rule (dpr_domain proof) (normalizeDomain (hostname u)) \<and>
           proof_current P proof (gi_observed_at input)))"

definition rule_proved :: "platform \<Rightarrow> gate_input \<Rightarrow> destination_policy_rule \<Rightarrow> bool" where
  "rule_proved P input rule \<longleftrightarrow>
     (\<exists>u. parseExpectedFinalUrl P (dr_expected_final_url rule) = Some u \<and>
        (\<forall>host \<in> set (destinationHostCandidates rule u).
           isDnsHostname host \<and>
           (\<exists>hu. urlForHost P host (protocol u) = Inr hu \<and> host_proved P input hu)))"

lemma set_sort_by [simp]: "set (sort_by le xs) = set xs"
  by (metis mset_sort_by set_mset_mset)

lemma mostSpecific_Some:
  assumes "mostSpecificDomainProof input rule host = Some proof"
  shows "proof \<in> set (gi_domain_proofs input)" "dpr_namespace proof = ie_namespace (gi_issuer input)"
    "proofCoversDestination rule (dpr_domain proof) host"
proof -
  obtain ps where "sort_by (\<lambda>l r. length (normalizeDomain (dpr_domain r)) \<le> length (normalizeDomain (dpr_domain l)))
      (filter (\<lambda>proof. proofCoversDestination rule (dpr_domain proof) host)
        (filter (\<lambda>proof. namespaceEquals (dpr_namespace proof) (ie_namespace (gi_issuer input)))
          (gi_domain_proofs input))) = proof # ps"
    using assms by (auto simp: mostSpecificDomainProof_def split: list.splits)
  from this [THEN arg_cong, of set]
  show "proof \<in> set (gi_domain_proofs input)" "dpr_namespace proof = ie_namespace (gi_issuer input)"
    "proofCoversDestination rule (dpr_domain proof) host"
    by auto
qed

lemma control_verified:
  "effectiveDomainControlStatus P proof now = Control_verified \<longleftrightarrow> proof_current P proof now"
  by (cases "dpr_verification_status proof")
     (auto simp: effectiveDomainControlStatus_def proof_current_def js_le_def split: option.splits)

lemma no_binding_fields [simp]: "\<not> bd_supports_binding (no_binding a c cs)"
  by (simp add: no_binding_def)

lemma boundary_supports:
  assumes "bd_supports_binding (evaluateDomainProofBoundary P input u)"
  shows "host_proved P input u"
proof -
  let ?host = "normalizeDomain (hostname u)"
  obtain rule proof' where
    rule: "matchingDestinationRule (dp_approved_destinations (gi_destination_policy input)) ?host = Some rule"
    and proof': "mostSpecificDomainProof input rule ?host = Some proof'"
    and active: "ie_enrollment_status (gi_issuer input) = Enrollment_active"
    and current: "proof_current P proof' (gi_observed_at input)"
    using assms
    by (auto simp: evaluateDomainProofBoundary_def Let_def control_verified split: if_splits option.splits)
  have "rule \<in> set (dp_approved_destinations (gi_destination_policy input)) \<and>
      (\<exists>h \<in> set (dr_allowed_hosts rule). hostMatchesAllowedHost rule h ?host)"
    using rule unfolding matchingDestinationRule_def list_ex_iff by (auto dest: find_SomeD)
  then show ?thesis
    unfolding host_proved_def using active current mostSpecific_Some [OF proof'] by blast
qed

lemma host_publishable:
  "hd_publishable (evaluateHostPublication P input i u) \<Longrightarrow> host_proved P input u"
  by (auto simp: evaluateHostPublication_def Let_def intro: boundary_supports)

lemma map_result_pointwise:
  "map_result f xs = Inr ys \<Longrightarrow> x \<in> set xs \<Longrightarrow> \<exists>y \<in> set ys. f x = Inr y"
  by (induction xs arbitrary: ys) (auto simp: and_then_Inr)

lemma rule_publishable:
  assumes "evaluateRulePublication P input rule = Inr rd" and "rd_publishable rd"
  shows "rule_proved P input rule"
proof -
  obtain u where u: "parseExpectedFinalUrl P (dr_expected_final_url rule) = Some u"
    using assms by (auto simp: evaluateRulePublication_def blocked_rule_def split: option.splits)
  obtain us where us: "map_result (\<lambda>host. urlForHost P host (protocol u)) (destinationHostCandidates rule u) = Inr us"
    and dns: "\<forall>host \<in> set (destinationHostCandidates rule u). isDnsHostname host"
    and pub: "\<forall>hu \<in> set us. hd_publishable (evaluateHostPublication P input (dr_destination_id rule) hu)"
    using assms u
    by (auto simp: evaluateRulePublication_def blocked_rule_def Let_def and_then_Inr list_ex_iff
        list_all_iff split: if_splits)
  show ?thesis
    unfolding rule_proved_def
    using u dns pub map_result_pointwise [OF us] host_publishable by blast
qed

text \<open>
  The gate lets a destination policy be published only when the policy is in the
  issuer's namespace and, for every approved destination, the expected URL is https without
  credentials and every host it names is a DNS name whose control an active issuer has
  proved with a verified, unexpired proof.
\<close>

lemma publishable_gate_has_domain_control:
  assumes "evaluateDestinationPolicyPublicationGate P input = Inr gate" and "gd_publishable gate"
  shows "dp_namespace (gi_destination_policy input) = ie_namespace (gi_issuer input) \<and>
    dp_approved_destinations (gi_destination_policy input) \<noteq> [] \<and>
    (\<forall>rule \<in> set (dp_approved_destinations (gi_destination_policy input)). rule_proved P input rule)"
proof -
  let ?rules = "dp_approved_destinations (gi_destination_policy input)"
  obtain rds where rds: "map_result (evaluateRulePublication P input) ?rules = Inr rds"
    and all: "list_all rd_publishable rds"
    and ns: "dp_namespace (gi_destination_policy input) = ie_namespace (gi_issuer input)" "?rules \<noteq> []"
    using assms
    by (auto simp: evaluateDestinationPolicyPublicationGate_def blocked_gate_def Let_def and_then_Inr
        split: if_splits)
  have "rule_proved P input rule" if "rule \<in> set ?rules" for rule
    using map_result_pointwise [OF rds that] all rule_publishable by (auto simp: list_all_iff)
  with ns show ?thesis by blast
qed

definition fx_enrollment :: issuer_enrollment where
  "fx_enrollment = \<lparr>ie_namespace = fx_ns, ie_issuer_display_name = ''I'', ie_assurance_tier = ''t'',
     ie_enrollment_status = Enrollment_active\<rparr>"

definition fx_proof :: domain_proof where
  "fx_proof = \<lparr>dpr_namespace = fx_ns, dpr_domain = ''H.x.'', dpr_proof_method = Dns_txt,
     dpr_verification_status = Proof_verified, dpr_verified_at = None,
     dpr_expires_at = Some ''2026-12-31T00:00:00.000Z'', dpr_evidence_ref = None\<rparr>"

definition fx_gate_input :: gate_input where
  "fx_gate_input = \<lparr>gi_issuer = fx_enrollment, gi_destination_policy = fx_policy,
     gi_domain_proofs = [fx_proof], gi_observed_at = fx_now\<rparr>"

text \<open>
  The gate's host test accepts names that a URL parser rejects: a host whose last label is
  a number is read as an IPv4 address, so \<^verbatim>\<open>new URL("https://1.2.3.256/")\<close> throws. The
  policy is then not blocked with a reason; the evaluation ends in a defect.
\<close>

lemma dns_hostname_may_not_be_a_url_host:
  assumes "new_url P ''https://h.x/pay'' = Some fx_pay" and "new_url P ''https://1.2.3.256/'' = None"
    and "new_url P ''https://h.x/'' = Some fx_pay"
  shows "isDnsHostname ''1.2.3.256'' \<and>
    evaluateDestinationPolicyPublicationGate P
      (fx_gate_input\<lparr>gi_destination_policy :=
         fx_policy\<lparr>dp_approved_destinations := [fx_rule\<lparr>dr_allowed_hosts := [''1.2.3.256'']\<rparr>]\<rparr>\<rparr>)
      = Inl (InvalidUrl ''https://1.2.3.256/'')"
proof -
  have dns: "isDnsHostname ''1.2.3.256''" by code_simp
  let ?r = "fx_rule\<lparr>dr_allowed_hosts := [''1.2.3.256'']\<rparr>"
  have c: "destinationHostCandidates ?r fx_pay = [''h.x'', ''1.2.3.256'']"
    and d: "list_ex (\<lambda>host. \<not> isDnsHostname host) [''h.x'', ''1.2.3.256''] = False"
    and e: "parseExpectedFinalUrl P ''https://h.x/pay'' = Some fx_pay" "protocol fx_pay = ''https:''"
    using assms(1) by (code_simp, code_simp, auto simp: parseExpectedFinalUrl_def fx_pay_def fx_url_def)
  have "evaluateRulePublication P i ?r = Inl (InvalidUrl ''https://1.2.3.256/'')" for i
    using assms(2,3) c d e
    by (simp add: evaluateRulePublication_def fx_rule_def urlForHost_def Let_def)
  then show ?thesis
    using dns by (simp add: evaluateDestinationPolicyPublicationGate_def fx_gate_input_def
        fx_policy_def fx_enrollment_def)
qed

end
