(* ===== verification/EventBus.thy ===== *)
theory EventBus
  imports Contracts DomainProof
begin

text \<open>
  Events and artifacts: \<^verbatim>\<open>network/src/services/event-bus.ts\<close>, \<^verbatim>\<open>artifact-store.ts\<close> and
  \<^verbatim>\<open>artifact-publication.ts\<close>. The bus and the store are interfaces of the sources
  (\<^verbatim>\<open>EventBusShape\<close>, \<^verbatim>\<open>ArtifactStoreShape\<close>); a service takes their operations as arguments
  and threads their state. The in-memory providers interpret the two locales.
\<close>

subsection \<open>Types\<close>

record signed_artifact =
  sa_artifact_id :: string
  sa_artifact_hash :: string
  sa_artifact_type :: string
  sa_version :: int
  sa_body :: jsval

text \<open>What an event carries besides its envelope.\<close>

datatype event_body = NoBody | DecisionBody scanner_decision | ArtifactBody signed_artifact | JsonBody jsval

record network_event =
  ne_envelope :: event_envelope
  ne_body :: event_body

text \<open>The causes that the errors of the modelled services carry.\<close>

datatype cause =
    EnvelopeRejected event_envelope
  | DecisionRejected scanner_decision
  | CheckFailed check_error
  | GateBlocked gate_decision
  | EventDetail string string string
  | OtherCause jsval

type_synonym net_error = "cause network_error"

text \<open>How an effect ends: with a value, with a typed error, or with a defect.\<close>

datatype 'a outcome = Done 'a | Failed net_error | Died defect

text \<open>A call of a stateful interface: the new state, and its error or its result.\<close>

type_synonym ('s, 'a) call = "'s \<Rightarrow> 's \<times> (net_error + 'a)"


subsection \<open>Interfaces\<close>

locale event_bus =
  fixes publish :: "network_event \<Rightarrow> ('b, unit) call"
    and recent :: "'b \<Rightarrow> network_event list"
  assumes publish_recent: "publish e b = (b', Inr ()) \<Longrightarrow> recent b' = recent b @ [e]"
    and publish_failed: "publish e b = (b', Inl err) \<Longrightarrow> recent b' = recent b"

locale artifact_store =
  fixes put :: "signed_artifact \<Rightarrow> ('s, signed_artifact) call"
    and get :: "string \<Rightarrow> 's \<Rightarrow> signed_artifact option"
  assumes put_get: "put a s = (s', Inr a') \<Longrightarrow>
        a' = a \<and> get k s' = (if k = sa_artifact_id a then Some a else get k s)"
    and put_failed: "put a s = (s', Inl err) \<Longrightarrow> get k s' = get k s"


subsection \<open>In-memory providers\<close>

definition memory_publish :: "network_event \<Rightarrow> (network_event list, unit) call" where
  "memory_publish event events = (events @ [event], Inr ())"

definition memory_recent :: "network_event list \<Rightarrow> network_event list" where
  "memory_recent events = events"

definition makeInMemoryArtifactStore :: "signed_artifact list \<Rightarrow> (string \<times> signed_artifact) list" where
  "makeInMemoryArtifactStore initial =
     fold (\<lambda>a. js_map_set (sa_artifact_id a) a) initial []"

definition memory_put :: "signed_artifact \<Rightarrow> ((string \<times> signed_artifact) list, signed_artifact) call" where
  "memory_put artifact artifacts =
     (js_map_set (sa_artifact_id artifact) artifact artifacts, Inr artifact)"

definition memory_get :: "string \<Rightarrow> (string \<times> signed_artifact) list \<Rightarrow> signed_artifact option" where
  "memory_get artifactId artifacts = map_of artifacts artifactId"

interpretation memory_bus: event_bus memory_publish memory_recent
  by unfold_locales (auto simp: memory_publish_def memory_recent_def)

interpretation memory_store: artifact_store memory_put memory_get
  by unfold_locales (auto simp: memory_put_def memory_get_def AList.update_conv')


subsection \<open>Artifact publication\<close>

record artifact_publication_input =
  ap_artifact_type :: string
  ap_artifact_id :: string
  ap_version :: int
  ap_root_program_id :: string
  ap_body :: jsval
  ap_occurredAt :: int
  ap_eventType :: string
  ap_delegated_authority_id :: "string option"
  ap_issuer_id :: "string option"
  ap_destination_policy_id :: "string option"
  ap_artifact_ref :: "string option"
  ap_previous_version :: "int option"
  ap_reason :: "string option"

record artifact_publication_result =
  pr_artifact :: signed_artifact
  pr_event :: network_event

definition eventIdForPublication :: "platform \<Rightarrow> string \<Rightarrow> signed_artifact \<Rightarrow> string" where
  "eventIdForPublication P eventType artifact =
     ''evt_'' @ hashJson P (JObj [(''artifact_hash'', JStr (sa_artifact_hash artifact)),
       (''artifact_id'', JStr (sa_artifact_id artifact)), (''event_type'', JStr eventType),
       (''version'', int_json (sa_version artifact))])"

definition publication_envelope ::
  "platform \<Rightarrow> artifact_publication_input \<Rightarrow> signed_artifact \<Rightarrow> event_envelope" where
  "publication_envelope P input stored =
     \<lparr>ee_event_id = eventIdForPublication P (ap_eventType input) stored,
      ee_type = ap_eventType input,
      ee_occurred_at = iso_string P (ap_occurredAt input),
      ee_root_program_id = ap_root_program_id input,
      ee_delegated_authority_id = keep_truthy (ap_delegated_authority_id input),
      ee_issuer_id = keep_truthy (ap_issuer_id input),
      ee_destination_policy_id = keep_truthy (ap_destination_policy_id input),
      ee_artifact_id = sa_artifact_id stored,
      ee_artifact_hash = sa_artifact_hash stored,
      ee_artifact_ref = keep_truthy (ap_artifact_ref input),
      ee_version = sa_version stored,
      ee_previous_version =
        (case ap_previous_version input of None \<Rightarrow> None | Some v \<Rightarrow> if v = 0 then None else Some v),
      ee_reason = keep_truthy (ap_reason input)\<rparr>"

definition publishArtifact ::
  "platform \<Rightarrow> (signed_artifact \<Rightarrow> ('s, signed_artifact) call) \<Rightarrow>
     (network_event \<Rightarrow> ('b, unit) call) \<Rightarrow> artifact_publication_input \<Rightarrow>
     ('s \<times> 'b, artifact_publication_result) call" where
  "publishArtifact P put publish input st =
     (let (s, b) = st;
          artifact = \<lparr>sa_artifact_id = ap_artifact_id input,
                      sa_artifact_hash = sha256_of P (ap_body input),
                      sa_artifact_type = ap_artifact_type input,
                      sa_version = ap_version input, sa_body = ap_body input\<rparr>
      in case put artifact s of
           (s', Inl e) \<Rightarrow> ((s', b), Inl e)
         | (s', Inr stored) \<Rightarrow>
             (case decodeEventEnvelope P (publication_envelope P input stored) of
                Inl e \<Rightarrow> ((s', b), Inl (ContractValidationError
                  ''Artifact publication event failed contract validation.'' (EnvelopeRejected e)))
              | Inr envelope \<Rightarrow>
                  (let event = \<lparr>ne_envelope = envelope, ne_body = ArtifactBody stored\<rparr>
                   in case publish event b of
                        (b', Inl e) \<Rightarrow> ((s', b'), Inl e)
                      | (b', Inr _) \<Rightarrow>
                          ((s', b'), Inr \<lparr>pr_artifact = stored, pr_event = event\<rparr>))))"

locale publication_backend = artifact_store put get + event_bus publish recent
  for put :: "signed_artifact \<Rightarrow> ('s, signed_artifact) call"
    and get :: "string \<Rightarrow> 's \<Rightarrow> signed_artifact option"
    and publish :: "network_event \<Rightarrow> ('b, unit) call"
    and recent :: "'b \<Rightarrow> network_event list"
begin

lemma published_consistent:
  assumes "publishArtifact P put publish input (s, b) = ((s', b'), Inr res)"
  shows "get (ap_artifact_id input) s' = Some (pr_artifact res)"
    "recent b' = recent b @ [pr_event res]"
    "ee_artifact_hash (ne_envelope (pr_event res)) = sha256_of P (sa_body (pr_artifact res))"
    "sa_artifact_hash (pr_artifact res) = ee_artifact_hash (ne_envelope (pr_event res))"
    "ee_artifact_id (ne_envelope (pr_event res)) = ap_artifact_id input"
    "envelope_valid P (ne_envelope (pr_event res))"
    "sa_body (pr_artifact res) = ap_body input"
  using assms
  by (auto simp: publishArtifact_def Let_def publication_envelope_def
      split: prod.splits sum.splits dest!: put_get [where k = "ap_artifact_id input"] publish_recent)

lemma failed_not_announced:
  assumes "publishArtifact P put publish input (s, b) = ((s', b'), Inl e)"
  shows "recent b' = recent b"
  using assms
  by (auto simp: publishArtifact_def Let_def split: prod.splits sum.splits dest: publish_failed)

end

interpretation memory: publication_backend memory_put memory_get memory_publish memory_recent
  by unfold_locales

definition fx_publication :: artifact_publication_input where
  "fx_publication = \<lparr>ap_artifact_type = ''issuer_record'', ap_artifact_id = ''artifact:1'',
     ap_version = 1, ap_root_program_id = ''root:r'', ap_body = JObj [(''a'', JStr ''b'')],
     ap_occurredAt = fx_now, ap_eventType = ''issuer.record.published'',
     ap_delegated_authority_id = Some ''authority:a'', ap_issuer_id = None,
     ap_destination_policy_id = None, ap_artifact_ref = None, ap_previous_version = None,
     ap_reason = None\<rparr>"

text \<open>
  A successful publication stores the artifact under its id with the hash of its body,
  and appends exactly one event whose valid envelope names that artifact and that hash; a
  failed one appends no event.
\<close>

theorem publication_stores_and_announces:
  assumes "publishArtifact P memory_put memory_publish input (s, b) = ((s', b'), r)"
  shows "case r of
      Inl e \<Rightarrow> memory_recent b' = memory_recent b
    | Inr res \<Rightarrow> memory_get (ap_artifact_id input) s' = Some (pr_artifact res) \<and>
        memory_recent b' = memory_recent b @ [pr_event res] \<and>
        envelope_valid P (ne_envelope (pr_event res)) \<and>
        ee_artifact_id (ne_envelope (pr_event res)) = ap_artifact_id input \<and>
        ee_artifact_hash (ne_envelope (pr_event res)) = sa_artifact_hash (pr_artifact res) \<and>
        sa_artifact_hash (pr_artifact res) = sha256_of P (sa_body (pr_artifact res))"
proof (cases r)
  case (Inl e)
  then show ?thesis using assms memory.failed_not_announced by auto
next
  case (Inr res)
  then show ?thesis using assms memory.published_consistent [of P input s b s' b' res] by auto
qed

theorem publication_stores_and_announces_witness:
  "\<exists>s' b' res. publishArtifact fx_platform memory_put memory_publish fx_publication ([], []) =
      ((s', b'), Inr res) \<and>
     memory_get ''artifact:1'' s' = Some (pr_artifact res) \<and> memory_recent b' = [pr_event res]"
proof -
  let ?r = "publishArtifact fx_platform memory_put memory_publish fx_publication ([], [])"
  have "(case snd ?r of Inl _ \<Rightarrow> False | Inr _ \<Rightarrow> True)" by code_simp
  then obtain s' b' res where r: "?r = ((s', b'), Inr res)"
    by (cases ?r) (auto split: sum.splits)
  show ?thesis
    using publication_stores_and_announces [OF r] r by (auto simp: fx_publication_def memory_recent_def)
qed

end
