(* ===== verification/ScannerDecision.thy ===== *)
theory ScannerDecision
  imports VerifierCacheFacts RuntimeSafety EventBus
begin

text \<open>
  The scanner decision service, \<^verbatim>\<open>network/src/services/scanner-decision.ts\<close>: from the
  scanned payload to a green, orange or red decision, and the audit event. The verifier
  cache, the runtime provider and the event bus are arguments, as in
  \<^verbatim>\<open>makeScannerDecisionService\<close>; the random part of the decision id is an argument too.
\<close>

subsection \<open>Product states and their mapping to the protocol model\<close>

datatype operational_state =
    Verified_issuer
  | Verified_issuer_destination_risky
  | Verified_issuer_runtime_unavailable
  | Verified_issuer_runtime_blocked
  | Verified_issuer_cache_stale
  | Verified_issuer_cache_expired
  | Verified_issuer_cache_unavailable
  | Plain_url_unrecognized
  | Destination_policy_mismatch

datatype attention_level = Positive | Warning | Neutral | Block

datatype primary_state =
  State_verified_issuer | State_verified_issuer_destination_risky | State_blocked | State_unverified

fun operationalState :: "operational_state \<Rightarrow> string" where
  "operationalState Verified_issuer = ''verified_issuer''"
| "operationalState Verified_issuer_destination_risky = ''verified_issuer_destination_risky''"
| "operationalState Verified_issuer_runtime_unavailable = ''verified_issuer_runtime_unavailable''"
| "operationalState Verified_issuer_runtime_blocked = ''verified_issuer_runtime_blocked''"
| "operationalState Verified_issuer_cache_stale = ''verified_issuer_cache_stale''"
| "operationalState Verified_issuer_cache_expired = ''verified_issuer_cache_expired''"
| "operationalState Verified_issuer_cache_unavailable = ''verified_issuer_cache_unavailable''"
| "operationalState Plain_url_unrecognized = ''plain_url_unrecognized''"
| "operationalState Destination_policy_mismatch = ''destination_policy_mismatch''"

fun NETWORK_SCANNER_CONFORMANCE_MAPPING :: "operational_state \<Rightarrow> primary_state \<times> attention_level" where
  "NETWORK_SCANNER_CONFORMANCE_MAPPING Verified_issuer = (State_verified_issuer, Positive)"
| "NETWORK_SCANNER_CONFORMANCE_MAPPING Verified_issuer_destination_risky =
     (State_verified_issuer_destination_risky, Warning)"
| "NETWORK_SCANNER_CONFORMANCE_MAPPING Verified_issuer_runtime_unavailable =
     (State_verified_issuer, Warning)"
| "NETWORK_SCANNER_CONFORMANCE_MAPPING Verified_issuer_runtime_blocked = (State_blocked, Block)"
| "NETWORK_SCANNER_CONFORMANCE_MAPPING Verified_issuer_cache_stale = (State_unverified, Warning)"
| "NETWORK_SCANNER_CONFORMANCE_MAPPING Verified_issuer_cache_expired = (State_unverified, Warning)"
| "NETWORK_SCANNER_CONFORMANCE_MAPPING Verified_issuer_cache_unavailable = (State_unverified, Warning)"
| "NETWORK_SCANNER_CONFORMANCE_MAPPING Plain_url_unrecognized = (State_unverified, Neutral)"
| "NETWORK_SCANNER_CONFORMANCE_MAPPING Destination_policy_mismatch = (State_blocked, Block)"

text \<open>The result of the freshness check: fresh or one of the three that hold the scanner.\<close>

datatype freshness_check = Check_fresh | Check_stale | Check_expired | Check_unavailable

fun CACHE_OPERATIONAL_STATES :: "freshness_check \<Rightarrow> operational_state" where
  "CACHE_OPERATIONAL_STATES Check_stale = Verified_issuer_cache_stale"
| "CACHE_OPERATIONAL_STATES Check_expired = Verified_issuer_cache_expired"
| "CACHE_OPERATIONAL_STATES Check_unavailable = Verified_issuer_cache_unavailable"
| "CACHE_OPERATIONAL_STATES Check_fresh = Verified_issuer"

fun freshness_status :: "freshness_check \<Rightarrow> cache_freshness_status" where
  "freshness_status Check_fresh = Fresh"
| "freshness_status Check_stale = Stale"
| "freshness_status Check_expired = Expired"
| "freshness_status Check_unavailable = Unavailable_cache"

record scanner_decision_input =
  si_payload :: string
  si_issuerHintHost :: "string option"
  si_observedAt :: int


subsection \<open>Shared parts of a decision\<close>

definition step_of :: "string \<Rightarrow> string \<Rightarrow> string \<Rightarrow> string list option \<Rightarrow> trust_step" where
  "step_of status label message codes =
     \<lparr>ts_status = status, ts_label = label, ts_message = message, ts_reason_codes = codes\<rparr>"

definition issuer_recognized_step :: trust_step where
  "issuer_recognized_step = step_of ''recognized'' ''Issuer recognized''
     ''Issuer record resolved in verifier trust state.'' None"

definition destination_bound_step :: trust_step where
  "destination_bound_step = step_of ''bound'' ''Destination bound''
     ''Destination matches issuer policy.'' None"

definition bound_destination :: "destination \<Rightarrow> destination_resolution \<Rightarrow> destination" where
  "bound_destination dst res =
     dst\<lparr>dst_final_url := Some (default_str (dst_url dst) (res_final_url res)),
         dst_resolver_url := (case keep_truthy (res_resolver_url res) of
                                None \<Rightarrow> dst_resolver_url dst | Some r \<Rightarrow> Some r)\<rparr>"

definition hold :: "string list \<Rightarrow> hold_to_open" where
  "hold codes = \<lparr>ho_required = True, ho_duration_ms = 800, ho_reason_codes = codes\<rparr>"

definition freshness_of ::
  "cache_freshness_status \<Rightarrow> destination_resolution \<Rightarrow> cache_freshness" where
  "freshness_of status res =
     \<lparr>cf_status = status, cf_cache_generated_at = Some (ip_cache_generated_at (res_issuer res)),
      cf_cache_expires_at = Some (ip_cache_expires_at (res_issuer res))\<rparr>"

definition governance_of :: "destination_resolution \<Rightarrow> governance_projection" where
  "governance_of res =
     \<lparr>gp_root_program_id = ns_root_program_id (ip_namespace (res_issuer res)),
      gp_delegated_authority_id = ns_delegated_authority_id (ip_namespace (res_issuer res)),
      gp_issuer_id = ns_issuer_id (ip_namespace (res_issuer res)),
      gp_destination_policy_id = ip_destination_policy_id (res_issuer res)\<rparr>"

definition decision_id_of :: "string \<Rightarrow> string" where
  "decision_id_of uuid = ''decision_'' @ uuid"


subsection \<open>The six decisions\<close>

definition makeGreenDecision ::
  "platform \<Rightarrow> string \<Rightarrow> scanner_decision_input \<Rightarrow> destination \<Rightarrow> destination_resolution \<Rightarrow>
     runtime_safety_verdict \<Rightarrow> scanner_decision" where
  "makeGreenDecision P uuid input dst res v =
     \<lparr>sd_decision_id = decision_id_of uuid, sd_decided_at = iso_string P (si_observedAt input),
      sd_decision_color = Green, sd_decision_state = operationalState Verified_issuer,
      sd_reason_codes = [''issuer_recognized'', ''destination_bound''] @ rv_reason_codes v @ [''cache_fresh''],
      sd_risk_score = Some (rv_risk_score_delta v),
      sd_destination = bound_destination dst res,
      sd_trust_path = \<lparr>tp_issuer_legitimacy = issuer_recognized_step,
        tp_destination_binding = destination_bound_step,
        tp_runtime_safety = step_of ''clear'' ''Runtime clear'' (rv_message v) (Some (rv_reason_codes v)),
        tp_scanner_decision = step_of ''green'' ''Looks safe'' ''This QR is approved for this use.'' None\<rparr>,
      sd_hold_to_open = \<lparr>ho_required = False, ho_duration_ms = 0, ho_reason_codes = []\<rparr>,
      sd_cache_freshness = freshness_of Fresh res,
      sd_governance = Some (governance_of res)\<rparr>"

definition makeOrangeRuntimeCautionDecision ::
  "platform \<Rightarrow> string \<Rightarrow> scanner_decision_input \<Rightarrow> destination \<Rightarrow> destination_resolution \<Rightarrow>
     runtime_safety_verdict \<Rightarrow> scanner_decision" where
  "makeOrangeRuntimeCautionDecision P uuid input dst res v =
     (let unavailable = (rv_status v = Unavailable) in
     \<lparr>sd_decision_id = decision_id_of uuid, sd_decided_at = iso_string P (si_observedAt input),
      sd_decision_color = Orange,
      sd_decision_state = operationalState (if unavailable then Verified_issuer_runtime_unavailable
                                            else Verified_issuer_destination_risky),
      sd_reason_codes = [''issuer_recognized'', ''destination_bound''] @ rv_reason_codes v @ [''cache_fresh''],
      sd_risk_score = Some (max 30 (rv_risk_score_delta v)),
      sd_destination = bound_destination dst res,
      sd_trust_path = \<lparr>tp_issuer_legitimacy = issuer_recognized_step,
        tp_destination_binding = destination_bound_step,
        tp_runtime_safety = step_of (if unavailable then ''unavailable'' else ''risky'')
          (if unavailable then ''Runtime unavailable'' else ''Runtime risk'')
          (rv_message v) (Some (rv_reason_codes v)),
        tp_scanner_decision = step_of ''orange'' ''Use caution''
          (if unavailable
           then ''The issuer and destination are verified, but present-time safety could not be checked.''
           else ''Verified issuer, but destination risk was detected at scan time.'') None\<rparr>,
      sd_hold_to_open = hold (rv_reason_codes v),
      sd_cache_freshness = freshness_of Fresh res,
      sd_governance = Some (governance_of res)\<rparr>)"

definition makeRedRuntimeBlockedDecision ::
  "platform \<Rightarrow> string \<Rightarrow> scanner_decision_input \<Rightarrow> destination \<Rightarrow> destination_resolution \<Rightarrow>
     runtime_safety_verdict \<Rightarrow> scanner_decision" where
  "makeRedRuntimeBlockedDecision P uuid input dst res v =
     \<lparr>sd_decision_id = decision_id_of uuid, sd_decided_at = iso_string P (si_observedAt input),
      sd_decision_color = Red, sd_decision_state = operationalState Verified_issuer_runtime_blocked,
      sd_reason_codes = [''issuer_recognized'', ''destination_bound''] @ rv_reason_codes v @ [''cache_fresh''],
      sd_risk_score = Some (max 60 (rv_risk_score_delta v)),
      sd_destination = bound_destination dst res,
      sd_trust_path = \<lparr>tp_issuer_legitimacy = issuer_recognized_step,
        tp_destination_binding = destination_bound_step,
        tp_runtime_safety = step_of ''blocked'' ''Runtime blocked'' (rv_message v) (Some (rv_reason_codes v)),
        tp_scanner_decision = step_of ''red'' ''Do not open''
          ''The issuer and destination are verified, but present-time safety policy blocks opening.'' None\<rparr>,
      sd_hold_to_open = hold (rv_reason_codes v),
      sd_cache_freshness = freshness_of Fresh res,
      sd_governance = Some (governance_of res)\<rparr>"

definition makeRuntimeAwareBoundDecision ::
  "platform \<Rightarrow> string \<Rightarrow> scanner_decision_input \<Rightarrow> destination \<Rightarrow> destination_resolution \<Rightarrow>
     runtime_safety_verdict \<Rightarrow> scanner_decision" where
  "makeRuntimeAwareBoundDecision P uuid input dst res v =
     (if rv_status v = Blocked then makeRedRuntimeBlockedDecision P uuid input dst res v
      else if rv_status v = Risky \<or> rv_status v = Unavailable then
        makeOrangeRuntimeCautionDecision P uuid input dst res v
      else makeGreenDecision P uuid input dst res v)"

definition cache_code :: "freshness_check \<Rightarrow> string" where
  "cache_code status = ''cache_'' @ freshness_string (freshness_status status)"

definition makeOrangeCacheRefreshDecision ::
  "platform \<Rightarrow> string \<Rightarrow> scanner_decision_input \<Rightarrow> destination \<Rightarrow> destination_resolution \<Rightarrow>
     freshness_check \<Rightarrow> scanner_decision" where
  "makeOrangeCacheRefreshDecision P uuid input dst res status =
     \<lparr>sd_decision_id = decision_id_of uuid, sd_decided_at = iso_string P (si_observedAt input),
      sd_decision_color = Orange,
      sd_decision_state = operationalState (CACHE_OPERATIONAL_STATES status),
      sd_reason_codes = [''issuer_recognized'', ''destination_bound'', cache_code status],
      sd_risk_score = Some 40,
      sd_destination = bound_destination dst res,
      sd_trust_path = \<lparr>tp_issuer_legitimacy = issuer_recognized_step,
        tp_destination_binding = destination_bound_step,
        tp_runtime_safety = step_of ''not_evaluated'' ''Runtime not evaluated''
          ''Runtime safety is not evaluated until the verifier cache refreshes.''
          (Some [cache_code status]),
        tp_scanner_decision = step_of ''orange'' ''Refresh needed''
          ''The issuer and destination are recognized, but verifier cache freshness must be restored before this can be green.''
          None\<rparr>,
      sd_hold_to_open = hold [cache_code status],
      sd_cache_freshness = freshness_of (freshness_status status) res,
      sd_governance = Some (governance_of res)\<rparr>"

definition makeOrangeUnrecognizedDecision ::
  "platform \<Rightarrow> string \<Rightarrow> scanner_decision_input \<Rightarrow> destination \<Rightarrow> scanner_decision" where
  "makeOrangeUnrecognizedDecision P uuid input dst =
     \<lparr>sd_decision_id = decision_id_of uuid, sd_decided_at = iso_string P (si_observedAt input),
      sd_decision_color = Orange, sd_decision_state = operationalState Plain_url_unrecognized,
      sd_reason_codes = [''plain_url_without_trust_signal'', ''destination_visible_unverified''],
      sd_risk_score = Some 30, sd_destination = dst,
      sd_trust_path = \<lparr>tp_issuer_legitimacy = step_of ''unknown'' ''Issuer unknown''
          ''No signed trust path was found for this QR.'' None,
        tp_destination_binding = step_of ''unverified'' ''Destination unverified''
          ''A destination was read from the QR, but it was not checked against issuer policy.'' None,
        tp_runtime_safety = step_of ''not_evaluated'' ''Runtime not evaluated''
          ''Runtime safety is not evaluated without a trust path.'' None,
        tp_scanner_decision = step_of ''orange'' ''Use caution''
          ''This QR is a normal link without a recognized trust signal.'' None\<rparr>,
      sd_hold_to_open = hold [''destination_visible_unverified''],
      sd_cache_freshness = \<lparr>cf_status = Not_applicable, cf_cache_generated_at = None,
                            cf_cache_expires_at = None\<rparr>,
      sd_governance = None\<rparr>"

definition destinationBindingMessage :: "string list \<Rightarrow> string" where
  "destinationBindingMessage reasonCodes =
     (if ''redirect_final_destination_mismatch'' \<in> set reasonCodes then
        ''The resolver final destination is outside the issuer-approved policy.''
      else if ''redirect_hop_limit_exceeded'' \<in> set reasonCodes then
        ''The resolver chain exceeds the issuer-approved hop limit.''
      else if ''redirect_hop_count_invalid'' \<in> set reasonCodes then
        ''The resolver did not report a valid redirect hop count.''
      else if ''destination_path_not_approved'' \<in> set reasonCodes then
        ''The destination path is outside the issuer-approved policy.''
      else if ''destination_query_not_approved'' \<in> set reasonCodes then
        ''The destination query is outside the issuer-approved policy.''
      else if ''nested_shortener_not_allowed'' \<in> set reasonCodes then
        ''The destination uses a nested shortener that this issuer policy forbids.''
      else ''The destination is outside the issuer-approved policy.'')"

definition makeRedDestinationMismatchDecision ::
  "platform \<Rightarrow> string \<Rightarrow> scanner_decision_input \<Rightarrow> destination \<Rightarrow> destination_resolution \<Rightarrow>
     scanner_decision" where
  "makeRedDestinationMismatchDecision P uuid input dst res =
     \<lparr>sd_decision_id = decision_id_of uuid, sd_decided_at = iso_string P (si_observedAt input),
      sd_decision_color = Red, sd_decision_state = operationalState Destination_policy_mismatch,
      sd_reason_codes = ''issuer_recognized'' # res_reason_codes res,
      sd_risk_score = Some 70,
      sd_destination = dst\<lparr>
        dst_resolver_url := (case keep_truthy (res_resolver_url res) of
                               None \<Rightarrow> dst_resolver_url dst | Some r \<Rightarrow> Some r),
        dst_final_url := (case keep_truthy (res_final_url res) of
                            None \<Rightarrow> dst_final_url dst | Some f \<Rightarrow> Some f)\<rparr>,
      sd_trust_path = \<lparr>tp_issuer_legitimacy = issuer_recognized_step,
        tp_destination_binding = step_of ''mismatch'' ''Destination mismatch''
          (destinationBindingMessage (res_reason_codes res)) (Some (res_reason_codes res)),
        tp_runtime_safety = step_of ''secondary'' ''Runtime secondary''
          ''Destination binding failure is terminal before runtime safety can rescue it.'' None,
        tp_scanner_decision = step_of ''red'' ''Do not open''
          ''This QR points outside the issuer-approved destination set.'' None\<rparr>,
      sd_hold_to_open = hold (res_reason_codes res),
      sd_cache_freshness = freshness_of Fresh res,
      sd_governance = Some (governance_of res)\<rparr>"


subsection \<open>Deciding\<close>

definition cacheFreshnessStatus ::
  "platform \<Rightarrow> destination_resolution \<Rightarrow> int \<Rightarrow> freshness_check" where
  "cacheFreshnessStatus P res observedAt =
     (case (date_parse P (ip_cache_expires_at (res_issuer res)),
            date_parse P (ip_cache_generated_at (res_issuer res))) of
        (Some expiresAt, Some generatedAt) \<Rightarrow>
          if generatedAt > observedAt then Check_stale
          else if expiresAt \<le> observedAt then Check_expired
          else Check_fresh
      | _ \<Rightarrow> Check_unavailable)"

definition runtime_input ::
  "url \<Rightarrow> destination_resolution \<Rightarrow> scanner_decision_input \<Rightarrow> runtime_safety_input" where
  "runtime_input destinationUrl res input =
     \<lparr>rsi_destinationUrl = destinationUrl,
      rsi_resolverUrl = keep_truthy (res_resolver_url res),
      rsi_finalUrl = keep_truthy (res_final_url res),
      rsi_observedRedirectHops = res_observed_redirect_hops res,
      rsi_observedAt = si_observedAt input\<rparr>"

definition makeDecisionFromResolution ::
  "platform \<Rightarrow> string \<Rightarrow> scanner_decision_input \<Rightarrow> url \<Rightarrow> destination \<Rightarrow>
     destination_resolution option \<Rightarrow> runtime_provider \<Rightarrow> defect + scanner_decision" where
  "makeDecisionFromResolution P uuid input destinationUrl dst resolution inspect =
     (case resolution of
        None \<Rightarrow> Inr (makeOrangeUnrecognizedDecision P uuid input dst)
      | Some res \<Rightarrow>
          if res_binding_status res \<noteq> Bound then
            Inr (makeRedDestinationMismatchDecision P uuid input dst res)
          else
            (let freshnessStatus = cacheFreshnessStatus P res (si_observedAt input)
             in if freshnessStatus \<noteq> Check_fresh then
                  Inr (makeOrangeCacheRefreshDecision P uuid input dst res freshnessStatus)
                else
                  and_then (inspect (runtime_input destinationUrl res input))
                    (\<lambda>v. Inr (makeRuntimeAwareBoundDecision P uuid input dst res v))))"

definition decision_event :: "platform \<Rightarrow> scanner_decision \<Rightarrow> governance_projection \<Rightarrow> network_event" where
  "decision_event P d g =
     \<lparr>ne_envelope =
        \<lparr>ee_event_id = ''evt_'' @ sd_decision_id d,
         ee_type = ''scanner.decision.recorded'',
         ee_occurred_at = sd_decided_at d,
         ee_root_program_id = gp_root_program_id g,
         ee_delegated_authority_id = Some (gp_delegated_authority_id g),
         ee_issuer_id = Some (gp_issuer_id g),
         ee_destination_policy_id = Some (gp_destination_policy_id g),
         ee_artifact_id = sd_decision_id d,
         ee_artifact_hash = sha256_of P (decision_json d),
         ee_artifact_ref = None, ee_version = 1, ee_previous_version = None,
         ee_reason = Some (js_join '','' (sd_reason_codes d))\<rparr>,
      ne_body = DecisionBody d\<rparr>"

definition decide ::
  "platform \<Rightarrow> (url \<Rightarrow> string option \<Rightarrow> destination_resolution option) \<Rightarrow> runtime_provider \<Rightarrow>
     (network_event \<Rightarrow> ('b, unit) call) \<Rightarrow> string \<Rightarrow> scanner_decision_input \<Rightarrow> 'b \<Rightarrow>
     'b \<times> scanner_decision outcome" where
  "decide P resolve inspect publish uuid input bus =
     (case new_url P (si_payload input) of
        None \<Rightarrow> (bus, Failed (destinationParseError (si_payload input)))
      | Some destinationUrl \<Rightarrow>
          (case makeDecisionFromResolution P uuid input destinationUrl (destinationFromUrl destinationUrl)
                  (resolve destinationUrl (si_issuerHintHost input)) inspect of
             Inl d \<Rightarrow> (bus, Died d)
           | Inr decision \<Rightarrow>
               (case decodeScannerDecision decision of
                  Inl bad \<Rightarrow> (bus, Failed (ContractValidationError
                    ''Scanner decision failed contract validation.'' (DecisionRejected bad)))
                | Inr validated \<Rightarrow>
                    (case sd_governance validated of
                       None \<Rightarrow> (bus, Done validated)
                     | Some g \<Rightarrow>
                         (case publish (decision_event P validated g) bus of
                            (bus', Inl e) \<Rightarrow> (bus', Failed e)
                          | (bus', Inr _) \<Rightarrow> (bus', Done validated))))))"

end
