(* ===== verification/ScannerFacts.thy ===== *)
theory ScannerFacts
  imports ScannerDecision
begin

text \<open>
  What a scanner decision guarantees. The scanner is a client of three interfaces: the
  verifier cache, the runtime provider and the event bus; its lemmas are proved from their
  contracts in the locale \<open>scanner_client\<close> and used on the in-memory cache, the composite
  provider and the in-memory bus.
\<close>

subsection \<open>Shape of a decision\<close>

lemmas decision_makers = makeGreenDecision_def makeOrangeRuntimeCautionDecision_def
  makeRedRuntimeBlockedDecision_def makeOrangeCacheRefreshDecision_def
  makeOrangeUnrecognizedDecision_def makeRedDestinationMismatchDecision_def

text \<open>The attention level that a colour stands for.\<close>

fun attention_ok :: "decision_color \<Rightarrow> attention_level \<Rightarrow> bool" where
  "attention_ok Green a = (a = Positive)"
| "attention_ok Orange a = (a = Warning \<or> a = Neutral)"
| "attention_ok Red a = (a = Block)"

definition decision_wf :: "scanner_decision \<Rightarrow> bool" where
  "decision_wf d \<longleftrightarrow>
     list_ex (\<lambda>st. sd_decision_state d = operationalState st \<and>
              attention_ok (sd_decision_color d) (snd (NETWORK_SCANNER_CONFORMANCE_MAPPING st)))
       [Verified_issuer, Verified_issuer_destination_risky, Verified_issuer_runtime_unavailable,
        Verified_issuer_runtime_blocked, Verified_issuer_cache_stale, Verified_issuer_cache_expired,
        Verified_issuer_cache_unavailable, Plain_url_unrecognized, Destination_policy_mismatch] \<and>
     ho_required (sd_hold_to_open d) = (sd_decision_color d \<noteq> Green) \<and>
     ho_duration_ms (sd_hold_to_open d) = (if sd_decision_color d = Green then 0 else 800)"

lemma made_color [simp]:
  "sd_decision_color (makeGreenDecision P uuid i dst r v) = Green"
  "sd_decision_color (makeOrangeRuntimeCautionDecision P uuid i dst r v) = Orange"
  "sd_decision_color (makeRedRuntimeBlockedDecision P uuid i dst r v) = Red"
  "sd_decision_color (makeOrangeCacheRefreshDecision P uuid i dst r c) = Orange"
  "sd_decision_color (makeOrangeUnrecognizedDecision P uuid i dst) = Orange"
  "sd_decision_color (makeRedDestinationMismatchDecision P uuid i dst r) = Red"
  by (simp_all add: decision_makers Let_def)

lemma made_governance [simp]:
  "sd_governance (makeGreenDecision P uuid i dst r v) = Some (governance_of r)"
  "sd_governance (makeOrangeRuntimeCautionDecision P uuid i dst r v) = Some (governance_of r)"
  "sd_governance (makeRedRuntimeBlockedDecision P uuid i dst r v) = Some (governance_of r)"
  "sd_governance (makeOrangeCacheRefreshDecision P uuid i dst r c) = Some (governance_of r)"
  "sd_governance (makeOrangeUnrecognizedDecision P uuid i dst) = None"
  "sd_governance (makeRedDestinationMismatchDecision P uuid i dst r) = Some (governance_of r)"
  by (simp_all add: decision_makers Let_def)

lemma made_wf:
  "decision_wf (makeGreenDecision P uuid i dst r v)"
  "decision_wf (makeOrangeRuntimeCautionDecision P uuid i dst r v)"
  "decision_wf (makeRedRuntimeBlockedDecision P uuid i dst r v)"
  "c \<noteq> Check_fresh \<Longrightarrow> decision_wf (makeOrangeCacheRefreshDecision P uuid i dst r c)"
  "decision_wf (makeOrangeUnrecognizedDecision P uuid i dst)"
  "decision_wf (makeRedDestinationMismatchDecision P uuid i dst r)"
  by (cases c; simp add: decision_makers decision_wf_def hold_def Let_def)+

lemma status_Clear: "s \<noteq> Blocked \<Longrightarrow> s \<noteq> Risky \<Longrightarrow> s \<noteq> Unavailable \<Longrightarrow> s = Clear"
  by (cases s) auto

lemma aware_color:
  "sd_decision_color (makeRuntimeAwareBoundDecision P uuid i dst r v) =
     (case rv_status v of Clear \<Rightarrow> Green | Blocked \<Rightarrow> Red | _ \<Rightarrow> Orange)"
  by (cases "rv_status v") (simp_all add: makeRuntimeAwareBoundDecision_def)

lemma aware_rules [simp]:
  "decision_wf (makeRuntimeAwareBoundDecision P uuid i dst r v)"
  "sd_governance (makeRuntimeAwareBoundDecision P uuid i dst r v) = Some (governance_of r)"
  by (simp_all add: makeRuntimeAwareBoundDecision_def made_wf)

lemma fresh_iff:
  "cacheFreshnessStatus P r now = Check_fresh \<longleftrightarrow>
     (\<exists>e g. date_parse P (ip_cache_expires_at (res_issuer r)) = Some e \<and>
            date_parse P (ip_cache_generated_at (res_issuer r)) = Some g \<and> g \<le> now \<and> now < e)"
  by (auto simp: cacheFreshnessStatus_def not_less split: option.splits)

subsection \<open>The decision function\<close>

lemma resolution_decision_cases:
  assumes "makeDecisionFromResolution P uuid input u dst resolution inspect = Inr d"
  obtains (unknown) "resolution = None" "d = makeOrangeUnrecognizedDecision P uuid input dst"
  | (mismatch) r where "resolution = Some r" "res_binding_status r \<noteq> Bound"
      "d = makeRedDestinationMismatchDecision P uuid input dst r"
  | (stale) r where "resolution = Some r" "res_binding_status r = Bound"
      "cacheFreshnessStatus P r (si_observedAt input) \<noteq> Check_fresh"
      "d = makeOrangeCacheRefreshDecision P uuid input dst r
             (cacheFreshnessStatus P r (si_observedAt input))"
  | (inspected) r v where "resolution = Some r" "res_binding_status r = Bound"
      "cacheFreshnessStatus P r (si_observedAt input) = Check_fresh"
      "inspect (runtime_input u r input) = Inr v"
      "d = makeRuntimeAwareBoundDecision P uuid input dst r v"
  using assms
  by (auto simp: makeDecisionFromResolution_def Let_def and_then_Inr split: option.splits if_splits)

lemma decide_Done:
  assumes "decide P resolve inspect publish uuid input b = (b', Done d)"
  obtains u where "new_url P (si_payload input) = Some u"
    "makeDecisionFromResolution P uuid input u (destinationFromUrl u)
       (resolve u (si_issuerHintHost input)) inspect = Inr d"
    "case sd_governance d of None \<Rightarrow> b' = b
     | Some g \<Rightarrow> publish (decision_event P d g) b = (b', Inr ())"
  using assms
  by (auto simp: decide_def decodeScannerDecision_def
      split: option.splits sum.splits prod.splits)

text \<open>A green decision rests on exactly these facts.\<close>

definition green_grounds ::
  "platform \<Rightarrow> (url \<Rightarrow> string option \<Rightarrow> destination_resolution option) \<Rightarrow> runtime_provider \<Rightarrow>
     scanner_decision_input \<Rightarrow> url \<Rightarrow> destination_resolution \<Rightarrow> runtime_safety_verdict \<Rightarrow> bool" where
  "green_grounds P resolve inspect input u r v \<longleftrightarrow>
     new_url P (si_payload input) = Some u \<and> resolve u (si_issuerHintHost input) = Some r \<and>
     res_binding_status r = Bound \<and>
     cacheFreshnessStatus P r (si_observedAt input) = Check_fresh \<and>
     inspect (runtime_input u r input) = Inr v \<and> rv_status v = Clear"

lemma green_decision:
  assumes "decide P resolve inspect publish uuid input b = (b', Done d)" "sd_decision_color d = Green"
  obtains u r v where "green_grounds P resolve inspect input u r v"
    "d = makeGreenDecision P uuid input (destinationFromUrl u) r v"
  using assms(1)
proof (rule decide_Done)
  fix u
  assume u: "new_url P (si_payload input) = Some u"
    and "makeDecisionFromResolution P uuid input u (destinationFromUrl u)
           (resolve u (si_issuerHintHost input)) inspect = Inr d"
  from this(2) assms(2) show thesis
    by (cases rule: resolution_decision_cases)
       (auto simp: green_grounds_def u aware_color makeRuntimeAwareBoundDecision_def
          split: runtime_safety_status.splits if_splits intro!: that status_Clear)
qed

text \<open>The scanner as a client of the cache, the runtime provider and the bus.\<close>

locale scanner_client =
  cache: verifier_cache_reader resolve trusted +
  safety: runtime_verdict_provider inspect +
  bus: event_bus publish recent
  for resolve :: "'s \<Rightarrow> url \<Rightarrow> string option \<Rightarrow> destination_resolution option"
    and trusted :: "'s \<Rightarrow> issuer_namespace \<Rightarrow> bool"
    and inspect :: runtime_provider
    and publish :: "network_event \<Rightarrow> ('b, unit) call"
    and recent :: "'b \<Rightarrow> network_event list"
begin

lemma green_means:
  assumes "decide P (resolve s) inspect publish uuid input b = (b', Done d)"
    and "sd_decision_color d = Green"
  shows "\<exists>u r v. green_grounds P (resolve s) inspect input u r v \<and>
           trusted s (dp_namespace (res_policy r)) \<and> sd_risk_score d = Some 0 \<and>
           sd_governance d = Some (governance_of r)"
  using assms
proof (rule green_decision)
  fix u r v
  assume g: "green_grounds P (resolve s) inspect input u r v"
    and d: "d = makeGreenDecision P uuid input (destinationFromUrl u) r v"
  then have "trusted s (dp_namespace (res_policy r))" "rv_risk_score_delta v = 0"
    using cache.resolve_trusted safety.verdict_clear by (auto simp: green_grounds_def)
  with g d show ?thesis by (auto simp: makeGreenDecision_def)
qed

lemma published:
  assumes "decide P (resolve s) inspect publish uuid input b = (b', r)"
  shows "case r of
      Done d \<Rightarrow> recent b' = recent b @
        (case sd_governance d of None \<Rightarrow> [] | Some g \<Rightarrow> [decision_event P d g])
    | _ \<Rightarrow> recent b' = recent b"
proof (cases r)
  case (Done d)
  then show ?thesis
    using assms by (auto elim!: decide_Done split: option.splits dest: bus.publish_recent)
qed (use assms in \<open>auto simp: decide_def split: option.splits sum.splits prod.splits
       dest: bus.publish_failed\<close>)

end

text \<open>The standard inspection: the composite of the redirect inspector and the reputation provider.\<close>

definition standard_inspect ::
  "platform \<Rightarrow> redirect_inspector_options \<Rightarrow> reputation_options \<Rightarrow> runtime_provider" where
  "standard_inspect P ro po =
     composite_inspect P \<lparr>co_providerName = None, co_redirectInspector = Some (redirect_inspect P ro),
                          co_reputationProvider = Some (reputation_inspect P po)\<rparr>"

interpretation scanner: scanner_client "resolveByDestination P" namespace_trusted
  "standard_inspect P ro po" memory_publish memory_recent for P ro po
  unfolding standard_inspect_def by unfold_locales


subsection \<open>Timestamps\<close>

text \<open>
  The cache orders timestamps as strings. On timestamps of one format that is the order of
  the instants; \<open>chronological\<close> states it of a list of timestamps.
\<close>

definition chronological :: "platform \<Rightarrow> string list \<Rightarrow> bool" where
  "chronological P ts \<longleftrightarrow>
     list_all (\<lambda>a. list_all (\<lambda>b. case (date_parse P a, date_parse P b) of
       (Some x, Some y) \<Rightarrow> js_le a b \<longrightarrow> x \<le> y | _ \<Rightarrow> False) ts) ts"

definition cache_timestamps :: "verifier_cache \<Rightarrow> string list" where
  "cache_timestamps s =
     concat (map (\<lambda>(_, i). [ip_cache_generated_at i, ip_cache_expires_at i]) (issuersByPolicyKey s)) @
     concat (map (\<lambda>(_, p). [dp_cache_generated_at p, dp_cache_expires_at p]) (policiesByKey s))"

lemma chronologicalD:
  assumes "chronological P ts" "a \<in> set ts" "b \<in> set ts"
  shows "\<exists>x y. date_parse P a = Some x \<and> date_parse P b = Some y \<and> (js_le a b \<longrightarrow> x \<le> y) \<and>
           (js_le b a \<longrightarrow> y \<le> x)"
proof -
  have ab: "case (date_parse P c, date_parse P d) of (Some x, Some y) \<Rightarrow> js_le c d \<longrightarrow> x \<le> y | _ \<Rightarrow> False"
    if "c \<in> set ts" "d \<in> set ts" for c d
    using assms(1) that unfolding chronological_def list_all_iff by blast
  show ?thesis
    using ab [OF assms(2,3)] ab [OF assms(3,2)] by (auto split: option.splits)
qed

lemma min_instant:
  assumes "chronological P ts" "a \<in> set ts" "b \<in> set ts"
    and "date_parse P (minIsoDate a [b]) = Some e" "now < e"
  shows "\<exists>x y. date_parse P a = Some x \<and> date_parse P b = Some y \<and> now < x \<and> now < y"
  using chronologicalD [OF assms(1-3)] assms(4,5)
  by (cases "js_less b a") (auto simp: minIsoDate_pair js_not_less dest!: js_less_imp_le)

lemma max_instant:
  assumes "chronological P ts" "a \<in> set ts" "b \<in> set ts"
    and "date_parse P (maxIsoDate a [b]) = Some g" "g \<le> now"
  shows "\<exists>x y. date_parse P a = Some x \<and> date_parse P b = Some y \<and> x \<le> now \<and> y \<le> now"
  using chronologicalD [OF assms(1-3)] assms(4,5)
  by (cases "js_less a b") (auto simp: maxIsoDate_pair js_not_less dest!: js_less_imp_le)

definition within_window :: "platform \<Rightarrow> int \<Rightarrow> string \<Rightarrow> string \<Rightarrow> bool" where
  "within_window P now generated expires \<longleftrightarrow>
     (case (date_parse P generated, date_parse P expires) of
        (Some g, Some e) \<Rightarrow> g \<le> now \<and> now < e | _ \<Rightarrow> False)"

lemma fresh_within_windows:
  assumes "chronological P (cache_timestamps s)"
    and "resolveByDestination P s u h = Some r"
    and "cacheFreshnessStatus P r now = Check_fresh"
  shows "\<exists>i. map_of (issuersByPolicyKey s) (policy_key (res_policy r)) = Some i \<and>
    within_window P now (ip_cache_generated_at i) (ip_cache_expires_at i) \<and>
    within_window P now (dp_cache_generated_at (res_policy r)) (dp_cache_expires_at (res_policy r))"
  using assms(2)
proof (rule resolved_issuer)
  fix i host
  let ?p = "res_policy r"
  assume i: "map_of (issuersByPolicyKey s) (policy_key ?p) = Some i"
    and ri: "res_issuer r = materializeIssuer i ?p host"
  have mem: "ip_cache_generated_at i \<in> set (cache_timestamps s)"
    "ip_cache_expires_at i \<in> set (cache_timestamps s)"
    "dp_cache_generated_at ?p \<in> set (cache_timestamps s)"
    "dp_cache_expires_at ?p \<in> set (cache_timestamps s)"
    using map_of_SomeD [OF i] resolved_stored [OF assms(2)]
    by (force simp: cache_timestamps_def)+
  obtain e g where eg:
    "date_parse P (minIsoDate (ip_cache_expires_at i) [dp_cache_expires_at ?p]) = Some e"
    "date_parse P (maxIsoDate (ip_cache_generated_at i) [dp_cache_generated_at ?p]) = Some g"
    "g \<le> now" "now < e"
    using assms(3) by (auto simp: fresh_iff ri)
  show ?thesis
    using i min_instant [OF assms(1) mem(2,4) eg(1,4)] max_instant [OF assms(1) mem(1,3) eg(2,3)]
    by (auto simp: within_window_def)
qed


subsection \<open>No defect\<close>







subsection \<open>Properties\<close>

definition fx_scan :: "string \<Rightarrow> scanner_decision_input" where
  "fx_scan payload = \<lparr>si_payload = payload, si_issuerHintHost = None, si_observedAt = fx_now\<rparr>"

definition fx_calm :: reputation_options where
  "fx_calm = \<lparr>ro_providerName = None, ro_riskyHosts = None, ro_blockedHosts = None,
     ro_unavailableHosts = None, ro_newlyRegisteredHosts = None, ro_suspiciousTlds = None\<rparr>"

definition fx_decide :: "verifier_cache \<Rightarrow> string \<Rightarrow> network_event list \<times> scanner_decision outcome" where
  "fx_decide s payload =
     decide fx_platform (resolveByDestination fx_platform s)
       (standard_inspect fx_platform fx_redirect_options fx_calm) memory_publish ''u'' (fx_scan payload) []"

fun outcome_color :: "scanner_decision outcome \<Rightarrow> decision_color option" where
  "outcome_color (Done d) = Some (sd_decision_color d)"
| "outcome_color _ = None"

lemma outcome_color_Some: "outcome_color r = Some c \<Longrightarrow> \<exists>d. r = Done d \<and> sd_decision_color d = c"
  by (cases r) auto

lemma fx_decided:
  assumes "outcome_color (snd (fx_decide s payload)) = Some c"
  obtains b d where "fx_decide s payload = (b, Done d)" "sd_decision_color d = c"
  using outcome_color_Some [OF assms] by (cases "fx_decide s payload") auto

lemma fx_green: "outcome_color (snd (fx_decide fx_cache ''https://h.x/pay'')) = Some Green"
  by code_simp

text \<open>
  C1. A decision is green exactly when the payload parses, the cache resolves it as bound,
  the cache entry is fresh at the observed time, and the runtime verdict is clear.
\<close>

theorem green_iff_all_checks_pass:
  assumes "decide P resolve inspect publish uuid input b = (b', Done d)"
  shows "sd_decision_color d = Green \<longleftrightarrow>
    (\<exists>u r v. new_url P (si_payload input) = Some u \<and> resolve u (si_issuerHintHost input) = Some r \<and>
       res_binding_status r = Bound \<and>
       cacheFreshnessStatus P r (si_observedAt input) = Check_fresh \<and>
       inspect (runtime_input u r input) = Inr v \<and> rv_status v = Clear)"
  using assms
proof (rule decide_Done)
  fix u
  assume u: "new_url P (si_payload input) = Some u"
    and "makeDecisionFromResolution P uuid input u (destinationFromUrl u)
           (resolve u (si_issuerHintHost input)) inspect = Inr d"
  from this(2) show ?thesis
    by (cases rule: resolution_decision_cases)
       (auto simp: u aware_color split: runtime_safety_status.splits)
qed

theorem green_iff_all_checks_pass_witness:
  "\<exists>b d u r. fx_decide fx_cache ''https://h.x/pay'' = (b, Done d) \<and> sd_decision_color d = Green \<and>
     resolveByDestination fx_platform fx_cache u None = Some r \<and> res_binding_status r = Bound"
proof -
  obtain b d where d: "fx_decide fx_cache ''https://h.x/pay'' = (b, Done d)" "sd_decision_color d = Green"
    using fx_green by (rule fx_decided)
  show ?thesis
    using green_iff_all_checks_pass [OF d(1) [unfolded fx_decide_def]] d
    by (fastforce simp: fx_scan_def)
qed

text \<open>
  C2. With the in-memory cache and the standard runtime inspection, a green decision has
  risk score zero and names the issuer of a policy stored in the cache under an accepted root
  and an active authority, which approves the scanned URL directly or by a resolver within
  its hop limit.
\<close>

theorem green_decision_is_authorised:
  assumes "decide P (resolveByDestination P s) (standard_inspect P ro po) memory_publish uuid input b =
      (b', Done d)" and "sd_decision_color d = Green"
  shows "sd_risk_score d = Some 0 \<and>
    (\<exists>u r. new_url P (si_payload input) = Some u \<and>
       resolveByDestination P s u (si_issuerHintHost input) = Some r \<and>
       sd_governance d = Some (governance_of r) \<and>
       res_policy r \<in> snd ` set (policiesByKey s) \<and>
       namespace_trusted s (dp_namespace (res_policy r)) \<and>
       ((\<exists>rule. direct_ok (res_policy r) u rule) \<or>
        (\<exists>final hops. redirect_ok P (res_policy r) u final hops)))"
proof -
  obtain u r v where g: "green_grounds P (resolveByDestination P s) (standard_inspect P ro po) input u r v"
    and d: "namespace_trusted s (dp_namespace (res_policy r))" "sd_risk_score d = Some 0"
      "sd_governance d = Some (governance_of r)"
    using scanner.green_means [OF assms] by blast
  then have r: "resolveByDestination P s u (si_issuerHintHost input) = Some r"
    "res_binding_status r = Bound" "new_url P (si_payload input) = Some u"
    by (simp_all add: green_grounds_def)
  then obtain i p host where "r = resolveDestination P i p u host"
    by (auto elim: resolveByDestination_match)
  with r(2) have "(\<exists>rule. direct_ok (res_policy r) u rule) \<or>
      (\<exists>final hops. redirect_ok P (res_policy r) u final hops)"
    by (auto simp: resolveDestination_bound_iff split: option.splits)
  with d r resolved_stored [OF r(1)] show ?thesis by auto
qed

theorem green_decision_is_authorised_witness:
  "\<exists>b d. fx_decide fx_cache ''https://h.x/pay'' = (b, Done d) \<and> sd_risk_score d = Some 0 \<and>
     sd_governance d \<noteq> None"
proof -
  obtain b d where d: "fx_decide fx_cache ''https://h.x/pay'' = (b, Done d)" "sd_decision_color d = Green"
    using fx_green by (rule fx_decided)
  show ?thesis
    using green_decision_is_authorised [OF d(1) [unfolded fx_decide_def] d(2)] d(1) by auto
qed

text \<open>
  Every decision reports a state of the conformance mapping whose attention level
  matches its colour, and asks for the 800 ms hold exactly when it is not green.
\<close>

theorem decisions_conform_to_the_mapping:
  assumes "decide P resolve inspect publish uuid input b = (b', Done d)"
  shows "decision_wf d"
  using assms
proof (rule decide_Done)
  fix u
  assume "makeDecisionFromResolution P uuid input u (destinationFromUrl u)
           (resolve u (si_issuerHintHost input)) inspect = Inr d"
  then show ?thesis
    by (cases rule: resolution_decision_cases) (auto simp: made_wf)
qed

theorem decisions_conform_to_the_mapping_witness:
  "\<exists>b d. fx_decide fx_cache ''https://h.x/no'' = (b, Done d) \<and> decision_wf d \<and>
     sd_decision_color d = Red"
proof -
  have "outcome_color (snd (fx_decide fx_cache ''https://h.x/no'')) = Some Red" by code_simp
  then obtain b d where d: "fx_decide fx_cache ''https://h.x/no'' = (b, Done d)" "sd_decision_color d = Red"
    by (rule fx_decided)
  show ?thesis
    using decisions_conform_to_the_mapping [OF d(1) [unfolded fx_decide_def]] d by blast
qed

text \<open>
  A destination outside the issuer's policy is terminal: whatever runtime provider is
  used, the outcome is the same, and a decision is red with the mismatch state.
\<close>

theorem mismatch_is_terminal:
  assumes "new_url P (si_payload input) = Some u"
    and "resolve u (si_issuerHintHost input) = Some r" and "res_binding_status r = Mismatch"
    and "decide P resolve inspect publish uuid input b = (b', Done d)"
  shows "decide P resolve inspect' publish uuid input b = (b', Done d) \<and> sd_decision_color d = Red \<and>
    sd_decision_state d = ''destination_policy_mismatch'' \<and>
    sd_reason_codes d = ''issuer_recognized'' # res_reason_codes r"
  using assms
  by (auto simp: decide_def makeDecisionFromResolution_def decodeScannerDecision_def
      makeRedDestinationMismatchDecision_def split: option.splits sum.splits prod.splits)

theorem mismatch_is_terminal_witness:
  "\<exists>b d. decide fx_platform (resolveByDestination fx_platform fx_cache) (clear_inspect fx_platform)
       memory_publish ''u'' (fx_scan ''https://h.x/no'') [] = (b, Done d) \<and> sd_decision_color d = Red"
proof -
  have "outcome_color (snd (fx_decide fx_cache ''https://h.x/no'')) = Some Red" by code_simp
  then obtain b d where d: "fx_decide fx_cache ''https://h.x/no'' = (b, Done d)" by (rule fx_decided)
  have "map_option res_binding_status (resolveByDestination fx_platform fx_cache fx_other None) = Some Mismatch"
    by code_simp
  then obtain r where r: "resolveByDestination fx_platform fx_cache fx_other None = Some r"
    "res_binding_status r = Mismatch" by auto
  have u: "new_url fx_platform (si_payload (fx_scan ''https://h.x/no'')) = Some fx_other"
    by code_simp
  show ?thesis
    using mismatch_is_terminal [OF u _ r(2) d [unfolded fx_decide_def]] r(1)
    by (auto simp: fx_scan_def)
qed

text \<open>
  A decision under a governed issuer is published as exactly one event that carries it
  and its hash; a decision without governance, an error and a defect publish nothing.
\<close>

theorem governed_decisions_are_recorded:
  assumes "decide P (resolveByDestination P s) (standard_inspect P ro po) memory_publish uuid input b = (b', r)"
  shows "case r of
      Done d \<Rightarrow> memory_recent b' = memory_recent b @
        (case sd_governance d of None \<Rightarrow> [] | Some g \<Rightarrow> [decision_event P d g])
    | _ \<Rightarrow> memory_recent b' = memory_recent b"
  using scanner.published [OF assms] .

theorem governed_decisions_are_recorded_witness:
  "\<exists>b d g. fx_decide fx_cache ''https://h.x/pay'' = (b, Done d) \<and>
     memory_recent b = [decision_event fx_platform d g]"
proof -
  obtain b d where d: "fx_decide fx_cache ''https://h.x/pay'' = (b, Done d)"
    using fx_green by (rule fx_decided)
  have "(case snd (fx_decide fx_cache ''https://h.x/pay'') of Done d \<Rightarrow> sd_governance d \<noteq> None | _ \<Rightarrow> False)"
    by code_simp
  then obtain g where g: "sd_governance d = Some g" by (auto simp: d)
  show ?thesis
    using governed_decisions_are_recorded [OF d [unfolded fx_decide_def]] d g
    by (auto simp: memory_recent_def)
qed

text \<open>
  C7. When the cached timestamps order as strings the way they order as instants, a green
  decision lies inside the validity window of both the issuer record and the destination
  policy that answered it.
\<close>

theorem green_within_both_windows:
  assumes "chronological P (cache_timestamps s)"
    and "decide P (resolveByDestination P s) inspect publish uuid input b = (b', Done d)"
    and "sd_decision_color d = Green"
  shows "\<exists>i p. p \<in> snd ` set (policiesByKey s) \<and>
    map_of (issuersByPolicyKey s) (policy_key p) = Some i \<and>
    within_window P (si_observedAt input) (ip_cache_generated_at i) (ip_cache_expires_at i) \<and>
    within_window P (si_observedAt input) (dp_cache_generated_at p) (dp_cache_expires_at p)"
  using assms(2,3)
proof (rule green_decision)
  fix u r v
  assume "green_grounds P (resolveByDestination P s) inspect input u r v"
  then have r: "resolveByDestination P s u (si_issuerHintHost input) = Some r"
    "cacheFreshnessStatus P r (si_observedAt input) = Check_fresh"
    by (simp_all add: green_grounds_def)
  show ?thesis
    using fresh_within_windows [OF assms(1) r] resolved_stored [OF r(1)] by blast
qed

theorem green_within_both_windows_witness:
  "chronological fx_platform (cache_timestamps fx_cache) \<and>
   (\<exists>i. map_of (issuersByPolicyKey fx_cache) (policy_key fx_policy) = Some i \<and>
     within_window fx_platform fx_now (ip_cache_generated_at i) (ip_cache_expires_at i))"
proof -
  have c: "chronological fx_platform (cache_timestamps fx_cache)" by code_simp
  have p: "map snd (policiesByKey fx_cache) = [fx_policy]" by code_simp
  then have p: "snd ` set (policiesByKey fx_cache) = {fx_policy}"
    by (metis set_map list.set(1,2))
  obtain b d where d: "fx_decide fx_cache ''https://h.x/pay'' = (b, Done d)" "sd_decision_color d = Green"
    using fx_green by (rule fx_decided)
  show ?thesis
    using green_within_both_windows [OF c d(1) [unfolded fx_decide_def] d(2)] c
    by (auto simp: p fx_scan_def)
qed




text \<open>
  C3. After a delegated authority is removed from the cache, no later history that does not
  name it active again lets the scanner turn green for a policy of that authority.
\<close>

theorem removed_authority_never_green:
  assumes "\<forall>op \<in> set ops. \<not> reactivates key op"
    and "decide P (resolveByDestination P (cache_run ops (fst (removeDelegatedAuthority key s))))
           inspect publish uuid input b = (b', Done d)"
    and "sd_decision_color d = Green"
  shows "\<exists>u r. resolveByDestination P (cache_run ops (fst (removeDelegatedAuthority key s))) u
      (si_issuerHintHost input) = Some r \<and> sd_governance d = Some (governance_of r) \<and>
    \<not> delegatedAuthorityEquals (dp_namespace (res_policy r)) key"
  using assms(2,3)
proof (rule green_decision)
  fix u r v
  assume g: "green_grounds P (resolveByDestination P (cache_run ops (fst (removeDelegatedAuthority key s))))
      inspect input u r v" "d = makeGreenDecision P uuid input (destinationFromUrl u) r v"
  then show ?thesis
    using vc.removed_never_resolved [OF assms(1), of P s u "si_issuerHintHost input" r]
    by (fastforce simp: green_grounds_def cache_run_def)
qed

theorem removed_authority_never_green_witness:
  "\<exists>b d r. fx_decide (cache_run [] (fst (removeDelegatedAuthority fx_key fx_cache2)))
       ''https://h.x/pay'' = (b, Done d) \<and> sd_decision_color d = Green \<and>
     sd_governance d = Some (governance_of r) \<and>
     \<not> delegatedAuthorityEquals (dp_namespace (res_policy r)) fx_key"
proof -
  let ?s = "cache_run [] (fst (removeDelegatedAuthority fx_key fx_cache2))"
  have "outcome_color (snd (fx_decide ?s ''https://h.x/pay'')) = Some Green" by code_simp
  then obtain b d where d: "fx_decide ?s ''https://h.x/pay'' = (b, Done d)" "sd_decision_color d = Green"
    by (rule fx_decided)
  show ?thesis
    using removed_authority_never_green [OF _ d(1) [unfolded fx_decide_def] d(2)] d by auto
qed

end
