(* ===== verification/TrustKeys.thy ===== *)
theory TrustKeys
  imports VerifierCacheFacts
begin

text \<open>
  The trust key registry and the rotation policy, \<^verbatim>\<open>network/src/services/trust-key-registry.ts\<close>
  and \<^verbatim>\<open>key-rotation-policy.ts\<close>: the lookup of a signer's key, the status updates confined
  to a delegated authority, and the assessment of a planned or emergency rotation. Instants
  are milliseconds and durations whole seconds, both as \<^typ>\<open>int\<close>.
\<close>

subsection \<open>Keys and lookup\<close>

datatype trust_key_scope = Scope_root_program | Scope_delegated_authority

datatype trust_key_status = Key_active | Key_suspended | Key_revoked | Key_expired

datatype lookup_reason = Key_not_found | Key_not_active | Algorithm_not_accepted | Scope_mismatch

record trust_key_record =
  tk_key_id :: string
  tk_signer_id :: string
  tk_root_program_id :: string
  tk_algorithm_id :: string
  tk_scope :: trust_key_scope
  tk_status :: trust_key_status
  tk_public_key_material_ref :: string
  tk_public_key_material_pem :: "string option"
  tk_delegated_authority_id :: "string option"

record trust_key_lookup_input =
  li_signed_by :: string
  li_root_program_id :: string
  li_accepted_algorithm_ids :: "string list"
  li_delegated_authority_id :: "string option"

record trust_key_lookup_result =
  lr_key :: "trust_key_record option"
  lr_reason :: "lookup_reason option"

record trust_key_status_update =
  ku_root_program_id :: string
  ku_key_id :: string
  ku_status :: trust_key_status
  ku_delegated_authority_id :: "string option"

definition keyMatchesScope :: "trust_key_record \<Rightarrow> trust_key_lookup_input \<Rightarrow> bool" where
  "keyMatchesScope key input =
     (if tk_scope key = Scope_root_program then tk_signer_id key = li_root_program_id input
      else li_delegated_authority_id input \<noteq> None \<and>
           tk_delegated_authority_id key = li_delegated_authority_id input \<and>
           Some (tk_signer_id key) = li_delegated_authority_id input)"

definition selectTrustKeyForLookup ::
  "trust_key_record list \<Rightarrow> trust_key_lookup_input \<Rightarrow> trust_key_lookup_result" where
  "selectTrustKeyForLookup keys input =
     (let candidates = filter (\<lambda>c. tk_signer_id c = li_signed_by input \<and>
                                   tk_root_program_id c = li_root_program_id input) keys
      in case candidates of
           [] \<Rightarrow> \<lparr>lr_key = None, lr_reason = Some Key_not_found\<rparr>
         | firstCandidate # _ \<Rightarrow>
     (case filter (\<lambda>c. keyMatchesScope c input) candidates of
           [] \<Rightarrow> \<lparr>lr_key = Some firstCandidate, lr_reason = Some Scope_mismatch\<rparr>
         | firstScoped # restScoped \<Rightarrow>
     (case filter (\<lambda>c. tk_algorithm_id c \<in> set (li_accepted_algorithm_ids input))
             (firstScoped # restScoped) of
           [] \<Rightarrow> \<lparr>lr_key = Some firstScoped, lr_reason = Some Algorithm_not_accepted\<rparr>
         | firstAlgorithmMatch # restMatches \<Rightarrow>
     (case find (\<lambda>c. tk_status c = Key_active) (firstAlgorithmMatch # restMatches) of
           None \<Rightarrow> \<lparr>lr_key = Some firstAlgorithmMatch, lr_reason = Some Key_not_active\<rparr>
         | Some activeKey \<Rightarrow> \<lparr>lr_key = Some activeKey, lr_reason = None\<rparr>))))"


subsection \<open>The in-memory registry\<close>

type_synonym key_registry = "(string \<times> trust_key_record) list"

definition trustKeyIsWithinUpdateScope :: "trust_key_record \<Rightarrow> trust_key_status_update \<Rightarrow> bool" where
  "trustKeyIsWithinUpdateScope key input =
     (if tk_root_program_id key \<noteq> ku_root_program_id input then False
      else if ku_delegated_authority_id input = None then True
      else tk_delegated_authority_id key = ku_delegated_authority_id input)"

definition makeInMemoryTrustKeyRegistry :: "trust_key_record list \<Rightarrow> key_registry" where
  "makeInMemoryTrustKeyRegistry keys = fold (\<lambda>key. js_map_set (tk_key_id key) key) keys []"

definition registry_snapshot :: "key_registry \<Rightarrow> trust_key_record list" where
  "registry_snapshot records = map snd records"

definition lookupSignerKey :: "trust_key_lookup_input \<Rightarrow> key_registry \<Rightarrow> trust_key_lookup_result" where
  "lookupSignerKey input records = selectTrustKeyForLookup (registry_snapshot records) input"

definition upsertTrustKey :: "trust_key_record \<Rightarrow> key_registry \<Rightarrow> key_registry" where
  "upsertTrustKey key records = js_map_set (tk_key_id key) key records"

definition updateTrustKeyStatus :: "trust_key_status_update \<Rightarrow> key_registry \<Rightarrow> key_registry \<times> bool" where
  "updateTrustKeyStatus input records =
     (case map_of records (ku_key_id input) of
        None \<Rightarrow> (records, False)
      | Some key \<Rightarrow>
          if \<not> trustKeyIsWithinUpdateScope key input then (records, False)
          else (js_map_set (ku_key_id input) (key\<lparr>tk_status := ku_status input\<rparr>) records, True))"

text \<open>The calls that change the registry, and a history of them.\<close>

datatype registry_op = OpUpsertKey trust_key_record | OpUpdateKeyStatus trust_key_status_update

fun registry_step :: "registry_op \<Rightarrow> key_registry \<Rightarrow> key_registry" where
  "registry_step (OpUpsertKey key) records = upsertTrustKey key records"
| "registry_step (OpUpdateKeyStatus input) records = fst (updateTrustKeyStatus input records)"

definition registry_run :: "registry_op list \<Rightarrow> key_registry \<Rightarrow> key_registry" where
  "registry_run ops records = fold registry_step ops records"


subsection \<open>The demo keys\<close>

definition pem_block :: "string \<Rightarrow> string" where
  "pem_block body = ''-----BEGIN PUBLIC KEY-----'' @ [char_of (10 :: nat)] @ body @
     [char_of (10 :: nat)] @ ''-----END PUBLIC KEY-----''"

definition demoRootPublicKeyPem :: string where
  "demoRootPublicKeyPem = pem_block ''MCowBQYDK2VwAyEAseMBxIZiw1NaivXwFJ+8NldswDygR/KBWhRAXdyvAvs=''"

definition demoDelegatedAuthorityPublicKeyPem :: string where
  "demoDelegatedAuthorityPublicKeyPem =
     pem_block ''MCowBQYDK2VwAyEAJ2O6Y98hIMFptRCGOG1MNCp+3minvjf6egySST3gVAQ=''"

definition demoRootTrustKey :: trust_key_record where
  "demoRootTrustKey =
     \<lparr>tk_key_id = ''key:root:qrtrust-demo:2026:ed25519:v1'',
      tk_signer_id = ns_root_program_id (ip_namespace demoIssuerProjection),
      tk_root_program_id = ns_root_program_id (ip_namespace demoIssuerProjection),
      tk_algorithm_id = ''ed25519'', tk_scope = Scope_root_program, tk_status = Key_active,
      tk_public_key_material_ref = ''pem://fixture/root/qrtrust-demo-2026'',
      tk_public_key_material_pem = Some demoRootPublicKeyPem, tk_delegated_authority_id = None\<rparr>"

definition demoDelegatedAuthorityTrustKey :: trust_key_record where
  "demoDelegatedAuthorityTrustKey =
     \<lparr>tk_key_id = ''key:authority:qrtrust-demo:merchant-web:ed25519:v1'',
      tk_signer_id = ns_delegated_authority_id (ip_namespace demoIssuerProjection),
      tk_root_program_id = ns_root_program_id (ip_namespace demoIssuerProjection),
      tk_algorithm_id = ''ed25519'', tk_scope = Scope_delegated_authority, tk_status = Key_active,
      tk_public_key_material_ref = ''pem://fixture/authority/qrtrust-demo-merchant-web'',
      tk_public_key_material_pem = Some demoDelegatedAuthorityPublicKeyPem,
      tk_delegated_authority_id = Some (ns_delegated_authority_id (ip_namespace demoIssuerProjection))\<rparr>"

definition demoReplacementDelegatedAuthorityTrustKey :: trust_key_record where
  "demoReplacementDelegatedAuthorityTrustKey =
     demoDelegatedAuthorityTrustKey
       \<lparr>tk_key_id := ''key:authority:qrtrust-demo:merchant-web:ed25519:v2'',
        tk_public_key_material_ref := ''pem://fixture/authority/qrtrust-demo-merchant-web-v2''\<rparr>"

definition demo_registry :: key_registry where
  "demo_registry = makeInMemoryTrustKeyRegistry [demoRootTrustKey, demoDelegatedAuthorityTrustKey]"


subsection \<open>Rotation\<close>

datatype rotation_status = Rotation_accepted | Rotation_warning | Rotation_rejected

datatype rotation_reason =
    Planned_overlap_accepted
  | Same_key_id
  | Rotation_scope_mismatch
  | Root_program_mismatch
  | Signer_mismatch
  | Delegated_authority_mismatch
  | Next_key_not_active
  | Current_key_terminal_without_emergency
  | Overlap_too_short
  | Overlap_too_long
  | Verifier_cache_outlives_rotation
  | Emergency_revocation_not_applied
  | Emergency_revocation_sla_missed
  | Emergency_revocation_accepted

datatype rotation_instruction = Accept_overlap | Refresh_before_green | Fail_closed

record trust_key_rotation_policy =
  rk_scope :: trust_key_scope
  rk_minimum_overlap_seconds :: int
  rk_maximum_overlap_seconds :: int
  rk_emergency_revocation_sla_seconds :: int
  rk_cache_must_expire_before_retired_key :: bool

record trust_key_rotation_plan =
  rn_current_key :: trust_key_record
  rn_next_key :: trust_key_record
  rn_next_key_activates_at :: int
  rn_current_key_retires_at :: int
  rn_verifier_cache_expires_at :: "int option"
  rn_emergency_revoked_at :: "int option"
  rn_emergency_status_event_published_at :: "int option"

record trust_key_rotation_assessment =
  ra_status :: rotation_status
  ra_reason_codes :: "rotation_reason list"
  ra_overlap_seconds :: int
  ra_verifier_cache_instruction :: rotation_instruction

definition defaultRootTrustKeyRotationPolicy :: trust_key_rotation_policy where
  "defaultRootTrustKeyRotationPolicy =
     \<lparr>rk_scope = Scope_root_program, rk_minimum_overlap_seconds = 7 * 24 * 60 * 60,
      rk_maximum_overlap_seconds = 45 * 24 * 60 * 60,
      rk_emergency_revocation_sla_seconds = 60 * 60,
      rk_cache_must_expire_before_retired_key = True\<rparr>"

definition defaultDelegatedAuthorityTrustKeyRotationPolicy :: trust_key_rotation_policy where
  "defaultDelegatedAuthorityTrustKeyRotationPolicy =
     \<lparr>rk_scope = Scope_delegated_authority, rk_minimum_overlap_seconds = 24 * 60 * 60,
      rk_maximum_overlap_seconds = 14 * 24 * 60 * 60,
      rk_emergency_revocation_sla_seconds = 15 * 60,
      rk_cache_must_expire_before_retired_key = True\<rparr>"

definition rejectionCodes :: "rotation_reason list" where
  "rejectionCodes = [Same_key_id, Rotation_scope_mismatch, Root_program_mismatch, Signer_mismatch,
     Delegated_authority_mismatch, Next_key_not_active, Current_key_terminal_without_emergency,
     Overlap_too_short, Emergency_revocation_not_applied]"

definition secondsBetween :: "int \<Rightarrow> int \<Rightarrow> int" where
  "secondsBetween start end' = (end' - start) div 1000"

definition assessmentStatus :: "rotation_reason list \<Rightarrow> rotation_status" where
  "assessmentStatus reasonCodes =
     (if list_ex (\<lambda>code. code \<in> set rejectionCodes) reasonCodes then Rotation_rejected
      else if Overlap_too_long \<in> set reasonCodes \<or>
              Verifier_cache_outlives_rotation \<in> set reasonCodes \<or>
              Emergency_revocation_sla_missed \<in> set reasonCodes then Rotation_warning
      else Rotation_accepted)"

definition cacheInstruction :: "rotation_status \<Rightarrow> rotation_reason list \<Rightarrow> rotation_instruction" where
  "cacheInstruction status reasonCodes =
     (if status = Rotation_rejected then Fail_closed
      else if Verifier_cache_outlives_rotation \<in> set reasonCodes \<or>
              Emergency_revocation_accepted \<in> set reasonCodes then Refresh_before_green
      else Accept_overlap)"

definition rotation_reasons ::
  "trust_key_rotation_policy \<Rightarrow> trust_key_rotation_plan \<Rightarrow> rotation_reason list" where
  "rotation_reasons policy plan =
     (let cur = rn_current_key plan; nxt = rn_next_key plan;
          overlapSeconds = secondsBetween (rn_next_key_activates_at plan) (rn_current_key_retires_at plan)
      in (if tk_key_id cur = tk_key_id nxt then [Same_key_id] else []) @
         (if tk_scope cur \<noteq> rk_scope policy \<or> tk_scope nxt \<noteq> rk_scope policy
          then [Rotation_scope_mismatch] else []) @
         (if tk_root_program_id cur \<noteq> tk_root_program_id nxt then [Root_program_mismatch] else []) @
         (if tk_signer_id cur \<noteq> tk_signer_id nxt then [Signer_mismatch] else []) @
         (if tk_scope cur = Scope_delegated_authority \<and>
             tk_delegated_authority_id cur \<noteq> tk_delegated_authority_id nxt
          then [Delegated_authority_mismatch] else []) @
         (if tk_status nxt \<noteq> Key_active then [Next_key_not_active] else []) @
         (if rn_emergency_revoked_at plan = None \<and>
             (tk_status cur = Key_revoked \<or> tk_status cur = Key_expired)
          then [Current_key_terminal_without_emergency] else []) @
         (if overlapSeconds < rk_minimum_overlap_seconds policy then [Overlap_too_short]
          else [Planned_overlap_accepted]) @
         (if overlapSeconds > rk_maximum_overlap_seconds policy then [Overlap_too_long] else []) @
         (case rn_verifier_cache_expires_at plan of
            None \<Rightarrow> []
          | Some e \<Rightarrow> if rk_cache_must_expire_before_retired_key policy \<and> e > rn_current_key_retires_at plan
                      then [Verifier_cache_outlives_rotation] else []) @
         (case rn_emergency_revoked_at plan of
            None \<Rightarrow> []
          | Some revokedAt \<Rightarrow>
              (if tk_status cur \<noteq> Key_revoked \<and> tk_status cur \<noteq> Key_suspended
               then [Emergency_revocation_not_applied] else [Emergency_revocation_accepted]) @
              (case rn_emergency_status_event_published_at plan of
                 None \<Rightarrow> []
               | Some publishedAt \<Rightarrow>
                   if secondsBetween revokedAt publishedAt > rk_emergency_revocation_sla_seconds policy
                   then [Emergency_revocation_sla_missed] else [])))"

definition assessTrustKeyRotation ::
  "trust_key_rotation_policy \<Rightarrow> trust_key_rotation_plan \<Rightarrow> trust_key_rotation_assessment" where
  "assessTrustKeyRotation policy plan =
     (let reasonCodes = rotation_reasons policy plan;
          status = assessmentStatus reasonCodes
      in \<lparr>ra_status = status, ra_reason_codes = js_unique reasonCodes,
          ra_overlap_seconds =
            secondsBetween (rn_next_key_activates_at plan) (rn_current_key_retires_at plan),
          ra_verifier_cache_instruction = cacheInstruction status reasonCodes\<rparr>)"

end
