(* ===== verification/TrustKeyFacts.thy ===== *)
theory TrustKeyFacts
  imports TrustKeys
begin

text \<open>
  What the trust key registry guarantees: which key a lookup returns, how far a delegated
  status update reaches, that a retired key stays unused, and what an assessed rotation means
  for later lookups.
\<close>

subsection \<open>Lookup\<close>

definition candidate_key :: "trust_key_lookup_input \<Rightarrow> trust_key_record \<Rightarrow> bool" where
  "candidate_key i k \<longleftrightarrow> tk_signer_id k = li_signed_by i \<and> tk_root_program_id k = li_root_program_id i"

definition usable_key :: "trust_key_lookup_input \<Rightarrow> trust_key_record \<Rightarrow> bool" where
  "usable_key i k \<longleftrightarrow> candidate_key i k \<and> keyMatchesScope k i \<and>
     tk_algorithm_id k \<in> set (li_accepted_algorithm_ids i) \<and> tk_status k = Key_active"

lemma find_filter: "find P (filter Q xs) = find (\<lambda>x. Q x \<and> P x) xs"
  by (induction xs) auto

lemma select_stages:
  "selectTrustKeyForLookup keys i =
     (case filter (candidate_key i) keys of
        [] \<Rightarrow> \<lparr>lr_key = None, lr_reason = Some Key_not_found\<rparr>
      | c # _ \<Rightarrow>
     (case filter (\<lambda>k. candidate_key i k \<and> keyMatchesScope k i) keys of
        [] \<Rightarrow> \<lparr>lr_key = Some c, lr_reason = Some Scope_mismatch\<rparr>
      | s # _ \<Rightarrow>
     (case filter (\<lambda>k. candidate_key i k \<and> keyMatchesScope k i \<and>
                       tk_algorithm_id k \<in> set (li_accepted_algorithm_ids i)) keys of
        [] \<Rightarrow> \<lparr>lr_key = Some s, lr_reason = Some Algorithm_not_accepted\<rparr>
      | a # _ \<Rightarrow>
     (case find (usable_key i) keys of
        None \<Rightarrow> \<lparr>lr_key = Some a, lr_reason = Some Key_not_active\<rparr>
      | Some k \<Rightarrow> \<lparr>lr_key = Some k, lr_reason = None\<rparr>))))"
proof -
  let ?c = "filter (candidate_key i) keys"
  let ?s = "filter (\<lambda>k. keyMatchesScope k i) ?c"
  let ?a = "filter (\<lambda>k. tk_algorithm_id k \<in> set (li_accepted_algorithm_ids i)) ?s"
  have s: "filter (\<lambda>k. candidate_key i k \<and> keyMatchesScope k i) keys = ?s"
    by (auto intro: filter_cong)
  have a: "filter (\<lambda>k. candidate_key i k \<and> keyMatchesScope k i \<and>
      tk_algorithm_id k \<in> set (li_accepted_algorithm_ids i)) keys = ?a"
    by (auto intro: filter_cong)
  have u: "find (usable_key i) keys = find (\<lambda>k. tk_status k = Key_active) ?a"
    by (auto simp: find_filter usable_key_def conj_assoc intro!: find_cong)
  have c: "filter (\<lambda>c. tk_signer_id c = li_signed_by i \<and> tk_root_program_id c = li_root_program_id i) keys = ?c"
    by (rule filter_cong) (simp_all add: candidate_key_def)
  show ?thesis
    unfolding selectTrustKeyForLookup_def Let_def s a u c by (simp split: list.splits)
qed

lemma filter_mem_Cons: "x \<in> set xs \<Longrightarrow> P x \<Longrightarrow> \<exists>y ys. filter P xs = y # ys"
  by (cases "filter P xs") (auto simp: filter_empty_conv)

lemma select_Some:
  assumes "find (usable_key i) keys = Some k"
  shows "selectTrustKeyForLookup keys i = \<lparr>lr_key = Some k, lr_reason = None\<rparr>"
proof -
  have k: "k \<in> set keys" "usable_key i k" using assms by (auto dest: find_SomeD)
  then obtain a as b bs c cs where
    "filter (candidate_key i) keys = a # as"
    "filter (\<lambda>k. candidate_key i k \<and> keyMatchesScope k i) keys = b # bs"
    "filter (\<lambda>k. candidate_key i k \<and> keyMatchesScope k i \<and>
       tk_algorithm_id k \<in> set (li_accepted_algorithm_ids i)) keys = c # cs"
    unfolding usable_key_def by (metis (mono_tags, lifting) filter_mem_Cons)
  then show ?thesis by (simp add: select_stages assms)
qed

lemma select_None: "find (usable_key i) keys = None \<Longrightarrow> lr_reason (selectTrustKeyForLookup keys i) \<noteq> None"
  by (simp add: select_stages split: list.splits)

lemma select_usable:
  "lr_reason (selectTrustKeyForLookup keys i) = None \<Longrightarrow>
     \<exists>k. find (usable_key i) keys = Some k \<and> lr_key (selectTrustKeyForLookup keys i) = Some k"
  using select_None select_Some by (cases "find (usable_key i) keys") fastforce+

text \<open>
  The registry as its clients see it: an unqualified answer is a usable key of the registry,
  and an answer without a reason has a key.
\<close>

locale trust_key_registry =
  fixes lookup :: "trust_key_lookup_input \<Rightarrow> 's \<Rightarrow> trust_key_lookup_result"
    and keys :: "'s \<Rightarrow> trust_key_record list"
  assumes lookup_key: "lr_reason (lookup i s) = None \<Longrightarrow>
      \<exists>k \<in> set (keys s). lr_key (lookup i s) = Some k \<and> usable_key i k"

text \<open>Its writer: a status update that leaves a key not active retires it until it is revived.\<close>

definition retired :: "string \<Rightarrow> trust_key_record list \<Rightarrow> bool" where
  "retired kid ks \<longleftrightarrow> list_all (\<lambda>k. tk_key_id k = kid \<longrightarrow> tk_status k \<noteq> Key_active) ks"

fun revives :: "string \<Rightarrow> registry_op \<Rightarrow> bool" where
  "revives kid (OpUpsertKey k) = (tk_key_id k = kid \<and> tk_status k = Key_active)"
| "revives kid (OpUpdateKeyStatus u) = (ku_key_id u = kid \<and> ku_status u = Key_active)"

locale trust_key_registry_writer = trust_key_registry lookup keys
  for lookup :: "trust_key_lookup_input \<Rightarrow> 's \<Rightarrow> trust_key_lookup_result"
    and keys :: "'s \<Rightarrow> trust_key_record list" +
  fixes step :: "registry_op \<Rightarrow> 's \<Rightarrow> 's"
    and wf :: "'s \<Rightarrow> bool"
  assumes wf_step: "wf s \<Longrightarrow> wf (step op s)"
    and update_retires: "wf s \<Longrightarrow> k \<in> set (keys s) \<Longrightarrow> tk_key_id k = ku_key_id u \<Longrightarrow>
          trustKeyIsWithinUpdateScope k u \<Longrightarrow> ku_status u \<noteq> Key_active \<Longrightarrow>
          retired (ku_key_id u) (keys (step (OpUpdateKeyStatus u) s))"
    and stays_retired: "wf s \<Longrightarrow> retired kid (keys s) \<Longrightarrow> \<not> revives kid op \<Longrightarrow>
          retired kid (keys (step op s))"
begin

lemma run_stays_retired:
  "wf s \<Longrightarrow> retired kid (keys s) \<Longrightarrow> \<forall>op \<in> set ops. \<not> revives kid op \<Longrightarrow>
     retired kid (keys (fold step ops s))"
  by (induction ops arbitrary: s) (auto intro: stays_retired wf_step)

lemma retired_not_selected:
  "retired kid (keys s) \<Longrightarrow> lr_reason (lookup i s) = None \<Longrightarrow> lr_key (lookup i s) = Some k \<Longrightarrow>
     tk_key_id k \<noteq> kid"
  using lookup_key [of i s] by (auto simp: retired_def usable_key_def list_all_iff)

lemma retired_never_selected:
  assumes "wf s" "k \<in> set (keys s)" "tk_key_id k = ku_key_id u" "trustKeyIsWithinUpdateScope k u"
    and "ku_status u \<noteq> Key_active" "\<forall>op \<in> set ops. \<not> revives (ku_key_id u) op"
    and "lr_reason (lookup i (fold step ops (step (OpUpdateKeyStatus u) s))) = None"
    and "lr_key (lookup i (fold step ops (step (OpUpdateKeyStatus u) s))) = Some k'"
  shows "tk_key_id k' \<noteq> ku_key_id u"
  using assms update_retires wf_step run_stays_retired retired_not_selected by metis

end


subsection \<open>The in-memory registry\<close>

definition registry_wf :: "key_registry \<Rightarrow> bool" where
  "registry_wf rs \<longleftrightarrow> distinct (map fst rs) \<and> entries (\<lambda>kid k. kid = tk_key_id k) rs"

lemma registry_wf_update: "registry_wf rs \<Longrightarrow> kid = tk_key_id k \<Longrightarrow> registry_wf (js_map_set kid k rs)"
  by (simp add: registry_wf_def entries_update AList.distinct_update)

lemma updated_status:
  "fst (updateTrustKeyStatus u rs) =
     (case map_of rs (ku_key_id u) of
        None \<Rightarrow> rs
      | Some k \<Rightarrow> if trustKeyIsWithinUpdateScope k u
                  then js_map_set (ku_key_id u) (k\<lparr>tk_status := ku_status u\<rparr>) rs else rs)"
  "snd (updateTrustKeyStatus u rs) \<longleftrightarrow>
     (\<exists>k. map_of rs (ku_key_id u) = Some k \<and> trustKeyIsWithinUpdateScope k u)"
  by (auto simp: updateTrustKeyStatus_def split: option.splits)

lemma registry_wf_step: "registry_wf rs \<Longrightarrow> registry_wf (registry_step op rs)"
  by (cases op)
     (auto simp: upsertTrustKey_def updated_status registry_wf_update registry_wf_def entries_update
        AList.distinct_update split: option.splits dest!: entries_lookup intro!: entries_update)

lemma registry_wf_run: "registry_wf rs \<Longrightarrow> registry_wf (registry_run ops rs)"
  unfolding registry_run_def by (induction ops arbitrary: rs) (auto intro: registry_wf_step)

lemma registry_wf_make: "registry_wf (makeInMemoryTrustKeyRegistry keys)"
proof -
  have "registry_wf rs \<Longrightarrow> registry_wf (fold (\<lambda>key. js_map_set (tk_key_id key) key) keys rs)" for rs
    by (induction keys arbitrary: rs) (auto intro: registry_wf_update)
  then show ?thesis by (simp add: makeInMemoryTrustKeyRegistry_def registry_wf_def)
qed

lemma snapshot_mem: "registry_wf rs \<Longrightarrow> k \<in> set (registry_snapshot rs) \<longleftrightarrow> map_of rs (tk_key_id k) = Some k"
  by (force simp: registry_snapshot_def registry_wf_def dest: entries_mem map_of_SomeD)

lemma retired_iff:
  assumes "registry_wf rs"
  shows "retired kid (registry_snapshot rs) \<longleftrightarrow>
     (case map_of rs kid of None \<Rightarrow> True | Some k \<Rightarrow> tk_status k \<noteq> Key_active)"
proof -
  have "map_of rs kid = Some k \<Longrightarrow> tk_key_id k = kid" for k
    using assms by (auto simp: registry_wf_def dest: entries_lookup)
  then show ?thesis
    unfolding retired_def list_all_iff by (auto simp: snapshot_mem [OF assms] split: option.splits)
qed

interpretation keys: trust_key_registry_writer lookupSignerKey registry_snapshot
  registry_step registry_wf
proof unfold_locales
  fix i and s :: key_registry
  assume "lr_reason (lookupSignerKey i s) = None"
  then show "\<exists>k \<in> set (registry_snapshot s). lr_key (lookupSignerKey i s) = Some k \<and> usable_key i k"
    using select_usable [of "registry_snapshot s" i] by (auto simp: lookupSignerKey_def dest: find_SomeD)
next
  fix s k u
  assume s: "registry_wf s" "k \<in> set (registry_snapshot s)" "tk_key_id k = ku_key_id u"
    "trustKeyIsWithinUpdateScope k u" "ku_status u \<noteq> Key_active"
  then have "map_of s (ku_key_id u) = Some k" by (auto simp: snapshot_mem)
  with s show "retired (ku_key_id u) (registry_snapshot (registry_step (OpUpdateKeyStatus u) s))"
    by (subst retired_iff)
       (auto simp: registry_wf_step updated_status AList.update_conv' simp del: registry_step.simps
          simp: registry_step.simps(2) intro: registry_wf_update)
next
  fix s kid op
  assume "registry_wf s" "retired kid (registry_snapshot s)" "\<not> revives kid op"
  then show "retired kid (registry_snapshot (registry_step op s))"
    using registry_wf_step [of s op]
    by (cases op) (auto simp: retired_iff upsertTrustKey_def updated_status AList.update_conv'
        split: option.splits if_splits)
qed (rule registry_wf_step)


subsection \<open>Updates seen through lookups\<close>

lemma update_as_map:
  assumes "distinct (map fst rs)" "map_of rs kid = Some k"
  shows "js_map_set kid k' rs = map (\<lambda>(i, x). if i = kid then (i, k') else (i, x)) rs"
  using assms
proof (induction rs)
  case (Cons a rs)
  show ?case
  proof (cases "fst a = kid")
    case True
    then have "kid \<notin> fst ` set rs" using Cons.prems by auto
    then have "map (\<lambda>(i, x). if i = kid then (i, k') else (i, x)) rs = rs"
      by (intro map_idI) force
    with True show ?thesis by (cases a) auto
  next
    case False
    with Cons show ?thesis by (cases a) auto
  qed
qed simp

lemma find_after_update:
  assumes "registry_wf rs" "map_of rs kid = Some k" "\<not> P k" "\<not> P k'"
  shows "find P (registry_snapshot (js_map_set kid k' rs)) = find P (registry_snapshot rs)"
proof -
  have eq: "js_map_set kid k' rs = map (\<lambda>(i, x). if i = kid then (i, k') else (i, x)) rs"
    using assms(1,2) by (intro update_as_map) (auto simp: registry_wf_def)
  have "find P (map snd (map (\<lambda>(i, x). if i = kid then (i, k') else (i, x)) xs)) = find P (map snd xs)"
    if "\<forall>(i, x) \<in> set xs. i = kid \<longrightarrow> x = k" for xs
    using that assms(3,4) by (induction xs) auto
  moreover have "\<forall>(i, x) \<in> set rs. i = kid \<longrightarrow> x = k"
    using assms(1,2) eq_key_imp_eq_value [of rs] map_of_SomeD [OF assms(2)]
    by (fastforce simp: registry_wf_def)
  ultimately show ?thesis by (simp add: registry_snapshot_def eq)
qed

lemma find_mem_Some: "x \<in> set xs \<Longrightarrow> P x \<Longrightarrow> \<exists>y. find P xs = Some y"
  by (induction xs) auto

lemma usable_selected:
  "k \<in> set (registry_snapshot rs) \<Longrightarrow> usable_key i k \<Longrightarrow> lr_reason (lookupSignerKey i rs) = None"
  using find_mem_Some [of k _ "usable_key i"] select_Some by (fastforce simp: lookupSignerKey_def)


subsection \<open>Rotation\<close>

text \<open>A bound on a value that may be absent.\<close>

definition opt_le :: "int option \<Rightarrow> int \<Rightarrow> bool" where
  "opt_le x n \<longleftrightarrow> (case x of None \<Rightarrow> True | Some m \<Rightarrow> m \<le> n)"

lemma not_opt_le: "\<not> opt_le x n \<longleftrightarrow> (\<exists>m. x = Some m \<and> n < m)"
  by (auto simp: opt_le_def split: option.splits)

lemma mem_if [simp]: "y \<in> set (if b then [x] else []) \<longleftrightarrow> b \<and> y = x"
  by (cases b) simp_all

lemma mem_if_else [simp]:
  "y \<in> set (if b then [x] else [z]) \<longleftrightarrow> (if b then y = x else y = z)"
  by (cases b) simp_all

lemma mem_option_case [simp]:
  "y \<in> set (case v of None \<Rightarrow> [] | Some w \<Rightarrow> f w) \<longleftrightarrow> (\<exists>w. v = Some w \<and> y \<in> set (f w))"
  by (cases v) simp_all

lemma reason_mem:
  "Same_key_id \<in> set (rotation_reasons policy plan) \<longleftrightarrow>
     tk_key_id (rn_current_key plan) = tk_key_id (rn_next_key plan)"
  "Rotation_scope_mismatch \<in> set (rotation_reasons policy plan) \<longleftrightarrow>
     tk_scope (rn_current_key plan) \<noteq> rk_scope policy \<or> tk_scope (rn_next_key plan) \<noteq> rk_scope policy"
  "Root_program_mismatch \<in> set (rotation_reasons policy plan) \<longleftrightarrow>
     tk_root_program_id (rn_current_key plan) \<noteq> tk_root_program_id (rn_next_key plan)"
  "Signer_mismatch \<in> set (rotation_reasons policy plan) \<longleftrightarrow>
     tk_signer_id (rn_current_key plan) \<noteq> tk_signer_id (rn_next_key plan)"
  "Delegated_authority_mismatch \<in> set (rotation_reasons policy plan) \<longleftrightarrow>
     tk_scope (rn_current_key plan) = Scope_delegated_authority \<and>
     tk_delegated_authority_id (rn_current_key plan) \<noteq> tk_delegated_authority_id (rn_next_key plan)"
  "Next_key_not_active \<in> set (rotation_reasons policy plan) \<longleftrightarrow>
     tk_status (rn_next_key plan) \<noteq> Key_active"
  "Current_key_terminal_without_emergency \<in> set (rotation_reasons policy plan) \<longleftrightarrow>
     rn_emergency_revoked_at plan = None \<and>
     (tk_status (rn_current_key plan) = Key_revoked \<or> tk_status (rn_current_key plan) = Key_expired)"
  "Overlap_too_short \<in> set (rotation_reasons policy plan) \<longleftrightarrow>
     secondsBetween (rn_next_key_activates_at plan) (rn_current_key_retires_at plan)
       < rk_minimum_overlap_seconds policy"
  "Overlap_too_long \<in> set (rotation_reasons policy plan) \<longleftrightarrow>
     rk_maximum_overlap_seconds policy
       < secondsBetween (rn_next_key_activates_at plan) (rn_current_key_retires_at plan)"
  "Verifier_cache_outlives_rotation \<in> set (rotation_reasons policy plan) \<longleftrightarrow>
     rk_cache_must_expire_before_retired_key policy \<and>
     \<not> opt_le (rn_verifier_cache_expires_at plan) (rn_current_key_retires_at plan)"
  "Emergency_revocation_not_applied \<in> set (rotation_reasons policy plan) \<longleftrightarrow>
     rn_emergency_revoked_at plan \<noteq> None \<and> tk_status (rn_current_key plan) \<noteq> Key_revoked \<and>
     tk_status (rn_current_key plan) \<noteq> Key_suspended"
  "Emergency_revocation_sla_missed \<in> set (rotation_reasons policy plan) \<longleftrightarrow>
     (\<exists>r. rn_emergency_revoked_at plan = Some r \<and>
        \<not> opt_le (map_option (secondsBetween r) (rn_emergency_status_event_published_at plan))
            (rk_emergency_revocation_sla_seconds policy))"
  by (simp_all add: rotation_reasons_def Let_def not_opt_le)
     (auto dest!: sym [where s = "Some u" for u])

lemma status_reasons:
  "ra_status (assessTrustKeyRotation policy plan) = assessmentStatus (rotation_reasons policy plan)"
  by (simp add: assessTrustKeyRotation_def Let_def)

lemma rejected_iff:
  "assessmentStatus cs = Rotation_rejected \<longleftrightarrow> (\<exists>c \<in> set rejectionCodes. c \<in> set cs)"
  by (auto simp: assessmentStatus_def list_ex_iff)

lemma not_rejected:
  assumes "ra_status (assessTrustKeyRotation policy plan) \<noteq> Rotation_rejected"
  shows "tk_key_id (rn_current_key plan) \<noteq> tk_key_id (rn_next_key plan)"
    "tk_scope (rn_current_key plan) = tk_scope (rn_next_key plan)"
    "tk_root_program_id (rn_current_key plan) = tk_root_program_id (rn_next_key plan)"
    "tk_signer_id (rn_current_key plan) = tk_signer_id (rn_next_key plan)"
    "tk_scope (rn_current_key plan) = Scope_delegated_authority \<Longrightarrow>
       tk_delegated_authority_id (rn_current_key plan) = tk_delegated_authority_id (rn_next_key plan)"
    "tk_status (rn_next_key plan) = Key_active"
    "rk_minimum_overlap_seconds policy \<le>
       secondsBetween (rn_next_key_activates_at plan) (rn_current_key_retires_at plan)"
  using assms by (auto simp: status_reasons rejected_iff rejectionCodes_def reason_mem)

lemma rotated_usable:
  assumes "ra_status (assessTrustKeyRotation policy plan) \<noteq> Rotation_rejected"
    and "usable_key i (rn_current_key plan)"
    and "tk_algorithm_id (rn_next_key plan) \<in> set (li_accepted_algorithm_ids i)"
  shows "usable_key i (rn_next_key plan)"
  using not_rejected [OF assms(1)] assms(2,3)
  by (cases "tk_scope (rn_current_key plan)")
     (auto simp: usable_key_def candidate_key_def keyMatchesScope_def)


subsection \<open>Properties\<close>

definition fx_lookup :: trust_key_lookup_input where
  "fx_lookup =
     \<lparr>li_signed_by = tk_signer_id demoDelegatedAuthorityTrustKey,
      li_root_program_id = tk_root_program_id demoDelegatedAuthorityTrustKey,
      li_accepted_algorithm_ids = [''ed25519''],
      li_delegated_authority_id = tk_delegated_authority_id demoDelegatedAuthorityTrustKey\<rparr>"

definition fx_root_lookup :: trust_key_lookup_input where
  "fx_root_lookup =
     \<lparr>li_signed_by = tk_signer_id demoRootTrustKey,
      li_root_program_id = tk_root_program_id demoRootTrustKey,
      li_accepted_algorithm_ids = [''ed25519''], li_delegated_authority_id = None\<rparr>"

definition fx_revocation :: trust_key_status_update where
  "fx_revocation =
     \<lparr>ku_root_program_id = tk_root_program_id demoDelegatedAuthorityTrustKey,
      ku_key_id = tk_key_id demoDelegatedAuthorityTrustKey, ku_status = Key_revoked,
      ku_delegated_authority_id = tk_delegated_authority_id demoDelegatedAuthorityTrustKey\<rparr>"

definition fx_rotation :: trust_key_rotation_plan where
  "fx_rotation =
     \<lparr>rn_current_key = demoDelegatedAuthorityTrustKey,
      rn_next_key = demoReplacementDelegatedAuthorityTrustKey,
      rn_next_key_activates_at = 0, rn_current_key_retires_at = 2 * 86400000,
      rn_verifier_cache_expires_at = Some 86400000, rn_emergency_revoked_at = None,
      rn_emergency_status_event_published_at = None\<rparr>"

text \<open>
  A lookup returns the first key that has the signer and root, matches the scope, uses an
  accepted algorithm and is active; without one, the reason is the first of those checks that
  no key passes.
\<close>

theorem lookup_returns_first_usable_key:
  "case find (usable_key i) keys of
     Some k \<Rightarrow> selectTrustKeyForLookup keys i = \<lparr>lr_key = Some k, lr_reason = None\<rparr>
   | None \<Rightarrow> lr_reason (selectTrustKeyForLookup keys i) = Some
       (if \<not> list_ex (candidate_key i) keys then Key_not_found
        else if \<not> list_ex (\<lambda>k. candidate_key i k \<and> keyMatchesScope k i) keys then Scope_mismatch
        else if \<not> list_ex (\<lambda>k. candidate_key i k \<and> keyMatchesScope k i \<and>
                             tk_algorithm_id k \<in> set (li_accepted_algorithm_ids i)) keys
             then Algorithm_not_accepted
        else Key_not_active)"
proof (cases "find (usable_key i) keys")
  case (Some k)
  then show ?thesis by (simp add: select_Some)
next
  case None
  have ex: "list_ex P xs \<longleftrightarrow> filter P xs \<noteq> []" for P and xs :: "trust_key_record list"
    by (auto simp: list_ex_iff filter_empty_conv)
  show ?thesis
    unfolding None ex by (simp add: select_stages None split: list.splits)
qed

text \<open>
  A status update changes at most the status of the key it names. One made with
  delegated authority leaves every key of another authority, and every root key, as it was.
\<close>

theorem delegated_update_is_confined:
  assumes "ku_delegated_authority_id u = Some d" and "map_of rs kid = Some k"
  shows "map_of (fst (updateTrustKeyStatus u rs)) kid =
    Some (if kid = ku_key_id u \<and> tk_delegated_authority_id k = Some d \<and>
             tk_root_program_id k = ku_root_program_id u
          then k\<lparr>tk_status := ku_status u\<rparr> else k)"
  using assms
  by (auto simp: updated_status trustKeyIsWithinUpdateScope_def AList.update_conv' split: option.splits)

theorem delegated_update_is_confined_witness:
  "map_option tk_status (map_of (fst (updateTrustKeyStatus
     (fx_revocation\<lparr>ku_key_id := tk_key_id demoRootTrustKey\<rparr>) demo_registry))
       (tk_key_id demoRootTrustKey)) = Some Key_active"
proof -
  let ?u = "fx_revocation\<lparr>ku_key_id := tk_key_id demoRootTrustKey\<rparr>"
  have u: "ku_delegated_authority_id ?u = Some (ns_delegated_authority_id (ip_namespace demoIssuerProjection))"
    by code_simp
  have k: "map_of demo_registry (tk_key_id demoRootTrustKey) = Some demoRootTrustKey" by code_simp
  show ?thesis
    by (subst delegated_update_is_confined [OF u k]) (simp add: demoRootTrustKey_def)
qed

text \<open>
  An update made with delegated authority does not change the answer of any accepted
  lookup for another authority or for the root program, given that root keys name no authority.
\<close>

theorem delegated_update_keeps_other_lookups:
  assumes "registry_wf rs" and "ku_delegated_authority_id u = Some d"
    and "li_delegated_authority_id i \<noteq> Some d"
    and "\<forall>k \<in> set (registry_snapshot rs). tk_scope k = Scope_root_program \<longrightarrow>
           tk_delegated_authority_id k = None"
    and "lr_reason (lookupSignerKey i rs) = None"
  shows "lookupSignerKey i (fst (updateTrustKeyStatus u rs)) = lookupSignerKey i rs"
proof (cases "snd (updateTrustKeyStatus u rs)")
  case False
  then show ?thesis by (auto simp: updateTrustKeyStatus_def split: option.splits)
next
  case True
  then obtain k where k: "map_of rs (ku_key_id u) = Some k" "trustKeyIsWithinUpdateScope k u"
    by (auto simp: updated_status)
  have "tk_delegated_authority_id k = Some d"
    using k(2) assms(2) by (auto simp: trustKeyIsWithinUpdateScope_def split: if_splits)
  moreover have "k \<in> set (registry_snapshot rs)"
    using map_of_SomeD [OF k(1)] by (force simp: registry_snapshot_def)
  ultimately have "\<not> keyMatchesScope k i"
    using assms(3,4) by (auto simp: keyMatchesScope_def)
  moreover from this have "\<not> keyMatchesScope (k\<lparr>tk_status := ku_status u\<rparr>) i"
    by (auto simp: keyMatchesScope_def split: if_splits)
  ultimately have "\<not> usable_key i k" "\<not> usable_key i (k\<lparr>tk_status := ku_status u\<rparr>)"
    by (simp_all add: usable_key_def)
  then have "find (usable_key i) (registry_snapshot (fst (updateTrustKeyStatus u rs))) =
      find (usable_key i) (registry_snapshot rs)"
    using k find_after_update [OF assms(1) k(1), of "usable_key i"] by (simp add: updated_status)
  moreover obtain x where "find (usable_key i) (registry_snapshot rs) = Some x"
    using select_usable assms(5) by (auto simp: lookupSignerKey_def)
  ultimately show ?thesis by (simp add: lookupSignerKey_def select_Some)
qed

theorem delegated_update_keeps_other_lookups_witness:
  "lookupSignerKey fx_root_lookup (fst (updateTrustKeyStatus fx_revocation demo_registry)) =
     lookupSignerKey fx_root_lookup demo_registry"
proof (rule delegated_update_keeps_other_lookups)
  show "registry_wf demo_registry" unfolding demo_registry_def by (rule registry_wf_make)
  show "ku_delegated_authority_id fx_revocation =
      Some (ns_delegated_authority_id (ip_namespace demoIssuerProjection))" by code_simp
  show "li_delegated_authority_id fx_root_lookup \<noteq>
      Some (ns_delegated_authority_id (ip_namespace demoIssuerProjection))" by code_simp
  show "\<forall>k \<in> set (registry_snapshot demo_registry). tk_scope k = Scope_root_program \<longrightarrow>
      tk_delegated_authority_id k = None" by code_simp
  show "lr_reason (lookupSignerKey fx_root_lookup demo_registry) = None" by code_simp
qed

text \<open>
  After a status update that takes effect and leaves a key not active, no history of
  registry calls that does not reactivate the key makes a lookup answer with it.
\<close>

theorem retired_key_is_never_selected:
  assumes "registry_wf rs" and "snd (updateTrustKeyStatus u rs)" and "ku_status u \<noteq> Key_active"
    and "\<forall>op \<in> set ops. \<not> revives (ku_key_id u) op"
    and "lookupSignerKey i (registry_run ops (fst (updateTrustKeyStatus u rs))) =
      \<lparr>lr_key = Some k, lr_reason = None\<rparr>"
  shows "tk_key_id k \<noteq> ku_key_id u"
proof -
  obtain k0 where k0: "map_of rs (ku_key_id u) = Some k0" "trustKeyIsWithinUpdateScope k0 u"
    using assms(2) by (auto simp: updated_status)
  have id: "tk_key_id k0 = ku_key_id u"
    using entries_lookup [OF _ k0(1), of "\<lambda>kid k. kid = tk_key_id k"] assms(1)
    by (simp add: registry_wf_def)
  then have "k0 \<in> set (registry_snapshot rs)" using k0(1) by (simp add: snapshot_mem [OF assms(1)])
  from keys.retired_never_selected [OF assms(1) this id k0(2) assms(3,4), of i k]
  show ?thesis using assms(5) by (simp add: registry_run_def)
qed

theorem retired_key_is_never_selected_witness:
  "\<exists>k. lookupSignerKey fx_lookup
       (registry_run [OpUpsertKey demoReplacementDelegatedAuthorityTrustKey]
         (fst (updateTrustKeyStatus fx_revocation demo_registry))) = \<lparr>lr_key = Some k, lr_reason = None\<rparr> \<and>
     tk_key_id k \<noteq> tk_key_id demoDelegatedAuthorityTrustKey"
proof -
  let ?ops = "[OpUpsertKey demoReplacementDelegatedAuthorityTrustKey]"
  have "registry_wf demo_registry" unfolding demo_registry_def by (rule registry_wf_make)
  moreover have "snd (updateTrustKeyStatus fx_revocation demo_registry)" by code_simp
  moreover have "ku_status fx_revocation \<noteq> Key_active" by code_simp
  moreover have "\<forall>op \<in> set ?ops. \<not> revives (ku_key_id fx_revocation) op" by code_simp
  moreover have sel: "lookupSignerKey fx_lookup (registry_run ?ops
      (fst (updateTrustKeyStatus fx_revocation demo_registry))) =
      \<lparr>lr_key = Some demoReplacementDelegatedAuthorityTrustKey, lr_reason = None\<rparr>" by code_simp
  ultimately have "tk_key_id demoReplacementDelegatedAuthorityTrustKey \<noteq> ku_key_id fx_revocation"
    by (rule retired_key_is_never_selected)
  with sel show ?thesis by (simp add: fx_revocation_def)
qed

text \<open>
  C14. A rotation that is not rejected keeps signers verifiable: where the current key answers
  a lookup that also accepts the next key's algorithm, the lookup still answers with an active
  key after the next key is stored and the current one is retired with any status.
\<close>

theorem rotation_keeps_signer_verifiable:
  assumes "registry_wf rs" and "ra_status (assessTrustKeyRotation policy plan) \<noteq> Rotation_rejected"
    and "lookupSignerKey i rs = \<lparr>lr_key = Some (rn_current_key plan), lr_reason = None\<rparr>"
    and "tk_algorithm_id (rn_next_key plan) \<in> set (li_accepted_algorithm_ids i)"
    and "ku_key_id u = tk_key_id (rn_current_key plan)"
  shows "lr_reason (lookupSignerKey i
    (fst (updateTrustKeyStatus u (upsertTrustKey (rn_next_key plan) rs)))) = None"
proof -
  let ?n = "rn_next_key plan" and ?rs = "upsertTrustKey (rn_next_key plan) rs"
  have "usable_key i (rn_current_key plan)"
    using keys.lookup_key [of i rs] assms(3) by auto
  then have usable: "usable_key i ?n" using rotated_usable assms(2,4) by blast
  have wf: "registry_wf ?rs" using assms(1) by (simp add: upsertTrustKey_def registry_wf_update)
  have "map_of ?rs (tk_key_id ?n) = Some ?n"
    by (simp add: upsertTrustKey_def AList.update_conv')
  moreover have "tk_key_id ?n \<noteq> ku_key_id u" using not_rejected(1) [OF assms(2)] assms(5) by simp
  ultimately have "map_of (fst (updateTrustKeyStatus u ?rs)) (tk_key_id ?n) = Some ?n"
    by (auto simp: updated_status AList.update_conv' split: option.splits)
  moreover have "registry_wf (fst (updateTrustKeyStatus u ?rs))"
    using registry_wf_step [OF wf, of "OpUpdateKeyStatus u"] by simp
  ultimately show ?thesis using usable usable_selected by (simp add: snapshot_mem)
qed

theorem rotation_keeps_signer_verifiable_witness:
  "lr_reason (lookupSignerKey fx_lookup (fst (updateTrustKeyStatus fx_revocation
     (upsertTrustKey demoReplacementDelegatedAuthorityTrustKey demo_registry)))) = None"
proof -
  have "registry_wf demo_registry" unfolding demo_registry_def by (rule registry_wf_make)
  moreover have "ra_status (assessTrustKeyRotation defaultDelegatedAuthorityTrustKeyRotationPolicy
      fx_rotation) \<noteq> Rotation_rejected" by code_simp
  moreover have "lookupSignerKey fx_lookup demo_registry =
      \<lparr>lr_key = Some (rn_current_key fx_rotation), lr_reason = None\<rparr>" by code_simp
  moreover have "tk_algorithm_id (rn_next_key fx_rotation) \<in> set (li_accepted_algorithm_ids fx_lookup)"
    by code_simp
  moreover have "ku_key_id fx_revocation = tk_key_id (rn_current_key fx_rotation)" by code_simp
  ultimately have "lr_reason (lookupSignerKey fx_lookup (fst (updateTrustKeyStatus fx_revocation
     (upsertTrustKey (rn_next_key fx_rotation) demo_registry)))) = None"
    by (rule rotation_keeps_signer_verifiable)
  then show ?thesis by (simp add: fx_rotation_def)
qed

text \<open>
  A rotation is accepted without a warning exactly when the two keys have the policy's
  scope and the same root, signer and authority but different ids, the next key is active, the
  current one is terminal only in an applied emergency, the overlap is within the policy's
  bounds, the cache expires before the retirement, and the emergency was announced in time.
\<close>

theorem rotation_accepted_iff:
  "ra_status (assessTrustKeyRotation policy plan) = Rotation_accepted \<longleftrightarrow>
    (let cur = rn_current_key plan; nxt = rn_next_key plan;
         overlap = secondsBetween (rn_next_key_activates_at plan) (rn_current_key_retires_at plan)
     in tk_key_id cur \<noteq> tk_key_id nxt \<and> tk_scope cur = rk_scope policy \<and> tk_scope nxt = rk_scope policy \<and>
        tk_root_program_id cur = tk_root_program_id nxt \<and> tk_signer_id cur = tk_signer_id nxt \<and>
        (tk_scope cur = Scope_delegated_authority \<longrightarrow>
           tk_delegated_authority_id cur = tk_delegated_authority_id nxt) \<and>
        tk_status nxt = Key_active \<and>
        (case rn_emergency_revoked_at plan of
           None \<Rightarrow> tk_status cur \<noteq> Key_revoked \<and> tk_status cur \<noteq> Key_expired
         | Some r \<Rightarrow> (tk_status cur = Key_revoked \<or> tk_status cur = Key_suspended) \<and>
             opt_le (map_option (secondsBetween r) (rn_emergency_status_event_published_at plan))
               (rk_emergency_revocation_sla_seconds policy)) \<and>
        rk_minimum_overlap_seconds policy \<le> overlap \<and> overlap \<le> rk_maximum_overlap_seconds policy \<and>
        (rk_cache_must_expire_before_retired_key policy \<longrightarrow>
           opt_le (rn_verifier_cache_expires_at plan) (rn_current_key_retires_at plan)))"
proof -
  have acc: "assessmentStatus cs = Rotation_accepted \<longleftrightarrow>
      (\<forall>c \<in> set (rejectionCodes @ [Overlap_too_long, Verifier_cache_outlives_rotation,
        Emergency_revocation_sla_missed]). c \<notin> set cs)" for cs
    by (auto simp: assessmentStatus_def list_ex_iff)
  show ?thesis
    unfolding status_reasons acc Let_def
    by (cases "rn_emergency_revoked_at plan") (auto simp: rejectionCodes_def reason_mem)
qed

theorem rotation_accepted_iff_witness:
  "ra_status (assessTrustKeyRotation defaultDelegatedAuthorityTrustKeyRotationPolicy fx_rotation) =
     Rotation_accepted"
  by (subst rotation_accepted_iff) code_simp

end
