(* ===== verification/SignatureVerification.thy ===== *)
theory SignatureVerification
  imports TrustKeyFacts EventBus
begin

text \<open>
  Signatures of trust artifacts, \<^verbatim>\<open>network/src/services/signature-verification.ts\<close>, and the
  providers of public key material, \<^verbatim>\<open>key-material.ts\<close>. The verifier is given the artifact
  body itself, which the callers cast to \<^verbatim>\<open>SignedTrustArtifactSummary\<close> without checking every
  field, so it is modelled on the untyped value.
\<close>

subsection \<open>Key material\<close>

datatype key_material_source =
  Source_inline | Source_fixture | Source_environment | Source_filesystem | Source_managed | Source_static

record public_key_material =
  km_key_id :: string
  km_public_key_material_ref :: string
  km_public_key_material_pem :: string
  km_source :: key_material_source

type_synonym key_material_loader = "trust_key_record \<Rightarrow> net_error + public_key_material option"

definition materialResult :: "trust_key_record \<Rightarrow> string \<Rightarrow> key_material_source \<Rightarrow> public_key_material" where
  "materialResult key pem source =
     \<lparr>km_key_id = tk_key_id key, km_public_key_material_ref = tk_public_key_material_ref key,
      km_public_key_material_pem = pem, km_source = source\<rparr>"

definition material_if_present ::
  "trust_key_record \<Rightarrow> string option \<Rightarrow> key_material_source \<Rightarrow> public_key_material option" where
  "material_if_present key pem source =
     (case keep_truthy pem of None \<Rightarrow> None | Some p \<Rightarrow> Some (materialResult key p source))"

definition inline_load :: key_material_loader where
  "inline_load key = Inr (material_if_present key (tk_public_key_material_pem key) Source_inline)"

definition static_load :: "(string \<times> string) list \<Rightarrow> key_material_source \<Rightarrow> key_material_loader" where
  "static_load materialByRef source key =
     Inr (material_if_present key (map_of materialByRef (tk_public_key_material_ref key)) source)"

definition fixturePublicKeyMaterialByRef :: "(string \<times> string) list" where
  "fixturePublicKeyMaterialByRef =
     [(''pem://fixture/root/qrtrust-demo-2026'', demoRootPublicKeyPem),
      (''pem://fixture/authority/qrtrust-demo-merchant-web'', demoDelegatedAuthorityPublicKeyPem)]"

definition fixture_load :: key_material_loader where
  "fixture_load = static_load fixturePublicKeyMaterialByRef Source_fixture"

definition environment_load :: "(string \<Rightarrow> string option) \<Rightarrow> key_material_loader" where
  "environment_load env key =
     (if \<not> prefix ''env://'' (tk_public_key_material_ref key) then Inr None
      else Inr (material_if_present key
             (env (drop (length ''env://'') (tk_public_key_material_ref key))) Source_environment))"

text \<open>What the file provider calls of \<^verbatim>\<open>node:url\<close>, \<^verbatim>\<open>node:path\<close> and \<^verbatim>\<open>node:fs\<close>.\<close>

record file_host =
  fileURLToPath :: "string \<Rightarrow> string option"
  isAbsolute :: "string \<Rightarrow> bool"
  resolve_path :: "string \<Rightarrow> string \<Rightarrow> string"
  readFile :: "string \<Rightarrow> jsval + string"
  cwd :: string

record file_options =
  fo_baseDirectory :: "string option"
  fo_allowAbsolutePaths :: "bool option"

definition filePathFromMaterialRef ::
  "file_host \<Rightarrow> file_options \<Rightarrow> string \<Rightarrow> net_error + string option" where
  "filePathFromMaterialRef H options materialRef =
     (if \<not> prefix ''file://'' materialRef then Inr None
      else case fileURLToPath H materialRef of
             None \<Rightarrow> Inl (KeyMaterialError
               (''Invalid file key-material reference: '' @ materialRef @ ''.'') (OtherCause (JStr materialRef)))
           | Some filePath \<Rightarrow>
               if isAbsolute H filePath then
                 Inr (if fo_allowAbsolutePaths options = Some False then None else Some filePath)
               else Inr (Some (resolve_path H
                      (case fo_baseDirectory options of None \<Rightarrow> cwd H | Some d \<Rightarrow> d) filePath)))"

definition file_load :: "file_host \<Rightarrow> file_options \<Rightarrow> key_material_loader" where
  "file_load H options key =
     and_then (filePathFromMaterialRef H options (tk_public_key_material_ref key)) (\<lambda>filePath.
       case keep_truthy filePath of
         None \<Rightarrow> Inr None
       | Some path \<Rightarrow>
           (case readFile H path of
              Inl cause \<Rightarrow> Inl (KeyMaterialError
                (''Unable to load key material for '' @ tk_key_id key @ '' from '' @
                 tk_public_key_material_ref key @ ''.'') (OtherCause cause))
            | Inr pem \<Rightarrow> Inr (Some (materialResult key pem Source_filesystem))))"

definition managedMaterialRefIsAccepted :: "string \<Rightarrow> string list option \<Rightarrow> bool" where
  "managedMaterialRefIsAccepted materialRef accepted =
     list_ex (\<lambda>pre. prefix pre materialRef)
       (case accepted of None \<Rightarrow> [''kms://'', ''hsm://'', ''managed://''] | Some ps \<Rightarrow> ps)"

definition managed_load ::
  "(trust_key_record \<Rightarrow> string \<Rightarrow> net_error + string option) \<Rightarrow> string list option \<Rightarrow> key_material_loader" where
  "managed_load client accepted key =
     (if \<not> managedMaterialRefIsAccepted (tk_public_key_material_ref key) accepted then Inr None
      else and_then (client key (tk_public_key_material_ref key)) (\<lambda>pem.
             Inr (material_if_present key pem Source_managed)))"

fun composite_load :: "key_material_loader list \<Rightarrow> key_material_loader" where
  "composite_load [] key = Inr None"
| "composite_load (provider # providers) key =
     and_then (provider key) (\<lambda>material.
       case material of Some m \<Rightarrow> Inr (Some m) | None \<Rightarrow> composite_load providers key)"

definition default_load :: "file_host \<Rightarrow> (string \<Rightarrow> string option) \<Rightarrow> key_material_loader" where
  "default_load H env =
     composite_load [inline_load, environment_load env,
       file_load H \<lparr>fo_baseDirectory = None, fo_allowAbsolutePaths = None\<rparr>, fixture_load]"


subsection \<open>Signed payloads\<close>

definition trustSignatureInput :: string where
  "trustSignatureInput = ''canonical-json-excluding-signature''"

definition signature_fields :: "string list" where
  "signature_fields = [''signature'', ''signature_algorithm_id'', ''signature_input'', ''signature_status'']"

fun stripSignatureMetadata :: "jsval \<Rightarrow> jsval" where
  "stripSignatureMetadata (JArr xs) = JArr (map stripSignatureMetadata xs)"
| "stripSignatureMetadata (JObj kvs) =
     JObj (map (\<lambda>(k, v). (k, stripSignatureMetadata v))
             (filter (\<lambda>(k, v). k \<notin> set signature_fields) kvs))"
| "stripSignatureMetadata v = v"

text \<open>The canonical value whose JSON text is signed.\<close>

definition trustSignaturePayload :: "platform \<Rightarrow> jsval \<Rightarrow> jsval" where
  "trustSignaturePayload P artifact =
     canonicalizeForJson (locale_le P) (stripSignatureMetadata artifact)"

definition verifyEd25519Signature :: "platform \<Rightarrow> jsval \<Rightarrow> string \<Rightarrow> bool" where
  "verifyEd25519Signature P artifact pem =
     verify_ed25519 P (trustSignaturePayload P artifact) pem
       (nullish_or (get_prop artifact ''signature'') (JStr []))"


subsection \<open>The verifier\<close>

datatype signature_reason =
    Signature_verified
  | Missing_signature
  | Invalid_signature_input
  | Unsupported_signature_algorithm
  | Key_material_unavailable
  | Signature_verification_failed
  | Lookup_failed lookup_reason

fun lookup_reason_string :: "lookup_reason \<Rightarrow> string" where
  "lookup_reason_string Key_not_found = ''key_not_found''"
| "lookup_reason_string Key_not_active = ''key_not_active''"
| "lookup_reason_string Algorithm_not_accepted = ''algorithm_not_accepted''"
| "lookup_reason_string Scope_mismatch = ''scope_mismatch''"

fun signature_reason_string :: "signature_reason \<Rightarrow> string" where
  "signature_reason_string Signature_verified = ''signature_verified''"
| "signature_reason_string Missing_signature = ''missing_signature''"
| "signature_reason_string Invalid_signature_input = ''invalid_signature_input''"
| "signature_reason_string Unsupported_signature_algorithm = ''unsupported_signature_algorithm''"
| "signature_reason_string Key_material_unavailable = ''key_material_unavailable''"
| "signature_reason_string Signature_verification_failed = ''signature_verification_failed''"
| "signature_reason_string (Lookup_failed r) = lookup_reason_string r"

record signature_result =
  sv_accepted :: bool
  sv_signer :: jsval
  sv_reason :: signature_reason

definition rejected :: "jsval \<Rightarrow> signature_reason \<Rightarrow> signature_result" where
  "rejected artifact reason =
     \<lparr>sv_accepted = False, sv_signer = get_prop artifact ''signed_by'', sv_reason = reason\<rparr>"

text \<open>
  The list whose members are exactly the algorithms that \<^verbatim>\<open>includes\<close> answers true for: the
  strings of an array; the substrings of a string, on which \<^verbatim>\<open>includes\<close> is the substring test.
  Any other value has no such method.
\<close>

definition accepted_algorithms :: "jsval \<Rightarrow> string list option" where
  "accepted_algorithms v =
     (case nullish_or v (JArr [JStr ''ed25519'']) of
        JArr xs \<Rightarrow> Some (concat (map (\<lambda>x. case x of JStr s \<Rightarrow> [s] | _ \<Rightarrow> []) xs))
      | JStr t \<Rightarrow> Some (concat (map (\<lambda>u. prefixes u) (suffixes t)))
      | _ \<Rightarrow> None)"

text \<open>
  The lookup for an artifact. A signer or root that is no string equals no key's, so no key
  is found. Without an \<^verbatim>\<open>includes\<close> method the lookup throws as soon as a key has the signer,
  root and scope; \<open>probe\<close>, a lookup that accepts no algorithm, tells whether one has.
\<close>

definition lookup_for_artifact ::
  "(trust_key_lookup_input \<Rightarrow> net_error + trust_key_lookup_result) \<Rightarrow> jsval \<Rightarrow>
     trust_key_lookup_result outcome" where
  "lookup_for_artifact lookup artifact =
     (case (get_prop artifact ''signed_by'', get_prop artifact ''root_program_id'') of
        (JStr signedBy, JStr rootProgramId) \<Rightarrow>
          (let query = (\<lambda>algorithms.
                 \<lparr>li_signed_by = signedBy, li_root_program_id = rootProgramId,
                  li_accepted_algorithm_ids = algorithms,
                  li_delegated_authority_id =
                    keep_truthy (str_opt (get_prop artifact ''delegated_authority_id''))\<rparr>)
           in case accepted_algorithms (get_prop artifact ''accepted_algorithm_ids'') of
                Some algorithms \<Rightarrow>
                  (case lookup (query algorithms) of Inl e \<Rightarrow> Failed e | Inr r \<Rightarrow> Done r)
              | None \<Rightarrow>
                  (case lookup (query []) of
                     Inl e \<Rightarrow> Failed e
                   | Inr probe \<Rightarrow>
                       if lr_reason probe = Some Key_not_found \<or> lr_reason probe = Some Scope_mismatch
                       then Done probe
                       else Died (TypeError ''includes is not a function'')))
      | _ \<Rightarrow> Done \<lparr>lr_key = None, lr_reason = Some Key_not_found\<rparr>)"

definition verifyTrustArtifact ::
  "platform \<Rightarrow> (trust_key_lookup_input \<Rightarrow> net_error + trust_key_lookup_result) \<Rightarrow>
     key_material_loader \<Rightarrow> jsval \<Rightarrow> signature_result outcome" where
  "verifyTrustArtifact P lookup load artifact =
     (case lookup_for_artifact lookup artifact of
        Failed e \<Rightarrow> Failed e
      | Died d \<Rightarrow> Died d
      | Done found \<Rightarrow>
          (case lr_reason found of
             Some reason \<Rightarrow> Done (rejected artifact (Lookup_failed reason))
           | None \<Rightarrow>
               if get_prop artifact ''signature_algorithm_id'' \<noteq> JStr ''ed25519'' then
                 Done (rejected artifact Unsupported_signature_algorithm)
               else if get_prop artifact ''signature_input'' \<noteq> JStr trustSignatureInput then
                 Done (rejected artifact Invalid_signature_input)
               else if \<not> truthy (get_prop artifact ''signature'') then
                 Done (rejected artifact Missing_signature)
               else
                 (case lr_key found of
                    None \<Rightarrow> Done (rejected artifact Key_material_unavailable)
                  | Some key \<Rightarrow>
                      (case load key of
                         Inl e \<Rightarrow> Failed e
                       | Inr None \<Rightarrow> Done (rejected artifact Key_material_unavailable)
                       | Inr (Some material) \<Rightarrow>
                           if \<not> verifyEd25519Signature P artifact (km_public_key_material_pem material)
                           then Done (rejected artifact Signature_verification_failed)
                           else Done \<lparr>sv_accepted = True,
                                      sv_signer = get_prop artifact ''signed_by'',
                                      sv_reason = Signature_verified\<rparr>))))"

text \<open>The lookup of the in-memory registry, which never fails.\<close>

definition memory_lookup ::
  "key_registry \<Rightarrow> trust_key_lookup_input \<Rightarrow> net_error + trust_key_lookup_result" where
  "memory_lookup records input = Inr (lookupSignerKey input records)"

end
