(* ===== verification/SignatureFacts.thy ===== *)
theory SignatureFacts
  imports SignatureVerification
begin

text \<open>
  What an accepted signature means, what the signed payload depends on, and the contract of
  the key material providers.
\<close>

subsection \<open>Key material providers\<close>

text \<open>A provider answers with material for the key it was asked for.\<close>

locale key_material_provider =
  fixes load :: key_material_loader
  assumes load_key: "load k = Inr (Some m) \<Longrightarrow>
      km_key_id m = tk_key_id k \<and> km_public_key_material_ref m = tk_public_key_material_ref k"

lemma material_fields [simp]:
  "km_key_id (materialResult k p s) = tk_key_id k"
  "km_public_key_material_ref (materialResult k p s) = tk_public_key_material_ref k"
  "km_public_key_material_pem (materialResult k p s) = p"
  by (simp_all add: materialResult_def)

lemma material_if_present_Some:
  "material_if_present k pem s = Some m \<longleftrightarrow> (\<exists>p. pem = Some p \<and> p \<noteq> [] \<and> m = materialResult k p s)"
  by (auto simp: material_if_present_def keep_truthy_def truthy_str_def split: option.splits)

interpretation inline: key_material_provider inline_load
  by unfold_locales (auto simp: inline_load_def material_if_present_Some)

interpretation static: key_material_provider "static_load m s" for m s
  by unfold_locales (auto simp: static_load_def material_if_present_Some)

interpretation environment: key_material_provider "environment_load env" for env
  by unfold_locales (auto simp: environment_load_def material_if_present_Some split: if_splits)

lemma file_load_Some:
  assumes "file_load H opts k = Inr (Some m)"
  shows "\<exists>pem. m = materialResult k pem Source_filesystem"
proof -
  obtain x where x: "(case keep_truthy x of None \<Rightarrow> Inr None
      | Some path \<Rightarrow> (case readFile H path of
            Inl cause \<Rightarrow> Inl (KeyMaterialError (''Unable to load key material for '' @ tk_key_id k @
              '' from '' @ tk_public_key_material_ref k @ ''.'') (OtherCause cause))
          | Inr pem \<Rightarrow> Inr (Some (materialResult k pem Source_filesystem)))) = Inr (Some m)"
    using assms unfolding file_load_def and_then_Inr by blast
  then show ?thesis
    by (cases "keep_truthy x"; cases "readFile H (the (keep_truthy x))") auto
qed

interpretation from_file: key_material_provider "file_load H opts" for H opts
  by unfold_locales (auto dest: file_load_Some)

interpretation managed: key_material_provider "managed_load client pres" for client pres
  by unfold_locales (auto simp: managed_load_def and_then_Inr material_if_present_Some split: if_splits)

text \<open>A composite of providers is one.\<close>

locale key_material_providers =
  fixes loads :: "key_material_loader list"
  assumes each: "\<forall>l \<in> set loads. key_material_provider l"

sublocale key_material_providers \<subseteq> composite: key_material_provider "composite_load loads"
proof unfold_locales
  fix k m
  assume "composite_load loads k = Inr (Some m)"
  with each show "km_key_id m = tk_key_id k \<and> km_public_key_material_ref m = tk_public_key_material_ref k"
    by (induction loads) (auto simp: and_then_Inr key_material_provider_def split: option.splits)
qed

interpretation defaults: key_material_providers
  "[inline_load, environment_load env, file_load H opts, static_load m s]" for env H opts m s
  by unfold_locales
     (simp add: inline.key_material_provider_axioms environment.key_material_provider_axioms
        from_file.key_material_provider_axioms static.key_material_provider_axioms)

subsection \<open>The signed payload\<close>

lemma strip_idem [simp]: "stripSignatureMetadata (stripSignatureMetadata v) = stripSignatureMetadata v"
proof (induction v rule: stripSignatureMetadata.induct)
  case (2 kvs)
  then show ?case
    by (auto simp: filter_map comp_def case_prod_unfold intro!: map_cong filter_cong)
qed auto

lemma strip_perm: "json_perm v w \<Longrightarrow> json_perm (stripSignatureMetadata v) (stripSignatureMetadata w)"
proof (induction rule: json_perm.induct)
  case (leaf v)
  then show ?case by (rule json_perm.leaf)
next
  case (arr xs ys)
  then show ?case
    by (auto intro!: json_perm.arr simp: list_all2_map1 list_all2_map2 elim: list_all2_mono)
next
  case (obj kvs zs kvs')
  let ?keep = "\<lambda>kvs. filter (\<lambda>(k, v). k \<notin> set signature_fields) (kvs :: (string \<times> jsval) list)"
  let ?f = "\<lambda>(k :: string, v). (k, stripSignatureMetadata v)"
  have "list_all2 (\<lambda>a b. fst a = fst b \<and> json_perm (snd a) (snd b)) (map ?f (?keep kvs)) (map ?f (?keep zs))"
    using obj(1) by (induction rule: list_all2_induct) auto
  moreover have "mset (map ?f (?keep zs)) = mset (map ?f (?keep kvs'))"
    using obj(2) by (simp add: mset_map mset_filter)
  ultimately show ?case by (simp add: json_perm.obj)
qed

lemma strip_distinct: "distinct_keys v \<Longrightarrow> distinct_keys (stripSignatureMetadata v)"
proof (induction v rule: stripSignatureMetadata.induct)
  case (1 xs)
  then show ?case by (auto simp: list_all_iff)
next
  case (2 kvs)
  let ?kept = "filter (\<lambda>(k, v). k \<notin> set signature_fields) kvs"
  have "distinct_keys (stripSignatureMetadata v)" if "(k, v) \<in> set ?kept" for k v
  proof -
    have "distinct_keys v" using that distinct_keys_entry [OF 2(2), of k v] by simp
    with that show ?thesis using 2(1) [of "(k, v)" k v] by simp
  qed
  moreover have "distinct (map fst ?kept)"
    using 2(2) by (simp add: distinct_map_fst_filter)
  ultimately show ?case by (auto simp: list_all_iff canon_keys simp del: map_map)
qed auto

lemma strip_separated: "separated_keys le v \<Longrightarrow> separated_keys le (stripSignatureMetadata v)"
proof (induction v rule: stripSignatureMetadata.induct)
  case (1 xs)
  then show ?case by (auto simp: list_all_iff)
next
  case (2 kvs)
  then have "separated_keys le v" if "(k, v) \<in> set kvs" for k v
    using that by (auto simp: list_all_iff)
  then have nested: "\<forall>(k, v) \<in> set kvs. k \<notin> set signature_fields \<longrightarrow> separated_keys le (stripSignatureMetadata v)"
    using 2(1) by auto
  have "\<forall>a \<in> set kvs. \<forall>b \<in> set kvs. tied le (fst a) (fst b) \<longrightarrow> fst a = fst b"
    using 2(2) by (simp add: list_all_iff)
  then have "k = k'" if "(k, v) \<in> set kvs" "(k', v') \<in> set kvs" "tied le k k'" for k v k' v'
    using that by force
  with nested show ?case by (fastforce simp: list_all_iff)
qed auto


subsection \<open>Accepted signatures\<close>

text \<open>The artifact's signer, root and authority are those of the key.\<close>

definition signed_under :: "trust_key_record \<Rightarrow> jsval \<Rightarrow> bool" where
  "signed_under k a \<longleftrightarrow>
     tk_status k = Key_active \<and>
     get_prop a ''signed_by'' = JStr (tk_signer_id k) \<and>
     get_prop a ''root_program_id'' = JStr (tk_root_program_id k) \<and>
     (if tk_scope k = Scope_root_program then tk_signer_id k = tk_root_program_id k
      else get_prop a ''delegated_authority_id'' = JStr (tk_signer_id k) \<and>
           tk_delegated_authority_id k = Some (tk_signer_id k))"

definition verified_with ::
  "platform \<Rightarrow> key_material_loader \<Rightarrow> trust_key_record \<Rightarrow> jsval \<Rightarrow> bool" where
  "verified_with P load k a \<longleftrightarrow>
     (\<exists>m. load k = Inr (Some m) \<and>
        verify_ed25519 P (trustSignaturePayload P a) (km_public_key_material_pem m)
          (get_prop a ''signature''))"

lemma keep_str_opt: "keep_truthy (str_opt v) = Some d \<longleftrightarrow> v = JStr d \<and> d \<noteq> []"
  by (cases v) (auto simp: keep_truthy_def truthy_str_def)

lemma keep_truthy_Some: "keep_truthy (Some s) = Some d \<longleftrightarrow> s = d \<and> d \<noteq> []"
  by (auto simp: keep_truthy_def truthy_str_def)

lemma usable_signed_under:
  assumes "usable_key i k" "get_prop a ''signed_by'' = JStr (li_signed_by i)"
    and "get_prop a ''root_program_id'' = JStr (li_root_program_id i)"
    and "li_delegated_authority_id i = keep_truthy (str_opt (get_prop a ''delegated_authority_id''))"
  shows "signed_under k a"
  using assms
  by (auto simp: usable_key_def candidate_key_def keyMatchesScope_def signed_under_def keep_str_opt keep_truthy_Some
      dest!: sym [of "Some _"] split: if_splits)

text \<open>
  The verifier as its clients see it, on a registry with state \<open>'s\<close>: an accepted artifact was
  signed with an active key of the registry, in the scope the artifact claims.
\<close>

locale signature_verifier =
  fixes verify :: "'s \<Rightarrow> jsval \<Rightarrow> signature_result outcome"
    and keys :: "'s \<Rightarrow> trust_key_record list"
    and checks :: "trust_key_record \<Rightarrow> jsval \<Rightarrow> bool"
  assumes accepted_signed: "verify s a = Done r \<Longrightarrow> sv_accepted r \<Longrightarrow>
      \<exists>k \<in> set (keys s). signed_under k a \<and> checks k a"

lemma lookup_for_artifact_key:
  assumes "lookup_for_artifact (memory_lookup rs) a = Done found" "lr_reason found = None"
  obtains k where "k \<in> set (registry_snapshot rs)" "lr_key found = Some k" "signed_under k a"
    "lookupSignerKey
       \<lparr>li_signed_by = tk_signer_id k, li_root_program_id = tk_root_program_id k,
        li_accepted_algorithm_ids = the (accepted_algorithms (get_prop a ''accepted_algorithm_ids'')),
        li_delegated_authority_id = keep_truthy (str_opt (get_prop a ''delegated_authority_id''))\<rparr> rs
       = \<lparr>lr_key = Some k, lr_reason = None\<rparr>"
proof -
  obtain s r algs where sr: "get_prop a ''signed_by'' = JStr s" "get_prop a ''root_program_id'' = JStr r"
    "accepted_algorithms (get_prop a ''accepted_algorithm_ids'') = Some algs"
    using assms
    by (auto simp: lookup_for_artifact_def Let_def memory_lookup_def split: jsval.splits option.splits if_splits)
  let ?i = "\<lparr>li_signed_by = s, li_root_program_id = r, li_accepted_algorithm_ids = algs,
    li_delegated_authority_id = keep_truthy (str_opt (get_prop a ''delegated_authority_id''))\<rparr>"
  have found: "found = lookupSignerKey ?i rs"
    using assms(1) sr by (simp add: lookup_for_artifact_def Let_def memory_lookup_def)
  then obtain k where k: "k \<in> set (registry_snapshot rs)" "lr_key found = Some k" "usable_key ?i k"
    using keys.lookup_key assms(2) by blast
  have "signed_under k a" using usable_signed_under [OF k(3)] sr by simp
  moreover have "tk_signer_id k = s" "tk_root_program_id k = r"
    using k(3) by (simp_all add: usable_key_def candidate_key_def)
  ultimately show thesis
    using k(1,2) assms(2) sr(3) found that by (cases found) auto
qed

lemma verify_accepted:
  assumes "verifyTrustArtifact P (memory_lookup rs) load a = Done r" "sv_accepted r"
  obtains found k where "lookup_for_artifact (memory_lookup rs) a = Done found" "lr_reason found = None"
    "lr_key found = Some k" "verified_with P load k a"
    "get_prop a ''signature_algorithm_id'' = JStr ''ed25519''"
    "get_prop a ''signature_input'' = JStr trustSignatureInput"
proof -
  have sig: "truthy v \<Longrightarrow> nullish_or v w = v" for v w by (cases v) auto
  show thesis
    using assms
    by (auto simp: verifyTrustArtifact_def rejected_def verified_with_def verifyEd25519Signature_def sig
        split: outcome.splits option.splits sum.splits if_splits intro: that)
qed

interpretation verifier: signature_verifier
  "\<lambda>rs. verifyTrustArtifact P (memory_lookup rs) load" registry_snapshot "verified_with P load" for P load
proof unfold_locales
  fix rs a r
  assume "verifyTrustArtifact P (memory_lookup rs) load a = Done r" "sv_accepted r"
  then obtain found k where found: "lookup_for_artifact (memory_lookup rs) a = Done found"
    "lr_reason found = None" "lr_key found = Some k" "verified_with P load k a"
    by (rule verify_accepted)
  from found(1,2) show "\<exists>k \<in> set (registry_snapshot rs). signed_under k a \<and> verified_with P load k a"
    by (rule lookup_for_artifact_key) (use found in auto)
qed


subsection \<open>Properties\<close>

definition fx_signed :: "string \<Rightarrow> jsval" where
  "fx_signed sig = JObj
     [(''signed_by'', JStr (tk_signer_id demoDelegatedAuthorityTrustKey)),
      (''root_program_id'', JStr (tk_root_program_id demoDelegatedAuthorityTrustKey)),
      (''delegated_authority_id'', JStr (tk_signer_id demoDelegatedAuthorityTrustKey)),
      (''signature_algorithm_id'', JStr ''ed25519''),
      (''signature_input'', JStr trustSignatureInput), (''signature'', JStr sig)]"

lemma fx_signed_accepted:
  "verifyTrustArtifact fx_platform (memory_lookup demo_registry) inline_load
     (fx_signed demoDelegatedAuthorityPublicKeyPem) =
   Done \<lparr>sv_accepted = True, sv_signer = JStr (tk_signer_id demoDelegatedAuthorityTrustKey),
         sv_reason = Signature_verified\<rparr>"
  by code_simp

text \<open>
  C9. An accepted artifact names an active key of the registry as its signer, within the
  root program or the delegated authority it claims, declares Ed25519 over the canonical
  payload, and its signature verifies with that key's material.
\<close>

theorem accepted_signature_means:
  assumes "verifyTrustArtifact P (memory_lookup rs) load a = Done r" and "sv_accepted r"
  shows "\<exists>k \<in> set (registry_snapshot rs). signed_under k a \<and> verified_with P load k a \<and>
    get_prop a ''signature_algorithm_id'' = JStr ''ed25519'' \<and>
    get_prop a ''signature_input'' = JStr trustSignatureInput"
  using verifier.accepted_signed [OF assms] verify_accepted [OF assms] by metis

theorem accepted_signature_means_witness:
  "\<exists>k \<in> set (registry_snapshot demo_registry). signed_under k (fx_signed demoDelegatedAuthorityPublicKeyPem)"
  using accepted_signature_means [OF fx_signed_accepted] by fastforce

text \<open>
  C10. Once a status update has retired a key, and as long as no registry call reactivates it,
  every artifact the verifier accepts was verified with another key.
\<close>

theorem retired_key_verifies_nothing:
  assumes "registry_wf rs" and "snd (updateTrustKeyStatus u rs)" and "ku_status u \<noteq> Key_active"
    and "\<forall>op \<in> set ops. \<not> revives (ku_key_id u) op"
    and "verifyTrustArtifact P (memory_lookup (registry_run ops (fst (updateTrustKeyStatus u rs)))) load a =
      Done r" and "sv_accepted r"
  shows "\<exists>k. signed_under k a \<and> verified_with P load k a \<and> tk_key_id k \<noteq> ku_key_id u"
proof -
  let ?rs = "registry_run ops (fst (updateTrustKeyStatus u rs))"
  obtain k0 where k0: "map_of rs (ku_key_id u) = Some k0" "trustKeyIsWithinUpdateScope k0 u"
    using assms(2) by (auto simp: updated_status)
  have "tk_key_id k0 = ku_key_id u"
    using entries_lookup [OF _ k0(1), of "\<lambda>kid k. kid = tk_key_id k"] assms(1)
    by (simp add: registry_wf_def)
  moreover from this have "k0 \<in> set (registry_snapshot rs)"
    using k0(1) by (simp add: snapshot_mem [OF assms(1)])
  ultimately have "retired (ku_key_id u) (registry_snapshot (registry_step (OpUpdateKeyStatus u) rs))"
    using keys.update_retires assms(1,3) k0(2) by blast
  then have "retired (ku_key_id u) (registry_snapshot ?rs)"
    unfolding registry_run_def
    using keys.run_stays_retired registry_wf_step [OF assms(1), of "OpUpdateKeyStatus u"] assms(4) by simp
  then have "k \<in> set (registry_snapshot ?rs) \<Longrightarrow> signed_under k a \<Longrightarrow> tk_key_id k \<noteq> ku_key_id u" for k
    by (auto simp: retired_def signed_under_def list_all_iff)
  then show ?thesis using verifier.accepted_signed [OF assms(5,6)] by blast
qed

definition fx_replacement :: trust_key_record where
  "fx_replacement = demoReplacementDelegatedAuthorityTrustKey"

theorem retired_key_verifies_nothing_witness:
  "\<exists>k. signed_under k (fx_signed demoDelegatedAuthorityPublicKeyPem) \<and>
     tk_key_id k \<noteq> tk_key_id demoDelegatedAuthorityTrustKey"
proof -
  let ?ops = "[OpUpsertKey fx_replacement]"
  let ?rs = "registry_run ?ops (fst (updateTrustKeyStatus fx_revocation demo_registry))"
  have wf: "registry_wf demo_registry" unfolding demo_registry_def by (rule registry_wf_make)
  have u: "snd (updateTrustKeyStatus fx_revocation demo_registry)" by code_simp
  have st: "ku_status fx_revocation \<noteq> Key_active" by code_simp
  have ops: "\<forall>op \<in> set ?ops. \<not> revives (ku_key_id fx_revocation) op" by code_simp
  have "verifyTrustArtifact fx_platform (memory_lookup ?rs) inline_load
      (fx_signed demoDelegatedAuthorityPublicKeyPem) =
    Done \<lparr>sv_accepted = True, sv_signer = JStr (tk_signer_id demoDelegatedAuthorityTrustKey),
          sv_reason = Signature_verified\<rparr>" by code_simp
  from retired_key_verifies_nothing [OF wf u st ops this] show ?thesis
    by (auto simp: fx_revocation_def)
qed

text \<open>
  C19. The signed payload depends neither on the order of properties nor on the signature
  fields: an artifact, the same artifact with its properties reordered, and the artifact
  without its signature fields have the same payload. The comparison of names is any total
  preorder, as localeCompare is; the artifact must not have, in one object, two different names
  which the comparison ties (canonically equivalent names), for those keep the order in which
  they are listed.
\<close>

theorem signed_payload_is_stable:
  assumes "total_preorder (locale_le P)" and "json_perm a b" and "distinct_keys a"
    and "separated_keys (locale_le P) a"
  shows "trustSignaturePayload P a = trustSignaturePayload P b \<and>
    trustSignaturePayload P (stripSignatureMetadata a) = trustSignaturePayload P b"
  using canonical_form_ignores_property_order [OF assms(1) strip_perm [OF assms(2)]
      strip_distinct [OF assms(3)] strip_separated [OF assms(4)]]
  by (simp add: trustSignaturePayload_def)

definition fx_caseless :: platform where
  "fx_caseless = fx_platform\<lparr>locale_le := \<lambda>a b. js_le (js_lower a) (js_lower b)\<rparr>"

theorem signed_payload_is_stable_witness:
  "tied (locale_le fx_caseless) ''a'' ''A'' \<and>
   trustSignaturePayload fx_caseless
     (JObj [(''Reason'', JStr ''1''), (''authority'', JStr ''2''), (''signature'', JStr ''s'')]) =
   trustSignaturePayload fx_caseless
     (JObj [(''signature'', JStr ''s''), (''authority'', JStr ''2''), (''Reason'', JStr ''1'')])"
proof
  let ?a = "[(''Reason'', JStr ''1''), (''authority'', JStr ''2''), (''signature'', JStr ''s'')]"
  show "tied (locale_le fx_caseless) ''a'' ''A''" by code_simp
  have "json_perm (JObj ?a) (JObj (rev ?a))"
    by (rule json_perm.obj [of _ ?a]) (auto intro: json_perm.leaf)
  moreover have "total_preorder (locale_le fx_caseless)"
    by (simp add: fx_caseless_def total_preorder_js_le_on)
  moreover have "distinct_keys (JObj ?a)" "separated_keys (locale_le fx_caseless) (JObj ?a)"
    by code_simp+
  ultimately show "trustSignaturePayload fx_caseless (JObj ?a) =
      trustSignaturePayload fx_caseless
        (JObj [(''signature'', JStr ''s''), (''authority'', JStr ''2''), (''Reason'', JStr ''1'')])"
    using signed_payload_is_stable [of fx_caseless "JObj ?a" "JObj (rev ?a)"] by simp
qed

text \<open>
  The composite provider answers with the first provider that has material or fails; without one it
  answers with none.
\<close>

theorem composite_provider_is_first_answer:
  "composite_load loads k =
     (case find (\<lambda>l. l k \<noteq> Inr None) loads of None \<Rightarrow> Inr None | Some l \<Rightarrow> l k)"
proof (induction loads)
  case (Cons l ls)
  then show ?case by (cases "l k") (auto split: option.splits)
qed simp

text \<open>
  A value of \<^verbatim>\<open>accepted_algorithm_ids\<close> without an \<^verbatim>\<open>includes\<close> method ends the verification with
  a defect before any signature is checked.
\<close>

lemma malformed_algorithms_raise_a_defect:
  "verifyTrustArtifact fx_platform (memory_lookup demo_registry) inline_load
     (JObj [(''signed_by'', JStr (tk_signer_id demoRootTrustKey)),
            (''root_program_id'', JStr (tk_root_program_id demoRootTrustKey)),
            (''accepted_algorithm_ids'', JBool True)]) =
   Died (TypeError ''includes is not a function'')"
  by code_simp

end
