(* ===== verification/DestinationPolicy.thy ===== *)
theory DestinationPolicy
  imports EventBus VerifierCacheFacts
begin

text \<open>
  Publication of destination policies, \<^verbatim>\<open>network/src/services/destination-policy-publication.ts\<close>:
  the decoders of an untyped policy body, the validation of a projection, the artifact body
  of a projection, and the publication behind the domain control gate. The decoders throw the
  checks of \<^typ>\<open>check_error\<close>, which the services turn into typed errors.
\<close>

subsection \<open>Decoders of untyped values\<close>

definition objectValue :: "jsval \<Rightarrow> string \<Rightarrow> check_error + jsval" where
  "objectValue value field = (if is_record value then Inr value else Inl (MustBeObject field))"

definition optionalObjectValue :: "jsval \<Rightarrow> check_error + jsval" where
  "optionalObjectValue value =
     (if value = JUndefined \<or> value = JNull then Inr JUndefined else objectValue value ''object'')"

definition stringValue :: "jsval \<Rightarrow> string \<Rightarrow> check_error + string" where
  "stringValue value field =
     (case value of
        JStr s \<Rightarrow> if s \<noteq> [] then Inr s else Inl (MustBeNonEmptyString field)
      | _ \<Rightarrow> Inl (MustBeNonEmptyString field))"

definition httpsUrlValue :: "platform \<Rightarrow> jsval \<Rightarrow> string \<Rightarrow> check_error + string" where
  "httpsUrlValue P value field =
     and_then (stringValue value field) (\<lambda>s.
       let rawValue = js_trim s
       in case new_url P rawValue of
            None \<Rightarrow> Inl (MustBeValidUrl field)
          | Some u \<Rightarrow>
              if protocol u \<noteq> ''https:'' then Inl (MustUseHttps field)
              else if username u \<noteq> [] \<or> password u \<noteq> [] then Inl (MustNotIncludeCredentials field)
              else Inr rawValue)"

definition hostnameValue :: "jsval \<Rightarrow> string \<Rightarrow> check_error + string" where
  "hostnameValue value field =
     and_then (stringValue value field) (\<lambda>s.
       let host = normalizeDomain s
       in if dns_hostname_ok host then Inr host else Inl (MustBeDnsHostname field))"

definition pathPrefixValue :: "jsval \<Rightarrow> string \<Rightarrow> check_error + string" where
  "pathPrefixValue value field =
     and_then (stringValue value field) (\<lambda>s.
       let pathPrefix = js_trim s
       in if prefix ''/'' pathPrefix then Inr pathPrefix else Inl (MustStartWithSlash field))"

definition literalStringValue :: "jsval \<Rightarrow> string \<Rightarrow> string list \<Rightarrow> check_error + string" where
  "literalStringValue value field allowed =
     (case value of
        JStr s \<Rightarrow> if s \<in> set allowed then Inr s else Inl (MustBeOneOf field allowed)
      | _ \<Rightarrow> Inl (MustBeOneOf field allowed))"

definition nonNegativeIntegerValue :: "jsval \<Rightarrow> string \<Rightarrow> check_error + int" where
  "nonNegativeIntegerValue value field =
     (case value of
        JNum (Fin r) \<Rightarrow>
          if snd (quotient_of r) = 1 \<and> 0 \<le> r then Inr (fst (quotient_of r))
          else Inl (MustBeNonNegativeInteger field)
      | _ \<Rightarrow> Inl (MustBeNonNegativeInteger field))"

definition booleanValue :: "jsval \<Rightarrow> string \<Rightarrow> check_error + bool" where
  "booleanValue value field = (case value of JBool b \<Rightarrow> Inr b | _ \<Rightarrow> Inl (MustBeBoolean field))"

definition arrayValue :: "jsval \<Rightarrow> string \<Rightarrow> check_error + jsval list" where
  "arrayValue value field = (case value of JArr xs \<Rightarrow> Inr xs | _ \<Rightarrow> Inl (MustBeArray field))"

text \<open>\<^verbatim>\<open>arrayValue(...).map(...)\<close>.\<close>

definition array_of ::
  "(jsval \<Rightarrow> check_error + 'a) \<Rightarrow> jsval \<Rightarrow> string \<Rightarrow> check_error + 'a list" where
  "array_of f value field = and_then (arrayValue value field) (map_result f)"

definition optionalStringArrayProperty :: "jsval \<Rightarrow> string \<Rightarrow> check_error + string list option" where
  "optionalStringArrayProperty value prop =
     (let candidate = get_prop value prop
      in if candidate = JUndefined \<or> candidate = JNull then Inr None
         else and_then (array_of (\<lambda>item. stringValue item (prop @ ''[]'')) candidate prop)
                (\<lambda>xs. Inr (Some xs)))"

definition query_policies :: "string list" where
  "query_policies = [''none'', ''allow_known_payment_query'']"

definition destinationPolicyRuleFromUnknown ::
  "platform \<Rightarrow> jsval \<Rightarrow> check_error + destination_policy_rule" where
  "destinationPolicyRuleFromUnknown P value =
     and_then (objectValue value ''approved_destinations[]'') (\<lambda>rule.
     and_then (stringValue (get_prop rule ''destination_id'') ''destination_id'') (\<lambda>destinationId.
     and_then (httpsUrlValue P (get_prop rule ''expected_final_url'') ''expected_final_url'') (\<lambda>url.
     and_then (array_of (\<lambda>host. hostnameValue host ''allowed_hosts[]'')
                 (get_prop rule ''allowed_hosts'') ''allowed_hosts'') (\<lambda>hosts.
     and_then (booleanValue (get_prop rule ''allow_subdomains'') ''allow_subdomains'') (\<lambda>subdomains.
     and_then (array_of (\<lambda>path. pathPrefixValue path ''path_prefixes[]'')
                 (get_prop rule ''path_prefixes'') ''path_prefixes'') (\<lambda>paths.
     and_then (literalStringValue (get_prop rule ''query_policy'') ''query_policy'' query_policies)
       (\<lambda>query.
     and_then (optionalStringArrayProperty rule ''allowed_query_keys'') (\<lambda>keys.
       Inr \<lparr>dr_destination_id = destinationId, dr_expected_final_url = url,
            dr_allowed_hosts = hosts, dr_allow_subdomains = subdomains, dr_path_prefixes = paths,
            dr_query_policy = query, dr_allowed_query_keys = keys\<rparr>))))))))"

definition redirectPolicyFromUnknown ::
  "platform \<Rightarrow> jsval \<Rightarrow> check_error + redirect_policy_projection" where
  "redirectPolicyFromUnknown P value =
     and_then (objectValue value ''redirect_policy'') (\<lambda>policy.
     and_then (array_of (\<lambda>u. httpsUrlValue P u ''resolver_urls[]'')
                 (get_prop policy ''resolver_urls'') ''resolver_urls'') (\<lambda>resolvers.
     and_then (array_of (\<lambda>u. httpsUrlValue P u ''expected_final_destinations[]'')
                 (get_prop policy ''expected_final_destinations'') ''expected_final_destinations'')
       (\<lambda>finals.
     and_then (array_of (\<lambda>host. hostnameValue host ''allowed_redirect_hosts[]'')
                 (get_prop policy ''allowed_redirect_hosts'') ''allowed_redirect_hosts'') (\<lambda>hosts.
     and_then (nonNegativeIntegerValue (get_prop policy ''max_redirect_hops'') ''max_redirect_hops'')
       (\<lambda>hops.
     and_then (booleanValue (get_prop policy ''nested_shorteners_allowed'')
                 ''nested_shorteners_allowed'') (\<lambda>nested.
     and_then (booleanValue
                 (get_prop policy ''scanner_must_display_resolver_and_final_destination'')
                 ''scanner_must_display_resolver_and_final_destination'') (\<lambda>display.
       Inr \<lparr>rp_resolver_urls = resolvers, rp_expected_final_destinations = finals,
            rp_allowed_redirect_hosts = hosts, rp_max_redirect_hops = hops,
            rp_nested_shorteners_allowed = nested,
            rp_scanner_must_display_resolver_and_final_destination = display\<rparr>)))))))"


subsection \<open>The projection of a publication input\<close>

text \<open>
  \<open>occurredAt\<close> is the ISO text of the input's date, \<open>None\<close> for an invalid date, on which
  \<^verbatim>\<open>toISOString\<close> throws.
\<close>

definition publication_date ::
  "jsval \<Rightarrow> string \<Rightarrow> string option \<Rightarrow> string \<Rightarrow> check_error + string" where
  "publication_date publication property occurredAt field =
     (case nullish_or (get_prop publication property) JUndefined of
        JUndefined \<Rightarrow> (case occurredAt of None \<Rightarrow> Inl InvalidTimeValue
                       | Some t \<Rightarrow> stringValue (JStr t) field)
      | v \<Rightarrow> stringValue v field)"

definition policyProjectionFromBody ::
  "platform \<Rightarrow> artifact_publication_input \<Rightarrow> string option \<Rightarrow>
     check_error + destination_policy_projection" where
  "policyProjectionFromBody P input occurredAt =
     and_then (objectValue (ap_body input) ''destination policy body'') (\<lambda>body.
     and_then (array_of (destinationPolicyRuleFromUnknown P)
                 (get_prop body ''approved_destinations'') ''approved_destinations'') (\<lambda>rules.
     and_then (redirectPolicyFromUnknown P (get_prop body ''redirect_policy'')) (\<lambda>redirect.
     and_then (stringValue (nullish_or (get_prop body ''root_program_id'')
                 (JStr (ap_root_program_id input))) ''root_program_id'') (\<lambda>root.
     and_then (stringValue (nullish_or (get_prop body ''delegated_authority_id'')
                 (opt_str (ap_delegated_authority_id input))) ''delegated_authority_id'') (\<lambda>authority.
     and_then (stringValue (nullish_or (get_prop body ''issuer_id'')
                 (opt_str (ap_issuer_id input))) ''issuer_id'') (\<lambda>issuer.
     and_then (optionalObjectValue (get_prop body ''publication'')) (\<lambda>publication.
     and_then (stringValue (nullish_or (get_prop body ''destination_policy_id'')
                 (opt_str (ap_destination_policy_id input))) ''destination_policy_id'') (\<lambda>policyId.
     and_then (publication_date publication ''published_at'' occurredAt ''publication.published_at'')
       (\<lambda>publishedAt.
     and_then (publication_date publication ''valid_until'' occurredAt ''publication.valid_until'')
       (\<lambda>validUntil.
       Inr \<lparr>dp_namespace = \<lparr>ns_root_program_id = root, ns_delegated_authority_id = authority,
                            ns_issuer_id = issuer\<rparr>,
            dp_destination_policy_id = policyId,
            dp_approved_destinations = rules,
            dp_redirect_policy = redirect,
            dp_allowed_hosts =
              uniqueStrings (concat (map (\<lambda>rule. map normalizeDomain (dr_allowed_hosts rule)) rules)),
            dp_allow_subdomains = list_ex dr_allow_subdomains rules,
            dp_cache_generated_at = publishedAt,
            dp_cache_expires_at = validUntil\<rparr>))))))))))"

definition destinationPolicyProjectionFromArtifactPublicationInput ::
  "platform \<Rightarrow> artifact_publication_input \<Rightarrow> net_error + destination_policy_projection" where
  "destinationPolicyProjectionFromArtifactPublicationInput P input =
     map_error (\<lambda>e. ContractValidationError
         ''Destination policy publication work item failed projection decoding.'' (CheckFailed e))
       (policyProjectionFromBody P input (Some (iso_string P (ap_occurredAt input))))"


subsection \<open>The artifact body of a projection\<close>

definition rule_json :: "destination_policy_rule \<Rightarrow> jsval" where
  "rule_json d = JObj
     ([(''destination_id'', JStr (dr_destination_id d)),
       (''expected_final_url'', JStr (dr_expected_final_url d)),
       (''allowed_hosts'', strings_json (dr_allowed_hosts d)),
       (''allow_subdomains'', JBool (dr_allow_subdomains d)),
       (''path_prefixes'', strings_json (dr_path_prefixes d)),
       (''query_policy'', JStr (dr_query_policy d))]
      @ opt_prop ''allowed_query_keys'' strings_json (dr_allowed_query_keys d))"

definition redirect_json :: "redirect_policy_projection \<Rightarrow> jsval" where
  "redirect_json r = JObj
     [(''resolver_urls'', strings_json (rp_resolver_urls r)),
      (''expected_final_destinations'', strings_json (rp_expected_final_destinations r)),
      (''allowed_redirect_hosts'', strings_json (rp_allowed_redirect_hosts r)),
      (''max_redirect_hops'', int_json (rp_max_redirect_hops r)),
      (''nested_shorteners_allowed'', JBool (rp_nested_shorteners_allowed r)),
      (''scanner_must_display_resolver_and_final_destination'',
         JBool (rp_scanner_must_display_resolver_and_final_destination r))]"

definition destinationPolicyArtifactBody :: "destination_policy_projection \<Rightarrow> jsval" where
  "destinationPolicyArtifactBody policy = JObj
     [(''artifact_type'', JStr ''destination_policy''),
      (''schema_version'', JStr ''0.1.0''),
      (''root_program_id'', JStr (ns_root_program_id (dp_namespace policy))),
      (''delegated_authority_id'', JStr (ns_delegated_authority_id (dp_namespace policy))),
      (''issuer_id'', JStr (ns_issuer_id (dp_namespace policy))),
      (''destination_policy_id'', JStr (dp_destination_policy_id policy)),
      (''approved_destinations'', JArr (map rule_json (dp_approved_destinations policy))),
      (''redirect_policy'', redirect_json (dp_redirect_policy policy)),
      (''runtime_safety_policy'', JObj
         [(''provider'', JStr ''deterministic-fixture''), (''verdict_ttl_seconds'', int_json 300),
          (''stale_behavior'', JStr ''downgrade_to_caution''),
          (''unavailable_behavior'', JStr ''downgrade_to_caution'')]),
      (''publication'', JObj
         [(''published_at'', JStr (dp_cache_generated_at policy)),
          (''valid_until'', JStr (dp_cache_expires_at policy)),
          (''signed_by'', JStr (ns_delegated_authority_id (dp_namespace policy))),
          (''signature_status'', JStr ''ed25519-signed'')])]"


subsection \<open>Validation and publication\<close>

text \<open>\<^verbatim>\<open>forEach\<close> with a callback that may throw.\<close>

definition each :: "('a \<Rightarrow> check_error + 'b) \<Rightarrow> 'a list \<Rightarrow> check_error + unit" where
  "each f xs = and_then (map_result f xs) (\<lambda>_. Inr ())"

definition validate_rule :: "platform \<Rightarrow> destination_policy_rule \<Rightarrow> check_error + unit" where
  "validate_rule P d =
     and_then (stringValue (JStr (dr_destination_id d)) ''destination_id'') (\<lambda>_.
     and_then (httpsUrlValue P (JStr (dr_expected_final_url d)) ''expected_final_url'') (\<lambda>_.
     and_then (each (\<lambda>host. hostnameValue (JStr host) ''allowed_hosts[]'') (dr_allowed_hosts d)) (\<lambda>_.
     and_then (each (\<lambda>path. pathPrefixValue (JStr path) ''path_prefixes[]'') (dr_path_prefixes d)) (\<lambda>_.
     and_then (literalStringValue (JStr (dr_query_policy d)) ''query_policy'' query_policies) (\<lambda>_.
       (case dr_allowed_query_keys d of
          None \<Rightarrow> Inr ()
        | Some keys \<Rightarrow> each (\<lambda>key. stringValue (JStr key) ''allowed_query_keys[]'') keys))))))"

definition validateDestinationPolicyProjection ::
  "platform \<Rightarrow> destination_policy_projection \<Rightarrow> net_error + unit" where
  "validateDestinationPolicyProjection P policy =
     map_error (\<lambda>e. ContractValidationError
         ''Destination policy publication rejected malformed policy projection.'' (CheckFailed e))
       (let r = dp_redirect_policy policy in
        and_then (each (validate_rule P) (dp_approved_destinations policy)) (\<lambda>_.
        and_then (each (\<lambda>u. httpsUrlValue P (JStr u) ''resolver_urls[]'') (rp_resolver_urls r)) (\<lambda>_.
        and_then (each (\<lambda>u. httpsUrlValue P (JStr u) ''expected_final_destinations[]'')
                    (rp_expected_final_destinations r)) (\<lambda>_.
        and_then (each (\<lambda>host. hostnameValue (JStr host) ''allowed_redirect_hosts[]'')
                    (rp_allowed_redirect_hosts r)) (\<lambda>_.
        and_then (nonNegativeIntegerValue (int_json (rp_max_redirect_hops r)) ''max_redirect_hops'')
          (\<lambda>_. Inr ()))))))"

record destination_policy_publication_input =
  pi_issuer :: issuer_enrollment
  pi_destination_policy :: destination_policy_projection
  pi_domain_proofs :: "domain_proof list"
  pi_artifact_id :: string
  pi_version :: int
  pi_occurredAt :: int
  pi_reason :: "string option"

record destination_policy_publication_result =
  ps_gate :: gate_decision
  ps_publication :: artifact_publication_result

record destination_policy_publication_context =
  pc_issuer :: issuer_enrollment
  pc_domain_proofs :: "domain_proof list"

definition policy_gate_input :: "destination_policy_publication_input \<Rightarrow> gate_input" where
  "policy_gate_input input =
     \<lparr>gi_issuer = pi_issuer input, gi_destination_policy = pi_destination_policy input,
      gi_domain_proofs = pi_domain_proofs input, gi_observed_at = pi_occurredAt input\<rparr>"

definition policy_publication ::
  "destination_policy_publication_input \<Rightarrow> artifact_publication_input" where
  "policy_publication input =
     (let policy = pi_destination_policy input; ns = dp_namespace policy in
      \<lparr>ap_artifact_type = ''destination_policy'', ap_artifact_id = pi_artifact_id input,
       ap_version = pi_version input, ap_root_program_id = ns_root_program_id ns,
       ap_body = destinationPolicyArtifactBody policy, ap_occurredAt = pi_occurredAt input,
       ap_eventType = ''destination.policy.published'',
       ap_delegated_authority_id = Some (ns_delegated_authority_id ns),
       ap_issuer_id = Some (ns_issuer_id ns),
       ap_destination_policy_id = Some (dp_destination_policy_id policy),
       ap_artifact_ref = None, ap_previous_version = None,
       ap_reason = Some (case pi_reason input of Some r \<Rightarrow> r
                         | None \<Rightarrow> ''destination policy publication after domain-control gate'')\<rparr>)"

definition publishDestinationPolicy ::
  "platform \<Rightarrow> (artifact_publication_input \<Rightarrow> ('p, artifact_publication_result) call) \<Rightarrow>
     destination_policy_publication_input \<Rightarrow> 'p \<Rightarrow>
     'p \<times> destination_policy_publication_result outcome" where
  "publishDestinationPolicy P publisher input st =
     (case validateDestinationPolicyProjection P (pi_destination_policy input) of
        Inl e \<Rightarrow> (st, Failed e)
      | Inr _ \<Rightarrow>
          (case evaluateDestinationPolicyPublicationGate P (policy_gate_input input) of
             Inl d \<Rightarrow> (st, Died d)
           | Inr gate \<Rightarrow>
               if \<not> gd_publishable gate then
                 (st, Failed (PolicyPublicationError
                    ''Destination policy publication blocked by domain-control gate.'' (GateBlocked gate)))
               else
                 (case publisher (policy_publication input) st of
                    (st', Inl e) \<Rightarrow> (st', Failed e)
                  | (st', Inr publication) \<Rightarrow>
                      (st', Done \<lparr>ps_gate = gate, ps_publication = publication\<rparr>))))"

definition publishPolicyAwareArtifact ::
  "platform \<Rightarrow> (artifact_publication_input \<Rightarrow> ('p, artifact_publication_result) call) \<Rightarrow>
     (artifact_publication_input \<Rightarrow> destination_policy_projection \<Rightarrow>
        net_error + destination_policy_publication_context) \<Rightarrow>
     artifact_publication_input \<Rightarrow> 'p \<Rightarrow> 'p \<times> artifact_publication_result outcome" where
  "publishPolicyAwareArtifact P publisher resolveContext input st =
     (if ap_artifact_type input \<noteq> ''destination_policy'' then
        (case publisher input st of
           (st', Inl e) \<Rightarrow> (st', Failed e) | (st', Inr res) \<Rightarrow> (st', Done res))
      else
        (case destinationPolicyProjectionFromArtifactPublicationInput P input of
           Inl e \<Rightarrow> (st, Failed e)
         | Inr policy \<Rightarrow>
             (case resolveContext input policy of
                Inl e \<Rightarrow> (st, Failed e)
              | Inr context \<Rightarrow>
                  (case publishDestinationPolicy P publisher
                          \<lparr>pi_issuer = pc_issuer context, pi_destination_policy = policy,
                           pi_domain_proofs = pc_domain_proofs context,
                           pi_artifact_id = ap_artifact_id input, pi_version = ap_version input,
                           pi_occurredAt = ap_occurredAt input,
                           pi_reason = keep_truthy (ap_reason input)\<rparr> st of
                     (st', Failed e) \<Rightarrow> (st', Failed e)
                   | (st', Died d) \<Rightarrow> (st', Died d)
                   | (st', Done res) \<Rightarrow> (st', Done (ps_publication res))))))"

end
