(* ===== verification/DestinationPolicyFacts.thy ===== *)
theory DestinationPolicyFacts
  imports DestinationPolicy
begin

text \<open>
  What the publication of destination policies guarantees: a decoded policy is canonical, a
  canonical policy passes validation and survives the round trip through its artifact body,
  and a policy is published only behind a publishable gate.
\<close>

subsection \<open>Canonical values\<close>

definition canonical_url :: "platform \<Rightarrow> string \<Rightarrow> bool" where
  "canonical_url P s \<longleftrightarrow>
     s \<noteq> [] \<and> js_trim s = s \<and>
     (case new_url P s of None \<Rightarrow> False
      | Some u \<Rightarrow> protocol u = ''https:'' \<and> username u = [] \<and> password u = [])"

definition canonical_host :: "string \<Rightarrow> bool" where
  "canonical_host h \<longleftrightarrow> normalizeDomain h = h \<and> dns_hostname_ok h"

definition canonical_path :: "string \<Rightarrow> bool" where
  "canonical_path p \<longleftrightarrow> js_trim p = p \<and> prefix ''/'' p"

definition canonical_rule :: "platform \<Rightarrow> destination_policy_rule \<Rightarrow> bool" where
  "canonical_rule P d \<longleftrightarrow>
     dr_destination_id d \<noteq> [] \<and> canonical_url P (dr_expected_final_url d) \<and>
     list_all canonical_host (dr_allowed_hosts d) \<and> list_all canonical_path (dr_path_prefixes d) \<and>
     dr_query_policy d \<in> set query_policies \<and>
     opt_all (list_all (\<lambda>k. k \<noteq> [])) (dr_allowed_query_keys d)"

definition canonical_redirect :: "platform \<Rightarrow> redirect_policy_projection \<Rightarrow> bool" where
  "canonical_redirect P r \<longleftrightarrow>
     list_all (canonical_url P) (rp_resolver_urls r) \<and>
     list_all (canonical_url P) (rp_expected_final_destinations r) \<and>
     list_all canonical_host (rp_allowed_redirect_hosts r) \<and> 0 \<le> rp_max_redirect_hops r"

definition canonical_policy :: "platform \<Rightarrow> destination_policy_projection \<Rightarrow> bool" where
  "canonical_policy P p \<longleftrightarrow>
     ns_root_program_id (dp_namespace p) \<noteq> [] \<and> ns_delegated_authority_id (dp_namespace p) \<noteq> [] \<and>
     ns_issuer_id (dp_namespace p) \<noteq> [] \<and> dp_destination_policy_id p \<noteq> [] \<and>
     list_all (canonical_rule P) (dp_approved_destinations p) \<and>
     canonical_redirect P (dp_redirect_policy p) \<and>
     dp_allowed_hosts p =
       uniqueStrings (concat (map (\<lambda>d. map normalizeDomain (dr_allowed_hosts d)) (dp_approved_destinations p))) \<and>
     dp_allow_subdomains p = list_ex dr_allow_subdomains (dp_approved_destinations p) \<and>
     dp_cache_generated_at p \<noteq> [] \<and> dp_cache_expires_at p \<noteq> []"


subsection \<open>Scalars\<close>

lemma stringValue_Inr [simp]: "stringValue v f = Inr s \<longleftrightarrow> v = JStr s \<and> s \<noteq> []"
  by (cases v) (auto simp: stringValue_def)

lemma https_canonical: "canonical_url P s \<Longrightarrow> httpsUrlValue P (JStr s) f = Inr s"
  by (auto simp: httpsUrlValue_def canonical_url_def and_then_Inr split: option.splits)

lemma https_decoded:
  assumes "new_url P [] = None" "httpsUrlValue P v f = Inr s"
  shows "canonical_url P s"
proof -
  obtain t where t: "v = JStr t" using assms(2) by (auto simp: httpsUrlValue_def and_then_Inr)
  have "js_trim t \<noteq> []" using assms by (auto simp: t httpsUrlValue_def and_then_Inr Let_def)
  with assms(2) show ?thesis
    by (auto simp: t httpsUrlValue_def canonical_url_def and_then_Inr Let_def
        split: option.splits if_splits)
qed

lemma trim_no_space: "\<not> list_ex is_js_space s \<Longrightarrow> js_trim s = s"
proof -
  assume s: "\<not> list_ex is_js_space s"
  have "dropWhile is_js_space s = s" using s by (cases s) auto
  moreover have "dropWhile is_js_space (rev s) = rev s"
    using s by (cases "rev s") (auto simp: list_ex_iff simp flip: set_rev [of s])
  ultimately show ?thesis by (simp add: js_trim_def)
qed

lemma js_split_snoc: "js_split d (s @ [d]) = js_split d s @ [[]]"
  by (induction s) (auto split: list.splits)

lemma split_trailing: "s \<noteq> [] \<Longrightarrow> last s = d \<Longrightarrow> [] \<in> set (js_split d s)"
  by (metis append_butlast_last_id in_set_conv_decomp js_split_snoc)

lemma ok_host_normal:
  assumes "dns_hostname_ok h" "js_lower h = h"
  shows "normalizeDomain h = h"
proof -
  have "\<not> list_ex is_js_space h" "list_all is_dns_label (js_split CHR ''.'' h)" "h \<noteq> []"
    using assms(1) by (auto simp: dns_hostname_ok_def)
  moreover from this have "last h \<noteq> CHR ''.''"
    using split_trailing [of h "CHR ''.''"] by (auto simp: list_all_iff is_dns_label_def)
  ultimately show ?thesis
    using assms(2) by (simp add: normalizeDomain_def trim_no_space drop_trailing_dot_def)
qed

lemma lower_normal: "js_lower (normalizeDomain s) = normalizeDomain s"
  by (simp add: normalizeDomain_def drop_trailing_dot_def js_lower_def map_butlast [symmetric])

lemma hostname_decoded: "hostnameValue v f = Inr h \<Longrightarrow> canonical_host h"
  by (auto simp: hostnameValue_def and_then_Inr Let_def canonical_host_def lower_normal
      intro!: ok_host_normal split: if_splits)

lemma hostname_canonical: "canonical_host h \<Longrightarrow> hostnameValue (JStr h) f = Inr h"
  by (auto simp: hostnameValue_def canonical_host_def and_then_Inr Let_def dns_hostname_ok_def)

lemma path_decoded: "pathPrefixValue v f = Inr p \<Longrightarrow> canonical_path p"
  by (auto simp: pathPrefixValue_def and_then_Inr Let_def canonical_path_def split: if_splits)

lemma path_canonical: "canonical_path p \<Longrightarrow> pathPrefixValue (JStr p) f = Inr p"
  by (auto simp: pathPrefixValue_def canonical_path_def and_then_Inr Let_def)

lemma literal_Inr [simp]: "literalStringValue v f a = Inr s \<longleftrightarrow> v = JStr s \<and> s \<in> set a"
  by (cases v) (auto simp: literalStringValue_def)

lemma boolean_Inr [simp]: "booleanValue v f = Inr b \<longleftrightarrow> v = JBool b"
  by (cases v) (auto simp: booleanValue_def)

lemma array_Inr [simp]: "arrayValue v f = Inr xs \<longleftrightarrow> v = JArr xs"
  by (cases v) (auto simp: arrayValue_def)

lemma integer_decoded:
  assumes "nonNegativeIntegerValue v f = Inr n"
  shows "0 \<le> n"
proof -
  obtain r where r: "snd (quotient_of r) = 1" "0 \<le> r" "n = fst (quotient_of r)"
    using assms by (auto simp: nonNegativeIntegerValue_def split: jsval.splits jsnum.splits if_splits)
  have "r = of_int n" using quotient_of_div [of r n 1] r(1,3) by (metis div_by_1 of_int_1 prod.collapse)
  with r(2) show ?thesis by simp
qed

lemma integer_canonical: "0 \<le> n \<Longrightarrow> nonNegativeIntegerValue (int_json n) f = Inr n"
  by (simp add: nonNegativeIntegerValue_def int_json_def)

lemma object_Inr [simp]: "objectValue v f = Inr w \<longleftrightarrow> w = v \<and> is_record v"
  by (auto simp: objectValue_def)


subsection \<open>Arrays\<close>

lemma array_of_decoded:
  "array_of f v l = Inr ys \<Longrightarrow> (\<And>x y. f x = Inr y \<Longrightarrow> Q y) \<Longrightarrow> list_all Q ys"
  by (auto simp: array_of_def and_then_Inr list_all_iff dest: map_result_mem)

lemma map_result_encoded:
  "list_all Q ys \<Longrightarrow> (\<And>y. Q y \<Longrightarrow> f (g y) = Inr y) \<Longrightarrow> map_result f (map g ys) = Inr ys"
  by (induction ys) auto

lemma array_of_encoded:
  "list_all Q ys \<Longrightarrow> (\<And>y. Q y \<Longrightarrow> f (g y) = Inr y) \<Longrightarrow> array_of f (JArr (map g ys)) l = Inr ys"
  by (simp add: array_of_def arrayValue_def map_result_encoded)

lemma strings_encoded:
  "list_all Q ys \<Longrightarrow> (\<And>y. Q y \<Longrightarrow> f (JStr y) = Inr y) \<Longrightarrow> array_of f (strings_json ys) l = Inr ys"
  by (simp add: strings_json_def array_of_encoded)

lemma each_ok: "list_all Q xs \<Longrightarrow> (\<And>x. Q x \<Longrightarrow> \<exists>y. f x = Inr y) \<Longrightarrow> each f xs = Inr ()"
proof -
  assume "list_all Q xs" and f: "\<And>x. Q x \<Longrightarrow> \<exists>y. f x = Inr y"
  then have "\<exists>ys. map_result f xs = Inr ys" by (induction xs) force+
  then show ?thesis by (auto simp: each_def)
qed

lemma keys_decoded:
  assumes "optionalStringArrayProperty v p = Inr k"
  shows "opt_all (list_all (\<lambda>k. k \<noteq> [])) k"
  using assms array_of_decoded [of "\<lambda>item. stringValue item (p @ ''[]'')" _ p _ "\<lambda>k. k \<noteq> []"]
  by (fastforce simp: optionalStringArrayProperty_def Let_def and_then_Inr opt_all_def split: if_splits)


subsection \<open>Rules, redirects and policies\<close>

lemma rule_decoded:
  assumes "new_url P [] = None" "destinationPolicyRuleFromUnknown P v = Inr d"
  shows "canonical_rule P d"
  using assms(2)
  by (auto simp: destinationPolicyRuleFromUnknown_def and_then_Inr canonical_rule_def
      intro: https_decoded [OF assms(1)] hostname_decoded path_decoded keys_decoded
      elim!: array_of_decoded)

lemma redirect_decoded:
  assumes "new_url P [] = None" "redirectPolicyFromUnknown P v = Inr r"
  shows "canonical_redirect P r"
  using assms(2)
  by (auto simp: redirectPolicyFromUnknown_def and_then_Inr canonical_redirect_def
      intro: https_decoded [OF assms(1)] hostname_decoded integer_decoded elim!: array_of_decoded)

lemma date_decoded: "publication_date v p t f = Inr s \<Longrightarrow> s \<noteq> []"
  by (auto simp: publication_date_def split: jsval.splits option.splits)

lemma policy_decoded:
  assumes "new_url P [] = None" "policyProjectionFromBody P input t = Inr p"
  shows "canonical_policy P p"
proof -
  have "list_all (canonical_rule P) (dp_approved_destinations p)"
    using assms(2) by (auto simp: policyProjectionFromBody_def and_then_Inr
        intro: rule_decoded [OF assms(1)] elim!: array_of_decoded)
  moreover have "canonical_redirect P (dp_redirect_policy p)"
    using assms(2) by (auto simp: policyProjectionFromBody_def and_then_Inr
        intro: redirect_decoded [OF assms(1)])
  ultimately show ?thesis
    using assms(2) by (auto simp: policyProjectionFromBody_def and_then_Inr canonical_policy_def
        dest: date_decoded)
qed

lemma get_prop_obj [simp]:
  "get_prop (JObj kvs) k = (case map_of kvs k of None \<Rightarrow> JUndefined | Some x \<Rightarrow> x)"
  by (simp add: get_prop_def)

lemma rule_props:
  "is_record (rule_json d)"
  "get_prop (rule_json d) ''destination_id'' = JStr (dr_destination_id d)"
  "get_prop (rule_json d) ''expected_final_url'' = JStr (dr_expected_final_url d)"
  "get_prop (rule_json d) ''allowed_hosts'' = strings_json (dr_allowed_hosts d)"
  "get_prop (rule_json d) ''allow_subdomains'' = JBool (dr_allow_subdomains d)"
  "get_prop (rule_json d) ''path_prefixes'' = strings_json (dr_path_prefixes d)"
  "get_prop (rule_json d) ''query_policy'' = JStr (dr_query_policy d)"
  "get_prop (rule_json d) ''allowed_query_keys'' =
     (case dr_allowed_query_keys d of None \<Rightarrow> JUndefined | Some ks \<Rightarrow> strings_json ks)"
  by (simp_all add: rule_json_def opt_prop_def split: option.splits)

lemma redirect_props:
  "is_record (redirect_json r)"
  "get_prop (redirect_json r) ''resolver_urls'' = strings_json (rp_resolver_urls r)"
  "get_prop (redirect_json r) ''expected_final_destinations'' =
     strings_json (rp_expected_final_destinations r)"
  "get_prop (redirect_json r) ''allowed_redirect_hosts'' = strings_json (rp_allowed_redirect_hosts r)"
  "get_prop (redirect_json r) ''max_redirect_hops'' = int_json (rp_max_redirect_hops r)"
  "get_prop (redirect_json r) ''nested_shorteners_allowed'' = JBool (rp_nested_shorteners_allowed r)"
  "get_prop (redirect_json r) ''scanner_must_display_resolver_and_final_destination'' =
     JBool (rp_scanner_must_display_resolver_and_final_destination r)"
  by (simp_all add: redirect_json_def)

lemma body_props:
  "is_record (destinationPolicyArtifactBody p)"
  "get_prop (destinationPolicyArtifactBody p) ''artifact_type'' = JStr ''destination_policy''"
  "get_prop (destinationPolicyArtifactBody p) ''root_program_id'' =
     JStr (ns_root_program_id (dp_namespace p))"
  "get_prop (destinationPolicyArtifactBody p) ''delegated_authority_id'' =
     JStr (ns_delegated_authority_id (dp_namespace p))"
  "get_prop (destinationPolicyArtifactBody p) ''issuer_id'' = JStr (ns_issuer_id (dp_namespace p))"
  "get_prop (destinationPolicyArtifactBody p) ''destination_policy_id'' = JStr (dp_destination_policy_id p)"
  "get_prop (destinationPolicyArtifactBody p) ''approved_destinations'' =
     JArr (map rule_json (dp_approved_destinations p))"
  "get_prop (destinationPolicyArtifactBody p) ''redirect_policy'' = redirect_json (dp_redirect_policy p)"
  "\<exists>pub. get_prop (destinationPolicyArtifactBody p) ''publication'' = JObj pub \<and>
     get_prop (JObj pub) ''published_at'' = JStr (dp_cache_generated_at p) \<and>
     get_prop (JObj pub) ''valid_until'' = JStr (dp_cache_expires_at p)"
  by (simp_all add: destinationPolicyArtifactBody_def)

lemma url_list_encoded:
  "list_all (canonical_url P) us \<Longrightarrow> array_of (\<lambda>u. httpsUrlValue P u f) (strings_json us) l = Inr us"
  by (rule strings_encoded [where Q = "canonical_url P"]) (auto intro: https_canonical)

lemmas host_list_encoded = strings_encoded [where Q = canonical_host, OF _ hostname_canonical]
lemmas path_list_encoded = strings_encoded [where Q = canonical_path, OF _ path_canonical]

lemma keys_encoded:
  assumes "opt_all (list_all (\<lambda>k. k \<noteq> [])) (dr_allowed_query_keys d)"
  shows "optionalStringArrayProperty (rule_json d) ''allowed_query_keys'' = Inr (dr_allowed_query_keys d)"
proof (cases "dr_allowed_query_keys d")
  case None
  then show ?thesis by (simp add: optionalStringArrayProperty_def rule_props)
next
  case (Some ks)
  then have "list_all (\<lambda>k. k \<noteq> []) ks" using assms by (simp add: opt_all_def)
  then have "array_of (\<lambda>item. stringValue item f) (strings_json ks) l = Inr ks" for f l
    by (rule strings_encoded) simp
  moreover have "strings_json ks \<noteq> JUndefined" "strings_json ks \<noteq> JNull"
    by (simp_all add: strings_json_def)
  ultimately show ?thesis by (simp add: optionalStringArrayProperty_def rule_props Some Let_def)
qed

lemma string_canonical: "s \<noteq> [] \<Longrightarrow> stringValue (JStr s) f = Inr s"
  by simp

lemma literal_canonical: "s \<in> set a \<Longrightarrow> literalStringValue (JStr s) f a = Inr s"
  by simp

lemma boolean_canonical: "booleanValue (JBool b) f = Inr b"
  by simp

lemmas encoded = string_canonical literal_canonical boolean_canonical https_canonical
  integer_canonical url_list_encoded host_list_encoded path_list_encoded keys_encoded

lemma rule_encoded: "canonical_rule P d \<Longrightarrow> destinationPolicyRuleFromUnknown P (rule_json d) = Inr d"
  by (simp add: destinationPolicyRuleFromUnknown_def objectValue_def rule_props canonical_rule_def encoded)

lemma redirect_encoded: "canonical_redirect P r \<Longrightarrow> redirectPolicyFromUnknown P (redirect_json r) = Inr r"
  by (simp add: redirectPolicyFromUnknown_def objectValue_def redirect_props canonical_redirect_def encoded)

lemma policy_encoded:
  assumes "canonical_policy P p" "ap_body input = destinationPolicyArtifactBody p"
  shows "policyProjectionFromBody P input t = Inr p"
proof -
  obtain pub where pub: "get_prop (destinationPolicyArtifactBody p) ''publication'' = JObj pub"
    "get_prop (JObj pub) ''published_at'' = JStr (dp_cache_generated_at p)"
    "get_prop (JObj pub) ''valid_until'' = JStr (dp_cache_expires_at p)"
    using body_props(9) by blast
  have rules: "array_of (destinationPolicyRuleFromUnknown P)
      (JArr (map rule_json (dp_approved_destinations p))) l = Inr (dp_approved_destinations p)" for l
    using assms(1) by (intro array_of_encoded [where Q = "canonical_rule P"])
      (auto simp: canonical_policy_def rule_encoded)
  show ?thesis
    using assms
    by (simp add: policyProjectionFromBody_def objectValue_def optionalObjectValue_def body_props
        rules redirect_encoded pub publication_date_def encoded canonical_policy_def del: get_prop_obj)
qed

lemma rule_validated: "canonical_rule P d \<Longrightarrow> validate_rule P d = Inr ()"
  by (auto simp: validate_rule_def canonical_rule_def encoded opt_all_def hostname_canonical path_canonical
      and_then_Inr split: option.splits intro!: each_ok exI)

lemma policy_validated: "canonical_policy P p \<Longrightarrow> validateDestinationPolicyProjection P p = Inr ()"
proof -
  assume p: "canonical_policy P p"
  have "each (validate_rule P) (dp_approved_destinations p) = Inr ()"
    using p by (intro each_ok [where Q = "canonical_rule P"]) (auto simp: canonical_policy_def rule_validated)
  moreover have "each (\<lambda>u. httpsUrlValue P (JStr u) l) us = Inr ()" if "list_all (canonical_url P) us" for l us
    using that by (rule each_ok) (blast intro: https_canonical)
  moreover have "each (\<lambda>h. hostnameValue (JStr h) l) hs = Inr ()" if "list_all canonical_host hs" for l hs
    using that by (rule each_ok) (blast intro: hostname_canonical)
  ultimately show ?thesis
    using p by (simp add: validateDestinationPolicyProjection_def Let_def canonical_policy_def
        canonical_redirect_def integer_canonical)
qed


subsection \<open>Publication\<close>

lemma publish_Done:
  assumes "publishDestinationPolicy P publisher input st = (st', Done res)"
  shows "evaluateDestinationPolicyPublicationGate P (policy_gate_input input) = Inr (ps_gate res)"
    "gd_publishable (ps_gate res)"
    "publisher (policy_publication input) st = (st', Inr (ps_publication res))"
  using assms
  by (auto simp: publishDestinationPolicy_def split: sum.splits if_splits prod.splits)

lemma aware_Done:
  assumes "publishPolicyAwareArtifact P publisher resolveContext input st = (st', Done res)"
    and "ap_artifact_type input = ''destination_policy''"
  obtains policy ctx pinput pres where
    "destinationPolicyProjectionFromArtifactPublicationInput P input = Inr policy"
    "resolveContext input policy = Inr ctx"
    "pinput = \<lparr>pi_issuer = pc_issuer ctx, pi_destination_policy = policy,
       pi_domain_proofs = pc_domain_proofs ctx, pi_artifact_id = ap_artifact_id input,
       pi_version = ap_version input, pi_occurredAt = ap_occurredAt input,
       pi_reason = keep_truthy (ap_reason input)\<rparr>"
    "publishDestinationPolicy P publisher pinput st = (st', Done pres)"
    "res = ps_publication pres"
  using assms
  by (auto simp: publishPolicyAwareArtifact_def split: sum.splits prod.splits outcome.splits)

context publication_backend
begin

lemma policy_not_done_not_announced:
  assumes "publishDestinationPolicy P (publishArtifact P put publish) input (s, b) = ((s', b'), r)"
    and "\<And>res. r \<noteq> Done res"
  shows "recent b' = recent b"
  using assms
  by (auto simp: publishDestinationPolicy_def split: sum.splits if_splits prod.splits
      dest: failed_not_announced)

lemma aware_not_done_not_announced:
  assumes "publishPolicyAwareArtifact P (publishArtifact P put publish) resolveContext input (s, b) =
      ((s', b'), r)" and "\<And>res. r \<noteq> Done res"
  shows "recent b' = recent b"
  using assms
  by (auto simp: publishPolicyAwareArtifact_def split: sum.splits if_splits prod.splits outcome.splits
      dest: failed_not_announced policy_not_done_not_announced)

lemma policy_done_announced:
  assumes "publishDestinationPolicy P (publishArtifact P put publish) input (s, b) = ((s', b'), Done res)"
  shows "get (pi_artifact_id input) s' = Some (pr_artifact (ps_publication res))"
    "sa_body (pr_artifact (ps_publication res)) =
       destinationPolicyArtifactBody (pi_destination_policy input)"
    "recent b' = recent b @ [pr_event (ps_publication res)]"
  using published_consistent [OF publish_Done(3) [OF assms]]
  by (simp_all add: policy_publication_def Let_def)

end


subsection \<open>Properties\<close>

definition fx_policy_work :: artifact_publication_input where
  "fx_policy_work =
     \<lparr>ap_artifact_type = ''destination_policy'', ap_artifact_id = ''artifact:p'', ap_version = 1,
      ap_root_program_id = ''root:r'', ap_body = destinationPolicyArtifactBody fx_policy,
      ap_occurredAt = fx_now, ap_eventType = ''any'', ap_delegated_authority_id = None,
      ap_issuer_id = None, ap_destination_policy_id = None, ap_artifact_ref = None,
      ap_previous_version = None, ap_reason = None\<rparr>"

definition fx_context :: "artifact_publication_input \<Rightarrow> destination_policy_projection \<Rightarrow>
    net_error + destination_policy_publication_context" where
  "fx_context input policy = Inr \<lparr>pc_issuer = fx_enrollment, pc_domain_proofs = [fx_proof]\<rparr>"

definition fx_publish_policy ::
  "((string \<times> signed_artifact) list \<times> network_event list) \<times> artifact_publication_result outcome" where
  "fx_publish_policy =
     publishPolicyAwareArtifact fx_platform (publishArtifact fx_platform memory_put memory_publish)
       fx_context fx_policy_work ([], [])"

lemma fx_policy_published: "\<exists>s b res. fx_publish_policy = ((s, b), Done res)"
proof -
  have "(case snd fx_publish_policy of Done _ \<Rightarrow> True | _ \<Rightarrow> False)" by code_simp
  then obtain res where "snd fx_publish_policy = Done res" by (auto split: outcome.splits)
  then show ?thesis by (metis prod.collapse)
qed

text \<open>
  C12. The publication service publishes a destination policy only in the namespace of the
  issuer, and only when every approved destination has an https URL and hosts whose control an
  active issuer has proved with a current proof; the stored artifact is then the body of the
  decoded policy, announced by exactly one event.
\<close>

theorem published_policy_is_gated:
  assumes "publishPolicyAwareArtifact P (publishArtifact P memory_put memory_publish) resolveContext
      input (s, b) = ((s', b'), Done res)"
    and "ap_artifact_type input = ''destination_policy''"
  shows "\<exists>policy ctx gate_in.
    destinationPolicyProjectionFromArtifactPublicationInput P input = Inr policy \<and>
    resolveContext input policy = Inr ctx \<and>
    gate_in = \<lparr>gi_issuer = pc_issuer ctx, gi_destination_policy = policy,
      gi_domain_proofs = pc_domain_proofs ctx, gi_observed_at = ap_occurredAt input\<rparr> \<and>
    dp_namespace policy = ie_namespace (pc_issuer ctx) \<and>
    dp_approved_destinations policy \<noteq> [] \<and>
    (\<forall>rule \<in> set (dp_approved_destinations policy). rule_proved P gate_in rule) \<and>
    memory_get (ap_artifact_id input) s' = Some (pr_artifact res) \<and>
    sa_body (pr_artifact res) = destinationPolicyArtifactBody policy \<and>
    memory_recent b' = memory_recent b @ [pr_event res]"
  using assms
proof (rule aware_Done)
  fix policy ctx pinput pres
  assume policy: "destinationPolicyProjectionFromArtifactPublicationInput P input = Inr policy"
    "resolveContext input policy = Inr ctx"
    and pinput: "pinput = \<lparr>pi_issuer = pc_issuer ctx, pi_destination_policy = policy,
       pi_domain_proofs = pc_domain_proofs ctx, pi_artifact_id = ap_artifact_id input,
       pi_version = ap_version input, pi_occurredAt = ap_occurredAt input,
       pi_reason = keep_truthy (ap_reason input)\<rparr>"
    and done': "publishDestinationPolicy P (publishArtifact P memory_put memory_publish) pinput (s, b) =
      ((s', b'), Done pres)" "res = ps_publication pres"
  let ?g = "\<lparr>gi_issuer = pc_issuer ctx, gi_destination_policy = policy,
      gi_domain_proofs = pc_domain_proofs ctx, gi_observed_at = ap_occurredAt input\<rparr>"
  have "policy_gate_input pinput = ?g" by (simp add: pinput policy_gate_input_def)
  then have "dp_namespace policy = ie_namespace (pc_issuer ctx) \<and>
      dp_approved_destinations policy \<noteq> [] \<and>
      (\<forall>rule \<in> set (dp_approved_destinations policy). rule_proved P ?g rule)"
    using publishable_gate_has_domain_control [of P ?g "ps_gate pres"] publish_Done(1,2) [OF done'(1)]
    by simp
  with policy memory.policy_done_announced [OF done'(1)] done'(2) pinput show ?thesis
    by auto
qed

theorem published_policy_is_gated_witness:
  "\<exists>s b res policy. fx_publish_policy = ((s, b), Done res) \<and>
     memory_get ''artifact:p'' s = Some (pr_artifact res) \<and>
     sa_body (pr_artifact res) = destinationPolicyArtifactBody policy"
proof -
  obtain s b res where r: "fx_publish_policy = ((s, b), Done res)" using fx_policy_published by blast
  show ?thesis
    using published_policy_is_gated [OF r [unfolded fx_publish_policy_def]] r
    by (auto simp: fx_policy_work_def)
qed

text \<open>
  A publication of a destination policy that ends with an error or a defect (a body that
  does not decode, an unknown context, a blocked gate, a rejected envelope) announces nothing.
\<close>

theorem failed_policy_publication_is_silent:
  assumes "publishPolicyAwareArtifact P (publishArtifact P memory_put memory_publish) resolveContext
      input (s, b) = ((s', b'), r)"
    and "case r of Done _ \<Rightarrow> False | _ \<Rightarrow> True"
  shows "memory_recent b' = memory_recent b"
  using memory.aware_not_done_not_announced [OF assms(1)] assms(2) by (auto split: outcome.splits)

theorem failed_policy_publication_is_silent_witness:
  "memory_recent (snd (fst (publishPolicyAwareArtifact fx_platform
     (publishArtifact fx_platform memory_put memory_publish) fx_context
     (fx_policy_work\<lparr>ap_body := JNull\<rparr>) ([], [])))) = []"
proof -
  let ?r = "publishPolicyAwareArtifact fx_platform (publishArtifact fx_platform memory_put memory_publish)
     fx_context (fx_policy_work\<lparr>ap_body := JNull\<rparr>) ([], [])"
  have failed: "case snd ?r of Done _ \<Rightarrow> False | _ \<Rightarrow> True" by code_simp
  obtain s b o' where r: "?r = ((s, b), o')" by (cases ?r) auto
  show ?thesis
    using failed_policy_publication_is_silent [OF r] failed by (simp add: r memory_recent_def)
qed

text \<open>
  C13. Decoding is stable: a policy decoded from a body passes the publication's validation,
  and the artifact body that is published for it decodes, from any later input, to the same
  policy. So the verifier projects exactly the policy that the gate evaluated.
\<close>

theorem policy_body_round_trip:
  assumes "new_url P [] = None"
    and "destinationPolicyProjectionFromArtifactPublicationInput P input = Inr policy"
    and "ap_body input' = destinationPolicyArtifactBody policy"
  shows "destinationPolicyProjectionFromArtifactPublicationInput P input' = Inr policy \<and>
    validateDestinationPolicyProjection P policy = Inr ()"
proof -
  have "canonical_policy P policy"
    using assms(1,2) by (auto simp: destinationPolicyProjectionFromArtifactPublicationInput_def
        intro: policy_decoded)
  then show ?thesis
    using policy_encoded [OF _ assms(3)] policy_validated
    by (simp add: destinationPolicyProjectionFromArtifactPublicationInput_def)
qed

theorem policy_body_round_trip_witness:
  "destinationPolicyProjectionFromArtifactPublicationInput fx_platform fx_policy_work = Inr fx_policy \<and>
   validateDestinationPolicyProjection fx_platform fx_policy = Inr ()"
proof (rule policy_body_round_trip)
  show "new_url fx_platform [] = None" by code_simp
  show "destinationPolicyProjectionFromArtifactPublicationInput fx_platform fx_policy_work = Inr fx_policy"
    by code_simp
  show "ap_body fx_policy_work = destinationPolicyArtifactBody fx_policy"
    by (simp add: fx_policy_work_def)
qed

end
