(* ===== verification/VerifierSync.thy ===== *)
theory VerifierSync
  imports SignatureFacts DestinationPolicyFacts
begin

text \<open>
  The verifier sync, \<^verbatim>\<open>network/src/services/verifier-sync.ts\<close>: recent events are resolved to
  stored artifacts, checked against their hashes and signatures, and projected into the
  verifier cache and the trust key registry. The cache and the registry are the in-memory
  ones; the store and the verifier are arguments. An artifact body is an untyped value.
\<close>

subsection \<open>Recognising artifact bodies\<close>

definition lifecycleStatuses :: "string list" where
  "lifecycleStatuses = [''active'', ''suspended'', ''revoked'', ''expired'', ''retired'']"

definition certificateStatuses :: "string list" where
  "certificateStatuses = [''active'', ''suspended'', ''revoked'', ''expired'']"

definition isOneOf :: "jsval \<Rightarrow> string list \<Rightarrow> bool" where
  "isOneOf value allowed = (case value of JStr s \<Rightarrow> s \<in> set allowed | _ \<Rightarrow> False)"

definition undefined_or_str :: "jsval \<Rightarrow> bool" where
  "undefined_or_str v = (v = JUndefined \<or> is_str v)"

definition isTrustKeyManifestEntry :: "jsval \<Rightarrow> bool" where
  "isTrustKeyManifestEntry e =
     (is_objectish e \<and> is_str (get_prop e ''key_id'') \<and> is_str (get_prop e ''signer_id'') \<and>
      is_str (get_prop e ''algorithm_id'') \<and> is_str (get_prop e ''public_key_material_ref'') \<and>
      isOneOf (get_prop e ''status'') certificateStatuses)"

definition isDelegatedAuthorityManifestEntry :: "jsval \<Rightarrow> bool" where
  "isDelegatedAuthorityManifestEntry e =
     (is_objectish e \<and> is_str (get_prop e ''delegated_authority_id'') \<and>
      is_str (get_prop e ''name'') \<and> is_str (get_prop e ''manifest_ref'') \<and>
      isOneOf (get_prop e ''status'') lifecycleStatuses)"

definition isEnrolledIssuerManifestEntry :: "jsval \<Rightarrow> bool" where
  "isEnrolledIssuerManifestEntry e =
     (is_objectish e \<and> is_str (get_prop e ''issuer_id'') \<and>
      is_str (get_prop e ''issuer_record_ref'') \<and> is_str (get_prop e ''assurance_tier'') \<and>
      isOneOf (get_prop e ''status'') lifecycleStatuses)"

definition isPublicationMetadata :: "jsval \<Rightarrow> bool" where
  "isPublicationMetadata p =
     (truthy p \<and> is_str (get_prop p ''published_at'') \<and> is_str (get_prop p ''valid_until'') \<and>
      is_str (get_prop p ''signed_by'') \<and> is_str (get_prop p ''signature_status''))"

definition isRootManifestArtifactBody :: "jsval \<Rightarrow> bool" where
  "isRootManifestArtifactBody b =
     (is_objectish b \<and> get_prop b ''artifact_type'' = JStr ''root_manifest'' \<and>
      is_str (get_prop b ''schema_version'') \<and> is_str (get_prop b ''root_program_id'') \<and>
      is_str (get_prop b ''name'') \<and>
      js_array_every is_str (get_prop b ''accepted_algorithm_ids'') \<and>
      js_array_every isTrustKeyManifestEntry (get_prop b ''trust_keys'') \<and>
      is_record (get_prop b ''policy_constraints'') \<and>
      js_array_every isDelegatedAuthorityManifestEntry (get_prop b ''delegated_authorities'') \<and>
      isPublicationMetadata (get_prop b ''publication'') \<and> is_str (get_prop b ''signed_by''))"

definition isDelegatedAuthorityManifestArtifactBody :: "jsval \<Rightarrow> bool" where
  "isDelegatedAuthorityManifestArtifactBody b =
     (is_objectish b \<and> get_prop b ''artifact_type'' = JStr ''delegated_authority_manifest'' \<and>
      is_str (get_prop b ''schema_version'') \<and> is_str (get_prop b ''root_program_id'') \<and>
      is_str (get_prop b ''delegated_authority_id'') \<and> is_str (get_prop b ''operator_name'') \<and>
      is_str (get_prop b ''operator_class'') \<and> js_array_every is_str (get_prop b ''scope'') \<and>
      js_array_every isTrustKeyManifestEntry (get_prop b ''trust_keys'') \<and>
      is_record (get_prop b ''assurance_requirements'') \<and>
      js_array_every isEnrolledIssuerManifestEntry (get_prop b ''enrolled_issuers'') \<and>
      isPublicationMetadata (get_prop b ''publication'') \<and> is_str (get_prop b ''signed_by''))"

definition isIssuerDestinationPolicyRef :: "jsval \<Rightarrow> bool" where
  "isIssuerDestinationPolicyRef e =
     (is_objectish e \<and> is_str (get_prop e ''destination_policy_id'') \<and>
      is_str (get_prop e ''policy_ref'') \<and> isOneOf (get_prop e ''status'') lifecycleStatuses)"

definition isIssuerRecordArtifactBody :: "jsval \<Rightarrow> bool" where
  "isIssuerRecordArtifactBody b =
     (let ns = get_prop b ''issuer_namespace''; st = get_prop b ''status'';
          pub = get_prop b ''publication''
      in is_objectish b \<and> get_prop b ''artifact_type'' = JStr ''issuer_record'' \<and>
         truthy ns \<and> is_str (get_prop ns ''root_program_id'') \<and>
         is_str (get_prop ns ''delegated_authority_id'') \<and> is_str (get_prop ns ''issuer_id'') \<and>
         is_str (get_prop b ''issuer_display_name'') \<and> is_str (get_prop b ''issuer_class'') \<and>
         is_str (get_prop b ''assurance_tier'') \<and>
         js_array_every isIssuerDestinationPolicyRef (get_prop b ''destination_policies'') \<and>
         truthy st \<and> isOneOf (get_prop st ''issuer_status'') lifecycleStatuses \<and>
         isOneOf (get_prop st ''certificate_status'') certificateStatuses \<and>
         is_str (get_prop st ''status_event_ref'') \<and>
         truthy pub \<and> is_str (get_prop pub ''published_at'') \<and> is_str (get_prop pub ''valid_until''))"

definition isDestinationPolicyDestination :: "jsval \<Rightarrow> bool" where
  "isDestinationPolicyDestination d =
     (is_objectish d \<and> is_str (get_prop d ''destination_id'') \<and>
      is_str (get_prop d ''expected_final_url'') \<and>
      js_array_every is_str (get_prop d ''allowed_hosts'') \<and>
      is_bool (get_prop d ''allow_subdomains'') \<and>
      js_array_every is_str (get_prop d ''path_prefixes'') \<and> is_str (get_prop d ''query_policy'') \<and>
      (get_prop d ''allowed_query_keys'' = JUndefined \<or>
       js_array_every is_str (get_prop d ''allowed_query_keys'')))"

definition isRedirectPolicy :: "jsval \<Rightarrow> bool" where
  "isRedirectPolicy r =
     (is_objectish r \<and> js_array_every is_str (get_prop r ''resolver_urls'') \<and>
      js_array_every is_str (get_prop r ''expected_final_destinations'') \<and>
      js_array_every is_str (get_prop r ''allowed_redirect_hosts'') \<and>
      is_num (get_prop r ''max_redirect_hops'') \<and>
      is_bool (get_prop r ''nested_shorteners_allowed'') \<and>
      is_bool (get_prop r ''scanner_must_display_resolver_and_final_destination''))"

definition isDestinationPolicyArtifactBody :: "jsval \<Rightarrow> bool" where
  "isDestinationPolicyArtifactBody b =
     (let pub = get_prop b ''publication''
      in is_objectish b \<and> get_prop b ''artifact_type'' = JStr ''destination_policy'' \<and>
         is_str (get_prop b ''root_program_id'') \<and> is_str (get_prop b ''delegated_authority_id'') \<and>
         is_str (get_prop b ''issuer_id'') \<and> is_str (get_prop b ''destination_policy_id'') \<and>
         js_array_every isDestinationPolicyDestination (get_prop b ''approved_destinations'') \<and>
         isRedirectPolicy (get_prop b ''redirect_policy'') \<and>
         truthy pub \<and> is_str (get_prop pub ''published_at'') \<and> is_str (get_prop pub ''valid_until''))"

definition isSigned :: "jsval \<Rightarrow> bool" where
  "isSigned b =
     (is_str (get_prop b ''signed_by'') \<and> is_str (get_prop b ''signature_status'') \<and>
      is_str (get_prop b ''signature_algorithm_id'') \<and> is_str (get_prop b ''signature_input'') \<and>
      is_str (get_prop b ''signature''))"

definition isRevocationStatusArtifactBody :: "jsval \<Rightarrow> bool" where
  "isRevocationStatusArtifactBody b =
     (let target = get_prop b ''target''
      in is_objectish b \<and> truthy target \<and>
         get_prop b ''artifact_type'' = JStr ''revocation_status_event'' \<and>
         is_str (get_prop b ''root_program_id'') \<and> is_str (get_prop b ''delegated_authority_id'') \<and>
         isOneOf (get_prop target ''target_type'')
           [''issuer_record'', ''issuer'', ''certificate'', ''destination_policy'',
            ''delegated_authority'', ''trust_key''] \<and>
         undefined_or_str (get_prop target ''issuer_id'') \<and>
         undefined_or_str (get_prop target ''destination_policy_id'') \<and>
         undefined_or_str (get_prop target ''certificate_ref'') \<and>
         undefined_or_str (get_prop target ''key_id'') \<and>
         isOneOf (get_prop b ''status'') lifecycleStatuses \<and> isSigned b)"

definition isAssuranceStatusArtifactBody :: "jsval \<Rightarrow> bool" where
  "isAssuranceStatusArtifactBody b =
     (let target = get_prop b ''target''
      in is_objectish b \<and> truthy target \<and>
         get_prop b ''artifact_type'' = JStr ''assurance_status_event'' \<and>
         is_str (get_prop b ''root_program_id'') \<and> is_str (get_prop b ''delegated_authority_id'') \<and>
         isOneOf (get_prop target ''target_type'') [''issuer'', ''issuer_record''] \<and>
         is_str (get_prop target ''issuer_id'') \<and>
         undefined_or_str (get_prop b ''previous_assurance_tier'') \<and>
         is_str (get_prop b ''new_assurance_tier'') \<and> isSigned b)"

definition recognizedTrustArtifact :: "jsval \<Rightarrow> bool" where
  "recognizedTrustArtifact b =
     (isRootManifestArtifactBody b \<or> isDelegatedAuthorityManifestArtifactBody b \<or>
      isIssuerRecordArtifactBody b \<or> isDestinationPolicyArtifactBody b \<or>
      isRevocationStatusArtifactBody b \<or> isAssuranceStatusArtifactBody b)"


subsection \<open>The scope of a signed body\<close>

text \<open>
  The source compares some fields of the body with the same fields of the same value; those
  comparisons of a string with itself are kept, as \<open>x = x\<close>.
\<close>

definition publication_matches_signature :: "jsval \<Rightarrow> bool" where
  "publication_matches_signature b =
     (get_prop (get_prop b ''publication'') ''signed_by'' = get_prop b ''signed_by'' \<and>
      get_prop (get_prop b ''publication'') ''signature_status'' = get_prop b ''signature_status'')"

definition trustArtifactScopeMatchesBody :: "jsval \<Rightarrow> bool" where
  "trustArtifactScopeMatchesBody b =
     (let ns = get_prop b ''issuer_namespace'' in
      if isRootManifestArtifactBody b then
        get_prop b ''root_program_id'' = get_prop b ''root_program_id'' \<and>
        publication_matches_signature b
      else if isDelegatedAuthorityManifestArtifactBody b then
        get_prop b ''root_program_id'' = get_prop b ''root_program_id'' \<and>
        get_prop b ''delegated_authority_id'' = get_prop b ''delegated_authority_id'' \<and>
        publication_matches_signature b
      else if isIssuerRecordArtifactBody b then
        get_prop b ''root_program_id'' = get_prop ns ''root_program_id'' \<and>
        get_prop b ''delegated_authority_id'' = get_prop ns ''delegated_authority_id'' \<and>
        (get_prop b ''issuer_id'' = JUndefined \<or>
         get_prop b ''issuer_id'' = get_prop ns ''issuer_id'')
      else if isDestinationPolicyArtifactBody b then
        get_prop b ''root_program_id'' = get_prop b ''root_program_id'' \<and>
        get_prop b ''delegated_authority_id'' = get_prop b ''delegated_authority_id'' \<and>
        is_str (get_prop b ''issuer_id'') \<and> get_prop b ''issuer_id'' = get_prop b ''issuer_id''
      else if isAssuranceStatusArtifactBody b then
        isOneOf (get_prop (get_prop b ''target'') ''target_type'') [''issuer'', ''issuer_record'']
      else True)"

datatype gate_result = Gate_unrecognized | Gate_rejected string | Gate_accepted

definition signature_gate :: "(jsval \<Rightarrow> signature_result outcome) \<Rightarrow> jsval \<Rightarrow> gate_result outcome" where
  "signature_gate verify b =
     (if \<not> recognizedTrustArtifact b then Done Gate_unrecognized
      else case verify b of
             Failed e \<Rightarrow> Failed e
           | Died d \<Rightarrow> Died d
           | Done signature \<Rightarrow>
               if \<not> sv_accepted signature then
                 Done (Gate_rejected (signature_reason_string (sv_reason signature)))
               else if \<not> trustArtifactScopeMatchesBody b then Done (Gate_rejected ''scope_mismatch'')
               else Done Gate_accepted)"


subsection \<open>Projections of a body\<close>

definition active_ids :: "jsval \<Rightarrow> string \<Rightarrow> string list" where
  "active_ids listed idProperty =
     map (\<lambda>e. str_of (get_prop e idProperty))
       (filter (\<lambda>e. get_prop e ''status'' = JStr ''active'') (elements listed))"

definition rootAuthorityContextFromArtifact :: "jsval \<Rightarrow> root_authority_context option" where
  "rootAuthorityContextFromArtifact b =
     (if \<not> isRootManifestArtifactBody b then None
      else Some \<lparr>rac_root_program_id = str_of (get_prop b ''root_program_id''),
                 rac_active_delegated_authority_ids =
                   active_ids (get_prop b ''delegated_authorities'') ''delegated_authority_id''\<rparr>)"

definition delegatedAuthorityIssuerContextFromArtifact ::
  "jsval \<Rightarrow> delegated_authority_issuer_context option" where
  "delegatedAuthorityIssuerContextFromArtifact b =
     (if \<not> isDelegatedAuthorityManifestArtifactBody b then None
      else Some \<lparr>daic_root_program_id = str_of (get_prop b ''root_program_id''),
                 daic_delegated_authority_id = str_of (get_prop b ''delegated_authority_id''),
                 daic_active_issuer_ids = active_ids (get_prop b ''enrolled_issuers'') ''issuer_id''\<rparr>)"

definition namespace_of :: "jsval \<Rightarrow> string \<Rightarrow> issuer_namespace" where
  "namespace_of v issuerId =
     \<lparr>ns_root_program_id = str_of (get_prop v ''root_program_id''),
      ns_delegated_authority_id = str_of (get_prop v ''delegated_authority_id''),
      ns_issuer_id = issuerId\<rparr>"

definition issuerProjectionFromArtifact :: "jsval \<Rightarrow> issuer_projection option" where
  "issuerProjectionFromArtifact b =
     (let st = get_prop b ''status''; ns = get_prop b ''issuer_namespace'';
          pub = get_prop b ''publication''
      in if \<not> isIssuerRecordArtifactBody b \<or> get_prop st ''issuer_status'' \<noteq> JStr ''active'' \<or>
            get_prop st ''certificate_status'' \<noteq> JStr ''active'' then None
         else case find (\<lambda>e. get_prop e ''status'' = JStr ''active'')
                     (elements (get_prop b ''destination_policies'')) of
                None \<Rightarrow> None
              | Some activePolicy \<Rightarrow>
                  Some \<lparr>ip_namespace = namespace_of ns (str_of (get_prop ns ''issuer_id'')),
                        ip_issuer_display_name = str_of (get_prop b ''issuer_display_name''),
                        ip_assurance_tier = str_of (get_prop b ''assurance_tier''),
                        ip_destination_policy_id =
                          str_of (get_prop activePolicy ''destination_policy_id''),
                        ip_allowed_hosts = [],
                        ip_cache_generated_at = str_of (get_prop pub ''published_at''),
                        ip_cache_expires_at = str_of (get_prop pub ''valid_until'')\<rparr>)"

definition artifactBodyTypeIs :: "jsval \<Rightarrow> string \<Rightarrow> bool" where
  "artifactBodyTypeIs b artifactType =
     (is_record b \<and> get_prop b ''artifact_type'' = JStr artifactType)"

definition sync_publication_input :: "platform \<Rightarrow> jsval \<Rightarrow> event_envelope \<Rightarrow> artifact_publication_input" where
  "sync_publication_input P b e =
     \<lparr>ap_artifact_type = ''destination_policy'', ap_artifact_id = ee_artifact_id e,
      ap_version = ee_version e, ap_root_program_id = ee_root_program_id e, ap_body = b,
      ap_occurredAt = (case date_parse P (ee_occurred_at e) of None \<Rightarrow> 0 | Some t \<Rightarrow> t),
      ap_eventType = ee_type e,
      ap_delegated_authority_id = keep_truthy (ee_delegated_authority_id e),
      ap_issuer_id = keep_truthy (ee_issuer_id e),
      ap_destination_policy_id = keep_truthy (ee_destination_policy_id e),
      ap_artifact_ref = None, ap_previous_version = None, ap_reason = None\<rparr>"

text \<open>The projection of a policy body, or the reason of its rejection; the date may be invalid.\<close>

definition destinationPolicyProjectionFromArtifact ::
  "platform \<Rightarrow> jsval \<Rightarrow> event_envelope \<Rightarrow> (string + destination_policy_projection) option" where
  "destinationPolicyProjectionFromArtifact P b e =
     (if \<not> artifactBodyTypeIs b ''destination_policy'' then None
      else Some (map_error (\<lambda>_. ''contract_validation_failed'')
             (policyProjectionFromBody P (sync_publication_input P b e)
                (map_option (iso_string P) (date_parse P (ee_occurred_at e))))))"

definition statusEventFromArtifact :: "jsval \<Rightarrow> jsval option" where
  "statusEventFromArtifact b =
     (if isRevocationStatusArtifactBody b \<or> isAssuranceStatusArtifactBody b then Some b else None)"


subsection \<open>Status events\<close>

definition target_is :: "jsval \<Rightarrow> string list \<Rightarrow> bool" where
  "target_is b types = isOneOf (get_prop (get_prop b ''target'') ''target_type'') types"

definition applyStatusEvent :: "jsval \<Rightarrow> verifier_cache \<Rightarrow> verifier_cache \<times> bool" where
  "applyStatusEvent b c =
     (let target = get_prop b ''target''; issuerId = get_prop target ''issuer_id'';
          policyId = get_prop target ''destination_policy_id''
      in if get_prop b ''artifact_type'' = JStr ''assurance_status_event'' then
           updateIssuerAssuranceTier (namespace_of b (str_of issuerId))
             (str_of (get_prop b ''new_assurance_tier'')) c
         else if get_prop b ''status'' = JStr ''active'' then (c, False)
         else if target_is b [''issuer_record'', ''issuer'', ''certificate''] \<and> is_str issuerId then
           (let ns = namespace_of b (str_of issuerId);
                (c1, issuerRemoved) = removeIssuer ns c;
                (c2, policyRemoved) = removeDestinationPoliciesForIssuer ns c1
            in (c2, issuerRemoved \<or> policyRemoved))
         else if target_is b [''delegated_authority''] then
           removeDelegatedAuthority
             \<lparr>dak_root_program_id = str_of (get_prop b ''root_program_id''),
              dak_delegated_authority_id = str_of (get_prop b ''delegated_authority_id'')\<rparr> c
         else if target_is b [''destination_policy''] \<and> is_str policyId \<and> is_str issuerId then
           removeDestinationPolicy (namespace_of b (str_of issuerId)) (str_of policyId) c
         else (c, False))"

fun trust_status_of :: "jsval \<Rightarrow> trust_key_status option" where
  "trust_status_of (JStr s) =
     (if s = ''active'' then Some Key_active else if s = ''suspended'' then Some Key_suspended
      else if s = ''revoked'' then Some Key_revoked else if s = ''expired'' then Some Key_expired
      else None)"
| "trust_status_of _ = None"

definition status_signer_query :: "jsval \<Rightarrow> trust_key_lookup_input" where
  "status_signer_query b =
     \<lparr>li_signed_by = str_of (get_prop b ''signed_by''),
      li_root_program_id = str_of (get_prop b ''root_program_id''),
      li_accepted_algorithm_ids = [str_of (get_prop b ''signature_algorithm_id'')],
      li_delegated_authority_id = Some (str_of (get_prop b ''delegated_authority_id''))\<rparr>"

definition applyKeyStatusEvent :: "jsval \<Rightarrow> key_registry \<Rightarrow> key_registry \<times> bool" where
  "applyKeyStatusEvent b rs =
     (case (get_prop (get_prop b ''target'') ''key_id'', trust_status_of (get_prop b ''status'')) of
        (JStr keyId, Some status) \<Rightarrow>
          if \<not> target_is b [''trust_key''] then (rs, False)
          else
            (let signer = lookupSignerKey (status_signer_query b) rs
             in case lr_key signer of
                  None \<Rightarrow> (rs, False)
                | Some key \<Rightarrow>
                    if lr_reason signer \<noteq> None then (rs, False)
                    else updateTrustKeyStatus
                      \<lparr>ku_root_program_id = str_of (get_prop b ''root_program_id''),
                       ku_key_id = keyId, ku_status = status,
                       ku_delegated_authority_id =
                         (if tk_scope key = Scope_root_program then None
                          else Some (str_of (get_prop b ''delegated_authority_id'')))\<rparr> rs)
      | _ \<Rightarrow> (rs, False))"


subsection \<open>The sync loop\<close>

record sync_state =
  sy_cache :: "verifier_cache option"
  sy_registry :: key_registry
  sy_fetched :: nat
  sy_validated :: nat
  sy_issuers :: nat
  sy_policies :: nat
  sy_applied :: nat
  sy_key_applied :: nat
  sy_missing :: "string list"
  sy_mismatches :: "string list"
  sy_rejected :: "string list"

record sync_report =
  vr_processed_events :: nat
  vr_fetched_artifacts :: nat
  vr_validated_trust_artifacts :: nat
  vr_projected_issuers :: nat
  vr_projected_destination_policies :: nat
  vr_applied_status_events :: nat
  vr_applied_key_status_events :: nat
  vr_missing_artifacts :: "string list"
  vr_artifact_hash_mismatches :: "string list"
  vr_rejected_status_events :: "string list"

definition start_state :: "verifier_cache option \<Rightarrow> key_registry \<Rightarrow> sync_state" where
  "start_state cache registry =
     \<lparr>sy_cache = cache, sy_registry = registry, sy_fetched = 0, sy_validated = 0, sy_issuers = 0,
      sy_policies = 0, sy_applied = 0, sy_key_applied = 0, sy_missing = [], sy_mismatches = [],
      sy_rejected = []\<rparr>"

text \<open>\<^verbatim>\<open>if (cache && value) { ... }\<close>: nothing happens without a cache or without a value.\<close>

definition on_cache ::
  "'a option \<Rightarrow> ('a \<Rightarrow> verifier_cache \<Rightarrow> sync_state \<Rightarrow> sync_state) \<Rightarrow> sync_state \<Rightarrow> sync_state" where
  "on_cache value f st =
     (case (sy_cache st, value) of (Some c, Some x) \<Rightarrow> f x c st | _ \<Rightarrow> st)"

definition sync_root_context :: "jsval \<Rightarrow> sync_state \<Rightarrow> sync_state" where
  "sync_root_context b =
     on_cache (rootAuthorityContextFromArtifact b)
       (\<lambda>x c st. st\<lparr>sy_cache := Some (upsertRootAuthorityContext x c)\<rparr>)"

definition sync_issuer_context :: "jsval \<Rightarrow> sync_state \<Rightarrow> sync_state" where
  "sync_issuer_context b =
     on_cache (delegatedAuthorityIssuerContextFromArtifact b)
       (\<lambda>x c st. st\<lparr>sy_cache := Some (upsertDelegatedAuthorityIssuerContext x c)\<rparr>)"

definition sync_issuer :: "jsval \<Rightarrow> sync_state \<Rightarrow> sync_state" where
  "sync_issuer b =
     on_cache (issuerProjectionFromArtifact b)
       (\<lambda>x c st. st\<lparr>sy_cache := Some (fst (upsertIssuer x c)), sy_issuers := sy_issuers st + 1\<rparr>)"

definition rejection :: "event_envelope \<Rightarrow> string \<Rightarrow> string" where
  "rejection e reason = ee_artifact_id e @ '':'' @ reason"

definition sync_policy :: "platform \<Rightarrow> event_envelope \<Rightarrow> jsval \<Rightarrow> sync_state \<Rightarrow> sync_state" where
  "sync_policy P e b st =
     (case destinationPolicyProjectionFromArtifact P b e of
        None \<Rightarrow> st
      | Some (Inl reason) \<Rightarrow> st\<lparr>sy_rejected := sy_rejected st @ [rejection e reason]\<rparr>
      | Some (Inr projection) \<Rightarrow>
          on_cache (Some projection)
            (\<lambda>x c st. st\<lparr>sy_cache := Some (fst (upsertDestinationPolicy x c)),
                         sy_policies := sy_policies st + 1\<rparr>) st)"

definition sync_status :: "jsval \<Rightarrow> sync_state \<Rightarrow> sync_state" where
  "sync_status b =
     on_cache (statusEventFromArtifact b)
       (\<lambda>x c st. let (c', applied) = applyStatusEvent x c
                 in st\<lparr>sy_cache := Some c',
                       sy_applied := sy_applied st + (if applied then 1 else 0)\<rparr>)"

definition sync_key_status :: "bool \<Rightarrow> jsval \<Rightarrow> sync_state \<Rightarrow> sync_state" where
  "sync_key_status hasRegistry b st =
     (case statusEventFromArtifact b of
        Some x \<Rightarrow>
          if hasRegistry \<and> get_prop x ''artifact_type'' = JStr ''revocation_status_event'' then
            (let (rs, applied) = applyKeyStatusEvent x (sy_registry st)
             in st\<lparr>sy_registry := rs,
                   sy_key_applied := sy_key_applied st + (if applied then 1 else 0)\<rparr>)
          else st
      | None \<Rightarrow> st)"

definition project_artifact ::
  "platform \<Rightarrow> bool \<Rightarrow> event_envelope \<Rightarrow> jsval \<Rightarrow> sync_state \<Rightarrow> sync_state" where
  "project_artifact P hasRegistry e b st =
     sync_key_status hasRegistry b
       (sync_status b
         (sync_policy P e b
           (sync_issuer b
             (sync_issuer_context b
               (sync_root_context b st)))))"

text \<open>
  One event. The verifier reads the registry in its current state; a verifier with a registry
  of its own ignores the argument.
\<close>

definition sync_event ::
  "platform \<Rightarrow> (string \<Rightarrow> net_error + signed_artifact option) \<Rightarrow>
     (key_registry \<Rightarrow> jsval \<Rightarrow> signature_result outcome) \<Rightarrow> bool \<Rightarrow> network_event \<Rightarrow>
     sync_state \<Rightarrow> sync_state \<times> unit outcome" where
  "sync_event P get verify hasRegistry event st =
     (let e = ne_envelope event in
      if ee_type e = ''scanner.decision.recorded'' then (st, Done ())
      else case get (ee_artifact_id e) of
             Inl err \<Rightarrow> (st, Failed err)
           | Inr None \<Rightarrow> (st\<lparr>sy_missing := sy_missing st @ [ee_artifact_id e]\<rparr>, Done ())
           | Inr (Some artifact) \<Rightarrow>
               (let st = st\<lparr>sy_fetched := sy_fetched st + 1\<rparr>; b = sa_body artifact in
                if sa_artifact_hash artifact \<noteq> ee_artifact_hash e \<or>
                   sa_artifact_hash artifact \<noteq> sha256_of P b then
                  (st\<lparr>sy_mismatches := sy_mismatches st @ [ee_artifact_id e]\<rparr>, Done ())
                else
                  (case signature_gate (verify (sy_registry st)) b of
                     Failed err \<Rightarrow> (st, Failed err)
                   | Died d \<Rightarrow> (st, Died d)
                   | Done (Gate_rejected reason) \<Rightarrow>
                       (st\<lparr>sy_rejected := sy_rejected st @ [rejection e reason]\<rparr>, Done ())
                   | Done Gate_accepted \<Rightarrow>
                       (project_artifact P hasRegistry e b (st\<lparr>sy_validated := sy_validated st + 1\<rparr>),
                        Done ())
                   | Done Gate_unrecognized \<Rightarrow> (project_artifact P hasRegistry e b st, Done ()))))"

fun sync_events ::
  "platform \<Rightarrow> (string \<Rightarrow> net_error + signed_artifact option) \<Rightarrow>
     (key_registry \<Rightarrow> jsval \<Rightarrow> signature_result outcome) \<Rightarrow> bool \<Rightarrow> network_event list \<Rightarrow>
     sync_state \<Rightarrow> sync_state \<times> unit outcome" where
  "sync_events P get verify hasRegistry [] st = (st, Done ())"
| "sync_events P get verify hasRegistry (event # events) st =
     (case sync_event P get verify hasRegistry event st of
        (st', Done _) \<Rightarrow> sync_events P get verify hasRegistry events st'
      | (st', stopped) \<Rightarrow> (st', stopped))"

definition sync_report_of :: "nat \<Rightarrow> sync_state \<Rightarrow> sync_report" where
  "sync_report_of processed st =
     \<lparr>vr_processed_events = processed, vr_fetched_artifacts = sy_fetched st,
      vr_validated_trust_artifacts = sy_validated st, vr_projected_issuers = sy_issuers st,
      vr_projected_destination_policies = sy_policies st, vr_applied_status_events = sy_applied st,
      vr_applied_key_status_events = sy_key_applied st, vr_missing_artifacts = sy_missing st,
      vr_artifact_hash_mismatches = sy_mismatches st, vr_rejected_status_events = sy_rejected st\<rparr>"

definition syncRecent ::
  "platform \<Rightarrow> (string \<Rightarrow> net_error + signed_artifact option) \<Rightarrow>
     (key_registry \<Rightarrow> jsval \<Rightarrow> signature_result outcome) \<Rightarrow> bool \<Rightarrow> network_event list \<Rightarrow>
     verifier_cache option \<Rightarrow> key_registry \<Rightarrow>
     (verifier_cache option \<times> key_registry) \<times> sync_report outcome" where
  "syncRecent P get verify hasRegistry events cache registry =
     (case sync_events P get verify hasRegistry events (start_state cache registry) of
        (st, Done _) \<Rightarrow> ((sy_cache st, sy_registry st), Done (sync_report_of (length events) st))
      | (st, Failed e) \<Rightarrow> ((sy_cache st, sy_registry st), Failed e)
      | (st, Died d) \<Rightarrow> ((sy_cache st, sy_registry st), Died d))"

end
