(* ===== verification/VerifierSyncFacts.thy ===== *)
theory VerifierSyncFacts
  imports VerifierSync
begin

text \<open>
  What the sync guarantees: its effect on the cache is a history of cache calls, each of which
  an admitted artifact justifies; its effect on the registry is confined to the authority of
  the signer; and a synced revocation excludes the revoked authority.
\<close>

subsection \<open>The gate\<close>

context signature_verifier
begin

lemma gate_accepted:
  assumes "signature_gate (verify s) b = Done Gate_accepted"
  shows "\<exists>k \<in> set (keys s). signed_under k b \<and> checks k b"
proof -
  obtain r where "verify s b = Done r" "sv_accepted r"
    using assms by (auto simp: signature_gate_def split: outcome.splits if_splits)
  then show ?thesis by (rule accepted_signed)
qed

end

lemma gate_accepted_scope:
  "signature_gate verify b = Done Gate_accepted \<Longrightarrow>
     recognizedTrustArtifact b \<and> trustArtifactScopeMatchesBody b"
  by (auto simp: signature_gate_def split: outcome.splits if_splits)

lemma gate_unrecognized: "signature_gate verify b = Done Gate_unrecognized \<Longrightarrow> \<not> recognizedTrustArtifact b"
  by (auto simp: signature_gate_def split: outcome.splits if_splits)


subsection \<open>The projection as cache calls\<close>

definition opt_list :: "('a \<Rightarrow> 'b) \<Rightarrow> 'a option \<Rightarrow> 'b list" where
  "opt_list f x = (case x of None \<Rightarrow> [] | Some y \<Rightarrow> [f y])"

definition status_ops :: "jsval \<Rightarrow> cache_op list" where
  "status_ops b =
     (let target = get_prop b ''target''; issuerId = get_prop target ''issuer_id'';
          policyId = get_prop target ''destination_policy_id''; ns = namespace_of b (str_of issuerId)
      in if get_prop b ''artifact_type'' = JStr ''assurance_status_event'' then
           [OpUpdateIssuerAssuranceTier ns (str_of (get_prop b ''new_assurance_tier''))]
         else if get_prop b ''status'' = JStr ''active'' then []
         else if target_is b [''issuer_record'', ''issuer'', ''certificate''] \<and> is_str issuerId then
           [OpRemoveIssuer ns, OpRemoveDestinationPoliciesForIssuer ns]
         else if target_is b [''delegated_authority''] then
           [OpRemoveDelegatedAuthority
              \<lparr>dak_root_program_id = str_of (get_prop b ''root_program_id''),
               dak_delegated_authority_id = str_of (get_prop b ''delegated_authority_id'')\<rparr>]
         else if target_is b [''destination_policy''] \<and> is_str policyId \<and> is_str issuerId then
           [OpRemoveDestinationPolicy ns (str_of policyId)]
         else [])"

definition policy_ops :: "platform \<Rightarrow> event_envelope \<Rightarrow> jsval \<Rightarrow> cache_op list" where
  "policy_ops P e b =
     (case destinationPolicyProjectionFromArtifact P b e of
        Some (Inr projection) \<Rightarrow> [OpUpsertDestinationPolicy projection] | _ \<Rightarrow> [])"

definition event_ops :: "platform \<Rightarrow> event_envelope \<Rightarrow> jsval \<Rightarrow> cache_op list" where
  "event_ops P e b =
     opt_list OpUpsertRootAuthorityContext (rootAuthorityContextFromArtifact b) @
     opt_list OpUpsertDelegatedAuthorityIssuerContext (delegatedAuthorityIssuerContextFromArtifact b) @
     opt_list OpUpsertIssuer (issuerProjectionFromArtifact b) @
     policy_ops P e b @
     concat (opt_list status_ops (statusEventFromArtifact b))"

lemma cache_run_append: "cache_run (xs @ ys) c = cache_run ys (cache_run xs c)"
  by (simp add: cache_run_def)

lemma cache_run_simps [simp]:
  "cache_run [] c = c"
  "cache_run (op # ops) c = cache_run ops (cache_step op c)"
  by (simp_all add: cache_run_def)

lemma cache_run_none [simp]: "map_option (cache_run []) x = x"
  by (cases x) simp_all

lemma status_cache: "fst (applyStatusEvent b c) = cache_run (status_ops b) c"
  by (simp add: applyStatusEvent_def status_ops_def Let_def case_prod_beta)

lemma sync_caches:
  "sy_cache (sync_root_context b st) =
     map_option (cache_run (opt_list OpUpsertRootAuthorityContext (rootAuthorityContextFromArtifact b)))
       (sy_cache st)"
  "sy_cache (sync_issuer_context b st) =
     map_option (cache_run (opt_list OpUpsertDelegatedAuthorityIssuerContext
       (delegatedAuthorityIssuerContextFromArtifact b))) (sy_cache st)"
  "sy_cache (sync_issuer b st) =
     map_option (cache_run (opt_list OpUpsertIssuer (issuerProjectionFromArtifact b))) (sy_cache st)"
  "sy_cache (sync_policy P e b st) = map_option (cache_run (policy_ops P e b)) (sy_cache st)"
  "sy_cache (sync_status b st) =
     map_option (cache_run (concat (opt_list status_ops (statusEventFromArtifact b)))) (sy_cache st)"
  "sy_cache (sync_key_status h b st) = sy_cache st"
  by (auto simp: sync_root_context_def sync_issuer_context_def sync_issuer_def sync_policy_def
      sync_status_def sync_key_status_def on_cache_def opt_list_def policy_ops_def Let_def
      status_cache [symmetric] case_prod_beta
      split: option.splits sum.splits)

lemma project_cache:
  "sy_cache (project_artifact P h e b st) = map_option (cache_run (event_ops P e b)) (sy_cache st)"
  by (cases "sy_cache st") (simp_all add: project_artifact_def sync_caches event_ops_def cache_run_append)

lemma sync_registries:
  "sy_registry (sync_root_context b st) = sy_registry st"
  "sy_registry (sync_issuer_context b st) = sy_registry st"
  "sy_registry (sync_issuer b st) = sy_registry st"
  "sy_registry (sync_policy P e b st) = sy_registry st"
  "sy_registry (sync_status b st) = sy_registry st"
  by (auto simp: sync_root_context_def sync_issuer_context_def sync_issuer_def sync_policy_def
      sync_status_def on_cache_def Let_def case_prod_beta split: option.splits sum.splits)

lemma project_registry:
  "sy_registry (project_artifact P h e b st) =
     (if h \<and> isRevocationStatusArtifactBody b then fst (applyKeyStatusEvent b (sy_registry st))
      else sy_registry st)"
  by (auto simp: project_artifact_def sync_key_status_def sync_registries statusEventFromArtifact_def
      isRevocationStatusArtifactBody_def isAssuranceStatusArtifactBody_def Let_def case_prod_beta
      split: option.splits if_splits)

text \<open>Only a policy body escapes recognition and still causes a cache call.\<close>

lemma unrecognized_ops:
  assumes "\<not> recognizedTrustArtifact b"
  shows "event_ops P e b = policy_ops P e b" "\<not> isRevocationStatusArtifactBody b"
  using assms
  by (simp_all add: event_ops_def opt_list_def recognizedTrustArtifact_def
      rootAuthorityContextFromArtifact_def delegatedAuthorityIssuerContextFromArtifact_def
      issuerProjectionFromArtifact_def statusEventFromArtifact_def Let_def)


subsection \<open>Events\<close>

text \<open>The artifact of an event: stored, with the announced hash, which is the body's.\<close>

definition intact ::
  "platform \<Rightarrow> (string \<Rightarrow> net_error + signed_artifact option) \<Rightarrow> event_envelope \<Rightarrow> jsval \<Rightarrow> bool" where
  "intact P get e b \<longleftrightarrow>
     (\<exists>a. get (ee_artifact_id e) = Inr (Some a) \<and> sa_body a = b \<and>
        sa_artifact_hash a = ee_artifact_hash e \<and> ee_artifact_hash e = sha256_of P b)"

lemma sync_event_cases:
  assumes "sync_event P get verify h event st = (st', r)"
  obtains (unchanged) "sy_cache st' = sy_cache st" "sy_registry st' = sy_registry st"
  | (accepted) b st1 where "intact P get (ne_envelope event) b"
      "signature_gate (verify (sy_registry st)) b = Done Gate_accepted"
      "st' = project_artifact P h (ne_envelope event) b st1" "r = Done ()"
      "sy_cache st1 = sy_cache st" "sy_registry st1 = sy_registry st"
  | (unrecognized) b st1 where "intact P get (ne_envelope event) b"
      "signature_gate (verify (sy_registry st)) b = Done Gate_unrecognized"
      "st' = project_artifact P h (ne_envelope event) b st1" "r = Done ()"
      "sy_cache st1 = sy_cache st" "sy_registry st1 = sy_registry st"
proof -
  show thesis
  proof (cases "ee_type (ne_envelope event) = ''scanner.decision.recorded''")
    case True
    with assms show thesis by (intro unchanged) (auto simp: sync_event_def)
  next
    case other: False
    show thesis
    proof (cases "get (ee_artifact_id (ne_envelope event))")
      case (Inl err)
      with assms other show thesis by (intro unchanged) (auto simp: sync_event_def Let_def)
    next
      case found: (Inr x)
      show thesis
      proof (cases x)
        case None
        with assms other found show thesis by (intro unchanged) (auto simp: sync_event_def Let_def)
      next
        case (Some a)
        let ?b = "sa_body a" and ?e = "ne_envelope event"
        let ?st = "st\<lparr>sy_fetched := sy_fetched st + 1\<rparr>"
        note ev = assms other found Some sync_event_def
        show thesis
        proof (cases "sa_artifact_hash a = ee_artifact_hash ?e \<and> sa_artifact_hash a = sha256_of P ?b")
          case False
          with ev show thesis by (intro unchanged) (auto simp: Let_def)
        next
          case True
          then have ok: "intact P get ?e ?b" using found Some by (auto simp: intact_def)
          show thesis
          proof (cases "signature_gate (verify (sy_registry st)) ?b")
            case (Done g)
            show thesis
            proof (cases g)
              case Gate_unrecognized
              with ev True Done show thesis
                by (intro unrecognized [OF ok, of ?st]) (auto simp: Let_def)
            next
              case (Gate_rejected reason)
              with ev True Done show thesis by (intro unchanged) (auto simp: Let_def)
            next
              case Gate_accepted
              with ev True Done show thesis
                by (intro accepted [OF ok, of "?st\<lparr>sy_validated := sy_validated ?st + 1\<rparr>"])
                   (auto simp: Let_def)
            qed
          qed (use ev True in \<open>auto simp: Let_def intro!: unchanged\<close>)
        qed
      qed
    qed
  qed
qed


subsection \<open>Justified cache calls\<close>

text \<open>
  A cache call is justified by an event when its artifact is intact and holds the call, and the
  artifact was either accepted (\<open>signed\<close>) or is a policy body that the gate does not recognise.
\<close>

definition justified ::
  "platform \<Rightarrow> (string \<Rightarrow> net_error + signed_artifact option) \<Rightarrow> (jsval \<Rightarrow> bool) \<Rightarrow>
     network_event \<Rightarrow> cache_op \<Rightarrow> bool" where
  "justified P get signed event op \<longleftrightarrow>
     (\<exists>b. intact P get (ne_envelope event) b \<and>
        (if recognizedTrustArtifact b
         then op \<in> set (event_ops P (ne_envelope event) b) \<and> signed b \<and> trustArtifactScopeMatchesBody b
         else op \<in> set (policy_ops P (ne_envelope event) b)))"

lemma event_justified:
  assumes "sync_event P get verify h event st = (st', r)"
    and signed: "\<And>rs b. signature_gate (verify rs) b = Done Gate_accepted \<Longrightarrow> signed b"
  shows "\<exists>ops. sy_cache st' = map_option (cache_run ops) (sy_cache st) \<and>
    (\<forall>op \<in> set ops. justified P get signed event op)"
  using assms(1)
proof (cases rule: sync_event_cases)
  case unchanged
  then show ?thesis by (intro exI [of _ "[]"]) simp
next
  case (accepted b st1)
  then show ?thesis
    using signed [OF accepted(2)] gate_accepted_scope [OF accepted(2)]
    by (intro exI [of _ "event_ops P (ne_envelope event) b"]) (auto simp: project_cache justified_def)
next
  case (unrecognized b st1)
  then show ?thesis
    using gate_unrecognized [OF unrecognized(2)] unrecognized_ops(1)
    by (intro exI [of _ "policy_ops P (ne_envelope event) b"]) (auto simp: project_cache justified_def)
qed

lemma events_justified:
  assumes "sync_events P get verify h events st = (st', r)"
    and "\<And>rs b. signature_gate (verify rs) b = Done Gate_accepted \<Longrightarrow> signed b"
  shows "\<exists>ops. sy_cache st' = map_option (cache_run ops) (sy_cache st) \<and>
    (\<forall>op \<in> set ops. \<exists>event \<in> set events. justified P get signed event op)"
  using assms(1)
proof (induction events arbitrary: st)
  case Nil
  then show ?case by (intro exI [of _ "[]"]) (simp add: option.map_ident)
next
  case (Cons event events)
  obtain st1 r1 where one: "sync_event P get verify h event st = (st1, r1)" by fastforce
  obtain ops where ops: "sy_cache st1 = map_option (cache_run ops) (sy_cache st)"
    "\<forall>op \<in> set ops. justified P get signed event op"
    using event_justified [OF one, of signed] assms(2) by blast
  show ?case
  proof (cases "\<exists>u. r1 = Done u")
    case True
    with one Cons.prems have "sync_events P get verify h events st1 = (st', r)" by auto
    from Cons.IH [OF this] obtain ops' where
      "sy_cache st' = map_option (cache_run ops') (sy_cache st1)"
      "\<forall>op \<in> set ops'. \<exists>event \<in> set events. justified P get signed event op" by blast
    with ops show ?thesis
      by (intro exI [of _ "ops @ ops'"]) (auto simp: cache_run_append option.map_comp comp_def)
  next
    case False
    with one Cons.prems have "st' = st1" by (auto split: outcome.splits)
    with ops show ?thesis by auto
  qed
qed


subsection \<open>Counters\<close>

lemma project_counters [simp]:
  "sy_fetched (project_artifact P h e b st) = sy_fetched st"
  "sy_validated (project_artifact P h e b st) = sy_validated st"
  "sy_missing (project_artifact P h e b st) = sy_missing st"
  "sy_mismatches (project_artifact P h e b st) = sy_mismatches st"
  by (auto simp: project_artifact_def sync_root_context_def sync_issuer_context_def sync_issuer_def
      sync_policy_def sync_status_def sync_key_status_def on_cache_def Let_def case_prod_beta
      split: option.splits sum.splits)

definition audited :: "network_event \<Rightarrow> bool" where
  "audited event \<longleftrightarrow> ee_type (ne_envelope event) = ''scanner.decision.recorded''"

definition balance :: "sync_state \<Rightarrow> nat" where
  "balance st = sy_fetched st + length (sy_missing st)"

lemma event_balance:
  assumes "sync_event P get verify h event st = (st', Done u)"
  shows "balance st' = balance st + (if audited event then 0 else 1)"
    "sy_validated st + length (sy_mismatches st) \<le> sy_fetched st \<Longrightarrow>
     sy_validated st' + length (sy_mismatches st') \<le> sy_fetched st'"
  using assms
  by (auto simp: sync_event_def Let_def balance_def audited_def
      split: if_splits sum.splits option.splits outcome.splits gate_result.splits)

lemma events_balance:
  assumes "sync_events P get verify h events st = (st', Done u)"
  shows "balance st' = balance st + length (filter (\<lambda>e. \<not> audited e) events)"
    "sy_validated st + length (sy_mismatches st) \<le> sy_fetched st \<Longrightarrow>
     sy_validated st' + length (sy_mismatches st') \<le> sy_fetched st'"
  using assms
proof (induction events arbitrary: st)
  case (Cons event events)
  {
    case 1
    then show ?case using Cons.IH(1) event_balance(1) by (fastforce split: prod.splits outcome.splits)
  next
    case 2
    then show ?case using Cons.IH(2) event_balance(2) by (fastforce split: prod.splits outcome.splits)
  }
qed auto


subsection \<open>Key status events\<close>

text \<open>The signer of a key status event governs a key: its root program, or its own authority.\<close>

definition governs :: "trust_key_record \<Rightarrow> trust_key_record \<Rightarrow> bool" where
  "governs g k \<longleftrightarrow>
     tk_root_program_id k = tk_root_program_id g \<and>
     (tk_scope g = Scope_root_program \<or> tk_delegated_authority_id k = tk_delegated_authority_id g)"

definition key_update :: "jsval \<Rightarrow> string \<Rightarrow> trust_key_status \<Rightarrow> trust_key_record \<Rightarrow> trust_key_status_update" where
  "key_update b keyId status g =
     \<lparr>ku_root_program_id = str_of (get_prop b ''root_program_id''), ku_key_id = keyId,
      ku_status = status,
      ku_delegated_authority_id =
        (if tk_scope g = Scope_root_program then None
         else Some (str_of (get_prop b ''delegated_authority_id'')))\<rparr>"

lemma applyKeyStatus_cases:
  "fst (applyKeyStatusEvent b rs) = rs \<or>
   (\<exists>keyId status g. fst (applyKeyStatusEvent b rs) =
        fst (updateTrustKeyStatus (key_update b keyId status g) rs) \<and>
      lr_key (lookupSignerKey (status_signer_query b) rs) = Some g \<and>
      lr_reason (lookupSignerKey (status_signer_query b) rs) = None)"
proof -
  let ?k = "get_prop (get_prop b ''target'') ''key_id''" and ?s = "trust_status_of (get_prop b ''status'')"
  let ?l = "lookupSignerKey (status_signer_query b) rs"
  show ?thesis
  proof (cases "is_str ?k \<and> ?s \<noteq> None \<and> target_is b [''trust_key''] \<and> lr_key ?l \<noteq> None \<and> lr_reason ?l = None")
    case True
    then obtain keyId status g where "?k = JStr keyId" "?s = Some status" "lr_key ?l = Some g"
      by (auto simp: is_str_iff)
    with True show ?thesis
      by (intro disjI2 exI [of _ keyId] exI [of _ status] exI [of _ g])
         (simp add: applyKeyStatusEvent_def key_update_def)
  next
    case False
    then show ?thesis
      by (intro disjI1) (cases ?k; cases ?s; cases "lr_key ?l"; simp add: applyKeyStatusEvent_def Let_def)
  qed
qed

lemma update_at:
  "map_of rs kid = Some k \<Longrightarrow>
     map_of (fst (updateTrustKeyStatus u rs)) kid =
       Some (if kid = ku_key_id u \<and> trustKeyIsWithinUpdateScope k u
             then k\<lparr>tk_status := ku_status u\<rparr> else k)"
  by (cases "kid = ku_key_id u") (auto simp: updated_status AList.update_conv' split: option.splits)

lemma key_status_confined:
  assumes "registry_wf rs" "isRevocationStatusArtifactBody b" "map_of rs kid = Some k"
  shows "map_of (fst (applyKeyStatusEvent b rs)) kid = Some k \<or>
    (\<exists>status g. map_of (fst (applyKeyStatusEvent b rs)) kid = Some (k\<lparr>tk_status := status\<rparr>) \<and>
       g \<in> set (registry_snapshot rs) \<and> signed_under g b \<and> governs g k)"
proof -
  let ?q = "status_signer_query b"
  have strs: "get_prop b ''signed_by'' = JStr (li_signed_by ?q)"
    "get_prop b ''root_program_id'' = JStr (li_root_program_id ?q)"
    "get_prop b ''delegated_authority_id'' = JStr (str_of (get_prop b ''delegated_authority_id''))"
    using assms(2)
    by (auto simp: isRevocationStatusArtifactBody_def isSigned_def is_str_iff status_signer_query_def Let_def)
  consider "fst (applyKeyStatusEvent b rs) = rs"
    | (update) keyId status g where
      "fst (applyKeyStatusEvent b rs) = fst (updateTrustKeyStatus (key_update b keyId status g) rs)"
      "lr_key (lookupSignerKey ?q rs) = Some g" "lr_reason (lookupSignerKey ?q rs) = None"
    using applyKeyStatus_cases by blast
  then show ?thesis
  proof cases
    case update
    have g: "g \<in> set (registry_snapshot rs)" "usable_key ?q g"
      using keys.lookup_key [OF update(3)] update(2) by auto
    have c: "tk_signer_id g = li_signed_by ?q" "tk_root_program_id g = li_root_program_id ?q"
      "tk_status g = Key_active" "keyMatchesScope g ?q"
      using g(2) by (simp_all add: usable_key_def candidate_key_def)
    have root: "tk_scope g = Scope_root_program \<Longrightarrow> tk_signer_id g = tk_root_program_id g"
      using c(2,4) by (simp add: keyMatchesScope_def)
    have authority: "tk_scope g \<noteq> Scope_root_program \<Longrightarrow>
        tk_delegated_authority_id g = Some (str_of (get_prop b ''delegated_authority_id'')) \<and>
        tk_signer_id g = str_of (get_prop b ''delegated_authority_id'')"
      using c(4) by (simp add: keyMatchesScope_def status_signer_query_def)
    have signed: "signed_under g b"
      unfolding signed_under_def
      by (cases "tk_scope g = Scope_root_program") (use c strs root authority in simp_all)
    have governs: "trustKeyIsWithinUpdateScope k (key_update b keyId status g) \<Longrightarrow> governs g k"
      using c(2) authority
      by (simp add: governs_def key_update_def trustKeyIsWithinUpdateScope_def status_signer_query_def
          split: if_splits)
    show ?thesis
    proof (cases "kid = ku_key_id (key_update b keyId status g) \<and>
        trustKeyIsWithinUpdateScope k (key_update b keyId status g)")
      case True
      with signed governs g(1) show ?thesis
        unfolding update(1) update_at [OF assms(3)] by (intro disjI2 exI conjI) auto
    next
      case False
      then show ?thesis unfolding update(1) update_at [OF assms(3)] by (intro disjI1) auto
    qed
  qed (use assms(3) in simp)
qed


subsection \<open>Revocations\<close>

definition revoked_authority :: "jsval \<Rightarrow> delegated_authority_key" where
  "revoked_authority b =
     \<lparr>dak_root_program_id = str_of (get_prop b ''root_program_id''),
      dak_delegated_authority_id = str_of (get_prop b ''delegated_authority_id'')\<rparr>"

definition revokes_authority :: "jsval \<Rightarrow> bool" where
  "revokes_authority b \<longleftrightarrow>
     isRevocationStatusArtifactBody b \<and> get_prop b ''status'' \<noteq> JStr ''active'' \<and>
     get_prop (get_prop b ''target'') ''target_type'' = JStr ''delegated_authority''"

lemma artifact_types:
  "isRevocationStatusArtifactBody b \<Longrightarrow> get_prop b ''artifact_type'' = JStr ''revocation_status_event''"
  by (simp add: isRevocationStatusArtifactBody_def Let_def)

lemma revocation_ops:
  assumes "revokes_authority b"
  shows "event_ops P e b = [OpRemoveDelegatedAuthority (revoked_authority b)]"
proof -
  have r: "isRevocationStatusArtifactBody b" and t: "get_prop b ''artifact_type'' = JStr ''revocation_status_event''"
    using assms artifact_types by (auto simp: revokes_authority_def)
  have "rootAuthorityContextFromArtifact b = None" "delegatedAuthorityIssuerContextFromArtifact b = None"
    "issuerProjectionFromArtifact b = None" "destinationPolicyProjectionFromArtifact P b e = None"
    using t by (simp_all add: rootAuthorityContextFromArtifact_def isRootManifestArtifactBody_def
        delegatedAuthorityIssuerContextFromArtifact_def isDelegatedAuthorityManifestArtifactBody_def
        issuerProjectionFromArtifact_def isIssuerRecordArtifactBody_def Let_def
        destinationPolicyProjectionFromArtifact_def artifactBodyTypeIs_def)
  moreover have "status_ops b = [OpRemoveDelegatedAuthority (revoked_authority b)]"
    using assms t by (simp add: revokes_authority_def status_ops_def Let_def target_is_def isOneOf_def
        revoked_authority_def)
  ultimately show ?thesis
    using r by (simp add: event_ops_def opt_list_def policy_ops_def statusEventFromArtifact_def)
qed

lemma accepted_event:
  assumes "get (ee_artifact_id (ne_envelope event)) = Inr (Some a)"
    and "ee_type (ne_envelope event) \<noteq> ''scanner.decision.recorded''"
    and "sa_artifact_hash a = ee_artifact_hash (ne_envelope event)" "sa_artifact_hash a = sha256_of P (sa_body a)"
    and "signature_gate (verify (sy_registry st)) (sa_body a) = Done Gate_accepted"
  shows "\<exists>st'. sync_event P get verify h event st = (st', Done ()) \<and>
    sy_cache st' = map_option (cache_run (event_ops P (ne_envelope event) (sa_body a))) (sy_cache st)"
  using assms by (simp add: sync_event_def Let_def project_cache)


subsection \<open>Properties\<close>

definition fx_signature :: "trust_key_record \<Rightarrow> (string \<times> jsval) list" where
  "fx_signature k =
     [(''signed_by'', JStr (tk_signer_id k)), (''signature_status'', JStr ''ed25519-signed''),
      (''signature_algorithm_id'', JStr ''ed25519''), (''signature_input'', JStr trustSignatureInput),
      (''signature'', opt_str (tk_public_key_material_pem k))]"

definition fx_revocation_body :: "(string \<times> jsval) list \<Rightarrow> jsval" where
  "fx_revocation_body target = JObj
     ([(''artifact_type'', JStr ''revocation_status_event''),
       (''root_program_id'', JStr (ns_root_program_id demoNamespace)),
       (''delegated_authority_id'', JStr (ns_delegated_authority_id demoNamespace)),
       (''target'', JObj target), (''status'', JStr ''revoked'')]
      @ fx_signature demoDelegatedAuthorityTrustKey)"

definition fx_event :: "string \<Rightarrow> string option \<Rightarrow> network_event" where
  "fx_event typ' issuer =
     \<lparr>ne_envelope = \<lparr>ee_event_id = ''evt'', ee_type = typ', ee_occurred_at = ''2026-01-01T00:00:00.000Z'',
        ee_root_program_id = ''root:r'', ee_delegated_authority_id = None, ee_issuer_id = issuer,
        ee_destination_policy_id = None, ee_artifact_id = ''artifact:1'',
        ee_artifact_hash = ''sha256:00'', ee_artifact_ref = None, ee_version = 1,
        ee_previous_version = None, ee_reason = None\<rparr>, ne_body = NoBody\<rparr>"

definition fx_store :: "jsval \<Rightarrow> string \<Rightarrow> net_error + signed_artifact option" where
  "fx_store body i =
     Inr (if i = ''artifact:1''
          then Some \<lparr>sa_artifact_id = i, sa_artifact_hash = ''sha256:00'', sa_artifact_type = ''any'',
                     sa_version = 1, sa_body = body\<rparr>
          else None)"

definition fx_verify :: "key_registry \<Rightarrow> jsval \<Rightarrow> signature_result outcome" where
  "fx_verify rs = verifyTrustArtifact fx_platform (memory_lookup rs) inline_load"

definition fx_sync :: "jsval \<Rightarrow> (verifier_cache option \<times> key_registry) \<times> sync_report outcome" where
  "fx_sync body = syncRecent fx_platform (fx_store body)
     (\<lambda>rs. verifyTrustArtifact fx_platform (memory_lookup rs) inline_load) True
     [fx_event ''any'' (Some ''issuer:i'')] (Some makeDemoVerifierCache) demo_registry"

text \<open>
  C5. With the cryptographic verifier, the cache after a sync is the cache before it after a
  history of cache calls, each of which comes from the intact artifact of one of the events;
  that artifact was signed and verified in the scope it claims, or it is a destination policy
  body that the gate does not recognise.
\<close>

theorem synced_changes_are_justified:
  assumes "syncRecent P get (\<lambda>rs. verifyTrustArtifact P (memory_lookup rs) load) h events (Some c) rs =
      ((Some c', rs'), r)"
  shows "\<exists>ops. c' = cache_run ops c \<and>
    (\<forall>op \<in> set ops. \<exists>event \<in> set events. \<exists>b. intact P get (ne_envelope event) b \<and>
       op \<in> set (event_ops P (ne_envelope event) b) \<and>
       (if recognizedTrustArtifact b
        then trustArtifactScopeMatchesBody b \<and> (\<exists>k. signed_under k b \<and> verified_with P load k b)
        else artifactBodyTypeIs b ''destination_policy''))"
proof -
  let ?v = "\<lambda>rs. verifyTrustArtifact P (memory_lookup rs) load"
  let ?signed = "\<lambda>b. \<exists>k. signed_under k b \<and> verified_with P load k b"
  obtain st where st: "sync_events P get ?v h events (start_state (Some c) rs) = (st, snd
      (sync_events P get ?v h events (start_state (Some c) rs)))" "sy_cache st = Some c'"
    using assms by (cases "sync_events P get ?v h events (start_state (Some c) rs)")
      (auto simp: syncRecent_def split: outcome.splits)
  have gate: "?signed b" if "signature_gate (?v rs) b = Done Gate_accepted" for rs b
    using verifier.gate_accepted [OF that] by blast
  obtain ops where ops: "sy_cache st = map_option (cache_run ops) (sy_cache (start_state (Some c) rs))"
    "\<forall>op \<in> set ops. \<exists>event \<in> set events. justified P get ?signed event op"
    using events_justified [OF st(1), of ?signed] gate by blast
  have "c' = cache_run ops c" using ops(1) st(2) by (simp add: start_state_def)
  moreover have "artifactBodyTypeIs b ''destination_policy''" if "op \<in> set (policy_ops P e b)" for op e b
    using that by (auto simp: policy_ops_def destinationPolicyProjectionFromArtifact_def split: if_splits)
  moreover have "op \<in> set (policy_ops P e b) \<Longrightarrow> op \<in> set (event_ops P e b)" for op e b
    by (simp add: event_ops_def)
  ultimately show ?thesis
    using ops(2) unfolding justified_def by (intro exI [of _ ops]) meson
qed

theorem synced_changes_are_justified_witness:
  "\<exists>c rs r ops. fx_sync (fx_revocation_body [(''target_type'', JStr ''delegated_authority'')]) =
     ((Some c, rs), r) \<and> c = cache_run ops makeDemoVerifierCache \<and> c \<noteq> makeDemoVerifierCache"
proof -
  let ?r = "fx_sync (fx_revocation_body [(''target_type'', JStr ''delegated_authority'')])"
  have "map_option policiesByKey (fst (fst ?r)) = Some []" by code_simp
  then obtain c where c: "fst (fst ?r) = Some c" "policiesByKey c = []" by auto
  then have r: "?r = ((Some c, snd (fst ?r)), snd ?r)" by (metis prod.collapse)
  have "policiesByKey makeDemoVerifierCache \<noteq> []" by code_simp
  with c(2) have "c \<noteq> makeDemoVerifierCache" by auto
  then show ?thesis
    using synced_changes_are_justified [OF r [unfolded fx_sync_def]] r by blast
qed

text \<open>
  In the report of a completed sync every event is accounted for: those that are not audit
  events are either fetched or missing, and no artifact is both validated and mismatched.
\<close>

theorem sync_report_accounts_for_events:
  assumes "syncRecent P get verify h events cache rs = (after', Done report)"
  shows "vr_processed_events report = length events \<and>
    vr_fetched_artifacts report + length (vr_missing_artifacts report) =
      length (filter (\<lambda>e. ee_type (ne_envelope e) \<noteq> ''scanner.decision.recorded'') events) \<and>
    vr_validated_trust_artifacts report + length (vr_artifact_hash_mismatches report)
      \<le> vr_fetched_artifacts report"
proof -
  obtain st u where st: "sync_events P get verify h events (start_state cache rs) = (st, Done u)"
    "report = sync_report_of (length events) st"
    using assms by (auto simp: syncRecent_def split: prod.splits outcome.splits)
  show ?thesis
    using events_balance [OF st(1)]
    by (simp add: st(2) sync_report_of_def balance_def start_state_def audited_def)
qed

theorem sync_report_accounts_for_events_witness:
  "\<exists>a report. fx_sync (fx_revocation_body [(''target_type'', JStr ''delegated_authority'')]) =
     (a, Done report) \<and> vr_fetched_artifacts report + length (vr_missing_artifacts report) = 1"
proof -
  let ?r = "fx_sync (fx_revocation_body [(''target_type'', JStr ''delegated_authority'')])"
  have "(case snd ?r of Done _ \<Rightarrow> True | _ \<Rightarrow> False)" by code_simp
  then obtain report where "snd ?r = Done report" by (auto split: outcome.splits)
  then have r: "?r = (fst ?r, Done report)" by (metis prod.collapse)
  then have "vr_fetched_artifacts report + length (vr_missing_artifacts report) = 1"
    using sync_report_accounts_for_events [OF r [unfolded fx_sync_def]] by (simp add: fx_event_def)
  with r show ?thesis by blast
qed

text \<open>
  C6. Syncing an event changes at most the status of a key, and only through an intact signed
  revocation whose signer is an active key that governs it: a key of the same root program
  that is a root key, or belongs to the same delegated authority.
\<close>

theorem synced_key_updates_are_confined:
  assumes "registry_wf (sy_registry st)" and "map_of (sy_registry st) kid = Some k"
    and "sync_event P get (\<lambda>rs. verifyTrustArtifact P (memory_lookup rs) load) h event st = (st', r)"
  shows "map_of (sy_registry st') kid = Some k \<or>
    (\<exists>status b g. map_of (sy_registry st') kid = Some (k\<lparr>tk_status := status\<rparr>) \<and>
       intact P get (ne_envelope event) b \<and> isRevocationStatusArtifactBody b \<and>
       g \<in> set (registry_snapshot (sy_registry st)) \<and> signed_under g b \<and> governs g k \<and>
       (\<exists>g'. signed_under g' b \<and> verified_with P load g' b))"
  using assms(3)
proof (cases rule: sync_event_cases)
  case unchanged
  then show ?thesis using assms(2) by simp
next
  case (accepted b st1)
  have signed: "\<exists>g'. signed_under g' b \<and> verified_with P load g' b"
    using verifier.gate_accepted [OF accepted(2)] by blast
  show ?thesis
  proof (cases "h \<and> isRevocationStatusArtifactBody b")
    case True
    then show ?thesis
      using key_status_confined [OF assms(1) _ assms(2), of b] accepted(1,3,6) signed
      by (auto simp: project_registry)
  qed (use accepted(3,6) assms(2) in \<open>auto simp: project_registry\<close>)
next
  case (unrecognized b st1)
  then show ?thesis
    using unrecognized_ops(2) [OF gate_unrecognized] assms(2) by (auto simp: project_registry)
qed

theorem synced_key_updates_are_confined_witness:
  "tk_status (the (map_of (sy_registry (fst (sync_event fx_platform
      (fx_store (fx_revocation_body [(''target_type'', JStr ''trust_key''),
         (''key_id'', JStr (tk_key_id demoRootTrustKey))]))
      (\<lambda>rs. verifyTrustArtifact fx_platform (memory_lookup rs) inline_load) True
      (fx_event ''any'' None) (start_state None demo_registry)))) (tk_key_id demoRootTrustKey))) = Key_active"
  (is "tk_status (the (map_of (sy_registry (fst ?r)) _)) = _")
proof -
  have wf: "registry_wf (sy_registry (start_state None demo_registry))"
    by (simp add: start_state_def demo_registry_def registry_wf_make)
  have k: "map_of (sy_registry (start_state None demo_registry)) (tk_key_id demoRootTrustKey) =
      Some demoRootTrustKey" by code_simp
  have active: "map_option tk_status (map_of (sy_registry (fst ?r)) (tk_key_id demoRootTrustKey)) =
      Some Key_active" by code_simp
  show ?thesis
    using synced_key_updates_are_confined [OF wf k, of fx_platform _ inline_load True "fx_event ''any'' None"
        "fst ?r" "snd ?r"] active by auto
qed

text \<open>
  The policy service publishes a body without signature fields, whatever the input was
  signed with; the gate recognises that body and rejects it, so the sync never projects it.
\<close>

theorem published_policy_body_is_rejected_by_sync:
  "signature_gate (verifyTrustArtifact P lookup load) (destinationPolicyArtifactBody policy) =
     Done (Gate_rejected ''key_not_found'')"
proof -
  let ?b = "destinationPolicyArtifactBody policy"
  have every: "js_array_every p (JArr xs) \<longleftrightarrow> list_all p xs" for p xs
    by (simp add: js_array_every_def)
  have strs: "js_array_every is_str (strings_json xs)" for xs
    by (simp add: strings_json_def every list_all_iff)
  have rules: "js_array_every isDestinationPolicyDestination (JArr (map rule_json ds))" for ds
    unfolding every list_all_iff
    by (auto simp: isDestinationPolicyDestination_def rule_props strs rule_json_def [THEN arg_cong, of is_objectish]
        split: option.splits)
  have redirect: "isRedirectPolicy (redirect_json r)" for r
    by (simp add: isRedirectPolicy_def redirect_props strs int_json_def del: get_prop_obj)
       (simp add: redirect_json_def)
  obtain pub where pub: "get_prop ?b ''publication'' = JObj pub"
      "get_prop (JObj pub) ''published_at'' = JStr (dp_cache_generated_at policy)"
      "get_prop (JObj pub) ''valid_until'' = JStr (dp_cache_expires_at policy)"
    using body_props(9) by blast
  have "is_objectish ?b" by (simp add: destinationPolicyArtifactBody_def)
  then have "isDestinationPolicyArtifactBody ?b"
    by (simp add: isDestinationPolicyArtifactBody_def body_props pub rules redirect Let_def
        del: get_prop_obj)
  moreover have "get_prop ?b ''signed_by'' = JUndefined"
    by (simp add: destinationPolicyArtifactBody_def)
  ultimately show ?thesis
    by (simp add: signature_gate_def recognizedTrustArtifact_def verifyTrustArtifact_def
        lookup_for_artifact_def rejected_def)
qed

text \<open>
  A policy body without \<^verbatim>\<open>issuer_id\<close> is not recognised, so no signature is asked of it, and the
  envelope completes it: an unsigned policy enters the cache.
\<close>

definition fx_unsigned_policy :: jsval where
  "fx_unsigned_policy =
     (case destinationPolicyArtifactBody fx_policy of
        JObj kvs \<Rightarrow> JObj (filter (\<lambda>(k, v). k \<noteq> ''issuer_id'') kvs) | v \<Rightarrow> v)"

lemma unsigned_policy_is_projected:
  "map_option (\<lambda>c. map dp_namespace (map snd (policiesByKey c))) (fst (fst (fx_sync fx_unsigned_policy))) =
     Some [demoNamespace, fx_ns]"
  by code_simp

text \<open>
  The scope check of a root manifest compares its root program with itself, and a manifest that
  carries a delegated authority is verified with that authority's key: the authority can
  replace the set of active authorities of its root program.
\<close>

definition fx_root_manifest :: "trust_key_record \<Rightarrow> jsval" where
  "fx_root_manifest k = JObj
     ([(''artifact_type'', JStr ''root_manifest''), (''schema_version'', JStr ''1''),
       (''root_program_id'', JStr (tk_root_program_id k)), (''name'', JStr ''n''),
       (''delegated_authority_id'', opt_str (tk_delegated_authority_id k)),
       (''accepted_algorithm_ids'', JArr [JStr ''ed25519'']), (''trust_keys'', JArr []),
       (''policy_constraints'', JObj []),
       (''delegated_authorities'', JArr [JObj [(''delegated_authority_id'', JStr ''authority:evil''),
          (''name'', JStr ''n''), (''manifest_ref'', JStr ''m''), (''status'', JStr ''active'')]]),
       (''publication'', JObj [(''published_at'', JStr ''t''), (''valid_until'', JStr ''t''),
          (''signed_by'', JStr (tk_signer_id k)), (''signature_status'', JStr ''ed25519-signed'')])]
      @ fx_signature k)"

lemma authority_can_sign_a_root_manifest:
  "map_option activeDelegatedAuthoritiesByRoot
     (fst (fst (fx_sync (fx_root_manifest demoDelegatedAuthorityTrustKey)))) =
   Some [(ns_root_program_id demoNamespace, [''authority:evil''])]"
  by code_simp

end
