(* ===== verification/Propagation.thy ===== *)
theory Propagation
  imports EventBus
begin

text \<open>
  Propagation of events to NATS subjects: \<^verbatim>\<open>network/src/services/nats-propagation.ts\<close> and the
  sink of \<^verbatim>\<open>nats-live-publisher.ts\<close>. A message holds the value whose JSON text is its payload.
  The sink is an interface of the sources; the recording sink and the live sink, over any
  publisher of the NATS client, satisfy its contract.
\<close>

subsection \<open>Subject tokens\<close>

definition is_token_char :: "char \<Rightarrow> bool" where
  "is_token_char c = (is_digit c \<or> (97 \<le> (of_char c :: nat) \<and> (of_char c :: nat) \<le> 122))"

text \<open>\<^verbatim>\<open>.replace(/[^a-z0-9]+/g, "-")\<close>, \<^verbatim>\<open>.replace(/-{2,}/g, "-")\<close>, \<^verbatim>\<open>.replace(/^-|-$/g, "")\<close>.\<close>

function replace_other :: "string \<Rightarrow> string" where
  "replace_other [] = []"
| "replace_other (c # cs) =
     (if is_token_char c then c # replace_other cs
      else CHR ''-'' # replace_other (dropWhile (\<lambda>c. \<not> is_token_char c) cs))"
  by pat_completeness auto
termination
  by (relation "measure length") (auto simp: le_imp_less_Suc length_dropWhile_le)

fun collapse_dashes :: "string \<Rightarrow> string" where
  "collapse_dashes (c # d # cs) =
     (if c = CHR ''-'' \<and> d = CHR ''-'' then collapse_dashes (d # cs) else c # collapse_dashes (d # cs))"
| "collapse_dashes cs = cs"

definition strip_dashes :: "string \<Rightarrow> string" where
  "strip_dashes s =
     (let t = (case s of c # cs \<Rightarrow> if c = CHR ''-'' then cs else s | [] \<Rightarrow> [])
      in if t \<noteq> [] \<and> last t = CHR ''-'' then butlast t else t)"

definition normalizeSubjectToken :: "string \<Rightarrow> string" where
  "normalizeSubjectToken value =
     strip_dashes (collapse_dashes (replace_other (js_lower (js_trim value))))"


subsection \<open>Subjects and streams\<close>

datatype jet_stream_name = Governance_stream | Runtime_stream | Scanner_audit_stream

record jet_stream_message =
  jm_subject :: string
  jm_stream :: jet_stream_name
  jm_headers :: "(string \<times> string) list"
  jm_payload :: jsval

definition eventTypeToSubjectTail :: "(string \<times> string) list" where
  "eventTypeToSubjectTail =
     [(''root_program.upserted'', ''root.program.upserted''),
      (''root.manifest.published'', ''root.manifest.published''),
      (''delegated_authority.upserted'', ''authority.delegated.upserted''),
      (''delegated_authority.manifest.published'', ''authority.manifest.published''),
      (''issuer.enrollment.requested'', ''issuer.enrollment.requested''),
      (''domain_proof.upserted'', ''issuer.domain-proof.upserted''),
      (''issuer.record.published'', ''issuer.record.published''),
      (''issuer.status.changed'', ''issuer.status.changed''),
      (''destination_policy.upserted'', ''destination.policy.upserted''),
      (''destination_policy.status.changed'', ''destination.policy.status.changed''),
      (''destination.policy.published'', ''destination.policy.published''),
      (''destination.policy.revoked'', ''destination.policy.revoked''),
      (''trust_key.upserted'', ''certificate.trust-key.upserted''),
      (''trust_key.status.changed'', ''certificate.trust-key.status.changed''),
      (''trust-key.status.changed'', ''certificate.status.changed''),
      (''certificate.status.changed'', ''certificate.status.changed''),
      (''verifier.cache.refreshed'', ''verifier.cache.refreshed''),
      (''runtime_provider.upserted'', ''runtime.provider.upserted''),
      (''runtime.verdict.observed'', ''runtime.verdict.observed''),
      (''nats.subscriber.authorization.changed'', ''authority.nats-subscriber.authorization.changed''),
      (''scanner.decision.recorded'', ''scanner.decision.recorded''),
      (''scanner.spike.detected'', ''scanner.spike.detected'')]"

text \<open>
  The table is a plain object: an event type that names a member of \<^verbatim>\<open>Object.prototype\<close> reads
  that member, which is truthy and is no string.
\<close>

definition object_prototype_members :: "string list" where
  "object_prototype_members =
     [''constructor'', ''hasOwnProperty'', ''isPrototypeOf'', ''propertyIsEnumerable'',
      ''toLocaleString'', ''toString'', ''valueOf'', ''__proto__'', ''__defineGetter__'',
      ''__defineSetter__'', ''__lookupGetter__'', ''__lookupSetter__'']"

datatype subject_tail = Own_tail string | Inherited_member

definition subjectTailFromEventType :: "string \<Rightarrow> net_error + subject_tail" where
  "subjectTailFromEventType eventType =
     (case map_of eventTypeToSubjectTail eventType of
        Some mapped \<Rightarrow> Inr (Own_tail mapped)
      | None \<Rightarrow>
          if eventType \<in> set object_prototype_members then Inr Inherited_member
          else Inl (EventPublicationError
                 (''Unsupported QR trust network event type: '' @ eventType)
                 (OtherCause (JObj [(''eventType'', JStr eventType)]))))"

definition subjectRootFromEnvelope :: "event_envelope \<Rightarrow> net_error + string" where
  "subjectRootFromEnvelope e =
     (let normalized = normalizeSubjectToken (ee_root_program_id e)
      in if length normalized > 0 then Inr normalized
         else Inl (EventPublicationError ''Event root_program_id cannot form a NATS subject.''
                (OtherCause (JObj [(''event_id'', JStr (ee_event_id e)),
                   (''root_program_id'', JStr (ee_root_program_id e))]))))"

definition controlPlaneSubjectRoot :: string where
  "controlPlaneSubjectRoot = ''control-plane''"

definition controlPlaneEventTypes :: "string list" where
  "controlPlaneEventTypes = [''runtime_provider.upserted'', ''nats.subscriber.authorization.changed'']"

definition boundary_error :: "string \<Rightarrow> event_envelope \<Rightarrow> net_error" where
  "boundary_error message e =
     EventPublicationError message
       (OtherCause (JObj [(''event_id'', JStr (ee_event_id e)), (''event_type'', JStr (ee_type e)),
          (''root_program_id'', JStr (ee_root_program_id e))]))"

definition enforceControlPlaneBoundary :: "event_envelope \<Rightarrow> string \<Rightarrow> net_error + unit" where
  "enforceControlPlaneBoundary e normalizedRoot =
     (let isControlPlaneEvent = (ee_type e \<in> set controlPlaneEventTypes)
      in if normalizedRoot = controlPlaneSubjectRoot \<and> \<not> isControlPlaneEvent then
           Inl (boundary_error ''Control-plane root cannot publish trust-state NATS subjects.'' e)
         else if isControlPlaneEvent \<and> normalizedRoot \<noteq> controlPlaneSubjectRoot then
           Inl (boundary_error ''Control-plane management events must use the control-plane root.'' e)
         else Inr ())"

definition streamForSubjectTail :: "string \<Rightarrow> net_error + jet_stream_name" where
  "streamForSubjectTail subjectTail =
     (if prefix ''root.'' subjectTail \<or> prefix ''authority.'' subjectTail \<or>
         prefix ''issuer.'' subjectTail \<or> prefix ''destination.'' subjectTail \<or>
         prefix ''certificate.'' subjectTail then Inr Governance_stream
      else if prefix ''runtime.'' subjectTail \<or> prefix ''verifier.'' subjectTail then
        Inr Runtime_stream
      else if prefix ''scanner.'' subjectTail then Inr Scanner_audit_stream
      else Inl (EventPublicationError
             (''Unsupported QR trust network subject tail: '' @ subjectTail)
             (OtherCause (JObj [(''subjectTail'', JStr subjectTail)]))))"


subsection \<open>Messages\<close>

fun nat_string :: "nat \<Rightarrow> string" where
  "nat_string n =
     (if n < 10 then [char_of (48 + n)] else nat_string (n div 10) @ [char_of (48 + n mod 10)])"

text \<open>\<^verbatim>\<open>String(n)\<close> of an integer below \<open>10 ^ 21\<close>, where JavaScript starts to use exponents.\<close>

definition int_string :: "int \<Rightarrow> string" where
  "int_string n = (if n < 0 then ''-'' @ nat_string (nat (- n)) else nat_string (nat n))"

definition headersFromEnvelope :: "event_envelope \<Rightarrow> (string \<times> string) list" where
  "headersFromEnvelope e =
     [(''Nats-Msg-Id'', ee_event_id e), (''QRTrust-Event-Type'', ee_type e),
      (''QRTrust-Root-Program-Id'', ee_root_program_id e), (''QRTrust-Artifact-Id'', ee_artifact_id e),
      (''QRTrust-Artifact-Hash'', ee_artifact_hash e), (''QRTrust-Version'', int_string (ee_version e))]"

definition envelope_json :: "event_envelope \<Rightarrow> jsval" where
  "envelope_json e = JObj
     ([(''event_id'', JStr (ee_event_id e)), (''type'', JStr (ee_type e)),
       (''occurred_at'', JStr (ee_occurred_at e)), (''root_program_id'', JStr (ee_root_program_id e))]
      @ opt_prop ''delegated_authority_id'' JStr (ee_delegated_authority_id e)
      @ opt_prop ''issuer_id'' JStr (ee_issuer_id e)
      @ opt_prop ''destination_policy_id'' JStr (ee_destination_policy_id e)
      @ [(''artifact_id'', JStr (ee_artifact_id e)), (''artifact_hash'', JStr (ee_artifact_hash e))]
      @ opt_prop ''artifact_ref'' JStr (ee_artifact_ref e)
      @ [(''version'', int_json (ee_version e))]
      @ opt_prop ''previous_version'' int_json (ee_previous_version e)
      @ opt_prop ''reason'' JStr (ee_reason e))"

definition jetStreamMessageFromEvent :: "network_event \<Rightarrow> jet_stream_message outcome" where
  "jetStreamMessageFromEvent event =
     (let e = ne_envelope event
      in case and_then (subjectTailFromEventType (ee_type e)) (\<lambda>tail.
              and_then (subjectRootFromEnvelope e) (\<lambda>rootSubject.
              and_then (enforceControlPlaneBoundary e rootSubject) (\<lambda>_. Inr (tail, rootSubject)))) of
           Inl err \<Rightarrow> Failed err
         | Inr (Inherited_member, rootSubject) \<Rightarrow> Died (TypeError ''subjectTail.startsWith is not a function'')
         | Inr (Own_tail subjectTail, rootSubject) \<Rightarrow>
             (case streamForSubjectTail subjectTail of
                Inl err \<Rightarrow> Failed err
              | Inr stream \<Rightarrow>
                  Done \<lparr>jm_subject = ''qrtrust.'' @ rootSubject @ ''.'' @ subjectTail @ ''.v1'',
                        jm_stream = stream, jm_headers = headersFromEnvelope e,
                        jm_payload = JObj [(''envelope'', envelope_json e)]\<rparr>))"


subsection \<open>Sinks\<close>

locale message_sink =
  fixes publish :: "jet_stream_message \<Rightarrow> ('k, jet_stream_message) call"
    and recorded :: "'k \<Rightarrow> jet_stream_message list"
  assumes publish_recorded: "publish m k = (k', Inr m') \<Longrightarrow> m' = m \<and> recorded k' = recorded k @ [m]"
    and publish_failed: "publish m k = (k', Inl err) \<Longrightarrow> recorded k' = recorded k"

definition recording_publish ::
  "jet_stream_message \<Rightarrow> (jet_stream_message list, jet_stream_message) call" where
  "recording_publish message messages = (messages @ [message], Inr message)"

definition recording_recorded :: "jet_stream_message list \<Rightarrow> jet_stream_message list" where
  "recording_recorded messages = messages"

interpretation recording_sink: message_sink recording_publish recording_recorded
  by unfold_locales (auto simp: recording_publish_def recording_recorded_def)

text \<open>
  The live sink over a publisher with state \<open>'p\<close>, whose promise is fulfilled (\<open>None\<close>) or
  rejected with a cause; the messages it has published are kept beside that state.
\<close>

definition live_error :: "jet_stream_message \<Rightarrow> jsval \<Rightarrow> net_error" where
  "live_error message cause =
     EventPublicationError ''Failed to publish JetStream message.''
       (OtherCause (JObj [(''cause'', cause), (''subject'', JStr (jm_subject message)),
          (''stream'', JStr (case jm_stream message of Governance_stream \<Rightarrow> ''QRTRUST_GOVERNANCE''
             | Runtime_stream \<Rightarrow> ''QRTRUST_RUNTIME'' | Scanner_audit_stream \<Rightarrow> ''QRTRUST_SCANNER_AUDIT''))]))"

definition live_publish ::
  "(jet_stream_message \<Rightarrow> string \<Rightarrow> 'p \<Rightarrow> 'p \<times> jsval option) \<Rightarrow> jet_stream_message \<Rightarrow>
     ('p \<times> jet_stream_message list, jet_stream_message) call" where
  "live_publish send message st =
     (let (p, published) = st
      in case keep_truthy (map_of (jm_headers message) ''Nats-Msg-Id'') of
           None \<Rightarrow> (st, Inl (live_error message
             (JObj [(''message'', JStr ''Nats-Msg-Id header is required for idempotency.'')])))
         | Some messageId \<Rightarrow>
             (case send message messageId p of
                (p', Some cause) \<Rightarrow> ((p', published), Inl (live_error message cause))
              | (p', None) \<Rightarrow> ((p', published @ [message]), Inr message)))"

definition live_recorded :: "'p \<times> jet_stream_message list \<Rightarrow> jet_stream_message list" where
  "live_recorded st = snd st"

interpretation live_sink: message_sink "live_publish send" live_recorded for send
  by unfold_locales
     (auto simp: live_publish_def live_recorded_def Let_def split: prod.splits option.splits)


subsection \<open>Publishing events\<close>

record nats_report =
  nr_messages_published :: nat
  nr_governance_messages :: nat
  nr_runtime_messages :: nat
  nr_scanner_audit_messages :: nat
  nr_subjects :: "string list"

fun publish_each ::
  "(jet_stream_message \<Rightarrow> ('k, jet_stream_message) call) \<Rightarrow> network_event list \<Rightarrow> 'k \<Rightarrow>
     'k \<times> jet_stream_message list outcome" where
  "publish_each publish [] k = (k, Done [])"
| "publish_each publish (event # events) k =
     (case jetStreamMessageFromEvent event of
        Failed e \<Rightarrow> (k, Failed e)
      | Died d \<Rightarrow> (k, Died d)
      | Done message \<Rightarrow>
          (case publish message k of
             (k', Inl e) \<Rightarrow> (k', Failed e)
           | (k', Inr sent) \<Rightarrow>
               (case publish_each publish events k' of
                  (k'', Done messages) \<Rightarrow> (k'', Done (sent # messages))
                | (k'', Failed e) \<Rightarrow> (k'', Failed e)
                | (k'', Died d) \<Rightarrow> (k'', Died d))))"

definition on_stream :: "jet_stream_name \<Rightarrow> jet_stream_message list \<Rightarrow> nat" where
  "on_stream stream messages = length (filter (\<lambda>m. jm_stream m = stream) messages)"

definition publishEvents ::
  "(jet_stream_message \<Rightarrow> ('k, jet_stream_message) call) \<Rightarrow> network_event list \<Rightarrow> 'k \<Rightarrow>
     'k \<times> nats_report outcome" where
  "publishEvents publish events k =
     (case publish_each publish events k of
        (k', Done messages) \<Rightarrow>
          (k', Done \<lparr>nr_messages_published = length messages,
                     nr_governance_messages = on_stream Governance_stream messages,
                     nr_runtime_messages = on_stream Runtime_stream messages,
                     nr_scanner_audit_messages = on_stream Scanner_audit_stream messages,
                     nr_subjects = map jm_subject messages\<rparr>)
      | (k', Failed e) \<Rightarrow> (k', Failed e)
      | (k', Died d) \<Rightarrow> (k', Died d))"

end
