(* ===== verification/WorkQueue.thy ===== *)
theory WorkQueue
  imports EventBus
begin

text \<open>
  What the queue workers of the sources share: the claim and the marks of a work table, as the
  SQL statements of \<^verbatim>\<open>network/src/services/postgres-event-outbox-worker.ts\<close> and
  \<^verbatim>\<open>postgres-artifact-publication-queue.ts\<close> define them, and the loop of their supervisors
  (\<^verbatim>\<open>event-outbox-supervisor.ts\<close>, \<^verbatim>\<open>artifact-publication-queue-supervisor.ts\<close>). A statement is a
  function on the rows; statements of concurrent workers are ordered one after the other, so
  \<^verbatim>\<open>skip locked\<close> skips nothing. The rows of \<^verbatim>\<open>returning\<close>, whose order SQL leaves open, come in the
  order of the selection.
\<close>

subsection \<open>The work table\<close>

datatype work_status = Work_pending | Work_claimed | Work_done | Work_failed

record 'p work_row =
  wr_id :: string
  wr_payload :: 'p
  wr_created_at :: int
  wr_status :: work_status
  wr_attempts :: nat
  wr_claimed_by :: "string option"
  wr_claimed_at :: "int option"
  wr_claim_expires_at :: "int option"
  wr_last_error :: "string option"
  wr_finished_at :: "int option"

text \<open>
  The \<^verbatim>\<open>where\<close> clause of the claim: pending rows, rows whose claim has expired and, with a bound
  on the attempts, failed rows below it.
\<close>

definition claim_expired :: "int \<Rightarrow> 'p work_row \<Rightarrow> bool" where
  "claim_expired now r = (case wr_claim_expires_at r of None \<Rightarrow> True | Some t \<Rightarrow> t \<le> now)"

definition row_eligible :: "int option \<Rightarrow> int \<Rightarrow> 'p work_row \<Rightarrow> bool" where
  "row_eligible retries now r =
     (wr_status r = Work_pending \<or>
      (wr_status r = Work_claimed \<and> claim_expired now r) \<or>
      (wr_status r = Work_failed \<and> (case retries of None \<Rightarrow> False | Some n \<Rightarrow> int (wr_attempts r) < n)))"

definition created_before :: "'p work_row \<Rightarrow> 'p work_row \<Rightarrow> bool" where
  "created_before r s =
     (wr_created_at r < wr_created_at s \<or>
      (wr_created_at r = wr_created_at s \<and> js_le (wr_id r) (wr_id s)))"

definition next_rows :: "int option \<Rightarrow> int \<Rightarrow> nat \<Rightarrow> 'p work_row list \<Rightarrow> 'p work_row list" where
  "next_rows retries now batch rows =
     take batch (sort_by created_before (filter (row_eligible retries now) rows))"

definition claimed_row :: "string \<Rightarrow> int \<Rightarrow> int \<Rightarrow> 'p work_row \<Rightarrow> 'p work_row" where
  "claimed_row worker now expires r =
     r\<lparr>wr_status := Work_claimed, wr_attempts := wr_attempts r + 1, wr_claimed_by := Some worker,
       wr_claimed_at := Some now, wr_claim_expires_at := Some expires, wr_last_error := None\<rparr>"

definition update_rows ::
  "string set \<Rightarrow> ('p work_row \<Rightarrow> 'p work_row) \<Rightarrow> 'p work_row list \<Rightarrow> 'p work_row list" where
  "update_rows ids f rows = map (\<lambda>r. if wr_id r \<in> ids then f r else r) rows"

definition claim_rows ::
  "int option \<Rightarrow> string \<Rightarrow> int \<Rightarrow> int \<Rightarrow> nat \<Rightarrow> 'p work_row list \<Rightarrow>
     'p work_row list \<times> 'p work_row list" where
  "claim_rows retries worker now expires batch rows =
     (let next = next_rows retries now batch rows
      in (update_rows (set (map wr_id next)) (claimed_row worker now expires) rows,
          map (claimed_row worker now expires) next))"

definition done_row :: "int \<Rightarrow> 'p work_row \<Rightarrow> 'p work_row" where
  "done_row completedAt r =
     r\<lparr>wr_status := Work_done, wr_finished_at := Some completedAt, wr_claimed_by := None,
       wr_claimed_at := None, wr_claim_expires_at := None, wr_last_error := None\<rparr>"

definition mark_done :: "string list \<Rightarrow> int \<Rightarrow> 'p work_row list \<Rightarrow> 'p work_row list" where
  "mark_done ids completedAt rows = update_rows (set ids) (done_row completedAt) rows"

definition failed_row :: "string \<Rightarrow> 'p work_row \<Rightarrow> 'p work_row" where
  "failed_row reason r =
     r\<lparr>wr_status := Work_failed, wr_claimed_by := None, wr_claimed_at := None,
       wr_claim_expires_at := None, wr_last_error := Some (take 1000 reason)\<rparr>"

definition mark_failed :: "(string \<times> string) list \<Rightarrow> 'p work_row list \<Rightarrow> 'p work_row list" where
  "mark_failed reasons rows =
     map (\<lambda>r. case map_of reasons (wr_id r) of None \<Rightarrow> r | Some reason \<Rightarrow> failed_row reason r) rows"


subsection \<open>The supervisor loop\<close>

datatype stop_reason = Stop_max_iterations | Stop_idle_limit | Stop_shutdown_signal

record supervisor_options =
  so_max_iterations :: "int option"
  so_idle_iteration_limit :: "int option"
  so_poll_interval_ms :: "int option"
  so_idle_poll_interval_ms :: "int option"

record ('r, 'm) supervisor_iteration =
  si_iteration :: nat
  si_worker_report :: 'r
  si_metrics :: 'm
  si_next_poll_delay_ms :: int

text \<open>\<^verbatim>\<open>n < maxIterations\<close>, where no limit is \<^verbatim>\<open>Number.POSITIVE_INFINITY\<close>.\<close>

definition below_max :: "supervisor_options \<Rightarrow> nat \<Rightarrow> bool" where
  "below_max opts n = (case so_max_iterations opts of None \<Rightarrow> True | Some m \<Rightarrow> int n < m)"

definition idle_limit :: "supervisor_options \<Rightarrow> int" where
  "idle_limit opts = (case so_idle_iteration_limit opts of None \<Rightarrow> 5 | Some n \<Rightarrow> n)"

definition poll_interval :: "supervisor_options \<Rightarrow> int" where
  "poll_interval opts = (case so_poll_interval_ms opts of None \<Rightarrow> 1000 | Some n \<Rightarrow> n)"

definition next_delay :: "supervisor_options \<Rightarrow> bool \<Rightarrow> int" where
  "next_delay opts idle =
     (if idle then (case so_idle_poll_interval_ms opts of None \<Rightarrow> poll_interval opts | Some n \<Rightarrow> n)
      else poll_interval opts)"

text \<open>
  The world of a supervisor has a state \<open>'s\<close>: \<open>body\<close> is one pass of the worker with what follows it
  (metrics), \<open>claimed\<close> reads the report, \<open>aborted\<close> is the shutdown signal, and \<open>sleep\<close> waits. The loop
  need not end: \<open>None\<close> is no result.
\<close>

partial_function (option) supervise_loop ::
  "('s \<Rightarrow> 's \<times> ('r \<times> 'm) outcome) \<Rightarrow> ('r \<Rightarrow> nat) \<Rightarrow> ('s \<Rightarrow> bool) \<Rightarrow> (int \<Rightarrow> 's \<Rightarrow> 's) \<Rightarrow>
     supervisor_options \<Rightarrow> ('r, 'm) supervisor_iteration list \<Rightarrow> nat \<Rightarrow> 's \<Rightarrow>
     ('s \<times> (stop_reason \<times> nat \<times> ('r, 'm) supervisor_iteration list) outcome) option" where
  "supervise_loop body claimed aborted sleep opts iterations idle s =
     (if \<not> below_max opts (length iterations) then Some (s, Done (Stop_max_iterations, idle, iterations))
      else if aborted s then Some (s, Done (Stop_shutdown_signal, idle, iterations))
      else case body s of
             (s', Failed e) \<Rightarrow> Some (s', Failed e)
           | (s', Died d) \<Rightarrow> Some (s', Died d)
           | (s', Done (report, metrics)) \<Rightarrow>
               (let idle' = (if claimed report = 0 then idle + 1 else 0);
                    delay = next_delay opts (claimed report = 0);
                    iterations' = iterations @
                      [\<lparr>si_iteration = length iterations + 1, si_worker_report = report,
                        si_metrics = metrics, si_next_poll_delay_ms = delay\<rparr>]
                in if int idle' \<ge> idle_limit opts then Some (s', Done (Stop_idle_limit, idle', iterations'))
                   else if \<not> below_max opts (length iterations') then
                     Some (s', Done (Stop_max_iterations, idle', iterations'))
                   else supervise_loop body claimed aborted sleep opts iterations' idle' (sleep delay s')))"

definition supervise ::
  "('s \<Rightarrow> 's \<times> ('r \<times> 'm) outcome) \<Rightarrow> ('r \<Rightarrow> nat) \<Rightarrow> ('s \<Rightarrow> bool) \<Rightarrow> (int \<Rightarrow> 's \<Rightarrow> 's) \<Rightarrow>
     supervisor_options \<Rightarrow> 's \<Rightarrow>
     ('s \<times> (stop_reason \<times> nat \<times> ('r, 'm) supervisor_iteration list) outcome) option" where
  "supervise body claimed aborted sleep opts s =
     (case supervise_loop body claimed aborted sleep opts [] 0 s of
        Some (s', Done (reason, idle, iterations)) \<Rightarrow>
          Some (s', Done (if aborted s' then Stop_shutdown_signal else reason, idle, iterations))
      | stopped \<Rightarrow> stopped)"

text \<open>\<^verbatim>\<open>sumWorkerReports\<close>.\<close>

definition sumWorkerReports :: "('r, 'm) supervisor_iteration list \<Rightarrow> ('r \<Rightarrow> nat) \<Rightarrow> nat" where
  "sumWorkerReports iterations field =
     foldl (\<lambda>total i. total + field (si_worker_report i)) 0 iterations"

end
