(* ===== verification/Outbox.thy ===== *)
theory Outbox
  imports Propagation WorkQueue
begin

text \<open>
  The event outbox: \<^verbatim>\<open>network/src/services/event-outbox-publisher.ts\<close>, \<^verbatim>\<open>event-outbox-worker.ts\<close>,
  \<^verbatim>\<open>event-outbox-supervisor.ts\<close>, \<^verbatim>\<open>event-outbox-metrics.ts\<close> and the statements of
  \<^verbatim>\<open>postgres-event-outbox-worker.ts\<close>. Rows of the outbox table are claimed in batches, published to
  the message sink, and marked published or failed.
\<close>

subsection \<open>Decoding an outbox record\<close>

record outbox_record =
  or_outbox_id :: string
  or_event_id :: string
  or_payload :: jsval

text \<open>
  \<^verbatim>\<open>decodeEventEnvelope\<close> on an untyped value: a plain object whose required properties have the
  schema's types and whose optional ones are absent or have them.
\<close>

fun int_of_js :: "jsval \<Rightarrow> int option" where
  "int_of_js (JNum (Fin q)) = (case quotient_of q of (n, d) \<Rightarrow> if d = 1 then Some n else None)"
| "int_of_js _ = None"

definition optional_of :: "(jsval \<Rightarrow> 'a option) \<Rightarrow> jsval \<Rightarrow> 'a option option" where
  "optional_of f v = (if v = JUndefined then Some None else map_option Some (f v))"

definition envelopeFromUnknown :: "jsval \<Rightarrow> event_envelope option" where
  "envelopeFromUnknown v =
     (case (is_record v, str_opt (get_prop v ''event_id''), str_opt (get_prop v ''type''),
            str_opt (get_prop v ''occurred_at''), str_opt (get_prop v ''root_program_id''),
            optional_of str_opt (get_prop v ''delegated_authority_id''),
            optional_of str_opt (get_prop v ''issuer_id''),
            optional_of str_opt (get_prop v ''destination_policy_id''),
            str_opt (get_prop v ''artifact_id''), str_opt (get_prop v ''artifact_hash''),
            optional_of str_opt (get_prop v ''artifact_ref''), int_of_js (get_prop v ''version''),
            optional_of int_of_js (get_prop v ''previous_version''),
            optional_of str_opt (get_prop v ''reason'')) of
        (True, Some eventId, Some eventType, Some occurredAt, Some rootId, Some authorityId,
         Some issuerId, Some policyId, Some artifactId, Some artifactHash, Some artifactRef,
         Some version, Some previous, Some reason) \<Rightarrow>
          Some \<lparr>ee_event_id = eventId, ee_type = eventType, ee_occurred_at = occurredAt,
                ee_root_program_id = rootId, ee_delegated_authority_id = authorityId,
                ee_issuer_id = issuerId, ee_destination_policy_id = policyId,
                ee_artifact_id = artifactId, ee_artifact_hash = artifactHash,
                ee_artifact_ref = artifactRef, ee_version = version, ee_previous_version = previous,
                ee_reason = reason\<rparr>
      | _ \<Rightarrow> None)"

datatype outbox_error = Thrown string | Typed net_error

fun error_message :: "net_error \<Rightarrow> string" where
  "error_message (ContractValidationError m c) = m"
| "error_message (DestinationParseError m p) = m"
| "error_message (EventPublicationError m c) = m"
| "error_message (KeyMaterialError m c) = m"
| "error_message (PersistenceError m c) = m"
| "error_message (PolicyPublicationError m c) = m"
| "error_message (SigningCustodyError m c) = m"

fun failureReason :: "outbox_error \<Rightarrow> string" where
  "failureReason (Thrown m) = m"
| "failureReason (Typed e) = error_message e"

definition payloadObject :: "jsval \<Rightarrow> outbox_error + jsval" where
  "payloadObject payload =
     (case payload of
        JObj kvs \<Rightarrow> if ''envelope'' \<in> fst ` set kvs then Inr payload
                    else Inl (Thrown ''Outbox payload must contain an event envelope.'')
      | _ \<Rightarrow> Inl (Thrown ''Outbox payload must contain an event envelope.''))"

definition networkEventFromOutboxRecord ::
  "platform \<Rightarrow> outbox_record \<Rightarrow> outbox_error + network_event" where
  "networkEventFromOutboxRecord P record' =
     and_then (payloadObject (or_payload record')) (\<lambda>payload.
       (case envelopeFromUnknown (get_prop payload ''envelope'') of
          None \<Rightarrow> Inl (Typed (ContractValidationError ''Outbox payload envelope is invalid.''
                    (OtherCause (get_prop payload ''envelope''))))
        | Some e \<Rightarrow>
            (case decodeEventEnvelope P e of
               Inl bad \<Rightarrow> Inl (Typed (ContractValidationError ''Outbox payload envelope is invalid.''
                           (EnvelopeRejected bad)))
             | Inr envelope \<Rightarrow>
                 Inr \<lparr>ne_envelope = envelope,
                      ne_body = (let b = get_prop payload ''body''
                                 in if b = JUndefined then NoBody else JsonBody b)\<rparr>)))"


subsection \<open>Publishing a batch\<close>

record outbox_success =
  os_outbox_id :: string
  os_event_id :: string
  os_subject :: string
  os_stream :: jet_stream_name

record outbox_failure =
  of_outbox_id :: string
  of_event_id :: string
  of_reason :: string

record publish_report =
  pb_attempted :: nat
  pb_published :: nat
  pb_failed :: nat
  pb_successes :: "outbox_success list"
  pb_failures :: "outbox_failure list"

text \<open>One record, with \<^verbatim>\<open>Effect.either\<close> around it: a typed error is a value, a defect is not.\<close>

definition publish_record ::
  "platform \<Rightarrow> (jet_stream_message \<Rightarrow> ('k, jet_stream_message) call) \<Rightarrow>
     ('k \<Rightarrow> jet_stream_message list) \<Rightarrow> outbox_record \<Rightarrow> 'k \<Rightarrow>
     'k \<times> (defect + (outbox_error + outbox_success))" where
  "publish_record P publish recorded record' k =
     (case networkEventFromOutboxRecord P record' of
        Inl err \<Rightarrow> (k, Inr (Inl err))
      | Inr event \<Rightarrow>
          (case publishEvents publish [event] k of
             (k', Died d) \<Rightarrow> (k', Inl d)
           | (k', Failed err) \<Rightarrow> (k', Inr (Inl (Typed err)))
           | (k', Done report) \<Rightarrow>
               (k', Inr (if recorded k' = [] then
                           Inl (Thrown (''No JetStream message was recorded for outbox event '' @
                             or_event_id record' @ ''.''))
                         else
                           (let published = last (recorded k')
                            in Inr \<lparr>os_outbox_id = or_outbox_id record', os_event_id = or_event_id record',
                                    os_subject = (case nr_subjects report of
                                       [] \<Rightarrow> jm_subject published | s # _ \<Rightarrow> s),
                                    os_stream = jm_stream published\<rparr>)))))"

fun publish_records ::
  "platform \<Rightarrow> (jet_stream_message \<Rightarrow> ('k, jet_stream_message) call) \<Rightarrow>
     ('k \<Rightarrow> jet_stream_message list) \<Rightarrow> outbox_record list \<Rightarrow>
     outbox_success list \<Rightarrow> outbox_failure list \<Rightarrow> 'k \<Rightarrow>
     'k \<times> (defect + (outbox_success list \<times> outbox_failure list))" where
  "publish_records P publish recorded [] successes failures k = (k, Inr (successes, failures))"
| "publish_records P publish recorded (r # records) successes failures k =
     (case publish_record P publish recorded r k of
        (k', Inl d) \<Rightarrow> (k', Inl d)
      | (k', Inr (Inr success)) \<Rightarrow>
          publish_records P publish recorded records (successes @ [success]) failures k'
      | (k', Inr (Inl err)) \<Rightarrow>
          publish_records P publish recorded records successes
            (failures @ [\<lparr>of_outbox_id = or_outbox_id r, of_event_id = or_event_id r,
                          of_reason = failureReason err\<rparr>]) k')"

definition publishBatch ::
  "platform \<Rightarrow> (jet_stream_message \<Rightarrow> ('k, jet_stream_message) call) \<Rightarrow>
     ('k \<Rightarrow> jet_stream_message list) \<Rightarrow> outbox_record list \<Rightarrow> 'k \<Rightarrow> 'k \<times> (defect + publish_report)" where
  "publishBatch P publish recorded records k =
     (case publish_records P publish recorded records [] [] k of
        (k', Inl d) \<Rightarrow> (k', Inl d)
      | (k', Inr (successes, failures)) \<Rightarrow>
          (k', Inr \<lparr>pb_attempted = length records, pb_published = length successes,
                    pb_failed = length failures, pb_successes = successes, pb_failures = failures\<rparr>))"


subsection \<open>The worker\<close>

record outbox_claim_input =
  ci_worker_id :: string
  ci_batch_size :: nat
  ci_claimed_at :: int
  ci_claim_expires_at :: int
  ci_max_retry_attempts :: int

record outbox_worker_options =
  wo_worker_id :: string
  wo_batch_size :: "nat option"
  wo_claim_ttl_ms :: "int option"
  wo_max_retry_attempts :: "int option"

record outbox_worker_report =
  ow_worker_id :: string
  ow_claimed :: nat
  ow_attempted :: nat
  ow_published :: nat
  ow_failed :: nat
  ow_marked_published :: nat
  ow_marked_failed :: nat
  ow_publish_report :: "publish_report option"

definition emptyWorkerReport :: "string \<Rightarrow> outbox_worker_report" where
  "emptyWorkerReport workerId =
     \<lparr>ow_worker_id = workerId, ow_claimed = 0, ow_attempted = 0, ow_published = 0, ow_failed = 0,
      ow_marked_published = 0, ow_marked_failed = 0, ow_publish_report = None\<rparr>"

text \<open>The store of the worker; its state is \<open>'d\<close>.\<close>

record 'd outbox_store =
  st_claim :: "outbox_claim_input \<Rightarrow> ('d, outbox_record list) call"
  st_mark_published :: "outbox_success list \<Rightarrow> int \<Rightarrow> ('d, nat) call"
  st_mark_failed :: "outbox_failure list \<Rightarrow> int \<Rightarrow> ('d, nat) call"

definition outbox_claim_of :: "outbox_worker_options \<Rightarrow> int \<Rightarrow> outbox_claim_input" where
  "outbox_claim_of opts claimedAt =
     \<lparr>ci_worker_id = wo_worker_id opts,
      ci_batch_size = (case wo_batch_size opts of None \<Rightarrow> 100 | Some n \<Rightarrow> n),
      ci_claimed_at = claimedAt,
      ci_claim_expires_at = claimedAt + (case wo_claim_ttl_ms opts of None \<Rightarrow> 30000 | Some n \<Rightarrow> n),
      ci_max_retry_attempts = (case wo_max_retry_attempts opts of None \<Rightarrow> 3 | Some n \<Rightarrow> n)\<rparr>"

text \<open>\<open>tick\<close> reads the clock, twice in a pass that claims rows.\<close>

definition processOnce ::
  "'d outbox_store \<Rightarrow> (outbox_record list \<Rightarrow> 'k \<Rightarrow> 'k \<times> (defect + publish_report)) \<Rightarrow>
     ('c \<Rightarrow> 'c \<times> int) \<Rightarrow> outbox_worker_options \<Rightarrow> 'd \<times> 'k \<times> 'c \<Rightarrow>
     ('d \<times> 'k \<times> 'c) \<times> outbox_worker_report outcome" where
  "processOnce store publishBatch' tick opts st =
     (let (d, k, c) = st; (c1, claimedAt) = tick c
      in case st_claim store (outbox_claim_of opts claimedAt) d of
           (d1, Inl e) \<Rightarrow> ((d1, k, c1), Failed e)
         | (d1, Inr rows) \<Rightarrow>
             if length rows = 0 then ((d1, k, c1), Done (emptyWorkerReport (wo_worker_id opts)))
             else
               (case publishBatch' rows k of
                  (k1, Inl defect) \<Rightarrow> ((d1, k1, c1), Died defect)
                | (k1, Inr rep) \<Rightarrow>
                    (let (c2, completedAt) = tick c1
                     in case (if length (pb_successes rep) = 0 then (d1, Inr 0)
                              else st_mark_published store (pb_successes rep) completedAt d1) of
                          (d2, Inl e) \<Rightarrow> ((d2, k1, c2), Failed e)
                        | (d2, Inr markedPublished) \<Rightarrow>
                            (case (if length (pb_failures rep) = 0 then (d2, Inr 0)
                                   else st_mark_failed store (pb_failures rep) completedAt d2) of
                               (d3, Inl e) \<Rightarrow> ((d3, k1, c2), Failed e)
                             | (d3, Inr markedFailed) \<Rightarrow>
                                 ((d3, k1, c2), Done
                                   \<lparr>ow_worker_id = wo_worker_id opts, ow_claimed = length rows,
                                    ow_attempted = pb_attempted rep, ow_published = pb_published rep,
                                    ow_failed = pb_failed rep, ow_marked_published = markedPublished,
                                    ow_marked_failed = markedFailed, ow_publish_report = Some rep\<rparr>)))))"


subsection \<open>The outbox table\<close>

record outbox_entry =
  oe_event_id :: string
  oe_event_type :: string
  oe_payload :: jsval

type_synonym outbox_table = "outbox_entry work_row list"

definition record_of_row :: "outbox_entry work_row \<Rightarrow> outbox_record" where
  "record_of_row r =
     \<lparr>or_outbox_id = wr_id r, or_event_id = oe_event_id (wr_payload r),
      or_payload = oe_payload (wr_payload r)\<rparr>"

definition claimEventOutboxBatch :: "outbox_claim_input \<Rightarrow> (outbox_table, outbox_record list) call" where
  "claimEventOutboxBatch input rows =
     (let (rows', claimed) = claim_rows (Some (ci_max_retry_attempts input)) (ci_worker_id input)
            (ci_claimed_at input) (ci_claim_expires_at input) (ci_batch_size input) rows
      in (rows', Inr (map record_of_row claimed)))"

definition markEventOutboxPublished :: "outbox_success list \<Rightarrow> int \<Rightarrow> (outbox_table, nat) call" where
  "markEventOutboxPublished successes publishedAt rows =
     (if length successes = 0 then (rows, Inr 0)
      else (mark_done (map os_outbox_id successes) publishedAt rows, Inr (length successes)))"

definition markEventOutboxFailed :: "outbox_failure list \<Rightarrow> int \<Rightarrow> (outbox_table, nat) call" where
  "markEventOutboxFailed failures failedAt rows =
     (if length failures = 0 then (rows, Inr 0)
      else (mark_failed (map (\<lambda>f. (of_outbox_id f, of_reason f)) failures) rows,
            Inr (length failures)))"

definition makePostgresEventOutboxWorkerStore :: "outbox_table outbox_store" where
  "makePostgresEventOutboxWorkerStore =
     \<lparr>st_claim = claimEventOutboxBatch, st_mark_published = markEventOutboxPublished,
      st_mark_failed = markEventOutboxFailed\<rparr>"


subsection \<open>Health\<close>

record failed_row_summary =
  fs_outbox_id :: string
  fs_event_id :: string
  fs_event_type :: string
  fs_attempts :: int
  fs_last_error :: "string option"
  fs_created_at :: string

record metrics_snapshot =
  ms_observed_at :: string
  ms_pending_count :: int
  ms_publishing_count :: int
  ms_published_count :: int
  ms_failed_count :: int
  ms_stale_claim_count :: int
  ms_retryable_failed_count :: int
  ms_oldest_pending_age_ms :: int
  ms_oldest_failed_age_ms :: int
  ms_max_attempts :: int
  ms_failed_rows :: "failed_row_summary list"

datatype health_status = Healthy | Degraded | Health_blocked

record health_summary =
  hs_status :: health_status
  hs_reasons :: "string list"

definition summarizeEventOutboxHealth :: "metrics_snapshot \<Rightarrow> health_summary" where
  "summarizeEventOutboxHealth s =
     (let reasons =
            (if ms_failed_count s > 0 then [''failed_rows''] else []) @
            (if ms_stale_claim_count s > 0 then [''stale_claims''] else []) @
            (if ms_oldest_pending_age_ms s \<ge> 60000 then [''pending_lag''] else []) @
            (if ms_retryable_failed_count s > 0 then [''retry_candidates''] else [])
      in if ms_failed_count s > 0 \<or> ms_stale_claim_count s > 0 then
           \<lparr>hs_status = Health_blocked, hs_reasons = reasons\<rparr>
         else if length reasons > 0 then \<lparr>hs_status = Degraded, hs_reasons = reasons\<rparr>
         else \<lparr>hs_status = Healthy, hs_reasons = []\<rparr>)"


subsection \<open>The supervisor\<close>

record metrics_input =
  mi_observed_at :: int
  mi_failed_row_limit :: "int option"
  mi_max_retry_attempts :: "int option"

record supervisor_report =
  sr_worker_id :: string
  sr_started_at :: string
  sr_stopped_at :: string
  sr_stop_reason :: stop_reason
  sr_iterations :: nat
  sr_claimed :: nat
  sr_attempted :: nat
  sr_published :: nat
  sr_failed :: nat
  sr_idle_iterations :: nat
  sr_last_worker_report :: "outbox_worker_report option"
  sr_last_metrics :: "metrics_snapshot option"
  sr_last_health :: "health_summary option"
  sr_iteration_reports ::
    "(outbox_worker_report, (metrics_snapshot \<times> health_summary) option) supervisor_iteration list"

record outbox_supervisor_options = supervisor_options +
  so_worker_id :: string
  so_failed_row_limit :: "int option"
  so_max_retry_attempts :: "int option"

text \<open>
  A pass of the supervisor: the worker, then the metrics of the optional store. \<open>process\<close>, \<open>load\<close>
  and \<open>now\<close> act on the state of the surrounding system.
\<close>

definition supervisor_pass ::
  "('s \<Rightarrow> 's \<times> outbox_worker_report outcome) \<Rightarrow>
     (metrics_input \<Rightarrow> ('s, metrics_snapshot) call) option \<Rightarrow> ('s \<Rightarrow> 's \<times> int) \<Rightarrow>
     outbox_supervisor_options \<Rightarrow> 's \<Rightarrow>
     's \<times> (outbox_worker_report \<times> (metrics_snapshot \<times> health_summary) option) outcome" where
  "supervisor_pass process load now opts s =
     (case process s of
        (s1, Failed e) \<Rightarrow> (s1, Failed e)
      | (s1, Died d) \<Rightarrow> (s1, Died d)
      | (s1, Done report) \<Rightarrow>
          (case load of
             None \<Rightarrow> (s1, Done (report, None))
           | Some loadSnapshot \<Rightarrow>
               (let (s2, observedAt) = now s1
                in case loadSnapshot \<lparr>mi_observed_at = observedAt,
                          mi_failed_row_limit = so_failed_row_limit opts,
                          mi_max_retry_attempts = so_max_retry_attempts opts\<rparr> s2 of
                     (s3, Inl e) \<Rightarrow> (s3, Failed e)
                   | (s3, Inr metrics) \<Rightarrow>
                       (s3, Done (report, Some (metrics, summarizeEventOutboxHealth metrics))))))"

definition last_option :: "'a list \<Rightarrow> 'a option" where
  "last_option xs = (if xs = [] then None else Some (last xs))"

definition buildSupervisorReport ::
  "platform \<Rightarrow> outbox_supervisor_options \<Rightarrow> int \<Rightarrow> int \<Rightarrow> stop_reason \<Rightarrow> nat \<Rightarrow>
     (outbox_worker_report, (metrics_snapshot \<times> health_summary) option) supervisor_iteration list \<Rightarrow>
     supervisor_report" where
  "buildSupervisorReport P opts startedAt stoppedAt reason idle iterations =
     (let lastIteration = last_option iterations;
          lastMetrics = (case lastIteration of None \<Rightarrow> None | Some i \<Rightarrow> si_metrics i)
      in \<lparr>sr_worker_id = so_worker_id opts, sr_started_at = iso_string P startedAt,
          sr_stopped_at = iso_string P stoppedAt, sr_stop_reason = reason,
          sr_iterations = length iterations,
          sr_claimed = sumWorkerReports iterations ow_claimed,
          sr_attempted = sumWorkerReports iterations ow_attempted,
          sr_published = sumWorkerReports iterations ow_published,
          sr_failed = sumWorkerReports iterations ow_failed, sr_idle_iterations = idle,
          sr_last_worker_report = map_option si_worker_report lastIteration,
          sr_last_metrics = map_option fst lastMetrics, sr_last_health = map_option snd lastMetrics,
          sr_iteration_reports = iterations\<rparr>)"

definition runOutboxSupervisor ::
  "platform \<Rightarrow> ('s \<Rightarrow> 's \<times> outbox_worker_report outcome) \<Rightarrow>
     (metrics_input \<Rightarrow> ('s, metrics_snapshot) call) option \<Rightarrow> ('s \<Rightarrow> 's \<times> int) \<Rightarrow> ('s \<Rightarrow> bool) \<Rightarrow>
     (int \<Rightarrow> 's \<Rightarrow> 's) \<Rightarrow> outbox_supervisor_options \<Rightarrow> 's \<Rightarrow> ('s \<times> supervisor_report outcome) option" where
  "runOutboxSupervisor P process load now aborted sleep opts s =
     (let (s0, startedAt) = now s
      in case supervise (supervisor_pass process load now opts) ow_claimed aborted sleep
                (supervisor_options.truncate opts) s0 of
           None \<Rightarrow> None
         | Some (s1, Failed e) \<Rightarrow> Some (s1, Failed e)
         | Some (s1, Died d) \<Rightarrow> Some (s1, Died d)
         | Some (s1, Done (reason, idle, iterations)) \<Rightarrow>
             (let (s2, stoppedAt) = now s1
              in Some (s2, Done (buildSupervisorReport P opts startedAt stoppedAt reason idle iterations))))"

end
