(* ===== verification/Materialization.thy ===== *)
theory Materialization
  imports DestinationPolicy
begin

text \<open>
  Materialisation of a verifier cache entry, \<^verbatim>\<open>network/src/services/verifier-cache-materialization.ts\<close>:
  a chain of five signed artifacts (root manifest, authority manifest, issuer record, destination
  policy, status event) is decoded and checked link by link, and projected to an issuer and a
  policy of the verifier cache and to the body of a cache entry artifact.
\<close>

subsection \<open>Checks on unknown values\<close>

definition requireEqual :: "string option \<Rightarrow> string option \<Rightarrow> string \<Rightarrow> check_error + unit" where
  "requireEqual actual expected message =
     (if actual \<noteq> expected then Inl (NotEqual message expected actual) else Inr ())"

text \<open>A run of \<^verbatim>\<open>requireEqual\<close> calls.\<close>

definition require_equal_all :: "(string option \<times> string option \<times> string) list \<Rightarrow> check_error + unit" where
  "require_equal_all = each (\<lambda>(actual, expected, message). requireEqual actual expected message)"

definition requireTruthy :: "'a option \<Rightarrow> string \<Rightarrow> check_error + 'a" where
  "requireTruthy value message = (case value of None \<Rightarrow> Inl (Missing message) | Some v \<Rightarrow> Inr v)"

definition requireRefMatchesArtifact :: "string \<Rightarrow> string \<Rightarrow> string \<Rightarrow> check_error + unit" where
  "requireRefMatchesArtifact artifactRef artifactId label =
     (if artifactRef \<noteq> artifactId then Inl (RefMismatch label artifactRef artifactId) else Inr ())"

definition recordValue :: "jsval \<Rightarrow> string \<Rightarrow> check_error + jsval" where
  "recordValue value label = (if \<not> is_record value then Inl (MustBeObject label) else Inr value)"

definition requireArray :: "jsval \<Rightarrow> string \<Rightarrow> check_error + jsval list" where
  "requireArray value label = (case value of JArr xs \<Rightarrow> Inr xs | _ \<Rightarrow> Inl (MustBeArray label))"

definition requireStringArray :: "jsval \<Rightarrow> string \<Rightarrow> check_error + string list" where
  "requireStringArray value label =
     and_then (requireArray value label) (\<lambda>entries.
       if \<not> list_all is_str entries then Inl (MustContainOnlyStrings label)
       else Inr (map str_of entries))"

definition requireString :: "jsval \<Rightarrow> string \<Rightarrow> check_error + string" where
  "requireString value label =
     (case value of
        JStr s \<Rightarrow> if length s = 0 then Inl (MustBeNonEmptyString label) else Inr s
      | _ \<Rightarrow> Inl (MustBeNonEmptyString label))"

definition requireNumber :: "jsval \<Rightarrow> string \<Rightarrow> check_error + rat" where
  "requireNumber value label =
     (case value of JNum (Fin q) \<Rightarrow> Inr q | _ \<Rightarrow> Inl (MustBeFiniteNumber label))"

definition requireHttpsUrl :: "platform \<Rightarrow> jsval \<Rightarrow> string \<Rightarrow> check_error + string" where
  "requireHttpsUrl P value label =
     and_then (requireString value label) (\<lambda>s.
       let rawValue = js_trim s
       in case new_url P rawValue of
            None \<Rightarrow> Inl (MustBeValidUrl label)
          | Some u \<Rightarrow>
              if protocol u \<noteq> ''https:'' then Inl (MustUseHttps label)
              else if username u \<noteq> [] \<or> password u \<noteq> [] then Inl (MustNotIncludeCredentials label)
              else Inr rawValue)"

definition requireHostname :: "jsval \<Rightarrow> string \<Rightarrow> check_error + string" where
  "requireHostname value label =
     and_then (requireString value label) (\<lambda>s.
       let host = js_lower (drop_trailing_dot (js_trim s))
       in if length host = 0 \<or> length host > 253 \<or> sublist ''://'' host \<or> CHR ''/'' \<in> set host \<or>
             CHR '':'' \<in> set host \<or> list_ex is_js_space host then Inl (MustBeDnsHostname label)
          else if list_ex (\<lambda>part. \<not> is_dns_label part) (js_split CHR ''.'' host) then
            Inl (MustBeDnsHostname label)
          else Inr host)"

definition requirePathPrefix :: "jsval \<Rightarrow> string \<Rightarrow> check_error + string" where
  "requirePathPrefix value label =
     and_then (requireString value label) (\<lambda>s.
       let pathPrefix = js_trim s
       in if \<not> prefix ''/'' pathPrefix then Inl (MustStartWithSlash label) else Inr pathPrefix)"

definition requireLiteral :: "jsval \<Rightarrow> string \<Rightarrow> string list \<Rightarrow> check_error + string" where
  "requireLiteral value label allowed =
     (if value \<in> set (map JStr allowed) then Inr (str_of value) else Inl (MustBeOneOf label allowed))"

definition requireNonNegativeInteger :: "jsval \<Rightarrow> string \<Rightarrow> check_error + int" where
  "requireNonNegativeInteger value label =
     and_then (requireNumber value label) (\<lambda>q.
       if snd (quotient_of q) = 1 \<and> q \<ge> 0 then Inr (fst (quotient_of q))
       else Inl (MustBeNonNegativeInteger label))"

definition requireBoolean :: "jsval \<Rightarrow> string \<Rightarrow> check_error + bool" where
  "requireBoolean value label = (case value of JBool b \<Rightarrow> Inr b | _ \<Rightarrow> Inl (MustBeBoolean label))"

definition one_of_statuses :: "string list \<Rightarrow> jsval \<Rightarrow> string \<Rightarrow> check_error + string" where
  "one_of_statuses allowed value label =
     (if value \<in> set (map JStr allowed) then Inr (str_of value) else Inl (MustBeStatus label))"

definition lifecycleStatus :: "jsval \<Rightarrow> string \<Rightarrow> check_error + string" where
  "lifecycleStatus = one_of_statuses [''active'', ''suspended'', ''revoked'']"

definition certificateStatus :: "jsval \<Rightarrow> string \<Rightarrow> check_error + string" where
  "certificateStatus = one_of_statuses [''active'', ''suspended'', ''revoked'', ''expired'']"

definition statusValue :: "jsval \<Rightarrow> string \<Rightarrow> check_error + string" where
  "statusValue = one_of_statuses [''active'', ''suspended'', ''revoked'', ''expired'']"

datatype stale_behavior = Allow | Downgrade_to_caution | Downgrade_or_block | Block_when_stale

definition staleBehavior :: "jsval \<Rightarrow> string \<Rightarrow> check_error + stale_behavior" where
  "staleBehavior value label =
     (if value = JStr ''allow'' then Inr Allow
      else if value = JStr ''downgrade_to_caution'' then Inr Downgrade_to_caution
      else if value = JStr ''downgrade_or_block'' then Inr Downgrade_or_block
      else if value = JStr ''block'' then Inr Block_when_stale
      else Inl (NotAStaleBehavior label))"


subsection \<open>Bodies of the artifacts\<close>

record publication_body =
  pu_published_at :: string
  pu_valid_until :: string

record authority_ref =
  ar_delegated_authority_id :: string
  ar_manifest_ref :: string
  ar_status :: string

record root_manifest_body =
  rm_root_program_id :: string
  rm_delegated_authorities :: "authority_ref list"
  rm_publication :: publication_body

record enrolled_issuer =
  en_issuer_id :: string
  en_issuer_record_ref :: string
  en_assurance_tier :: string
  en_status :: string

record delegated_authority_body =
  da_artifact_type :: string
  da_root_program_id :: string
  da_delegated_authority_id :: string
  da_enrolled_issuers :: "enrolled_issuer list"
  da_publication :: publication_body

record issuer_policy_ref =
  ipr_destination_policy_id :: string
  ipr_policy_ref :: string
  ipr_status :: string

record issuer_record_body =
  ir_issuer_namespace :: issuer_namespace
  ir_issuer_display_name :: string
  ir_assurance_tier :: string
  ir_certificate_refs :: "string list"
  ir_destination_policies :: "issuer_policy_ref list"
  ir_issuer_status :: string
  ir_certificate_status :: string
  ir_status_event_ref :: string
  ir_publication :: publication_body

record destination_policy_body =
  db_root_program_id :: string
  db_delegated_authority_id :: string
  db_issuer_id :: string
  db_destination_policy_id :: string
  db_approved_destinations :: "destination_policy_rule list"
  db_redirect_policy :: redirect_policy_projection
  db_provider :: string
  db_verdict_ttl_seconds :: rat
  db_stale_behavior :: stale_behavior
  db_unavailable_behavior :: stale_behavior
  db_publication :: publication_body

record status_event_body =
  se_root_program_id :: string
  se_delegated_authority_id :: string
  se_target_type :: string
  se_issuer_id :: "string option"
  se_certificate_ref :: "string option"
  se_status :: string
  se_effective_at :: string
  se_expires_at :: "string option"

definition recordBody :: "signed_artifact \<Rightarrow> string \<Rightarrow> check_error + jsval" where
  "recordBody artifact expectedArtifactType =
     and_then (recordValue (sa_body artifact) (expectedArtifactType @ '' body'')) (\<lambda>body.
       if get_prop body ''artifact_type'' \<noteq> JStr expectedArtifactType then
         Inl (WrongArtifactType (sa_artifact_id artifact) expectedArtifactType
                (get_prop body ''artifact_type''))
       else Inr body)"

definition publicationBody :: "jsval \<Rightarrow> string \<Rightarrow> check_error + publication_body" where
  "publicationBody value label =
     and_then (recordValue value label) (\<lambda>candidate.
     and_then (requireString (get_prop candidate ''published_at'') (label @ '' published_at'')) (\<lambda>published.
     and_then (requireString (get_prop candidate ''valid_until'') (label @ '' valid_until'')) (\<lambda>until.
       Inr \<lparr>pu_published_at = published, pu_valid_until = until\<rparr>)))"

text \<open>\<^verbatim>\<open>requireArray(value, label).map(f)\<close> and \<^verbatim>\<open>requireStringArray(value, label).map(f)\<close>.\<close>

definition require_array_of :: "(jsval \<Rightarrow> check_error + 'a) \<Rightarrow> jsval \<Rightarrow> string \<Rightarrow> check_error + 'a list" where
  "require_array_of f value label = and_then (requireArray value label) (map_result f)"

definition require_strings_of :: "(jsval \<Rightarrow> check_error + 'a) \<Rightarrow> jsval \<Rightarrow> string \<Rightarrow> check_error + 'a list" where
  "require_strings_of f value label =
     and_then (requireStringArray value label) (\<lambda>entries. map_result f (map JStr entries))"

definition authorityRef :: "jsval \<Rightarrow> check_error + authority_ref" where
  "authorityRef authority =
     and_then (recordValue authority ''delegated authority'') (\<lambda>candidate.
     and_then (requireString (get_prop candidate ''delegated_authority_id'') ''delegated authority id'') (\<lambda>i.
     and_then (requireString (get_prop candidate ''manifest_ref'') ''delegated authority manifest_ref'') (\<lambda>r.
     and_then (lifecycleStatus (get_prop candidate ''status'') ''delegated authority status'') (\<lambda>s.
       Inr \<lparr>ar_delegated_authority_id = i, ar_manifest_ref = r, ar_status = s\<rparr>))))"

definition rootManifestBody :: "signed_artifact \<Rightarrow> check_error + root_manifest_body" where
  "rootManifestBody artifact =
     and_then (recordBody artifact ''root_manifest'') (\<lambda>body.
     and_then (requireString (get_prop body ''root_program_id'') ''root manifest root_program_id'') (\<lambda>root_id.
     and_then (require_array_of authorityRef (get_prop body ''delegated_authorities'')
                 ''root manifest delegated_authorities'') (\<lambda>authorities.
     and_then (publicationBody (get_prop body ''publication'') ''root manifest publication'') (\<lambda>publication.
       Inr \<lparr>rm_root_program_id = root_id, rm_delegated_authorities = authorities,
            rm_publication = publication\<rparr>))))"

definition enrolledIssuer :: "jsval \<Rightarrow> check_error + enrolled_issuer" where
  "enrolledIssuer issuer =
     and_then (recordValue issuer ''enrolled issuer'') (\<lambda>candidate.
     and_then (requireString (get_prop candidate ''issuer_id'') ''enrolled issuer id'') (\<lambda>i.
     and_then (requireString (get_prop candidate ''issuer_record_ref'') ''enrolled issuer record ref'') (\<lambda>r.
     and_then (requireString (get_prop candidate ''assurance_tier'') ''enrolled issuer assurance tier'') (\<lambda>tier.
     and_then (lifecycleStatus (get_prop candidate ''status'') ''enrolled issuer status'') (\<lambda>s.
       Inr \<lparr>en_issuer_id = i, en_issuer_record_ref = r, en_assurance_tier = tier, en_status = s\<rparr>)))))"

definition delegatedAuthorityBody :: "signed_artifact \<Rightarrow> check_error + delegated_authority_body" where
  "delegatedAuthorityBody artifact =
     and_then (recordValue (sa_body artifact) ''delegated authority manifest'') (\<lambda>body.
       let artifactType = get_prop body ''artifact_type'' in
       if artifactType \<noteq> JStr ''delegated_authority_manifest'' \<and>
          artifactType \<noteq> JStr ''delegated_operator_manifest'' then
         Inl (NotADelegatedAuthorityManifest artifactType)
       else
         and_then (requireString (get_prop body ''root_program_id'')
                     ''delegated authority root_program_id'') (\<lambda>root_id.
         and_then (requireString (get_prop body ''delegated_authority_id'')
                     ''delegated authority delegated_authority_id'') (\<lambda>authority.
         and_then (require_array_of enrolledIssuer (get_prop body ''enrolled_issuers'')
                     ''delegated authority enrolled_issuers'') (\<lambda>issuers.
         and_then (publicationBody (get_prop body ''publication'') ''delegated authority publication'')
           (\<lambda>publication.
           Inr \<lparr>da_artifact_type = str_of artifactType, da_root_program_id = root_id,
                da_delegated_authority_id = authority, da_enrolled_issuers = issuers,
                da_publication = publication\<rparr>)))))"

definition issuerPolicyRef :: "jsval \<Rightarrow> check_error + issuer_policy_ref" where
  "issuerPolicyRef policy =
     and_then (recordValue policy ''issuer destination policy'') (\<lambda>candidate.
     and_then (requireString (get_prop candidate ''destination_policy_id'') ''issuer destination_policy_id'') (\<lambda>i.
     and_then (requireString (get_prop candidate ''policy_ref'') ''issuer policy ref'') (\<lambda>r.
     and_then (lifecycleStatus (get_prop candidate ''status'') ''issuer policy status'') (\<lambda>s.
       Inr \<lparr>ipr_destination_policy_id = i, ipr_policy_ref = r, ipr_status = s\<rparr>))))"

definition issuerNamespace :: "jsval \<Rightarrow> check_error + issuer_namespace" where
  "issuerNamespace namespace =
     and_then (requireString (get_prop namespace ''root_program_id'') ''issuer namespace root_program_id'') (\<lambda>r.
     and_then (requireString (get_prop namespace ''delegated_authority_id'')
                 ''issuer namespace delegated_authority_id'') (\<lambda>a.
     and_then (requireString (get_prop namespace ''issuer_id'') ''issuer namespace issuer_id'') (\<lambda>i.
       Inr \<lparr>ns_root_program_id = r, ns_delegated_authority_id = a, ns_issuer_id = i\<rparr>)))"

definition issuerRecordBody :: "signed_artifact \<Rightarrow> check_error + issuer_record_body" where
  "issuerRecordBody artifact =
     and_then (recordBody artifact ''issuer_record'') (\<lambda>body.
     and_then (recordValue (get_prop body ''issuer_namespace'') ''issuer namespace'') (\<lambda>namespace.
     and_then (recordValue (get_prop body ''status'') ''issuer status'') (\<lambda>status.
     and_then (issuerNamespace namespace) (\<lambda>ns.
     and_then (requireString (get_prop body ''issuer_display_name'') ''issuer display name'') (\<lambda>name.
     and_then (requireString (get_prop body ''assurance_tier'') ''issuer assurance tier'') (\<lambda>tier.
     and_then (requireStringArray (get_prop body ''certificate_refs'') ''issuer certificate refs'')
       (\<lambda>certificates.
     and_then (require_array_of issuerPolicyRef (get_prop body ''destination_policies'')
                 ''issuer destination policies'') (\<lambda>policies.
     and_then (lifecycleStatus (get_prop status ''issuer_status'') ''issuer status'') (\<lambda>issuerStatus.
     and_then (certificateStatus (get_prop status ''certificate_status'') ''certificate status'')
       (\<lambda>certificate.
     and_then (requireString (get_prop status ''status_event_ref'') ''issuer status_event_ref'') (\<lambda>eventRef.
     and_then (publicationBody (get_prop body ''publication'') ''issuer publication'') (\<lambda>publication.
       Inr \<lparr>ir_issuer_namespace = ns, ir_issuer_display_name = name, ir_assurance_tier = tier,
            ir_certificate_refs = certificates, ir_destination_policies = policies,
            ir_issuer_status = issuerStatus, ir_certificate_status = certificate,
            ir_status_event_ref = eventRef, ir_publication = publication\<rparr>))))))))))))"

definition destinationRule :: "platform \<Rightarrow> jsval \<Rightarrow> check_error + destination_policy_rule" where
  "destinationRule P value =
     and_then (recordValue value ''destination policy rule'') (\<lambda>candidate.
     and_then (requireString (get_prop candidate ''destination_id'') ''destination destination_id'') (\<lambda>destinationId.
     and_then (requireHttpsUrl P (get_prop candidate ''expected_final_url'')
                 ''destination expected_final_url'') (\<lambda>url.
     and_then (require_strings_of (\<lambda>host. requireHostname host ''destination allowed_hosts[]'')
                 (get_prop candidate ''allowed_hosts'') ''destination allowed_hosts'') (\<lambda>hosts.
     and_then (requireBoolean (get_prop candidate ''allow_subdomains'') ''destination allow_subdomains'')
       (\<lambda>subdomains.
     and_then (require_strings_of (\<lambda>path. requirePathPrefix path ''destination path_prefixes[]'')
                 (get_prop candidate ''path_prefixes'') ''destination path_prefixes'') (\<lambda>paths.
     and_then (requireLiteral (get_prop candidate ''query_policy'') ''destination query_policy''
                 [''none'', ''allow_known_payment_query'']) (\<lambda>query.
     and_then (let keys = get_prop candidate ''allowed_query_keys''
               in if keys = JUndefined then Inr None
                  else and_then (requireStringArray keys ''destination allowed_query_keys'')
                         (\<lambda>keys. Inr (Some keys))) (\<lambda>keys.
       Inr \<lparr>dr_destination_id = destinationId, dr_expected_final_url = url,
            dr_allowed_hosts = hosts, dr_allow_subdomains = subdomains, dr_path_prefixes = paths,
            dr_query_policy = query, dr_allowed_query_keys = keys\<rparr>))))))))"

definition redirectPolicy :: "platform \<Rightarrow> jsval \<Rightarrow> check_error + redirect_policy_projection" where
  "redirectPolicy P value =
     and_then (recordValue value ''redirect policy'') (\<lambda>candidate.
     and_then (require_strings_of (\<lambda>u. requireHttpsUrl P u ''redirect resolver_urls[]'')
                 (get_prop candidate ''resolver_urls'') ''redirect resolver_urls'') (\<lambda>resolvers.
     and_then (require_strings_of (\<lambda>u. requireHttpsUrl P u ''redirect expected_final_destinations[]'')
                 (get_prop candidate ''expected_final_destinations'')
                 ''redirect expected_final_destinations'') (\<lambda>finals.
     and_then (require_strings_of (\<lambda>host. requireHostname host ''redirect allowed_redirect_hosts[]'')
                 (get_prop candidate ''allowed_redirect_hosts'') ''redirect allowed_redirect_hosts'') (\<lambda>hosts.
     and_then (requireNonNegativeInteger (get_prop candidate ''max_redirect_hops'')
                 ''redirect max_redirect_hops'') (\<lambda>hops.
     and_then (requireBoolean (get_prop candidate ''nested_shorteners_allowed'')
                 ''redirect nested_shorteners_allowed'') (\<lambda>nested.
     and_then (requireBoolean (get_prop candidate ''scanner_must_display_resolver_and_final_destination'')
                 ''redirect scanner_must_display_resolver_and_final_destination'') (\<lambda>display.
       Inr \<lparr>rp_resolver_urls = resolvers, rp_expected_final_destinations = finals,
            rp_allowed_redirect_hosts = hosts, rp_max_redirect_hops = hops,
            rp_nested_shorteners_allowed = nested,
            rp_scanner_must_display_resolver_and_final_destination = display\<rparr>)))))))"

definition destinationPolicyBody :: "platform \<Rightarrow> signed_artifact \<Rightarrow> check_error + destination_policy_body" where
  "destinationPolicyBody P artifact =
     and_then (recordBody artifact ''destination_policy'') (\<lambda>body.
     and_then (recordValue (get_prop body ''runtime_safety_policy'') ''runtime safety policy'') (\<lambda>runtime.
     and_then (requireString (get_prop body ''root_program_id'') ''destination policy root_program_id'') (\<lambda>r.
     and_then (requireString (get_prop body ''delegated_authority_id'')
                 ''destination policy delegated_authority_id'') (\<lambda>a.
     and_then (requireString (get_prop body ''issuer_id'') ''destination policy issuer_id'') (\<lambda>i.
     and_then (requireString (get_prop body ''destination_policy_id'') ''destination policy id'') (\<lambda>policyId.
     and_then (require_array_of (destinationRule P) (get_prop body ''approved_destinations'')
                 ''destination policy approved_destinations'') (\<lambda>rules.
     and_then (redirectPolicy P (get_prop body ''redirect_policy'')) (\<lambda>redirect.
     and_then (requireString (get_prop runtime ''provider'') ''runtime provider'') (\<lambda>provider.
     and_then (requireNumber (get_prop runtime ''verdict_ttl_seconds'') ''runtime verdict_ttl_seconds'') (\<lambda>ttl.
     and_then (staleBehavior (get_prop runtime ''stale_behavior'') ''runtime stale_behavior'') (\<lambda>stale.
     and_then (staleBehavior (get_prop runtime ''unavailable_behavior'') ''runtime unavailable_behavior'')
       (\<lambda>unavailable.
     and_then (publicationBody (get_prop body ''publication'') ''destination policy publication'')
       (\<lambda>publication.
       Inr \<lparr>db_root_program_id = r, db_delegated_authority_id = a, db_issuer_id = i,
            db_destination_policy_id = policyId, db_approved_destinations = rules,
            db_redirect_policy = redirect, db_provider = provider, db_verdict_ttl_seconds = ttl,
            db_stale_behavior = stale, db_unavailable_behavior = unavailable,
            db_publication = publication\<rparr>)))))))))))))"

definition statusEventBody :: "signed_artifact \<Rightarrow> check_error + status_event_body" where
  "statusEventBody artifact =
     and_then (recordBody artifact ''revocation_status_event'') (\<lambda>body.
     and_then (recordValue (get_prop body ''target'') ''status target'') (\<lambda>target.
     and_then (requireString (get_prop body ''root_program_id'') ''status root_program_id'') (\<lambda>r.
     and_then (requireString (get_prop body ''delegated_authority_id'') ''status delegated_authority_id'') (\<lambda>a.
     and_then (requireString (get_prop target ''target_type'') ''status target_type'') (\<lambda>targetType.
     and_then (statusValue (get_prop body ''status'') ''status event status'') (\<lambda>s.
     and_then (requireString (get_prop body ''effective_at'') ''status effective_at'') (\<lambda>effective.
       Inr \<lparr>se_root_program_id = r, se_delegated_authority_id = a, se_target_type = targetType,
            se_issuer_id = str_opt (get_prop target ''issuer_id''),
            se_certificate_ref = str_opt (get_prop target ''certificate_ref''),
            se_status = s, se_effective_at = effective,
            se_expires_at = str_opt (get_prop body ''expires_at'')\<rparr>)))))))"


subsection \<open>Materialisation\<close>

text \<open>\<^verbatim>\<open>reduce\<close> over a first date and the others.\<close>

definition latestIso :: "string \<Rightarrow> string list \<Rightarrow> string" where
  "latestIso = foldl (\<lambda>latest date. if js_less latest date then date else latest)"

definition earliestIso :: "string \<Rightarrow> string list \<Rightarrow> string" where
  "earliestIso = foldl (\<lambda>earliest date. if js_less date earliest then date else earliest)"

definition normalizeDestinationRule :: "destination_policy_rule \<Rightarrow> destination_policy_rule" where
  "normalizeDestinationRule d = d\<lparr>dr_allowed_hosts := map js_lower (dr_allowed_hosts d)\<rparr>"

definition allowedHosts :: "destination_policy_body \<Rightarrow> string list" where
  "allowedHosts policy =
     js_unique (concat (map (\<lambda>d. map js_lower (dr_allowed_hosts d)) (db_approved_destinations policy)))"

text \<open>\<^verbatim>\<open>s.replace(/^p/, "")\<close>.\<close>

definition without_prefix :: "string \<Rightarrow> string \<Rightarrow> string" where
  "without_prefix p s = (if prefix p s then drop (length p) s else s)"

definition namespace_json :: "issuer_namespace \<Rightarrow> jsval" where
  "namespace_json ns = JObj
     [(''root_program_id'', JStr (ns_root_program_id ns)),
      (''delegated_authority_id'', JStr (ns_delegated_authority_id ns)),
      (''issuer_id'', JStr (ns_issuer_id ns))]"

definition cacheEntryId :: "platform \<Rightarrow> issuer_namespace \<Rightarrow> string \<Rightarrow> string list \<Rightarrow> string" where
  "cacheEntryId P ns destinationPolicyId sourceArtifactHashes =
     ''cache:'' @ without_prefix ''issuer:'' (ns_issuer_id ns) @ '':'' @
     without_prefix ''policy:'' destinationPolicyId @ '':'' @
     take 16 (hashJson P (JObj [(''namespace'', namespace_json ns),
       (''destinationPolicyId'', JStr destinationPolicyId),
       (''sourceArtifactHashes'', strings_json sourceArtifactHashes)]))"

definition materializationWarnings :: "platform \<Rightarrow> int \<Rightarrow> string \<Rightarrow> string list" where
  "materializationWarnings P materializedAt cacheExpiresAt =
     (if js_less cacheExpiresAt (iso_string P materializedAt) then [''cache_materialized_after_expiry''] else [])"

record materialization_input =
  mat_root_manifest :: signed_artifact
  mat_delegated_authority_manifest :: signed_artifact
  mat_issuer_record :: signed_artifact
  mat_destination_policy :: signed_artifact
  mat_status_event :: signed_artifact
  mat_materialized_at :: int
  mat_max_staleness_seconds :: "int option"
  mat_stale_behavior :: "stale_behavior option"

datatype resolver_policy = Resolver_final_destination_required | Direct_destination_only

text \<open>The cache entry body, without its constant fields (artifact type, schema version, trust texts).\<close>

record cache_entry_body =
  ce_cache_entry_id :: string
  ce_effective_issuer_namespace :: issuer_namespace
  ce_root_manifest_ref :: string
  ce_delegated_operator_manifest_ref :: string
  ce_issuer_record_ref :: string
  ce_destination_policy_ref :: string
  ce_status_event_ref :: string
  ce_certificate_ref :: string
  ce_issuer_display_name :: string
  ce_assurance_tier :: string
  ce_destination_policy_id :: string
  ce_approved_destination_count :: nat
  ce_resolver_policy :: resolver_policy
  ce_state_published_at :: string
  ce_cache_generated_at :: string
  ce_cache_expires_at :: string
  ce_max_staleness_seconds :: int
  ce_stale_behavior :: stale_behavior

record materialization_report =
  mr_cache_entry :: cache_entry_body
  mr_issuer_projection :: issuer_projection
  mr_destination_policy_projection :: destination_policy_projection
  mr_source_artifact_hashes :: "string list"
  mr_materialization_warnings :: "string list"

text \<open>The decoded bodies of the chain, in the order in which they are decoded.\<close>

record artifact_chain =
  ch_root :: root_manifest_body
  ch_authority :: delegated_authority_body
  ch_issuer :: issuer_record_body
  ch_policy :: destination_policy_body
  ch_status :: status_event_body

definition decode_chain :: "platform \<Rightarrow> materialization_input \<Rightarrow> check_error + artifact_chain" where
  "decode_chain P input =
     and_then (rootManifestBody (mat_root_manifest input)) (\<lambda>r.
     and_then (delegatedAuthorityBody (mat_delegated_authority_manifest input)) (\<lambda>a.
     and_then (issuerRecordBody (mat_issuer_record input)) (\<lambda>i.
     and_then (destinationPolicyBody P (mat_destination_policy input)) (\<lambda>p.
     and_then (statusEventBody (mat_status_event input)) (\<lambda>s.
       Inr \<lparr>ch_root = r, ch_authority = a, ch_issuer = i, ch_policy = p, ch_status = s\<rparr>)))))"

text \<open>The checks between the bodies; the result is the certificate reference.\<close>

definition check_chain :: "materialization_input \<Rightarrow> artifact_chain \<Rightarrow> check_error + string" where
  "check_chain input c =
     (let rootManifest = ch_root c; delegatedAuthority = ch_authority c; issuerRecord = ch_issuer c;
          destinationPolicy = ch_policy c; statusEvent = ch_status c;
          ns = ir_issuer_namespace issuerRecord
      in
      and_then (require_equal_all
        [(Some (da_root_program_id delegatedAuthority), Some (rm_root_program_id rootManifest),
            ''delegated authority root_program_id must match root manifest''),
         (Some (ns_root_program_id ns), Some (rm_root_program_id rootManifest),
            ''issuer root_program_id must match root manifest''),
         (Some (ns_delegated_authority_id ns), Some (da_delegated_authority_id delegatedAuthority),
            ''issuer delegated_authority_id must match delegated authority''),
         (Some (db_root_program_id destinationPolicy), Some (ns_root_program_id ns),
            ''destination policy root_program_id must match issuer namespace''),
         (Some (db_delegated_authority_id destinationPolicy), Some (ns_delegated_authority_id ns),
            ''destination policy delegated_authority_id must match issuer namespace''),
         (Some (db_issuer_id destinationPolicy), Some (ns_issuer_id ns),
            ''destination policy issuer_id must match issuer namespace''),
         (Some (se_root_program_id statusEvent), Some (ns_root_program_id ns),
            ''status event root_program_id must match issuer namespace''),
         (Some (se_delegated_authority_id statusEvent), Some (ns_delegated_authority_id ns),
            ''status event delegated_authority_id must match issuer namespace'')]) (\<lambda>_.
      and_then (requireTruthy
        (find (\<lambda>authority. ar_delegated_authority_id authority = da_delegated_authority_id delegatedAuthority)
           (rm_delegated_authorities rootManifest))
        ''root manifest does not delegate this authority'') (\<lambda>delegatedAuthorityRef.
      and_then (requireEqual (Some (ar_status delegatedAuthorityRef)) (Some ''active'')
        ''delegated authority must be active in the root manifest'') (\<lambda>_.
      and_then (requireRefMatchesArtifact (ar_manifest_ref delegatedAuthorityRef)
        (sa_artifact_id (mat_delegated_authority_manifest input)) ''delegated authority manifest ref'') (\<lambda>_.
      and_then (requireTruthy
        (find (\<lambda>issuer. en_issuer_id issuer = ns_issuer_id ns) (da_enrolled_issuers delegatedAuthority))
        ''delegated authority does not enroll this issuer'') (\<lambda>enrolled.
      and_then (requireEqual (Some (en_status enrolled)) (Some ''active'')
        ''issuer enrollment must be active in delegated authority manifest'') (\<lambda>_.
      and_then (requireRefMatchesArtifact (en_issuer_record_ref enrolled)
        (sa_artifact_id (mat_issuer_record input)) ''issuer record ref'') (\<lambda>_.
      and_then (require_equal_all
        [(Some (ir_issuer_status issuerRecord), Some ''active'',
            ''issuer record must be active before cache materialization''),
         (Some (ir_certificate_status issuerRecord), Some ''active'',
            ''issuer certificate must be active before cache materialization'')]) (\<lambda>_.
      and_then (requireTruthy
        (find (\<lambda>policy. ipr_destination_policy_id policy = db_destination_policy_id destinationPolicy)
           (ir_destination_policies issuerRecord))
        ''issuer record does not reference destination policy'') (\<lambda>issuerPolicy.
      and_then (requireEqual (Some (ipr_status issuerPolicy)) (Some ''active'')
        ''issuer destination policy reference must be active'') (\<lambda>_.
      and_then (requireRefMatchesArtifact (ipr_policy_ref issuerPolicy)
        (sa_artifact_id (mat_destination_policy input)) ''destination policy ref'') (\<lambda>_.
      and_then (require_equal_all
        [(Some (se_target_type statusEvent), Some ''issuer_record'',
            ''materialized cache status event must target the issuer record''),
         (se_issuer_id statusEvent, Some (ns_issuer_id ns),
            ''status event issuer target must match issuer record''),
         (Some (se_status statusEvent), Some ''active'',
            ''status event must be active before cache materialization'')]) (\<lambda>_.
      and_then (requireTruthy
        (keep_truthy (case se_certificate_ref statusEvent of
            Some r \<Rightarrow> Some r
          | None \<Rightarrow> (case ir_certificate_refs issuerRecord of [] \<Rightarrow> None | r # _ \<Rightarrow> Some r)))
        ''issuer record must expose at least one certificate ref'') (\<lambda>certificateRef.
      and_then (requireTruthy
        (if certificateRef \<in> set (ir_certificate_refs issuerRecord) then Some () else None)
        ''status event certificate ref must belong to the issuer record'') (\<lambda>_.
        Inr certificateRef)))))))))))))))"

definition chain_report ::
  "platform \<Rightarrow> materialization_input \<Rightarrow> artifact_chain \<Rightarrow> string \<Rightarrow> materialization_report" where
  "chain_report P input c certificateRef =
     (let issuerRecord = ch_issuer c; policy = ch_policy c; ns = ir_issuer_namespace issuerRecord;
          statePublishedAt = latestIso (pu_published_at (rm_publication (ch_root c)))
            [pu_published_at (da_publication (ch_authority c)),
             pu_published_at (ir_publication issuerRecord),
             pu_published_at (db_publication policy), se_effective_at (ch_status c)];
          cacheExpiresAt = earliestIso (pu_valid_until (rm_publication (ch_root c)))
            ([pu_valid_until (da_publication (ch_authority c)),
              pu_valid_until (ir_publication issuerRecord),
              pu_valid_until (db_publication policy)] @
             (case se_expires_at (ch_status c) of None \<Rightarrow> [] | Some t \<Rightarrow> [t]));
          generatedAt = iso_string P (mat_materialized_at input);
          staleBehavior = (case mat_stale_behavior input of None \<Rightarrow> db_stale_behavior policy | Some b \<Rightarrow> b);
          sourceArtifactHashes = map sa_artifact_hash
            [mat_root_manifest input, mat_delegated_authority_manifest input, mat_issuer_record input,
             mat_destination_policy input, mat_status_event input];
          redirect = db_redirect_policy policy
      in \<lparr>mr_cache_entry =
            \<lparr>ce_cache_entry_id = cacheEntryId P ns (db_destination_policy_id policy) sourceArtifactHashes,
             ce_effective_issuer_namespace = ns,
             ce_root_manifest_ref = sa_artifact_id (mat_root_manifest input),
             ce_delegated_operator_manifest_ref = sa_artifact_id (mat_delegated_authority_manifest input),
             ce_issuer_record_ref = sa_artifact_id (mat_issuer_record input),
             ce_destination_policy_ref = sa_artifact_id (mat_destination_policy input),
             ce_status_event_ref = sa_artifact_id (mat_status_event input),
             ce_certificate_ref = certificateRef,
             ce_issuer_display_name = ir_issuer_display_name issuerRecord,
             ce_assurance_tier = ir_assurance_tier issuerRecord,
             ce_destination_policy_id = db_destination_policy_id policy,
             ce_approved_destination_count = length (db_approved_destinations policy),
             ce_resolver_policy =
               (if length (rp_resolver_urls redirect) > 0 then Resolver_final_destination_required
                else Direct_destination_only),
             ce_state_published_at = statePublishedAt, ce_cache_generated_at = generatedAt,
             ce_cache_expires_at = cacheExpiresAt,
             ce_max_staleness_seconds =
               (case mat_max_staleness_seconds input of None \<Rightarrow> 3600 | Some n \<Rightarrow> n),
             ce_stale_behavior = staleBehavior\<rparr>,
          mr_issuer_projection =
            \<lparr>ip_namespace = ns, ip_issuer_display_name = ir_issuer_display_name issuerRecord,
             ip_assurance_tier = ir_assurance_tier issuerRecord,
             ip_destination_policy_id = db_destination_policy_id policy,
             ip_allowed_hosts = allowedHosts policy, ip_cache_generated_at = generatedAt,
             ip_cache_expires_at = cacheExpiresAt\<rparr>,
          mr_destination_policy_projection =
            \<lparr>dp_namespace = ns, dp_destination_policy_id = db_destination_policy_id policy,
             dp_approved_destinations = map normalizeDestinationRule (db_approved_destinations policy),
             dp_redirect_policy =
               redirect\<lparr>rp_allowed_redirect_hosts := map js_lower (rp_allowed_redirect_hosts redirect)\<rparr>,
             dp_allowed_hosts = allowedHosts policy,
             dp_allow_subdomains = list_ex dr_allow_subdomains (db_approved_destinations policy),
             dp_cache_generated_at = generatedAt, dp_cache_expires_at = cacheExpiresAt\<rparr>,
          mr_source_artifact_hashes = sourceArtifactHashes,
          mr_materialization_warnings =
            materializationWarnings P (mat_materialized_at input) cacheExpiresAt\<rparr>)"

definition materializeVerifierCacheEntryUnsafe ::
  "platform \<Rightarrow> materialization_input \<Rightarrow> check_error + materialization_report" where
  "materializeVerifierCacheEntryUnsafe P input =
     and_then (decode_chain P input) (\<lambda>c.
     and_then (check_chain input c) (\<lambda>certificateRef. Inr (chain_report P input c certificateRef)))"

definition materializeVerifierCacheEntry ::
  "platform \<Rightarrow> materialization_input \<Rightarrow> net_error + materialization_report" where
  "materializeVerifierCacheEntry P input =
     map_error (\<lambda>e. ContractValidationError
         ''Verifier cache entry could not be materialized from the supplied artifact chain.'' (CheckFailed e))
       (materializeVerifierCacheEntryUnsafe P input)"

end
