(* ===== verification/ReadModel.thy ===== *)
theory ReadModel
  imports Materialization SignatureVerification ScannerDecision
begin

text \<open>
  The read model of the verifier cache: the authorisation of a work item
  (\<^verbatim>\<open>network/src/services/verifier-cache-work-item-authorization.ts\<close>) and the worker that materialises
  it, probes the scanner and persists the entry (\<^verbatim>\<open>verifier-cache-read-model-worker.ts\<close>). The artifact
  store, the signature verifier, the event bus and the persistence service are arguments.
\<close>

subsection \<open>Effects in sequence\<close>

definition then_do :: "'a outcome \<Rightarrow> ('a \<Rightarrow> 'b outcome) \<Rightarrow> 'b outcome" where
  "then_do r f = (case r of Done x \<Rightarrow> f x | Failed e \<Rightarrow> Failed e | Died d \<Rightarrow> Died d)"

definition lift_result :: "net_error + 'a \<Rightarrow> 'a outcome" where
  "lift_result r = (case r of Inl e \<Rightarrow> Failed e | Inr x \<Rightarrow> Done x)"


subsection \<open>Work items\<close>

record read_model_artifact_refs =
  ref_root_manifest_artifact_id :: string
  ref_delegated_authority_manifest_artifact_id :: string
  ref_issuer_record_artifact_id :: string
  ref_destination_policy_artifact_id :: string
  ref_status_event_artifact_id :: string

record scanner_probe =
  sp_payload :: string
  sp_issuer_hint_host :: "string option"

record read_model_work_item =
  wi_verifier_id :: string
  wi_artifacts :: read_model_artifact_refs
  wi_materialized_at :: int
  wi_scanner_probes :: "scanner_probe list option"

definition fetch_artifact ::
  "string \<Rightarrow> (string \<Rightarrow> net_error + signed_artifact option) \<Rightarrow> string \<Rightarrow> string \<Rightarrow> signed_artifact outcome" where
  "fetch_artifact who get artifactId label =
     then_do (lift_result (get artifactId)) (\<lambda>artifact.
       case artifact of
         Some a \<Rightarrow> Done a
       | None \<Rightarrow> Failed (ContractValidationError
           (''Verifier cache '' @ who @ '' could not find '' @ label @ '' artifact.'')
           (OtherCause (JObj [(''artifact_id'', JStr artifactId)]))))"


subsection \<open>Authorisation\<close>

record authorization_report =
  au_verifier_id :: string
  au_status_event_artifact_id :: string
  au_signed_by :: string
  au_root_program_id :: string
  au_delegated_authority_id :: string
  au_issuer_id :: string
  au_signature_reason :: signature_reason

definition authorizer_fetch ::
  "(string \<Rightarrow> net_error + signed_artifact option) \<Rightarrow> string \<Rightarrow> string \<Rightarrow> signed_artifact outcome" where
  "authorizer_fetch = fetch_artifact ''work-item authorizer''"

definition authorizer_record :: "jsval \<Rightarrow> string \<Rightarrow> jsval outcome" where
  "authorizer_record value label =
     (if is_record value then Done value
      else Failed (ContractValidationError
        (''Verifier cache work-item authorization expected '' @ label @ '' to be an object.'')
        (OtherCause (JObj [(''value'', value)]))))"

definition authorizer_string :: "jsval \<Rightarrow> string \<Rightarrow> string outcome" where
  "authorizer_string r field =
     (case get_prop r field of
        JStr s \<Rightarrow>
          if length s > 0 then Done s
          else Failed (ContractValidationError
            (''Verifier cache work-item authorization expected '' @ field @ '' to be a string.'')
            (OtherCause (JObj [(''field'', JStr field), (''value'', JStr s)])))
      | v \<Rightarrow> Failed (ContractValidationError
            (''Verifier cache work-item authorization expected '' @ field @ '' to be a string.'')
            (OtherCause (JObj [(''field'', JStr field), (''value'', v)]))))"

definition failAuthorization ::
  "string \<Rightarrow> read_model_work_item \<Rightarrow> (string \<times> jsval) list \<Rightarrow> 'a outcome" where
  "failAuthorization reason input details =
     Failed (ContractValidationError ''Verifier cache work item status event is not authorized.''
       (OtherCause (JObj ([(''reason'', JStr reason), (''verifier_id'', JStr (wi_verifier_id input)),
          (''status_event_artifact_id'', JStr (ref_status_event_artifact_id (wi_artifacts input)))] @ details))))"

definition wrong_type :: "string \<Rightarrow> string \<Rightarrow> string \<Rightarrow> 'a outcome" where
  "wrong_type message artifactId artifactType =
     Failed (ContractValidationError message (OtherCause (JObj
       [(''artifact_id'', JStr artifactId), (''artifact_type'', JStr artifactType)])))"

definition issuerNamespaceFromArtifact :: "signed_artifact \<Rightarrow> issuer_namespace outcome" where
  "issuerNamespaceFromArtifact artifact =
     (if sa_artifact_type artifact \<noteq> ''issuer_record'' then
        wrong_type ''Verifier cache work item issuer artifact has the wrong type.''
          (sa_artifact_id artifact) (sa_artifact_type artifact)
      else
        then_do (authorizer_record (sa_body artifact) ''issuer record body'') (\<lambda>body.
        then_do (authorizer_string body ''artifact_type'') (\<lambda>artifactType.
        if artifactType \<noteq> ''issuer_record'' then
          wrong_type ''Verifier cache work item issuer body has the wrong artifact type.''
            (sa_artifact_id artifact) artifactType
        else
          then_do (authorizer_record (get_prop body ''issuer_namespace'') ''issuer namespace'') (\<lambda>ns.
          then_do (authorizer_string ns ''root_program_id'') (\<lambda>r.
          then_do (authorizer_string ns ''delegated_authority_id'') (\<lambda>a.
          then_do (authorizer_string ns ''issuer_id'') (\<lambda>i.
            Done \<lparr>ns_root_program_id = r, ns_delegated_authority_id = a, ns_issuer_id = i\<rparr>)))))))"

definition authorizer_status_event :: "signed_artifact \<Rightarrow> jsval outcome" where
  "authorizer_status_event artifact =
     (if sa_artifact_type artifact \<noteq> ''revocation_status_event'' then
        wrong_type ''Verifier cache work item status artifact has the wrong type.''
          (sa_artifact_id artifact) (sa_artifact_type artifact)
      else
        then_do (authorizer_record (sa_body artifact) ''status event body'') (\<lambda>body.
        then_do (authorizer_string body ''artifact_type'') (\<lambda>artifactType.
        if artifactType \<noteq> ''revocation_status_event'' then
          wrong_type ''Verifier cache work item status body has the wrong artifact type.''
            (sa_artifact_id artifact) artifactType
        else Done body)))"

definition statusEventTarget :: "jsval \<Rightarrow> (string \<times> string) outcome" where
  "statusEventTarget statusEvent =
     then_do (authorizer_record (get_prop statusEvent ''target'') ''status event target'') (\<lambda>target.
     then_do (authorizer_string target ''target_type'') (\<lambda>targetType.
     then_do (authorizer_string target ''issuer_id'') (\<lambda>issuerId. Done (targetType, issuerId))))"

definition signedTrustArtifactBody :: "signed_artifact \<Rightarrow> string \<Rightarrow> jsval outcome" where
  "signedTrustArtifactBody artifact label =
     then_do (authorizer_record (sa_body artifact) (label @ '' body'')) (\<lambda>body.
     then_do (authorizer_string body ''artifact_type'') (\<lambda>artifactType.
     if artifactType \<noteq> sa_artifact_type artifact then
       Failed (ContractValidationError
         ''Verifier cache work-item authorization source artifact type mismatch.''
         (OtherCause (JObj [(''artifact_id'', JStr (sa_artifact_id artifact)),
            (''artifact_type'', JStr (sa_artifact_type artifact)),
            (''body_artifact_type'', JStr artifactType)])))
     else
       then_do (authorizer_string body ''root_program_id'') (\<lambda>_.
       then_do (authorizer_string body ''signed_by'') (\<lambda>_.
       then_do (authorizer_string body ''signature_status'') (\<lambda>_. Done body)))))"

definition verifyRequiredTrustSignature ::
  "(jsval \<Rightarrow> signature_result outcome) \<Rightarrow> signed_artifact \<Rightarrow> string \<Rightarrow> read_model_work_item \<Rightarrow> unit outcome" where
  "verifyRequiredTrustSignature verify artifact label input =
     then_do (signedTrustArtifactBody artifact label) (\<lambda>body.
     then_do (verify body) (\<lambda>signature.
     if \<not> sv_accepted signature then
       failAuthorization ''Source trust artifact signature was not accepted.'' input
         [(''artifact_id'', JStr (sa_artifact_id artifact)),
          (''artifact_type'', JStr (sa_artifact_type artifact)), (''artifact_label'', JStr label),
          (''signed_by'', sv_signer signature),
          (''signature_reason'', JStr (signature_reason_string (sv_reason signature)))]
     else Done ()))"

definition authorize ::
  "(string \<Rightarrow> net_error + signed_artifact option) \<Rightarrow> (jsval \<Rightarrow> signature_result outcome) \<Rightarrow>
     read_model_work_item \<Rightarrow> authorization_report outcome" where
  "authorize get verify input =
     (let refs = wi_artifacts input in
      then_do (authorizer_fetch get (ref_issuer_record_artifact_id refs) ''issuer record'') (\<lambda>issuerRecord.
      then_do (authorizer_fetch get (ref_root_manifest_artifact_id refs) ''root manifest'') (\<lambda>rootManifest.
      then_do (authorizer_fetch get (ref_delegated_authority_manifest_artifact_id refs)
                 ''delegated authority manifest'') (\<lambda>delegatedAuthority.
      then_do (authorizer_fetch get (ref_destination_policy_artifact_id refs) ''destination policy'')
        (\<lambda>destinationPolicy.
      then_do (authorizer_fetch get (ref_status_event_artifact_id refs) ''status event'') (\<lambda>statusArtifact.
      then_do (issuerNamespaceFromArtifact issuerRecord) (\<lambda>ns.
      then_do (authorizer_status_event statusArtifact) (\<lambda>statusEvent.
      then_do (statusEventTarget statusEvent) (\<lambda>(targetType, issuerId).
      then_do (authorizer_string statusEvent ''signed_by'') (\<lambda>signedBy.
      then_do (authorizer_string statusEvent ''root_program_id'') (\<lambda>rootProgramId.
      then_do (authorizer_string statusEvent ''delegated_authority_id'') (\<lambda>delegatedAuthorityId.
      then_do (verifyRequiredTrustSignature verify rootManifest ''root manifest'' input) (\<lambda>_.
      then_do (verifyRequiredTrustSignature verify delegatedAuthority ''delegated authority manifest'' input) (\<lambda>_.
      then_do (verifyRequiredTrustSignature verify issuerRecord ''issuer record'' input) (\<lambda>_.
      then_do (verifyRequiredTrustSignature verify destinationPolicy ''destination policy'' input) (\<lambda>_.
      if rootProgramId \<noteq> ns_root_program_id ns then
        failAuthorization ''Status event root program does not match issuer record namespace.'' input
          [(''expected_root_program_id'', JStr (ns_root_program_id ns)),
           (''actual_root_program_id'', JStr rootProgramId)]
      else if delegatedAuthorityId \<noteq> ns_delegated_authority_id ns \<or> issuerId \<noteq> ns_issuer_id ns then
        failAuthorization ''Status event issuer scope does not match issuer record namespace.'' input
          [(''expected_delegated_authority_id'', JStr (ns_delegated_authority_id ns)),
           (''actual_delegated_authority_id'', JStr delegatedAuthorityId),
           (''expected_issuer_id'', JStr (ns_issuer_id ns)), (''actual_issuer_id'', JStr issuerId)]
      else if targetType \<noteq> ''issuer_record'' then
        failAuthorization ''Status event target must authorize an issuer record.'' input
          [(''target_type'', JStr targetType)]
      else if signedBy \<noteq> delegatedAuthorityId then
        failAuthorization ''Status event must be signed by the issuer delegated authority.'' input
          [(''signed_by'', JStr signedBy), (''delegated_authority_id'', JStr delegatedAuthorityId)]
      else
        then_do (verify statusEvent) (\<lambda>signature.
        if \<not> sv_accepted signature then
          failAuthorization ''Status event signature was not accepted.'' input
            [(''signed_by'', sv_signer signature),
             (''signature_reason'', JStr (signature_reason_string (sv_reason signature)))]
        else
          Done \<lparr>au_verifier_id = wi_verifier_id input,
                au_status_event_artifact_id = sa_artifact_id statusArtifact, au_signed_by = signedBy,
                au_root_program_id = rootProgramId, au_delegated_authority_id = delegatedAuthorityId,
                au_issuer_id = issuerId, au_signature_reason = sv_reason signature\<rparr>)))))))))))))))))"


subsection \<open>The worker\<close>

record cache_entry_input =
  cei_verifier_id :: string
  cei_issuer :: issuer_projection
  cei_policy :: destination_policy_projection
  cei_source_artifact_hashes :: "string list"
  cei_freshness_status :: cache_freshness_status

record read_model_batch =
  bt_verifier_cache_entries :: "cache_entry_input list"
  bt_scanner_decisions :: "(string \<times> scanner_decision) list"

record 'r read_model_report =
  rmr_verifier_id :: string
  rmr_cache_entry_id :: string
  rmr_source_artifact_ids :: read_model_artifact_refs
  rmr_source_artifact_hashes :: "string list"
  rmr_scanner_decisions :: "scanner_decision list"
  rmr_persistence_report :: 'r
  rmr_materialization_warnings :: "string list"

definition worker_fetch ::
  "(string \<Rightarrow> net_error + signed_artifact option) \<Rightarrow> string \<Rightarrow> string \<Rightarrow> signed_artifact outcome" where
  "worker_fetch = fetch_artifact ''read-model worker''"

definition fetchMaterializationArtifacts ::
  "(string \<Rightarrow> net_error + signed_artifact option) \<Rightarrow> read_model_work_item \<Rightarrow> materialization_input outcome" where
  "fetchMaterializationArtifacts get input =
     (let refs = wi_artifacts input in
      then_do (worker_fetch get (ref_root_manifest_artifact_id refs) ''root manifest'') (\<lambda>rootManifest.
      then_do (worker_fetch get (ref_delegated_authority_manifest_artifact_id refs)
                 ''delegated authority manifest'') (\<lambda>delegatedAuthority.
      then_do (worker_fetch get (ref_issuer_record_artifact_id refs) ''issuer record'') (\<lambda>issuerRecord.
      then_do (worker_fetch get (ref_destination_policy_artifact_id refs) ''destination policy'')
        (\<lambda>destinationPolicy.
      then_do (worker_fetch get (ref_status_event_artifact_id refs) ''status event'') (\<lambda>statusEvent.
        Done \<lparr>mat_root_manifest = rootManifest, mat_delegated_authority_manifest = delegatedAuthority,
              mat_issuer_record = issuerRecord, mat_destination_policy = destinationPolicy,
              mat_status_event = statusEvent, mat_materialized_at = wi_materialized_at input,
              mat_max_staleness_seconds = None, mat_stale_behavior = None\<rparr>))))))"

text \<open>Probes are decided one after the other; \<open>uuid n\<close> is the random id of the n-th decision.\<close>

fun scanner_probes ::
  "platform \<Rightarrow> verifier_cache \<Rightarrow> (network_event \<Rightarrow> ('b, unit) call) \<Rightarrow> (nat \<Rightarrow> string) \<Rightarrow> int \<Rightarrow>
     scanner_probe list \<Rightarrow> scanner_decision list \<Rightarrow> 'b \<Rightarrow> 'b \<times> scanner_decision list outcome" where
  "scanner_probes P cache publish uuid observedAt [] decisions bus = (bus, Done decisions)"
| "scanner_probes P cache publish uuid observedAt (probe # probes) decisions bus =
     (case decide P (resolveByDestination P cache) (clear_inspect P) publish (uuid (length decisions))
             \<lparr>si_payload = sp_payload probe, si_issuerHintHost = keep_truthy (sp_issuer_hint_host probe),
              si_observedAt = observedAt\<rparr> bus of
        (bus', Done decision) \<Rightarrow>
          scanner_probes P cache publish uuid observedAt probes (decisions @ [decision]) bus'
      | (bus', Failed e) \<Rightarrow> (bus', Failed e)
      | (bus', Died d) \<Rightarrow> (bus', Died d))"

definition runScannerProbes ::
  "platform \<Rightarrow> (network_event \<Rightarrow> ('b, unit) call) \<Rightarrow> (nat \<Rightarrow> string) \<Rightarrow> scanner_probe list \<Rightarrow> int \<Rightarrow>
     issuer_projection \<Rightarrow> destination_policy_projection \<Rightarrow> 'b \<Rightarrow> 'b \<times> scanner_decision list outcome" where
  "runScannerProbes P publish uuid probes observedAt issuer policy bus =
     scanner_probes P (makeInMemoryVerifierCache [issuer] [policy] acceptAllRootsPolicy) publish uuid
       observedAt probes [] bus"

definition read_model_batch_of ::
  "read_model_work_item \<Rightarrow> materialization_report \<Rightarrow> scanner_decision list \<Rightarrow> read_model_batch" where
  "read_model_batch_of input materialized decisions =
     \<lparr>bt_verifier_cache_entries =
        [\<lparr>cei_verifier_id = wi_verifier_id input, cei_issuer = mr_issuer_projection materialized,
          cei_policy = mr_destination_policy_projection materialized,
          cei_source_artifact_hashes = mr_source_artifact_hashes materialized,
          cei_freshness_status =
            (if ''cache_materialized_after_expiry'' \<in> set (mr_materialization_warnings materialized)
             then Expired else Fresh)\<rparr>],
      bt_scanner_decisions = map (\<lambda>d. (wi_verifier_id input, d)) decisions\<rparr>"

text \<open>The state is that of the bus and that of the persistence service.\<close>

definition process_read_model ::
  "platform \<Rightarrow> (string \<Rightarrow> net_error + signed_artifact option) \<Rightarrow> (network_event \<Rightarrow> ('b, unit) call) \<Rightarrow>
     (read_model_batch \<Rightarrow> 'x \<Rightarrow> 'x \<times> 'r outcome) \<Rightarrow> (nat \<Rightarrow> string) \<Rightarrow> read_model_work_item \<Rightarrow> 'b \<times> 'x \<Rightarrow>
     ('b \<times> 'x) \<times> 'r read_model_report outcome" where
  "process_read_model P get publish persistBatch uuid input st =
     (let (bus, db) = st in
      case then_do (fetchMaterializationArtifacts get input)
             (\<lambda>chain. lift_result (materializeVerifierCacheEntry P chain)) of
        Failed e \<Rightarrow> (st, Failed e)
      | Died d \<Rightarrow> (st, Died d)
      | Done materialized \<Rightarrow>
          (case runScannerProbes P publish uuid
                  (case wi_scanner_probes input of None \<Rightarrow> [] | Some probes \<Rightarrow> probes)
                  (wi_materialized_at input) (mr_issuer_projection materialized)
                  (mr_destination_policy_projection materialized) bus of
             (bus', Failed e) \<Rightarrow> ((bus', db), Failed e)
           | (bus', Died d) \<Rightarrow> ((bus', db), Died d)
           | (bus', Done decisions) \<Rightarrow>
               (case persistBatch (read_model_batch_of input materialized decisions) db of
                  (db', Failed e) \<Rightarrow> ((bus', db'), Failed e)
                | (db', Died d) \<Rightarrow> ((bus', db'), Died d)
                | (db', Done report) \<Rightarrow>
                    ((bus', db'), Done
                       \<lparr>rmr_verifier_id = wi_verifier_id input,
                        rmr_cache_entry_id = ce_cache_entry_id (mr_cache_entry materialized),
                        rmr_source_artifact_ids = wi_artifacts input,
                        rmr_source_artifact_hashes = mr_source_artifact_hashes materialized,
                        rmr_scanner_decisions = decisions, rmr_persistence_report = report,
                        rmr_materialization_warnings = mr_materialization_warnings materialized\<rparr>))))"

end
