(* ===== verification/QueueWorkers.thy ===== *)
theory QueueWorkers
  imports Outbox ReadModel
begin

text \<open>
  The two work-item queues: artifact publication (\<^verbatim>\<open>network/src/services/artifact-publication-queue-worker.ts\<close>,
  \<^verbatim>\<open>artifact-publication-queue-supervisor.ts\<close>, the statements of \<^verbatim>\<open>postgres-artifact-publication-queue.ts\<close>) and
  the read model of the verifier cache (\<^verbatim>\<open>verifier-cache-read-model-queue-worker.ts\<close>,
  \<^verbatim>\<open>verifier-cache-read-model-queue-supervisor.ts\<close>, \<^verbatim>\<open>postgres-verifier-cache-read-model-queue.ts\<close>). Their
  workers have one shape, \<open>process_queue\<close>: claim, run each record, mark. Failed work is not retried.
\<close>

subsection \<open>The shape of a queue worker\<close>

record 'w queue_record =
  qr_work_item_id :: string
  qr_work :: 'w

record queue_claim_input =
  qc_worker_id :: string
  qc_batch_size :: nat
  qc_claimed_at :: int
  qc_claim_expires_at :: int

record ('d, 'w, 's, 'f) queue_store =
  qs_claim_pending :: "queue_claim_input \<Rightarrow> ('d, 'w queue_record list) call"
  qs_mark_completed :: "'s list \<Rightarrow> int \<Rightarrow> ('d, nat) call"
  qs_mark_failed :: "'f list \<Rightarrow> int \<Rightarrow> ('d, nat) call"

record queue_worker_options =
  qo_worker_id :: string
  qo_batch_size :: "nat option"
  qo_claim_ttl_ms :: "int option"

record ('s, 'f) queue_worker_report =
  qw_worker_id :: string
  qw_claimed :: nat
  qw_attempted :: nat
  qw_completed :: nat
  qw_failed :: nat
  qw_marked_completed :: nat
  qw_marked_failed :: nat
  qw_successes :: "'s list"
  qw_failures :: "'f list"

definition empty_queue_report :: "string \<Rightarrow> ('s, 'f) queue_worker_report" where
  "empty_queue_report workerId =
     \<lparr>qw_worker_id = workerId, qw_claimed = 0, qw_attempted = 0, qw_completed = 0, qw_failed = 0,
      qw_marked_completed = 0, qw_marked_failed = 0, qw_successes = [], qw_failures = []\<rparr>"

definition queue_claim_of :: "queue_worker_options \<Rightarrow> int \<Rightarrow> queue_claim_input" where
  "queue_claim_of opts claimedAt =
     \<lparr>qc_worker_id = qo_worker_id opts,
      qc_batch_size = (case qo_batch_size opts of None \<Rightarrow> 50 | Some n \<Rightarrow> n),
      qc_claimed_at = claimedAt,
      qc_claim_expires_at = claimedAt + (case qo_claim_ttl_ms opts of None \<Rightarrow> 60000 | Some n \<Rightarrow> n)\<rparr>"

text \<open>\<open>step\<close> runs one record under \<^verbatim>\<open>Effect.either\<close>: a typed error is a failure, a defect ends the pass.\<close>

fun process_records ::
  "('w queue_record \<Rightarrow> 'k \<Rightarrow> 'k \<times> (defect + ('f + 's))) \<Rightarrow> 'w queue_record list \<Rightarrow> 's list \<Rightarrow> 'f list \<Rightarrow> 'k \<Rightarrow>
     'k \<times> (defect + ('s list \<times> 'f list))" where
  "process_records step [] successes failures k = (k, Inr (successes, failures))"
| "process_records step (r # records) successes failures k =
     (case step r k of
        (k', Inl d) \<Rightarrow> (k', Inl d)
      | (k', Inr (Inr success)) \<Rightarrow> process_records step records (successes @ [success]) failures k'
      | (k', Inr (Inl failure)) \<Rightarrow> process_records step records successes (failures @ [failure]) k')"

definition process_queue ::
  "('d, 'w, 's, 'f) queue_store \<Rightarrow> ('w queue_record \<Rightarrow> 'k \<Rightarrow> 'k \<times> (defect + ('f + 's))) \<Rightarrow>
     ('c \<Rightarrow> 'c \<times> int) \<Rightarrow> queue_worker_options \<Rightarrow> 'd \<times> 'k \<times> 'c \<Rightarrow>
     ('d \<times> 'k \<times> 'c) \<times> ('s, 'f) queue_worker_report outcome" where
  "process_queue store step tick opts st =
     (let (d, k, c) = st; (c1, claimedAt) = tick c
      in case qs_claim_pending store (queue_claim_of opts claimedAt) d of
           (d1, Inl e) \<Rightarrow> ((d1, k, c1), Failed e)
         | (d1, Inr records) \<Rightarrow>
             if length records = 0 then ((d1, k, c1), Done (empty_queue_report (qo_worker_id opts)))
             else
               (case process_records step records [] [] k of
                  (k1, Inl defect) \<Rightarrow> ((d1, k1, c1), Died defect)
                | (k1, Inr (successes, failures)) \<Rightarrow>
                    (let (c2, completedAt) = tick c1
                     in case (if length successes = 0 then (d1, Inr 0)
                              else qs_mark_completed store successes completedAt d1) of
                          (d2, Inl e) \<Rightarrow> ((d2, k1, c2), Failed e)
                        | (d2, Inr markedCompleted) \<Rightarrow>
                            (case (if length failures = 0 then (d2, Inr 0)
                                   else qs_mark_failed store failures completedAt d2) of
                               (d3, Inl e) \<Rightarrow> ((d3, k1, c2), Failed e)
                             | (d3, Inr markedFailed) \<Rightarrow>
                                 ((d3, k1, c2), Done
                                   \<lparr>qw_worker_id = qo_worker_id opts, qw_claimed = length records,
                                    qw_attempted = length records, qw_completed = length successes,
                                    qw_failed = length failures, qw_marked_completed = markedCompleted,
                                    qw_marked_failed = markedFailed, qw_successes = successes,
                                    qw_failures = failures\<rparr>)))))"


subsection \<open>Artifact publication\<close>

record artifact_success =
  as_work_item_id :: string
  as_artifact_id :: string
  as_artifact_hash :: string
  as_event_id :: string
  as_result :: artifact_publication_result

record artifact_failure =
  af_work_item_id :: string
  af_reason :: string
  af_artifact_id :: string
  af_artifact_hash :: string
  af_artifact_type :: string
  af_artifact_version :: int
  af_root_program_id :: string
  af_delegated_authority_id :: "string option"
  af_issuer_id :: "string option"

definition publish_work_item ::
  "platform \<Rightarrow> (artifact_publication_input \<Rightarrow> 'k \<Rightarrow> 'k \<times> artifact_publication_result outcome) \<Rightarrow>
     artifact_publication_input queue_record \<Rightarrow> 'k \<Rightarrow> 'k \<times> (defect + (artifact_failure + artifact_success))" where
  "publish_work_item P publisher record' k =
     (let input = qr_work record' in
      case publisher input k of
        (k', Died d) \<Rightarrow> (k', Inl d)
      | (k', Done result) \<Rightarrow>
          (k', Inr (Inr \<lparr>as_work_item_id = qr_work_item_id record',
                        as_artifact_id = sa_artifact_id (pr_artifact result),
                        as_artifact_hash = sa_artifact_hash (pr_artifact result),
                        as_event_id = ee_event_id (ne_envelope (pr_event result)), as_result = result\<rparr>))
      | (k', Failed e) \<Rightarrow>
          (k', Inr (Inl \<lparr>af_work_item_id = qr_work_item_id record', af_reason = failureReason (Typed e),
                        af_artifact_id = ap_artifact_id input, af_artifact_hash = sha256_of P (ap_body input),
                        af_artifact_type = ap_artifact_type input, af_artifact_version = ap_version input,
                        af_root_program_id = ap_root_program_id input,
                        af_delegated_authority_id = keep_truthy (ap_delegated_authority_id input),
                        af_issuer_id = keep_truthy (ap_issuer_id input)\<rparr>)))"

definition processArtifactQueueOnce ::
  "platform \<Rightarrow> ('d, artifact_publication_input, artifact_success, artifact_failure) queue_store \<Rightarrow>
     (artifact_publication_input \<Rightarrow> 'k \<Rightarrow> 'k \<times> artifact_publication_result outcome) \<Rightarrow>
     ('c \<Rightarrow> 'c \<times> int) \<Rightarrow> queue_worker_options \<Rightarrow> 'd \<times> 'k \<times> 'c \<Rightarrow>
     ('d \<times> 'k \<times> 'c) \<times> (artifact_success, artifact_failure) queue_worker_report outcome" where
  "processArtifactQueueOnce P store publisher =
     process_queue store (publish_work_item P publisher)"

text \<open>The rows keep what a completed publication reports.\<close>

record artifact_work =
  aw_input :: artifact_publication_input
  aw_published :: "(string \<times> string \<times> string) option"

type_synonym artifact_table = "artifact_work work_row list"

definition claimArtifactPublicationWorkItems ::
  "queue_claim_input \<Rightarrow> (artifact_table, artifact_publication_input queue_record list) call" where
  "claimArtifactPublicationWorkItems input rows =
     (let (rows', claimed) = claim_rows None (qc_worker_id input) (qc_claimed_at input)
            (qc_claim_expires_at input) (qc_batch_size input) rows
      in (rows', Inr (map (\<lambda>r. \<lparr>qr_work_item_id = wr_id r, qr_work = aw_input (wr_payload r)\<rparr>) claimed)))"

definition published_row :: "artifact_success \<Rightarrow> int \<Rightarrow> artifact_work work_row \<Rightarrow> artifact_work work_row" where
  "published_row s completedAt r =
     (done_row completedAt r)\<lparr>wr_payload := (wr_payload r)
        \<lparr>aw_published := Some (as_artifact_id s, as_artifact_hash s, as_event_id s)\<rparr>\<rparr>"

definition markArtifactPublicationWorkItemsCompleted :: "artifact_success list \<Rightarrow> int \<Rightarrow> (artifact_table, nat) call" where
  "markArtifactPublicationWorkItemsCompleted successes completedAt rows =
     (if length successes = 0 then (rows, Inr 0)
      else (map (\<lambda>r. case find (\<lambda>s. as_work_item_id s = wr_id r) successes of
                       None \<Rightarrow> r | Some s \<Rightarrow> published_row s completedAt r) rows,
            Inr (length successes)))"

definition markArtifactPublicationWorkItemsFailed :: "artifact_failure list \<Rightarrow> int \<Rightarrow> (artifact_table, nat) call" where
  "markArtifactPublicationWorkItemsFailed failures failedAt rows =
     (if length failures = 0 then (rows, Inr 0)
      else (mark_failed (map (\<lambda>f. (af_work_item_id f, af_reason f)) failures) rows, Inr (length failures)))"

definition makePostgresArtifactPublicationQueueStore ::
  "(artifact_table, artifact_publication_input, artifact_success, artifact_failure) queue_store" where
  "makePostgresArtifactPublicationQueueStore =
     \<lparr>qs_claim_pending = claimArtifactPublicationWorkItems,
      qs_mark_completed = markArtifactPublicationWorkItemsCompleted,
      qs_mark_failed = markArtifactPublicationWorkItemsFailed\<rparr>"


subsection \<open>The read model\<close>

record 'r read_model_success =
  ms_work_item_id :: string
  ms_cache_entry_id :: string
  ms_report :: "'r read_model_report"

record read_model_failure =
  mf_work_item_id :: string
  mf_reason :: string

text \<open>The optional authorizer runs before the worker; its state is untouched.\<close>

definition read_model_step ::
  "(read_model_work_item \<Rightarrow> authorization_report outcome) option \<Rightarrow>
     (read_model_work_item \<Rightarrow> 'k \<Rightarrow> 'k \<times> 'r read_model_report outcome) \<Rightarrow>
     read_model_work_item queue_record \<Rightarrow> 'k \<Rightarrow> 'k \<times> (defect + (read_model_failure + 'r read_model_success))" where
  "read_model_step authorizer process record' k =
     (let failure = (\<lambda>e. \<lparr>mf_work_item_id = qr_work_item_id record', mf_reason = failureReason (Typed e)\<rparr>)
      in case (case authorizer of None \<Rightarrow> Done () | Some check \<Rightarrow> then_do (check (qr_work record')) (\<lambda>_. Done ())) of
           Failed e \<Rightarrow> (k, Inr (Inl (failure e)))
         | Died d \<Rightarrow> (k, Inl d)
         | Done _ \<Rightarrow>
             (case process (qr_work record') k of
                (k', Failed e) \<Rightarrow> (k', Inr (Inl (failure e)))
              | (k', Died d) \<Rightarrow> (k', Inl d)
              | (k', Done report) \<Rightarrow>
                  (k', Inr (Inr \<lparr>ms_work_item_id = qr_work_item_id record',
                                ms_cache_entry_id = rmr_cache_entry_id report, ms_report = report\<rparr>))))"

definition processReadModelQueueOnce ::
  "('d, read_model_work_item, 'r read_model_success, read_model_failure) queue_store \<Rightarrow>
     (read_model_work_item \<Rightarrow> authorization_report outcome) option \<Rightarrow>
     (read_model_work_item \<Rightarrow> 'k \<Rightarrow> 'k \<times> 'r read_model_report outcome) \<Rightarrow>
     ('c \<Rightarrow> 'c \<times> int) \<Rightarrow> queue_worker_options \<Rightarrow> 'd \<times> 'k \<times> 'c \<Rightarrow>
     ('d \<times> 'k \<times> 'c) \<times> ('r read_model_success, read_model_failure) queue_worker_report outcome" where
  "processReadModelQueueOnce store authorizer process = process_queue store (read_model_step authorizer process)"

type_synonym read_model_table = "read_model_work_item work_row list"

definition claimVerifierCacheWorkItems ::
  "queue_claim_input \<Rightarrow> (read_model_table, read_model_work_item queue_record list) call" where
  "claimVerifierCacheWorkItems input rows =
     (let (rows', claimed) = claim_rows None (qc_worker_id input) (qc_claimed_at input)
            (qc_claim_expires_at input) (qc_batch_size input) rows
      in (rows', Inr (map (\<lambda>r. \<lparr>qr_work_item_id = wr_id r, qr_work = wr_payload r\<rparr>) claimed)))"

definition markVerifierCacheWorkItemsCompleted :: "'r read_model_success list \<Rightarrow> int \<Rightarrow> (read_model_table, nat) call" where
  "markVerifierCacheWorkItemsCompleted successes completedAt rows =
     (if length successes = 0 then (rows, Inr 0)
      else (mark_done (map ms_work_item_id successes) completedAt rows, Inr (length successes)))"

definition markVerifierCacheWorkItemsFailed :: "read_model_failure list \<Rightarrow> int \<Rightarrow> (read_model_table, nat) call" where
  "markVerifierCacheWorkItemsFailed failures failedAt rows =
     (if length failures = 0 then (rows, Inr 0)
      else (mark_failed (map (\<lambda>f. (mf_work_item_id f, mf_reason f)) failures) rows, Inr (length failures)))"

definition makePostgresVerifierCacheReadModelQueueStore ::
  "(read_model_table, read_model_work_item, 'r read_model_success, read_model_failure) queue_store" where
  "makePostgresVerifierCacheReadModelQueueStore =
     \<lparr>qs_claim_pending = claimVerifierCacheWorkItems, qs_mark_completed = markVerifierCacheWorkItemsCompleted,
      qs_mark_failed = markVerifierCacheWorkItemsFailed\<rparr>"

text \<open>The probes of a row, a jsonb value; \<open>parse\<close> is \<^verbatim>\<open>JSON.parse\<close>, \<open>None\<close> where it throws.\<close>

definition probe_of_json :: "jsval \<Rightarrow> string + scanner_probe" where
  "probe_of_json probe =
     (if \<not> is_record probe then Inl ''scanner_probes entries must be objects.''
      else
        (let payload = get_prop probe ''payload''; issuerHintHost = get_prop probe ''issuer_hint_host''
         in if \<not> is_str payload \<or> str_of payload = [] then Inl ''scanner_probes entries must include payload.''
            else if issuerHintHost \<noteq> JUndefined \<and> \<not> is_str issuerHintHost then
              Inl ''scanner_probes issuer_hint_host must be a string.''
            else Inr \<lparr>sp_payload = str_of payload,
                      sp_issuer_hint_host = keep_truthy (str_opt issuerHintHost)\<rparr>))"

definition scannerProbesValue :: "(string \<Rightarrow> jsval option) \<Rightarrow> jsval \<Rightarrow> string + scanner_probe list" where
  "scannerProbesValue parse value =
     (case (case value of JStr s \<Rightarrow> parse s | _ \<Rightarrow> Some value) of
        None \<Rightarrow> Inl ''SyntaxError''
      | Some (JArr probes) \<Rightarrow> map_result probe_of_json probes
      | Some _ \<Rightarrow> Inr [])"


subsection \<open>The supervisors\<close>

record ('s, 'f) queue_supervisor_report =
  qsr_worker_id :: string
  qsr_started_at :: string
  qsr_stopped_at :: string
  qsr_stop_reason :: stop_reason
  qsr_iterations :: nat
  qsr_claimed :: nat
  qsr_attempted :: nat
  qsr_completed :: nat
  qsr_failed :: nat
  qsr_marked_completed :: nat
  qsr_marked_failed :: nat
  qsr_idle_iterations :: nat
  qsr_last_worker_report :: "('s, 'f) queue_worker_report option"
  qsr_iteration_reports :: "(('s, 'f) queue_worker_report, unit) supervisor_iteration list"

definition build_queue_supervisor_report ::
  "platform \<Rightarrow> string \<Rightarrow> int \<Rightarrow> int \<Rightarrow> stop_reason \<Rightarrow> nat \<Rightarrow>
     (('s, 'f) queue_worker_report, unit) supervisor_iteration list \<Rightarrow> ('s, 'f) queue_supervisor_report" where
  "build_queue_supervisor_report P workerId startedAt stoppedAt reason idle iterations =
     \<lparr>qsr_worker_id = workerId, qsr_started_at = iso_string P startedAt,
      qsr_stopped_at = iso_string P stoppedAt, qsr_stop_reason = reason,
      qsr_iterations = length iterations,
      qsr_claimed = sumWorkerReports iterations qw_claimed,
      qsr_attempted = sumWorkerReports iterations qw_attempted,
      qsr_completed = sumWorkerReports iterations qw_completed,
      qsr_failed = sumWorkerReports iterations qw_failed,
      qsr_marked_completed = sumWorkerReports iterations qw_marked_completed,
      qsr_marked_failed = sumWorkerReports iterations qw_marked_failed,
      qsr_idle_iterations = idle,
      qsr_last_worker_report = map_option si_worker_report (last_option iterations),
      qsr_iteration_reports = iterations\<rparr>"

definition queue_pass ::
  "('s \<Rightarrow> 's \<times> ('a, 'f) queue_worker_report outcome) \<Rightarrow> 's \<Rightarrow>
     's \<times> (('a, 'f) queue_worker_report \<times> unit) outcome" where
  "queue_pass process s =
     (case process s of
        (s', Done report) \<Rightarrow> (s', Done (report, ()))
      | (s', Failed e) \<Rightarrow> (s', Failed e)
      | (s', Died d) \<Rightarrow> (s', Died d))"

text \<open>
  The loop of the artifact queue ends as the outbox does, with the shutdown signal overriding the
  reason; that of the read model keeps the reason of its loop.
\<close>

definition run_queue_supervisor ::
  "platform \<Rightarrow> string \<Rightarrow> ('s \<Rightarrow> 's \<times> int) \<Rightarrow>
     ('s \<Rightarrow> ('s \<times> (stop_reason \<times> nat \<times> (('a, 'f) queue_worker_report, unit) supervisor_iteration list) outcome) option) \<Rightarrow>
     's \<Rightarrow> ('s \<times> ('a, 'f) queue_supervisor_report outcome) option" where
  "run_queue_supervisor P workerId now loop s =
     (let (s0, startedAt) = now s
      in case loop s0 of
           None \<Rightarrow> None
         | Some (s1, Failed e) \<Rightarrow> Some (s1, Failed e)
         | Some (s1, Died d) \<Rightarrow> Some (s1, Died d)
         | Some (s1, Done (reason, idle, iterations)) \<Rightarrow>
             (let (s2, stoppedAt) = now s1
              in Some (s2, Done (build_queue_supervisor_report P workerId startedAt stoppedAt reason idle iterations))))"

definition runArtifactQueueSupervisor ::
  "platform \<Rightarrow> string \<Rightarrow> ('s \<Rightarrow> 's \<times> (artifact_success, artifact_failure) queue_worker_report outcome) \<Rightarrow>
     ('s \<Rightarrow> 's \<times> int) \<Rightarrow> ('s \<Rightarrow> bool) \<Rightarrow> (int \<Rightarrow> 's \<Rightarrow> 's) \<Rightarrow> supervisor_options \<Rightarrow> 's \<Rightarrow>
     ('s \<times> (artifact_success, artifact_failure) queue_supervisor_report outcome) option" where
  "runArtifactQueueSupervisor P workerId process now aborted sleep opts =
     run_queue_supervisor P workerId now (supervise (queue_pass process) qw_claimed aborted sleep opts)"

definition runReadModelQueueSupervisor ::
  "platform \<Rightarrow> string \<Rightarrow> ('s \<Rightarrow> 's \<times> ('r read_model_success, read_model_failure) queue_worker_report outcome) \<Rightarrow>
     ('s \<Rightarrow> 's \<times> int) \<Rightarrow> ('s \<Rightarrow> bool) \<Rightarrow> (int \<Rightarrow> 's \<Rightarrow> 's) \<Rightarrow> supervisor_options \<Rightarrow> 's \<Rightarrow>
     ('s \<times> ('r read_model_success, read_model_failure) queue_supervisor_report outcome) option" where
  "runReadModelQueueSupervisor P workerId process now aborted sleep opts =
     run_queue_supervisor P workerId now (supervise_loop (queue_pass process) qw_claimed aborted sleep opts [] 0)"

end
