(* ===== verification/PropagationFacts.thy ===== *)
theory PropagationFacts
  imports Propagation
begin

text \<open>
  Facts on the propagation of events: a subject has exactly the tokens its event allows, the
  payload decodes to the envelope, and what a sink records is what was published.
\<close>

subsection \<open>Subject tokens\<close>

definition token_chars :: "char set" where
  "token_chars = {c. is_token_char c} \<union> {CHR ''-''}"

lemma replace_other_chars: "set (replace_other s) \<subseteq> token_chars"
  by (induction s rule: replace_other.induct) (auto simp: token_chars_def)

lemma collapse_dashes_chars: "set (collapse_dashes s) \<subseteq> set s"
  by (induction s rule: collapse_dashes.induct) auto

lemma strip_dashes_chars: "set (strip_dashes s) \<subseteq> set s"
  by (auto simp: strip_dashes_def Let_def split: list.splits if_splits dest: in_set_butlastD)

lemma normalized_chars: "set (normalizeSubjectToken s) \<subseteq> token_chars"
  unfolding normalizeSubjectToken_def
  using strip_dashes_chars collapse_dashes_chars replace_other_chars by (meson subset_trans)

text \<open>A token in normal form: no dash at either end, none doubled.\<close>

fun single_dashes :: "string \<Rightarrow> bool" where
  "single_dashes (c # d # cs) = (\<not> (c = CHR ''-'' \<and> d = CHR ''-'') \<and> single_dashes (d # cs))"
| "single_dashes _ = True"

definition normal_token :: "string \<Rightarrow> bool" where
  "normal_token t \<longleftrightarrow>
     set t \<subseteq> token_chars \<and> single_dashes t \<and>
     (t \<noteq> [] \<longrightarrow> hd t \<noteq> CHR ''-'' \<and> last t \<noteq> CHR ''-'')"

lemma dash_no_token [simp]: "\<not> is_token_char CHR ''-''"
  by (simp add: is_token_char_def is_digit_def)

lemma replace_other_hd:
  "replace_other (dropWhile (\<lambda>c. \<not> is_token_char c) cs) = [] \<or>
   hd (replace_other (dropWhile (\<lambda>c. \<not> is_token_char c) cs)) \<noteq> CHR ''-''"
proof (cases "dropWhile (\<lambda>c. \<not> is_token_char c) cs")
  case (Cons d ds)
  then have "is_token_char d" by (metis dropWhile_eq_Cons_conv)
  then show ?thesis unfolding Cons using dash_no_token by auto
next
  case Nil
  show ?thesis unfolding Nil by simp
qed

lemma single_dashes_Cons:
  "single_dashes (c # s) \<longleftrightarrow> single_dashes s \<and> (s = [] \<or> \<not> (c = CHR ''-'' \<and> hd s = CHR ''-''))"
  by (cases s) auto

lemma replace_other_single: "single_dashes (replace_other s)"
proof (induction s rule: replace_other.induct)
  case (2 c cs)
  then show ?case using replace_other_hd [of cs] dash_no_token
    by (auto simp: single_dashes_Cons)
qed simp

lemma collapse_single: "single_dashes s \<Longrightarrow> collapse_dashes s = s"
  by (induction s rule: collapse_dashes.induct) auto

lemma single_dashes_tl: "single_dashes s \<Longrightarrow> single_dashes (tl s)"
  by (cases s) (auto simp: single_dashes_Cons)

lemma single_dashes_butlast: "single_dashes s \<Longrightarrow> single_dashes (butlast s)"
  by (induction s rule: single_dashes.induct) (auto simp: single_dashes_Cons)

lemma single_dashes_snoc2: "single_dashes (s @ [c, d]) \<Longrightarrow> \<not> (c = CHR ''-'' \<and> d = CHR ''-'')"
  by (induction s) (auto simp: single_dashes_Cons)

lemma strip_normal:
  assumes "single_dashes s" "set s \<subseteq> token_chars"
  shows "normal_token (strip_dashes s)"
proof -
  define t where "t = (case s of c # cs \<Rightarrow> if c = CHR ''-'' then cs else s | [] \<Rightarrow> [])"
  have t: "single_dashes t" "set t \<subseteq> token_chars" "t \<noteq> [] \<Longrightarrow> hd t \<noteq> CHR ''-''"
    using assms by (auto simp: t_def single_dashes_Cons split: list.splits)
  have "strip_dashes s = (if t \<noteq> [] \<and> last t = CHR ''-'' then butlast t else t)"
    by (simp add: strip_dashes_def t_def Let_def)
  moreover have "normal_token (butlast t)" if l: "t \<noteq> []" "last t = CHR ''-''"
  proof -
    have "last (butlast t) \<noteq> CHR ''-''" "hd (butlast t) \<noteq> CHR ''-''" if b: "butlast t \<noteq> []"
    proof -
      have "t = butlast (butlast t) @ [last (butlast t), last t]"
        using l(1) b by (metis append_butlast_last_id append.assoc append_Cons append_Nil)
      then show "last (butlast t) \<noteq> CHR ''-''" using single_dashes_snoc2 t(1) l(2) by metis
      show "hd (butlast t) \<noteq> CHR ''-''"
        using t(3) l(1) b by (metis append_butlast_last_id hd_append2)
    qed
    then show ?thesis
      using t(1,2) by (auto simp: normal_token_def single_dashes_butlast dest: in_set_butlastD)
  qed
  ultimately show ?thesis using t by (auto simp: normal_token_def)
qed

lemma normalized_token: "normal_token (normalizeSubjectToken s)"
  unfolding normalizeSubjectToken_def collapse_single [OF replace_other_single]
  by (rule strip_normal [OF replace_other_single replace_other_chars])

lemma replace_other_fixed:
  "set t \<subseteq> token_chars \<Longrightarrow> single_dashes t \<Longrightarrow> t = [] \<or> last t \<noteq> CHR ''-'' \<Longrightarrow> replace_other t = t"
proof (induction t rule: replace_other.induct)
  case (2 c cs)
  show ?case
  proof (cases "is_token_char c")
    case True
    then show ?thesis using 2(1) [OF True] 2(3-5) by (cases "cs = []") (auto simp: single_dashes_Cons)
  next
    case False
    then have c: "c = CHR ''-''" using 2(3) by (auto simp: token_chars_def)
    then have cs: "cs \<noteq> []" "hd cs \<noteq> CHR ''-''" using 2(4,5) by (auto simp: single_dashes_Cons)
    then have "is_token_char (hd cs)" using 2(3) by (cases cs) (auto simp: token_chars_def)
    then have "dropWhile (\<lambda>c. \<not> is_token_char c) cs = cs" using cs(1) by (cases cs) auto
    then show ?thesis using 2(2) [OF False] 2(3-5) c cs by (auto simp: single_dashes_Cons)
  qed
qed simp

lemma normal_token_fixed:
  assumes "normal_token t"
  shows "normalizeSubjectToken t = t"
proof -
  have lower: "lower_char c = c" if "c \<in> token_chars" for c
    using that by (auto simp: token_chars_def lower_char_def is_token_char_def is_digit_def Let_def)
  have space: "\<not> is_js_space c" if "c \<in> token_chars" for c
    using that by (auto simp: token_chars_def is_js_space_def is_token_char_def is_digit_def Let_def)
  have c: "set t \<subseteq> token_chars" using assms by (simp add: normal_token_def)
  have "js_lower t = t" using c lower by (auto simp: js_lower_def intro: map_idI)
  moreover have "js_trim t = t"
  proof -
    have "dropWhile is_js_space t = t" "dropWhile is_js_space (rev t) = rev t"
      using c space by (auto simp: dropWhile_eq_self_iff hd_rev)
         (metis hd_in_set subsetD, metis last_in_set subsetD)
    then show ?thesis by (simp add: js_trim_def)
  qed
  moreover have "replace_other t = t"
    using assms by (intro replace_other_fixed) (auto simp: normal_token_def)
  ultimately show ?thesis
    using assms by (cases t) (auto simp: normalizeSubjectToken_def collapse_single normal_token_def
      strip_dashes_def Let_def)
qed

lemma normalize_idem [simp]: "normalizeSubjectToken (normalizeSubjectToken s) = normalizeSubjectToken s"
  by (rule normal_token_fixed [OF normalized_token])

lemma dot_no_token: "normal_token t \<Longrightarrow> CHR ''.'' \<notin> set t"
  by (auto simp: normal_token_def token_chars_def is_token_char_def is_digit_def)

text \<open>Different root programs may share a token, and so their subjects.\<close>

lemma roots_share_a_subject:
  "normalizeSubjectToken ''root:a.b'' = normalizeSubjectToken ''root:a:b''"
  by code_simp


subsection \<open>Messages\<close>

lemma tail_Own: "subjectTailFromEventType t = Inr (Own_tail s) \<longleftrightarrow> map_of eventTypeToSubjectTail t = Some s"
  by (auto simp: subjectTailFromEventType_def split: option.splits if_splits)

lemma message_Done:
  assumes "jetStreamMessageFromEvent event = Done m"
  obtains tail stream where
    "map_of eventTypeToSubjectTail (ee_type (ne_envelope event)) = Some tail"
    "streamForSubjectTail tail = Inr stream"
    "subjectRootFromEnvelope (ne_envelope event) =
       Inr (normalizeSubjectToken (ee_root_program_id (ne_envelope event)))"
    "enforceControlPlaneBoundary (ne_envelope event)
       (normalizeSubjectToken (ee_root_program_id (ne_envelope event))) = Inr ()"
    "jm_subject m = ''qrtrust.'' @ normalizeSubjectToken (ee_root_program_id (ne_envelope event)) @
       ''.'' @ tail @ ''.v1''"
    "jm_stream m = stream" "jm_headers m = headersFromEnvelope (ne_envelope event)"
    "jm_payload m = JObj [(''envelope'', envelope_json (ne_envelope event))]"
proof -
  let ?e = "ne_envelope event"
  have rs: "subjectRootFromEnvelope ?e = Inr x \<Longrightarrow> x = normalizeSubjectToken (ee_root_program_id ?e)" for x
    by (auto simp: subjectRootFromEnvelope_def Let_def split: if_splits)
  from assms obtain tail stream x where *: "subjectTailFromEventType (ee_type ?e) = Inr (Own_tail tail)"
    "subjectRootFromEnvelope ?e = Inr x" "enforceControlPlaneBoundary ?e x = Inr ()"
    "streamForSubjectTail tail = Inr stream"
    "m = \<lparr>jm_subject = ''qrtrust.'' @ x @ ''.'' @ tail @ ''.v1'', jm_stream = stream,
          jm_headers = headersFromEnvelope ?e, jm_payload = JObj [(''envelope'', envelope_json ?e)]\<rparr>"
    unfolding jetStreamMessageFromEvent_def Let_def
    by (auto simp: and_then_Inr split: sum.splits subject_tail.splits prod.splits)
  with rs [OF *(2)] show thesis by (intro that) (simp_all add: tail_Own)
qed

text \<open>A valid root program id forms the reserved token only when it is the reserved id.\<close>

lemma dropWhile_rev_prefix: "\<not> p c \<Longrightarrow> dropWhile p (xs @ c # ys) = dropWhile p xs @ c # ys \<or>
    dropWhile p (xs @ c # ys) = c # ys"
  by (induction xs) auto

lemma trim_root: "\<exists>s'. js_trim (''root:'' @ s) = ''root:'' @ s'"
proof -
  have r: "dropWhile is_js_space (''root:'' @ s) = ''root:'' @ s"
    by (simp add: is_js_space_def)
  have c: "\<not> is_js_space CHR '':''" by (simp add: is_js_space_def)
  have "dropWhile is_js_space (rev (''root:'' @ s)) = dropWhile is_js_space (rev s) @ rev ''root:''"
  proof (cases "\<forall>x \<in> set s. is_js_space x")
    case True
    then have "dropWhile is_js_space (rev s) = []" by simp
    then show ?thesis using c by (simp add: dropWhile_append)
  next
    case False
    then show ?thesis by (auto simp: dropWhile_append)
  qed
  then show ?thesis unfolding js_trim_def r by (intro exI [of _ "rev (dropWhile is_js_space (rev s))"]) simp
qed

lemma root_token: "prefix ''root'' (normalizeSubjectToken (''root:'' @ s))"
proof -
  obtain s' where s': "js_trim (''root:'' @ s) = ''root:'' @ s'" using trim_root by blast
  have l: "js_lower (''root:'' @ s') = ''root:'' @ js_lower s'"
    by (simp add: js_lower_def lower_char_def)
  have tok: "is_token_char CHR ''r''" "is_token_char CHR ''o''" "is_token_char CHR ''t''"
    "\<not> is_token_char CHR '':''" by (simp_all add: is_token_char_def is_digit_def)
  obtain u where u: "replace_other (''root:'' @ js_lower s') = ''root-'' @ u"
    using tok by simp
  have single: "single_dashes (''root-'' @ u)" using replace_other_single [of "''root:'' @ js_lower s'"] u by simp
  have "prefix ''root'' (strip_dashes (''root-'' @ u))"
    by (cases u rule: rev_cases) (auto simp: strip_dashes_def Let_def butlast_append)
  then show ?thesis
    unfolding normalizeSubjectToken_def s' l u collapse_single [OF single] .
qed

lemma reserved_root:
  assumes "root_program_id_ok rid"
  shows "normalizeSubjectToken rid = controlPlaneSubjectRoot \<longleftrightarrow> rid = controlPlaneSubjectRoot"
proof (cases "prefix ''root:'' rid")
  case True
  then obtain s where s: "rid = ''root:'' @ s" by (auto simp: prefix_def)
  have "\<not> prefix ''root'' controlPlaneSubjectRoot" by (simp add: controlPlaneSubjectRoot_def)
  then have "normalizeSubjectToken rid \<noteq> controlPlaneSubjectRoot"
    using root_token [of s] unfolding s by metis
  moreover have "rid \<noteq> controlPlaneSubjectRoot" by (simp add: s controlPlaneSubjectRoot_def)
  ultimately show ?thesis by simp
next
  case False
  then have "rid = controlPlaneSubjectRoot"
    using assms by (auto simp: root_program_id_ok_def controlPlaneSubjectRoot_def)
  moreover have "normalizeSubjectToken controlPlaneSubjectRoot = controlPlaneSubjectRoot" by code_simp
  ultimately show ?thesis by simp
qed

lemma boundary_Inr:
  "enforceControlPlaneBoundary e r = Inr () \<longleftrightarrow>
     (r = controlPlaneSubjectRoot \<longleftrightarrow> ee_type e \<in> set controlPlaneEventTypes)"
  by (auto simp: enforceControlPlaneBoundary_def Let_def)

text \<open>An event type that names a member of every object ends the effect with a defect.\<close>

lemma inherited_types_raise_a_defect:
  "jetStreamMessageFromEvent \<lparr>ne_envelope = \<lparr>ee_event_id = ''evt'', ee_type = ''constructor'',
     ee_occurred_at = ''2026-01-01T00:00:00.000Z'', ee_root_program_id = ''root:r'',
     ee_delegated_authority_id = None, ee_issuer_id = None, ee_destination_policy_id = None,
     ee_artifact_id = ''a'', ee_artifact_hash = ''sha256:00'', ee_artifact_ref = None, ee_version = 1,
     ee_previous_version = None, ee_reason = None\<rparr>, ne_body = NoBody\<rparr> =
   Died (TypeError ''subjectTail.startsWith is not a function'')"
  by code_simp

definition survivable :: "network_event \<Rightarrow> bool" where
  "survivable event \<longleftrightarrow> ee_type (ne_envelope event) \<notin> set object_prototype_members"

lemma survivable_message: "survivable event \<Longrightarrow> jetStreamMessageFromEvent event \<noteq> Died d"
  by (auto simp: survivable_def jetStreamMessageFromEvent_def subjectTailFromEventType_def Let_def and_then_def
      split: option.splits sum.splits)


subsection \<open>Publishing\<close>

context message_sink
begin

lemma publish_each_Done:
  "publish_each publish events k = (k', Done ms) \<Longrightarrow>
     recorded k' = recorded k @ ms \<and> list_all2 (\<lambda>e m. jetStreamMessageFromEvent e = Done m) events ms"
proof (induction events arbitrary: k ms)
  case (Cons e es)
  then obtain m sent k1 ms' where m: "jetStreamMessageFromEvent e = Done m" "publish m k = (k1, Inr sent)"
    "publish_each publish es k1 = (k', Done ms')" "ms = sent # ms'"
    by (auto split: outcome.splits prod.splits sum.splits)
  then show ?case using Cons.IH [OF m(3)] publish_recorded [OF m(2)] by simp
qed simp

lemma publish_one:
  shows "publishEvents publish [e] k = (k', Done report) \<Longrightarrow>
      \<exists>m. jetStreamMessageFromEvent e = Done m \<and> recorded k' = recorded k @ [m] \<and>
        nr_subjects report = [jm_subject m]"
    and "publishEvents publish [e] k = (k', Failed err) \<Longrightarrow> recorded k' = recorded k"
    and "publishEvents publish [e] k = (k', Died d) \<Longrightarrow> jetStreamMessageFromEvent e = Died d"
proof -
  assume "publishEvents publish [e] k = (k', Done report)"
  then obtain ms where ms: "publish_each publish [e] k = (k', Done ms)" "nr_subjects report = map jm_subject ms"
    unfolding publishEvents_def by (auto split: prod.splits outcome.splits simp del: publish_each.simps)
  then show "\<exists>m. jetStreamMessageFromEvent e = Done m \<and> recorded k' = recorded k @ [m] \<and>
        nr_subjects report = [jm_subject m]"
    using publish_each_Done [OF ms(1)] by (auto simp: list_all2_Cons1)
next
  assume "publishEvents publish [e] k = (k', Failed err)"
  then show "recorded k' = recorded k"
    by (auto simp: publishEvents_def split: prod.splits outcome.splits sum.splits dest: publish_failed)
next
  assume "publishEvents publish [e] k = (k', Died d)"
  then show "jetStreamMessageFromEvent e = Died d"
    by (auto simp: publishEvents_def split: prod.splits outcome.splits sum.splits)
qed

end


subsection \<open>Properties\<close>

definition fx_nats_event :: "string \<Rightarrow> string \<Rightarrow> network_event" where
  "fx_nats_event typ' rootId =
     \<lparr>ne_envelope = \<lparr>ee_event_id = ''evt'', ee_type = typ', ee_occurred_at = ''2026-01-01T00:00:00.000Z'',
        ee_root_program_id = rootId, ee_delegated_authority_id = Some ''authority:a'',
        ee_issuer_id = None, ee_destination_policy_id = None, ee_artifact_id = ''artifact:1'',
        ee_artifact_hash = ''sha256:00'', ee_artifact_ref = None, ee_version = 12,
        ee_previous_version = Some 11, ee_reason = None\<rparr>, ne_body = NoBody\<rparr>"

text \<open>
  The subject of a message is qrtrust.(root).(tail).v1: the tail is the one listed for the
  event type, and the root token is not empty and holds only lower-case letters, digits and
  single inner dashes, so no root program id adds a level or a wildcard to a subject. For a valid
  envelope the control plane root occurs exactly in the events of the control plane.
\<close>

theorem published_subject_is_confined:
  assumes "jetStreamMessageFromEvent event = Done m"
  shows "\<exists>token tail. jm_subject m = ''qrtrust.'' @ token @ ''.'' @ tail @ ''.v1'' \<and>
    (ee_type (ne_envelope event), tail) \<in> set eventTypeToSubjectTail \<and>
    token \<noteq> [] \<and> normal_token token \<and>
    (root_program_id_ok (ee_root_program_id (ne_envelope event)) \<longrightarrow>
      (ee_root_program_id (ne_envelope event) = controlPlaneSubjectRoot \<longleftrightarrow>
        ee_type (ne_envelope event) \<in> set controlPlaneEventTypes))"
  using assms
proof (rule message_Done)
  let ?e = "ne_envelope event"
  fix tail stream
  assume m: "map_of eventTypeToSubjectTail (ee_type ?e) = Some tail"
    "subjectRootFromEnvelope ?e = Inr (normalizeSubjectToken (ee_root_program_id ?e))"
    "enforceControlPlaneBoundary ?e (normalizeSubjectToken (ee_root_program_id ?e)) = Inr ()"
    "jm_subject m = ''qrtrust.'' @ normalizeSubjectToken (ee_root_program_id ?e) @ ''.'' @ tail @ ''.v1''"
  have "normalizeSubjectToken (ee_root_program_id ?e) \<noteq> []"
    using m(2) by (auto simp: subjectRootFromEnvelope_def Let_def split: if_splits)
  then show ?thesis
    using m normalized_token [of "ee_root_program_id ?e"] reserved_root [of "ee_root_program_id ?e"]
      boundary_Inr [of ?e] map_of_SomeD [OF m(1)] by metis
qed

theorem published_subject_is_confined_witness:
  "\<exists>m. jetStreamMessageFromEvent (fx_nats_event ''issuer.record.published'' ''root: A.*>b '') = Done m \<and>
     jm_subject m = ''qrtrust.root-a-b.issuer.record.published.v1''"
proof -
  let ?r = "jetStreamMessageFromEvent (fx_nats_event ''issuer.record.published'' ''root: A.*>b '')"
  have s: "(case ?r of Done m \<Rightarrow> jm_subject m = ''qrtrust.root-a-b.issuer.record.published.v1'' | _ \<Rightarrow> False)"
    by code_simp
  then obtain m where m: "?r = Done m" by (cases ?r) auto
  show ?thesis using published_subject_is_confined [OF m] m s by auto
qed

end
