(* ===== verification/WorkQueueFacts.thy ===== *)
theory WorkQueueFacts
  imports WorkQueue
begin

text \<open>
  Facts on the work table and on the supervisor loop: how a claim and the marks change a table,
  the invariant of every history of statements, and when the loop ends.
\<close>

subsection \<open>Tables\<close>

lemma row_updates [simp]:
  "wr_id (claimed_row w now t r) = wr_id r" "wr_payload (claimed_row w now t r) = wr_payload r"
  "wr_created_at (claimed_row w now t r) = wr_created_at r"
  "wr_status (claimed_row w now t r) = Work_claimed" "wr_attempts (claimed_row w now t r) = wr_attempts r + 1"
  "wr_id (done_row at' r) = wr_id r" "wr_payload (done_row at' r) = wr_payload r"
  "wr_status (done_row at' r) = Work_done" "wr_attempts (done_row at' r) = wr_attempts r"
  "wr_id (failed_row reason r) = wr_id r" "wr_payload (failed_row reason r) = wr_payload r"
  "wr_status (failed_row reason r) = Work_failed" "wr_attempts (failed_row reason r) = wr_attempts r"
  by (simp_all add: claimed_row_def done_row_def failed_row_def)

lemma update_rows_ids: "(\<And>r. wr_id (f r) = wr_id r) \<Longrightarrow> map wr_id (update_rows ids f rows) = map wr_id rows"
  by (simp add: update_rows_def)

lemma set_update_rows: "r \<in> set (update_rows ids f rows) \<Longrightarrow> \<exists>r0 \<in> set rows. r = r0 \<or> r = f r0"
  by (auto simp: update_rows_def split: if_splits)

lemma next_rows_eligible:
  assumes "r \<in> set (next_rows retries now batch rows)"
  shows "r \<in> set rows" "row_eligible retries now r"
  using assms by (auto simp: next_rows_def DomainProof.set_sort_by dest!: in_set_takeD)

lemma next_rows_Nil:
  "next_rows retries now batch rows = [] \<longleftrightarrow> batch = 0 \<or> (\<forall>r \<in> set rows. \<not> row_eligible retries now r)"
proof -
  have "sort_by le xs = [] \<longleftrightarrow> xs = []" for le and xs :: "'a work_row list"
    using DomainProof.set_sort_by [of le xs] by (metis set_empty)
  then show ?thesis by (auto simp: next_rows_def filter_empty_conv)
qed

lemma distinct_next_rows: "distinct (map wr_id rows) \<Longrightarrow> distinct (map wr_id (next_rows retries now batch rows))"
proof -
  assume d: "distinct (map wr_id rows)"
  have "mset (sort_by created_before (filter p rows)) = mset (filter p rows)" for p
    by (rule mset_sort_by)
  then have "mset (map wr_id (sort_by created_before (filter p rows))) = mset (map wr_id (filter p rows))" for p
    by (simp add: mset_map)
  then have "distinct (map wr_id (sort_by created_before (filter p rows)))" for p
    using d by (metis distinct_map_filter mset_eq_imp_distinct_iff)
  then show ?thesis by (simp add: next_rows_def take_map [symmetric])
qed

text \<open>A claim gives the rows it returns to the worker, one more attempt each, and no other row.\<close>

lemma claimed_ids: "map wr_id (snd (claim_rows retries w now t batch rows)) =
    map wr_id (next_rows retries now batch rows)"
  by (simp add: claim_rows_def Let_def)

lemma claim_rows_rows:
  assumes "distinct (map wr_id rows)"
  shows "fst (claim_rows retries w now t batch rows) =
    map (\<lambda>r. if r \<in> set (next_rows retries now batch rows) then claimed_row w now t r else r) rows"
proof -
  have "wr_id r \<in> wr_id ` set (next_rows retries now batch rows) \<longleftrightarrow>
      r \<in> set (next_rows retries now batch rows)" if "r \<in> set rows" for r
  proof
    assume "wr_id r \<in> wr_id ` set (next_rows retries now batch rows)"
    then obtain r' where r': "r' \<in> set (next_rows retries now batch rows)" "wr_id r' = wr_id r" by auto
    then have "r' = r"
      using assms that next_rows_eligible(1) [OF r'(1)] by (auto simp: distinct_map dest: inj_onD)
    with r' show "r \<in> set (next_rows retries now batch rows)" by simp
  qed simp
  then show ?thesis unfolding claim_rows_def update_rows_def Let_def fst_conv
    by (intro map_cong) auto
qed

lemma ids_preserved [simp]:
  "map wr_id (fst (claim_rows retries w now t batch rows)) = map wr_id rows"
  "map wr_id (mark_done ids at' rows) = map wr_id rows"
  "map wr_id (mark_failed reasons rows) = map wr_id rows"
  by (simp_all add: claim_rows_def mark_done_def mark_failed_def Let_def update_rows_ids)
     (auto split: option.splits)


subsection \<open>Histories of statements\<close>

text \<open>
  Any number of workers act on a table, in any order: rows are enqueued, claimed with any bound,
  and marked. A mark names rows by id only.
\<close>

inductive queue_step :: "'p work_row list \<Rightarrow> 'p work_row list \<Rightarrow> bool" where
  enqueue: "wr_id r \<notin> wr_id ` set rows \<Longrightarrow> wr_status r = Work_pending \<Longrightarrow> wr_attempts r = 0 \<Longrightarrow>
      wr_claimed_by r = None \<Longrightarrow> wr_claim_expires_at r = None \<Longrightarrow> queue_step rows (rows @ [r])"
| claim: "queue_step rows (fst (claim_rows retries w now t batch rows))"
| finish: "queue_step rows (mark_done ids at' rows)"
| fail: "queue_step rows (mark_failed reasons rows)"

inductive_cases queue_stepE: "queue_step rows rows'"

definition row_wf :: "'p work_row \<Rightarrow> bool" where
  "row_wf r \<longleftrightarrow>
     (wr_status r = Work_claimed \<longleftrightarrow> wr_claimed_by r \<noteq> None) \<and>
     (wr_claimed_by r \<noteq> None \<longleftrightarrow> wr_claim_expires_at r \<noteq> None) \<and>
     (wr_status r = Work_claimed \<longrightarrow> wr_attempts r > 0)"

definition table_wf :: "'p work_row list \<Rightarrow> bool" where
  "table_wf rows \<longleftrightarrow> distinct (map wr_id rows) \<and> (\<forall>r \<in> set rows. row_wf r)"

lemma row_wf_updates [simp]:
  "row_wf (claimed_row w now t r)" "row_wf (done_row at' r)" "row_wf (failed_row reason r)"
  by (simp_all add: row_wf_def claimed_row_def done_row_def failed_row_def)

lemma queue_step_wf: "queue_step rows rows' \<Longrightarrow> table_wf rows \<Longrightarrow> table_wf rows'"
proof (induction rule: queue_step.induct)
  case (enqueue r rows)
  then show ?case by (auto simp: table_wf_def row_wf_def)
next
  case (claim rows retries w now t batch)
  then show ?case unfolding table_wf_def ids_preserved
    by (auto simp: claim_rows_def Let_def dest!: set_update_rows)
next
  case (finish rows ids at')
  then show ?case unfolding table_wf_def ids_preserved
    by (auto simp: mark_done_def dest!: set_update_rows)
next
  case (fail rows reasons)
  then show ?case unfolding table_wf_def ids_preserved
    by (auto simp: mark_failed_def split: option.splits)
qed

lemma table_wf_reachable: "queue_step\<^sup>*\<^sup>* [] rows \<Longrightarrow> table_wf rows"
  by (induction rule: rtranclp_induct) (auto simp: table_wf_def [where rows = "[]"] intro: queue_step_wf)


text \<open>A failed row whose attempts are used up is never claimed again, whatever else happens to it.\<close>

lemma exhausted_not_eligible:
  "wr_status r = Work_failed \<Longrightarrow> n \<le> int (wr_attempts r) \<Longrightarrow> \<not> row_eligible (Some n) now r"
  by (simp add: row_eligible_def)

lemma held_not_eligible:
  "wr_status r = Work_claimed \<Longrightarrow> wr_claim_expires_at r = Some t \<Longrightarrow> now < t \<Longrightarrow>
     \<not> row_eligible retries now r"
  by (simp add: row_eligible_def claim_expired_def)


text \<open>A claim takes the oldest eligible rows.\<close>

lemma sort_by_sorted:
  assumes "\<And>x y. le x y \<or> le y x" "\<And>x y z. le x y \<Longrightarrow> le y z \<Longrightarrow> le x z"
  shows "sorted_wrt le (sort_by le xs)"
proof -
  have "sorted_wrt le ys \<Longrightarrow> sorted_wrt le (insort_by le x ys)" for x ys
  proof (induction ys)
    case (Cons y ys)
    have "set (insort_by le x ys) = insert x (set ys)"
      using mset_insort_by [of le x ys] by (metis set_mset_add_mset_insert set_mset_mset)
    then show ?case using Cons assms by auto
  qed simp
  then show ?thesis unfolding sort_by_def by (induction xs) auto
qed

lemma js_le_linear: "js_le s t \<or> js_le t s"
  using js_less_total js_less_imp_le js_le_refl by metis

lemma created_before_total: "created_before r s \<or> created_before s r"
  using js_le_linear [of "wr_id r" "wr_id s"] by (auto simp: created_before_def)

lemma created_before_trans: "created_before r s \<Longrightarrow> created_before s u \<Longrightarrow> created_before r u"
  by (auto simp: created_before_def intro: js_le_trans)

lemma sorted_wrt_take: "sorted_wrt le xs \<Longrightarrow> x \<in> set (take n xs) \<Longrightarrow> y \<in> set (drop n xs) \<Longrightarrow> le x y"
  by (metis append_take_drop_id sorted_wrt_append)

lemma next_rows_oldest:
  assumes "r \<in> set (next_rows retries now batch rows)" "s \<in> set rows" "row_eligible retries now s"
    and "s \<notin> set (next_rows retries now batch rows)"
  shows "created_before r s"
proof -
  let ?xs = "sort_by created_before (filter (row_eligible retries now) rows)"
  have "s \<in> set ?xs" using assms(2,3) by simp
  have sorted: "sorted_wrt created_before ?xs"
    by (rule sort_by_sorted) (rule created_before_total, erule created_before_trans)
  from \<open>s \<in> set ?xs\<close> have "s \<in> set (drop batch ?xs)"
    using assms(4) unfolding next_rows_def by (metis Un_iff append_take_drop_id set_append)
  then show ?thesis
    using sorted_wrt_take [OF sorted] assms(1) unfolding next_rows_def by blast
qed

subsection \<open>What a finished loop reports\<close>

definition idle_suffix :: "('r \<Rightarrow> nat) \<Rightarrow> ('r, 'm) supervisor_iteration list \<Rightarrow> nat" where
  "idle_suffix claimed is = length (takeWhile (\<lambda>i. claimed (si_worker_report i) = 0) (rev is))"

definition loop_facts ::
  "('r \<Rightarrow> nat) \<Rightarrow> supervisor_options \<Rightarrow> ('r, 'm) supervisor_iteration list \<Rightarrow> nat \<Rightarrow> bool" where
  "loop_facts claimed opts is idle \<longleftrightarrow>
     idle = idle_suffix claimed is \<and>
     map si_iteration is = [1..<length is + 1] \<and>
     (\<forall>i \<in> set is. si_next_poll_delay_ms i = next_delay opts (claimed (si_worker_report i) = 0)) \<and>
     (\<forall>m. so_max_iterations opts = Some m \<longrightarrow> int (length is) \<le> max 0 m)"

lemma loop_facts_Nil: "loop_facts claimed opts [] 0"
  by (simp add: loop_facts_def idle_suffix_def)

lemma loop_facts_step:
  assumes "loop_facts claimed opts is idle" "below_max opts (length is)"
  shows "loop_facts claimed opts
    (is @ [\<lparr>si_iteration = length is + 1, si_worker_report = report, si_metrics = m,
            si_next_poll_delay_ms = next_delay opts (claimed report = 0)\<rparr>])
    (if claimed report = 0 then idle + 1 else 0)"
proof -
  have "map si_iteration is @ [length is + 1] = [1..<length is + 2]"
    using assms(1) by (simp add: loop_facts_def)
  then show ?thesis
    using assms by (auto simp: loop_facts_def idle_suffix_def below_max_def)
qed

definition stop_justified :: "supervisor_options \<Rightarrow> stop_reason \<Rightarrow> nat \<Rightarrow> nat \<Rightarrow> bool" where
  "stop_justified opts reason idle n \<longleftrightarrow>
     (reason = Stop_max_iterations \<longrightarrow> \<not> below_max opts n) \<and>
     (reason = Stop_idle_limit \<longrightarrow> idle_limit opts \<le> int idle)"

lemma supervise_loop_facts:
  assumes "supervise_loop body claimed aborted sleep opts is idle s = Some (s', Done (reason, idle', is'))"
    and "loop_facts claimed opts is idle"
  shows "loop_facts claimed opts is' idle' \<and> stop_justified opts reason idle' (length is')"
proof -
  let ?P = "\<lambda>(body :: 's \<Rightarrow> 's \<times> ('r \<times> 'm) outcome) claimed (aborted :: 's \<Rightarrow> bool) (sleep :: int \<Rightarrow> 's \<Rightarrow> 's)
      opts is idle (s :: 's) y.
      loop_facts claimed opts is idle \<longrightarrow>
        (case snd y of Done (reason, idle', is') \<Rightarrow>
           loop_facts claimed opts is' idle' \<and> stop_justified opts reason idle' (length is') | _ \<Rightarrow> True)"
  have "?P body claimed aborted sleep opts is idle s (s', Done (reason, idle', is'))"
  proof (rule supervise_loop.raw_induct [where P = ?P, OF _ assms(1)])
    fix f :: "('s \<Rightarrow> 's \<times> ('r \<times> 'm) outcome) \<Rightarrow> ('r \<Rightarrow> nat) \<Rightarrow> ('s \<Rightarrow> bool) \<Rightarrow> (int \<Rightarrow> 's \<Rightarrow> 's) \<Rightarrow>
        supervisor_options \<Rightarrow> ('r, 'm) supervisor_iteration list \<Rightarrow> nat \<Rightarrow> 's \<Rightarrow>
        ('s \<times> (stop_reason \<times> nat \<times> ('r, 'm) supervisor_iteration list) outcome) option"
    fix body :: "'s \<Rightarrow> 's \<times> ('r \<times> 'm) outcome" and claimed aborted sleep opts "is" idle s y
    assume IH: "\<And>body claimed aborted sleep opts is idle s y.
      f body claimed aborted sleep opts is idle s = Some y \<Longrightarrow> ?P body claimed aborted sleep opts is idle s y"
    assume eq: "(if \<not> below_max opts (length is) then Some (s, Done (Stop_max_iterations, idle, is))
      else if aborted s then Some (s, Done (Stop_shutdown_signal, idle, is))
      else case body s of
             (s', Failed e) \<Rightarrow> Some (s', Failed e)
           | (s', Died d) \<Rightarrow> Some (s', Died d)
           | (s', Done (report, metrics)) \<Rightarrow>
               (let idle' = (if claimed report = 0 then idle + 1 else 0);
                    delay = next_delay opts (claimed report = 0);
                    is' = is @ [\<lparr>si_iteration = length is + 1, si_worker_report = report,
                        si_metrics = metrics, si_next_poll_delay_ms = delay\<rparr>]
                in if int idle' \<ge> idle_limit opts then Some (s', Done (Stop_idle_limit, idle', is'))
                   else if \<not> below_max opts (length is') then
                     Some (s', Done (Stop_max_iterations, idle', is'))
                   else f body claimed aborted sleep opts is' idle' (sleep delay s'))) = Some y"
    show "?P body claimed aborted sleep opts is idle s y"
    proof
      assume lf: "loop_facts claimed opts is idle"
      show "case snd y of Done (reason, idle', is') \<Rightarrow>
           loop_facts claimed opts is' idle' \<and> stop_justified opts reason idle' (length is') | _ \<Rightarrow> True"
      proof (cases "below_max opts (length is) \<and> \<not> aborted s")
        case False
        then show ?thesis using eq lf by (auto simp: stop_justified_def split: if_splits)
      next
        case True
        then obtain s1 r where b: "body s = (s1, r)" by fastforce
        show ?thesis
        proof (cases r)
          case (Done rm)
          obtain report m where rm: "rm = (report, m)" by fastforce
          define i where "i = (if claimed report = 0 then idle + 1 else 0)"
          define js where "js = is @ [\<lparr>si_iteration = length is + 1, si_worker_report = report, si_metrics = m,
              si_next_poll_delay_ms = next_delay opts (claimed report = 0)\<rparr>]"
          have lf': "loop_facts claimed opts js i"
            unfolding js_def i_def by (rule loop_facts_step [OF lf conjunct1 [OF True]])
          have "(if idle_limit opts \<le> int i then Some (s1, Done (Stop_idle_limit, i, js))
              else if \<not> below_max opts (length js) then Some (s1, Done (Stop_max_iterations, i, js))
              else f body claimed aborted sleep opts js i (sleep (next_delay opts (claimed report = 0)) s1)) = Some y"
            using eq unfolding b Done rm i_def js_def Let_def
            by (simp only: conjunct1 [OF True] conjunct2 [OF True] not_True_eq_False if_False
                prod.case outcome.case)
          note out = this
          consider "idle_limit opts \<le> int i" | "\<not> idle_limit opts \<le> int i" "\<not> below_max opts (length js)"
            | "\<not> idle_limit opts \<le> int i" "below_max opts (length js)" by blast
          then show ?thesis
          proof cases
            case 1
            with out have "y = (s1, Done (Stop_idle_limit, i, js))" by simp
            then show ?thesis using 1 lf' by (simp add: stop_justified_def)
          next
            case 2
            with out have "y = (s1, Done (Stop_max_iterations, i, js))" by simp
            then show ?thesis using 2 lf' by (simp add: stop_justified_def)
          next
            case 3
            with out have "f body claimed aborted sleep opts js i (sleep (next_delay opts (claimed report = 0)) s1) = Some y"
              by simp
            from IH [OF this] lf' show ?thesis by simp
          qed
        qed (use eq True b in auto)
      qed
    qed
  qed
  then show ?thesis using assms(2) by simp
qed

lemma supervise_facts:
  assumes "supervise body claimed aborted sleep opts s = Some (s', Done (reason, idle, is))"
  shows "loop_facts claimed opts is idle"
    "reason = Stop_shutdown_signal \<or> \<not> aborted s' \<and> stop_justified opts reason idle (length is)"
proof -
  obtain reason' where l: "supervise_loop body claimed aborted sleep opts [] 0 s =
      Some (s', Done (reason', idle, is))" "reason = (if aborted s' then Stop_shutdown_signal else reason')"
    using assms by (auto simp: supervise_def split: option.splits prod.splits outcome.splits)
  show "loop_facts claimed opts is idle"
    "reason = Stop_shutdown_signal \<or> \<not> aborted s' \<and> stop_justified opts reason idle (length is)"
    using supervise_loop_facts [OF l(1) loop_facts_Nil] l(2) by auto
qed


subsection \<open>Termination\<close>

lemma supervise_loop_bounded:
  assumes "so_max_iterations opts = Some m"
  shows "supervise_loop body claimed aborted sleep opts is idle s \<noteq> None"
proof (induction "nat (m - int (length is))" arbitrary: "is" idle s rule: less_induct)
  case less
  show ?case
  proof (cases "below_max opts (length is)")
    case False
    then show ?thesis by (subst supervise_loop.simps) simp
  next
    case True
    then have "nat (m - int (length is + 1)) < nat (m - int (length is))"
      using assms by (simp add: below_max_def)
    then have "supervise_loop body claimed aborted sleep opts (is @ [i]) idle' s' \<noteq> None" for i idle' s'
      by (intro less) simp
    then show ?thesis
      by (subst supervise_loop.simps) (auto simp: Let_def split: prod.splits outcome.splits)
  qed
qed

text \<open>
  Without a bound on the iterations a loop ends when its worker makes progress: \<open>ok\<close> is kept by
  passes and pauses, and \<open>rank\<close> goes down with every pass that claims work.
\<close>

locale progressing_worker =
  fixes body :: "'s \<Rightarrow> 's \<times> ('r \<times> 'm) outcome" and claimed :: "'r \<Rightarrow> nat"
    and sleep :: "int \<Rightarrow> 's \<Rightarrow> 's" and ok :: "'s \<Rightarrow> bool" and rank :: "'s \<Rightarrow> nat"
  assumes pass: "ok s \<Longrightarrow> \<exists>s' report m. body s = (s', Done (report, m)) \<and> ok s' \<and>
      (if claimed report = 0 then rank s' \<le> rank s else rank s' < rank s)"
    and pause: "ok s \<Longrightarrow> ok (sleep ms s) \<and> rank (sleep ms s) \<le> rank s"
begin

text \<open>The state a pass without work leads to.\<close>

definition drained :: "'s \<Rightarrow> bool" where
  "drained s' \<longleftrightarrow> (\<exists>s report m. ok s \<and> body s = (s', Done (report, m)) \<and> claimed report = 0)"

lemma loop_drains:
  assumes "ok s" "int idle < idle_limit opts" "so_max_iterations opts = None"
  shows "\<exists>s' idle' is'. supervise_loop body claimed (\<lambda>_. False) sleep opts is idle s =
    Some (s', Done (Stop_idle_limit, idle', is')) \<and> ok s' \<and> drained s'"
  using assms
proof (induction "(rank s, nat (idle_limit opts) - idle)" arbitrary: s idle "is"
    rule: wf_induct_rule [OF wf_lex_prod [OF wf_less_than wf_less_than]])
  case (1 s idle "is")
  obtain s1 report m where b: "body s = (s1, Done (report, m))" "ok s1"
    "if claimed report = 0 then rank s1 \<le> rank s else rank s1 < rank s"
    using pass [OF 1(2)] by blast
  let ?idle = "if claimed report = 0 then idle + 1 else 0"
  let ?d = "next_delay opts (claimed report = 0)"
  let ?is = "is @ [\<lparr>si_iteration = length is + 1, si_worker_report = report, si_metrics = m,
      si_next_poll_delay_ms = ?d\<rparr>]"
  have unbounded: "below_max opts n" for n using 1(4) by (simp add: below_max_def)
  show ?case
  proof (cases "idle_limit opts \<le> int ?idle")
    case True
    then have "claimed report = 0" using 1(3) by (auto split: if_splits)
    then have "drained s1" using 1(2) b(1) by (auto simp: drained_def)
    then show ?thesis
      using True b(1,2) unbounded by (subst supervise_loop.simps) (simp add: Let_def)
  next
    case False
    let ?s = "sleep ?d s1"
    have "rank ?s \<le> rank s1" "ok ?s" using pause [OF b(2)] by auto
    then have "((rank ?s, nat (idle_limit opts) - ?idle), (rank s, nat (idle_limit opts) - idle))
        \<in> less_than <*lex*> less_than"
      using b(3) 1(3) by (auto split: if_splits)
    from 1(1) [OF this \<open>ok ?s\<close> _ 1(4), of ?is] False show ?thesis
      using b(1) unbounded by (subst supervise_loop.simps) (simp add: Let_def)
  qed
qed

lemma supervise_drains:
  assumes "ok s" "0 < idle_limit opts" "so_max_iterations opts = None"
  shows "\<exists>s' idle' is'. supervise body claimed (\<lambda>_. False) sleep opts s =
    Some (s', Done (Stop_idle_limit, idle', is')) \<and> ok s' \<and> drained s'"
  using loop_drains [of s 0 opts "[]"] assms by (auto simp: supervise_def)

end


subsection \<open>Properties\<close>

text \<open>
  C17. In every state that any workers bring a queue to, ids stay unique, exactly the claimed rows
  have a holder and an expiry, and each of them was attempted.
\<close>

theorem queue_histories_well_formed:
  assumes "queue_step\<^sup>*\<^sup>* [] rows"
  shows "distinct (map wr_id rows) \<and>
    (\<forall>r \<in> set rows. (wr_status r = Work_claimed \<longleftrightarrow> wr_claimed_by r \<noteq> None) \<and>
       (wr_claimed_by r = None \<longleftrightarrow> wr_claim_expires_at r = None) \<and>
       (wr_status r = Work_claimed \<longrightarrow> wr_attempts r > 0))"
  using table_wf_reachable [OF assms] by (auto simp: table_wf_def row_wf_def)

definition fx_work_row :: "string \<Rightarrow> int \<Rightarrow> 'p \<Rightarrow> 'p work_row" where
  "fx_work_row i created payload =
     \<lparr>wr_id = i, wr_payload = payload, wr_created_at = created, wr_status = Work_pending,
      wr_attempts = 0, wr_claimed_by = None, wr_claimed_at = None, wr_claim_expires_at = None,
      wr_last_error = None, wr_finished_at = None\<rparr>"

definition fx_table :: "string work_row list" where
  "fx_table = [fx_work_row ''b'' 2 ''y'', fx_work_row ''a'' 1 ''x'']"

lemma fx_table_reachable: "queue_step\<^sup>*\<^sup>* [] fx_table"
proof -
  have "queue_step [] ([] @ [fx_work_row ''b'' 2 ''y''])"
    by (rule queue_step.enqueue) (simp_all add: fx_work_row_def)
  moreover have "queue_step ([] @ [fx_work_row ''b'' 2 ''y''])
      (([] @ [fx_work_row ''b'' 2 ''y'']) @ [fx_work_row ''a'' 1 ''x''])"
    by (rule queue_step.enqueue) (simp_all add: fx_work_row_def)
  ultimately show ?thesis by (auto simp: fx_table_def)
qed

theorem queue_histories_well_formed_witness:
  "wr_claim_expires_at (hd (fst (claim_rows None ''w'' 0 9 2 fx_table))) = Some 9 \<and>
     wr_claimed_by (hd (fst (claim_rows None ''w'' 0 9 2 fx_table))) \<noteq> None"
proof -
  let ?rows = "fst (claim_rows None ''w'' 0 9 2 fx_table)"
  have "queue_step\<^sup>*\<^sup>* [] ?rows"
    using fx_table_reachable queue_step.claim by (rule rtranclp.rtrancl_into_rtrancl)
  note wf = queue_histories_well_formed [OF this]
  have e: "wr_claim_expires_at (hd ?rows) = Some 9" by code_simp
  have "?rows \<noteq> []" by code_simp
  then have "hd ?rows \<in> set ?rows" by simp
  then show ?thesis using wf e by force
qed

text \<open>
  C16. A claim respects leases and age: it returns at most as many rows as asked, all different and
  each one more time attempted; a row that a worker holds with an unexpired claim is neither
  returned nor changed; and a row that waits longer is not passed over.
\<close>

theorem claims_respect_leases:
  assumes "queue_step\<^sup>*\<^sup>* [] rows" and "claim_rows retries w now expires batch rows = (rows', got)"
  shows "length got \<le> batch \<and> distinct (map wr_id got) \<and>
    (\<forall>g \<in> set got. \<exists>r \<in> set rows. wr_id r = wr_id g \<and> wr_attempts g = wr_attempts r + 1 \<and>
       wr_claimed_by g = Some w \<and> g \<in> set rows' \<and>
       (\<forall>s \<in> set rows. row_eligible retries now s \<and> wr_id s \<notin> wr_id ` set got \<longrightarrow> created_before r s)) \<and>
    (\<forall>r \<in> set rows. \<forall>t. wr_status r = Work_claimed \<and> wr_claim_expires_at r = Some t \<and> now < t \<longrightarrow>
       r \<in> set rows' \<and> wr_id r \<notin> wr_id ` set got)"
proof -
  let ?n = "next_rows retries now batch rows" and ?c = "claimed_row w now expires"
  have d: "distinct (map wr_id rows)" using queue_histories_well_formed [OF assms(1)] by blast
  have got: "got = map ?c ?n" and rows': "rows' = map (\<lambda>r. if r \<in> set ?n then ?c r else r) rows"
    using assms(2) claim_rows_rows [OF d, of retries w now expires batch] by (auto simp: claim_rows_def Let_def)
  have ids: "wr_id ` set got = wr_id ` set ?n" by (simp add: got image_image)
  have "\<exists>r \<in> set rows. wr_id r = wr_id g \<and> wr_attempts g = wr_attempts r + 1 \<and>
       wr_claimed_by g = Some w \<and> g \<in> set rows' \<and>
       (\<forall>s \<in> set rows. row_eligible retries now s \<and> wr_id s \<notin> wr_id ` set got \<longrightarrow> created_before r s)"
    if g: "g \<in> set got" for g
  proof -
    obtain r where r: "r \<in> set ?n" "g = ?c r" using g got by auto
    have "created_before r s" if "s \<in> set rows" "row_eligible retries now s" "wr_id s \<notin> wr_id ` set got" for s
      using next_rows_oldest [OF r(1) that(1,2)] that(3) ids by blast
    then show ?thesis
      using r next_rows_eligible(1) [OF r(1)] rows' by (intro bexI [of _ r]) (auto simp: claimed_row_def)
  qed
  moreover have "r \<in> set rows' \<and> wr_id r \<notin> wr_id ` set got"
    if "r \<in> set rows" "wr_status r = Work_claimed" "wr_claim_expires_at r = Some t" "now < t" for r t
  proof -
    have "r \<notin> set ?n" using next_rows_eligible(2) held_not_eligible that by blast
    moreover have "r' = r" if "r' \<in> set ?n" "wr_id r' = wr_id r" for r'
      using d next_rows_eligible(1) [OF that(1)] that(2) \<open>r \<in> set rows\<close> by (auto simp: distinct_map dest: inj_onD)
    ultimately show ?thesis using rows' ids \<open>r \<in> set rows\<close> by force
  qed
  moreover have "length got \<le> batch" "distinct (map wr_id got)"
    using distinct_next_rows [OF d] by (auto simp: got next_rows_def comp_def)
  ultimately show ?thesis by blast
qed

theorem claims_respect_leases_witness:
  "let rows = fst (claim_rows None ''w'' 0 9 1 fx_table); (rows', got) = claim_rows None ''v'' 5 20 2 rows
   in map wr_id got = [''b''] \<and> wr_claimed_by (last rows') = Some ''w'' \<and> length got \<le> 2"
proof -
  let ?rows = "fst (claim_rows None ''w'' 0 9 1 fx_table)"
  let ?p = "claim_rows None ''v'' 5 20 2 ?rows"
  have "queue_step\<^sup>*\<^sup>* [] ?rows"
    using fx_table_reachable queue_step.claim by (rule rtranclp.rtrancl_into_rtrancl)
  from claims_respect_leases [OF this, of None "''v''" 5 20 2 "fst ?p" "snd ?p"]
  have "length (snd ?p) \<le> 2" by simp
  moreover have "map wr_id (snd ?p) = [''b''] \<and> wr_claimed_by (last (fst ?p)) = Some ''w''" by code_simp
  ultimately show ?thesis by (simp add: case_prod_beta Let_def)
qed

text \<open>
  The marks do not ask who holds a row: a worker whose claim has expired can turn a row that
  another worker has published back into a failed one, and the next claim takes it again.
\<close>

lemma late_failure_revives_finished_row:
  "let rows = [fx_work_row ''a'' 1 ''x''];
       first = fst (claim_rows (Some 3) ''w'' 0 10 1 rows);
       second = fst (claim_rows (Some 3) ''v'' 20 30 1 first);
       published = mark_done [''a''] 21 second;
       late = mark_failed [(''a'', ''timeout'')] published
   in map wr_status published = [Work_done] \<and> map wr_status late = [Work_failed] \<and>
      map wr_id (snd (claim_rows (Some 3) ''u'' 22 40 1 late)) = [''a'']"
  by code_simp

end
