(* ===== verification/OutboxFacts.thy ===== *)
theory OutboxFacts
  imports Outbox PropagationFacts WorkQueueFacts
begin

text \<open>
  Facts on the outbox: payloads decode to what was encoded, a batch accounts for its records, a
  pass of the worker settles exactly the rows it claims, and a supervised worker drains the table.
\<close>

subsection \<open>Payloads\<close>

lemma int_of_js_json [simp]: "int_of_js (int_json n) = Some n"
proof -
  have "quotient_of (of_int n :: rat) = (n, 1)"
    using quotient_of_int [of n] by (simp add: Rat.of_int_def)
  then show ?thesis by (simp add: int_json_def)
qed

lemma opt_prop_lookup [simp]:
  "map_of (opt_prop k f x @ kvs) k' =
     (if k = k' then (case x of None \<Rightarrow> map_of kvs k' | Some y \<Rightarrow> Some (f y)) else map_of kvs k')"
  by (cases x) (auto simp: opt_prop_def)

lemma opt_prop_lookup_end [simp]:
  "map_of (opt_prop k f x) k' = (if k = k' then map_option f x else None)"
  by (cases x) (auto simp: opt_prop_def)

lemma optional_of_values [simp]:
  "optional_of f JUndefined = Some None"
  "optional_of str_opt (JStr s) = Some (Some s)"
  "optional_of int_of_js (int_json n) = Some (Some n)"
  by (simp_all add: optional_of_def) (simp add: int_json_def)

lemma envelope_props:
  "get_prop (envelope_json e) ''event_id'' = JStr (ee_event_id e)"
  "get_prop (envelope_json e) ''type'' = JStr (ee_type e)"
  "get_prop (envelope_json e) ''occurred_at'' = JStr (ee_occurred_at e)"
  "get_prop (envelope_json e) ''root_program_id'' = JStr (ee_root_program_id e)"
  "get_prop (envelope_json e) ''artifact_id'' = JStr (ee_artifact_id e)"
  "get_prop (envelope_json e) ''artifact_hash'' = JStr (ee_artifact_hash e)"
  "get_prop (envelope_json e) ''version'' = int_json (ee_version e)"
  by (simp_all add: get_prop_def envelope_json_def del: map_of_append)

lemma envelope_optional_props:
  "optional_of str_opt (get_prop (envelope_json e) ''delegated_authority_id'') = Some (ee_delegated_authority_id e)"
  "optional_of str_opt (get_prop (envelope_json e) ''issuer_id'') = Some (ee_issuer_id e)"
  "optional_of str_opt (get_prop (envelope_json e) ''destination_policy_id'') = Some (ee_destination_policy_id e)"
  "optional_of str_opt (get_prop (envelope_json e) ''artifact_ref'') = Some (ee_artifact_ref e)"
  "optional_of int_of_js (get_prop (envelope_json e) ''previous_version'') = Some (ee_previous_version e)"
  "optional_of str_opt (get_prop (envelope_json e) ''reason'') = Some (ee_reason e)"
proof -
  note defs = get_prop_def envelope_json_def
  show "optional_of str_opt (get_prop (envelope_json e) ''delegated_authority_id'') = Some (ee_delegated_authority_id e)"
    by (cases "ee_delegated_authority_id e") (simp_all add: defs del: map_of_append)
  show "optional_of str_opt (get_prop (envelope_json e) ''issuer_id'') = Some (ee_issuer_id e)"
    by (cases "ee_issuer_id e") (simp_all add: defs del: map_of_append)
  show "optional_of str_opt (get_prop (envelope_json e) ''destination_policy_id'') = Some (ee_destination_policy_id e)"
    by (cases "ee_destination_policy_id e") (simp_all add: defs del: map_of_append)
  show "optional_of str_opt (get_prop (envelope_json e) ''artifact_ref'') = Some (ee_artifact_ref e)"
    by (cases "ee_artifact_ref e") (simp_all add: defs del: map_of_append)
  show "optional_of int_of_js (get_prop (envelope_json e) ''previous_version'') = Some (ee_previous_version e)"
    by (cases "ee_previous_version e") (simp_all add: defs del: map_of_append)
  show "optional_of str_opt (get_prop (envelope_json e) ''reason'') = Some (ee_reason e)"
    by (cases "ee_reason e") (simp_all add: defs del: map_of_append)
qed

lemma envelope_round_trip: "envelopeFromUnknown (envelope_json e) = Some e"
proof -
  have "is_record (envelope_json e)" by (simp add: envelope_json_def)
  then show ?thesis by (simp add: envelopeFromUnknown_def envelope_props envelope_optional_props)
qed

lemma decoded_record:
  assumes "map_of kvs ''envelope'' = Some (envelope_json e)" "or_payload r = JObj kvs" "envelope_valid P e"
  shows "\<exists>body. networkEventFromOutboxRecord P r = Inr \<lparr>ne_envelope = e, ne_body = body\<rparr>"
proof -
  have "''envelope'' \<in> fst ` set kvs" using assms(1) by (force dest: map_of_SomeD)
  moreover have "get_prop (JObj kvs) ''envelope'' = envelope_json e" using assms(1) by (simp add: get_prop_def)
  ultimately show ?thesis
    using assms(2,3) by (simp add: networkEventFromOutboxRecord_def payloadObject_def envelope_round_trip Let_def
        decodeEventEnvelope_def)
qed


subsection \<open>Batches\<close>

definition published_as :: "platform \<Rightarrow> outbox_record \<Rightarrow> outbox_success \<Rightarrow> jet_stream_message \<Rightarrow> bool" where
  "published_as P r s m \<longleftrightarrow>
     (\<exists>event. networkEventFromOutboxRecord P r = Inr event \<and> jetStreamMessageFromEvent event = Done m) \<and>
     s = \<lparr>os_outbox_id = or_outbox_id r, os_event_id = or_event_id r, os_subject = jm_subject m,
          os_stream = jm_stream m\<rparr>"

text \<open>A record whose event, if it has one, does not end the effect with a defect.\<close>

definition record_ok :: "platform \<Rightarrow> outbox_record \<Rightarrow> bool" where
  "record_ok P r \<longleftrightarrow>
     (case networkEventFromOutboxRecord P r of Inl _ \<Rightarrow> True | Inr event \<Rightarrow> survivable event)"

context message_sink
begin

lemma publish_record_cases:
  assumes "publish_record P publish recorded r k = (k', res)"
  shows "(\<forall>s. res = Inr (Inr s) \<longrightarrow> (\<exists>m. published_as P r s m \<and> recorded k' = recorded k @ [m]))"
    "(\<forall>err. res = Inr (Inl err) \<longrightarrow> recorded k' = recorded k)"
    "record_ok P r \<longrightarrow> (\<exists>x. res = Inr x)"
proof -
  have "(\<forall>s. res = Inr (Inr s) \<longrightarrow> (\<exists>m. published_as P r s m \<and> recorded k' = recorded k @ [m])) \<and>
    (\<forall>err. res = Inr (Inl err) \<longrightarrow> recorded k' = recorded k) \<and> (record_ok P r \<longrightarrow> (\<exists>x. res = Inr x))"
  proof (cases "networkEventFromOutboxRecord P r")
    case (Inl err)
    then show ?thesis using assms by (auto simp: publish_record_def)
  next
    case (Inr event)
    obtain k1 out where p: "publishEvents publish [event] k = (k1, out)" by fastforce
    show ?thesis
    proof (cases out)
      case (Done report)
      from publish_one(1) [OF p [unfolded Done]] show ?thesis
        using assms Inr p Done by (auto simp: publish_record_def published_as_def Let_def)
    next
      case (Failed err)
      from publish_one(2) [OF p [unfolded Failed]] show ?thesis
        using assms Inr p Failed by (auto simp: publish_record_def)
    next
      case (Died d)
      from publish_one(3) [OF p [unfolded Died]] show ?thesis
        using assms Inr p Died survivable_message by (auto simp: publish_record_def record_ok_def)
    qed
  qed
  then show "(\<forall>s. res = Inr (Inr s) \<longrightarrow> (\<exists>m. published_as P r s m \<and> recorded k' = recorded k @ [m]))"
    "(\<forall>err. res = Inr (Inl err) \<longrightarrow> recorded k' = recorded k)"
    "record_ok P r \<longrightarrow> (\<exists>x. res = Inr x)" by blast+
qed

lemma publish_records_account:
  assumes "publish_records P publish recorded rs ss fs k = (k', Inr (ss', fs'))"
  shows "\<exists>ss1 fs1 ms. ss' = ss @ ss1 \<and> fs' = fs @ fs1 \<and> recorded k' = recorded k @ ms \<and>
    list_all2 (\<lambda>s m. \<exists>r \<in> set rs. published_as P r s m) ss1 ms \<and>
    mset (map os_outbox_id ss1) + mset (map of_outbox_id fs1) = mset (map or_outbox_id rs)"
  using assms
proof (induction rs arbitrary: ss fs k)
  case (Cons r rs)
  obtain k1 res where one: "publish_record P publish recorded r k = (k1, res)" by fastforce
  note cases = publish_record_cases [OF one]
  show ?case
  proof (cases res)
    case (Inl d)
    then show ?thesis using Cons.prems one by simp
  next
    case (Inr x)
    show ?thesis
    proof (cases x)
      case (Inl err)
      let ?f = "\<lparr>of_outbox_id = or_outbox_id r, of_event_id = or_event_id r, of_reason = failureReason err\<rparr>"
      have "publish_records P publish recorded rs ss (fs @ [?f]) k1 = (k', Inr (ss', fs'))"
        using Cons.prems one Inr Inl by simp
      from Cons.IH [OF this] obtain ss1 fs1 ms where ih: "ss' = ss @ ss1" "fs' = (fs @ [?f]) @ fs1"
        "recorded k' = recorded k1 @ ms" "list_all2 (\<lambda>s m. \<exists>r \<in> set rs. published_as P r s m) ss1 ms"
        "mset (map os_outbox_id ss1) + mset (map of_outbox_id fs1) = mset (map or_outbox_id rs)" by blast
      have "recorded k1 = recorded k" using cases(2) Inr Inl by simp
      then show ?thesis using ih
        by (intro exI [of _ ss1] exI [of _ "?f # fs1"] exI [of _ ms]) (auto elim: list_all2_mono)
    next
      case (Inr s)
      have "publish_records P publish recorded rs (ss @ [s]) fs k1 = (k', Inr (ss', fs'))"
        using Cons.prems one \<open>res = Inr x\<close> Inr by simp
      from Cons.IH [OF this] obtain ss1 fs1 ms where ih: "ss' = (ss @ [s]) @ ss1" "fs' = fs @ fs1"
        "recorded k' = recorded k1 @ ms" "list_all2 (\<lambda>s m. \<exists>r \<in> set rs. published_as P r s m) ss1 ms"
        "mset (map os_outbox_id ss1) + mset (map of_outbox_id fs1) = mset (map or_outbox_id rs)" by blast
      obtain m where m: "published_as P r s m" "recorded k1 = recorded k @ [m]"
        using cases(1) \<open>res = Inr x\<close> Inr by blast
      then have "os_outbox_id s = or_outbox_id r" by (simp add: published_as_def)
      then show ?thesis using ih m
        by (intro exI [of _ "s # ss1"] exI [of _ fs1] exI [of _ "m # ms"]) (auto elim: list_all2_mono)
    qed
  qed
qed simp

lemma publish_records_total:
  "\<forall>r \<in> set rs. record_ok P r \<Longrightarrow> \<exists>k' out. publish_records P publish recorded rs ss fs k = (k', Inr out)"
proof (induction rs arbitrary: ss fs k)
  case (Cons r rs)
  obtain k1 res where one: "publish_record P publish recorded r k = (k1, res)" by fastforce
  then obtain x where "res = Inr x" using publish_record_cases(3) [OF one] Cons.prems by auto
  then show ?case using Cons one by (cases x) simp_all
qed simp

lemma publishBatch_account:
  assumes "publishBatch P publish recorded rs k = (k', Inr rep)"
  obtains ms where "recorded k' = recorded k @ ms"
    "list_all2 (\<lambda>s m. \<exists>r \<in> set rs. published_as P r s m) (pb_successes rep) ms"
    "mset (map os_outbox_id (pb_successes rep)) + mset (map of_outbox_id (pb_failures rep)) =
       mset (map or_outbox_id rs)"
    "pb_attempted rep = length rs" "pb_published rep = length (pb_successes rep)"
    "pb_failed rep = length (pb_failures rep)"
proof -
  obtain ss fs where r: "publish_records P publish recorded rs [] [] k = (k', Inr (ss, fs))"
    "rep = \<lparr>pb_attempted = length rs, pb_published = length ss, pb_failed = length fs,
            pb_successes = ss, pb_failures = fs\<rparr>"
    using assms by (auto simp: publishBatch_def split: prod.splits sum.splits)
  show thesis using publish_records_account [OF r(1)] r(2) that by auto
qed

end


subsection \<open>A pass of the worker\<close>

text \<open>
  How a pass settles a row that it claims: one attempt more, no claim left, and either published,
  with a message in the sink that is the row's event, or failed with a reason.
\<close>

definition row_published :: "platform \<Rightarrow> jet_stream_message list \<Rightarrow> outbox_entry work_row \<Rightarrow> bool" where
  "row_published P ms r \<longleftrightarrow>
     (\<exists>m \<in> set ms. \<exists>event. networkEventFromOutboxRecord P (record_of_row r) = Inr event \<and>
        jetStreamMessageFromEvent event = Done m)"

definition settled ::
  "platform \<Rightarrow> jet_stream_message list \<Rightarrow> outbox_entry work_row \<Rightarrow> outbox_entry work_row \<Rightarrow> bool" where
  "settled P ms r r' \<longleftrightarrow>
     wr_id r' = wr_id r \<and> wr_payload r' = wr_payload r \<and> wr_attempts r' = wr_attempts r + 1 \<and>
     wr_claimed_by r' = None \<and> wr_claim_expires_at r' = None \<and>
     (wr_status r' = Work_done \<and> row_published P ms r \<or>
      wr_status r' = Work_failed \<and> wr_last_error r' \<noteq> None)"

definition outbox_batch :: "outbox_worker_options \<Rightarrow> int \<Rightarrow> outbox_table \<Rightarrow> outbox_table" where
  "outbox_batch opts now rows =
     (let input = outbox_claim_of opts now
      in next_rows (Some (ci_max_retry_attempts input)) now (ci_batch_size input) rows)"

definition marked ::
  "outbox_success list \<Rightarrow> outbox_failure list \<Rightarrow> int \<Rightarrow> outbox_table \<Rightarrow> outbox_table" where
  "marked ss fs completedAt rows =
     mark_failed (map (\<lambda>f. (of_outbox_id f, of_reason f)) fs) (mark_done (map os_outbox_id ss) completedAt rows)"

lemma empty_marks [simp]: "mark_done [] t rows = rows" "mark_failed [] rows = rows"
  by (simp_all add: mark_done_def mark_failed_def update_rows_def)

lemma record_ids [simp]: "or_outbox_id (record_of_row r) = wr_id r"
  by (simp add: record_of_row_def)

text \<open>The worker over the outbox table and the live sink.\<close>

definition outbox_process ::
  "platform \<Rightarrow> (jet_stream_message \<Rightarrow> string \<Rightarrow> 'p \<Rightarrow> 'p \<times> jsval option) \<Rightarrow> ('c \<Rightarrow> 'c \<times> int) \<Rightarrow>
     outbox_worker_options \<Rightarrow> outbox_table \<times> ('p \<times> jet_stream_message list) \<times> 'c \<Rightarrow>
     (outbox_table \<times> ('p \<times> jet_stream_message list) \<times> 'c) \<times> outbox_worker_report outcome" where
  "outbox_process P send tick opts =
     processOnce makePostgresEventOutboxWorkerStore (publishBatch P (live_publish send) live_recorded) tick opts"

lemma process_idle:
  assumes "tick c = (c1, now)" "outbox_batch opts now rows = []"
  shows "outbox_process P send tick opts (rows, k, c) =
    ((rows, k, c1), Done (emptyWorkerReport (wo_worker_id opts)))"
  using assms by (simp add: outbox_process_def processOnce_def makePostgresEventOutboxWorkerStore_def
      claimEventOutboxBatch_def claim_rows_def Let_def outbox_batch_def outbox_claim_of_def update_rows_def)

definition claimed_table :: "outbox_worker_options \<Rightarrow> int \<Rightarrow> outbox_table \<Rightarrow> outbox_table" where
  "claimed_table opts now rows =
     (let input = outbox_claim_of opts now
      in fst (claim_rows (Some (ci_max_retry_attempts input)) (wo_worker_id opts) now
           (ci_claim_expires_at input) (ci_batch_size input) rows))"

lemma process_batch:
  assumes "tick c = (c1, now)" "outbox_batch opts now rows \<noteq> []"
    and "publishBatch P (live_publish send) live_recorded (map record_of_row (outbox_batch opts now rows)) k =
      (k1, out)"
    and "tick c1 = (c2, completedAt)"
  shows "outbox_process P send tick opts (rows, k, c) =
      (case out of
         Inl defect \<Rightarrow> ((claimed_table opts now rows, k1, c1), Died defect)
       | Inr rep \<Rightarrow> ((marked (pb_successes rep) (pb_failures rep) completedAt (claimed_table opts now rows), k1, c2),
           Done
           \<lparr>ow_worker_id = wo_worker_id opts, ow_claimed = length (outbox_batch opts now rows),
            ow_attempted = pb_attempted rep, ow_published = pb_published rep, ow_failed = pb_failed rep,
            ow_marked_published = length (pb_successes rep), ow_marked_failed = length (pb_failures rep),
            ow_publish_report = Some rep\<rparr>))"
proof -
  have claim: "st_claim makePostgresEventOutboxWorkerStore (outbox_claim_of opts now) rows =
      (claimed_table opts now rows, Inr (map record_of_row (outbox_batch opts now rows)))"
    by (simp add: makePostgresEventOutboxWorkerStore_def claimEventOutboxBatch_def outbox_claim_of_def
        claimed_table_def claim_rows_def Let_def outbox_batch_def comp_def)
       (simp add: record_of_row_def claimed_row_def)
  show ?thesis
    using assms claim by (simp add: outbox_process_def processOnce_def Let_def
        makePostgresEventOutboxWorkerStore_def markEventOutboxPublished_def markEventOutboxFailed_def
        marked_def split: sum.splits)
qed

lemma list_all2_refl_on: "(\<And>x. x \<in> set xs \<Longrightarrow> R x x) \<Longrightarrow> list_all2 R xs xs"
  by (simp add: list_all2_conv_all_nth)

lemma list_all2_mem: "list_all2 R xs ys \<Longrightarrow> y \<in> set ys \<Longrightarrow> \<exists>x \<in> set xs. R x y"
  by (induction rule: list_all2_induct) auto

lemma settle_row:
  assumes ids: "mset (map os_outbox_id ss) + mset (map of_outbox_id fs) = mset (map wr_id batch)"
    and d: "distinct (map wr_id batch)"
    and ms: "list_all2 (\<lambda>s m. \<exists>r \<in> set (map record_of_row batch). published_as P r s m) ss ms"
    and r: "r \<in> set batch"
  shows "settled P ms r
    (case map_of (map (\<lambda>f. (of_outbox_id f, of_reason f)) fs) (wr_id r) of
       None \<Rightarrow> if wr_id r \<in> set (map os_outbox_id ss) then done_row t (claimed_row w now e r)
               else claimed_row w now e r
     | Some reason \<Rightarrow> failed_row reason
         (if wr_id r \<in> set (map os_outbox_id ss) then done_row t (claimed_row w now e r)
          else claimed_row w now e r))"
proof -
  let ?S = "set (map os_outbox_id ss)" and ?F = "set (map of_outbox_id fs)"
  have "set_mset (mset (map os_outbox_id ss) + mset (map of_outbox_id fs)) = wr_id ` set batch"
    unfolding ids by (simp only: set_mset_mset set_map)
  then have cover: "?S \<union> ?F = wr_id ` set batch"
    by (simp only: set_mset_union set_mset_mset)
  have "distinct (map os_outbox_id ss @ map of_outbox_id fs)"
    using d ids mset_eq_imp_distinct_iff [of "map os_outbox_id ss @ map of_outbox_id fs" "map wr_id batch"]
    by (metis mset_append)
  then have disjoint: "?S \<inter> ?F = {}" by simp
  have dom: "map_of (map (\<lambda>f. (of_outbox_id f, of_reason f)) fs) i = None \<longleftrightarrow> i \<notin> ?F" for i
    by (force simp: map_of_eq_None_iff)
  have claimed: "wr_attempts (claimed_row w now e r) = wr_attempts r + 1" by simp
  show ?thesis
  proof (cases "wr_id r \<in> ?F")
    case True
    then obtain reason where "map_of (map (\<lambda>f. (of_outbox_id f, of_reason f)) fs) (wr_id r) = Some reason"
      using dom by (metis not_Some_eq)
    moreover have "wr_id r \<notin> ?S" using True disjoint by blast
    ultimately show ?thesis by (simp add: settled_def failed_row_def claimed_row_def)
  next
    case False
    then have S: "wr_id r \<in> ?S" using cover r by auto
    then obtain s where s: "s \<in> set ss" "os_outbox_id s = wr_id r" by auto
    then obtain i where i: "i < length ss" "ss ! i = s" by (auto simp: in_set_conv_nth)
    then obtain r' where "r' \<in> set batch" "published_as P (record_of_row r') s (ms ! i)"
      using list_all2_nthD [OF ms i(1)] by auto
    moreover have "ms ! i \<in> set ms" using list_all2_lengthD [OF ms] i(1) by simp
    ultimately obtain m r' where m: "m \<in> set ms" "r' \<in> set batch" "published_as P (record_of_row r') s m"
      by blast
    then have "wr_id r' = wr_id r" using s(2) by (simp add: published_as_def)
    then have "r' = r" using d m(2) r by (auto simp: distinct_map dest: inj_onD)
    then have "row_published P ms r" using m by (auto simp: row_published_def published_as_def)
    moreover have none: "map_of (map (\<lambda>f. (of_outbox_id f, of_reason f)) fs) (wr_id r) = None"
      using False dom by blast
    ultimately show ?thesis using S unfolding none by (simp add: settled_def done_row_def claimed_row_def)
  qed
qed

lemma marked_map:
  "marked ss fs t rows = map (\<lambda>r.
     case map_of (map (\<lambda>f. (of_outbox_id f, of_reason f)) fs) (wr_id r) of
       None \<Rightarrow> if wr_id r \<in> set (map os_outbox_id ss) then done_row t r else r
     | Some reason \<Rightarrow> failed_row reason (if wr_id r \<in> set (map os_outbox_id ss) then done_row t r else r)) rows"
  unfolding marked_def mark_failed_def mark_done_def update_rows_def map_map
  by (intro map_cong refl) (auto split: option.splits)

lemma marked_settled:
  assumes "distinct (map wr_id rows)"
    and ids: "mset (map os_outbox_id ss) + mset (map of_outbox_id fs) = mset (map wr_id (outbox_batch opts now rows))"
    and ms: "list_all2 (\<lambda>s m. \<exists>r \<in> set (map record_of_row (outbox_batch opts now rows)). published_as P r s m) ss ms"
  shows "list_all2 (\<lambda>r r'. if r \<in> set (outbox_batch opts now rows) then settled P ms r r' else r' = r)
    rows (marked ss fs t (claimed_table opts now rows))"
proof -
  let ?b = "outbox_batch opts now rows"
  let ?c = "claimed_row (wo_worker_id opts) now (ci_claim_expires_at (outbox_claim_of opts now))"
  have b: "?b = next_rows (Some (ci_max_retry_attempts (outbox_claim_of opts now))) now
      (ci_batch_size (outbox_claim_of opts now)) rows"
    by (simp add: outbox_batch_def Let_def)
  have d: "distinct (map wr_id ?b)" unfolding b by (rule distinct_next_rows [OF assms(1)])
  have table: "claimed_table opts now rows = map (\<lambda>r. if r \<in> set ?b then ?c r else r) rows"
    unfolding b claimed_table_def Let_def by (rule claim_rows_rows [OF assms(1)])
  have "set_mset (mset (map os_outbox_id ss) + mset (map of_outbox_id fs)) = wr_id ` set ?b"
    unfolding ids by (simp only: set_mset_mset set_map)
  then have cover: "set (map os_outbox_id ss) \<union> set (map of_outbox_id fs) = wr_id ` set ?b"
    by (simp only: set_mset_union set_mset_mset)
  have outside: "wr_id r \<notin> wr_id ` set ?b" if "r \<in> set rows" "r \<notin> set ?b" for r
    using that assms(1) next_rows_eligible(1) b by (metis (no_types, lifting) distinct_map image_iff inj_onD)
  have none: "map_of (map (\<lambda>f. (of_outbox_id f, of_reason f)) fs) i = None"
    if "i \<notin> set (map of_outbox_id fs)" for i
    using that by (force simp: map_of_eq_None_iff)
  show ?thesis
    unfolding marked_map table map_map list_all2_map2
  proof (rule list_all2_refl_on, goal_cases)
    case (1 r)
    show ?case
    proof (cases "r \<in> set ?b")
      case True
      then show ?thesis
        using settle_row [OF ids d ms True, of t "wo_worker_id opts" now "ci_claim_expires_at (outbox_claim_of opts now)"]
        by (simp only: comp_apply True if_True row_updates)
    next
      case False
      then have "wr_id r \<notin> set (map os_outbox_id ss)" "wr_id r \<notin> set (map of_outbox_id fs)"
        using outside [OF 1] cover by auto
      then show ?thesis using False none by simp
    qed
  qed
qed

text \<open>What a completed pass does, in one statement over the table and the sink.\<close>

lemma process_Done:
  assumes "distinct (map wr_id rows)"
    and "outbox_process P send tick opts (rows, k, c) = ((rows', k', c'), Done rep)"
    and "tick c = (c1, now)"
  obtains ms where "live_recorded k' = live_recorded k @ ms"
    "list_all2 (\<lambda>r r'. if r \<in> set (outbox_batch opts now rows) then settled P ms r r' else r' = r) rows rows'"
    "ow_claimed rep = length (outbox_batch opts now rows)" "ow_attempted rep = ow_claimed rep"
    "ow_published rep = length ms" "ow_published rep + ow_failed rep = ow_claimed rep"
    "ow_marked_published rep = ow_published rep" "ow_marked_failed rep = ow_failed rep"
proof (cases "outbox_batch opts now rows = []")
  case True
  then have "k' = k" "rows' = rows" "rep = emptyWorkerReport (wo_worker_id opts)"
    using assms(2) process_idle [where opts = opts and tick = tick and c = c and k = k and P = P and send = send, OF assms(3) True] by auto
  then show thesis using True
    by (intro that [of "[]"]) (auto simp: emptyWorkerReport_def intro: list_all2_refl_on)
next
  case False
  let ?b = "outbox_batch opts now rows"
  obtain k1 out where pb: "publishBatch P (live_publish send) live_recorded (map record_of_row ?b) k = (k1, out)"
    by fastforce
  obtain c2 t where c2: "tick c1 = (c2, t)" by fastforce
  note run = process_batch [where P = P and send = send, OF assms(3) False pb c2]
  obtain pr where out: "out = Inr pr" using assms(2) run by (cases out) auto
  obtain ms where ms: "live_recorded k1 = live_recorded k @ ms"
    "list_all2 (\<lambda>s m. \<exists>r \<in> set (map record_of_row ?b). published_as P r s m) (pb_successes pr) ms"
    "mset (map os_outbox_id (pb_successes pr)) + mset (map of_outbox_id (pb_failures pr)) =
       mset (map or_outbox_id (map record_of_row ?b))"
    "pb_attempted pr = length (map record_of_row ?b)" "pb_published pr = length (pb_successes pr)"
    "pb_failed pr = length (pb_failures pr)"
    using live_sink.publishBatch_account [OF pb [unfolded out]] by blast
  have ids: "mset (map os_outbox_id (pb_successes pr)) + mset (map of_outbox_id (pb_failures pr)) =
      mset (map wr_id ?b)" using ms(3) by (simp add: comp_def)
  have "size (mset (map os_outbox_id (pb_successes pr)) + mset (map of_outbox_id (pb_failures pr))) = length ?b"
    unfolding ids by simp
  then have total: "pb_published pr + pb_failed pr = length ?b" using ms(5,6) by simp
  have "k' = k1" "rows' = marked (pb_successes pr) (pb_failures pr) t (claimed_table opts now rows)" "ow_claimed rep = length ?b"
    "ow_attempted rep = pb_attempted pr" "ow_published rep = pb_published pr" "ow_failed rep = pb_failed pr"
    "ow_marked_published rep = pb_published pr" "ow_marked_failed rep = pb_failed pr"
    using assms(2) run out ms(5,6) by auto
  then show thesis
    using that [of ms] ms marked_settled [OF assms(1) ids ms(2), of t] total
      list_all2_lengthD [OF ms(2)] by simp
qed

lemma process_total:
  assumes "\<forall>r \<in> set rows. record_ok P (record_of_row r)"
  shows "\<exists>st' rep. outbox_process P send tick opts (rows, k, c) = (st', Done rep)"
proof -
  obtain c1 now where t: "tick c = (c1, now)" by fastforce
  show ?thesis
  proof (cases "outbox_batch opts now rows = []")
    case True
    then show ?thesis using process_idle [where opts = opts and tick = tick and c = c and k = k and P = P and send = send, OF t True] by auto
  next
    case False
    let ?b = "outbox_batch opts now rows"
    have "\<forall>r \<in> set (map record_of_row ?b). record_ok P r"
      using assms next_rows_eligible(1) by (fastforce simp: outbox_batch_def Let_def)
    then obtain k1 ss fs where "publish_records P (live_publish send) live_recorded (map record_of_row ?b) [] [] k =
        (k1, Inr (ss, fs))"
      using live_sink.publish_records_total by fast
    then obtain rep where pb: "publishBatch P (live_publish send) live_recorded (map record_of_row ?b) k = (k1, Inr rep)"
      by (simp add: publishBatch_def)
    obtain c2 u where "tick c1 = (c2, u)" by fastforce
    from process_batch [OF t False pb this] show ?thesis by simp
  qed
qed


subsection \<open>Progress\<close>

text \<open>How often a row can still be claimed when every claim ends in a mark.\<close>

definition claims_left :: "int \<Rightarrow> 'p work_row \<Rightarrow> nat" where
  "claims_left limit r =
     (case wr_status r of
        Work_done \<Rightarrow> 0
      | Work_failed \<Rightarrow> nat (limit - int (wr_attempts r))
      | _ \<Rightarrow> 1 + nat (limit - int (wr_attempts r) - 1))"

definition total_claims_left :: "int \<Rightarrow> 'p work_row list \<Rightarrow> nat" where
  "total_claims_left limit rows = sum_list (map (claims_left limit) rows)"

lemma settled_progress:
  assumes "row_eligible (Some limit) now r" "settled P ms r r'"
  shows "claims_left limit r' < claims_left limit r"
  using assms by (cases "wr_status r") (auto simp: row_eligible_def settled_def claims_left_def)

lemma sum_progress:
  assumes "list_all2 (\<lambda>r r'. if r \<in> B then f r' < f r else r' = r) rows rows'"
  shows "sum_list (map f rows') + length (filter (\<lambda>r. r \<in> B) rows) \<le> sum_list (map (f :: 'a \<Rightarrow> nat) rows)"
  using assms by (induction rule: list_all2_induct) auto

definition retry_limit :: "outbox_worker_options \<Rightarrow> int" where
  "retry_limit opts = (case wo_max_retry_attempts opts of None \<Rightarrow> 3 | Some n \<Rightarrow> n)"

lemma retry_limit_claim [simp]: "ci_max_retry_attempts (outbox_claim_of opts now) = retry_limit opts"
  by (simp add: outbox_claim_of_def retry_limit_def)

lemma batch_eligible: "r \<in> set (outbox_batch opts now rows) \<Longrightarrow>
    r \<in> set rows \<and> row_eligible (Some (retry_limit opts)) now r"
  unfolding outbox_batch_def Let_def retry_limit_claim using next_rows_eligible by blast

lemma process_progress:
  assumes "distinct (map wr_id rows)"
    and "outbox_process P send tick opts (rows, k, c) = ((rows', k', c'), Done rep)"
  shows "if ow_claimed rep = 0 then rows' = rows
    else total_claims_left (retry_limit opts) rows' < total_claims_left (retry_limit opts) rows"
proof -
  obtain c1 now where t: "tick c = (c1, now)" by fastforce
  let ?b = "outbox_batch opts now rows"
  obtain ms where ms: "list_all2 (\<lambda>r r'. if r \<in> set ?b then settled P ms r r' else r' = r) rows rows'"
    "ow_claimed rep = length ?b"
    using process_Done [OF assms t] by blast
  have "list_all2 (\<lambda>r r'. if r \<in> set ?b then claims_left (retry_limit opts) r' < claims_left (retry_limit opts) r
      else r' = r) rows rows'"
  proof (rule list_all2_mono [OF ms(1)])
    fix r r'
    assume "if r \<in> set ?b then settled P ms r r' else r' = r"
    then show "if r \<in> set ?b then claims_left (retry_limit opts) r' < claims_left (retry_limit opts) r else r' = r"
      using settled_progress [OF conjunct2 [OF batch_eligible]] by (cases "r \<in> set ?b") auto
  qed
  from sum_progress [OF this] have less: "total_claims_left (retry_limit opts) rows' +
      length (filter (\<lambda>r. r \<in> set ?b) rows) \<le> total_claims_left (retry_limit opts) rows"
    by (simp add: total_claims_left_def)
  show ?thesis
  proof (cases "?b = []")
    case True
    then have "list_all2 (\<lambda>r r'. r' = r) rows rows'" using ms(1) by simp
    then have "rows' = rows" by (induction rule: list_all2_induct) auto
    then show ?thesis using ms(2) True by simp
  next
    case False
    then obtain r where "r \<in> set ?b" by (cases ?b) auto
    then have "r \<in> set (filter (\<lambda>r. r \<in> set ?b) rows)" using batch_eligible by auto
    then obtain n where "length (filter (\<lambda>r. r \<in> set ?b) rows) = Suc n"
      by (cases "filter (\<lambda>r. r \<in> set ?b) rows") auto
    then show ?thesis using less ms(2) False by simp
  qed
qed


subsection \<open>The supervised worker\<close>

text \<open>
  The relation between a row at the start and the same row later: untouched, failed, or published
  with its event in the log of the sink.
\<close>

definition delivered_or_same ::
  "platform \<Rightarrow> jet_stream_message list \<Rightarrow> outbox_entry work_row \<Rightarrow> outbox_entry work_row \<Rightarrow> bool" where
  "delivered_or_same P sent r0 r \<longleftrightarrow>
     wr_id r = wr_id r0 \<and> wr_payload r = wr_payload r0 \<and>
     (r = r0 \<or> wr_status r = Work_failed \<or> wr_status r = Work_done \<and> row_published P sent r0)"

lemma same_record: "wr_id r = wr_id r0 \<Longrightarrow> wr_payload r = wr_payload r0 \<Longrightarrow> record_of_row r = record_of_row r0"
  by (simp add: record_of_row_def)

lemma delivered_later: "delivered_or_same P sent r0 r \<Longrightarrow> delivered_or_same P (sent @ ms) r0 r"
  by (auto simp: delivered_or_same_def row_published_def)

lemma delivered_settled:
  "delivered_or_same P sent r0 r \<Longrightarrow> settled P ms r r' \<Longrightarrow> delivered_or_same P (sent @ ms) r0 r'"
  using same_record [of r r0]
  by (auto simp: delivered_or_same_def settled_def row_published_def)

definition outbox_start :: "platform \<Rightarrow> outbox_table \<Rightarrow> bool" where
  "outbox_start P rows \<longleftrightarrow>
     distinct (map wr_id rows) \<and>
     (\<forall>r \<in> set rows. record_ok P (record_of_row r) \<and> wr_status r \<noteq> Work_claimed)"

definition outbox_ok ::
  "platform \<Rightarrow> outbox_table \<Rightarrow> outbox_table \<times> ('p \<times> jet_stream_message list) \<times> 'c \<Rightarrow> bool" where
  "outbox_ok P rows0 st \<longleftrightarrow>
     (case st of (rows, k, c) \<Rightarrow>
        outbox_start P rows0 \<and> list_all2 (delivered_or_same P (live_recorded k)) rows0 rows)"

lemma list_all2_ids: "list_all2 (delivered_or_same P sent) rows0 rows \<Longrightarrow> map wr_id rows = map wr_id rows0"
  by (induction rule: list_all2_induct) (auto simp: delivered_or_same_def)

lemma ok_facts:
  assumes "outbox_ok P rows0 (rows, k, c)"
  shows "distinct (map wr_id rows)" "\<forall>r \<in> set rows. record_ok P (record_of_row r) \<and> wr_status r \<noteq> Work_claimed"
proof -
  have a: "list_all2 (delivered_or_same P (live_recorded k)) rows0 rows" "outbox_start P rows0"
    using assms by (auto simp: outbox_ok_def)
  show "distinct (map wr_id rows)" using list_all2_ids [OF a(1)] a(2) by (simp add: outbox_start_def)
  show "\<forall>r \<in> set rows. record_ok P (record_of_row r) \<and> wr_status r \<noteq> Work_claimed"
  proof
    fix r assume "r \<in> set rows"
    then obtain r0 where r0: "r0 \<in> set rows0" "delivered_or_same P (live_recorded k) r0 r"
      using list_all2_mem [OF a(1)] by blast
    then show "record_ok P (record_of_row r) \<and> wr_status r \<noteq> Work_claimed"
      using a(2) same_record [of r r0] by (auto simp: delivered_or_same_def outbox_start_def)
  qed
qed

lemma process_ok:
  assumes "outbox_ok P rows0 (rows, k, c)"
  shows "\<exists>rows' k' c' rep. outbox_process P send tick opts (rows, k, c) = ((rows', k', c'), Done rep) \<and>
    outbox_ok P rows0 (rows', k', c') \<and>
    (if ow_claimed rep = 0 then rows' = rows
     else total_claims_left (retry_limit opts) rows' < total_claims_left (retry_limit opts) rows)"
proof -
  note ok = ok_facts [OF assms]
  obtain st' rep where run0: "outbox_process P send tick opts (rows, k, c) = (st', Done rep)"
    using process_total [of rows P send tick opts k c] ok(2) by blast
  obtain rows' k' c' where st': "st' = (rows', k', c')" by (cases st') auto
  note run = run0 [unfolded st']
  obtain c1 now where t: "tick c = (c1, now)" by fastforce
  obtain ms where ms: "live_recorded k' = live_recorded k @ ms"
    "list_all2 (\<lambda>r r'. if r \<in> set (outbox_batch opts now rows) then settled P ms r r' else r' = r) rows rows'"
    using process_Done [OF ok(1) run t] by blast
  have all: "list_all2 (delivered_or_same P (live_recorded k)) rows0 rows"
    using assms by (simp add: outbox_ok_def)
  have "list_all2 (delivered_or_same P (live_recorded k')) rows0 rows'"
    by (rule list_all2_trans [OF _ all ms(2)])
       (use delivered_later delivered_settled ms(1) in \<open>auto split: if_splits\<close>)
  then have "outbox_ok P rows0 (rows', k', c')" using assms by (simp add: outbox_ok_def)
  then show ?thesis using run process_progress [OF ok(1) run] by blast
qed

text \<open>A clock that the worker and the supervisor share, and a metrics store that only reads.\<close>

definition shared_now :: "('c \<Rightarrow> 'c \<times> int) \<Rightarrow> 'd \<times> 'k \<times> 'c \<Rightarrow> ('d \<times> 'k \<times> 'c) \<times> int" where
  "shared_now tick st = (case st of (d, k, c) \<Rightarrow> let (c', t) = tick c in ((d, k, c'), t))"

definition reading :: "(metrics_input \<Rightarrow> 's \<Rightarrow> metrics_snapshot) \<Rightarrow> metrics_input \<Rightarrow> ('s, metrics_snapshot) call" where
  "reading snapshot input s = (s, Inr (snapshot input s))"

definition pause_clock :: "(int \<Rightarrow> 'c \<Rightarrow> 'c) \<Rightarrow> int \<Rightarrow> 'd \<times> 'k \<times> 'c \<Rightarrow> 'd \<times> 'k \<times> 'c" where
  "pause_clock pause ms st = (case st of (d, k, c) \<Rightarrow> (d, k, pause ms c))"

definition outbox_rank :: "outbox_worker_options \<Rightarrow> outbox_table \<times> 'k \<times> 'c \<Rightarrow> nat" where
  "outbox_rank opts st = total_claims_left (retry_limit opts) (fst st)"

interpretation outbox: progressing_worker
  "supervisor_pass (outbox_process P send tick opts) (map_option reading snap) (shared_now tick) sopts"
  ow_claimed "pause_clock pause" "outbox_ok P rows0" "outbox_rank opts"
  for P and send :: "jet_stream_message \<Rightarrow> string \<Rightarrow> 'p \<Rightarrow> 'p \<times> jsval option"
    and tick :: "'c \<Rightarrow> 'c \<times> int" and opts snap sopts pause rows0
proof unfold_locales
  fix s :: "outbox_table \<times> ('p \<times> jet_stream_message list) \<times> 'c"
  assume ok: "outbox_ok P rows0 s"
  obtain rows k c where s: "s = (rows, k, c)" by (cases s) auto
  obtain rows' k' c' rep where run: "outbox_process P send tick opts (rows, k, c) = ((rows', k', c'), Done rep)"
    "outbox_ok P rows0 (rows', k', c')"
    "if ow_claimed rep = 0 then rows' = rows
     else total_claims_left (retry_limit opts) rows' < total_claims_left (retry_limit opts) rows"
    using process_ok [OF ok [unfolded s], of send tick opts] by blast
  show "\<exists>s' report m. supervisor_pass (outbox_process P send tick opts) (map_option reading snap)
      (shared_now tick) sopts s = (s', Done (report, m)) \<and> outbox_ok P rows0 s' \<and>
      (if ow_claimed report = 0 then outbox_rank opts s' \<le> outbox_rank opts s
       else outbox_rank opts s' < outbox_rank opts s)"
  proof (cases snap)
    case None
    then show ?thesis using run by (auto simp: supervisor_pass_def s outbox_rank_def)
  next
    case (Some f)
    obtain c'' t where "tick c' = (c'', t)" by fastforce
    then show ?thesis using run Some
      by (auto simp: supervisor_pass_def s outbox_rank_def shared_now_def reading_def Let_def outbox_ok_def)
  qed
next
  fix s :: "outbox_table \<times> ('p \<times> jet_stream_message list) \<times> 'c" and ms
  show "outbox_ok P rows0 s \<Longrightarrow> outbox_ok P rows0 (pause_clock pause ms s) \<and>
      outbox_rank opts (pause_clock pause ms s) \<le> outbox_rank opts s"
    by (cases s) (auto simp: pause_clock_def outbox_rank_def outbox_ok_def)
qed

text \<open>After a pass without work every row that no worker holds is published or out of attempts.\<close>

definition finished_row :: "int \<Rightarrow> 'p work_row \<Rightarrow> bool" where
  "finished_row limit r \<longleftrightarrow>
     wr_status r = Work_done \<or> wr_status r = Work_failed \<and> limit \<le> int (wr_attempts r)"

lemma outbox_drained_rows:
  assumes "outbox.drained P send tick opts snap sopts rows0 (rows', k', c')"
    and "wo_batch_size opts \<noteq> Some 0"
  shows "\<forall>r \<in> set rows'. finished_row (retry_limit opts) r"
proof -
  obtain s report m where d: "outbox_ok P rows0 s" "ow_claimed report = 0"
    "supervisor_pass (outbox_process P send tick opts) (map_option reading snap) (shared_now tick) sopts s =
      ((rows', k', c'), Done (report, m))"
    using assms(1) unfolding outbox.drained_def by blast
  obtain rows k c where s: "s = (rows, k, c)" by (cases s) auto
  obtain rows1 k1 c1 rep where run: "outbox_process P send tick opts (rows, k, c) = ((rows1, k1, c1), Done rep)"
    using process_ok [OF d(1) [unfolded s], of send tick opts] by blast
  have rep: "rep = report" "rows' = rows1"
    using d(3) run by (auto simp: s supervisor_pass_def shared_now_def reading_def Let_def
        split: option.splits prod.splits)
  note ok = ok_facts [OF d(1) [unfolded s]]
  obtain c2 now where t: "tick c = (c2, now)" by fastforce
  have empty: "outbox_batch opts now rows = []"
    using process_Done [OF ok(1) run t] rep(1) d(2) by (metis length_0_conv)
  have "rows1 = rows" using process_progress [OF ok(1) run] rep(1) d(2) by simp
  moreover have "\<forall>r \<in> set rows. \<not> row_eligible (Some (retry_limit opts)) now r"
    using empty assms(2) unfolding outbox_batch_def Let_def next_rows_Nil retry_limit_claim
    by (auto simp: outbox_claim_of_def split: option.splits)
  ultimately have "finished_row (retry_limit opts) r" if "r \<in> set rows'" for r
    using ok(2) rep(2) that by (cases "wr_status r") (auto simp: row_eligible_def finished_row_def)
  then show ?thesis by blast
qed


subsection \<open>Properties\<close>

definition fx_entry :: "network_event \<Rightarrow> outbox_entry" where
  "fx_entry event =
     \<lparr>oe_event_id = ee_event_id (ne_envelope event), oe_event_type = ee_type (ne_envelope event),
      oe_payload = JObj [(''envelope'', envelope_json (ne_envelope event))]\<rparr>"

definition fx_good_event :: network_event where
  "fx_good_event = fx_nats_event ''issuer.record.published'' ''root:r''"

text \<open>The table of two rows: one event can be published, the other has an unknown type.\<close>

definition fx_outbox :: outbox_table where
  "fx_outbox = [fx_work_row ''1'' 1 (fx_entry fx_good_event),
                fx_work_row ''2'' 2 (fx_entry (fx_nats_event ''no.such.type'' ''root:r''))]"

definition fx_tick :: "int \<Rightarrow> int \<times> int" where
  "fx_tick c = (c + 1, c)"

definition fx_send :: "jet_stream_message \<Rightarrow> string \<Rightarrow> unit \<Rightarrow> unit \<times> jsval option" where
  "fx_send m i p = (p, None)"

definition fx_worker :: outbox_worker_options where
  "fx_worker = \<lparr>wo_worker_id = ''w'', wo_batch_size = Some 1, wo_claim_ttl_ms = None,
     wo_max_retry_attempts = Some 2\<rparr>"

text \<open>
  The payload of a published message is a payload of the outbox: it decodes to the envelope
  it was made from, and publishing it again makes the same message.
\<close>

theorem outbox_payload_round_trip:
  assumes "jetStreamMessageFromEvent event = Done m" "envelope_valid P (ne_envelope event)"
    and "or_payload r = jm_payload m"
  shows "networkEventFromOutboxRecord P r = Inr \<lparr>ne_envelope = ne_envelope event, ne_body = NoBody\<rparr> \<and>
    jetStreamMessageFromEvent \<lparr>ne_envelope = ne_envelope event, ne_body = NoBody\<rparr> = Done m"
proof -
  have "jm_payload m = JObj [(''envelope'', envelope_json (ne_envelope event))]"
    using assms(1) by (rule message_Done)
  then have "networkEventFromOutboxRecord P r = Inr \<lparr>ne_envelope = ne_envelope event, ne_body = NoBody\<rparr>"
    using assms(2,3) by (simp add: networkEventFromOutboxRecord_def payloadObject_def get_prop_def
        envelope_round_trip decodeEventEnvelope_def)
  moreover have "jetStreamMessageFromEvent \<lparr>ne_envelope = ne_envelope event, ne_body = NoBody\<rparr> =
      jetStreamMessageFromEvent event"
    by (simp add: jetStreamMessageFromEvent_def)
  ultimately show ?thesis using assms(1) by simp
qed

theorem outbox_payload_round_trip_witness:
  "\<exists>m. jetStreamMessageFromEvent fx_good_event = Done m \<and>
     networkEventFromOutboxRecord fx_platform
       \<lparr>or_outbox_id = ''1'', or_event_id = ''evt'', or_payload = jm_payload m\<rparr> =
       Inr \<lparr>ne_envelope = ne_envelope fx_good_event, ne_body = NoBody\<rparr>"
proof -
  have "(case jetStreamMessageFromEvent fx_good_event of Done _ \<Rightarrow> True | _ \<Rightarrow> False)" by code_simp
  then obtain m where m: "jetStreamMessageFromEvent fx_good_event = Done m"
    by (cases "jetStreamMessageFromEvent fx_good_event") auto
  have v: "envelope_valid fx_platform (ne_envelope fx_good_event)" by code_simp
  show ?thesis
    using outbox_payload_round_trip [OF m v, of "\<lparr>or_outbox_id = ''1'', or_event_id = ''evt'', or_payload = jm_payload m\<rparr>"] m
    by auto
qed

text \<open>
  C15. A completed pass of the worker changes exactly the rows of its batch, each with one more
  attempt and no holder: a row is marked published only with a message for its event in the
  sink, and failed with a reason otherwise. The report counts these rows, and the sink holds
  one new message for each published one.
\<close>

theorem outbox_pass_settles_its_batch:
  assumes "distinct (map wr_id rows)" "tick c = (c1, now)"
    and "processOnce makePostgresEventOutboxWorkerStore (publishBatch P (live_publish send) live_recorded)
      tick opts (rows, k, c) = ((rows', k', c'), Done rep)"
  shows "\<exists>ms. live_recorded k' = live_recorded k @ ms \<and> length ms = ow_published rep \<and>
    list_all2 (\<lambda>r r'. if r \<in> set (outbox_batch opts now rows) then settled P ms r r' else r' = r) rows rows' \<and>
    ow_claimed rep = length (outbox_batch opts now rows) \<and>
    ow_published rep + ow_failed rep = ow_claimed rep \<and>
    ow_marked_published rep = ow_published rep \<and> ow_marked_failed rep = ow_failed rep"
proof -
  have run: "outbox_process P send tick opts (rows, k, c) = ((rows', k', c'), Done rep)"
    using assms(3) by (simp add: outbox_process_def)
  show ?thesis
  proof (rule process_Done [OF assms(1) run assms(2)])
    fix ms
    assume "live_recorded k' = live_recorded k @ ms" "ow_published rep = length ms"
      "list_all2 (\<lambda>r r'. if r \<in> set (outbox_batch opts now rows) then settled P ms r r' else r' = r) rows rows'"
      "ow_claimed rep = length (outbox_batch opts now rows)" "ow_published rep + ow_failed rep = ow_claimed rep"
      "ow_marked_published rep = ow_published rep" "ow_marked_failed rep = ow_failed rep"
    then show ?thesis by (intro exI [of _ ms] conjI) simp_all
  qed
qed

theorem outbox_pass_settles_its_batch_witness:
  "\<exists>rows k c rep. processOnce makePostgresEventOutboxWorkerStore
       (publishBatch fx_platform (live_publish fx_send) live_recorded) fx_tick
       (fx_worker\<lparr>wo_batch_size := Some 9\<rparr>) (fx_outbox, ((), []), 0) = ((rows, k, c), Done rep) \<and>
     map wr_status rows = [Work_done, Work_failed] \<and> ow_published rep + ow_failed rep = ow_claimed rep"
proof -
  let ?o = "fx_worker\<lparr>wo_batch_size := Some 9\<rparr>"
  let ?r = "processOnce makePostgresEventOutboxWorkerStore
       (publishBatch fx_platform (live_publish fx_send) live_recorded) fx_tick ?o (fx_outbox, ((), []), 0)"
  have f: "map wr_status (fst (fst ?r)) = [Work_done, Work_failed]" by code_simp
  have "(case snd ?r of Done _ \<Rightarrow> True | _ \<Rightarrow> False)" by code_simp
  then obtain rep where "snd ?r = Done rep" by (cases "snd ?r") auto
  then have r: "?r = ((fst (fst ?r), fst (snd (fst ?r)), snd (snd (fst ?r))), Done rep)"
    by (metis prod.collapse)
  have d: "distinct (map wr_id fx_outbox)" by code_simp
  have t: "fx_tick 0 = (1, 0)" by (simp add: fx_tick_def)
  have "ow_published rep + ow_failed rep = ow_claimed rep"
    using outbox_pass_settles_its_batch [OF d t r] by blast
  then show ?thesis using r f by (intro exI conjI)
qed

text \<open>A supervised worker drains the outbox.\<close>

lemma outbox_drains:
  assumes "outbox_start P rows" "wo_batch_size opts \<noteq> Some 0"
    and "so_max_iterations sopts = None" "0 < idle_limit (supervisor_options.truncate sopts)"
  shows "\<exists>rows' k' c' rep.
    runOutboxSupervisor P
      (processOnce makePostgresEventOutboxWorkerStore (publishBatch P (live_publish send) live_recorded) tick opts)
      (map_option reading snap) (shared_now tick) (\<lambda>_. False) (pause_clock pause) sopts (rows, k, c) =
      Some ((rows', k', c'), Done rep) \<and>
    sr_stop_reason rep = Stop_idle_limit \<and> map wr_id rows' = map wr_id rows \<and>
    (\<forall>r \<in> set rows'. finished_row (retry_limit opts) r) \<and>
    list_all2 (\<lambda>r r'. wr_status r' = Work_done \<longrightarrow> r' = r \<or> row_published P (live_recorded k') r) rows rows'"
proof -
  obtain c0 t0 where t: "tick c = (c0, t0)" by fastforce
  let ?pass = "supervisor_pass (outbox_process P send tick opts) (map_option reading snap) (shared_now tick) sopts"
  have "list_all2 (delivered_or_same P (live_recorded k)) rows rows"
    by (rule list_all2_refl_on) (simp add: delivered_or_same_def)
  then have ok: "outbox_ok P rows (rows, k, c0)" using assms(1) by (simp add: outbox_ok_def)
  have unbounded: "so_max_iterations (supervisor_options.truncate sopts) = None"
    using assms(3) by (simp add: supervisor_options.truncate_def)
  obtain s idle iters where s: "supervise ?pass ow_claimed (\<lambda>_. False) (pause_clock pause)
      (supervisor_options.truncate sopts) (rows, k, c0) = Some (s, Done (Stop_idle_limit, idle, iters))"
    "outbox_ok P rows s" "outbox.drained P send tick opts snap sopts rows s"
    using outbox.supervise_drains [OF ok assms(4) unbounded] by blast
  obtain rows' k' c1 where s': "s = (rows', k', c1)" by (cases s) auto
  obtain c' t' where t': "tick c1 = (c', t')" by fastforce
  have all: "list_all2 (delivered_or_same P (live_recorded k')) rows rows'"
    using s(2) by (simp add: s' outbox_ok_def)
  have "list_all2 (\<lambda>r r'. wr_status r' = Work_done \<longrightarrow> r' = r \<or> row_published P (live_recorded k') r) rows rows'"
    by (rule list_all2_mono [OF all]) (auto simp: delivered_or_same_def)
  then show ?thesis
    using s(1) t t' list_all2_ids [OF all] outbox_drained_rows [OF s(3) [unfolded s'] assms(2)]
    by (simp add: runOutboxSupervisor_def shared_now_def s' buildSupervisorReport_def Let_def
        flip: outbox_process_def)
qed

text \<open>
  A supervised worker drains the outbox. From a table whose rows nobody holds and whose events
  raise no defect, a supervisor without a bound on its iterations and without a shutdown stops
  by its idle limit, whatever the message server answers; then every row is published or failed
  with its attempts used up, no row is lost, and the event of every newly published row is in
  the log of the sink.
\<close>

theorem supervised_outbox_is_drained:
  assumes "outbox_start P rows" "wo_batch_size opts \<noteq> Some 0"
    and "so_max_iterations sopts = None" "0 < idle_limit (supervisor_options.truncate sopts)"
  shows "\<exists>rows' k' c' rep.
    runOutboxSupervisor P
      (processOnce makePostgresEventOutboxWorkerStore (publishBatch P (live_publish send) live_recorded) tick opts)
      (map_option reading snap) (shared_now tick) (\<lambda>_. False) (pause_clock pause) sopts (rows, k, c) =
      Some ((rows', k', c'), Done rep) \<and>
    sr_stop_reason rep = Stop_idle_limit \<and> map wr_id rows' = map wr_id rows \<and>
    (\<forall>r \<in> set rows'. finished_row (retry_limit opts) r) \<and>
    list_all2 (\<lambda>r r'. wr_status r' = Work_done \<longrightarrow> r' = r \<or> row_published P (live_recorded k') r) rows rows'"
  using assms by (rule outbox_drains)

definition fx_supervisor :: outbox_supervisor_options where
  "fx_supervisor = \<lparr>so_max_iterations = None, so_idle_iteration_limit = Some 2, so_poll_interval_ms = None,
     so_idle_poll_interval_ms = None, so_worker_id = ''w'', so_failed_row_limit = None,
     so_max_retry_attempts = None\<rparr>"

definition fx_run_outbox ::
  "((outbox_table \<times> (unit \<times> jet_stream_message list) \<times> int) \<times> supervisor_report outcome) option" where
  "fx_run_outbox = runOutboxSupervisor fx_platform
     (processOnce makePostgresEventOutboxWorkerStore (publishBatch fx_platform (live_publish fx_send) live_recorded)
        fx_tick fx_worker)
     (map_option reading None) (shared_now fx_tick) (\<lambda>_. False) (pause_clock (+)) fx_supervisor
     (fx_outbox, ((), []), 0)"

theorem supervised_outbox_is_drained_witness:
  "\<exists>rows k c rep. fx_run_outbox = Some ((rows, k, c), Done rep) \<and> sr_stop_reason rep = Stop_idle_limit \<and>
     (\<forall>r \<in> set rows. finished_row 2 r) \<and> length rows = 2"
proof -
  have st: "outbox_start fx_platform fx_outbox"
    by code_simp
  show ?thesis
    using supervised_outbox_is_drained [OF st, of fx_worker fx_supervisor fx_send fx_tick None "(+)" "((), [])" 0]
    unfolding fx_run_outbox_def
    by (auto simp: fx_worker_def fx_supervisor_def idle_limit_def supervisor_options.truncate_def retry_limit_def
        fx_outbox_def dest: map_eq_imp_length_eq)
qed

lemma sumWorkerReports_sum: "sumWorkerReports is f = sum_list (map (\<lambda>i. f (si_worker_report i)) is)"
proof -
  have "foldl (\<lambda>total i. total + f (si_worker_report i)) n is = n + sum_list (map (\<lambda>i. f (si_worker_report i)) is)" for n
    by (induction "is" arbitrary: n) auto
  then show ?thesis by (simp add: sumWorkerReports_def)
qed

lemma run_Done:
  assumes "runOutboxSupervisor P process load now aborted sleep sopts s = Some (s', Done rep)"
  obtains s0 s1 t0 t1 reason idle iters where
    "supervise (supervisor_pass process load now sopts) ow_claimed aborted sleep
       (supervisor_options.truncate sopts) s0 = Some (s1, Done (reason, idle, iters))"
    "rep = buildSupervisorReport P sopts t0 t1 reason idle iters"
  using assms unfolding runOutboxSupervisor_def
  by (auto simp: Let_def split: prod.splits option.splits outcome.splits)

text \<open>
  The report of a supervisor, over any worker and metrics store, adds up: iterations are
  numbered from one and within the bound, totals are the sums over the worker's reports, the
  idle count is the length of the last run of passes without work, and the reason given for
  stopping is the case.
\<close>

theorem supervisor_report_adds_up:
  assumes "runOutboxSupervisor P process load now aborted sleep sopts s = Some (s', Done rep)"
  shows "map si_iteration (sr_iteration_reports rep) = [1..<sr_iterations rep + 1] \<and>
    sr_claimed rep = (\<Sum>i \<leftarrow> sr_iteration_reports rep. ow_claimed (si_worker_report i)) \<and>
    sr_published rep = (\<Sum>i \<leftarrow> sr_iteration_reports rep. ow_published (si_worker_report i)) \<and>
    sr_failed rep = (\<Sum>i \<leftarrow> sr_iteration_reports rep. ow_failed (si_worker_report i)) \<and>
    sr_idle_iterations rep = idle_suffix ow_claimed (sr_iteration_reports rep) \<and>
    (case so_max_iterations sopts of None \<Rightarrow> sr_stop_reason rep \<noteq> Stop_max_iterations
     | Some m \<Rightarrow> int (sr_iterations rep) \<le> max 0 m \<and>
         (sr_stop_reason rep = Stop_max_iterations \<longrightarrow> m \<le> int (sr_iterations rep))) \<and>
    (sr_stop_reason rep = Stop_idle_limit \<longrightarrow>
       idle_limit (supervisor_options.truncate sopts) \<le> int (sr_idle_iterations rep))"
  using assms
proof (rule run_Done)
  fix s0 s1 t0 t1 reason idle iters
  assume sup: "supervise (supervisor_pass process load now sopts) ow_claimed aborted sleep
       (supervisor_options.truncate sopts) s0 = Some (s1, Done (reason, idle, iters))"
    and rep: "rep = buildSupervisorReport P sopts t0 t1 reason idle iters"
  have tr: "so_max_iterations (supervisor_options.truncate sopts) = so_max_iterations sopts"
    by (simp add: supervisor_options.truncate_def)
  show ?thesis
    using supervise_facts [OF sup]
    by (auto simp: rep buildSupervisorReport_def Let_def sumWorkerReports_sum loop_facts_def
        stop_justified_def below_max_def tr simp del: upt_Suc split: option.splits)
qed

definition fx_process :: "nat \<Rightarrow> nat \<times> outbox_worker_report outcome" where
  "fx_process n = (Suc n, Done ((emptyWorkerReport ''w'')\<lparr>ow_claimed := if n = 0 then 3 else 0\<rparr>))"

definition fx_run :: "(nat \<times> supervisor_report outcome) option" where
  "fx_run = runOutboxSupervisor fx_platform fx_process None (\<lambda>s. (s, 0)) (\<lambda>_. False) (\<lambda>_ s. s) fx_supervisor 0"

lemma fx_run_returns:
  obtains rep where "fx_run = Some (3, Done rep)" "sr_claimed rep = 3" "sr_idle_iterations rep = 2"
    "sr_stop_reason rep = Stop_idle_limit"
  by (simp add: fx_run_def runOutboxSupervisor_def supervise_def supervise_loop.simps fx_process_def
      supervisor_pass_def fx_supervisor_def supervisor_options.truncate_def below_max_def idle_limit_def
      buildSupervisorReport_def sumWorkerReports_def emptyWorkerReport_def Let_def)

theorem supervisor_report_adds_up_witness:
  "\<exists>s rep. fx_run = Some (s, Done rep) \<and> sr_claimed rep = 3 \<and> sr_idle_iterations rep = 2 \<and>
     idle_suffix ow_claimed (sr_iteration_reports rep) = 2"
proof (rule fx_run_returns)
  fix rep
  assume r: "fx_run = Some (3, Done rep)" "sr_claimed rep = 3" "sr_idle_iterations rep = 2"
  then show ?thesis
    using supervisor_report_adds_up [OF r(1) [unfolded fx_run_def]] by auto
qed

text \<open>
  C18. A supervisor with a bound on its iterations returns, whatever its worker and its metrics
  store do, after at most that many iterations.
\<close>

theorem bounded_supervisor_returns:
  assumes "so_max_iterations sopts = Some m"
  shows "\<exists>s' r. runOutboxSupervisor P process load now aborted sleep sopts s = Some (s', r) \<and>
    (case r of Done rep \<Rightarrow> int (sr_iterations rep) \<le> max 0 m | _ \<Rightarrow> True)"
proof -
  have tr: "so_max_iterations (supervisor_options.truncate sopts) = Some m"
    using assms by (simp add: supervisor_options.truncate_def)
  have "supervise (supervisor_pass process load now sopts) ow_claimed aborted sleep
      (supervisor_options.truncate sopts) s0 \<noteq> None" for s0
    using supervise_loop_bounded [OF tr, of "supervisor_pass process load now sopts" ow_claimed aborted sleep "[]" 0 s0]
    by (auto simp: supervise_def split: option.splits outcome.splits)
  moreover obtain s0 t0 where "now s = (s0, t0)" by fastforce
  ultimately obtain a b where "now s = (s0, t0)"
    "supervise (supervisor_pass process load now sopts) ow_claimed aborted sleep
       (supervisor_options.truncate sopts) s0 = Some (a, b)"
    by (metis not_None_eq surj_pair)
  then have "runOutboxSupervisor P process load now aborted sleep sopts s \<noteq> None"
    by (cases b) (auto simp: runOutboxSupervisor_def Let_def split: prod.splits)
  then obtain s' r where r: "runOutboxSupervisor P process load now aborted sleep sopts s = Some (s', r)" by auto
  have "int (sr_iterations rep) \<le> max 0 m" if "r = Done rep" for rep
    using r unfolding that
  proof (rule run_Done)
    fix s0 s1 t0 t1 reason idle iters
    assume sup: "supervise (supervisor_pass process load now sopts) ow_claimed aborted sleep
         (supervisor_options.truncate sopts) s0 = Some (s1, Done (reason, idle, iters))"
      and rep: "rep = buildSupervisorReport P sopts t0 t1 reason idle iters"
    show ?thesis
      using supervise_facts(1) [OF sup] tr by (simp add: loop_facts_def rep buildSupervisorReport_def Let_def)
  qed
  then show ?thesis using r by (cases r) auto
qed

theorem bounded_supervisor_returns_witness:
  "\<exists>s' r. runOutboxSupervisor fx_platform
     (processOnce makePostgresEventOutboxWorkerStore (publishBatch fx_platform (live_publish fx_send) live_recorded)
        fx_tick fx_worker)
     None (shared_now fx_tick) (\<lambda>_. False) (pause_clock (+))
     (fx_supervisor\<lparr>so_max_iterations := Some 1, so_idle_iteration_limit := None\<rparr>)
     (fx_outbox, ((), []), 0) = Some (s', r) \<and>
     (case r of Done rep \<Rightarrow> int (sr_iterations rep) \<le> max 0 1 | _ \<Rightarrow> True)"
  by (rule bounded_supervisor_returns) simp

text \<open>
  A row whose event type names a member of every object ends each pass that claims it with a
  defect before anything is marked; the row, and every other row of its batch, stays claimed, and
  is claimed again when the claim expires, without a bound on the attempts.
\<close>

lemma poison_row_blocks_its_batch:
  "let rows = [fx_work_row ''1'' 1 (fx_entry (fx_nats_event ''constructor'' ''root:r'')),
               fx_work_row ''2'' 2 (fx_entry fx_good_event)];
       opts = fx_worker\<lparr>wo_batch_size := None, wo_claim_ttl_ms := Some 1\<rparr>;
       pass = (\<lambda>st. processOnce makePostgresEventOutboxWorkerStore
         (publishBatch fx_platform (live_publish fx_send) live_recorded) (\<lambda>c. (c + 1, c)) opts st);
       (st1, out1) = pass (rows, ((), []), 0 :: int);
       (st2, out2) = pass st1; (st3, out3) = pass st2
   in out3 = Died (TypeError ''subjectTail.startsWith is not a function'') \<and>
      map wr_attempts (fst st3) = [3, 3] \<and> map wr_status (fst st3) = [Work_claimed, Work_claimed] \<and>
      live_recorded (fst (snd st3)) = []"
  by code_simp

end
