(* ===== verification/MaterializationFacts.thy ===== *)
theory MaterializationFacts
  imports Materialization DestinationPolicyFacts ScannerFacts
begin

text \<open>
  Facts on the materialisation of cache entries: its decoders accept what the publication decoders
  accept, it implements the specification of an authorised chain of artifacts, its window is that
  of the whole chain, a published policy materialises to itself, and the cache resolves the entry.
\<close>

subsection \<open>The two decoders of policies\<close>

lemma requireString_stringValue: "requireString v l = stringValue v l"
  by (cases v) (auto simp: requireString_def stringValue_def)

lemma requireString_Inr [simp]: "requireString v l = Inr s \<longleftrightarrow> v = JStr s \<and> s \<noteq> []"
  by (simp add: requireString_stringValue)

lemma recordValue_Inr [simp]: "recordValue v l = Inr w \<longleftrightarrow> w = v \<and> is_record v"
  by (auto simp: recordValue_def)

lemma requireBoolean_Inr [simp]: "requireBoolean v l = Inr b \<longleftrightarrow> v = JBool b"
  by (cases v) (auto simp: requireBoolean_def)

lemma requireLiteral_Inr [simp]: "requireLiteral v l a = Inr s \<longleftrightarrow> v = JStr s \<and> s \<in> set a"
  by (auto simp: requireLiteral_def image_iff)

lemma requireArray_Inr [simp]: "requireArray v l = Inr xs \<longleftrightarrow> v = JArr xs"
  by (cases v) (auto simp: requireArray_def)

lemma str_elements: "list_all is_str xs \<Longrightarrow> map JStr (map str_of xs) = xs"
  by (induction xs) (auto simp: is_str_iff)

lemma str_of_strs [simp]: "map str_of (map JStr ss) = ss" "list_all is_str (map JStr ss)"
  by (induction ss) auto

lemma requireStringArray_Inr: "requireStringArray v l = Inr ss \<longleftrightarrow> v = strings_json ss"
proof -
  have "list_all is_str xs \<and> map str_of xs = ss \<longleftrightarrow> xs = map JStr ss" for xs
    using str_elements str_of_strs by metis
  then show ?thesis by (auto simp: requireStringArray_def and_then_Inr strings_json_def simp del: map_map)
qed

lemma requireHttpsUrl_Inr: "requireHttpsUrl P v l = Inr s \<longleftrightarrow> httpsUrlValue P v l' = Inr s"
  by (auto simp: requireHttpsUrl_def httpsUrlValue_def and_then_Inr Let_def split: option.splits if_splits)

lemma lower_char_dot [simp]: "lower_char c = CHR ''.'' \<longleftrightarrow> c = CHR ''.''"
proof
  assume "lower_char c = CHR ''.''"
  then have "of_char (lower_char c) = (46 :: nat)" by simp
  then have "of_char c = (of_char CHR ''.'' :: nat)"
    by (auto simp: lower_char_def Let_def split: if_splits)
  then show "c = CHR ''.''" by (simp only: of_char_eq_iff)
qed (simp add: lower_char_def)

lemma lower_drop_dot: "js_lower (drop_trailing_dot s) = drop_trailing_dot (js_lower s)"
  by (auto simp: drop_trailing_dot_def js_lower_def last_map map_butlast)

lemma requireHostname_Inr: "requireHostname v l = Inr h \<longleftrightarrow> hostnameValue v l' = Inr h"
  by (auto simp: requireHostname_def hostnameValue_def and_then_Inr Let_def normalizeDomain_def
      lower_drop_dot dns_hostname_ok_def list_ex_iff list_all_iff split: if_splits)

lemma requirePathPrefix_Inr: "requirePathPrefix v l = Inr p \<longleftrightarrow> pathPrefixValue v l' = Inr p"
  by (auto simp: requirePathPrefix_def pathPrefixValue_def and_then_Inr Let_def split: if_splits)

lemma requireNonNegativeInteger_Inr:
  "requireNonNegativeInteger v l = Inr n \<longleftrightarrow> nonNegativeIntegerValue v l' = Inr n"
  by (auto simp: requireNonNegativeInteger_def requireNumber_def nonNegativeIntegerValue_def and_then_Inr
      split: jsval.splits jsnum.splits if_splits)

text \<open>A check of strings gives the same lists through both array functions.\<close>

lemma require_strings_of_Inr:
  assumes "\<And>v y. f v = Inr y \<longleftrightarrow> g v = Inr y" and "\<And>v y. g v = Inr y \<Longrightarrow> is_str v"
  shows "require_strings_of f v l = Inr ys \<longleftrightarrow> array_of g v l' = Inr ys"
proof -
  have eq: "map_result f xs = Inr ys \<longleftrightarrow> map_result g xs = Inr ys" for xs
    by (simp add: map_result_Inr assms(1))
  have strs: "\<exists>ss. xs = map JStr ss" if "map_result g xs = Inr ys" for xs
  proof -
    have "\<forall>x \<in> set xs. is_str x"
      using that assms(2) by (fastforce simp: map_result_Inr list_all2_conv_all_nth in_set_conv_nth)
    then show ?thesis using str_elements [of xs] by (metis list_all_iff)
  qed
  show ?thesis
    using eq strs by (auto simp: require_strings_of_def array_of_def and_then_Inr requireStringArray_Inr
        strings_json_def)
qed

lemma decoded_strings:
  "httpsUrlValue P v l = Inr s \<Longrightarrow> is_str v" "hostnameValue v l = Inr s \<Longrightarrow> is_str v"
  "pathPrefixValue v l = Inr s \<Longrightarrow> is_str v"
  by (auto simp: httpsUrlValue_def hostnameValue_def pathPrefixValue_def and_then_Inr)

lemma url_lists:
  "require_strings_of (\<lambda>u. requireHttpsUrl P u la) v l = Inr us \<longleftrightarrow>
     array_of (\<lambda>u. httpsUrlValue P u lb) v l' = Inr us"
  by (rule require_strings_of_Inr) (auto simp: requireHttpsUrl_Inr dest: decoded_strings)

lemma host_lists:
  "require_strings_of (\<lambda>h. requireHostname h la) v l = Inr hs \<longleftrightarrow>
     array_of (\<lambda>h. hostnameValue h lb) v l' = Inr hs"
  by (rule require_strings_of_Inr) (auto simp: requireHostname_Inr dest: decoded_strings)

lemma path_lists:
  "require_strings_of (\<lambda>p. requirePathPrefix p la) v l = Inr ps \<longleftrightarrow>
     array_of (\<lambda>p. pathPrefixValue p lb) v l' = Inr ps"
  by (rule require_strings_of_Inr) (auto simp: requirePathPrefix_Inr dest: decoded_strings)

text \<open>
  Query keys on which both decoders are defined alike: absent, or an array of non-empty strings.
  (Publication reads null as absent, materialisation accepts empty strings.)
\<close>

definition plain_query_keys :: "jsval \<Rightarrow> bool" where
  "plain_query_keys v \<longleftrightarrow>
     (let keys = get_prop v ''allowed_query_keys''
      in keys = JUndefined \<or> (keys = strings_json (map str_of (elements keys)) \<and> JStr [] \<notin> set (elements keys)))"

lemma nonempty_strings:
  "array_of (\<lambda>x. stringValue x l) v l' = Inr ss \<longleftrightarrow> v = strings_json ss \<and> [] \<notin> set ss"
proof -
  have "map_result (\<lambda>x. stringValue x l) xs = Inr ts \<longleftrightarrow> xs = map JStr ts \<and> [] \<notin> set ts" for xs ts
  proof (induction xs arbitrary: ts)
    case (Cons x xs)
    then show ?case by (cases ts) (auto simp: and_then_Inr)
  qed auto
  then show ?thesis by (auto simp: array_of_def and_then_Inr strings_json_def)
qed

lemma plain_keys_agree:
  assumes "plain_query_keys v"
  shows "(let keys = get_prop v ''allowed_query_keys''
          in if keys = JUndefined then Inr None
             else and_then (requireStringArray keys l) (\<lambda>keys. Inr (Some keys))) = Inr k \<longleftrightarrow>
         optionalStringArrayProperty v ''allowed_query_keys'' = Inr k"
  using assms
  by (auto simp: plain_query_keys_def optionalStringArrayProperty_def Let_def and_then_Inr
      requireStringArray_Inr nonempty_strings strings_json_def)

lemma decoders_agree:
  assumes "plain_query_keys v"
  shows "(destinationRule P v = Inr d \<longleftrightarrow> destinationPolicyRuleFromUnknown P v = Inr d) \<and>
    (redirectPolicy P w = Inr r \<longleftrightarrow> redirectPolicyFromUnknown P w = Inr r)"
proof
  show "destinationRule P v = Inr d \<longleftrightarrow> destinationPolicyRuleFromUnknown P v = Inr d"
    unfolding destinationRule_def destinationPolicyRuleFromUnknown_def and_then_Inr
      recordValue_Inr object_Inr requireString_Inr stringValue_Inr requireBoolean_Inr boolean_Inr
      requireLiteral_Inr literal_Inr plain_keys_agree [OF assms] query_policies_def
      requireHttpsUrl_Inr [where l' = "''expected_final_url''"]
      host_lists [where lb = "''allowed_hosts[]''" and l' = "''allowed_hosts''"]
      path_lists [where lb = "''path_prefixes[]''" and l' = "''path_prefixes''"]
    using plain_keys_agree [OF assms] by auto
  show "redirectPolicy P w = Inr r \<longleftrightarrow> redirectPolicyFromUnknown P w = Inr r"
    unfolding redirectPolicy_def redirectPolicyFromUnknown_def and_then_Inr
      recordValue_Inr object_Inr requireBoolean_Inr boolean_Inr
      requireNonNegativeInteger_Inr [where l' = "''max_redirect_hops''"]
      url_lists [where la = "''redirect resolver_urls[]''" and lb = "''resolver_urls[]''"
        and l' = "''resolver_urls''"]
      url_lists [where la = "''redirect expected_final_destinations[]''"
        and lb = "''expected_final_destinations[]''" and l' = "''expected_final_destinations''"]
      host_lists [where lb = "''allowed_redirect_hosts[]''" and l' = "''allowed_redirect_hosts''"]
    by simp
qed



subsection \<open>The chain of artifacts\<close>

text \<open>
  The specification: what the artifacts of a chain say of each other, with the lists of the
  manifests read as finite maps from ids to a status and the id of an artifact.
\<close>

definition delegations :: "root_manifest_body \<Rightarrow> string \<rightharpoonup> string \<times> string" where
  "delegations b = map_of (map (\<lambda>a. (ar_delegated_authority_id a, ar_status a, ar_manifest_ref a))
     (rm_delegated_authorities b))"

definition enrollments :: "delegated_authority_body \<Rightarrow> string \<rightharpoonup> string \<times> string" where
  "enrollments b = map_of (map (\<lambda>i. (en_issuer_id i, en_status i, en_issuer_record_ref i))
     (da_enrolled_issuers b))"

definition policy_refs :: "issuer_record_body \<Rightarrow> string \<rightharpoonup> string \<times> string" where
  "policy_refs b = map_of (map (\<lambda>p. (ipr_destination_policy_id p, ipr_status p, ipr_policy_ref p))
     (ir_destination_policies b))"

definition policy_namespace :: "destination_policy_body \<Rightarrow> issuer_namespace" where
  "policy_namespace b = \<lparr>ns_root_program_id = db_root_program_id b,
     ns_delegated_authority_id = db_delegated_authority_id b, ns_issuer_id = db_issuer_id b\<rparr>"

text \<open>The certificate that the status event names, or else the first one of the issuer record.\<close>

definition chain_certificate :: "artifact_chain \<Rightarrow> string option" where
  "chain_certificate c =
     (case se_certificate_ref (ch_status c) of
        Some r \<Rightarrow> Some r
      | None \<Rightarrow> (case ir_certificate_refs (ch_issuer c) of [] \<Rightarrow> None | r # _ \<Rightarrow> Some r))"

definition authorised_chain :: "materialization_input \<Rightarrow> artifact_chain \<Rightarrow> string \<Rightarrow> bool" where
  "authorised_chain input c certificate \<longleftrightarrow>
     (let ns = ir_issuer_namespace (ch_issuer c) in
      rm_root_program_id (ch_root c) = ns_root_program_id ns \<and>
      da_root_program_id (ch_authority c) = ns_root_program_id ns \<and>
      da_delegated_authority_id (ch_authority c) = ns_delegated_authority_id ns \<and>
      policy_namespace (ch_policy c) = ns \<and>
      delegations (ch_root c) (ns_delegated_authority_id ns) =
        Some (''active'', sa_artifact_id (mat_delegated_authority_manifest input)) \<and>
      enrollments (ch_authority c) (ns_issuer_id ns) =
        Some (''active'', sa_artifact_id (mat_issuer_record input)) \<and>
      policy_refs (ch_issuer c) (db_destination_policy_id (ch_policy c)) =
        Some (''active'', sa_artifact_id (mat_destination_policy input)) \<and>
      ir_issuer_status (ch_issuer c) = ''active'' \<and> ir_certificate_status (ch_issuer c) = ''active'' \<and>
      se_root_program_id (ch_status c) = ns_root_program_id ns \<and>
      se_delegated_authority_id (ch_status c) = ns_delegated_authority_id ns \<and>
      se_target_type (ch_status c) = ''issuer_record'' \<and>
      se_issuer_id (ch_status c) = Some (ns_issuer_id ns) \<and> se_status (ch_status c) = ''active'' \<and>
      chain_certificate c = Some certificate \<and>
      certificate \<noteq> [] \<and> certificate \<in> set (ir_certificate_refs (ch_issuer c)))"

lemma map_of_find:
  "map_of (map (\<lambda>x. (k x, f x)) xs) i = map_option f (find (\<lambda>x. k x = i) xs)"
  by (induction xs) auto

lemma check_Inr [simp]:
  "requireEqual a b m = Inr u \<longleftrightarrow> a = b"
  "requireTruthy x m = Inr y \<longleftrightarrow> x = Some y"
  "requireRefMatchesArtifact r i m = Inr u \<longleftrightarrow> r = i"
  by (auto simp: requireEqual_def requireTruthy_def requireRefMatchesArtifact_def split: option.splits)

lemma require_equal_all_Inr [simp]:
  "require_equal_all [] = Inr ()"
  "require_equal_all ((a, b, m) # xs) = Inr u \<longleftrightarrow> a = b \<and> require_equal_all xs = Inr u"
  by (auto simp: require_equal_all_def each_def and_then_Inr)

lemma keep_truthy_eq_Some: "keep_truthy x = Some s \<longleftrightarrow> x = Some s \<and> s \<noteq> []"
  by (auto simp: keep_truthy_def truthy_str_def split: option.splits)

lemma policy_namespace_iff:
  "policy_namespace b = ns \<longleftrightarrow> db_root_program_id b = ns_root_program_id ns \<and>
     db_delegated_authority_id b = ns_delegated_authority_id ns \<and> db_issuer_id b = ns_issuer_id ns"
  by (cases ns) (auto simp: policy_namespace_def)

lemma check_chain_Inr: "check_chain input c = Inr cert \<longleftrightarrow> authorised_chain input c cert"
  unfolding check_chain_def authorised_chain_def Let_def and_then_Inr delegations_def enrollments_def
    policy_refs_def map_of_find chain_certificate_def [symmetric] keep_truthy_eq_Some check_Inr
  by (auto simp: policy_namespace_iff split: if_splits)

lemma materialize_Inr:
  "materializeVerifierCacheEntry P input = Inr r \<longleftrightarrow>
     (\<exists>c cert. decode_chain P input = Inr c \<and> authorised_chain input c cert \<and> r = chain_report P input c cert)"
  by (auto simp: materializeVerifierCacheEntry_def materializeVerifierCacheEntryUnsafe_def and_then_Inr
      check_chain_Inr)


subsection \<open>The window of an entry\<close>

lemma earliestIso_Cons: "earliestIso d (t # ts) = earliestIso (if js_less t d then t else d) ts"
  by (simp add: earliestIso_def)

lemma latestIso_Cons: "latestIso d (t # ts) = latestIso (if js_less d t then t else d) ts"
  by (simp add: latestIso_def)

lemma iso_Nil [simp]: "earliestIso d [] = d" "latestIso d [] = d"
  by (simp_all add: earliestIso_def latestIso_def)

lemma earliestIso_bound: "t \<in> set (d # ts) \<Longrightarrow> js_le (earliestIso d ts) t"
proof (induction ts arbitrary: d t)
  case (Cons u us)
  let ?m = "if js_less u d then u else d"
  have m: "js_le ?m d" "js_le ?m u" by (auto simp: js_less_imp_le js_not_less)
  have le: "js_le (earliestIso ?m us) ?m" by (rule Cons.IH) simp
  have "js_le (earliestIso ?m us) d" "js_le (earliestIso ?m us) u"
    using js_le_trans [OF le m(1)] js_le_trans [OF le m(2)] .
  moreover have "js_le (earliestIso ?m us) t" if "t \<in> set us" using that Cons.IH [of t ?m] by simp
  ultimately show ?case using Cons.prems unfolding earliestIso_Cons by (metis set_ConsD)
qed simp

lemma earliestIso_mem: "earliestIso d ts \<in> set (d # ts)"
proof (induction ts arbitrary: d)
  case (Cons u us)
  show ?case unfolding earliestIso_Cons using Cons.IH [of "if js_less u d then u else d"] by (auto split: if_splits)
qed simp

lemma latestIso_bound: "t \<in> set (d # ts) \<Longrightarrow> js_le t (latestIso d ts)"
proof (induction ts arbitrary: d t)
  case (Cons u us)
  let ?m = "if js_less d u then u else d"
  have m: "js_le d ?m" "js_le u ?m" by (auto simp: js_less_imp_le js_not_less)
  have le: "js_le ?m (latestIso ?m us)" by (rule Cons.IH) simp
  have "js_le d (latestIso ?m us)" "js_le u (latestIso ?m us)"
    using js_le_trans [OF m(1) le] js_le_trans [OF m(2) le] .
  moreover have "js_le t (latestIso ?m us)" if "t \<in> set us" using that Cons.IH [of t ?m] by simp
  ultimately show ?case using Cons.prems unfolding latestIso_Cons by (metis set_ConsD)
qed simp

lemma latestIso_mem: "latestIso d ts \<in> set (d # ts)"
proof (induction ts arbitrary: d)
  case (Cons u us)
  show ?case unfolding latestIso_Cons using Cons.IH [of "if js_less d u then u else d"] by (auto split: if_splits)
qed simp

text \<open>The instants at which the artifacts of a chain are published and end.\<close>

definition chain_starts :: "artifact_chain \<Rightarrow> string list" where
  "chain_starts c =
     [pu_published_at (rm_publication (ch_root c)), pu_published_at (da_publication (ch_authority c)),
      pu_published_at (ir_publication (ch_issuer c)), pu_published_at (db_publication (ch_policy c)),
      se_effective_at (ch_status c)]"

definition chain_ends :: "artifact_chain \<Rightarrow> string list" where
  "chain_ends c =
     [pu_valid_until (rm_publication (ch_root c)), pu_valid_until (da_publication (ch_authority c)),
      pu_valid_until (ir_publication (ch_issuer c)), pu_valid_until (db_publication (ch_policy c))] @
     (case se_expires_at (ch_status c) of None \<Rightarrow> [] | Some t \<Rightarrow> [t])"

lemma report_window:
  fixes P input c cert
  defines "r \<equiv> chain_report P input c cert"
  shows "ce_cache_expires_at (mr_cache_entry r) = earliestIso (hd (chain_ends c)) (tl (chain_ends c))"
    "ce_state_published_at (mr_cache_entry r) = latestIso (hd (chain_starts c)) (tl (chain_starts c))"
    "ce_cache_generated_at (mr_cache_entry r) = iso_string P (mat_materialized_at input)"
  by (auto simp: r_def chain_report_def Let_def chain_ends_def chain_starts_def
      split: option.splits)

lemma report_projections:
  fixes P input c cert
  defines "r \<equiv> chain_report P input c cert"
  shows "ip_cache_expires_at (mr_issuer_projection r) = ce_cache_expires_at (mr_cache_entry r)"
    "dp_cache_expires_at (mr_destination_policy_projection r) = ce_cache_expires_at (mr_cache_entry r)"
    "ip_cache_generated_at (mr_issuer_projection r) = ce_cache_generated_at (mr_cache_entry r)"
    "dp_cache_generated_at (mr_destination_policy_projection r) = ce_cache_generated_at (mr_cache_entry r)"
    "ip_namespace (mr_issuer_projection r) = ir_issuer_namespace (ch_issuer c)"
    "dp_namespace (mr_destination_policy_projection r) = ir_issuer_namespace (ch_issuer c)"
    "issuer_key (mr_issuer_projection r) = policy_key (mr_destination_policy_projection r)"
    "mr_materialization_warnings r =
       (if js_less (ce_cache_expires_at (mr_cache_entry r)) (ce_cache_generated_at (mr_cache_entry r))
        then [''cache_materialized_after_expiry''] else [])"
  by (simp_all add: r_def chain_report_def Let_def issuer_key_def policy_key_def materializationWarnings_def)

lemma chain_window:
  assumes "r = chain_report P input c cert"
  defines "e \<equiv> mr_cache_entry r"
  shows "t \<in> set (chain_ends c) \<Longrightarrow> js_le (ce_cache_expires_at e) t"
    "ce_cache_expires_at e \<in> set (chain_ends c)"
    "t \<in> set (chain_starts c) \<Longrightarrow> js_le t (ce_state_published_at e)"
    "ce_state_published_at e \<in> set (chain_starts c)"
proof -
  have ne: "chain_ends c = hd (chain_ends c) # tl (chain_ends c)" "chain_starts c = hd (chain_starts c) # tl (chain_starts c)"
    by (simp_all add: chain_ends_def chain_starts_def)
  show "t \<in> set (chain_ends c) \<Longrightarrow> js_le (ce_cache_expires_at e) t" "ce_cache_expires_at e \<in> set (chain_ends c)"
    "t \<in> set (chain_starts c) \<Longrightarrow> js_le t (ce_state_published_at e)" "ce_state_published_at e \<in> set (chain_starts c)"
    unfolding e_def assms(1) report_window
    using earliestIso_bound earliestIso_mem latestIso_bound latestIso_mem ne by metis+
qed


subsection \<open>Published policies\<close>

lemma array_of_cong:
  assumes "map_result f xs = Inr ys"
  shows "require_array_of f (JArr xs) l = Inr ys"
  using assms by (simp add: require_array_of_def requireArray_def)

lemma canonical_host_lower: "canonical_host h \<Longrightarrow> js_lower h = h"
  by (metis canonical_host_def lower_normal)

lemma rule_json_plain: "canonical_rule P d \<Longrightarrow> plain_query_keys (rule_json d)"
  by (auto simp: plain_query_keys_def rule_props canonical_rule_def opt_all_def strings_json_def list_all_iff
      Let_def comp_def split: option.splits)

lemma rule_materializes: "canonical_rule P d \<Longrightarrow> destinationRule P (rule_json d) = Inr d"
  using decoders_agree [OF rule_json_plain] rule_encoded by blast

lemma redirect_materializes: "canonical_redirect P r \<Longrightarrow> redirectPolicy P (redirect_json r) = Inr r"
  using decoders_agree [where v = JUndefined] redirect_encoded by (auto simp: plain_query_keys_def get_prop_def)

lemma policy_body_materializes:
  assumes "canonical_policy P p" "sa_body a = destinationPolicyArtifactBody p"
    and "destinationPolicyBody P a = Inr b"
  shows "policy_namespace b = dp_namespace p" "db_destination_policy_id b = dp_destination_policy_id p"
    "db_approved_destinations b = dp_approved_destinations p" "db_redirect_policy b = dp_redirect_policy p"
proof -
  have "map_result (destinationRule P) (map rule_json (dp_approved_destinations p)) = Inr (dp_approved_destinations p)"
    using assms(1) by (intro map_result_encoded [where Q = "canonical_rule P"])
      (auto simp: canonical_policy_def rule_materializes)
  moreover have "redirectPolicy P (redirect_json (dp_redirect_policy p)) = Inr (dp_redirect_policy p)"
    using assms(1) by (simp add: canonical_policy_def redirect_materializes)
  ultimately show "policy_namespace b = dp_namespace p" "db_destination_policy_id b = dp_destination_policy_id p"
    "db_approved_destinations b = dp_approved_destinations p" "db_redirect_policy b = dp_redirect_policy p"
    using assms(2,3)
    by (auto simp: destinationPolicyBody_def and_then_Inr recordBody_def body_props array_of_cong
        policy_namespace_iff split: if_splits)
qed

lemma canonical_rule_normal: "canonical_rule P d \<Longrightarrow> normalizeDestinationRule d = d"
  by (auto simp: normalizeDestinationRule_def canonical_rule_def list_all_iff canonical_host_lower
      intro!: destination_policy_rule.equality map_idI)

lemma canonical_hosts:
  assumes "list_all (canonical_rule P) ds"
  shows "js_unique (concat (map (\<lambda>d. map js_lower (dr_allowed_hosts d)) ds)) =
    uniqueStrings (concat (map (\<lambda>d. map normalizeDomain (dr_allowed_hosts d)) ds))"
proof -
  have hosts: "map js_lower (dr_allowed_hosts d) = dr_allowed_hosts d \<and>
      map normalizeDomain (dr_allowed_hosts d) = dr_allowed_hosts d \<and> [] \<notin> set (dr_allowed_hosts d)"
    if "d \<in> set ds" for d
    using that assms
    by (auto simp: list_all_iff canonical_rule_def canonical_host_lower canonical_host_def dns_hostname_ok_def
        intro!: map_idI)
  have "map (\<lambda>d. map js_lower (dr_allowed_hosts d)) ds = map dr_allowed_hosts ds"
    "map (\<lambda>d. map normalizeDomain (dr_allowed_hosts d)) ds = map dr_allowed_hosts ds"
    using hosts by auto
  moreover have "filter (\<lambda>v. v \<noteq> []) (concat (map dr_allowed_hosts ds)) = concat (map dr_allowed_hosts ds)"
    using hosts by (auto simp: filter_id_conv)
  ultimately show ?thesis by (simp only: uniqueStrings_def)
qed


subsection \<open>The entry in the cache\<close>

definition entry_cache :: "materialization_report \<Rightarrow> accepted_root_policy \<Rightarrow> verifier_cache" where
  "entry_cache r roots = makeInMemoryVerifierCache [mr_issuer_projection r] [mr_destination_policy_projection r] roots"

lemma single_entry_cache:
  fixes i p roots
  assumes "ip_namespace i = dp_namespace p" "issuer_key i = policy_key p"
  defines "s \<equiv> makeInMemoryVerifierCache [i] [p] roots"
  shows "issuersByPolicyKey s = [(policy_key p, i)]" "policiesByKey s = [(policy_key p, p)]"
    "acceptedRoots s = roots" "hasAuthorityContext s (dp_namespace p)"
  using assms(2)
  by (simp_all add: s_def makeInMemoryVerifierCache_def Let_def seedAuthorityContext_def putProjection_def
      upsertDestinationPolicy_def mergeRootAuthorityContextSync_def mergeDelegatedAuthorityIssuerContextSync_def
      hasAuthorityContext_def authorityIssuerKey_def assms(1) AList.update_conv' js_set_add_def)

lemma entry_cache:
  assumes "r = chain_report P input c cert"
  defines "p \<equiv> mr_destination_policy_projection r"
  shows "issuersByPolicyKey (entry_cache r roots) = [(policy_key p, mr_issuer_projection r)]"
    "policiesByKey (entry_cache r roots) = [(policy_key p, p)]"
    "acceptedRoots (entry_cache r roots) = roots" "hasAuthorityContext (entry_cache r roots) (dp_namespace p)"
  using single_entry_cache [of "mr_issuer_projection r" p roots]
  by (simp_all add: entry_cache_def p_def assms(1) report_projections)

lemma allowed_host_matches:
  assumes "r = chain_report P input c cert" "h \<in> set (dp_allowed_hosts (mr_destination_policy_projection r))"
  shows "policyAllowsHost (mr_destination_policy_projection r) h"
  using assms
  by (auto simp: chain_report_def Let_def allowedHosts_def policyAllowsHost_def list_ex_iff
      normalizeDestinationRule_def ruleAllowsHost_def)

lemma chronological_subset:
  "chronological P ts \<Longrightarrow> set us \<subseteq> set ts \<Longrightarrow> chronological P us"
  by (auto simp: chronological_def list_all_iff)

text \<open>
  The decoders of publication and of materialisation agree: a redirect policy is accepted by
  one exactly if it is by the other, with the same result, and so is a destination rule whose
  query keys are absent or non-empty strings.
\<close>

theorem policy_decoders_agree:
  assumes "plain_query_keys v"
  shows "(destinationRule P v = Inr d \<longleftrightarrow> destinationPolicyRuleFromUnknown P v = Inr d) \<and>
    (redirectPolicy P w = Inr r \<longleftrightarrow> redirectPolicyFromUnknown P w = Inr r)"
  by (rule decoders_agree [OF assms])

theorem policy_decoders_agree_witness:
  "destinationRule fx_platform (rule_json fx_rule) = Inr fx_rule \<and>
   redirectPolicy fx_platform (redirect_json fx_redirect) = Inr fx_redirect"
proof -
  have "plain_query_keys (rule_json fx_rule)" by code_simp
  moreover have "destinationPolicyRuleFromUnknown fx_platform (rule_json fx_rule) = Inr fx_rule"
    "redirectPolicyFromUnknown fx_platform (redirect_json fx_redirect) = Inr fx_redirect" by code_simp+
  ultimately show ?thesis
    using policy_decoders_agree [of "rule_json fx_rule" fx_platform fx_rule "redirect_json fx_redirect" fx_redirect]
    by blast
qed

text \<open>A chain of five artifacts for the witnesses.\<close>

definition fx_validity :: "string \<times> jsval" where
  "fx_validity = (''publication'', JObj [(''published_at'', JStr ''2026-01-01T00:00:00.000Z''),
     (''valid_until'', JStr ''2026-12-31T00:00:00.000Z'')])"

definition fx_active :: "(string \<times> string) list \<Rightarrow> jsval" where
  "fx_active props = JObj (map (\<lambda>(k, v). (k, JStr v)) (props @ [(''status'', ''active'')]))"

definition fx_artifact :: "string \<Rightarrow> jsval \<Rightarrow> signed_artifact" where
  "fx_artifact i b = \<lparr>sa_artifact_id = i, sa_artifact_hash = ''sha256:00'', sa_artifact_type = i,
     sa_version = 1, sa_body = b\<rparr>"

definition fx_root_manifest :: signed_artifact where
  "fx_root_manifest = fx_artifact ''r'' (JObj
     [(''artifact_type'', JStr ''root_manifest''), (''root_program_id'', JStr ''root:r''),
      (''delegated_authorities'', JArr [fx_active [(''delegated_authority_id'', ''authority:a''), (''manifest_ref'', ''a'')]]),
      fx_validity])"

definition fx_authority_manifest :: signed_artifact where
  "fx_authority_manifest = fx_artifact ''a'' (JObj
     [(''artifact_type'', JStr ''delegated_authority_manifest''), (''root_program_id'', JStr ''root:r''),
      (''delegated_authority_id'', JStr ''authority:a''),
      (''enrolled_issuers'', JArr [fx_active [(''issuer_id'', ''issuer:i''), (''issuer_record_ref'', ''i''),
         (''assurance_tier'', ''t'')]]),
      fx_validity])"

definition fx_issuer_record :: signed_artifact where
  "fx_issuer_record = fx_artifact ''i'' (JObj
     [(''artifact_type'', JStr ''issuer_record''),
      (''issuer_namespace'', namespace_json fx_ns), (''issuer_display_name'', JStr ''I''),
      (''assurance_tier'', JStr ''t''), (''certificate_refs'', JArr [JStr ''cert'']),
      (''destination_policies'', JArr [fx_active [(''destination_policy_id'', ''policy:p''), (''policy_ref'', ''p'')]]),
      (''status'', JObj [(''issuer_status'', JStr ''active''), (''certificate_status'', JStr ''active''),
         (''status_event_ref'', JStr ''s'')]),
      fx_validity])"

definition fx_status_event :: "string \<Rightarrow> signed_artifact" where
  "fx_status_event status = fx_artifact ''s'' (JObj
     [(''artifact_type'', JStr ''revocation_status_event''), (''root_program_id'', JStr ''root:r''),
      (''delegated_authority_id'', JStr ''authority:a''),
      (''target'', JObj [(''target_type'', JStr ''issuer_record''), (''issuer_id'', JStr ''issuer:i'')]),
      (''status'', JStr status), (''effective_at'', JStr ''2026-01-01T00:00:00.000Z'')])"

definition fx_chain :: materialization_input where
  "fx_chain = \<lparr>mat_root_manifest = fx_root_manifest, mat_delegated_authority_manifest = fx_authority_manifest,
     mat_issuer_record = fx_issuer_record,
     mat_destination_policy = fx_artifact ''p'' (destinationPolicyArtifactBody fx_policy),
     mat_status_event = fx_status_event ''active'', mat_materialized_at = 1767225600000,
     mat_max_staleness_seconds = None, mat_stale_behavior = None\<rparr>"

definition is_Inr :: "'a + 'b \<Rightarrow> bool" where
  "is_Inr x = (case x of Inl _ \<Rightarrow> False | Inr _ \<Rightarrow> True)"

lemma is_InrD: "is_Inr x \<Longrightarrow> \<exists>y. x = Inr y"
  by (cases x) (auto simp: is_Inr_def)

lemma fx_chain_materializes:
  obtains r c where "materializeVerifierCacheEntry fx_platform fx_chain = Inr r" "decode_chain fx_platform fx_chain = Inr c"
proof -
  have "is_Inr (materializeVerifierCacheEntry fx_platform fx_chain)" by code_simp
  then obtain r where r: "materializeVerifierCacheEntry fx_platform fx_chain = Inr r" by (blast dest: is_InrD)
  then obtain c where "decode_chain fx_platform fx_chain = Inr c" by (auto simp: materialize_Inr)
  with r show thesis by (rule that)
qed

lemma fx_policy_canonical: "canonical_policy fx_platform fx_policy"
  by code_simp

lemma suspended_status_is_not_materialized:
  "\<not> is_Inr (materializeVerifierCacheEntry fx_platform (fx_chain\<lparr>mat_status_event := fx_status_event ''suspended''\<rparr>))"
  by code_simp

text \<open>
  C26. The window of a materialised entry is the common window of its chain, in the string order in
  which the code compares timestamps: the entry, and both projections, expire with the first artifact
  that does, the state is as old as the latest publication, and an entry made after its own expiry
  carries the warning.
\<close>

theorem materialized_window_is_the_common_window:
  assumes "materializeVerifierCacheEntry P input = Inr r" "decode_chain P input = Inr c"
  shows "(let e = mr_cache_entry r in
    ce_cache_expires_at e \<in> set (chain_ends c) \<and> list_all (js_le (ce_cache_expires_at e)) (chain_ends c) \<and>
    ce_state_published_at e \<in> set (chain_starts c) \<and>
    list_all (\<lambda>t. js_le t (ce_state_published_at e)) (chain_starts c) \<and>
    ip_cache_expires_at (mr_issuer_projection r) = ce_cache_expires_at e \<and>
    dp_cache_expires_at (mr_destination_policy_projection r) = ce_cache_expires_at e \<and>
    (mr_materialization_warnings r = [] \<longleftrightarrow> js_le (iso_string P (mat_materialized_at input)) (ce_cache_expires_at e)))"
proof -
  obtain cert where r: "r = chain_report P input c cert" using assms by (auto simp: materialize_Inr)
  show ?thesis
    using chain_window [OF r] report_projections [of P input c cert] report_window(3) [of P input c cert]
    by (simp add: Let_def list_all_iff r [symmetric] js_le_def)
qed

theorem materialized_window_is_the_common_window_witness:
  "\<exists>r c. materializeVerifierCacheEntry fx_platform fx_chain = Inr r \<and> decode_chain fx_platform fx_chain = Inr c \<and>
     list_all (js_le (ce_cache_expires_at (mr_cache_entry r))) (chain_ends c)"
proof (rule fx_chain_materializes)
  fix r c
  assume rc: "materializeVerifierCacheEntry fx_platform fx_chain = Inr r" "decode_chain fx_platform fx_chain = Inr c"
  show ?thesis using materialized_window_is_the_common_window [OF rc] rc by (auto simp: Let_def)
qed

text \<open>
  A published policy materialises to itself: from the artifact that publication makes of a
  canonical policy, an authorised chain gives back that policy, with the window of the chain.
\<close>

theorem published_policy_materializes:
  assumes "canonical_policy P p"
    and "sa_body (mat_destination_policy input) = destinationPolicyArtifactBody p"
    and "materializeVerifierCacheEntry P input = Inr r"
  shows "mr_destination_policy_projection r =
    p\<lparr>dp_cache_generated_at := iso_string P (mat_materialized_at input),
      dp_cache_expires_at := ce_cache_expires_at (mr_cache_entry r)\<rparr>"
proof -
  obtain c cert where c: "decode_chain P input = Inr c" "authorised_chain input c cert"
    and r: "r = chain_report P input c cert" using assms(3) by (auto simp: materialize_Inr)
  have "destinationPolicyBody P (mat_destination_policy input) = Inr (ch_policy c)"
    using c(1) by (auto simp: decode_chain_def and_then_Inr)
  note b = policy_body_materializes [OF assms(1,2) this]
  have rules: "list_all (canonical_rule P) (dp_approved_destinations p)"
    and redirect: "list_all canonical_host (rp_allowed_redirect_hosts (dp_redirect_policy p))"
    using assms(1) by (auto simp: canonical_policy_def canonical_redirect_def)
  have "map normalizeDestinationRule (dp_approved_destinations p) = dp_approved_destinations p"
    using rules by (intro map_idI) (auto simp: list_all_iff canonical_rule_normal)
  moreover have "map js_lower (rp_allowed_redirect_hosts (dp_redirect_policy p)) =
      rp_allowed_redirect_hosts (dp_redirect_policy p)"
    using redirect by (intro map_idI) (auto simp: list_all_iff canonical_host_lower)
  moreover have "ir_issuer_namespace (ch_issuer c) = dp_namespace p"
    using c(2) b(1) by (auto simp: authorised_chain_def Let_def)
  moreover have "allowedHosts (ch_policy c) = dp_allowed_hosts p"
    using assms(1) canonical_hosts [OF rules] by (simp add: allowedHosts_def b canonical_policy_def)
  ultimately show ?thesis
    using assms(1) by (simp add: r chain_report_def Let_def b canonical_policy_def)
qed

theorem published_policy_materializes_witness:
  "\<exists>r. materializeVerifierCacheEntry fx_platform fx_chain = Inr r \<and>
     dp_approved_destinations (mr_destination_policy_projection r) = [fx_rule]"
proof (rule fx_chain_materializes)
  fix r c
  assume r: "materializeVerifierCacheEntry fx_platform fx_chain = Inr r"
  have "sa_body (mat_destination_policy fx_chain) = destinationPolicyArtifactBody fx_policy"
    by (simp add: fx_chain_def fx_artifact_def)
  from published_policy_materializes [OF fx_policy_canonical this r] r
  show ?thesis by (simp add: fx_policy_def)
qed

text \<open>
  C<n>. The cache resolves what it was given: over the cache of a materialised entry whose root is
  accepted, every URL at an allowed host resolves to the policy of the entry, with the expiry of
  the entry.
\<close>

theorem materialized_entry_is_resolved:
  assumes "materializeVerifierCacheEntry P input = Inr r"
    and "roots (ns_root_program_id (dp_namespace (mr_destination_policy_projection r)))"
    and "js_lower (hostname u) \<in> set (dp_allowed_hosts (mr_destination_policy_projection r))"
  shows "\<exists>res. resolveByDestination P (entry_cache r roots) u None = Some res \<and>
    res_policy res = mr_destination_policy_projection r \<and>
    ip_cache_expires_at (res_issuer res) = ce_cache_expires_at (mr_cache_entry r)"
proof -
  let ?p = "mr_destination_policy_projection r"
  obtain c cert where r: "r = chain_report P input c cert" using assms(1) by (auto simp: materialize_Inr)
  note s = entry_cache [OF r, of roots]
  have "policyAllowsLookupHost P ?p (js_lower (hostname u))"
    using allowed_host_matches [OF r assms(3)] by (simp add: policyAllowsLookupHost_def)
  then have m: "findPolicyMatchWithAuthorityContext (entry_cache r roots) (js_lower (hostname u))
      (policyAllowsLookupHost P) = Some (mr_issuer_projection r, ?p)"
    using assms(2) by (simp add: findPolicyMatchWithAuthorityContext_def s)
  then have res: "resolveByDestination P (entry_cache r roots) u None =
      Some (resolveDestination P (mr_issuer_projection r) ?p u (js_lower (hostname u)))"
    by (simp add: resolveByDestination_def)
  from this obtain i host where i: "map_of (issuersByPolicyKey (entry_cache r roots)) (policy_key ?p) = Some i"
    "res_issuer (resolveDestination P (mr_issuer_projection r) ?p u (js_lower (hostname u))) = materializeIssuer i ?p host"
    by (rule resolved_issuer) simp
  then show ?thesis
    using res s report_projections [of P input c cert] by (auto simp: r [symmetric] minIsoDate_pair)
qed

theorem materialized_entry_is_resolved_witness:
  "\<exists>r res. materializeVerifierCacheEntry fx_platform fx_chain = Inr r \<and>
     resolveByDestination fx_platform (entry_cache r acceptAllRootsPolicy) fx_pay None = Some res \<and>
     res_policy res = mr_destination_policy_projection r"
proof (rule fx_chain_materializes)
  fix r c
  assume r: "materializeVerifierCacheEntry fx_platform fx_chain = Inr r"
  have "case materializeVerifierCacheEntry fx_platform fx_chain of Inl _ \<Rightarrow> False
    | Inr r \<Rightarrow> ''h.x'' \<in> set (dp_allowed_hosts (mr_destination_policy_projection r))" by code_simp
  then have "js_lower (hostname fx_pay) \<in> set (dp_allowed_hosts (mr_destination_policy_projection r))"
    by (simp add: r fx_pay_def fx_url_def js_lower_def lower_char_def)
  from materialized_entry_is_resolved [OF r _ this, of acceptAllRootsPolicy] r
  show ?thesis by (auto simp: acceptAllRootsPolicy_def)
qed

text \<open>
  C20. A green decision over the cache of a materialised entry is made under an accepted root, on
  the policy of an authorised chain, and before any artifact of that chain expires. It is required
  that the instant of the materialisation and the expiries of the chain parse and
  that their texts are in string order as their instants are in time: the code takes the earliest
  expiry by comparing strings and accepts other forms of an instant, for which the last part can fail.
\<close>

theorem green_needs_a_live_chain:
  assumes "materializeVerifierCacheEntry P input = Inr r" "decode_chain P input = Inr c"
    and "chronological P (iso_string P (mat_materialized_at input) # chain_ends c)"
    and "decide P (resolveByDestination P (entry_cache r roots)) inspect publish uuid si b = (b', Done d)"
    and "sd_decision_color d = Green"
  shows "roots (rm_root_program_id (ch_root c)) \<and> (\<exists>cert. authorised_chain input c cert) \<and>
    (\<exists>res. sd_governance d = Some (governance_of res) \<and> res_policy res = mr_destination_policy_projection r) \<and>
    (\<forall>t \<in> set (chain_ends c). \<exists>e. date_parse P t = Some e \<and> si_observedAt si < e)"
  using assms(4,5)
proof (rule green_decision)
  fix u res v
  let ?s = "entry_cache r roots" and ?p = "mr_destination_policy_projection r"
  assume g: "green_grounds P (resolveByDestination P ?s) inspect si u res v"
    "d = makeGreenDecision P uuid si (destinationFromUrl u) res v"
  obtain cert where r: "r = chain_report P input c cert" and chain: "authorised_chain input c cert"
    using assms(1,2) by (auto simp: materialize_Inr)
  note s = entry_cache [OF r, of roots] and proj = report_projections [of P input c cert, folded r]
  have res: "resolveByDestination P ?s u (si_issuerHintHost si) = Some res"
    and fresh: "cacheFreshnessStatus P res (si_observedAt si) = Check_fresh"
    using g by (auto simp: green_grounds_def)
  have p: "res_policy res = ?p" using resolved_stored [OF res] by (simp add: s)
  have "chronological P (cache_timestamps ?s)"
    using assms(3) chain_window(2) [OF r] report_window(3) [of P input c cert]
    by (elim chronological_subset) (auto simp: cache_timestamps_def s proj r [symmetric])
  from fresh_within_windows [OF this res fresh] obtain e where e:
    "date_parse P (ce_cache_expires_at (mr_cache_entry r)) = Some e" "si_observedAt si < e"
    by (auto simp: p within_window_def proj split: option.splits)
  have "\<exists>e. date_parse P t = Some e \<and> si_observedAt si < e" if t: "t \<in> set (chain_ends c)" for t
    using chronologicalD [OF assms(3), of "ce_cache_expires_at (mr_cache_entry r)" t] t e
      chain_window(1) [OF r t] chain_window(2) [OF r] by fastforce
  moreover have "roots (rm_root_program_id (ch_root c))"
    using resolved_trusted [OF res] chain by (auto simp: p namespace_trusted_def s proj authorised_chain_def Let_def)
  ultimately show ?thesis
    using g(2) p chain by (auto simp: makeGreenDecision_def)
qed

theorem green_needs_a_live_chain_witness:
  "\<exists>r c d. materializeVerifierCacheEntry fx_platform fx_chain = Inr r \<and> decode_chain fx_platform fx_chain = Inr c \<and>
     (\<exists>b. fx_decide (entry_cache r acceptAllRootsPolicy) ''https://h.x/pay'' = (b, Done d)) \<and>
     sd_decision_color d = Green \<and> (\<exists>cert. authorised_chain fx_chain c cert)"
proof (rule fx_chain_materializes)
  fix r c
  assume rc: "materializeVerifierCacheEntry fx_platform fx_chain = Inr r" "decode_chain fx_platform fx_chain = Inr c"
  have "case decode_chain fx_platform fx_chain of Inl _ \<Rightarrow> False
    | Inr c \<Rightarrow> chronological fx_platform (iso_string fx_platform (mat_materialized_at fx_chain) # chain_ends c)"
    by code_simp
  then have chron: "chronological fx_platform (iso_string fx_platform (mat_materialized_at fx_chain) # chain_ends c)"
    by (simp add: rc)
  have "case materializeVerifierCacheEntry fx_platform fx_chain of Inl _ \<Rightarrow> False
    | Inr r \<Rightarrow> outcome_color (snd (fx_decide (entry_cache r acceptAllRootsPolicy) ''https://h.x/pay'')) = Some Green"
    by code_simp
  then have "outcome_color (snd (fx_decide (entry_cache r acceptAllRootsPolicy) ''https://h.x/pay'')) = Some Green"
    by (simp add: rc)
  then obtain b d where d: "fx_decide (entry_cache r acceptAllRootsPolicy) ''https://h.x/pay'' = (b, Done d)"
    "sd_decision_color d = Green" by (rule fx_decided)
  show ?thesis
    using green_needs_a_live_chain [OF rc chron d(1) [unfolded fx_decide_def] d(2)] rc d by blast
qed

end
