(* ===== verification/QueueWorkersFacts.thy ===== *)
theory QueueWorkersFacts
  imports QueueWorkers OutboxFacts MaterializationFacts
begin

text \<open>
  Facts on the two work-item queues, proved once for the shape of their workers: a pass settles
  exactly the rows it claims, with evidence for each completed one, and a supervised worker
  leaves no row open. What a completed row means is the evidence of the queue at hand.
\<close>

subsection \<open>Records\<close>

text \<open>
  The step of a worker names its record, a success comes with evidence in the state it leads to,
  and no later step takes evidence back.
\<close>

locale work_step =
  fixes step :: "'w queue_record \<Rightarrow> 'k \<Rightarrow> 'k \<times> (defect + ('f + 's))"
    and success_id :: "'s \<Rightarrow> string" and failure_id :: "'f \<Rightarrow> string"
    and evidence :: "'w \<Rightarrow> 's \<Rightarrow> 'k \<Rightarrow> bool"
  assumes step_success: "step r k = (k', Inr (Inr s)) \<Longrightarrow>
      success_id s = qr_work_item_id r \<and> evidence (qr_work r) s k'"
    and step_failure: "step r k = (k', Inr (Inl f)) \<Longrightarrow> failure_id f = qr_work_item_id r"
    and step_keeps: "step r k = (k', out) \<Longrightarrow> evidence w s k \<Longrightarrow> evidence w s k'"
begin

lemma records_keep:
  "process_records step rs ss fs k = (k', out) \<Longrightarrow> evidence w s k \<Longrightarrow> evidence w s k'"
proof (induction rs arbitrary: ss fs k)
  case (Cons r rs)
  obtain k1 o1 where st: "step r k = (k1, o1)" by fastforce
  then have "evidence w s k1" using step_keeps Cons.prems(2) by blast
  then show ?case
    using Cons st by (auto split: sum.splits)
qed simp

lemma records_account:
  assumes "process_records step rs ss fs k = (k', Inr (ss', fs'))"
  shows "mset (map success_id ss') + mset (map failure_id fs') =
      mset (map success_id ss) + mset (map failure_id fs) + mset (map qr_work_item_id rs)"
    "\<forall>s \<in> set ss'. s \<in> set ss \<or> (\<exists>r \<in> set rs. success_id s = qr_work_item_id r \<and> evidence (qr_work r) s k')"
  using assms
proof (induction rs arbitrary: ss fs k)
  case Nil
  { case 1 then show ?case by simp next case 2 then show ?case by simp }
next
  case (Cons r rs)
  have kinds: thesis
    if "\<And>k1 d. step r k = (k1, Inl d) \<Longrightarrow> thesis" "\<And>k1 f. step r k = (k1, Inr (Inl f)) \<Longrightarrow> thesis"
      "\<And>k1 s. step r k = (k1, Inr (Inr s)) \<Longrightarrow> thesis" for k thesis
    using that by (metis prod.exhaust sum.exhaust)
  {
    case (1 ss fs k)
    show ?case
    proof (rule kinds [of k])
      fix k1 f
      assume st: "step r k = (k1, Inr (Inl f))"
      then have run: "process_records step rs ss (fs @ [f]) k1 = (k', Inr (ss', fs'))" using 1 by simp
      show ?thesis using Cons.IH(1) [OF run] step_failure [OF st] by simp
    next
      fix k1 s
      assume st: "step r k = (k1, Inr (Inr s))"
      then have run: "process_records step rs (ss @ [s]) fs k1 = (k', Inr (ss', fs'))" using 1 by simp
      show ?thesis using Cons.IH(1) [OF run] step_success [OF st] by simp
    qed (use 1 in simp)
  next
    case (2 ss fs k)
    show ?case
    proof (rule kinds [of k])
      fix k1 f
      assume st: "step r k = (k1, Inr (Inl f))"
      then have run: "process_records step rs ss (fs @ [f]) k1 = (k', Inr (ss', fs'))" using 2 by simp
      show ?thesis using Cons.IH(2) [OF run] by auto
    next
      fix k1 s
      assume st: "step r k = (k1, Inr (Inr s))"
      then have run: "process_records step rs (ss @ [s]) fs k1 = (k', Inr (ss', fs'))" using 2 by simp
      have "success_id s = qr_work_item_id r \<and> evidence (qr_work r) s k'"
        using step_success [OF st] records_keep [OF run] by blast
      then show ?thesis using Cons.IH(2) [OF run] by auto
    qed (use 2 in simp)
  }
qed

text \<open>A record on which the step never ends with a defect.\<close>

definition alive :: "'w \<Rightarrow> bool" where
  "alive w \<longleftrightarrow> (\<forall>i k k' d. step \<lparr>qr_work_item_id = i, qr_work = w\<rparr> k \<noteq> (k', Inl d))"

lemma records_total:
  "\<forall>r \<in> set rs. alive (qr_work r) \<Longrightarrow> \<exists>k' ss' fs'. process_records step rs ss fs k = (k', Inr (ss', fs'))"
proof (induction rs arbitrary: ss fs k)
  case (Cons r rs)
  obtain k1 o1 where st: "step r k = (k1, o1)" by fastforce
  have "alive (qr_work r)" using Cons.prems by simp
  then have "o1 \<noteq> Inl d" for d
    using st unfolding alive_def by (cases r) (metis (full_types) queue_record.select_convs(2))
  then obtain o2 where "o1 = Inr o2" by (cases o1) auto
  then show ?case using Cons st by (cases o2) auto
qed simp

end


subsection \<open>Tables\<close>

text \<open>How a pass settles a row that it claims.\<close>

definition work_settled ::
  "('w \<Rightarrow> 's \<Rightarrow> 'k \<Rightarrow> bool) \<Rightarrow> ('p \<Rightarrow> 'w) \<Rightarrow> ('s \<Rightarrow> 'p \<Rightarrow> 'p) \<Rightarrow> 'k \<Rightarrow> 'p work_row \<Rightarrow> 'p work_row \<Rightarrow> bool" where
  "work_settled evidence work_of receipt k r r' \<longleftrightarrow>
     wr_id r' = wr_id r \<and> wr_attempts r' = wr_attempts r + 1 \<and>
     wr_claimed_by r' = None \<and> wr_claim_expires_at r' = None \<and>
     (wr_status r' = Work_done \<and>
        (\<exists>s. evidence (work_of (wr_payload r)) s k \<and> wr_payload r' = receipt s (wr_payload r)) \<or>
      wr_status r' = Work_failed \<and> wr_last_error r' \<noteq> None \<and> wr_payload r' = wr_payload r)"

definition queue_batch :: "queue_worker_options \<Rightarrow> int \<Rightarrow> 'p work_row list \<Rightarrow> 'p work_row list" where
  "queue_batch opts now rows = next_rows None now (qc_batch_size (queue_claim_of opts now)) rows"

definition open_row :: "'p work_row \<Rightarrow> bool" where
  "open_row r \<longleftrightarrow> wr_status r = Work_pending \<or> wr_status r = Work_claimed"

text \<open>The marks of a store, over the claim of the work table without retries.\<close>

locale queue_table = work_step step success_id failure_id evidence
  for step :: "'w queue_record \<Rightarrow> 'k \<Rightarrow> 'k \<times> (defect + ('f + 's))"
    and success_id :: "'s \<Rightarrow> string" and failure_id :: "'f \<Rightarrow> string"
    and evidence :: "'w \<Rightarrow> 's \<Rightarrow> 'k \<Rightarrow> bool" +
  fixes store :: "('p work_row list, 'w, 's, 'f) queue_store" and work_of :: "'p \<Rightarrow> 'w"
    and reason_of :: "'f \<Rightarrow> string" and receipt :: "'s \<Rightarrow> 'p \<Rightarrow> 'p"
  assumes claim: "qs_claim_pending store input rows =
      (fst (claim_rows None (qc_worker_id input) (qc_claimed_at input) (qc_claim_expires_at input) (qc_batch_size input) rows),
       Inr (map (\<lambda>r. \<lparr>qr_work_item_id = wr_id r, qr_work = work_of (wr_payload r)\<rparr>)
         (next_rows None (qc_claimed_at input) (qc_batch_size input) rows)))"
    and completed: "ss \<noteq> [] \<Longrightarrow> qs_mark_completed store ss t rows =
      (map (\<lambda>r. case find (\<lambda>s. success_id s = wr_id r) ss of None \<Rightarrow> r
              | Some s \<Rightarrow> (done_row t r)\<lparr>wr_payload := receipt s (wr_payload r)\<rparr>) rows,
       Inr (length ss))"
    and failed: "fs \<noteq> [] \<Longrightarrow> qs_mark_failed store fs t rows =
      (mark_failed (map (\<lambda>f. (failure_id f, reason_of f)) fs) rows, Inr (length fs))"
    and receipt_work [simp]: "work_of (receipt s p) = work_of p"
begin

definition work_record :: "'p work_row \<Rightarrow> 'w queue_record" where
  "work_record r = \<lparr>qr_work_item_id = wr_id r, qr_work = work_of (wr_payload r)\<rparr>"

lemma work_record [simp]: "qr_work_item_id (work_record r) = wr_id r" "qr_work (work_record r) = work_of (wr_payload r)"
  by (simp_all add: work_record_def)

definition receipted :: "'s \<Rightarrow> int \<Rightarrow> 'p work_row \<Rightarrow> 'p work_row" where
  "receipted s t r = (done_row t r)\<lparr>wr_payload := receipt s (wr_payload r)\<rparr>"

lemma receipted_row [simp]:
  "wr_id (receipted s t r) = wr_id r" "wr_payload (receipted s t r) = receipt s (wr_payload r)"
  "wr_status (receipted s t r) = Work_done" "wr_attempts (receipted s t r) = wr_attempts r"
  "wr_claimed_by (receipted s t r) = None" "wr_claim_expires_at (receipted s t r) = None"
  by (simp_all add: receipted_def done_row_def)

definition completed_rows :: "'s list \<Rightarrow> int \<Rightarrow> 'p work_row list \<Rightarrow> 'p work_row list" where
  "completed_rows ss t rows =
     map (\<lambda>r. case find (\<lambda>s. success_id s = wr_id r) ss of None \<Rightarrow> r | Some s \<Rightarrow> receipted s t r) rows"

definition failed_rows :: "'f list \<Rightarrow> 'p work_row list \<Rightarrow> 'p work_row list" where
  "failed_rows fs rows = mark_failed (map (\<lambda>f. (failure_id f, reason_of f)) fs) rows"

lemma marks:
  "(if ss = [] then (rows, Inr 0) else qs_mark_completed store ss t rows) = (completed_rows ss t rows, Inr (length ss))"
  "(if fs = [] then (rows, Inr 0) else qs_mark_failed store fs t rows) = (failed_rows fs rows, Inr (length fs))"
  unfolding completed_rows_def failed_rows_def receipted_def by (simp_all add: completed failed)

definition claimed_rows :: "queue_worker_options \<Rightarrow> int \<Rightarrow> 'p work_row list \<Rightarrow> 'p work_row list" where
  "claimed_rows opts now rows =
     (let input = queue_claim_of opts now
      in fst (claim_rows None (qo_worker_id opts) now (qc_claim_expires_at input) (qc_batch_size input) rows))"

lemma claim_of: "qs_claim_pending store (queue_claim_of opts now) rows =
    (claimed_rows opts now rows, Inr (map work_record (queue_batch opts now rows)))"
  by (simp add: claim claimed_rows_def queue_batch_def work_record_def queue_claim_of_def Let_def)

lemma pass_idle:
  assumes "tick c = (c1, now)" "queue_batch opts now rows = []"
  shows "process_queue store step tick opts (rows, k, c) =
    ((rows, k, c1), Done (empty_queue_report (qo_worker_id opts)))"
  using assms claim_of [of opts now rows]
  by (simp add: process_queue_def claimed_rows_def claim_rows_def update_rows_def queue_batch_def queue_claim_of_def Let_def)

lemma pass_batch:
  assumes "tick c = (c1, now)" "queue_batch opts now rows \<noteq> []"
    and "process_records step (map work_record (queue_batch opts now rows)) [] [] k = (k1, out)"
    and "tick c1 = (c2, t)"
  shows "process_queue store step tick opts (rows, k, c) =
    (case out of
       Inl d \<Rightarrow> ((claimed_rows opts now rows, k1, c1), Died d)
     | Inr (ss, fs) \<Rightarrow> ((failed_rows fs (completed_rows ss t (claimed_rows opts now rows)), k1, c2), Done
         \<lparr>qw_worker_id = qo_worker_id opts, qw_claimed = length (queue_batch opts now rows),
          qw_attempted = length (queue_batch opts now rows), qw_completed = length ss, qw_failed = length fs,
          qw_marked_completed = length ss, qw_marked_failed = length fs, qw_successes = ss, qw_failures = fs\<rparr>))"
proof (cases out)
  case (Inl d)
  then show ?thesis using assms claim_of [of opts now rows] by (simp add: process_queue_def)
next
  case (Inr p)
  then show ?thesis using assms claim_of [of opts now rows] by (cases p) (simp add: process_queue_def Let_def marks)
qed

lemma settle_rows:
  assumes d: "distinct (map wr_id rows)"
    and ids: "mset (map success_id ss) + mset (map failure_id fs) = mset (map wr_id (queue_batch opts now rows))"
    and ev: "\<forall>s \<in> set ss. \<exists>r \<in> set (queue_batch opts now rows).
      success_id s = wr_id r \<and> evidence (work_of (wr_payload r)) s k'"
  shows "list_all2 (\<lambda>r r'. if r \<in> set (queue_batch opts now rows) then work_settled evidence work_of receipt k' r r' else r' = r)
    rows (failed_rows fs (completed_rows ss t (claimed_rows opts now rows)))"
proof -
  let ?b = "queue_batch opts now rows"
  let ?c = "claimed_row (qo_worker_id opts) now (qc_claim_expires_at (queue_claim_of opts now))"
  have table: "claimed_rows opts now rows = map (\<lambda>r. if r \<in> set ?b then ?c r else r) rows"
    unfolding claimed_rows_def queue_batch_def Let_def by (rule claim_rows_rows [OF d])
  have "set_mset (mset (map success_id ss) + mset (map failure_id fs)) = wr_id ` set ?b"
    unfolding ids by (simp only: set_mset_mset set_map)
  then have cover: "success_id ` set ss \<union> failure_id ` set fs = wr_id ` set ?b" by simp
  have "distinct (map wr_id ?b)" unfolding queue_batch_def by (rule distinct_next_rows [OF d])
  then have "distinct (map success_id ss @ map failure_id fs)"
    using ids mset_eq_imp_distinct_iff [of "map success_id ss @ map failure_id fs" "map wr_id ?b"]
    by (metis mset_append)
  then have disjoint: "success_id ` set ss \<inter> failure_id ` set fs = {}" by simp
  have inb: "r \<in> set rows" if "r \<in> set ?b" for r
    using that next_rows_eligible(1) unfolding queue_batch_def by blast
  have same: "r' = r" if "r \<in> set rows" "r' \<in> set rows" "wr_id r' = wr_id r" for r r'
    using that d by (auto simp: distinct_map dest: inj_onD)
  show ?thesis
    unfolding failed_rows_def completed_rows_def mark_failed_def table map_map list_all2_map2
  proof (rule list_all2_refl_on, goal_cases)
    case (1 r)
    show ?case
    proof (cases "r \<in> set ?b")
      case False
      have "wr_id r \<noteq> wr_id r'" if "r' \<in> set ?b" for r'
        using same [OF 1 inb [OF that]] that False by metis
      then have "wr_id r \<notin> wr_id ` set ?b" by blast
      then have "wr_id r \<notin> success_id ` set ss" "wr_id r \<notin> failure_id ` set fs"
        unfolding cover [symmetric] by blast+
      then have "find (\<lambda>s. success_id s = wr_id r) ss = None"
        "map_of (map (\<lambda>f. (failure_id f, reason_of f)) fs) (wr_id r) = None"
        unfolding find_None_iff map_of_eq_None_iff by (metis image_eqI, simp add: image_image)
      then show ?thesis using False by simp
    next
      case True
      show ?thesis
      proof (cases "wr_id r \<in> failure_id ` set fs")
        case fail: True
        then have "map_of (map (\<lambda>f. (failure_id f, reason_of f)) fs) (wr_id r) \<noteq> None"
          by (simp add: map_of_eq_None_iff image_image)
        then obtain reason where reason: "map_of (map (\<lambda>f. (failure_id f, reason_of f)) fs) (wr_id r) = Some reason"
          by blast
        have "wr_id r \<notin> success_id ` set ss" using fail disjoint by blast
        then have "find (\<lambda>s. success_id s = wr_id r) ss = None"
          unfolding find_None_iff by (metis image_eqI)
        then show ?thesis
          using True reason by (simp add: work_settled_def failed_row_def claimed_row_def)
      next
        case False
        then have "wr_id r \<in> success_id ` set ss" using True cover by blast
        then obtain s where s: "find (\<lambda>s. success_id s = wr_id r) ss = Some s"
          by (cases "find (\<lambda>s. success_id s = wr_id r) ss") (auto simp: find_None_iff)
        then have "s \<in> set ss" "success_id s = wr_id r" by (auto dest: find_SomeD)
        then obtain r' where r': "r' \<in> set ?b" "wr_id r' = wr_id r" "evidence (work_of (wr_payload r')) s k'"
          using ev by force
        then have "r' = r" using same inb True by blast
        moreover have "map_of (map (\<lambda>f. (failure_id f, reason_of f)) fs) (wr_id r) = None"
          using False by (simp add: map_of_eq_None_iff image_image)
        ultimately show ?thesis
          using True s r' by (auto simp: work_settled_def)
      qed
    qed
  qed
qed

text \<open>What a completed pass does.\<close>

lemma pass_Done:
  assumes "distinct (map wr_id rows)" "tick c = (c1, now)"
    and "process_queue store step tick opts (rows, k, c) = ((rows', k', c'), Done rep)"
  shows "list_all2 (\<lambda>r r'. if r \<in> set (queue_batch opts now rows) then work_settled evidence work_of receipt k' r r' else r' = r) rows rows'"
    "qw_claimed rep = length (queue_batch opts now rows)" "qw_attempted rep = qw_claimed rep"
    "qw_completed rep + qw_failed rep = qw_claimed rep" "qw_marked_completed rep = qw_completed rep"
    "qw_marked_failed rep = qw_failed rep" "evidence w s k \<Longrightarrow> evidence w s k'"
proof -
  let ?b = "queue_batch opts now rows"
  have "list_all2 (\<lambda>r r'. if r \<in> set ?b then work_settled evidence work_of receipt k' r r' else r' = r) rows rows' \<and>
    qw_claimed rep = length ?b \<and> qw_attempted rep = qw_claimed rep \<and>
    qw_completed rep + qw_failed rep = qw_claimed rep \<and> qw_marked_completed rep = qw_completed rep \<and>
    qw_marked_failed rep = qw_failed rep \<and> (evidence w s k \<longrightarrow> evidence w s k')"
  proof (cases "?b = []")
    case True
    then show ?thesis
      using assms(3) pass_idle [where tick = tick and c = c, OF assms(2) True, of k]
      by (auto simp: empty_queue_report_def intro: list_all2_refl_on)
  next
    case False
    obtain k1 out where pr: "process_records step (map work_record ?b) [] [] k = (k1, out)" by fastforce
    obtain c2 t where c2: "tick c1 = (c2, t)" by fastforce
    note run = pass_batch [where tick = tick and c = c, OF assms(2) False pr c2]
    obtain ss fs where out: "out = Inr (ss, fs)"
      using assms(3) run by (cases out) auto
    note acc = records_account [OF pr [unfolded out]]
    have ids: "mset (map success_id ss) + mset (map failure_id fs) = mset (map wr_id ?b)"
      using acc(1) by (simp add: comp_def)
    have ev: "\<forall>s \<in> set ss. \<exists>r \<in> set ?b. success_id s = wr_id r \<and> evidence (work_of (wr_payload r)) s k1"
      using acc(2) by auto
    have "size (mset (map success_id ss) + mset (map failure_id fs)) = length ?b" unfolding ids by simp
    then have sum: "length ss + length fs = length ?b" by simp
    have res: "rows' = failed_rows fs (completed_rows ss t (claimed_rows opts now rows))" "k' = k1"
      "qw_claimed rep = length ?b" "qw_attempted rep = length ?b" "qw_completed rep = length ss"
      "qw_failed rep = length fs" "qw_marked_completed rep = length ss" "qw_marked_failed rep = length fs"
      using assms(3) run out by auto
    show ?thesis
      unfolding res using settle_rows [OF assms(1) ids ev, of t] records_keep [OF pr] sum by blast
  qed
  then show "list_all2 (\<lambda>r r'. if r \<in> set ?b then work_settled evidence work_of receipt k' r r' else r' = r) rows rows'"
    "qw_claimed rep = length ?b" "qw_attempted rep = qw_claimed rep"
    "qw_completed rep + qw_failed rep = qw_claimed rep" "qw_marked_completed rep = qw_completed rep"
    "qw_marked_failed rep = qw_failed rep" "evidence w s k \<Longrightarrow> evidence w s k'" by blast+
qed

lemma pass_total:
  assumes "\<forall>r \<in> set rows. alive (work_of (wr_payload r))"
  shows "\<exists>st' rep. process_queue store step tick opts (rows, k, c) = (st', Done rep)"
proof -
  obtain c1 now where t: "tick c = (c1, now)" by fastforce
  let ?b = "queue_batch opts now rows"
  show ?thesis
  proof (cases "?b = []")
    case True
    then show ?thesis using pass_idle [where tick = tick and c = c, OF t True] by auto
  next
    case False
    have "\<forall>r \<in> set (map work_record ?b). alive (qr_work r)"
      using assms next_rows_eligible(1) by (fastforce simp: queue_batch_def)
    then obtain k1 ss fs where "process_records step (map work_record ?b) [] [] k = (k1, Inr (ss, fs))"
      using records_total by blast
    moreover obtain c2 u where "tick c1 = (c2, u)" by fastforce
    ultimately show ?thesis using pass_batch [where tick = tick and c = c, OF t False] by simp
  qed
qed


text \<open>Progress: a pass that claims work leaves fewer rows open.\<close>

definition open_rows :: "'p work_row list \<Rightarrow> nat" where
  "open_rows rows = sum_list (map (\<lambda>r. if open_row r then 1 else 0) rows)"

lemma pass_progress:
  assumes "distinct (map wr_id rows)"
    and "process_queue store step tick opts (rows, k, c) = ((rows', k', c'), Done rep)"
  shows "if qw_claimed rep = 0 then rows' = rows else open_rows rows' < open_rows rows"
proof -
  obtain c1 now where t: "tick c = (c1, now)" by fastforce
  let ?b = "queue_batch opts now rows" and ?n = "\<lambda>r :: 'p work_row. if open_row r then 1 else 0 :: nat"
  note p = pass_Done [where tick = tick and c = c, OF assms(1) t assms(2)]
  have el: "r \<in> set rows" "open_row r" if "r \<in> set ?b" for r
    using that next_rows_eligible [of r None now] unfolding queue_batch_def
    by (auto simp: row_eligible_def open_row_def)
  have "list_all2 (\<lambda>r r'. if r \<in> set ?b then ?n r' < ?n r else r' = r) rows rows'"
    by (rule list_all2_mono [OF p(1)]) (use el in \<open>auto simp: work_settled_def open_row_def split: if_splits\<close>)
  from sum_progress [OF this] have less: "open_rows rows' + length (filter (\<lambda>r. r \<in> set ?b) rows) \<le> open_rows rows"
    by (simp add: open_rows_def)
  show ?thesis
  proof (cases "?b = []")
    case True
    then have "list_all2 (\<lambda>r r'. r' = r) rows rows'" using p(1) by simp
    then have "rows' = rows" by (induction rule: list_all2_induct) auto
    then show ?thesis using p(2) True by simp
  next
    case False
    then obtain r where "r \<in> set (filter (\<lambda>r. r \<in> set ?b) rows)" using el by (cases ?b) auto
    then have "0 < length (filter (\<lambda>r. r \<in> set ?b) rows)" by (rule length_pos_if_in_set)
    then have "open_rows rows' < open_rows rows" using less by linarith
    then show ?thesis using p(2) False by simp
  qed
qed

text \<open>
  Under supervision a table without held rows keeps, for each row, what it was or how its one pass
  settled it.
\<close>

definition table_ok :: "'p work_row list \<Rightarrow> 'p work_row list \<times> 'k \<times> 'c \<Rightarrow> bool" where
  "table_ok rows0 st \<longleftrightarrow> (case st of (rows, k, c) \<Rightarrow>
     distinct (map wr_id rows0) \<and> (\<forall>r \<in> set rows0. alive (work_of (wr_payload r)) \<and> wr_status r \<noteq> Work_claimed) \<and>
     list_all2 (\<lambda>r0 r. r = r0 \<or> wr_status r0 = Work_pending \<and> work_settled evidence work_of receipt k r0 r) rows0 rows)"

lemma table_ok_facts:
  assumes "table_ok rows0 (rows, k, c)"
  shows "distinct (map wr_id rows)" "\<forall>r \<in> set rows. alive (work_of (wr_payload r))"
proof -
  have ok: "list_all2 (\<lambda>r0 r. r = r0 \<or> wr_status r0 = Work_pending \<and> work_settled evidence work_of receipt k r0 r) rows0 rows"
    "distinct (map wr_id rows0)" "\<forall>r \<in> set rows0. alive (work_of (wr_payload r))"
    using assms by (auto simp: table_ok_def)
  have "map wr_id rows = map wr_id rows0"
    using ok(1) by (induction rule: list_all2_induct) (auto simp: work_settled_def)
  then show "distinct (map wr_id rows)" using ok(2) by simp
  show "\<forall>r \<in> set rows. alive (work_of (wr_payload r))"
    using ok(1,3) by (induction rule: list_all2_induct) (auto simp: work_settled_def)
qed

lemma pass_ok:
  assumes "table_ok rows0 (rows, k, c)"
  shows "\<exists>rows' k' c' rep. process_queue store step tick opts (rows, k, c) = ((rows', k', c'), Done rep) \<and>
    table_ok rows0 (rows', k', c') \<and>
    (if qw_claimed rep = 0 then rows' = rows else open_rows rows' < open_rows rows)"
proof -
  note ok = table_ok_facts [OF assms]
  obtain st' rep where run: "process_queue store step tick opts (rows, k, c) = (st', Done rep)"
    using pass_total [OF ok(2), of tick opts k c] by blast
  obtain rows' k' c' where st': "st' = (rows', k', c')" by (cases st') auto
  note run = run [unfolded st']
  obtain c1 now where t: "tick c = (c1, now)" by fastforce
  note res = pass_Done [where tick = tick and c = c, OF ok(1) t run]
  let ?R = "\<lambda>k r0 r. r = r0 \<or> wr_status r0 = Work_pending \<and> work_settled evidence work_of receipt k r0 r"
  have batch: "wr_status r = Work_pending \<or> wr_status r = Work_claimed" if "r \<in> set (queue_batch opts now rows)" for r
    using that next_rows_eligible [of r None now] unfolding queue_batch_def by (auto simp: row_eligible_def)
  have later: "work_settled evidence work_of receipt k r r' \<Longrightarrow> work_settled evidence work_of receipt k' r r'" for r r'
    using res(7) unfolding work_settled_def by blast
  have free: "\<forall>r \<in> set rows0. wr_status r \<noteq> Work_claimed" and rows: "list_all2 (?R k) rows0 rows"
    using assms by (auto simp: table_ok_def)
  have rows: "list_all2 (\<lambda>r0 r. wr_status r0 \<noteq> Work_claimed \<and> ?R k r0 r) rows0 rows"
    using rows free by (simp add: list_all2_conv_all_nth)
  have "list_all2 (?R k') rows0 rows'"
  proof (rule list_all2_trans [OF _ rows res(1)])
    fix r0 r r'
    assume r: "wr_status r0 \<noteq> Work_claimed \<and> ?R k r0 r"
      and r': "if r \<in> set (queue_batch opts now rows) then work_settled evidence work_of receipt k' r r' else r' = r"
    show "?R k' r0 r'"
    proof (cases "r \<in> set (queue_batch opts now rows)")
      case True
      then have "r = r0" using r batch [OF True] by (auto simp: work_settled_def)
      then show ?thesis using True r r' batch [OF True] by auto
    next
      case False
      then show ?thesis using r r' later by auto
    qed
  qed
  then have "table_ok rows0 (rows', k', c')" using assms by (simp add: table_ok_def)
  then show ?thesis using run pass_progress [OF ok(1) run] by blast
qed

end

text \<open>The supervisors of both queues make progress.\<close>

sublocale queue_table \<subseteq> supervised: progressing_worker
  "queue_pass (process_queue store step tick opts)" qw_claimed "pause_clock pause" "table_ok rows0"
  "\<lambda>st. open_rows (fst st)" for tick :: "'c \<Rightarrow> 'c \<times> int" and opts pause rows0
proof unfold_locales
  fix s :: "'p work_row list \<times> 'k \<times> 'c"
  assume ok: "table_ok rows0 s"
  obtain rows k c where s: "s = (rows, k, c)" by (cases s) auto
  show "\<exists>s' report m. queue_pass (process_queue store step tick opts) s = (s', Done (report, m)) \<and>
      table_ok rows0 s' \<and>
      (if qw_claimed report = 0 then open_rows (fst s') \<le> open_rows (fst s)
       else open_rows (fst s') < open_rows (fst s))"
    using pass_ok [OF ok [unfolded s], of tick opts] unfolding s queue_pass_def by fastforce
next
  fix s :: "'p work_row list \<times> 'k \<times> 'c" and ms
  show "table_ok rows0 s \<Longrightarrow> table_ok rows0 (pause_clock pause ms s) \<and>
      open_rows (fst (pause_clock pause ms s)) \<le> open_rows (fst s)"
    by (cases s) (auto simp: pause_clock_def table_ok_def)
qed

context queue_table
begin

lemma drained_rows:
  assumes "supervised.drained tick opts rows0 (rows', k', c')" "qo_batch_size opts \<noteq> Some 0"
  shows "list_all2 (\<lambda>r0 r. if wr_status r0 = Work_pending then work_settled evidence work_of receipt k' r0 r
    else r = r0) rows0 rows'"
proof -
  obtain s report m where d: "table_ok rows0 s" "qw_claimed report = 0"
    "queue_pass (process_queue store step tick opts) s = ((rows', k', c'), Done (report, m))"
    using assms(1) unfolding supervised.drained_def by blast
  obtain rows k c where s: "s = (rows, k, c)" by (cases s) auto
  obtain rows1 k1 c1 rep where run: "process_queue store step tick opts (rows, k, c) = ((rows1, k1, c1), Done rep)"
    "table_ok rows0 (rows1, k1, c1)" "if qw_claimed rep = 0 then rows1 = rows else open_rows rows1 < open_rows rows"
    using pass_ok [OF d(1) [unfolded s], of tick opts] by blast
  have eq: "rows1 = rows'" "k1 = k'" "rep = report"
    using d(3) run(1) by (auto simp: s queue_pass_def)
  obtain c2 now where t: "tick c = (c2, now)" by fastforce
  have "qw_claimed rep = length (queue_batch opts now rows)"
    using pass_Done(2) [where tick = tick and c = c, OF table_ok_facts(1) [OF d(1) [unfolded s]] t run(1)] .
  then have "queue_batch opts now rows = []" using d(2) eq(3) by simp
  moreover have "qc_batch_size (queue_claim_of opts now) \<noteq> 0"
    using assms(2) by (auto simp: queue_claim_of_def split: option.splits)
  moreover have "rows' = rows" using run(3) eq d(2) by simp
  ultimately have "\<forall>r \<in> set rows'. wr_status r \<noteq> Work_pending"
    unfolding queue_batch_def next_rows_Nil by (auto simp: row_eligible_def)
  then show ?thesis
    using run(2) unfolding eq table_ok_def by (simp add: list_all2_conv_all_nth all_set_conv_all_nth) metis
qed

text \<open>Supervision without a bound on its iterations ends with every pending row settled.\<close>

lemma supervised_drains:
  assumes "distinct (map wr_id rows)"
    and "\<forall>r \<in> set rows. alive (work_of (wr_payload r)) \<and> wr_status r \<noteq> Work_claimed"
    and "0 < idle_limit sopts" "so_max_iterations sopts = None" "qo_batch_size opts \<noteq> Some 0"
  shows "\<exists>rows' k' c' idle is.
    supervise (queue_pass (process_queue store step tick opts)) qw_claimed (\<lambda>_. False) (pause_clock pause) sopts
      (rows, k, c) = Some ((rows', k', c'), Done (Stop_idle_limit, idle, is)) \<and>
    list_all2 (\<lambda>r0 r. if wr_status r0 = Work_pending then work_settled evidence work_of receipt k' r0 r
      else r = r0) rows rows'"
proof -
  have ok: "table_ok rows (rows, k, c)"
    using assms(1,2) by (auto simp: table_ok_def intro: list_all2_refl_on)
  obtain s' idle "is" where run: "supervise (queue_pass (process_queue store step tick opts)) qw_claimed
      (\<lambda>_. False) (pause_clock pause) sopts (rows, k, c) = Some (s', Done (Stop_idle_limit, idle, is))"
    "supervised.drained tick opts rows s'"
    using supervised.supervise_drains [OF ok assms(3,4), of tick opts pause] by blast
  obtain rows' k' c' where s': "s' = (rows', k', c')" by (cases s') auto
  show ?thesis using run drained_rows [OF run(2) [unfolded s'] assms(5)] unfolding s' by blast
qed

end

end
