(* ===== verification/ArtifactQueueFacts.thy ===== *)
theory ArtifactQueueFacts
  imports QueueWorkersFacts
begin

text \<open>
  The queue of artifact publications over any artifact store and event bus: what a pass does to
  the table, that supervision empties it, and what a late shutdown does to the report.
\<close>

subsection \<open>Publications as work\<close>

text \<open>The publication service of \<^verbatim>\<open>artifact-publication.ts\<close> as the worker calls it.\<close>

definition publication_service ::
  "platform \<Rightarrow> (signed_artifact \<Rightarrow> ('s, signed_artifact) call) \<Rightarrow> (network_event \<Rightarrow> ('b, unit) call) \<Rightarrow>
     artifact_publication_input \<Rightarrow> 's \<times> 'b \<Rightarrow> ('s \<times> 'b) \<times> artifact_publication_result outcome" where
  "publication_service P put publish input k =
     (case publishArtifact P put publish input k of (k', r) \<Rightarrow> (k', lift_result r))"

text \<open>
  The evidence for a completed publication: an event on the bus whose valid envelope names the
  artifact of the row and the hash of its body.
\<close>

definition announced ::
  "platform \<Rightarrow> ('b \<Rightarrow> network_event list) \<Rightarrow> artifact_publication_input \<Rightarrow> artifact_success \<Rightarrow> 's \<times> 'b \<Rightarrow> bool" where
  "announced P recent input s k \<longleftrightarrow>
     (\<exists>event \<in> set (recent (snd k)). envelope_valid P (ne_envelope event) \<and>
        ee_event_id (ne_envelope event) = as_event_id s \<and>
        ee_artifact_id (ne_envelope event) = ap_artifact_id input \<and> as_artifact_id s = ap_artifact_id input \<and>
        ee_artifact_hash (ne_envelope event) = sha256_of P (ap_body input) \<and>
        as_artifact_hash s = sha256_of P (ap_body input))"

definition publication_receipt :: "artifact_success \<Rightarrow> artifact_work \<Rightarrow> artifact_work" where
  "publication_receipt s p = p\<lparr>aw_published := Some (as_artifact_id s, as_artifact_hash s, as_event_id s)\<rparr>"

locale publishing_queue = publication_backend put get publish recent
  for put :: "signed_artifact \<Rightarrow> ('s, signed_artifact) call"
    and get :: "string \<Rightarrow> 's \<Rightarrow> signed_artifact option"
    and publish :: "network_event \<Rightarrow> ('b, unit) call"
    and recent :: "'b \<Rightarrow> network_event list" +
  fixes P :: platform
begin

lemma bus_grows: "publishArtifact P put publish input k = (k', r) \<Longrightarrow> set (recent (snd k)) \<subseteq> set (recent (snd k'))"
  using published_consistent(2) [of P input] failed_not_announced [of P input]
  by (cases k; cases k'; cases r) fastforce+

lemma published_id:
  assumes "publishArtifact P put publish input (s, b) = ((s', b'), Inr res)"
  shows "sa_artifact_id (pr_artifact res) = ap_artifact_id input"
  using assms by (auto simp: publishArtifact_def Let_def split: prod.splits sum.splits dest: put_get)

lemma publication_step:
  assumes "publish_work_item P (publication_service P put publish) record' k = (k', out)"
  shows "set (recent (snd k)) \<subseteq> set (recent (snd k'))"
    "out = Inr (Inr s) \<Longrightarrow> as_work_item_id s = qr_work_item_id record' \<and> announced P recent (qr_work record') s k'"
    "out = Inr (Inl f) \<Longrightarrow> af_work_item_id f = qr_work_item_id record'"
    "out \<noteq> Inl d"
proof -
  obtain r where r: "publishArtifact P put publish (qr_work record') k = (k', r)"
    using assms by (auto simp: publish_work_item_def publication_service_def lift_result_def Let_def
        split: prod.splits outcome.splits sum.splits)
  show "set (recent (snd k)) \<subseteq> set (recent (snd k'))" using bus_grows [OF r] .
  obtain s0 b0 s1 b1 where k: "k = (s0, b0)" "k' = (s1, b1)" by (cases k, cases k') auto
  show "out = Inr (Inr s) \<Longrightarrow> as_work_item_id s = qr_work_item_id record' \<and> announced P recent (qr_work record') s k'"
  proof (cases r)
    case (Inr res)
    note facts = published_consistent [OF r [unfolded k Inr]] published_id [OF r [unfolded k Inr]]
    assume "out = Inr (Inr s)"
    then show ?thesis
      using assms r Inr facts
      by (auto simp: publish_work_item_def publication_service_def lift_result_def Let_def announced_def k)
  qed (use assms r in \<open>auto simp: publish_work_item_def publication_service_def lift_result_def Let_def\<close>)
  show "out = Inr (Inl f) \<Longrightarrow> af_work_item_id f = qr_work_item_id record'" "out \<noteq> Inl d"
    using assms r
    by (cases r; auto simp: publish_work_item_def publication_service_def lift_result_def Let_def)+
qed

end

sublocale publishing_queue \<subseteq> queue: queue_table
  "publish_work_item P (publication_service P put publish)" as_work_item_id af_work_item_id "announced P recent"
  makePostgresArtifactPublicationQueueStore aw_input af_reason publication_receipt
proof unfold_locales
  fix r k k' s
  assume "publish_work_item P (publication_service P put publish) r k = (k', Inr (Inr s))"
  then show "as_work_item_id s = qr_work_item_id r \<and> announced P recent (qr_work r) s k'"
    by (rule publication_step(2)) simp
next
  fix r k k' f
  assume "publish_work_item P (publication_service P put publish) r k = (k', Inr (Inl f))"
  then show "af_work_item_id f = qr_work_item_id r" by (rule publication_step(3)) simp
next
  fix r k k' out w s
  assume "publish_work_item P (publication_service P put publish) r k = (k', out)" "announced P recent w s k"
  then show "announced P recent w s k'" using publication_step(1) by (fastforce simp: announced_def)
qed (auto simp: makePostgresArtifactPublicationQueueStore_def claimArtifactPublicationWorkItems_def claim_rows_def
  Let_def markArtifactPublicationWorkItemsCompleted_def markArtifactPublicationWorkItemsFailed_def
  published_row_def publication_receipt_def done_row_def split: option.splits)

context publishing_queue
begin

lemma publications_alive: "queue.alive w"
  using publication_step(4) unfolding queue.alive_def by blast

end

interpretation memory_queue: publishing_queue memory_put memory_get memory_publish memory_recent P for P
  by unfold_locales



subsection \<open>Properties\<close>

definition fx_publications :: artifact_table where
  "fx_publications =
     [fx_work_row ''1'' 1 \<lparr>aw_input = fx_publication, aw_published = None\<rparr>,
      fx_work_row ''2'' 2 \<lparr>aw_input = fx_publication\<lparr>ap_root_program_id := []\<rparr>, aw_published = None\<rparr>]"

definition fx_queue_worker :: queue_worker_options where
  "fx_queue_worker = \<lparr>qo_worker_id = ''w'', qo_batch_size = None, qo_claim_ttl_ms = None\<rparr>"

text \<open>
  A completed pass of the publication worker changes exactly the rows of its batch, each with
  one more attempt and no holder: a row is completed only with an event on the bus whose valid
  envelope names the artifact of the row and the hash of its body, and records both; otherwise
  it is failed with a reason. The report counts these rows, and no event leaves the bus.
\<close>

theorem publication_pass_settles_its_batch:
  assumes "distinct (map wr_id rows)" "tick c = (c1, now)"
    and "processArtifactQueueOnce P makePostgresArtifactPublicationQueueStore
      (publication_service P memory_put memory_publish) tick opts (rows, (s, b), c) =
      ((rows', (s', b'), c'), Done rep)"
  shows "list_all2 (\<lambda>r r'. if r \<in> set (queue_batch opts now rows)
        then work_settled (announced P memory_recent) aw_input publication_receipt (s', b') r r' else r' = r)
      rows rows' \<and>
    qw_claimed rep = length (queue_batch opts now rows) \<and> qw_completed rep + qw_failed rep = qw_claimed rep \<and>
    qw_marked_completed rep = qw_completed rep \<and> qw_marked_failed rep = qw_failed rep"
  using memory_queue.queue.pass_Done [where tick = tick and c = c, OF assms(1,2)
      assms(3) [unfolded processArtifactQueueOnce_def]]
  by blast

theorem publication_pass_settles_its_batch_witness:
  "\<exists>rows k c rep. processArtifactQueueOnce fx_platform makePostgresArtifactPublicationQueueStore
       (publication_service fx_platform memory_put memory_publish) fx_tick fx_queue_worker
       (fx_publications, ([], []), 0) = ((rows, k, c), Done rep) \<and>
     map wr_status rows = [Work_done, Work_failed] \<and> qw_completed rep + qw_failed rep = qw_claimed rep"
proof -
  let ?r = "processArtifactQueueOnce fx_platform makePostgresArtifactPublicationQueueStore
       (publication_service fx_platform memory_put memory_publish) fx_tick fx_queue_worker
       (fx_publications, ([], []), 0)"
  have f: "map wr_status (fst (fst ?r)) = [Work_done, Work_failed]" by code_simp
  have "(case snd ?r of Done _ \<Rightarrow> True | _ \<Rightarrow> False)" by code_simp
  then obtain rep where "snd ?r = Done rep" by (cases "snd ?r") auto
  then have r: "?r = ((fst (fst ?r), (fst (fst (snd (fst ?r))), snd (fst (snd (fst ?r)))), snd (snd (fst ?r))), Done rep)"
    by (metis prod.collapse)
  have d: "distinct (map wr_id fx_publications)" by code_simp
  have t: "fx_tick 0 = (1, 0)" by (simp add: fx_tick_def)
  have "qw_completed rep + qw_failed rep = qw_claimed rep"
    using publication_pass_settles_its_batch [where tick = fx_tick and c = 0, OF d t r] by blast
  then show ?thesis using r f by (intro exI conjI)
qed

text \<open>
  C25. From a table whose rows nobody holds, a supervised publication worker without a bound on its
  iterations and without a shutdown stops by its idle limit, and then every row that was pending
  is completed, with an event on the bus that announces its artifact, or failed with a reason,
  after exactly one attempt; every other row is as it was.
\<close>

theorem supervised_publications_are_settled:
  assumes "distinct (map wr_id rows)" "\<forall>r \<in> set rows. wr_status r \<noteq> Work_claimed"
    and "0 < idle_limit sopts" "so_max_iterations sopts = None" "qo_batch_size opts \<noteq> Some 0"
  shows "\<exists>rows' k' c' rep.
    runArtifactQueueSupervisor P workerId
      (processArtifactQueueOnce P makePostgresArtifactPublicationQueueStore
         (publication_service P memory_put memory_publish) tick opts)
      (shared_now tick) (\<lambda>_. False) (pause_clock pause) sopts (rows, k, c) =
      Some ((rows', k', c'), Done rep) \<and> qsr_stop_reason rep = Stop_idle_limit \<and>
    list_all2 (\<lambda>r r'. if wr_status r = Work_pending
        then work_settled (announced P memory_recent) aw_input publication_receipt k' r r' else r' = r) rows rows'"
proof -
  obtain c0 t0 where t: "tick c = (c0, t0)" by fastforce
  have alive: "\<forall>r \<in> set rows. memory_queue.queue.alive P (aw_input (wr_payload r)) \<and> wr_status r \<noteq> Work_claimed"
    using assms(2) memory_queue.publications_alive by blast
  obtain rows' k' c1 idle iters where run: "supervise
      (queue_pass (process_queue makePostgresArtifactPublicationQueueStore
         (publish_work_item P (publication_service P memory_put memory_publish)) tick opts))
      qw_claimed (\<lambda>_. False) (pause_clock pause) sopts (rows, k, c0) =
      Some ((rows', k', c1), Done (Stop_idle_limit, idle, iters))"
    "list_all2 (\<lambda>r r'. if wr_status r = Work_pending
        then work_settled (announced P memory_recent) aw_input publication_receipt k' r r' else r' = r) rows rows'"
    using memory_queue.queue.supervised_drains [where tick = tick and pause = pause and k = k and c = c0,
        OF assms(1) alive assms(3,4,5)] by blast
  obtain c' t' where t': "tick c1 = (c', t')" by fastforce
  show ?thesis
    using run t t' by (simp add: runArtifactQueueSupervisor_def run_queue_supervisor_def shared_now_def Let_def
        build_queue_supervisor_report_def processArtifactQueueOnce_def)
qed

definition fx_queue_supervisor :: supervisor_options where
  "fx_queue_supervisor = \<lparr>so_max_iterations = None, so_idle_iteration_limit = Some 1,
     so_poll_interval_ms = None, so_idle_poll_interval_ms = None\<rparr>"

theorem supervised_publications_are_settled_witness:
  "\<exists>rows' k' c' rep.
    runArtifactQueueSupervisor fx_platform ''w''
      (processArtifactQueueOnce fx_platform makePostgresArtifactPublicationQueueStore
         (publication_service fx_platform memory_put memory_publish) fx_tick fx_queue_worker)
      (shared_now fx_tick) (\<lambda>_. False) (pause_clock (+)) fx_queue_supervisor (fx_publications, ([], []), 0) =
      Some ((rows', k', c'), Done rep) \<and> qsr_stop_reason rep = Stop_idle_limit \<and>
    list_all2 (\<lambda>r r'. wr_status r' = Work_done \<or> wr_status r' = Work_failed) fx_publications rows'"
proof -
  have d: "distinct (map wr_id fx_publications)" "\<forall>r \<in> set fx_publications. wr_status r \<noteq> Work_claimed"
    "\<forall>r \<in> set fx_publications. wr_status r = Work_pending" by code_simp+
  have o: "0 < idle_limit fx_queue_supervisor" "so_max_iterations fx_queue_supervisor = None"
    "qo_batch_size fx_queue_worker \<noteq> Some 0"
    by (simp_all add: fx_queue_supervisor_def idle_limit_def fx_queue_worker_def)
  show ?thesis
    using supervised_publications_are_settled [OF d(1,2) o, of fx_platform "''w''" fx_tick "(+)" "([], [])" 0] d(3)
    by (fastforce simp: list_all2_conv_all_nth work_settled_def)
qed

text \<open>
  A shutdown signal after the last iteration replaces the reason for which the loop stopped in the
  report of the publication supervisor; that of the read model keeps it.
\<close>

definition idle_process :: "nat \<Rightarrow> nat \<times> ('s, 'f) queue_worker_report outcome" where
  "idle_process n = (n + 1, Done (empty_queue_report ''w''))"

lemma late_shutdown_overrides_the_reason:
  "\<exists>s rep. runArtifactQueueSupervisor fx_platform ''w'' idle_process (\<lambda>n. (n, 0)) (\<lambda>n. 0 < n) (\<lambda>_ n. n)
     fx_queue_supervisor 0 = Some (s, Done rep) \<and> qsr_stop_reason rep = Stop_shutdown_signal"
  "\<exists>s rep. runReadModelQueueSupervisor fx_platform ''w'' idle_process (\<lambda>n. (n, 0)) (\<lambda>n. 0 < n) (\<lambda>_ n. n)
     fx_queue_supervisor 0 = Some (s, Done rep) \<and> qsr_stop_reason rep = Stop_idle_limit"
  by (simp_all add: runArtifactQueueSupervisor_def runReadModelQueueSupervisor_def run_queue_supervisor_def
      supervise_def supervise_loop.simps queue_pass_def idle_process_def empty_queue_report_def
      fx_queue_supervisor_def below_max_def idle_limit_def build_queue_supervisor_report_def Let_def)

end
