(* ===== verification/Persistence.thy ===== *)
theory Persistence
  imports QueueWorkers
begin

text \<open>
  Writing to Postgres: the statements and the batches of
  \<^verbatim>\<open>network/src/services/postgres-persistence.ts\<close>, the event bus on top of them
  (\<^verbatim>\<open>postgres-event-bus.ts\<close>), the artifact store (\<^verbatim>\<open>postgres-artifact-store.ts\<close>) and the transaction
  runner (\<^verbatim>\<open>postgres-driver.ts\<close>). A statement is its name, which determines its text, and its
  values; what the text of a statement says it does to its table is a function on the rows.
\<close>

subsection \<open>JSON text\<close>

text \<open>
  \<^verbatim>\<open>JSON.parse(JSON.stringify(v))\<close>: absent values are dropped from objects and become null in
  arrays, as the non-finite numbers do.
\<close>

function (sequential) json_value :: "jsval \<Rightarrow> jsval" where
  "json_value (JObj kvs) = JObj (map (\<lambda>(k, v). (k, json_value v)) (filter (\<lambda>(k, v). v \<noteq> JUndefined) kvs))"
| "json_value (JArr vs) = JArr (map (\<lambda>v. if v = JUndefined then JNull else json_value v) vs)"
| "json_value (JNum n) = (case n of Fin q \<Rightarrow> JNum (Fin q) | _ \<Rightarrow> JNull)"
| "json_value v = v"
  by pat_completeness auto
termination
proof (relation "measure size")
  fix kvs :: "(string \<times> jsval) list" and x k v
  assume x: "x \<in> set (filter (\<lambda>(k, v). v \<noteq> JUndefined) kvs)" "(k, v) = x"
  then have "size v \<le> size_list (size_prod (\<lambda>_. 0) size) kvs"
    by (intro size_list_estimation' [of "(k, v)"]) auto
  then show "(v, JObj kvs) \<in> measure size" by simp
qed (auto dest: size_list_estimation' [where f = size, OF _ order_refl])


subsection \<open>Statements\<close>

text \<open>\<open>SJson v\<close> is the parameter \<^verbatim>\<open>JSON.stringify(v)\<close>, which is absent for an absent value.\<close>

datatype sql_value = SText string | SInt int | SBool bool | STexts "string list" | SJson jsval | SNull

record sql_command =
  sc_name :: string
  sc_values :: "sql_value list"

definition sql_text :: "string option \<Rightarrow> sql_value" where
  "sql_text x = (case x of None \<Rightarrow> SNull | Some s \<Rightarrow> SText s)"

definition sql_int :: "int option \<Rightarrow> sql_value" where
  "sql_int x = (case x of None \<Rightarrow> SNull | Some n \<Rightarrow> SInt n)"

text \<open>Helpers on unknown bodies; a missing required string is a thrown \<^verbatim>\<open>Error\<close>.\<close>

definition persistence_record :: "jsval \<Rightarrow> jsval" where
  "persistence_record value = (if is_record value then value else JUndefined)"

definition stringValue :: "jsval \<Rightarrow> string option" where
  "stringValue value = (case value of JStr s \<Rightarrow> if length s > 0 then Some s else None | _ \<Rightarrow> None)"

definition required_string :: "string option \<Rightarrow> string \<Rightarrow> string + string" where
  "required_string value message =
     (case value of Some s \<Rightarrow> if s = [] then Inl message else Inr s | None \<Rightarrow> Inl message)"

definition or_else :: "'a option \<Rightarrow> 'a option \<Rightarrow> 'a option" where
  "or_else x y = (case x of None \<Rightarrow> y | Some _ \<Rightarrow> x)"

record artifact_scope =
  scope_root_program_id :: "string option"
  scope_delegated_authority_id :: "string option"
  scope_issuer_id :: "string option"
  scope_destination_policy_id :: "string option"
  scope_published_at :: "string option"

definition firstRecord :: "jsval \<Rightarrow> jsval" where
  "firstRecord value = (case value of JArr (v # _) \<Rightarrow> persistence_record v | _ \<Rightarrow> JUndefined)"

definition artifactScopeFromBody :: "jsval \<Rightarrow> artifact_scope" where
  "artifactScopeFromBody body =
     (let candidate = persistence_record body;
          ns = persistence_record (get_prop candidate ''issuer_namespace'');
          publication = persistence_record (get_prop candidate ''publication'');
          destinationPolicy = firstRecord (get_prop candidate ''destination_policies'');
          field = (\<lambda>v k. stringValue (get_prop v k))
      in \<lparr>scope_root_program_id = or_else (field candidate ''root_program_id'') (field ns ''root_program_id''),
          scope_delegated_authority_id =
            or_else (field candidate ''delegated_authority_id'') (field ns ''delegated_authority_id''),
          scope_issuer_id = or_else (field candidate ''issuer_id'') (field ns ''issuer_id''),
          scope_destination_policy_id = or_else (field candidate ''destination_policy_id'')
            (field destinationPolicy ''destination_policy_id''),
          scope_published_at = field publication ''published_at''\<rparr>)"

definition publishedArtifactCommand :: "signed_artifact \<Rightarrow> string + sql_command" where
  "publishedArtifactCommand artifact =
     (let scope = artifactScopeFromBody (sa_body artifact) in
      and_then (required_string (scope_root_program_id scope)
                  (''Artifact '' @ sa_artifact_id artifact @ '' is missing root_program_id.''))
        (\<lambda>rootProgramId. Inr
           \<lparr>sc_name = ''published_artifacts.upsert'',
            sc_values = [SText (sa_artifact_id artifact), SText (sa_artifact_type artifact),
              SText rootProgramId, sql_text (scope_delegated_authority_id scope),
              sql_text (scope_issuer_id scope), sql_text (scope_destination_policy_id scope),
              SJson (sa_body artifact), SText (sa_artifact_hash artifact),
              SInt (sa_version artifact), sql_text (scope_published_at scope)]\<rparr>))"

definition targetIdFromStatusTarget :: "jsval \<Rightarrow> string option" where
  "targetIdFromStatusTarget target =
     or_else (stringValue (get_prop target ''issuer_id''))
       (or_else (stringValue (get_prop target ''certificate_ref''))
          (or_else (stringValue (get_prop target ''destination_policy_id''))
             (or_else (stringValue (get_prop target ''delegated_authority_id''))
                (stringValue (get_prop target ''key_id'')))))"

definition statusEventCommand :: "signed_artifact \<Rightarrow> string + sql_command option" where
  "statusEventCommand artifact =
     (let body = persistence_record (sa_body artifact);
          field = (\<lambda>k. stringValue (get_prop body k));
          missing = (\<lambda>what. ''Status artifact '' @ sa_artifact_id artifact @ '' is missing '' @ what @ ''.'')
      in if get_prop body ''artifact_type'' \<noteq> JStr ''revocation_status_event'' then Inr None
         else
           (let target = persistence_record (get_prop body ''target'') in
            and_then (required_string (stringValue (get_prop target ''target_type'')) (missing ''target_type''))
              (\<lambda>targetType.
            and_then (required_string (targetIdFromStatusTarget target) (missing ''target identifier''))
              (\<lambda>targetId.
            and_then (required_string (field ''status_event_id'') (missing ''status_event_id'')) (\<lambda>eventId.
            and_then (required_string (field ''root_program_id'') (missing ''root_program_id'')) (\<lambda>rootId.
            and_then (required_string (field ''status'') (missing ''status'')) (\<lambda>status.
            and_then (required_string (field ''effective_at'') (missing ''effective_at'')) (\<lambda>effectiveAt.
              Inr (Some \<lparr>sc_name = ''status_events.upsert'',
                sc_values = [SText eventId, SText rootId, sql_text (field ''delegated_authority_id''),
                  sql_text (stringValue (get_prop target ''issuer_id'')),
                  sql_text (stringValue (get_prop target ''destination_policy_id'')),
                  SText targetType, SText targetId, SText status,
                  SText (case field ''reason'' of None \<Rightarrow> ''unspecified'' | Some r \<Rightarrow> r),
                  SText effectiveAt]\<rparr>)))))))))"

definition signed_artifact_json :: "signed_artifact \<Rightarrow> jsval" where
  "signed_artifact_json a = JObj
     [(''artifact_id'', JStr (sa_artifact_id a)), (''artifact_hash'', JStr (sa_artifact_hash a)),
      (''artifact_type'', JStr (sa_artifact_type a)), (''version'', int_json (sa_version a)),
      (''body'', sa_body a)]"

fun event_body_json :: "event_body \<Rightarrow> jsval" where
  "event_body_json NoBody = JUndefined"
| "event_body_json (DecisionBody d) = decision_json d"
| "event_body_json (ArtifactBody a) = signed_artifact_json a"
| "event_body_json (JsonBody v) = v"

definition network_event_json :: "network_event \<Rightarrow> jsval" where
  "network_event_json event =
     JObj [(''envelope'', envelope_json (ne_envelope event)), (''body'', event_body_json (ne_body event))]"

definition aggregateType :: "string \<Rightarrow> string" where
  "aggregateType eventType = hd (js_split CHR ''.'' eventType)"

definition aggregateId :: "network_event \<Rightarrow> string" where
  "aggregateId event =
     (let e = ne_envelope event
      in case ee_destination_policy_id e of Some i \<Rightarrow> i | None \<Rightarrow>
           (case ee_issuer_id e of Some i \<Rightarrow> i | None \<Rightarrow>
              (case ee_delegated_authority_id e of Some i \<Rightarrow> i | None \<Rightarrow> ee_artifact_id e)))"

definition eventOutboxCommand :: "network_event \<Rightarrow> sql_command" where
  "eventOutboxCommand event =
     (let envelope = ne_envelope event
      in \<lparr>sc_name = ''event_outbox.enqueue'',
          sc_values = [SText (ee_event_id envelope), SText (ee_type envelope),
            SText (aggregateType (ee_type envelope)), SText (aggregateId event),
            SText (ee_artifact_id envelope), SText (ee_artifact_hash envelope),
            SText (ee_root_program_id envelope), sql_text (ee_delegated_authority_id envelope),
            sql_text (ee_issuer_id envelope), sql_text (ee_destination_policy_id envelope),
            SJson (network_event_json event)]\<rparr>)"

record cache_entry_persistence =
  cp_verifier_id :: string
  cp_issuer :: issuer_projection
  cp_policy :: destination_policy_projection
  cp_source_artifact_hashes :: "string list option"
  cp_freshness_status :: "cache_freshness_status option"

definition verifierCacheEntryCommand :: "cache_entry_persistence \<Rightarrow> sql_command" where
  "verifierCacheEntryCommand input =
     (let issuer = cp_issuer input; policy = cp_policy input; ns = ip_namespace issuer
      in \<lparr>sc_name = ''verifier_cache_entries.upsert'',
          sc_values = [SText (cp_verifier_id input), SText (ns_root_program_id ns),
            SText (ns_delegated_authority_id ns), SText (ns_issuer_id ns),
            SText (dp_destination_policy_id policy),
            STexts (case cp_source_artifact_hashes input of None \<Rightarrow> [] | Some hs \<Rightarrow> hs),
            SJson (JObj
              [(''issuer'', JObj [(''namespace'', namespace_json ns),
                  (''display_name'', JStr (ip_issuer_display_name issuer)),
                  (''assurance_tier'', JStr (ip_assurance_tier issuer))]),
               (''destination_policy'', JObj
                 [(''destination_policy_id'', JStr (dp_destination_policy_id policy)),
                  (''approved_destinations'', JArr (map rule_json (dp_approved_destinations policy))),
                  (''redirect_policy'', redirect_json (dp_redirect_policy policy))])]),
            SText (ip_cache_generated_at issuer), SText (ip_cache_expires_at issuer),
            SText (freshness_string (case cp_freshness_status input of None \<Rightarrow> Fresh | Some s \<Rightarrow> s))]\<rparr>)"

definition trust_path_json :: "trust_path \<Rightarrow> jsval" where
  "trust_path_json tp = JObj
     [(''issuer_legitimacy'', trust_step_json (tp_issuer_legitimacy tp)),
      (''destination_binding'', trust_step_json (tp_destination_binding tp)),
      (''runtime_safety'', trust_step_json (tp_runtime_safety tp)),
      (''scanner_decision'', trust_step_json (tp_scanner_decision tp))]"

definition scannerDecisionCommand :: "string \<Rightarrow> scanner_decision \<Rightarrow> sql_command" where
  "scannerDecisionCommand verifierId decision =
     (let governance = (\<lambda>f. sql_text (map_option f (sd_governance decision)))
      in \<lparr>sc_name = ''scanner_decisions.insert'',
          sc_values = [SText (sd_decision_id decision), SText verifierId,
            SText (color_string (sd_decision_color decision)), SText (sd_decision_state decision),
            STexts (sd_reason_codes decision), sql_int (sd_risk_score decision),
            SText (dst_url (sd_destination decision)), SText (dst_fingerprint (sd_destination decision)),
            governance gp_root_program_id, governance gp_delegated_authority_id, governance gp_issuer_id,
            governance gp_destination_policy_id, SNull,
            SBool (ho_required (sd_hold_to_open decision)), SInt (ho_duration_ms (sd_hold_to_open decision)),
            SJson (trust_path_json (sd_trust_path decision)), SText (sd_decided_at decision)]\<rparr>)"

text \<open>The columns of an observation that its statement reads.\<close>

record runtime_observation =
  ro_provider_id :: string
  ro_destination_host :: string
  ro_destination_url :: string
  ro_final_url :: "string option"
  ro_verdict :: string
  ro_risk_score :: int
  ro_reason_codes :: "string list"
  ro_observed_at :: string
  ro_expires_at :: "string option"

definition runtimeObservationCommand :: "runtime_observation \<Rightarrow> sql_command" where
  "runtimeObservationCommand observation =
     \<lparr>sc_name = ''runtime_observations.insert'',
      sc_values = [SText (ro_provider_id observation), SText (ro_destination_host observation),
        SText (ro_destination_url observation), sql_text (ro_final_url observation),
        SText (ro_verdict observation), SInt (ro_risk_score observation),
        STexts (ro_reason_codes observation), SText (ro_observed_at observation),
        sql_text (ro_expires_at observation)]\<rparr>"


subsection \<open>Batches\<close>

record persistence_batch =
  pb_artifacts :: "signed_artifact list"
  pb_events :: "network_event list"
  pb_verifier_cache_entries :: "cache_entry_persistence list"
  pb_runtime_observations :: "runtime_observation list"
  pb_scanner_decisions :: "(string \<times> scanner_decision) list"

record persistence_report =
  pe_commands_executed :: nat
  pe_artifacts_upserted :: nat
  pe_status_events_upserted :: nat
  pe_events_enqueued :: nat
  pe_cache_entries_upserted :: nat
  pe_runtime_observations_inserted :: nat
  pe_scanner_decisions_inserted :: nat

text \<open>The statements of a loop, built one at a time: a statement that cannot be built ends the effect.\<close>

fun run_commands ::
  "(sql_command \<Rightarrow> ('k, sql_command) call) \<Rightarrow> (string + sql_command) list \<Rightarrow> 'k \<Rightarrow> 'k \<times> unit outcome" where
  "run_commands execute [] k = (k, Done ())"
| "run_commands execute (Inl message # commands) k = (k, Died (ErrorThrown message))"
| "run_commands execute (Inr command # commands) k =
     (case execute command k of
        (k', Inl e) \<Rightarrow> (k', Failed e)
      | (k', Inr _) \<Rightarrow> run_commands execute commands k')"

definition artifact_commands :: "signed_artifact \<Rightarrow> (string + sql_command) list" where
  "artifact_commands artifact =
     publishedArtifactCommand artifact #
     (case statusEventCommand artifact of
        Inl message \<Rightarrow> [Inl message] | Inr None \<Rightarrow> [] | Inr (Some command) \<Rightarrow> [Inr command])"

definition batch_commands :: "persistence_batch \<Rightarrow> (string + sql_command) list" where
  "batch_commands input =
     concat (map artifact_commands (pb_artifacts input)) @
     map (\<lambda>event. Inr (eventOutboxCommand event)) (pb_events input) @
     map (\<lambda>cacheEntry. Inr (verifierCacheEntryCommand cacheEntry)) (pb_verifier_cache_entries input) @
     map (\<lambda>observation. Inr (runtimeObservationCommand observation)) (pb_runtime_observations input) @
     map (\<lambda>(verifierId, decision). Inr (scannerDecisionCommand verifierId decision)) (pb_scanner_decisions input)"

definition persistBatch ::
  "(sql_command \<Rightarrow> ('k, sql_command) call) \<Rightarrow> persistence_batch \<Rightarrow> 'k \<Rightarrow> 'k \<times> persistence_report outcome" where
  "persistBatch execute input k =
     (case run_commands execute (batch_commands input) k of
        (k', Failed e) \<Rightarrow> (k', Failed e)
      | (k', Died d) \<Rightarrow> (k', Died d)
      | (k', Done _) \<Rightarrow> (k', Done
          \<lparr>pe_commands_executed = length (batch_commands input),
           pe_artifacts_upserted = length (pb_artifacts input),
           pe_status_events_upserted =
             length (filter (\<lambda>a. case statusEventCommand a of Inr (Some _) \<Rightarrow> True | _ \<Rightarrow> False) (pb_artifacts input)),
           pe_events_enqueued = length (pb_events input),
           pe_cache_entries_upserted = length (pb_verifier_cache_entries input),
           pe_runtime_observations_inserted = length (pb_runtime_observations input),
           pe_scanner_decisions_inserted = length (pb_scanner_decisions input)\<rparr>))"

text \<open>The recording sink.\<close>

definition sink_execute :: "sql_command \<Rightarrow> (sql_command list, sql_command) call" where
  "sink_execute command commands = (commands @ [command], Inr command)"

definition sink_recorded :: "sql_command list \<Rightarrow> sql_command list" where
  "sink_recorded commands = commands"

definition no_batch :: persistence_batch where
  "no_batch = \<lparr>pb_artifacts = [], pb_events = [], pb_verifier_cache_entries = [],
     pb_runtime_observations = [], pb_scanner_decisions = []\<rparr>"

text \<open>The batch of the read model.\<close>

definition cache_entry_row :: "cache_entry_input \<Rightarrow> cache_entry_persistence" where
  "cache_entry_row entry =
     \<lparr>cp_verifier_id = cei_verifier_id entry, cp_issuer = cei_issuer entry, cp_policy = cei_policy entry,
      cp_source_artifact_hashes = Some (cei_source_artifact_hashes entry),
      cp_freshness_status = Some (cei_freshness_status entry)\<rparr>"

definition persist_read_model ::
  "(sql_command \<Rightarrow> ('k, sql_command) call) \<Rightarrow> read_model_batch \<Rightarrow> 'k \<Rightarrow> 'k \<times> persistence_report outcome" where
  "persist_read_model execute batch =
     persistBatch execute (no_batch\<lparr>
       pb_verifier_cache_entries := map cache_entry_row (bt_verifier_cache_entries batch),
       pb_scanner_decisions := bt_scanner_decisions batch\<rparr>)"


subsection \<open>The event bus\<close>

definition postgres_publish ::
  "(sql_command \<Rightarrow> ('k, sql_command) call) \<Rightarrow> network_event \<Rightarrow> 'k \<Rightarrow> 'k \<times> unit outcome" where
  "postgres_publish execute event k =
     (case persistBatch execute (no_batch\<lparr>pb_events := [event]\<rparr>) k of
        (k', Done _) \<Rightarrow> (k', Done ()) | (k', Failed e) \<Rightarrow> (k', Failed e) | (k', Died d) \<Rightarrow> (k', Died d))"

text \<open>
  The statement that enqueues an event, on the rows of the outbox: \<^verbatim>\<open>on conflict (event_id) do nothing\<close>.
  The id and the time of a new row are the database's.
\<close>

definition enqueue_event :: "string \<Rightarrow> int \<Rightarrow> sql_command \<Rightarrow> outbox_table \<Rightarrow> outbox_table" where
  "enqueue_event outboxId now command rows =
     (case sc_values command of
        [SText eventId, SText eventType, _, _, _, _, _, _, _, _, SJson payload] \<Rightarrow>
          if eventId \<in> set (map (\<lambda>r. oe_event_id (wr_payload r)) rows) then rows
          else rows @ [\<lparr>wr_id = outboxId,
                 wr_payload = \<lparr>oe_event_id = eventId, oe_event_type = eventType,
                   oe_payload = json_value payload\<rparr>,
                 wr_created_at = now, wr_status = Work_pending, wr_attempts = 0, wr_claimed_by = None,
                 wr_claimed_at = None, wr_claim_expires_at = None, wr_last_error = None,
                 wr_finished_at = None\<rparr>]
      | _ \<Rightarrow> rows)"


subsection \<open>The artifact store\<close>

record artifact_row =
  ar_artifact_id :: string
  ar_artifact_hash :: string
  ar_artifact_type :: string
  ar_version :: int
  ar_canonical_json :: jsval

definition artifactByIdCommand :: "string \<Rightarrow> sql_command" where
  "artifactByIdCommand artifactId = \<lparr>sc_name = ''published_artifacts.get'', sc_values = [SText artifactId]\<rparr>"

text \<open>\<open>parse\<close> is \<^verbatim>\<open>JSON.parse\<close> on other text than that of \<open>SJson\<close>, \<open>None\<close> where it throws.\<close>

definition canonicalJsonBody :: "(string \<Rightarrow> jsval option) \<Rightarrow> jsval \<Rightarrow> string + jsval" where
  "canonicalJsonBody parse value =
     (case value of
        JStr s \<Rightarrow> (case parse s of None \<Rightarrow> Inl ''SyntaxError'' | Some v \<Rightarrow> Inr v)
      | _ \<Rightarrow> Inr value)"

fun sql_json :: "sql_value \<Rightarrow> jsval" where
  "sql_json (SText s) = JStr s"
| "sql_json (SInt n) = int_json n"
| "sql_json (SBool b) = JBool b"
| "sql_json (STexts ss) = strings_json ss"
| "sql_json (SJson v) = v"
| "sql_json SNull = JNull"

text \<open>The text of \<open>SJson\<close> parses to its \<open>json_value\<close>.\<close>

definition canonical_json_parameter :: "(string \<Rightarrow> jsval option) \<Rightarrow> sql_value \<Rightarrow> string + jsval" where
  "canonical_json_parameter parse value =
     (case value of SJson v \<Rightarrow> Inr (json_value v) | _ \<Rightarrow> canonicalJsonBody parse (sql_json value))"

definition command_value :: "sql_command \<Rightarrow> nat \<Rightarrow> sql_value" where
  "command_value command i = (if i < length (sc_values command) then sc_values command ! i else SNull)"

definition stringCommandValue :: "sql_command \<Rightarrow> nat \<Rightarrow> string option" where
  "stringCommandValue command i =
     (case command_value command i of SText s \<Rightarrow> if length s > 0 then Some s else None | _ \<Rightarrow> None)"

definition missing_value :: "sql_command \<Rightarrow> string \<Rightarrow> string" where
  "missing_value command label =
     ''Postgres artifact store command '' @ sc_name command @ '' is missing '' @ label @ ''.''"

definition requireStringCommandValue :: "sql_command \<Rightarrow> nat \<Rightarrow> string \<Rightarrow> string + string" where
  "requireStringCommandValue command i label =
     (case stringCommandValue command i of None \<Rightarrow> Inl (missing_value command label) | Some s \<Rightarrow> Inr s)"

definition requireNumberCommandValue :: "sql_command \<Rightarrow> nat \<Rightarrow> string \<Rightarrow> string + int" where
  "requireNumberCommandValue command i label =
     (case command_value command i of SInt n \<Rightarrow> Inr n | _ \<Rightarrow> Inl (missing_value command label))"

definition rowFromPublishedArtifactUpsert ::
  "(string \<Rightarrow> jsval option) \<Rightarrow> sql_command \<Rightarrow> string + artifact_row option" where
  "rowFromPublishedArtifactUpsert parse command =
     (if sc_name command \<noteq> ''published_artifacts.upsert'' then Inr None
      else
        and_then (requireStringCommandValue command 0 ''artifact_id'') (\<lambda>artifactId.
        and_then (requireStringCommandValue command 1 ''artifact_type'') (\<lambda>artifactType.
        and_then (requireStringCommandValue command 7 ''artifact_hash'') (\<lambda>artifactHash.
        and_then (requireNumberCommandValue command 8 ''version'') (\<lambda>version.
        and_then (canonical_json_parameter parse (command_value command 6)) (\<lambda>body.
          Inr (Some \<lparr>ar_artifact_id = artifactId, ar_artifact_hash = artifactHash,
                     ar_artifact_type = artifactType, ar_version = version,
                     ar_canonical_json = body\<rparr>)))))))"

text \<open>The recording executor: its rows and the commands it saw.\<close>

type_synonym recording_store = "(string \<times> artifact_row) list \<times> sql_command list"

definition makeRecordingPostgresArtifactStoreExecutor :: "artifact_row list \<Rightarrow> recording_store" where
  "makeRecordingPostgresArtifactStoreExecutor initialRows =
     (fold (\<lambda>r. js_map_set (ar_artifact_id r) r) initialRows [], [])"

definition recording_execute ::
  "(string \<Rightarrow> jsval option) \<Rightarrow> sql_command \<Rightarrow> recording_store \<Rightarrow> recording_store \<times> sql_command outcome" where
  "recording_execute parse command st =
     (let (rows, commands) = st; commands' = commands @ [command]
      in case rowFromPublishedArtifactUpsert parse command of
           Inl message \<Rightarrow> ((rows, commands'), Died (ErrorThrown message))
         | Inr None \<Rightarrow> ((rows, commands'), Done command)
         | Inr (Some row) \<Rightarrow> ((js_map_set (ar_artifact_id row) row rows, commands'), Done command))"

definition recording_query_one ::
  "sql_command \<Rightarrow> recording_store \<Rightarrow> recording_store \<times> artifact_row option outcome" where
  "recording_query_one command st =
     (let (rows, commands) = st; st' = (rows, commands @ [command])
      in if sc_name command \<noteq> ''published_artifacts.get'' then (st', Done None)
         else (st', Done (case stringCommandValue command 0 of
                            None \<Rightarrow> None | Some artifactId \<Rightarrow> map_of rows artifactId)))"

definition postgres_get ::
  "(string \<Rightarrow> jsval option) \<Rightarrow> (sql_command \<Rightarrow> 'k \<Rightarrow> 'k \<times> artifact_row option outcome) \<Rightarrow> string \<Rightarrow> 'k \<Rightarrow>
     'k \<times> signed_artifact option outcome" where
  "postgres_get parse queryOne artifactId k =
     (case queryOne (artifactByIdCommand artifactId) k of
        (k', Failed e) \<Rightarrow> (k', Failed e)
      | (k', Died d) \<Rightarrow> (k', Died d)
      | (k', Done None) \<Rightarrow> (k', Done None)
      | (k', Done (Some row)) \<Rightarrow>
          (case canonicalJsonBody parse (ar_canonical_json row) of
             Inl message \<Rightarrow> (k', Died (ErrorThrown message))
           | Inr body \<Rightarrow> (k', Done (Some
               \<lparr>sa_artifact_id = ar_artifact_id row, sa_artifact_hash = ar_artifact_hash row,
                sa_artifact_type = ar_artifact_type row, sa_version = ar_version row, sa_body = body\<rparr>))))"

definition postgres_put ::
  "(sql_command \<Rightarrow> 'k \<Rightarrow> 'k \<times> sql_command outcome) \<Rightarrow> signed_artifact \<Rightarrow> 'k \<Rightarrow> 'k \<times> signed_artifact outcome" where
  "postgres_put execute artifact k =
     (case publishedArtifactCommand artifact of
        Inl message \<Rightarrow> (k, Died (ErrorThrown message))
      | Inr command \<Rightarrow>
          (case execute command k of
             (k', Failed e) \<Rightarrow> (k', Failed e)
           | (k', Died d) \<Rightarrow> (k', Died d)
           | (k', Done _) \<Rightarrow> (k', Done artifact)))"

text \<open>
  What the text of the upsert does to a row with the same id: \<^verbatim>\<open>do update set\<close> names the body, the
  hash and the version, but not the type.
\<close>

definition published_artifacts_upsert :: "artifact_row \<Rightarrow> (string \<times> artifact_row) list \<Rightarrow> (string \<times> artifact_row) list" where
  "published_artifacts_upsert row rows =
     js_map_set (ar_artifact_id row)
       (case map_of rows (ar_artifact_id row) of
          None \<Rightarrow> row
        | Some old \<Rightarrow> row\<lparr>ar_artifact_type := ar_artifact_type old\<rparr>) rows"


subsection \<open>Transactions\<close>

definition raw_command :: "string \<Rightarrow> sql_command" where
  "raw_command name = \<lparr>sc_name = name, sc_values = []\<rparr>"

text \<open>
  \<open>connect\<close> and \<open>release\<close> act on the pool, \<open>query\<close> on the connected client; a promise that rejects is
  a typed error. \<^verbatim>\<open>catchAll\<close> sees typed errors only, \<^verbatim>\<open>acquireUseRelease\<close> releases in every case.
\<close>

definition transact ::
  "('k, unit) call \<Rightarrow> (sql_command \<Rightarrow> ('k, unit) call) \<Rightarrow> ('k \<Rightarrow> 'k) \<Rightarrow> ('k \<Rightarrow> 'k \<times> 'a outcome) \<Rightarrow>
     'k \<Rightarrow> 'k \<times> 'a outcome" where
  "transact connect query release use k =
     (case connect k of
        (k0, Inl e) \<Rightarrow> (k0, Failed e)
      | (k0, Inr _) \<Rightarrow>
          (let (k', out) =
             (case query (raw_command ''transaction.begin'') k0 of
                (k1, Inl e) \<Rightarrow> (k1, Failed e)
              | (k1, Inr _) \<Rightarrow>
                  (case use k1 of
                     (k2, Failed e) \<Rightarrow> (k2, Failed e)
                   | (k2, Died d) \<Rightarrow> (k2, Died d)
                   | (k2, Done result) \<Rightarrow>
                       (case query (raw_command ''transaction.commit'') k2 of
                          (k3, Inl e) \<Rightarrow> (k3, Failed e)
                        | (k3, Inr _) \<Rightarrow> (k3, Done result))))
           in case out of
                Failed e \<Rightarrow> (release (fst (query (raw_command ''transaction.rollback'') k')), Failed e)
              | _ \<Rightarrow> (release k', out)))"

text \<open>\<^verbatim>\<open>execute\<close> of the executor made from a client.\<close>

definition client_execute :: "(sql_command \<Rightarrow> ('k, unit) call) \<Rightarrow> sql_command \<Rightarrow> ('k, sql_command) call" where
  "client_execute query command k =
     (case query command k of (k', Inl e) \<Rightarrow> (k', Inl e) | (k', Inr _) \<Rightarrow> (k', Inr command))"

end
