(* ===== verification/PersistenceFacts.thy ===== *)
theory PersistenceFacts
  imports Persistence OutboxFacts
begin

text \<open>
  Facts on the Postgres services: what an enqueued event decodes to and that it reaches the message
  sink, what a batch records, when a transaction commits, and that the artifact store keeps the
  contract of the in-memory one.
\<close>

subsection \<open>JSON values\<close>

text \<open>A value without absent or non-finite parts survives its JSON text.\<close>

fun json_clean :: "jsval \<Rightarrow> bool" where
  "json_clean JUndefined = False"
| "json_clean (JObj kvs) = list_all (\<lambda>x. json_clean (snd x)) kvs"
| "json_clean (JArr vs) = list_all json_clean vs"
| "json_clean (JNum (Fin q)) = True"
| "json_clean (JNum _) = False"
| "json_clean v = True"

lemma clean_not_undefined [simp]: "json_clean v \<Longrightarrow> v \<noteq> JUndefined"
  by (cases v) auto

lemma json_value_clean: "json_clean v \<Longrightarrow> json_value v = v"
proof (induction v rule: json_value.induct)
  case (1 kvs)
  then have clean: "json_clean v" if "(k, v) \<in> set kvs" for k v
    using that by (auto simp: list_all_iff)
  then have "filter (\<lambda>(k, v). v \<noteq> JUndefined) kvs = kvs"
    by (intro filter_True) (auto dest: clean)
  moreover have "map (\<lambda>(k, v). (k, json_value v)) kvs = kvs"
    using 1(1) clean calculation by (intro map_idI) fastforce
  ultimately show ?case by simp
next
  case (2 vs)
  then have "json_clean v" if "v \<in> set vs" for v
    using that by (simp add: list_all_iff)
  then show ?case using 2(1) by (auto intro!: map_idI)
qed (auto split: jsnum.splits)

lemma json_value_defined: "v \<noteq> JUndefined \<Longrightarrow> json_value v \<noteq> JUndefined"
  by (cases v) (auto split: jsnum.splits)

lemma envelope_clean: "json_clean (envelope_json e)"
  by (simp add: envelope_json_def int_json_def opt_prop_def split: option.splits)

lemma get_prop_json_value:
  "get_prop (json_value (JObj kvs)) k =
     (if \<exists>v. map_of (filter (\<lambda>(k, v). v \<noteq> JUndefined) kvs) k = Some v
      then json_value (the (map_of (filter (\<lambda>(k, v). v \<noteq> JUndefined) kvs) k)) else JUndefined)"
  by (auto simp: get_prop_def map_of_map split: option.splits)


subsection \<open>Enqueued events\<close>

text \<open>What the outbox decodes of the body of an event.\<close>

definition decoded_body :: "event_body \<Rightarrow> event_body" where
  "decoded_body body =
     (case event_body_json body of JUndefined \<Rightarrow> NoBody | v \<Rightarrow> JsonBody (json_value v))"

definition pending_row :: "string \<Rightarrow> int \<Rightarrow> network_event \<Rightarrow> outbox_entry work_row" where
  "pending_row outboxId now event =
     \<lparr>wr_id = outboxId,
      wr_payload = \<lparr>oe_event_id = ee_event_id (ne_envelope event), oe_event_type = ee_type (ne_envelope event),
        oe_payload = json_value (network_event_json event)\<rparr>,
      wr_created_at = now, wr_status = Work_pending, wr_attempts = 0, wr_claimed_by = None,
      wr_claimed_at = None, wr_claim_expires_at = None, wr_last_error = None, wr_finished_at = None\<rparr>"

lemma enqueue_new:
  assumes "ee_event_id (ne_envelope event) \<notin> set (map (\<lambda>r. oe_event_id (wr_payload r)) rows)"
  shows "enqueue_event outboxId now (eventOutboxCommand event) rows = rows @ [pending_row outboxId now event]"
  using assms by (simp add: enqueue_event_def eventOutboxCommand_def Let_def pending_row_def)

lemma enqueue_old:
  assumes "ee_event_id (ne_envelope event) \<in> set (map (\<lambda>r. oe_event_id (wr_payload r)) rows)"
  shows "enqueue_event outboxId now (eventOutboxCommand event) rows = rows"
  using assms by (simp add: enqueue_event_def eventOutboxCommand_def Let_def)

lemma pending_row_decodes:
  assumes "envelope_valid P (ne_envelope event)"
  shows "networkEventFromOutboxRecord P (record_of_row (pending_row outboxId now event)) =
    Inr \<lparr>ne_envelope = ne_envelope event, ne_body = decoded_body (ne_body event)\<rparr>"
proof -
  let ?e = "envelope_json (ne_envelope event)" and ?b = "event_body_json (ne_body event)"
  have payload: "json_value (network_event_json event) =
      JObj ((''envelope'', ?e) # (if ?b = JUndefined then [] else [(''body'', json_value ?b)]))"
    using envelope_clean [of "ne_envelope event"]
    by (simp add: network_event_json_def json_value_clean)
  have "get_prop (json_value (network_event_json event)) ''envelope'' = ?e"
    "get_prop (json_value (network_event_json event)) ''body'' = (if ?b = JUndefined then JUndefined else json_value ?b)"
    unfolding payload by (simp_all add: get_prop_def)
  moreover have "payloadObject (json_value (network_event_json event)) = Inr (json_value (network_event_json event))"
    unfolding payload by (simp add: payloadObject_def)
  ultimately show ?thesis
    using assms json_value_defined [of ?b]
    by (simp add: networkEventFromOutboxRecord_def record_of_row_def pending_row_def envelope_round_trip
        decodeEventEnvelope_def decoded_body_def Let_def split: jsval.splits)
qed

lemma pending_row_fields [simp]:
  "wr_id (pending_row i now event) = i" "wr_status (pending_row i now event) = Work_pending"
  "oe_event_id (wr_payload (pending_row i now event)) = ee_event_id (ne_envelope event)"
  by (simp_all add: pending_row_def)

text \<open>The events that a bus enqueues one after the other, with the ids the database gives their rows.\<close>

definition enqueue_all :: "int \<Rightarrow> (string \<times> network_event) list \<Rightarrow> outbox_table \<Rightarrow> outbox_table" where
  "enqueue_all now events rows =
     fold (\<lambda>(outboxId, event). enqueue_event outboxId now (eventOutboxCommand event)) events rows"

lemma enqueue_all_rows:
  assumes "distinct (map (\<lambda>(i, event). ee_event_id (ne_envelope event)) events)"
    and "\<forall>(i, event) \<in> set events. ee_event_id (ne_envelope event) \<notin> set (map (\<lambda>r. oe_event_id (wr_payload r)) rows)"
  shows "enqueue_all now events rows = rows @ map (\<lambda>(i, event). pending_row i now event) events"
  using assms
proof (induction events arbitrary: rows)
  case (Cons x events)
  obtain i event where x: "x = (i, event)" by (cases x)
  have new: "enqueue_event i now (eventOutboxCommand event) rows = rows @ [pending_row i now event]"
    using Cons.prems(2) by (intro enqueue_new) (auto simp: x)
  have "enqueue_all now events (rows @ [pending_row i now event]) =
      (rows @ [pending_row i now event]) @ map (\<lambda>(i, event). pending_row i now event) events"
    using Cons.prems by (intro Cons.IH) (force simp: x)+
  then show ?case by (simp add: enqueue_all_def x new)
qed (simp add: enqueue_all_def)

lemma enqueued_start:
  assumes "distinct (map fst events)" "\<forall>(i, event) \<in> set events. envelope_valid P (ne_envelope event) \<and> survivable event"
  shows "outbox_start P (map (\<lambda>(i, event). pending_row i now event) events)"
proof -
  have ids: "map wr_id (map (\<lambda>(i, event). pending_row i now event) events) = map fst events"
    by auto
  have "record_ok P (record_of_row (pending_row i now event))" if "(i, event) \<in> set events" for i event
    using that assms(2) pending_row_decodes [of P event i now] by (auto simp: record_ok_def survivable_def)
  then show ?thesis unfolding outbox_start_def ids using assms(1) by auto
qed

lemma message_of_envelope:
  "jetStreamMessageFromEvent \<lparr>ne_envelope = ne_envelope event, ne_body = b\<rparr> = jetStreamMessageFromEvent event"
  by (simp add: jetStreamMessageFromEvent_def)


subsection \<open>Batches\<close>

text \<open>The statements of a batch that can be built.\<close>

lemma run_commands_sink:
  assumes "run_commands sink_execute commands k = (k', out)"
  shows "\<exists>sent. k' = k @ sent \<and> prefix (map Inr sent) commands \<and>
    (case out of Done _ \<Rightarrow> commands = map Inr sent | Failed _ \<Rightarrow> False
     | Died d \<Rightarrow> (\<exists>message. d = ErrorThrown message \<and> prefix (map Inr sent @ [Inl message]) commands))"
  using assms
proof (induction commands arbitrary: k)
  case (Cons x commands)
  show ?case
  proof (cases x)
    case (Inl message)
    then show ?thesis using Cons.prems by (intro exI [of _ "[]"]) auto
  next
    case (Inr command)
    then have run: "run_commands sink_execute commands (k @ [command]) = (k', out)"
      using Cons.prems by (simp add: sink_execute_def [of command k])
    obtain sent where "k' = (k @ [command]) @ sent" "prefix (map Inr sent) commands"
      "case out of Done _ \<Rightarrow> commands = map Inr sent | Failed _ \<Rightarrow> False
       | Died d \<Rightarrow> (\<exists>message. d = ErrorThrown message \<and> prefix (map Inr sent @ [Inl message]) commands)"
      using Cons.IH [OF run] by blast
    then show ?thesis
      using Inr by (intro exI [of _ "command # sent"]) (auto split: outcome.splits)
  qed
qed auto

lemma command_names:
  "publishedArtifactCommand a = Inr c \<Longrightarrow> sc_name c = ''published_artifacts.upsert''"
  "statusEventCommand a = Inr (Some c) \<Longrightarrow> sc_name c = ''status_events.upsert''"
  "sc_name (eventOutboxCommand e) = ''event_outbox.enqueue''"
  "sc_name (verifierCacheEntryCommand entry) = ''verifier_cache_entries.upsert''"
  "sc_name (scannerDecisionCommand v d) = ''scanner_decisions.insert''"
  "sc_name (runtimeObservationCommand ob) = ''runtime_observations.insert''"
  by (auto simp: publishedArtifactCommand_def statusEventCommand_def eventOutboxCommand_def
      verifierCacheEntryCommand_def scannerDecisionCommand_def runtimeObservationCommand_def Let_def
      and_then_Inr split: if_splits)

definition named :: "string \<Rightarrow> sql_command list \<Rightarrow> nat" where
  "named name commands = length (filter (\<lambda>c. sc_name c = name) commands)"

lemma named_simps [simp]:
  "named n [] = 0" "named n (xs @ ys) = named n xs + named n ys"
  "named n (c # cs) = (if sc_name c = n then 1 else 0) + named n cs"
  by (simp_all add: named_def)

lemma named_map: "(\<And>x. sc_name (f x) = m) \<Longrightarrow> named n (map f xs) = (if m = n then length xs else 0)"
  by (induction xs) auto

lemma artifact_statements:
  assumes "concat (map artifact_commands as) = map Inr cs"
  shows "named ''published_artifacts.upsert'' cs = length as"
    "named ''status_events.upsert'' cs =
      length (filter (\<lambda>a. case statusEventCommand a of Inr (Some _) \<Rightarrow> True | _ \<Rightarrow> False) as)"
    "\<forall>c \<in> set cs. sc_name c \<in> {''published_artifacts.upsert'', ''status_events.upsert''}"
  using assms
proof (induction as arbitrary: cs)
  case (Cons a as)
  {
    fix cs assume "concat (map artifact_commands (a # as)) = map Inr cs"
    then obtain c cs1 cs2 where c: "publishedArtifactCommand a = Inr c" "cs = c # cs1 @ cs2"
      "concat (map artifact_commands as) = map Inr cs2"
      "(case statusEventCommand a of Inl message \<Rightarrow> [Inl message] | Inr None \<Rightarrow> []
        | Inr (Some command) \<Rightarrow> [Inr command]) = map Inr cs1"
      by (auto simp: artifact_commands_def Cons_eq_map_conv append_eq_map_conv)
    have "cs1 = [] \<and> statusEventCommand a = Inr None \<or> (\<exists>d. cs1 = [d] \<and> statusEventCommand a = Inr (Some d))"
      using c(4) by (auto split: sum.splits option.splits simp: Cons_eq_map_conv)
    then have "named ''published_artifacts.upsert'' cs = length (a # as) \<and>
      named ''status_events.upsert'' cs =
        length (filter (\<lambda>a. case statusEventCommand a of Inr (Some _) \<Rightarrow> True | _ \<Rightarrow> False) (a # as)) \<and>
      (\<forall>c \<in> set cs. sc_name c \<in> {''published_artifacts.upsert'', ''status_events.upsert''})"
      using Cons.IH [OF c(3)] c(1,2) command_names(1) [OF c(1)] by (auto dest: command_names(2))
  } note step = this
  { case 1 then show ?case using step by blast next case 2 then show ?case using step by blast
    next case 3 then show ?case using step by blast }
qed simp_all

lemma map_Inr_eq [simp]: "map (\<lambda>x. Inr (f x)) xs = map Inr cs \<longleftrightarrow> cs = map f xs"
  by (induction xs arbitrary: cs) (auto simp: Cons_eq_map_conv)


lemma map_Inr_append:
  "xs @ ys = map Inr cs \<longleftrightarrow> (\<exists>as bs. cs = as @ bs \<and> xs = map Inr as \<and> ys = map Inr bs)"
  by (auto simp: append_eq_map_conv)

lemma batch_statements:
  assumes "batch_commands input = map Inr cs"
  shows "named ''published_artifacts.upsert'' cs = length (pb_artifacts input)"
    "named ''status_events.upsert'' cs =
      length (filter (\<lambda>a. case statusEventCommand a of Inr (Some _) \<Rightarrow> True | _ \<Rightarrow> False) (pb_artifacts input))"
    "named ''event_outbox.enqueue'' cs = length (pb_events input)"
    "named ''verifier_cache_entries.upsert'' cs = length (pb_verifier_cache_entries input)"
    "named ''runtime_observations.insert'' cs = length (pb_runtime_observations input)"
    "named ''scanner_decisions.insert'' cs = length (pb_scanner_decisions input)"
    "length cs = named ''published_artifacts.upsert'' cs + named ''status_events.upsert'' cs +
      named ''event_outbox.enqueue'' cs + named ''verifier_cache_entries.upsert'' cs +
      named ''runtime_observations.insert'' cs + named ''scanner_decisions.insert'' cs"
proof -
  obtain cs1 where cs: "cs = cs1 @ map eventOutboxCommand (pb_events input) @
      map verifierCacheEntryCommand (pb_verifier_cache_entries input) @
      map runtimeObservationCommand (pb_runtime_observations input) @
      map (\<lambda>(v, d). scannerDecisionCommand v d) (pb_scanner_decisions input)"
    and artifacts: "concat (map artifact_commands (pb_artifacts input)) = map Inr cs1"
    using assms by (auto simp: batch_commands_def map_Inr_append case_prod_unfold)
  note a = artifact_statements [OF artifacts]
  have none: "named n cs1 = 0" if "n \<notin> {''published_artifacts.upsert'', ''status_events.upsert''}" for n
    using that a(3) by (auto simp: named_def filter_empty_conv)
  have rest: "named n (map eventOutboxCommand xs) = (if ''event_outbox.enqueue'' = n then length xs else 0)"
    "named n (map verifierCacheEntryCommand ys) = (if ''verifier_cache_entries.upsert'' = n then length ys else 0)"
    "named n (map runtimeObservationCommand zs) = (if ''runtime_observations.insert'' = n then length zs else 0)"
    "named n (map (\<lambda>(v, d). scannerDecisionCommand v d) ds) =
       (if ''scanner_decisions.insert'' = n then length ds else 0)" for n xs ys zs ds
    by (rule named_map; simp add: command_names split: prod.splits)+
  have "length cs1 = named ''published_artifacts.upsert'' cs1 + named ''status_events.upsert'' cs1"
    using a(3) by (induction cs1) auto
  then show "named ''published_artifacts.upsert'' cs = length (pb_artifacts input)"
    "named ''status_events.upsert'' cs =
      length (filter (\<lambda>a. case statusEventCommand a of Inr (Some _) \<Rightarrow> True | _ \<Rightarrow> False) (pb_artifacts input))"
    "named ''event_outbox.enqueue'' cs = length (pb_events input)"
    "named ''verifier_cache_entries.upsert'' cs = length (pb_verifier_cache_entries input)"
    "named ''runtime_observations.insert'' cs = length (pb_runtime_observations input)"
    "named ''scanner_decisions.insert'' cs = length (pb_scanner_decisions input)"
    "length cs = named ''published_artifacts.upsert'' cs + named ''status_events.upsert'' cs +
      named ''event_outbox.enqueue'' cs + named ''verifier_cache_entries.upsert'' cs +
      named ''runtime_observations.insert'' cs + named ''scanner_decisions.insert'' cs"
    using a(1,2) by (simp_all add: cs rest none)
qed


subsection \<open>Transactions\<close>

text \<open>
  A client that writes down what it is asked and whether it did it, whatever its answers: a trace
  is a list of names with that mark.
\<close>

type_synonym trace = "(string \<times> bool) list"

definition traced ::
  "(sql_command \<Rightarrow> 's \<Rightarrow> 's \<times> (net_error + unit)) \<Rightarrow> sql_command \<Rightarrow> (trace \<times> 's, unit) call" where
  "traced answer command st =
     (let (seen, s) = st; (s', r) = answer command s
      in ((seen @ [(sc_name command, case r of Inl _ \<Rightarrow> False | Inr _ \<Rightarrow> True)], s'), r))"

definition traced_connect ::
  "('s \<Rightarrow> 's \<times> (net_error + unit)) \<Rightarrow> (trace \<times> 's, unit) call" where
  "traced_connect connect st = (let (seen, s) = st; (s', r) = connect s in ((seen, s'), r))"

definition traced_release :: "('s \<Rightarrow> 's) \<Rightarrow> trace \<times> 's \<Rightarrow> trace \<times> 's" where
  "traced_release release st = (let (seen, s) = st in (seen @ [(''release'', True)], release s))"

definition executed :: "sql_command list \<Rightarrow> trace" where
  "executed cs = map (\<lambda>c. (sc_name c, True)) cs"

text \<open>
  What the statements of a batch leave in the trace: all of them when it is done, otherwise those
  up to the one that failed, or those before the one that could not be built.
\<close>

definition whole_batch :: "(string + sql_command) list \<Rightarrow> trace \<Rightarrow> bool" where
  "whole_batch commands t \<longleftrightarrow> (\<exists>cs. commands = map Inr cs \<and> t = executed cs)"

definition failed_statement :: "(string + sql_command) list \<Rightarrow> trace \<Rightarrow> bool" where
  "failed_statement commands t \<longleftrightarrow>
     (\<exists>cs c. prefix (map Inr (cs @ [c])) commands \<and> t = executed cs @ [(sc_name c, False)])"

definition unbuilt_statement :: "(string + sql_command) list \<Rightarrow> defect \<Rightarrow> trace \<Rightarrow> bool" where
  "unbuilt_statement commands d t \<longleftrightarrow>
     (\<exists>cs message. d = ErrorThrown message \<and> prefix (map Inr cs @ [Inl message]) commands \<and> t = executed cs)"

definition batch_trace :: "(string + sql_command) list \<Rightarrow> 'a outcome \<Rightarrow> trace \<Rightarrow> bool" where
  "batch_trace commands out t \<longleftrightarrow>
     (case out of Done _ \<Rightarrow> whole_batch commands t | Failed _ \<Rightarrow> failed_statement commands t
      | Died d \<Rightarrow> unbuilt_statement commands d t)"

text \<open>
  What a transaction over a batch leaves in the trace, by how it ends. A typed error has one of four
  origins: no client, the begin, a statement, or the commit after the whole batch.
\<close>

definition transaction_trace :: "(string + sql_command) list \<Rightarrow> 'a outcome \<Rightarrow> trace \<Rightarrow> bool" where
  "transaction_trace commands out trace \<longleftrightarrow>
     (case out of
        Done _ \<Rightarrow> \<exists>t. whole_batch commands t \<and>
          trace = [(''transaction.begin'', True)] @ t @ [(''transaction.commit'', True), (''release'', True)]
      | Failed _ \<Rightarrow>
          trace = [] \<or>
          (\<exists>b. trace = [(''transaction.begin'', False), (''transaction.rollback'', b), (''release'', True)]) \<or>
          (\<exists>t b. failed_statement commands t \<and>
             trace = [(''transaction.begin'', True)] @ t @ [(''transaction.rollback'', b), (''release'', True)]) \<or>
          (\<exists>t b. whole_batch commands t \<and>
             trace = [(''transaction.begin'', True)] @ t @
               [(''transaction.commit'', False), (''transaction.rollback'', b), (''release'', True)])
      | Died d \<Rightarrow> \<exists>t. unbuilt_statement commands d t \<and>
          trace = [(''transaction.begin'', True)] @ t @ [(''release'', True)])"

lemma executed_simps [simp]: "executed [] = []" "executed (c # cs) = (sc_name c, True) # executed cs"
  by (simp_all add: executed_def)

lemma batch_trace_step:
  assumes "batch_trace commands out t"
  shows "batch_trace (Inr c # commands) out ((sc_name c, True) # t)"
proof (cases out)
  case (Done r)
  then obtain cs where "commands = map Inr cs" "t = executed cs"
    using assms by (auto simp: batch_trace_def whole_batch_def)
  then have "Inr c # commands = map Inr (c # cs) \<and> (sc_name c, True) # t = executed (c # cs)" by simp
  then show ?thesis unfolding batch_trace_def Done outcome.case whole_batch_def by (rule exI)
next
  case (Failed e)
  then obtain cs c' where "prefix (map Inr (cs @ [c'])) commands" "t = executed cs @ [(sc_name c', False)]"
    using assms by (auto simp: batch_trace_def failed_statement_def)
  then have "prefix (map Inr ((c # cs) @ [c'])) (Inr c # commands) \<and>
      (sc_name c, True) # t = executed (c # cs) @ [(sc_name c', False)]" by simp
  then show ?thesis unfolding batch_trace_def Failed outcome.case failed_statement_def by blast
next
  case (Died d)
  then obtain cs message where "d = ErrorThrown message" "prefix (map Inr cs @ [Inl message]) commands" "t = executed cs"
    using assms by (auto simp: batch_trace_def unbuilt_statement_def)
  then have "d = ErrorThrown message \<and> prefix (map Inr (c # cs) @ [Inl message]) (Inr c # commands) \<and>
      (sc_name c, True) # t = executed (c # cs)" by simp
  then show ?thesis unfolding batch_trace_def Died outcome.case unbuilt_statement_def by blast
qed

lemma batch_trace_start:
  "batch_trace [] (Done r) []"
  "batch_trace (Inl message # commands) (Died (ErrorThrown message)) []"
  "batch_trace (Inr c # commands) (Failed e) [(sc_name c, False)]"
  unfolding batch_trace_def outcome.case whole_batch_def unbuilt_statement_def failed_statement_def
  subgoal by simp
  subgoal by (rule exI [of _ "[]"]) simp
  subgoal by (rule exI [of _ "[]"], rule exI [of _ c], simp)
  done

lemma traced_run:
  assumes "run_commands (client_execute (traced answer)) commands (seen, s) = ((seen', s'), out)"
  shows "\<exists>t. seen' = seen @ t \<and> batch_trace commands out t"
  using assms
proof (induction commands arbitrary: seen s)
  case Nil
  then show ?case by (auto intro: batch_trace_start)
next
  case (Cons x commands)
  show ?case
  proof (cases x)
    case (Inl message)
    then show ?thesis using Cons.prems by (auto intro: batch_trace_start)
  next
    case command: (Inr command)
    obtain s1 r where a: "answer command s = (s1, r)" by fastforce
    show ?thesis
    proof (cases r)
      case (Inl e)
      then show ?thesis
        using Cons.prems command a
        by (auto simp: client_execute_def traced_def Let_def intro: batch_trace_start)
    next
      case (Inr u)
      have run: "run_commands (client_execute (traced answer)) commands (seen @ [(sc_name command, True)], s1) =
          ((seen', s'), out)"
        using Cons.prems command a Inr
        by (simp add: client_execute_def [of _ command] traced_def [of _ command] Let_def)
      obtain t where "seen' = (seen @ [(sc_name command, True)]) @ t" "batch_trace commands out t"
        using Cons.IH [OF run] by blast
      then show ?thesis
        using batch_trace_step [of commands out t command] command by auto
    qed
  qed
qed

lemma traced_batch:
  assumes "persistBatch (client_execute (traced answer)) input (seen, s) = ((seen', s'), out)"
  shows "\<exists>t. seen' = seen @ t \<and> batch_trace (batch_commands input) out t"
proof -
  obtain st1 out1 where run: "run_commands (client_execute (traced answer)) (batch_commands input) (seen, s) =
      (st1, out1)" by fastforce
  obtain seen1 s1 where st1: "st1 = (seen1, s1)" by (cases st1)
  show ?thesis
    using traced_run [OF run [unfolded st1]] assms run st1
    by (cases out1) (auto simp: persistBatch_def batch_trace_def)
qed

text \<open>The steps of a transaction, in the traces.\<close>

lemma traced_raw:
  "traced answer (raw_command n) (l, x) =
     ((l @ [(n, case snd (answer (raw_command n) x) of Inl _ \<Rightarrow> False | Inr _ \<Rightarrow> True)],
       fst (answer (raw_command n) x)), snd (answer (raw_command n) x))"
  by (simp add: traced_def raw_command_def Let_def split: prod.splits)

lemma traced_transact:
  assumes "connect s = (s0, Inr ())" and "answer (raw_command ''transaction.begin'') s0 = (s1, Inr ())"
    and "use (seen @ [(''transaction.begin'', True)], s1) = ((seen2, s2), out2)"
    and "answer (raw_command ''transaction.commit'') s2 = (s3, r3)"
  shows "\<exists>b s'. transact (traced_connect connect) (traced answer) (traced_release release) use (seen, s) =
    (case out2 of
       Failed e \<Rightarrow> ((seen2 @ [(''transaction.rollback'', b), (''release'', True)], s'), Failed e)
     | Died d \<Rightarrow> ((seen2 @ [(''release'', True)], s'), Died d)
     | Done rep \<Rightarrow>
         (case r3 of
            Inl e \<Rightarrow> ((seen2 @ [(''transaction.commit'', False), (''transaction.rollback'', b), (''release'', True)], s'),
              Failed e)
          | Inr _ \<Rightarrow> ((seen2 @ [(''transaction.commit'', True), (''release'', True)], s'), Done rep)))"
  using assms
  by (cases out2; cases r3)
    (simp_all add: transact_def traced_connect_def traced_raw traced_release_def Let_def)

lemma traced_transaction:
  assumes "transact (traced_connect connect) (traced answer) (traced_release release)
      (persistBatch (client_execute (traced answer)) input) (seen, s) = ((seen', s'), out)"
  shows "\<exists>trace. seen' = seen @ trace \<and> transaction_trace (batch_commands input) out trace \<and>
    (trace = [] \<longleftrightarrow> snd (connect s) \<noteq> Inr ())"
proof -
  obtain s0 r0 where c: "connect s = (s0, r0)" by fastforce
  obtain s1 r1 where b: "answer (raw_command ''transaction.begin'') s0 = (s1, r1)" by fastforce
  show ?thesis
  proof (cases r0)
    case (Inl e)
    then show ?thesis
      using assms c by (auto simp: transact_def traced_connect_def transaction_trace_def)
  next
    case connected: (Inr u)
    show ?thesis
    proof (cases r1)
      case (Inl e)
      then show ?thesis
        using assms c connected b
        by (auto simp: transact_def traced_connect_def traced_raw traced_release_def transaction_trace_def Let_def)
    next
      case begun: (Inr u)
      obtain seen2 s2 out2 where p: "persistBatch (client_execute (traced answer)) input
          (seen @ [(''transaction.begin'', True)], s1) = ((seen2, s2), out2)" by (metis prod.collapse)
      obtain t where t: "seen2 = (seen @ [(''transaction.begin'', True)]) @ t" "batch_trace (batch_commands input) out2 t"
        using traced_batch [OF p] by blast
      obtain s3 r3 where commit: "answer (raw_command ''transaction.commit'') s2 = (s3, r3)" by fastforce
      have "connect s = (s0, Inr ())" "answer (raw_command ''transaction.begin'') s0 = (s1, Inr ())"
        using c connected b begun by simp_all
      from traced_transact [where use = "persistBatch (client_execute (traced answer)) input" and connect = connect
          and answer = answer and seen = seen and release = release, OF this p commit]
      obtain b' sr where run: "((seen', s'), out) =
        (case out2 of
           Failed e \<Rightarrow> ((seen2 @ [(''transaction.rollback'', b'), (''release'', True)], sr), Failed e)
         | Died d \<Rightarrow> ((seen2 @ [(''release'', True)], sr), Died d)
         | Done rep \<Rightarrow>
             (case r3 of
                Inl e \<Rightarrow> ((seen2 @ [(''transaction.commit'', False), (''transaction.rollback'', b'), (''release'', True)],
                  sr), Failed e)
              | Inr _ \<Rightarrow> ((seen2 @ [(''transaction.commit'', True), (''release'', True)], sr), Done rep)))"
        unfolding assms by blast
      then have "\<exists>trace. seen' = seen @ trace \<and> trace \<noteq> [] \<and> transaction_trace (batch_commands input) out trace"
        using t by (cases out2; cases r3) (auto simp: transaction_trace_def batch_trace_def)
      then show ?thesis using c connected by auto
    qed
  qed
qed

text \<open>The statements of a batch are not those of the transaction.\<close>

lemma batch_command_names:
  assumes "Inr c \<in> set (batch_commands input)"
  shows "sc_name c \<noteq> ''transaction.commit''"
proof -
  have "sc_name c \<noteq> ''transaction.commit''" if "Inr c \<in> set (artifact_commands a)" for a
    using that command_names(1,2) [of a]
    by (cases "statusEventCommand a") (auto simp: artifact_commands_def split: option.splits)
  then show ?thesis using assms by (auto simp: batch_commands_def command_names)
qed

lemma batch_trace_names:
  assumes "batch_trace (batch_commands input) out t"
  shows "(''transaction.commit'', b) \<notin> set t"
proof -
  have "\<exists>cs. prefix (map Inr cs) (batch_commands input) \<and> map fst t = map sc_name cs"
  proof (cases out)
    case (Done r)
    then obtain cs where "batch_commands input = map Inr cs" "t = executed cs"
      using assms by (auto simp: batch_trace_def whole_batch_def)
    then show ?thesis by (intro exI [of _ cs]) (simp add: executed_def comp_def)
  next
    case (Failed e)
    then obtain cs c where "prefix (map Inr (cs @ [c])) (batch_commands input)"
      "t = executed cs @ [(sc_name c, False)]"
      using assms unfolding batch_trace_def failed_statement_def by auto
    then show ?thesis by (intro exI [of _ "cs @ [c]"]) (simp add: executed_def comp_def)
  next
    case (Died d)
    then obtain cs message where "prefix (map Inr cs @ [Inl message]) (batch_commands input)" "t = executed cs"
      using assms by (auto simp: batch_trace_def unbuilt_statement_def)
    then show ?thesis by (intro exI [of _ cs]) (auto simp: executed_def comp_def dest: append_prefixD)
  qed
  then obtain cs where cs: "prefix (map Inr cs) (batch_commands input)" "map fst t = map sc_name cs" by blast
  have "sc_name c \<noteq> ''transaction.commit''" if "c \<in> set cs" for c
    by (rule batch_command_names [of _ input]) (use that set_mono_prefix [OF cs(1)] in auto)
  then have "''transaction.commit'' \<notin> sc_name ` set cs" by force
  then have "''transaction.commit'' \<notin> set (map fst t)" unfolding cs(2) by simp
  then show ?thesis by force
qed

lemma committed_iff_done:
  assumes "transaction_trace (batch_commands input) out trace"
  shows "(''transaction.commit'', True) \<in> set trace \<longleftrightarrow> (\<exists>rep. out = Done rep)"
proof -
  have "whole_batch (batch_commands input) t \<Longrightarrow> (''transaction.commit'', b) \<notin> set t"
    "failed_statement (batch_commands input) t \<Longrightarrow> (''transaction.commit'', b) \<notin> set t"
    "unbuilt_statement (batch_commands input) d t \<Longrightarrow> (''transaction.commit'', b) \<notin> set t" for t b d
    using batch_trace_names [of input "Done ()" t b] batch_trace_names [of input "Failed undefined :: unit outcome" t b]
      batch_trace_names [of input "Died d :: unit outcome" t b]
    unfolding batch_trace_def outcome.case by blast+
  then show ?thesis using assms by (cases out) (auto simp: transaction_trace_def)
qed


subsection \<open>The artifact store\<close>

text \<open>The artifacts in the rows of the recording executor, as the in-memory store has them.\<close>

definition artifact_of_row :: "artifact_row \<Rightarrow> signed_artifact" where
  "artifact_of_row r =
     \<lparr>sa_artifact_id = ar_artifact_id r, sa_artifact_hash = ar_artifact_hash r,
      sa_artifact_type = ar_artifact_type r, sa_version = ar_version r, sa_body = ar_canonical_json r\<rparr>"

definition stored_artifacts :: "recording_store \<Rightarrow> (string \<times> signed_artifact) list" where
  "stored_artifacts st = map (\<lambda>(k, r). (k, artifact_of_row r)) (fst st)"

definition store_wf :: "recording_store \<Rightarrow> bool" where
  "store_wf st \<longleftrightarrow> (\<forall>(k, r) \<in> set (fst st). k \<noteq> [] \<and> \<not> is_str (ar_canonical_json r))"

definition storable :: "signed_artifact \<Rightarrow> bool" where
  "storable a \<longleftrightarrow> (case publishedArtifactCommand a of Inl _ \<Rightarrow> False | Inr _ \<Rightarrow> True) \<and>
     sa_artifact_id a \<noteq> [] \<and> sa_artifact_type a \<noteq> [] \<and> sa_artifact_hash a \<noteq> [] \<and>
     json_clean (sa_body a) \<and> \<not> is_str (sa_body a)"

lemma map_update: "map (\<lambda>(k, r). (k, f r)) (AList.update k r xs) = AList.update k (f r) (map (\<lambda>(k, r). (k, f r)) xs)"
  by (induction xs) auto

lemma in_update: "x \<in> set (AList.update k v xs) \<Longrightarrow> x = (k, v) \<or> x \<in> set xs"
  by (induction xs) (auto split: if_splits)

lemma put_refines:
  assumes "store_wf st" "storable a"
  shows "\<exists>st'. postgres_put (recording_execute parse) a st = (st', Done a) \<and> store_wf st' \<and>
    stored_artifacts st' = fst (memory_put a (stored_artifacts st))"
proof -
  obtain command where c: "publishedArtifactCommand a = Inr command"
    using assms(2) by (auto simp: storable_def split: sum.splits)
  let ?row = "\<lparr>ar_artifact_id = sa_artifact_id a, ar_artifact_hash = sa_artifact_hash a,
    ar_artifact_type = sa_artifact_type a, ar_version = sa_version a, ar_canonical_json = sa_body a\<rparr>"
  have row: "rowFromPublishedArtifactUpsert parse command = Inr (Some ?row)"
    using c assms(2)
    by (auto simp: publishedArtifactCommand_def Let_def and_then_Inr rowFromPublishedArtifactUpsert_def
        requireStringCommandValue_def requireNumberCommandValue_def stringCommandValue_def command_value_def
        canonical_json_parameter_def storable_def json_value_clean)
  obtain rows commands where st: "st = (rows, commands)" by (cases st)
  have "artifact_of_row ?row = a" by (simp add: artifact_of_row_def)
  then show ?thesis
    using assms row c
    by (auto simp: postgres_put_def recording_execute_def st store_wf_def stored_artifacts_def memory_put_def
        map_update storable_def dest!: in_update)
qed

lemma get_refines:
  assumes "store_wf st"
  shows "\<exists>st'. postgres_get parse recording_query_one i st = (st', Done (memory_get i (stored_artifacts st))) \<and>
    store_wf st' \<and> stored_artifacts st' = stored_artifacts st"
proof -
  obtain rows commands where st: "st = (rows, commands)" by (cases st)
  have found: "memory_get i (stored_artifacts st) = map_option artifact_of_row (map_of rows i)"
    by (simp add: memory_get_def stored_artifacts_def st map_of_map)
  have empty: "map_of rows [] = None"
    using assms by (auto simp: store_wf_def st map_of_eq_None_iff)
  have "canonicalJsonBody parse (ar_canonical_json r) = Inr (ar_canonical_json r)" if "map_of rows i = Some r" for r
    using assms map_of_SomeD [OF that] by (cases "ar_canonical_json r") (auto simp: store_wf_def st canonicalJsonBody_def)
  then show ?thesis
    using assms empty found
    by (cases "map_of rows i")
      (auto simp: postgres_get_def recording_query_one_def artifactByIdCommand_def stringCommandValue_def
        command_value_def st store_wf_def stored_artifacts_def artifact_of_row_def)
qed

text \<open>Histories of a store: the answers to its lookups.\<close>

datatype store_op = Put signed_artifact | Get string

fun memory_history :: "store_op list \<Rightarrow> (string \<times> signed_artifact) list \<Rightarrow> signed_artifact option list" where
  "memory_history [] s = []"
| "memory_history (Put a # ops) s = memory_history ops (fst (memory_put a s))"
| "memory_history (Get i # ops) s = memory_get i s # memory_history ops s"

fun postgres_history ::
  "(string \<Rightarrow> jsval option) \<Rightarrow> store_op list \<Rightarrow> recording_store \<Rightarrow> signed_artifact option list option" where
  "postgres_history parse [] k = Some []"
| "postgres_history parse (Put a # ops) k =
     (case postgres_put (recording_execute parse) a k of
        (k', Done _) \<Rightarrow> postgres_history parse ops k' | _ \<Rightarrow> None)"
| "postgres_history parse (Get i # ops) k =
     (case postgres_get parse recording_query_one i k of
        (k', Done r) \<Rightarrow> map_option ((#) r) (postgres_history parse ops k') | _ \<Rightarrow> None)"

lemma histories_agree:
  "store_wf st \<Longrightarrow> \<forall>a. Put a \<in> set ops \<longrightarrow> storable a \<Longrightarrow>
     postgres_history parse ops st = Some (memory_history ops (stored_artifacts st))"
proof (induction ops arbitrary: st)
  case (Cons op ops)
  show ?case
  proof (cases op)
    case (Put a)
    obtain st' where "postgres_put (recording_execute parse) a st = (st', Done a)" "store_wf st'"
      "stored_artifacts st' = fst (memory_put a (stored_artifacts st))"
      using put_refines [OF Cons.prems(1)] Cons.prems(2) Put by fastforce
    then show ?thesis using Cons Put by simp
  next
    case (Get i)
    obtain st' where "postgres_get parse recording_query_one i st = (st', Done (memory_get i (stored_artifacts st)))"
      "store_wf st'" "stored_artifacts st' = stored_artifacts st"
      using get_refines [OF Cons.prems(1)] by blast
    then show ?thesis using Cons Get by simp
  qed
qed simp



subsection \<open>Properties\<close>

text \<open>
  C24. Every event that the Postgres bus publishes reaches the message sink. From an empty outbox,
  events with distinct ids and valid envelopes are enqueued as one row each, and a supervised
  worker, whatever the message server answers, stops by its idle limit with each event either in
  the log of the sink as the message of its envelope, or in a failed row whose attempts are used up.
\<close>

theorem bus_events_reach_the_sink:
  assumes "distinct (map fst events)" "distinct (map (\<lambda>(i, event). ee_event_id (ne_envelope event)) events)"
    and "\<forall>(i, event) \<in> set events. envelope_valid P (ne_envelope event) \<and> survivable event"
    and "wo_batch_size opts \<noteq> Some 0"
    and "so_max_iterations sopts = None" "0 < idle_limit (supervisor_options.truncate sopts)"
  shows "\<exists>rows k' c' rep.
    runOutboxSupervisor P
      (processOnce makePostgresEventOutboxWorkerStore (publishBatch P (live_publish send) live_recorded) tick opts)
      None (shared_now tick) (\<lambda>_. False) (pause_clock pause) sopts (enqueue_all now events [], k, c) =
      Some ((rows, k', c'), Done rep) \<and> sr_stop_reason rep = Stop_idle_limit \<and>
    list_all2 (\<lambda>(i, event) r. wr_id r = i \<and>
      (wr_status r = Work_done \<and> (\<exists>m \<in> set (live_recorded k'). jetStreamMessageFromEvent event = Done m) \<or>
       wr_status r = Work_failed \<and> retry_limit opts \<le> int (wr_attempts r))) events rows"
proof -
  let ?rows = "map (\<lambda>(i, event). pending_row i now event) events"
  have table: "enqueue_all now events [] = ?rows"
    using enqueue_all_rows [OF assms(2), of "[]" now] by auto
  have start: "outbox_start P ?rows" by (rule enqueued_start [OF assms(1,3)])
  obtain rows k' c' rep where run: "runOutboxSupervisor P
      (processOnce makePostgresEventOutboxWorkerStore (publishBatch P (live_publish send) live_recorded) tick opts)
      (map_option reading None) (shared_now tick) (\<lambda>_. False) (pause_clock pause) sopts (?rows, k, c) =
      Some ((rows, k', c'), Done rep)" "sr_stop_reason rep = Stop_idle_limit"
    "map wr_id rows = map wr_id ?rows" "\<forall>r \<in> set rows. finished_row (retry_limit opts) r"
    "list_all2 (\<lambda>r r'. wr_status r' = Work_done \<longrightarrow> r' = r \<or> row_published P (live_recorded k') r) ?rows rows"
    using outbox_drains [OF start assms(4-6), where send = send and tick = tick and snap = None and pause = pause
        and k = k and c = c] by blast
  have len: "length rows = length events" using run(3) by (metis length_map)
  have "list_all2 (\<lambda>(i, event) r. wr_id r = i \<and>
      (wr_status r = Work_done \<and> (\<exists>m \<in> set (live_recorded k'). jetStreamMessageFromEvent event = Done m) \<or>
       wr_status r = Work_failed \<and> retry_limit opts \<le> int (wr_attempts r))) events rows"
  proof (rule list_all2_all_nthI)
    fix j assume j: "j < length events"
    obtain i event where e: "events ! j = (i, event)" by (cases "events ! j")
    have row: "?rows ! j = pending_row i now event" using j e by simp
    have valid: "envelope_valid P (ne_envelope event)" using assms(3) j e nth_mem by fastforce
    have "wr_id (rows ! j) = map wr_id ?rows ! j" unfolding run(3) [symmetric] using j len by simp
    then have "wr_id (rows ! j) = i" using j row by simp
    moreover have "finished_row (retry_limit opts) (rows ! j)" using run(4) j len by simp
    moreover have "\<exists>m \<in> set (live_recorded k'). jetStreamMessageFromEvent event = Done m"
      if "wr_status (rows ! j) = Work_done"
    proof -
      have "rows ! j = pending_row i now event \<or> row_published P (live_recorded k') (pending_row i now event)"
        using list_all2_nthD2 [OF run(5), of j] j len row that by simp
      then have "row_published P (live_recorded k') (pending_row i now event)" using that by auto
      then show ?thesis
        using pending_row_decodes [OF valid, of i now] message_of_envelope [of event]
        by (auto simp: row_published_def)
    qed
    ultimately show "(\<lambda>(i, event) r. wr_id r = i \<and>
      (wr_status r = Work_done \<and> (\<exists>m \<in> set (live_recorded k'). jetStreamMessageFromEvent event = Done m) \<or>
       wr_status r = Work_failed \<and> retry_limit opts \<le> int (wr_attempts r))) (events ! j) (rows ! j)"
      by (auto simp: e finished_row_def)
  qed (use len in simp)
  then show ?thesis using run(1,2) table by auto
qed

theorem bus_events_reach_the_sink_witness:
  "\<exists>rows k' c' rep.
    runOutboxSupervisor fx_platform
      (processOnce makePostgresEventOutboxWorkerStore
         (publishBatch fx_platform (live_publish fx_send) live_recorded) fx_tick fx_worker)
      None (shared_now fx_tick) (\<lambda>_. False) (pause_clock (+)) fx_supervisor
      (enqueue_all 0 [(''1'', fx_good_event)] [], ((), []), 0) = Some ((rows, k', c'), Done rep) \<and>
    sr_stop_reason rep = Stop_idle_limit \<and> length rows = 1"
proof -
  have e: "distinct (map fst [(''1'', fx_good_event)])"
    "distinct (map (\<lambda>(i, event). ee_event_id (ne_envelope event)) [(''1'', fx_good_event)])" by simp_all
  have v: "\<forall>(i, event) \<in> set [(''1'', fx_good_event)]. envelope_valid fx_platform (ne_envelope event) \<and> survivable event"
    by code_simp
  have o: "wo_batch_size fx_worker \<noteq> Some 0" "so_max_iterations fx_supervisor = None"
    "0 < idle_limit (supervisor_options.truncate fx_supervisor)"
    by (simp_all add: fx_worker_def fx_supervisor_def supervisor_options.truncate_def idle_limit_def)
  show ?thesis
    using bus_events_reach_the_sink [OF e v o, of fx_send fx_tick "(+)" 0 "((), [])" 0]
    by (fastforce dest: list_all2_lengthD)
qed

text \<open>
  What the Postgres bus enqueues is the event: a new event is one pending row whose payload
  decodes to the envelope and to the JSON value of the body, and publishing an event again, at
  any time, changes nothing.
\<close>

theorem enqueued_event_round_trip:
  assumes "envelope_valid P (ne_envelope event)"
    and "ee_event_id (ne_envelope event) \<notin> set (map (\<lambda>r. oe_event_id (wr_payload r)) rows)"
  shows "\<exists>r. enqueue_event i now (eventOutboxCommand event) rows = rows @ [r] \<and>
    wr_status r = Work_pending \<and>
    networkEventFromOutboxRecord P (record_of_row r) =
      Inr \<lparr>ne_envelope = ne_envelope event, ne_body = decoded_body (ne_body event)\<rparr> \<and>
    enqueue_event i' now' (eventOutboxCommand event) (rows @ [r]) = rows @ [r]"
  using pending_row_decodes [OF assms(1)] enqueue_new [OF assms(2)]
    enqueue_old [of event "rows @ [pending_row i now event]" i' now']
  by simp

theorem enqueued_event_round_trip_witness:
  "\<exists>r. enqueue_event ''1'' 0 (eventOutboxCommand fx_good_event) [] = [r] \<and>
     networkEventFromOutboxRecord fx_platform (record_of_row r) = Inr fx_good_event"
proof -
  have v: "envelope_valid fx_platform (ne_envelope fx_good_event)" by code_simp
  have b: "decoded_body (ne_body fx_good_event) = ne_body fx_good_event" by code_simp
  have "\<lparr>ne_envelope = ne_envelope fx_good_event, ne_body = decoded_body (ne_body fx_good_event)\<rparr> = fx_good_event"
    unfolding b by simp
  then show ?thesis using enqueued_event_round_trip [OF v, of "[]" "''1''" 0] by auto
qed

text \<open>
  The report of a persisted batch is what the sink recorded: one statement for each artifact,
  event, cache entry, observation and decision, one more for each artifact whose body is a
  status event, and no other.
\<close>

theorem persisted_batch_is_accounted:
  assumes "persistBatch sink_execute input k = (k', Done rep)"
  shows "\<exists>cs. sink_recorded k' = sink_recorded k @ cs \<and> pe_commands_executed rep = length cs \<and>
    pe_artifacts_upserted rep = named ''published_artifacts.upsert'' cs \<and>
    pe_status_events_upserted rep = named ''status_events.upsert'' cs \<and>
    pe_events_enqueued rep = named ''event_outbox.enqueue'' cs \<and>
    pe_cache_entries_upserted rep = named ''verifier_cache_entries.upsert'' cs \<and>
    pe_runtime_observations_inserted rep = named ''runtime_observations.insert'' cs \<and>
    pe_scanner_decisions_inserted rep = named ''scanner_decisions.insert'' cs \<and>
    length cs = pe_artifacts_upserted rep + pe_status_events_upserted rep + pe_events_enqueued rep +
      pe_cache_entries_upserted rep + pe_runtime_observations_inserted rep + pe_scanner_decisions_inserted rep"
proof -
  obtain k1 out where run: "run_commands sink_execute (batch_commands input) k = (k1, out)" by fastforce
  then obtain u where out: "out = Done u" "k1 = k'" using assms by (cases out) (auto simp: persistBatch_def)
  obtain cs where cs: "k' = k @ cs" "batch_commands input = map Inr cs"
    using run_commands_sink [OF run] out by auto
  have "length (batch_commands input) = length cs" unfolding cs(2) by simp
  then show ?thesis
    using batch_statements [OF cs(2)] assms run out cs(1)
    by (intro exI [of _ cs]) (auto simp: persistBatch_def sink_recorded_def)
qed

definition fx_batch :: persistence_batch where
  "fx_batch = no_batch\<lparr>pb_artifacts := [\<lparr>sa_artifact_id = ''a'', sa_artifact_hash = ''h'',
       sa_artifact_type = ''issuer_record'', sa_version = 1,
       sa_body = JObj [(''root_program_id'', JStr ''root:r'')]\<rparr>],
     pb_events := [fx_good_event]\<rparr>"

theorem persisted_batch_is_accounted_witness:
  "\<exists>cs rep. persistBatch sink_execute fx_batch [] = (cs, Done rep) \<and> length cs = 2 \<and>
     pe_artifacts_upserted rep + pe_status_events_upserted rep + pe_events_enqueued rep +
      pe_cache_entries_upserted rep + pe_runtime_observations_inserted rep + pe_scanner_decisions_inserted rep = 2"
proof -
  let ?r = "persistBatch sink_execute fx_batch []"
  have l: "length (fst ?r) = 2" by code_simp
  have "(case snd ?r of Done _ \<Rightarrow> True | _ \<Rightarrow> False)" by code_simp
  then obtain rep where r: "?r = (fst ?r, Done rep)" by (cases "snd ?r") (metis prod.collapse, auto)
  show ?thesis using persisted_batch_is_accounted [OF r] l r by (auto simp: sink_recorded_def)
qed

text \<open>
  C28. A batch persisted in a transaction is committed exactly when it ends in a report, and then
  after every statement of it was built and executed. A typed error comes from the client, the
  begin, one statement (the ones before it were executed, none after it was sent, and there is no
  commit) or the commit after the whole batch; unless there is no client it is followed by a
  rollback. A statement that cannot be built ends the effect with a defect: then there is no commit,
  and no rollback either. A client that was obtained is always released.
\<close>

theorem transactions_commit_whole_batches:
  assumes "transact (traced_connect connect) (traced answer) (traced_release release)
      (persistBatch (client_execute (traced answer)) input) (seen, s) = ((seen', s'), out)"
  shows "\<exists>trace. seen' = seen @ trace \<and> transaction_trace (batch_commands input) out trace \<and>
    ((''transaction.commit'', True) \<in> set trace \<longleftrightarrow> (\<exists>rep. out = Done rep)) \<and>
    (trace = [] \<longleftrightarrow> snd (connect s) \<noteq> Inr ())"
proof -
  obtain trace where "seen' = seen @ trace" "transaction_trace (batch_commands input) out trace"
    "trace = [] \<longleftrightarrow> snd (connect s) \<noteq> Inr ()"
    using traced_transaction [OF assms] by auto
  then show ?thesis by (intro exI [of _ trace] conjI committed_iff_done)
qed

definition fx_answer :: "string \<Rightarrow> sql_command \<Rightarrow> unit \<Rightarrow> unit \<times> (net_error + unit)" where
  "fx_answer failing command s =
     (s, if sc_name command = failing then Inl (PersistenceError ''x'' (OtherCause (JStr ''timeout''))) else Inr ())"

definition fx_transaction :: "string \<Rightarrow> persistence_batch \<Rightarrow> (trace \<times> unit) \<times> persistence_report outcome" where
  "fx_transaction failing input =
     transact (traced_connect (\<lambda>s. (s, Inr ()))) (traced (fx_answer failing)) (traced_release (\<lambda>s. s))
       (persistBatch (client_execute (traced (fx_answer failing))) input) ([], ())"

theorem transactions_commit_whole_batches_witness:
  "\<exists>trace. fx_transaction ''event_outbox.enqueue'' fx_batch = ((trace, ()), Failed (PersistenceError ''x'' (OtherCause (JStr ''timeout'')))) \<and>
    (''published_artifacts.upsert'', True) \<in> set trace \<and> (''event_outbox.enqueue'', False) \<in> set trace \<and>
    (''transaction.commit'', True) \<notin> set trace \<and> (''transaction.rollback'', True) \<in> set trace"
proof -
  let ?t = "[(''transaction.begin'', True), (''published_artifacts.upsert'', True),
    (''event_outbox.enqueue'', False), (''transaction.rollback'', True), (''release'', True)]"
  have r: "fx_transaction ''event_outbox.enqueue'' fx_batch = ((?t, ()), Failed (PersistenceError ''x'' (OtherCause (JStr ''timeout''))))"
    by code_simp
  obtain trace where trace: "?t = [] @ trace" "(''transaction.commit'', True) \<in> set trace \<longleftrightarrow>
      (\<exists>rep. Failed (PersistenceError ''x'' (OtherCause (JStr ''timeout''))) = (Done rep :: persistence_report outcome))"
    using transactions_commit_whole_batches [OF r [unfolded fx_transaction_def]] by blast
  have "(''transaction.commit'', True) \<notin> set ?t" using trace by (metis append_Nil outcome.distinct(1))
  moreover have "(''published_artifacts.upsert'', True) \<in> set ?t" "(''event_outbox.enqueue'', False) \<in> set ?t"
    "(''transaction.rollback'', True) \<in> set ?t" by simp_all
  ultimately show ?thesis using r by blast
qed

text \<open>
  C27. On artifacts that its statement can be built for and whose body is plain JSON, the Postgres
  store over the recording executor implements the in-memory store: over every history of puts
  and lookups, from an empty table, no call fails and every lookup gives the same answer.
\<close>

theorem postgres_store_implements_memory_store:
  assumes "\<forall>a. Put a \<in> set ops \<longrightarrow> storable a"
  shows "postgres_history parse ops (makeRecordingPostgresArtifactStoreExecutor []) =
    Some (memory_history ops (makeInMemoryArtifactStore []))"
  using histories_agree [of "makeRecordingPostgresArtifactStoreExecutor []", OF _ assms]
  by (simp add: makeRecordingPostgresArtifactStoreExecutor_def makeInMemoryArtifactStore_def store_wf_def
      stored_artifacts_def)

theorem postgres_store_implements_memory_store_witness:
  "\<exists>a. postgres_history (\<lambda>_. None) [Put a, Get ''a'', Get ''b''] (makeRecordingPostgresArtifactStoreExecutor []) =
     Some [Some a, None]"
proof -
  let ?a = "hd (pb_artifacts fx_batch)"
  have "storable ?a" by code_simp
  then have "\<forall>a. Put a \<in> set [Put ?a, Get ''a'', Get ''b''] \<longrightarrow> storable a" by simp
  from postgres_store_implements_memory_store [OF this, of "\<lambda>_. None"] show ?thesis
    by (intro exI [of _ ?a])
      (simp add: makeInMemoryArtifactStore_def memory_put_def memory_get_def fx_batch_def no_batch_def)
qed

text \<open>
  The text of the upsert keeps the type of a row where the recording executor replaces it, and a
  body that is a string is parsed once more on the way out.
\<close>

lemma republication_keeps_the_type:
  "let old = \<lparr>ar_artifact_id = ''a'', ar_artifact_hash = ''h'', ar_artifact_type = ''issuer_record'',
       ar_version = 1, ar_canonical_json = JNull\<rparr>;
     new = old\<lparr>ar_artifact_type := ''destination_policy'', ar_version := 2\<rparr>
   in map_option ar_artifact_type (map_of (published_artifacts_upsert new [(''a'', old)]) ''a'') =
        Some ''issuer_record'' \<and>
      map_option ar_artifact_type (map_of (js_map_set ''a'' new [(''a'', old)]) ''a'') = Some ''destination_policy''"
  by code_simp

end
