(* ===== verification/ReadModelFacts.thy ===== *)
theory ReadModelFacts
  imports ArtifactQueueFacts PersistenceFacts SignatureFacts
begin

text \<open>
  Facts on the read model of the verifier cache: what an authorised work item has behind it, and
  that the queue completes only rows whose item is authorised and whose entry is persisted.
\<close>

subsection \<open>Authorisation\<close>

lemma then_do_Done [simp]: "then_do r f = Done y \<longleftrightarrow> (\<exists>x. r = Done x \<and> f x = Done y)"
  by (cases r) (auto simp: then_do_def)

lemma then_do_value [simp]: "then_do (Done x) f = f x"
  by (simp add: then_do_def)

lemma lift_result_Done [simp]: "lift_result r = Done y \<longleftrightarrow> r = Inr y"
  by (cases r) (auto simp: lift_result_def)

lemma not_authorised [simp]: "failAuthorization reason input details \<noteq> Done y" "wrong_type m i t \<noteq> Done z"
  by (simp_all add: failAuthorization_def wrong_type_def)

lemma fetch_Done [simp]: "fetch_artifact who get i label = Done a \<longleftrightarrow> get i = Inr (Some a)"
  by (auto simp: fetch_artifact_def lift_result_def then_do_def split: sum.splits option.splits)

lemma authorizer_record_Done [simp]: "authorizer_record v label = Done w \<longleftrightarrow> w = v \<and> is_record v"
  by (auto simp: authorizer_record_def)

lemma authorizer_string_Done [simp]: "authorizer_string r f = Done s \<longleftrightarrow> get_prop r f = JStr s \<and> s \<noteq> []"
  by (auto simp: authorizer_string_def split: jsval.splits)

definition accepted_body :: "(jsval \<Rightarrow> signature_result outcome) \<Rightarrow> jsval \<Rightarrow> bool" where
  "accepted_body verify body \<longleftrightarrow> (\<exists>r. verify body = Done r \<and> sv_accepted r)"

lemma source_signature_Done:
  "verifyRequiredTrustSignature verify a label input = Done u \<longleftrightarrow>
     is_record (sa_body a) \<and> get_prop (sa_body a) ''artifact_type'' = JStr (sa_artifact_type a) \<and>
     sa_artifact_type a \<noteq> [] \<and>
     (\<exists>r. get_prop (sa_body a) ''root_program_id'' = JStr r \<and> r \<noteq> []) \<and>
     (\<exists>s. get_prop (sa_body a) ''signed_by'' = JStr s \<and> s \<noteq> []) \<and>
     (\<exists>s. get_prop (sa_body a) ''signature_status'' = JStr s \<and> s \<noteq> []) \<and>
     accepted_body verify (sa_body a)"
  by (auto simp: verifyRequiredTrustSignature_def signedTrustArtifactBody_def accepted_body_def split: if_splits)

text \<open>
  What stands behind an authorised item: its five artifacts are stored, their bodies carry accepted
  signatures, and the status event is signed by the authority of the issuer's namespace and
  targets that issuer.
\<close>

definition authority_of_record :: "jsval \<Rightarrow> issuer_namespace \<Rightarrow> bool" where
  "authority_of_record body ns \<longleftrightarrow>
     get_prop (get_prop body ''issuer_namespace'') ''root_program_id'' = JStr (ns_root_program_id ns) \<and>
     get_prop (get_prop body ''issuer_namespace'') ''delegated_authority_id'' = JStr (ns_delegated_authority_id ns) \<and>
     get_prop (get_prop body ''issuer_namespace'') ''issuer_id'' = JStr (ns_issuer_id ns)"

definition status_for :: "jsval \<Rightarrow> issuer_namespace \<Rightarrow> bool" where
  "status_for event ns \<longleftrightarrow>
     get_prop event ''artifact_type'' = JStr ''revocation_status_event'' \<and>
     get_prop event ''signed_by'' = JStr (ns_delegated_authority_id ns) \<and>
     get_prop event ''root_program_id'' = JStr (ns_root_program_id ns) \<and>
     get_prop event ''delegated_authority_id'' = JStr (ns_delegated_authority_id ns) \<and>
     get_prop (get_prop event ''target'') ''target_type'' = JStr ''issuer_record'' \<and>
     get_prop (get_prop event ''target'') ''issuer_id'' = JStr (ns_issuer_id ns)"

definition refs_of :: "read_model_work_item \<Rightarrow> string list" where
  "refs_of item = (let refs = wi_artifacts item in
     [ref_root_manifest_artifact_id refs, ref_delegated_authority_manifest_artifact_id refs,
      ref_issuer_record_artifact_id refs, ref_destination_policy_artifact_id refs, ref_status_event_artifact_id refs])"

lemma guard_Done [simp]:
  "(if b then failAuthorization reason input details else r) = Done y \<longleftrightarrow> \<not> b \<and> r = Done y"
  by simp

lemma status_event_Done: "authorizer_status_event a = Done body \<longleftrightarrow>
    sa_artifact_type a = ''revocation_status_event'' \<and> body = sa_body a \<and> is_record (sa_body a) \<and>
    get_prop (sa_body a) ''artifact_type'' = JStr ''revocation_status_event''"
  by (auto simp: authorizer_status_event_def)

lemma status_target_Done: "statusEventTarget event = Done (t, i) \<longleftrightarrow>
    is_record (get_prop event ''target'') \<and>
    get_prop (get_prop event ''target'') ''target_type'' = JStr t \<and> t \<noteq> [] \<and>
    get_prop (get_prop event ''target'') ''issuer_id'' = JStr i \<and> i \<noteq> []"
  by (auto simp: statusEventTarget_def)

lemma namespace_Done: "issuerNamespaceFromArtifact a = Done ns \<Longrightarrow> authority_of_record (sa_body a) ns"
  by (auto simp: issuerNamespaceFromArtifact_def authority_of_record_def split: if_splits)

lemma authorize_cases:
  assumes "authorize get verify item = Done rep"
  obtains issuer root authority policy status ns t i s r d sig where
    "get (ref_issuer_record_artifact_id (wi_artifacts item)) = Inr (Some issuer)"
    "get (ref_root_manifest_artifact_id (wi_artifacts item)) = Inr (Some root)"
    "get (ref_delegated_authority_manifest_artifact_id (wi_artifacts item)) = Inr (Some authority)"
    "get (ref_destination_policy_artifact_id (wi_artifacts item)) = Inr (Some policy)"
    "get (ref_status_event_artifact_id (wi_artifacts item)) = Inr (Some status)"
    "issuerNamespaceFromArtifact issuer = Done ns" "authorizer_status_event status = Done (sa_body status)"
    "statusEventTarget (sa_body status) = Done (t, i)"
    "authorizer_string (sa_body status) ''signed_by'' = Done s"
    "authorizer_string (sa_body status) ''root_program_id'' = Done r"
    "authorizer_string (sa_body status) ''delegated_authority_id'' = Done d"
    "verifyRequiredTrustSignature verify root ''root manifest'' item = Done ()"
    "verifyRequiredTrustSignature verify authority ''delegated authority manifest'' item = Done ()"
    "verifyRequiredTrustSignature verify issuer ''issuer record'' item = Done ()"
    "verifyRequiredTrustSignature verify policy ''destination policy'' item = Done ()"
    "r = ns_root_program_id ns" "d = ns_delegated_authority_id ns \<and> i = ns_issuer_id ns" "t = ''issuer_record''" "s = d"
    "verify (sa_body status) = Done sig" "sv_accepted sig" "au_issuer_id rep = i" "au_signed_by rep = s"
proof -
  show thesis
    using assms
    unfolding authorize_def Let_def authorizer_fetch_def then_do_Done fetch_Done split_paired_Ex case_prod_conv
      guard_Done de_Morgan_disj not_not
    apply (elim exE conjE)
    subgoal for issuer root authority policy status ns body t i s r d u1 u2 u3 u4 sig
      using status_event_Done [of status body]
      by (intro that [of issuer root authority policy status ns t i s r d sig]) auto
    done
qed

lemma authorize_Done:
  assumes "authorize get verify item = Done rep"
  shows "\<exists>root authority issuer policy status ns.
    map get (refs_of item) = map (\<lambda>a. Inr (Some a)) [root, authority, issuer, policy, status] \<and>
    (\<forall>a \<in> {root, authority, issuer, policy, status}. accepted_body verify (sa_body a)) \<and>
    authority_of_record (sa_body issuer) ns \<and> status_for (sa_body status) ns \<and>
    au_issuer_id rep = ns_issuer_id ns \<and> au_signed_by rep = ns_delegated_authority_id ns"
  using assms
proof (rule authorize_cases)
  fix issuer root authority policy status ns t i s r d sig
  assume get: "get (ref_issuer_record_artifact_id (wi_artifacts item)) = Inr (Some issuer)"
    "get (ref_root_manifest_artifact_id (wi_artifacts item)) = Inr (Some root)"
    "get (ref_delegated_authority_manifest_artifact_id (wi_artifacts item)) = Inr (Some authority)"
    "get (ref_destination_policy_artifact_id (wi_artifacts item)) = Inr (Some policy)"
    "get (ref_status_event_artifact_id (wi_artifacts item)) = Inr (Some status)"
    and ns: "issuerNamespaceFromArtifact issuer = Done ns"
    and event: "authorizer_status_event status = Done (sa_body status)"
    "statusEventTarget (sa_body status) = Done (t, i)"
    "authorizer_string (sa_body status) ''signed_by'' = Done s"
    "authorizer_string (sa_body status) ''root_program_id'' = Done r"
    "authorizer_string (sa_body status) ''delegated_authority_id'' = Done d"
    and sources: "verifyRequiredTrustSignature verify root ''root manifest'' item = Done ()"
    "verifyRequiredTrustSignature verify authority ''delegated authority manifest'' item = Done ()"
    "verifyRequiredTrustSignature verify issuer ''issuer record'' item = Done ()"
    "verifyRequiredTrustSignature verify policy ''destination policy'' item = Done ()"
    and eqs: "r = ns_root_program_id ns" "d = ns_delegated_authority_id ns \<and> i = ns_issuer_id ns"
    "t = ''issuer_record''" "s = d"
    and rep: "verify (sa_body status) = Done sig" "sv_accepted sig" "au_issuer_id rep = i" "au_signed_by rep = s"
  have "status_for (sa_body status) ns"
    using event eqs by (simp add: status_event_Done status_target_Done status_for_def)
  moreover have "\<forall>a \<in> {root, authority, issuer, policy, status}. accepted_body verify (sa_body a)"
    using sources rep by (auto simp: source_signature_Done accepted_body_def)
  ultimately show ?thesis
    using get namespace_Done [OF ns] rep eqs
    by (intro exI [of _ root] exI [of _ authority] exI [of _ issuer] exI [of _ policy] exI [of _ status] exI [of _ ns])
      (simp add: refs_of_def Let_def)
qed



subsection \<open>The queue\<close>

text \<open>
  The evidence for a completed row: its item is authorised, and its entry is in the sink. The entry
  is fresh when the item's instant is not past the expiry of the chain, otherwise expired.
\<close>

definition expected_entry :: "platform \<Rightarrow> read_model_work_item \<Rightarrow> materialization_report \<Rightarrow> cache_entry_input" where
  "expected_entry P item report =
     \<lparr>cei_verifier_id = wi_verifier_id item, cei_issuer = mr_issuer_projection report,
      cei_policy = mr_destination_policy_projection report,
      cei_source_artifact_hashes = mr_source_artifact_hashes report,
      cei_freshness_status =
        (if js_le (iso_string P (wi_materialized_at item)) (ce_cache_expires_at (mr_cache_entry report))
         then Fresh else Expired)\<rparr>"

definition entry_persisted :: "platform \<Rightarrow> (string \<Rightarrow> net_error + signed_artifact option) \<Rightarrow>
    read_model_work_item \<Rightarrow> 'r read_model_success \<Rightarrow> sql_command list \<Rightarrow> bool" where
  "entry_persisted P get item s commands \<longleftrightarrow>
     (\<exists>chain report. fetchMaterializationArtifacts get item = Done chain \<and>
        materializeVerifierCacheEntry P chain = Inr report \<and>
        ms_cache_entry_id s = ce_cache_entry_id (mr_cache_entry report) \<and>
        verifierCacheEntryCommand (cache_entry_row (expected_entry P item report)) \<in> set commands)"

lemma read_model_entry:
  assumes "fetchMaterializationArtifacts get item = Done chain" "materializeVerifierCacheEntry P chain = Inr report"
  shows "bt_verifier_cache_entries (read_model_batch_of item report decisions) = [expected_entry P item report]"
proof -
  obtain c cert where r: "report = chain_report P chain c cert" using assms(2) by (auto simp: materialize_Inr)
  have "mat_materialized_at chain = wi_materialized_at item"
    using assms(1) by (auto simp: fetchMaterializationArtifacts_def Let_def)
  then have "mr_materialization_warnings report = (if js_le (iso_string P (wi_materialized_at item))
      (ce_cache_expires_at (mr_cache_entry report)) then [] else [''cache_materialized_after_expiry''])"
    using report_projections(8) [of P chain c cert] report_window(3) [of P chain c cert]
    by (simp add: r [symmetric] js_le_def)
  then show ?thesis by (simp add: read_model_batch_of_def expected_entry_def)
qed

definition entry_evidence :: "platform \<Rightarrow> (string \<Rightarrow> net_error + signed_artifact option) \<Rightarrow>
    (jsval \<Rightarrow> signature_result outcome) \<Rightarrow>
    read_model_work_item \<Rightarrow> 'r read_model_success \<Rightarrow> 'b \<times> sql_command list \<Rightarrow> bool" where
  "entry_evidence P get verify item s k \<longleftrightarrow>
     (\<exists>rep. authorize get verify item = Done rep) \<and> entry_persisted P get item s (sink_recorded (snd k))"

lemma persisted_batch_grows:
  assumes "persistBatch sink_execute input k = (k', out)"
  shows "\<exists>cs. k' = k @ cs" "out = Done rep \<Longrightarrow> Inr c \<in> set (batch_commands input) \<Longrightarrow> c \<in> set k'"
proof -
  obtain k1 out1 where run: "run_commands sink_execute (batch_commands input) k = (k1, out1)" by fastforce
  have eq: "k1 = k'" "out = Done rep \<Longrightarrow> \<exists>u. out1 = Done u"
    using assms run by (cases out1; auto simp: persistBatch_def)+
  show "\<exists>cs. k' = k @ cs" using run_commands_sink [OF run] eq(1) by blast
  show "out = Done rep \<Longrightarrow> Inr c \<in> set (batch_commands input) \<Longrightarrow> c \<in> set k'"
    using run_commands_sink [OF run] eq by auto
qed

lemma process_entry:
  assumes "process_read_model P get publish (persist_read_model sink_execute) uuid item k = (k', out)"
  shows "set (sink_recorded (snd k)) \<subseteq> set (sink_recorded (snd k'))"
    "out = Done report \<Longrightarrow> ms_cache_entry_id s = rmr_cache_entry_id report \<Longrightarrow>
      entry_persisted P get item s (sink_recorded (snd k'))"
proof -
  obtain bus db where k: "k = (bus, db)" by (cases k)
  have both: "set db \<subseteq> set (snd k') \<and> (\<forall>report. out = Done report \<longrightarrow> ms_cache_entry_id s = rmr_cache_entry_id report \<longrightarrow>
      entry_persisted P get item s (snd k'))"
  proof (cases "then_do (fetchMaterializationArtifacts get item) (\<lambda>chain. lift_result (materializeVerifierCacheEntry P chain))")
    case (Done mat)
    then obtain chain where chain: "fetchMaterializationArtifacts get item = Done chain"
      "materializeVerifierCacheEntry P chain = Inr mat"
      by auto
    obtain bus' probed where pr: "runScannerProbes P publish uuid
        (case wi_scanner_probes item of None \<Rightarrow> [] | Some probes \<Rightarrow> probes) (wi_materialized_at item)
        (mr_issuer_projection mat) (mr_destination_policy_projection mat) bus = (bus', probed)" by fastforce
    show ?thesis
    proof (cases probed)
      case probes: (Done decisions)
      let ?batch = "read_model_batch_of item mat decisions"
      obtain db' res where p: "persist_read_model sink_execute ?batch db = (db', res)" by fastforce
      note grows = persisted_batch_grows [OF p [unfolded persist_read_model_def]]
      have k': "k' = (bus', db')" "out = Done report \<Longrightarrow> \<exists>r. res = Done r"
        "out = Done report \<Longrightarrow> rmr_cache_entry_id report = ce_cache_entry_id (mr_cache_entry mat)" for report
        using assms pr probes p Done k by (cases res; auto simp: process_read_model_def)+
      note entry = read_model_entry [OF chain, of decisions]
      have "verifierCacheEntryCommand (cache_entry_row (expected_entry P item mat)) \<in> set db'"
        if res: "out = Done report" for report
      proof -
        obtain r where r: "res = Done r" using k'(2) [OF res] by blast
        show ?thesis by (rule grows(2) [OF r]) (simp add: batch_commands_def no_batch_def entry)
      qed
      moreover have "set db \<subseteq> set db'" using grows(1) by auto
      ultimately show ?thesis
        using chain k'(1,3) by (auto simp: entry_persisted_def)
    qed (use assms pr Done k in \<open>auto simp: process_read_model_def\<close>)
  qed (use assms k in \<open>auto simp: process_read_model_def\<close>)
  then show "set (sink_recorded (snd k)) \<subseteq> set (sink_recorded (snd k'))"
    "out = Done report \<Longrightarrow> ms_cache_entry_id s = rmr_cache_entry_id report \<Longrightarrow>
      entry_persisted P get item s (sink_recorded (snd k'))"
    by (auto simp: sink_recorded_def k)
qed

lemma mark_done_find:
  fixes rows :: "'p work_row list"
  shows "mark_done (map f ss) t rows = map (\<lambda>r. case find (\<lambda>s. f s = wr_id r) ss of None \<Rightarrow> r
     | Some s \<Rightarrow> (done_row t r)\<lparr>wr_payload := wr_payload r\<rparr>) rows"
proof -
  have "(done_row t r)\<lparr>wr_payload := wr_payload r\<rparr> = done_row t r" for r :: "'p work_row"
    by (simp add: done_row_def)
  moreover have "(wr_id r \<in> f ` set ss) = (find (\<lambda>s. f s = wr_id r) ss \<noteq> None)" for r :: "'p work_row"
    by (force simp: find_None_iff)
  ultimately show ?thesis
    unfolding mark_done_def update_rows_def set_map by (intro map_cong refl) (simp split: option.split)
qed

interpretation read_model_queue: queue_table
  "read_model_step (Some (authorize get verify)) (process_read_model P get publish (persist_read_model sink_execute) uuid)"
  ms_work_item_id mf_work_item_id "entry_evidence P get verify"
  makePostgresVerifierCacheReadModelQueueStore "\<lambda>item. item" mf_reason "\<lambda>_ item. item"
  for P get verify uuid and publish :: "network_event \<Rightarrow> ('b, unit) call"
proof unfold_locales
  fix r k k' s
  assume step: "read_model_step (Some (authorize get verify))
    (process_read_model P get publish (persist_read_model sink_execute) uuid) r k = (k', Inr (Inr s))"
  obtain rep where a: "authorize get verify (qr_work r) = Done rep"
    using step by (auto simp: read_model_step_def Let_def then_do_def split: outcome.splits)
  obtain report where p: "process_read_model P get publish (persist_read_model sink_execute) uuid (qr_work r) k =
      (k', Done report)" and s: "s = \<lparr>ms_work_item_id = qr_work_item_id r,
        ms_cache_entry_id = rmr_cache_entry_id report, ms_report = report\<rparr>"
    using step a by (auto simp: read_model_step_def Let_def split: outcome.splits prod.splits)
  show "ms_work_item_id s = qr_work_item_id r \<and> entry_evidence P get verify (qr_work r) s k'"
    using process_entry(2) [OF p refl, of s] a s by (auto simp: entry_evidence_def)
next
  fix r k k' f
  assume "read_model_step (Some (authorize get verify))
    (process_read_model P get publish (persist_read_model sink_execute) uuid) r k = (k', Inr (Inl f))"
  then show "mf_work_item_id f = qr_work_item_id r"
    by (auto simp: read_model_step_def Let_def split: outcome.splits prod.splits)
next
  fix r k k' out w s
  assume step: "read_model_step (Some (authorize get verify))
    (process_read_model P get publish (persist_read_model sink_execute) uuid) r k = (k', out)"
    and ev: "entry_evidence P get verify w s k"
  have "set (sink_recorded (snd k)) \<subseteq> set (sink_recorded (snd k'))"
    using step process_entry(1)
    by (fastforce simp: read_model_step_def Let_def split: outcome.splits prod.splits)
  then show "entry_evidence P get verify w s k'"
    using ev unfolding entry_evidence_def entry_persisted_def by blast
qed (simp_all add: makePostgresVerifierCacheReadModelQueueStore_def claimVerifierCacheWorkItems_def claim_rows_def Let_def
  markVerifierCacheWorkItemsCompleted_def markVerifierCacheWorkItemsFailed_def mark_done_find)



subsection \<open>Properties\<close>

text \<open>Five artifacts for the authorizer, signed by the key of the issuer's authority.\<close>

definition fx_authority_key :: trust_key_record where
  "fx_authority_key = demoDelegatedAuthorityTrustKey\<lparr>tk_signer_id := ''authority:a'',
     tk_root_program_id := ''root:r'', tk_delegated_authority_id := Some ''authority:a''\<rparr>"

definition fx_registry :: key_registry where
  "fx_registry = makeInMemoryTrustKeyRegistry [fx_authority_key]"

definition fx_signature_fields :: "(string \<times> jsval) list" where
  "fx_signature_fields =
     [(''root_program_id'', JStr ''root:r''), (''delegated_authority_id'', JStr ''authority:a''),
      (''signed_by'', JStr ''authority:a''), (''signature_status'', JStr ''signed''),
      (''signature_algorithm_id'', JStr ''ed25519''), (''signature_input'', JStr trustSignatureInput),
      (''signature'', JStr demoDelegatedAuthorityPublicKeyPem)]"

definition fx_signed_artifact :: "string \<Rightarrow> string \<Rightarrow> (string \<times> jsval) list \<Rightarrow> signed_artifact" where
  "fx_signed_artifact i t props = \<lparr>sa_artifact_id = i, sa_artifact_hash = ''sha256:00'', sa_artifact_type = t,
     sa_version = 1, sa_body = JObj ((''artifact_type'', JStr t) # props @ fx_signature_fields)\<rparr>"

definition fx_signed_chain :: "signed_artifact list" where
  "fx_signed_chain =
     [fx_signed_artifact ''r'' ''root_manifest'' [], fx_signed_artifact ''a'' ''delegated_authority_manifest'' [],
      fx_signed_artifact ''i'' ''issuer_record'' [(''issuer_namespace'', namespace_json fx_ns)],
      fx_signed_artifact ''p'' ''destination_policy'' [],
      fx_signed_artifact ''s'' ''revocation_status_event''
        [(''target'', JObj [(''target_type'', JStr ''issuer_record''), (''issuer_id'', JStr ''issuer:i'')])]]"

definition fx_lookup :: "string \<Rightarrow> net_error + signed_artifact option" where
  "fx_lookup i = Inr (find (\<lambda>a. sa_artifact_id a = i) fx_signed_chain)"

definition fx_item_verify :: "jsval \<Rightarrow> signature_result outcome" where
  "fx_item_verify = verifyTrustArtifact fx_platform (memory_lookup fx_registry) inline_load"

definition fx_item :: read_model_work_item where
  "fx_item = \<lparr>wi_verifier_id = ''v'',
     wi_artifacts = \<lparr>ref_root_manifest_artifact_id = ''r'', ref_delegated_authority_manifest_artifact_id = ''a'',
       ref_issuer_record_artifact_id = ''i'', ref_destination_policy_artifact_id = ''p'',
       ref_status_event_artifact_id = ''s''\<rparr>,
     wi_materialized_at = 1767225600000, wi_scanner_probes = None\<rparr>"

lemma fx_item_authorized: "\<exists>rep. authorize fx_lookup fx_item_verify fx_item = Done rep"
proof -
  have "(case authorize fx_lookup fx_item_verify fx_item of Done _ \<Rightarrow> True | _ \<Rightarrow> False)" by code_simp
  then show ?thesis by (cases "authorize fx_lookup fx_item_verify fx_item") auto
qed

text \<open>
  C22. An authorised work item has its five artifacts in the store; the body of each was verified
  with an active key of the registry, within the scope that the body claims; and its status event
  was verified with an active key of the very authority that the issuer's record names, and
  targets that issuer.
\<close>

theorem work_item_authorization_means:
  assumes "authorize get (verifyTrustArtifact P (memory_lookup rs) load) item = Done rep"
  shows "\<exists>root authority issuer policy status ns.
    map get (refs_of item) = map (\<lambda>a. Inr (Some a)) [root, authority, issuer, policy, status] \<and>
    (\<forall>a \<in> {root, authority, issuer, policy, status}.
       \<exists>k \<in> set (registry_snapshot rs). signed_under k (sa_body a) \<and> verified_with P load k (sa_body a)) \<and>
    authority_of_record (sa_body issuer) ns \<and> status_for (sa_body status) ns \<and>
    (\<exists>k \<in> set (registry_snapshot rs). tk_status k = Key_active \<and> tk_signer_id k = ns_delegated_authority_id ns \<and>
       verified_with P load k (sa_body status)) \<and>
    au_issuer_id rep = ns_issuer_id ns \<and> au_signed_by rep = ns_delegated_authority_id ns"
proof -
  obtain root authority issuer policy status ns where found:
    "map get (refs_of item) = map (\<lambda>a. Inr (Some a)) [root, authority, issuer, policy, status]"
    "\<forall>a \<in> {root, authority, issuer, policy, status}.
      accepted_body (verifyTrustArtifact P (memory_lookup rs) load) (sa_body a)"
    "authority_of_record (sa_body issuer) ns" "status_for (sa_body status) ns"
    "au_issuer_id rep = ns_issuer_id ns" "au_signed_by rep = ns_delegated_authority_id ns"
    using authorize_Done [OF assms] by blast
  have signed: "\<exists>k \<in> set (registry_snapshot rs). signed_under k (sa_body a) \<and> verified_with P load k (sa_body a)"
    if "a \<in> {root, authority, issuer, policy, status}" for a
    using found(2) that verifier.accepted_signed unfolding accepted_body_def by blast
  then obtain k where k: "k \<in> set (registry_snapshot rs)" "signed_under k (sa_body status)"
    "verified_with P load k (sa_body status)" by blast
  have "tk_status k = Key_active \<and> tk_signer_id k = ns_delegated_authority_id ns"
    using k(2) found(4) by (auto simp: signed_under_def status_for_def)
  then show ?thesis using found signed k by blast
qed

theorem work_item_authorization_means_witness:
  "\<exists>k \<in> set (registry_snapshot fx_registry). tk_status k = Key_active \<and> tk_signer_id k = ''authority:a''"
proof -
  obtain rep where "authorize fx_lookup fx_item_verify fx_item = Done rep" using fx_item_authorized by blast
  from work_item_authorization_means [OF this [unfolded fx_item_verify_def]]
  obtain root authority issuer policy status ns k where
    "map fx_lookup (refs_of fx_item) = map (\<lambda>a. Inr (Some a)) [root, authority, issuer, policy, status]"
    "authority_of_record (sa_body issuer) ns" "k \<in> set (registry_snapshot fx_registry)" "tk_status k = Key_active"
    "tk_signer_id k = ns_delegated_authority_id ns" by blast
  moreover have "map fx_lookup (refs_of fx_item) = map (\<lambda>a. Inr (Some a)) fx_signed_chain" by code_simp
  ultimately have issuer: "issuer = fx_signed_chain ! 2" by (simp add: fx_signed_chain_def)
  have "get_prop (get_prop (sa_body (fx_signed_chain ! 2)) ''issuer_namespace'') ''delegated_authority_id'' =
      JStr ''authority:a''" by code_simp
  then have "ns_delegated_authority_id ns = ''authority:a''"
    using \<open>authority_of_record (sa_body issuer) ns\<close> issuer by (simp only: authority_of_record_def jsval.inject)
  then show ?thesis
    using \<open>k \<in> set (registry_snapshot fx_registry)\<close> \<open>tk_status k = Key_active\<close>
      \<open>tk_signer_id k = ns_delegated_authority_id ns\<close> by auto
qed

text \<open>
  C23. A completed pass of the read model worker, over any event bus, changes exactly the rows of its
  batch, each with one more attempt and no holder: a row is completed only if its item is
  authorised, its chain materialises, and the sink recorded the statement that stores exactly
  that issuer, policy and chain for the item's verifier, as fresh when the item's instant is, in
  string order, not past the expiry of the chain and as expired otherwise; a row that is not
  completed is failed with a reason.
\<close>

theorem read_model_pass_completes_authorised_items:
  assumes "distinct (map wr_id rows)" "tick c = (c1, now)"
    and "processReadModelQueueOnce makePostgresVerifierCacheReadModelQueueStore (Some (authorize get verify))
      (process_read_model P get publish (persist_read_model sink_execute) uuid) tick opts (rows, (bus, db), c) =
      ((rows', (bus', db'), c'), Done rep)"
  shows "list_all2 (\<lambda>r r'. if r \<in> set (queue_batch opts now rows)
        then work_settled (entry_evidence P get verify) (\<lambda>item. item)
          (\<lambda>(_ :: persistence_report read_model_success) item. item) (bus', db') r r' else r' = r)
      rows rows' \<and>
    qw_claimed rep = length (queue_batch opts now rows) \<and> qw_completed rep + qw_failed rep = qw_claimed rep"
  using read_model_queue.pass_Done [where tick = tick and c = c, OF assms(1,2)
      assms(3) [unfolded processReadModelQueueOnce_def]]
  by blast

text \<open>The chain of the materialisation with the fields of a signature, and a verifier that accepts.\<close>

definition fx_sign :: "signed_artifact \<Rightarrow> signed_artifact" where
  "fx_sign a = (case sa_body a of
     JObj kvs \<Rightarrow> a\<lparr>sa_body := JObj (fold (\<lambda>(k, v). AList.update k v) fx_signature_fields kvs),
                   sa_artifact_type := str_of (get_prop (sa_body a) ''artifact_type'')\<rparr>
   | _ \<Rightarrow> a)"

definition fx_chain_lookup :: "string \<Rightarrow> net_error + signed_artifact option" where
  "fx_chain_lookup i = Inr (find (\<lambda>a. sa_artifact_id a = i) (map fx_sign
     [mat_root_manifest fx_chain, mat_delegated_authority_manifest fx_chain, mat_issuer_record fx_chain,
      mat_destination_policy fx_chain, mat_status_event fx_chain]))"

definition fx_accept :: "jsval \<Rightarrow> signature_result outcome" where
  "fx_accept v = Done \<lparr>sv_accepted = True, sv_signer = get_prop v ''signed_by'', sv_reason = Signature_verified\<rparr>"

definition fx_items :: read_model_table where
  "fx_items = [fx_work_row ''1'' 1 fx_item,
     fx_work_row ''2'' 2 (fx_item\<lparr>wi_artifacts := (wi_artifacts fx_item)\<lparr>ref_status_event_artifact_id := ''none''\<rparr>\<rparr>)]"

theorem read_model_pass_completes_authorised_items_witness:
  "\<exists>rows k c rep. processReadModelQueueOnce makePostgresVerifierCacheReadModelQueueStore
       (Some (authorize fx_chain_lookup fx_accept))
       (process_read_model fx_platform fx_chain_lookup memory_publish (persist_read_model sink_execute) (\<lambda>_. ''u''))
       fx_tick fx_queue_worker (fx_items, ([], []), 0) = ((rows, k, c), Done rep) \<and>
     map wr_status rows = [Work_done, Work_failed] \<and> qw_completed rep + qw_failed rep = qw_claimed rep"
proof -
  let ?r = "processReadModelQueueOnce makePostgresVerifierCacheReadModelQueueStore
       (Some (authorize fx_chain_lookup fx_accept))
       (process_read_model fx_platform fx_chain_lookup memory_publish (persist_read_model sink_execute) (\<lambda>_. ''u''))
       fx_tick fx_queue_worker (fx_items, ([], []), 0)"
  have "case ?r of (st, out) \<Rightarrow> map wr_status (fst st) = [Work_done, Work_failed] \<and>
      (case out of Done _ \<Rightarrow> True | _ \<Rightarrow> False)" by code_simp
  then have f: "map wr_status (fst (fst ?r)) = [Work_done, Work_failed]"
    and "(case snd ?r of Done _ \<Rightarrow> True | _ \<Rightarrow> False)" by (auto simp: case_prod_unfold)
  then obtain rep where "snd ?r = Done rep" by (cases "snd ?r") auto
  then have r: "?r = ((fst (fst ?r), (fst (fst (snd (fst ?r))), snd (fst (snd (fst ?r)))), snd (snd (fst ?r))), Done rep)"
    by (metis prod.collapse)
  have d: "distinct (map wr_id fx_items)" by (simp add: fx_items_def fx_work_row_def)
  have t: "fx_tick 0 = (1, 0)" by (simp add: fx_tick_def)
  have "qw_completed rep + qw_failed rep = qw_claimed rep"
    using read_model_pass_completes_authorised_items [where tick = fx_tick and c = 0, OF d t r] by blast
  then show ?thesis using r f by (intro exI conjI)
qed

text \<open>
  The authorizer does not ask for which scope a source artifact is signed: in the chain above the
  root manifest is signed by a delegated authority, and the item is authorised.
\<close>

lemma delegated_authority_signs_root_manifest:
  "get_prop (sa_body (hd fx_signed_chain)) ''artifact_type'' = JStr ''root_manifest'' \<and>
   get_prop (sa_body (hd fx_signed_chain)) ''signed_by'' = JStr ''authority:a'' \<and>
   tk_scope fx_authority_key = Scope_delegated_authority \<and> registry_snapshot fx_registry = [fx_authority_key] \<and>
   fx_lookup (ref_root_manifest_artifact_id (wi_artifacts fx_item)) = Inr (Some (hd fx_signed_chain)) \<and>
   (case authorize fx_lookup fx_item_verify fx_item of Done _ \<Rightarrow> True | _ \<Rightarrow> False)"
proof -
  have "registry_snapshot fx_registry = [fx_authority_key]"
    by (simp add: registry_snapshot_def fx_registry_def makeInMemoryTrustKeyRegistry_def)
  moreover have "get_prop (sa_body (hd fx_signed_chain)) ''artifact_type'' = JStr ''root_manifest''"
    "get_prop (sa_body (hd fx_signed_chain)) ''signed_by'' = JStr ''authority:a''"
    "tk_scope fx_authority_key = Scope_delegated_authority"
    "fx_lookup (ref_root_manifest_artifact_id (wi_artifacts fx_item)) = Inr (Some (hd fx_signed_chain))" by code_simp+
  ultimately show ?thesis using fx_item_authorized by auto
qed

end
