(* ===== verification/Subscriber.thy ===== *)
theory Subscriber
  imports Outbox VerifierSync
begin

text \<open>
  The governance subscriber, \<^verbatim>\<open>network/src/services/nats-governance-subscriber.ts\<close>: which subjects a
  subscriber may consume, how a message is decoded, synced and settled, and the loop that pulls
  messages from a durable consumer; and what
  \<^verbatim>\<open>network/src/programs/governance-subscriber-worker-runtime.ts\<close> makes of these.
\<close>

subsection \<open>Subjects\<close>

definition natsSubjectFamilies :: "string list" where
  "natsSubjectFamilies =
     [''root'', ''authority'', ''issuer'', ''destination'', ''certificate'', ''runtime'', ''verifier'', ''scanner'']"

definition controlPlaneSubscriberSubjects :: "string list" where
  "controlPlaneSubscriberSubjects =
     [''qrtrust.control-plane.runtime.provider.upserted.v1'',
      ''qrtrust.control-plane.authority.nats-subscriber.authorization.changed.v1'']"

text \<open>\<^verbatim>\<open>^[a-z0-9](?:[a-z0-9-]*[a-z0-9])?$\<close>.\<close>

definition natsSubjectTokenPattern :: "string \<Rightarrow> bool" where
  "natsSubjectTokenPattern t =
     (t \<noteq> [] \<and> is_token_char (hd t) \<and> is_token_char (last t) \<and>
      list_all (\<lambda>c. is_token_char c \<or> c = CHR ''-'') t)"

definition isQrTrustSubscriberSubject :: "string \<Rightarrow> bool" where
  "isQrTrustSubscriberSubject subject =
     (let tokens = js_split CHR ''.'' subject in
      if length tokens < 4 \<or> tokens ! 0 \<noteq> ''qrtrust'' \<or> list_ex (\<lambda>token. token = []) tokens \<or>
         tokens ! 2 \<notin> set natsSubjectFamilies then False
      else if \<not> list_all (\<lambda>token. token = ''*'' \<or> token = ''>'' \<or> natsSubjectTokenPattern token) tokens then False
      else if ''>'' \<in> set (butlast tokens) then False
      else if tokens ! 1 = controlPlaneSubjectRoot then subject \<in> set controlPlaneSubscriberSubjects
      else if last tokens = ''>'' then length tokens = 4
      else last tokens = ''v1'' \<and> 5 \<le> length tokens)"

text \<open>The loop over the tokens of the allowed subject, which reads the tokens of the subject in step.\<close>

fun match_tokens :: "string list \<Rightarrow> string list \<Rightarrow> bool" where
  "match_tokens [] subjectTokens = (subjectTokens = [])"
| "match_tokens (allowedToken # allowedTokens) subjectTokens =
     (if allowedToken = ''>'' then allowedTokens = [] \<and> subjectTokens \<noteq> []
      else case subjectTokens of
             [] \<Rightarrow> False
           | subjectToken # rest \<Rightarrow>
               (if allowedToken = ''*'' then match_tokens allowedTokens rest
                else if allowedToken \<noteq> subjectToken then False
                else match_tokens allowedTokens rest))"

definition natsSubjectMatches :: "string \<Rightarrow> string \<Rightarrow> bool" where
  "natsSubjectMatches allowed subject = match_tokens (js_split CHR ''.'' allowed) (js_split CHR ''.'' subject)"

fun streamSubjectFamilies :: "jet_stream_name \<Rightarrow> string list" where
  "streamSubjectFamilies Governance_stream = [''root'', ''authority'', ''issuer'', ''destination'', ''certificate'']"
| "streamSubjectFamilies Runtime_stream = [''runtime'', ''verifier'']"
| "streamSubjectFamilies Scanner_audit_stream = [''scanner'']"

fun streamMaterializationSubjects :: "jet_stream_name \<Rightarrow> string list" where
  "streamMaterializationSubjects Governance_stream =
     [''qrtrust.*.root.manifest.published.v1'', ''qrtrust.*.authority.manifest.published.v1'',
      ''qrtrust.*.issuer.record.published.v1'', ''qrtrust.*.issuer.status.changed.v1'',
      ''qrtrust.*.destination.policy.published.v1'', ''qrtrust.*.destination.policy.revoked.v1'',
      ''qrtrust.*.certificate.status.changed.v1'']"
| "streamMaterializationSubjects Runtime_stream = [''qrtrust.*.runtime.verdict.observed.v1'']"
| "streamMaterializationSubjects Scanner_audit_stream = [''qrtrust.*.scanner.decision.recorded.v1'']"

record subscriber_authorization =
  na_subscriber_id :: string
  na_durable_name :: string
  na_subjects :: "string list"

definition natsSubscriberSubjectAllowed :: "subscriber_authorization \<Rightarrow> string \<Rightarrow> bool" where
  "natsSubscriberSubjectAllowed authorization subject =
     list_ex (\<lambda>allowedSubject. natsSubjectMatches allowedSubject subject) (na_subjects authorization)"

definition natsSubscriberSubjectMatchesStream :: "jet_stream_name \<Rightarrow> string \<Rightarrow> bool" where
  "natsSubscriberSubjectMatchesStream streamName subject =
     (isQrTrustSubscriberSubject subject \<and>
      (let tokens = js_split CHR ''.'' subject
       in 2 < length tokens \<and> tokens ! 2 \<noteq> [] \<and> tokens ! 2 \<in> set (streamSubjectFamilies streamName)))"

definition natsSubscriberSubjectsForStream :: "subscriber_authorization \<Rightarrow> jet_stream_name \<Rightarrow> string list" where
  "natsSubscriberSubjectsForStream authorization streamName =
     filter (natsSubscriberSubjectMatchesStream streamName) (na_subjects authorization)"

definition rootTokenFromSubject :: "string \<Rightarrow> string option" where
  "rootTokenFromSubject subject =
     (case js_split CHR ''.'' subject of
        a # root_token # family # _ \<Rightarrow>
          if a \<noteq> ''qrtrust'' \<or> root_token = [] \<or> family = [] then None else Some root_token
      | _ \<Rightarrow> None)"

text \<open>
  \<^verbatim>\<open>subjectTemplate.replace("qrtrust.*.", ...)\<close>: every template starts with the pattern, and a root token
  of an authorised subject holds no dollar sign.
\<close>

definition narrowed_subject :: "string \<Rightarrow> string \<Rightarrow> string" where
  "narrowed_subject root_token subjectTemplate =
     (if prefix ''qrtrust.*.'' subjectTemplate
      then ''qrtrust.'' @ root_token @ ''.'' @ drop (length ''qrtrust.*.'') subjectTemplate
      else subjectTemplate)"

definition narrowed_subjects :: "jet_stream_name \<Rightarrow> string \<Rightarrow> string list" where
  "narrowed_subjects streamName allowedSubject =
     (if \<not> natsSubscriberSubjectMatchesStream streamName allowedSubject then []
      else case rootTokenFromSubject allowedSubject of
             None \<Rightarrow> []
           | Some root_token \<Rightarrow>
               filter (natsSubjectMatches allowedSubject)
                 (map (narrowed_subject root_token) (streamMaterializationSubjects streamName)))"

definition natsSubscriberMaterializationSubjectsForStream ::
  "subscriber_authorization \<Rightarrow> jet_stream_name \<Rightarrow> string list" where
  "natsSubscriberMaterializationSubjectsForStream authorization streamName =
     js_unique (concat (map (narrowed_subjects streamName) (na_subjects authorization)))"

record consumer_filter =
  kf_filter_subject :: "string option"
  kf_filter_subjects :: "string list option"

definition natsGovernanceConsumerFilterConfig :: "string list \<Rightarrow> consumer_filter" where
  "natsGovernanceConsumerFilterConfig subjects =
     (let uniqueSubjects = js_unique subjects in
      case uniqueSubjects of
        [] \<Rightarrow> \<lparr>kf_filter_subject = None, kf_filter_subjects = None\<rparr>
      | [subject] \<Rightarrow> \<lparr>kf_filter_subject = keep_truthy (Some subject), kf_filter_subjects = None\<rparr>
      | _ \<Rightarrow> \<lparr>kf_filter_subject = None, kf_filter_subjects = Some uniqueSubjects\<rparr>)"


subsection \<open>Authorisations\<close>

definition is_nonempty_string :: "jsval \<Rightarrow> bool" where
  "is_nonempty_string v = (case v of JStr s \<Rightarrow> length s \<noteq> 0 | _ \<Rightarrow> False)"

definition decodeNatsSubscriberAuthorizationRow :: "jsval \<Rightarrow> string \<Rightarrow> net_error + subscriber_authorization" where
  "decodeNatsSubscriberAuthorizationRow row expectedSubscriberId =
     (let durableName = get_prop row ''durable_name''; subjects = get_prop row ''subjects''
      in if get_prop row ''subscriber_id'' \<noteq> JStr expectedSubscriberId then
           Inl (PersistenceError ''NATS subscriber authorization row has wrong id.'' (OtherCause row))
         else if \<not> is_nonempty_string durableName then
           Inl (PersistenceError ''NATS subscriber authorization row is missing durable_name.'' (OtherCause row))
         else if \<not> js_array_every
               (\<lambda>subject. is_nonempty_string subject \<and> isQrTrustSubscriberSubject (str_of subject)) subjects then
           Inl (PersistenceError ''NATS subscriber authorization row has invalid subjects.'' (OtherCause row))
         else Inr \<lparr>na_subscriber_id = expectedSubscriberId, na_durable_name = str_of durableName,
                   na_subjects = map str_of (elements subjects)\<rparr>)"

text \<open>\<open>query\<close> runs the statement for a subscriber id; its promise is rejected with a cause or gives rows.\<close>

definition loadNatsSubscriberAuthorization ::
  "(string \<Rightarrow> 'k \<Rightarrow> 'k \<times> (jsval + jsval list)) \<Rightarrow> string \<Rightarrow> ('k, subscriber_authorization) call" where
  "loadNatsSubscriberAuthorization query subscriberId k =
     (case query subscriberId k of
        (k', Inl cause) \<Rightarrow>
          (k', Inl (PersistenceError ''Failed to load NATS subscriber authorization.'' (OtherCause cause)))
      | (k', Inr []) \<Rightarrow>
          (k', Inl (PersistenceError ''NATS subscriber is not active or authorized.''
             (OtherCause (JObj [(''subscriber_id'', JStr subscriberId)]))))
      | (k', Inr (row # _)) \<Rightarrow> (k', decodeNatsSubscriberAuthorizationRow row subscriberId))"

text \<open>
  What the text of the statement says: the active subscriber with that id, joined with its subjects
  and grouped; a subscriber without subjects joins with nothing. \<open>le\<close> is the collation.
\<close>

record subscriber_row =
  sr_subscriber_id :: string
  sr_durable_name :: string
  sr_status :: string

definition authorization_rows ::
  "(string \<Rightarrow> string \<Rightarrow> bool) \<Rightarrow> subscriber_row list \<Rightarrow> (string \<times> string) list \<Rightarrow> string \<Rightarrow> jsval list" where
  "authorization_rows le subscribers subscriber_subjects subscriberId =
     concat (map (\<lambda>s.
       let subjects = map snd (filter (\<lambda>(i, _). i = sr_subscriber_id s) subscriber_subjects)
       in if subjects = [] then []
          else [JObj [(''subscriber_id'', JStr (sr_subscriber_id s)), (''durable_name'', JStr (sr_durable_name s)),
                      (''subjects'', strings_json (sort_by le subjects))]])
       (filter (\<lambda>s. sr_subscriber_id s = subscriberId \<and> sr_status s = ''active'') subscribers))"

text \<open>The subjects that the worker consumes: those of its configuration or the narrowed ones.\<close>

definition effective_filter_subjects ::
  "subscriber_authorization \<Rightarrow> string option \<Rightarrow> net_error + string list" where
  "effective_filter_subjects authorization filter_subject =
     (let filter_subjects = (case keep_truthy filter_subject of
            Some subject \<Rightarrow> [subject]
          | None \<Rightarrow> natsSubscriberMaterializationSubjectsForStream authorization Governance_stream)
      in if filter_subjects = [] then
           Inl (PersistenceError ''NATS subscriber has no authorized governance subjects.''
             (OtherCause (strings_json (na_subjects authorization))))
         else if filter (\<lambda>subject. \<not> natsSubscriberSubjectMatchesStream Governance_stream subject) filter_subjects \<noteq> [] then
           Inl (PersistenceError ''NATS subscriber filter subject is outside the governance stream.''
             (OtherCause (strings_json (na_subjects authorization))))
         else if filter (\<lambda>subject. \<not> natsSubscriberSubjectAllowed authorization subject) filter_subjects \<noteq> [] then
           Inl (PersistenceError ''NATS subscriber is not authorized for filter subject.''
             (OtherCause (strings_json (na_subjects authorization))))
         else Inr filter_subjects)"


subsection \<open>One message\<close>

text \<open>\<open>parse\<close> is \<^verbatim>\<open>JSON.parse(new TextDecoder().decode(payload))\<close>, with its thrown value or its value.\<close>

definition has_prop :: "jsval \<Rightarrow> string \<Rightarrow> bool" where
  "has_prop v k = (case v of JObj kvs \<Rightarrow> k \<in> fst ` set kvs | _ \<Rightarrow> False)"

definition decode_payload ::
  "string \<Rightarrow> platform \<Rightarrow> ('d \<Rightarrow> jsval + jsval) \<Rightarrow> 'd \<Rightarrow> net_error + network_event" where
  "decode_payload family P parse payload =
     (case parse payload of
        Inl cause \<Rightarrow> Inl (PersistenceError (''Malformed NATS '' @ family @ '' JSON payload.'') (OtherCause cause))
      | Inr parsed \<Rightarrow>
          if \<not> truthy parsed \<or> \<not> is_objectish parsed \<or> \<not> has_prop parsed ''envelope'' then
            Inl (PersistenceError (''Malformed NATS '' @ family @ '' payload: expected an envelope object.'')
              (OtherCause parsed))
          else
            (let mismatch = PersistenceError
               (''Malformed NATS '' @ family @ '' payload: envelope does not match NetworkEvent.'')
             in case envelopeFromUnknown (get_prop parsed ''envelope'') of
                  None \<Rightarrow> Inl (mismatch (OtherCause (get_prop parsed ''envelope'')))
                | Some e \<Rightarrow>
                    (case decodeEventEnvelope P e of
                       Inl bad \<Rightarrow> Inl (mismatch (EnvelopeRejected bad))
                     | Inr envelope \<Rightarrow> Inr \<lparr>ne_envelope = envelope, ne_body = NoBody\<rparr>)))"

definition decodeNatsGovernancePayload ::
  "platform \<Rightarrow> ('d \<Rightarrow> jsval + jsval) \<Rightarrow> 'd \<Rightarrow> net_error + network_event" where
  "decodeNatsGovernancePayload = decode_payload ''governance''"

definition governanceEventRequiresCacheMutation :: "string \<Rightarrow> bool" where
  "governanceEventRequiresCacheMutation eventType =
     (eventType \<in> set [''issuer.record.published'', ''issuer.status.changed'', ''destination.policy.published'',
        ''destination.policy.revoked'', ''certificate.status.changed''])"

definition governanceEventRequiresSignatureValidation :: "string \<Rightarrow> bool" where
  "governanceEventRequiresSignatureValidation eventType =
     (eventType \<in> set [''root.manifest.published'', ''delegated_authority.manifest.published''] \<or>
      governanceEventRequiresCacheMutation eventType)"

text \<open>Whether a report is accepted, and the reason.\<close>

definition natsGovernanceSyncReportAcceptance :: "network_event \<Rightarrow> sync_report \<Rightarrow> bool \<times> string" where
  "natsGovernanceSyncReportAcceptance event report =
     (let eventType = ee_type (ne_envelope event) in
      if length (vr_missing_artifacts report) > 0 then (False, ''missing_artifacts'')
      else if length (vr_artifact_hash_mismatches report) > 0 then (False, ''artifact_hash_mismatches'')
      else if length (vr_rejected_status_events report) > 0 then (False, ''rejected_status_events'')
      else if vr_processed_events report < 1 \<or> vr_fetched_artifacts report < 1 then
        (False, ''referenced_artifact_not_validated'')
      else if governanceEventRequiresSignatureValidation eventType \<and> vr_validated_trust_artifacts report < 1 then
        (False, ''governance_event_not_signature_validated'')
      else if governanceEventRequiresCacheMutation eventType \<and>
              vr_projected_issuers report + vr_projected_destination_policies report +
              vr_applied_status_events report + vr_applied_key_status_events report < 1 then
        (False, ''governance_event_not_materialized'')
      else (True, ''sync_report_accepted''))"

text \<open>A message: its data and its methods on the message server, which return or throw.\<close>

record ('d, 'm) nats_message =
  nm_data :: 'd
  nm_ack :: "'m \<Rightarrow> 'm \<times> bool"
  nm_nak :: "int \<Rightarrow> 'm \<Rightarrow> 'm \<times> bool"
  nm_term :: "string \<Rightarrow> 'm \<Rightarrow> 'm \<times> bool"

datatype message_result =
    Synced sync_report
  | Malformed bool
  | Sync_failed bool
  | Sync_rejected bool string

definition termMessage :: "('d, 'm) nats_message \<Rightarrow> string option \<Rightarrow> 'm \<Rightarrow> 'm \<times> bool" where
  "termMessage message reason =
     nm_term message (case reason of None \<Rightarrow> ''malformed governance envelope payload'' | Some r \<Rightarrow> r)"

definition nakMessage :: "('d, 'm) nats_message \<Rightarrow> 'm \<Rightarrow> 'm \<times> bool" where
  "nakMessage message = nm_nak message 1000"

text \<open>
  The sync path runs on its own state. A rejected promise, of a typed error or of a defect, and a
  throwing \<^verbatim>\<open>ack\<close> end in the second \<^verbatim>\<open>catch\<close>.
\<close>

definition processNatsGovernanceMessage ::
  "platform \<Rightarrow> ('d \<Rightarrow> jsval + jsval) \<Rightarrow> (network_event \<Rightarrow> 's \<Rightarrow> 's \<times> sync_report outcome) \<Rightarrow>
     ('d, 'm) nats_message \<Rightarrow> 'm \<times> 's \<Rightarrow> ('m \<times> 's) \<times> message_result" where
  "processNatsGovernanceMessage P parse syncReference message w =
     (let (m, s) = w in
      case decodeNatsGovernancePayload P parse (nm_data message) of
        Inl _ \<Rightarrow> (let (m', terminated) = termMessage message None m in ((m', s), Malformed terminated))
      | Inr event \<Rightarrow>
          (let (s', result) = syncReference event s;
               failed = (\<lambda>m. let (m', nacked) = nakMessage message m in ((m', s'), Sync_failed nacked))
           in case result of
                Done syncReport \<Rightarrow>
                  (let (accepted, reason) = natsGovernanceSyncReportAcceptance event syncReport in
                   if \<not> accepted then
                     (let (m', terminated) = termMessage message (Some reason) m
                      in ((m', s'), Sync_rejected terminated reason))
                   else
                     (case nm_ack message m of
                        (m', True) \<Rightarrow> ((m', s'), Synced syncReport)
                      | (m', False) \<Rightarrow> failed m'))
              | _ \<Rightarrow> failed m))"


subsection \<open>The durable consumer\<close>

text \<open>The values of the enumerations of the \<^verbatim>\<open>nats\<close> package that the configuration uses.\<close>

record nats_policies =
  np_ack_explicit :: jsval
  np_deliver_all :: jsval
  np_replay_instant :: jsval

record subscriber_config =
  gc_stream_name :: "string option"
  gc_durable_name :: string
  gc_filter_subject :: "string option"
  gc_filter_subjects :: "string list option"
  gc_deliver_policy :: "jsval option"
  gc_max_messages :: "int option"
  gc_ack_wait_ms :: "int option"
  gc_max_deliver :: "int option"
  gc_delete_consumer_on_stop :: bool

record expected_consumer =
  ec_durable_name :: string
  ec_ack_policy :: jsval
  ec_deliver_policy :: jsval
  ec_replay_policy :: jsval
  ec_max_ack_pending :: int
  ec_max_waiting :: int
  ec_ack_wait :: int
  ec_max_deliver :: int
  ec_filter :: consumer_filter

definition expectedConsumerConfig :: "nats_policies \<Rightarrow> subscriber_config \<Rightarrow> expected_consumer" where
  "expectedConsumerConfig N config =
     \<lparr>ec_durable_name = gc_durable_name config, ec_ack_policy = np_ack_explicit N,
      ec_deliver_policy = (case gc_deliver_policy config of None \<Rightarrow> np_deliver_all N | Some p \<Rightarrow> p),
      ec_replay_policy = np_replay_instant N, ec_max_ack_pending = 1, ec_max_waiting = 1,
      ec_ack_wait = (case gc_ack_wait_ms config of None \<Rightarrow> 30000 | Some w \<Rightarrow> w) * 1000000,
      ec_max_deliver = (case gc_max_deliver config of None \<Rightarrow> 5 | Some n \<Rightarrow> n),
      ec_filter = natsGovernanceConsumerFilterConfig
        (case keep_truthy (gc_filter_subject config) of
           Some subject \<Rightarrow> [subject]
         | None \<Rightarrow> (case gc_filter_subjects config of None \<Rightarrow> [] | Some subjects \<Rightarrow> subjects))\<rparr>"

definition stringArrayFieldMatches :: "jsval \<Rightarrow> string list option \<Rightarrow> bool" where
  "stringArrayFieldMatches actual expected =
     (case expected of
        None \<Rightarrow> actual = JUndefined
      | Some subjects \<Rightarrow> (case actual of JArr vs \<Rightarrow> vs = map JStr subjects | _ \<Rightarrow> False))"

text \<open>\<open>number\<close> is \<^verbatim>\<open>Number\<close> on a string.\<close>

definition numericFieldMatches :: "(string \<Rightarrow> jsnum) \<Rightarrow> jsval \<Rightarrow> int \<Rightarrow> bool" where
  "numericFieldMatches number actual expected =
     (case actual of
        JNum n \<Rightarrow> n = Fin (of_int expected)
      | JStr s \<Rightarrow> length s > 0 \<and> number s = Fin (of_int expected)
      | _ \<Rightarrow> False)"

definition consumerConfigMatches :: "(string \<Rightarrow> jsnum) \<Rightarrow> jsval \<Rightarrow> expected_consumer \<Rightarrow> bool" where
  "consumerConfigMatches number actual expected =
     (get_prop actual ''ack_policy'' = ec_ack_policy expected \<and>
      get_prop actual ''deliver_policy'' = ec_deliver_policy expected \<and>
      get_prop actual ''replay_policy'' = ec_replay_policy expected \<and>
      nullish_or (get_prop actual ''filter_subject'') JUndefined =
        (case kf_filter_subject (ec_filter expected) of None \<Rightarrow> JUndefined | Some s \<Rightarrow> JStr s) \<and>
      stringArrayFieldMatches (get_prop actual ''filter_subjects'') (kf_filter_subjects (ec_filter expected)) \<and>
      numericFieldMatches number (get_prop actual ''ack_wait'') (ec_ack_wait expected) \<and>
      numericFieldMatches number (get_prop actual ''max_deliver'') (ec_max_deliver expected) \<and>
      numericFieldMatches number (get_prop actual ''max_ack_pending'') (ec_max_ack_pending expected) \<and>
      numericFieldMatches number (get_prop actual ''max_waiting'') (ec_max_waiting expected))"

text \<open>
  The client of the message server: each promise is rejected with a value or fulfilled. \<open>missing\<close> is
  \<^verbatim>\<open>isMissingConsumerError\<close>, which reads the text of a thrown value.
\<close>

record ('d, 'm) nats_connection =
  nc_manager :: "'m \<Rightarrow> 'm \<times> (jsval + unit)"
  nc_info :: "string \<Rightarrow> string \<Rightarrow> 'm \<Rightarrow> 'm \<times> (jsval + jsval)"
  nc_delete :: "string \<Rightarrow> string \<Rightarrow> 'm \<Rightarrow> 'm \<times> (jsval + unit)"
  nc_add :: "string \<Rightarrow> expected_consumer \<Rightarrow> 'm \<Rightarrow> 'm \<times> (jsval + unit)"
  nc_consumer :: "string \<Rightarrow> string \<Rightarrow> 'm \<Rightarrow> 'm \<times> (jsval + unit)"
  nc_next :: "string \<Rightarrow> string \<Rightarrow> 'm \<Rightarrow> 'm \<times> (jsval + ('d, 'm) nats_message option)"
  nc_missing :: "jsval \<Rightarrow> bool"

definition ensureDurableConsumer ::
  "(string \<Rightarrow> jsnum) \<Rightarrow> ('d, 'm) nats_connection \<Rightarrow> string \<Rightarrow> expected_consumer \<Rightarrow> 'm \<Rightarrow>
     'm \<times> (jsval + unit)" where
  "ensureDurableConsumer number C streamName expected m =
     (case nc_manager C m of
        (m0, Inl cause) \<Rightarrow> (m0, Inl cause)
      | (m0, Inr _) \<Rightarrow>
          (let add = (\<lambda>m. nc_add C streamName expected m);
               recover = (\<lambda>m cause. if nc_missing C cause then add m else (m, Inl cause))
           in case nc_info C streamName (ec_durable_name expected) m0 of
                (m1, Inl cause) \<Rightarrow> recover m1 cause
              | (m1, Inr info) \<Rightarrow>
                  if consumerConfigMatches number (get_prop info ''config'') expected then (m1, Inr ())
                  else
                    (case nc_delete C streamName (ec_durable_name expected) m1 of
                       (m2, Inl cause) \<Rightarrow> recover m2 cause
                     | (m2, Inr _) \<Rightarrow> add m2)))"

definition deleteConsumerIfPresent ::
  "('d, 'm) nats_connection \<Rightarrow> string \<Rightarrow> string \<Rightarrow> 'm \<Rightarrow> 'm" where
  "deleteConsumerIfPresent C streamName durableName m =
     (case nc_manager C m of
        (m', Inl _) \<Rightarrow> m'
      | (m', Inr _) \<Rightarrow> fst (nc_delete C streamName durableName m'))"


subsection \<open>The loop\<close>

text \<open>What ends a loop early: a value thrown by the client, or the failure of a fiber.\<close>

datatype thrown = Thrown_value jsval | Fiber_failure defect

text \<open>
  The loop that both subscribers run, on their own counters: \<open>below c\<close> is the bound on the messages,
  \<open>bounded\<close> whether there is one. A loop without a bound need not end.
\<close>

partial_function (option) subscriber_loop ::
  "('w \<Rightarrow> 'w \<times> (jsval + 'msg option)) \<Rightarrow> ('w \<Rightarrow> bool) \<Rightarrow> ('c \<Rightarrow> bool) \<Rightarrow> bool \<Rightarrow> ('c \<Rightarrow> 'c) \<Rightarrow>
     ('msg \<Rightarrow> 'c \<Rightarrow> 'w \<Rightarrow> 'w \<times> (thrown + 'c)) \<Rightarrow> 'c \<Rightarrow> 'w \<Rightarrow> ('w \<times> (thrown + 'c)) option" where
  "subscriber_loop next aborted below bounded timed_out handle c w =
     (if \<not> below c \<or> aborted w then Some (w, Inr c)
      else case next w of
             (w', Inl cause) \<Rightarrow> Some (w', Inl (Thrown_value cause))
           | (w', Inr None) \<Rightarrow>
               if bounded then Some (w', Inr (timed_out c))
               else subscriber_loop next aborted below bounded timed_out handle (timed_out c) w'
           | (w', Inr (Some message)) \<Rightarrow>
               (case handle message c w' of
                  (w'', Inl cause) \<Rightarrow> Some (w'', Inl cause)
                | (w'', Inr c') \<Rightarrow> subscriber_loop next aborted below bounded timed_out handle c' w''))"

record governance_report =
  gr_received_messages :: nat
  gr_consumed_messages :: nat
  gr_sync_runs :: nat
  gr_rejected_sync_reports :: nat
  gr_malformed_messages :: nat
  gr_sync_failures :: nat
  gr_terminated_messages :: nat
  gr_nacked_messages :: nat
  gr_timed_out_polls :: nat
  gr_last_sync_report :: "sync_report option"

definition no_messages :: governance_report where
  "no_messages = \<lparr>gr_received_messages = 0, gr_consumed_messages = 0, gr_sync_runs = 0,
     gr_rejected_sync_reports = 0, gr_malformed_messages = 0, gr_sync_failures = 0,
     gr_terminated_messages = 0, gr_nacked_messages = 0, gr_timed_out_polls = 0, gr_last_sync_report = None\<rparr>"

definition one_if :: "bool \<Rightarrow> nat" where
  "one_if b = (if b then 1 else 0)"

fun count_result :: "message_result \<Rightarrow> governance_report \<Rightarrow> governance_report" where
  "count_result (Malformed terminated) c =
     c\<lparr>gr_malformed_messages := gr_malformed_messages c + 1,
       gr_terminated_messages := gr_terminated_messages c + one_if terminated\<rparr>"
| "count_result (Sync_failed nacked) c =
     c\<lparr>gr_sync_failures := gr_sync_failures c + 1,
       gr_nacked_messages := gr_nacked_messages c + one_if nacked\<rparr>"
| "count_result (Sync_rejected terminated reason) c =
     c\<lparr>gr_rejected_sync_reports := gr_rejected_sync_reports c + 1,
       gr_terminated_messages := gr_terminated_messages c + one_if terminated\<rparr>"
| "count_result (Synced syncReport) c =
     c\<lparr>gr_consumed_messages := gr_consumed_messages c + 1, gr_sync_runs := gr_sync_runs c + 1,
       gr_last_sync_report := Some syncReport\<rparr>"

definition handle_governance_message ::
  "platform \<Rightarrow> ('d \<Rightarrow> jsval + jsval) \<Rightarrow> (network_event \<Rightarrow> 's \<Rightarrow> 's \<times> sync_report outcome) \<Rightarrow>
     ('d, 'm) nats_message \<Rightarrow> governance_report \<Rightarrow> 'm \<times> 's \<Rightarrow> ('m \<times> 's) \<times> (thrown + governance_report)" where
  "handle_governance_message P parse syncReference message c w =
     (let (w', result) = processNatsGovernanceMessage P parse syncReference message w
      in (w', Inr (count_result result (c\<lparr>gr_received_messages := gr_received_messages c + 1\<rparr>))))"

definition below_max_messages :: "int option \<Rightarrow> nat \<Rightarrow> bool" where
  "below_max_messages max_messages n = (case max_messages of None \<Rightarrow> True | Some k \<Rightarrow> int n < k)"

text \<open>\<^verbatim>\<open>runSubscriber\<close>, with the loop as an argument; the clean-up runs however the loop ends.\<close>

definition run_subscriber ::
  "(string \<Rightarrow> jsnum) \<Rightarrow> nats_policies \<Rightarrow> ('d, 'm) nats_connection \<Rightarrow> string \<Rightarrow> subscriber_config \<Rightarrow>
     (string \<Rightarrow> 'm \<times> 's \<Rightarrow> (('m \<times> 's) \<times> (thrown + 'c)) option) \<Rightarrow> 'm \<times> 's \<Rightarrow>
     (('m \<times> 's) \<times> (thrown + 'c)) option" where
  "run_subscriber number N C default_stream config loop w =
     (let streamName = (case gc_stream_name config of None \<Rightarrow> default_stream | Some n \<Rightarrow> n); (m, s) = w in
      case ensureDurableConsumer number C streamName (expectedConsumerConfig N config) m of
        (m', Inl cause) \<Rightarrow> Some ((m', s), Inl (Thrown_value cause))
      | (m', Inr _) \<Rightarrow>
          map_option (\<lambda>((m, s), result).
              ((if gc_delete_consumer_on_stop config
                then deleteConsumerIfPresent C streamName (gc_durable_name config) m else m, s), result))
            (case nc_consumer C streamName (gc_durable_name config) m' of
               (m'', Inl cause) \<Rightarrow> Some ((m'', s), Inl (Thrown_value cause))
             | (m'', Inr _) \<Rightarrow> loop streamName (m'', s)))"

text \<open>An error with a string tag passes as it is; anything else is wrapped.\<close>

datatype subscriber_error = Passed_through jsval | Wrapped string thrown

definition subscriber_failure :: "string \<Rightarrow> thrown \<Rightarrow> subscriber_error" where
  "subscriber_failure message cause =
     (case cause of
        Thrown_value v \<Rightarrow> if is_str (get_prop v ''_tag'') then Passed_through v else Wrapped message cause
      | Fiber_failure _ \<Rightarrow> Wrapped message cause)"

definition pull_next ::
  "('d, 'm) nats_connection \<Rightarrow> string \<Rightarrow> string \<Rightarrow> 'm \<times> 's \<Rightarrow>
     ('m \<times> 's) \<times> (jsval + ('d, 'm) nats_message option)" where
  "pull_next C streamName durableName w =
     (let (m, s) = w; (m', r) = nc_next C streamName durableName m in ((m', s), r))"

definition governance_loop ::
  "platform \<Rightarrow> ('d \<Rightarrow> jsval + jsval) \<Rightarrow> ('d, 'm) nats_connection \<Rightarrow> subscriber_config \<Rightarrow> ('m \<times> 's \<Rightarrow> bool) \<Rightarrow>
     (network_event \<Rightarrow> 's \<Rightarrow> 's \<times> sync_report outcome) \<Rightarrow> string \<Rightarrow> 'm \<times> 's \<Rightarrow>
     (('m \<times> 's) \<times> (thrown + governance_report)) option" where
  "governance_loop P parse C config aborted syncReference streamName =
     subscriber_loop (pull_next C streamName (gc_durable_name config)) aborted
       (\<lambda>c. below_max_messages (gc_max_messages config) (gr_consumed_messages c))
       (gc_max_messages config \<noteq> None)
       (\<lambda>c. c\<lparr>gr_timed_out_polls := gr_timed_out_polls c + 1\<rparr>)
       (handle_governance_message P parse syncReference) no_messages"

definition runNatsGovernanceSubscriber ::
  "platform \<Rightarrow> ('d \<Rightarrow> jsval + jsval) \<Rightarrow> (string \<Rightarrow> jsnum) \<Rightarrow> nats_policies \<Rightarrow> ('d, 'm) nats_connection \<Rightarrow>
     subscriber_config \<Rightarrow> ('m \<times> 's \<Rightarrow> bool) \<Rightarrow> (network_event \<Rightarrow> 's \<Rightarrow> 's \<times> sync_report outcome) \<Rightarrow>
     'm \<times> 's \<Rightarrow> (('m \<times> 's) \<times> (subscriber_error + governance_report)) option" where
  "runNatsGovernanceSubscriber P parse number N C config aborted syncReference w =
     map_option (\<lambda>(w', result). (w', map_error (subscriber_failure ''NATS governance subscriber failed.'') result))
       (run_subscriber number N C ''QRTRUST_GOVERNANCE'' config
          (governance_loop P parse C config aborted syncReference) w)"


subsection \<open>The sync path of the worker\<close>

text \<open>
  Each event is published on a fresh in-memory bus and synced from it. The service gets no registry, so
  the verifier is its own and no key status is applied; the cache is the state that the path keeps.
\<close>

definition worker_sync_reference ::
  "platform \<Rightarrow> (string \<Rightarrow> net_error + signed_artifact option) \<Rightarrow> (jsval \<Rightarrow> signature_result outcome) \<Rightarrow>
     network_event \<Rightarrow> verifier_cache \<Rightarrow> verifier_cache \<times> sync_report outcome" where
  "worker_sync_reference P get verify event cache =
     (case memory_publish event [] of
        (eventBus, Inl e) \<Rightarrow> (cache, Failed e)
      | (eventBus, Inr _) \<Rightarrow>
          (case syncRecent P get (\<lambda>_. verify) False (memory_recent eventBus) (Some cache) [] of
             ((cache', _), result) \<Rightarrow> ((case cache' of None \<Rightarrow> cache | Some c \<Rightarrow> c), result)))"

end
