(* ===== verification/SubscriberFacts.thy ===== *)
theory SubscriberFacts
  imports Subscriber OutboxFacts VerifierSyncFacts
begin

text \<open>
  Facts on the governance subscriber: the grammar of authorised subjects and what the consumer's
  filter lets through, how a message is settled and what an acknowledgement means, and when the
  loop returns with which counts.
\<close>

subsection \<open>The grammar of subjects\<close>

definition plain_or_star :: "string \<Rightarrow> bool" where
  "plain_or_star t \<longleftrightarrow> t = ''*'' \<or> natsSubjectTokenPattern t"

inductive subject_grammar :: "string list \<Rightarrow> bool" where
  whole_family:
    "plain_or_star r \<Longrightarrow> r \<noteq> controlPlaneSubjectRoot \<Longrightarrow> f \<in> set natsSubjectFamilies \<Longrightarrow>
      subject_grammar [''qrtrust'', r, f, ''>'']"
| event_kind:
    "plain_or_star r \<Longrightarrow> r \<noteq> controlPlaneSubjectRoot \<Longrightarrow> f \<in> set natsSubjectFamilies \<Longrightarrow> ts \<noteq> [] \<Longrightarrow>
      \<forall>t \<in> set ts. plain_or_star t \<Longrightarrow> subject_grammar (''qrtrust'' # r # f # ts @ [''v1''])"
| control_plane:
    "s \<in> set controlPlaneSubscriberSubjects \<Longrightarrow> subject_grammar (js_split CHR ''.'' s)"

lemma pattern_tokens:
  "natsSubjectTokenPattern ''qrtrust''" "natsSubjectTokenPattern ''v1''"
  "\<not> natsSubjectTokenPattern ''>''" "\<not> natsSubjectTokenPattern ''*''" "\<not> natsSubjectTokenPattern []"
  "f \<in> set natsSubjectFamilies \<Longrightarrow> natsSubjectTokenPattern f"
  by (auto simp: natsSubjectTokenPattern_def is_token_char_def is_digit_def natsSubjectFamilies_def)

lemma plain_or_star_facts: "plain_or_star t \<Longrightarrow> t \<noteq> ''>'' \<and> t \<noteq> []"
  by (auto simp: plain_or_star_def natsSubjectTokenPattern_def is_token_char_def is_digit_def)

lemma js_split_inj: "js_split d s = js_split d t \<Longrightarrow> s = t"
  by (metis js_join_split)

lemma four_tokens:
  "4 \<le> length ts \<longleftrightarrow> (\<exists>a b c d us. ts = a # b # c # d # us)"
  by (auto simp: Suc_le_length_iff numeral_eq_Suc)

lemma control_subjects: "s \<in> set controlPlaneSubscriberSubjects \<Longrightarrow> isQrTrustSubscriberSubject s"
proof -
  have "list_all isQrTrustSubscriberSubject controlPlaneSubscriberSubjects" by code_simp
  then show "s \<in> set controlPlaneSubscriberSubjects \<Longrightarrow> isQrTrustSubscriberSubject s" by (simp add: list_all_iff)
qed

lemma checked_tokens:
  assumes "js_split CHR ''.'' s = a # r # f # d # us"
  shows "isQrTrustSubscriberSubject s \<longleftrightarrow>
    a = ''qrtrust'' \<and> [] \<notin> set (a # r # f # d # us) \<and> f \<in> set natsSubjectFamilies \<and>
    (\<forall>t \<in> set (a # r # f # d # us). t = ''*'' \<or> t = ''>'' \<or> natsSubjectTokenPattern t) \<and>
    ''>'' \<notin> set (butlast (a # r # f # d # us)) \<and>
    (if r = controlPlaneSubjectRoot then s \<in> set controlPlaneSubscriberSubjects
     else if last (d # us) = ''>'' then us = [] else last (d # us) = ''v1'' \<and> us \<noteq> [])"
proof -
  have n: "length (a # r # f # d # us) < 4 \<longleftrightarrow> False" "length (a # r # f # d # us) = 4 \<longleftrightarrow> us = []"
    "5 \<le> length (a # r # f # d # us) \<longleftrightarrow> us \<noteq> []"
    by (cases us; simp)+
  let ?ts = "a # r # f # d # us"
  have nths: "?ts ! 0 = a" "?ts ! 1 = r" "?ts ! 2 = f" "last ?ts = last (d # us)"
    "list_ex (\<lambda>t. t = []) ?ts \<longleftrightarrow> [] \<in> set ?ts" by (auto simp: list_ex_iff)
  show ?thesis
    unfolding isQrTrustSubscriberSubject_def Let_def assms n nths list_all_iff by argo
qed

lemma subject_has_four: "isQrTrustSubscriberSubject s \<Longrightarrow> 4 \<le> length (js_split CHR ''.'' s)"
  by (simp add: isQrTrustSubscriberSubject_def Let_def split: if_splits)

lemma subject_grammar_iff: "isQrTrustSubscriberSubject s \<longleftrightarrow> subject_grammar (js_split CHR ''.'' s)"
proof
  assume ok: "isQrTrustSubscriberSubject s"
  let ?ts = "js_split CHR ''.'' s"
  obtain a r f d us where ts: "?ts = a # r # f # d # us"
    using subject_has_four [OF ok] by (auto simp: four_tokens)
  note checked = ok [unfolded checked_tokens [OF ts]]
  have r: "plain_or_star r" using checked by (auto simp: plain_or_star_def)
  show "subject_grammar ?ts"
  proof (cases "r = controlPlaneSubjectRoot")
    case True
    then show ?thesis using checked by (intro control_plane) simp
  next
    case False
    show ?thesis
    proof (cases "last (d # us) = ''>''")
      case True
      then have "us = []" using checked False by argo
      then have "us = []" "d = ''>''" using True by simp_all
      then show ?thesis unfolding ts using whole_family [OF r False] checked by simp
    next
      case other: False
      then have v1: "last (d # us) = ''v1''" "us \<noteq> []" using checked False by argo+
      let ?mid = "butlast (d # us)"
      have "\<forall>t \<in> set ?mid. t \<in> set (butlast (a # r # f # d # us)) \<and> t \<in> set (a # r # f # d # us)"
        by (auto dest: in_set_butlastD)
      then have "\<forall>t \<in> set ?mid. plain_or_star t" using checked unfolding plain_or_star_def by blast
      moreover have "d # us = ?mid @ [''v1'']"
        using v1(1) append_butlast_last_id [of "d # us"] by simp
      ultimately show ?thesis
        unfolding ts using event_kind [OF r False, of f ?mid] v1(2) checked by simp
    qed
  qed
next
  assume g: "subject_grammar (js_split CHR ''.'' s)"
  then show "isQrTrustSubscriberSubject s"
  proof (cases rule: subject_grammar.cases)
    case (whole_family r f)
    show ?thesis
      unfolding checked_tokens [OF whole_family(1)]
      using whole_family(2-4) plain_or_star_facts [of r] pattern_tokens by (auto simp: plain_or_star_def)
  next
    case (event_kind r f ts)
    obtain d us where d: "ts @ [''v1''] = d # us" "us \<noteq> []" "butlast (d # us) = ts" "last (d # us) = ''v1''"
      using event_kind(5) by (cases ts) auto
    have tok: "\<forall>t \<in> set (r # ts). (t = ''*'' \<or> natsSubjectTokenPattern t) \<and> t \<noteq> [] \<and> t \<noteq> ''>''"
      using event_kind(2,6) plain_or_star_facts by (auto simp: plain_or_star_def)
    have split: "js_split CHR ''.'' s = ''qrtrust'' # r # f # d # us" using event_kind(1) d(1) by simp
    let ?L = "''qrtrust'' # r # f # d # us"
    have members: "set (d # us) = insert ''v1'' (set ts)" unfolding d(1) [symmetric] by simp
    have all: "set ?L = {''qrtrust'', r, f, ''v1''} \<union> set ts" using members by auto
    have f: "f \<noteq> []" "f \<noteq> ''>''" "natsSubjectTokenPattern f" using event_kind(4) pattern_tokens by metis+
    have "set (butlast ?L) = {''qrtrust'', r, f} \<union> set ts" using d(2,3) by simp
    then have "''>'' \<notin> set (butlast ?L)" using tok f by auto
    moreover have "[] \<notin> set ?L" unfolding all using tok f by auto
    moreover have "\<forall>t \<in> set ?L. t = ''*'' \<or> t = ''>'' \<or> natsSubjectTokenPattern t"
      unfolding all using tok f(3) pattern_tokens(1,2) by (simp add: ball_Un)
    moreover have "(''v1'' :: string) \<noteq> ''>''" by simp
    ultimately show ?thesis
      unfolding checked_tokens [OF split] d(4) using event_kind(3,4) d(2) by argo
  next
    case (control_plane u)
    then show ?thesis using control_subjects js_split_inj by metis
  qed
qed


subsection \<open>Matching\<close>

text \<open>The relation of the message server: a star stands for a token, a tail for one or more.\<close>

inductive nats_match :: "string list \<Rightarrow> string list \<Rightarrow> bool" where
  match_end: "nats_match [] []"
| match_tail: "ss \<noteq> [] \<Longrightarrow> nats_match [''>''] ss"
| match_star: "nats_match ps ss \<Longrightarrow> nats_match (''*'' # ps) (s # ss)"
| match_token: "t \<noteq> ''>'' \<Longrightarrow> nats_match ps ss \<Longrightarrow> nats_match (t # ps) (t # ss)"

inductive_simps nats_match_simps: "nats_match [] ss" "nats_match (p # ps) ss"

lemma match_tokens_iff: "match_tokens ps ss \<longleftrightarrow> nats_match ps ss"
  by (induction ps ss rule: match_tokens.induct) (auto simp: nats_match_simps split: list.splits)

lemma match_literal: "\<forall>p \<in> set ps. p \<noteq> ''*'' \<and> p \<noteq> ''>'' \<Longrightarrow> match_tokens ps ss \<longleftrightarrow> ss = ps"
  by (induction ps ss rule: match_tokens.induct) (auto split: list.splits)

lemma match_tail_kept: "nats_match ps qs \<Longrightarrow> nats_match qs ss \<Longrightarrow> ''>'' \<notin> set qs \<Longrightarrow> nats_match ps ss"
proof (induction ps qs arbitrary: ss rule: nats_match.induct)
  case (match_tail qs)
  then show ?case by (cases qs) (auto simp: nats_match_simps)
qed (auto simp: nats_match_simps)


subsection \<open>Narrowing\<close>

text \<open>A template is the pattern of a root followed by tokens without wildcards, the first a family.\<close>

definition template_ok :: "jet_stream_name \<Rightarrow> string \<Rightarrow> bool" where
  "template_ok stream t \<longleftrightarrow> prefix ''qrtrust.*.'' t \<and>
     (case js_split CHR ''.'' (drop 10 t) of
        fam # d # us \<Rightarrow> fam \<in> set (streamSubjectFamilies stream) \<and> fam \<in> set natsSubjectFamilies \<and> us \<noteq> [] \<and>
          last us = ''v1'' \<and> list_all natsSubjectTokenPattern (fam # d # us)
      | _ \<Rightarrow> False)"

lemma templates_ok: "t \<in> set (streamMaterializationSubjects stream) \<Longrightarrow> template_ok stream t"
proof -
  have "list_all (\<lambda>stream. list_all (template_ok stream) (streamMaterializationSubjects stream))
      [Governance_stream, Runtime_stream, Scanner_audit_stream]" by code_simp
  then show "t \<in> set (streamMaterializationSubjects stream) \<Longrightarrow> template_ok stream t"
    by (cases stream) (auto simp: list_all_iff)
qed

lemma template_tokens:
  assumes "t \<in> set (streamMaterializationSubjects stream)"
  obtains u fam d us where "t = ''qrtrust.*.'' @ u" "js_split CHR ''.'' u = fam # d # us"
    "fam \<in> set (streamSubjectFamilies stream)" "fam \<in> set natsSubjectFamilies" "us \<noteq> []" "last us = ''v1''"
    "\<forall>w \<in> set (fam # d # us). natsSubjectTokenPattern w"
proof -
  have ok: "template_ok stream t" using assms by (rule templates_ok)
  then obtain u where u: "t = ''qrtrust.*.'' @ u" by (auto simp: template_ok_def prefix_def)
  then have "drop 10 t = u" by simp
  with ok u that show thesis by (auto simp: template_ok_def list_all_iff split: list.splits)
qed

lemma template_shape:
  assumes "t \<in> set (streamMaterializationSubjects stream)"
  obtains u where "t = ''qrtrust.*.'' @ u" "\<forall>w \<in> set (js_split CHR ''.'' u). w \<noteq> ''*'' \<and> w \<noteq> ''>''"
    "hd (js_split CHR ''.'' u) \<in> set (streamSubjectFamilies stream)"
  using assms
proof (rule template_tokens)
  fix u fam d us
  assume u: "t = ''qrtrust.*.'' @ u" "js_split CHR ''.'' u = fam # d # us"
    "fam \<in> set (streamSubjectFamilies stream)" "\<forall>w \<in> set (fam # d # us). natsSubjectTokenPattern w"
  have "\<forall>w \<in> set (js_split CHR ''.'' u). w \<noteq> ''*'' \<and> w \<noteq> ''>''" using u(2,4) pattern_tokens by metis
  then show thesis using that u by simp
qed

lemma root_split:
  "CHR ''.'' \<notin> set r \<Longrightarrow>
     js_split CHR ''.'' (''qrtrust.'' @ r @ ''.'' @ u) = ''qrtrust'' # r # js_split CHR ''.'' u"
  using js_split_Nil_sep [of "CHR ''.''" "''qrtrust''" "r @ CHR ''.'' # u"] js_split_Nil_sep [of "CHR ''.''" r u]
  by simp

lemma template_split: "js_split CHR ''.'' (''qrtrust.*.'' @ u) = ''qrtrust'' # ''*'' # js_split CHR ''.'' u"
  using root_split [of "''*''" u] by simp

lemma pattern_no_dot: "natsSubjectTokenPattern t \<Longrightarrow> CHR ''.'' \<notin> set t"
  by (auto simp: natsSubjectTokenPattern_def list_all_iff is_token_char_def is_digit_def)

lemma root_step:
  "r \<noteq> ''>'' \<Longrightarrow> match_tokens (''qrtrust'' # r # ps) (''qrtrust'' # s # ss) \<longleftrightarrow>
     (r = ''*'' \<or> r = s) \<and> match_tokens ps ss"
  by simp

lemma root_stepD:
  assumes "match_tokens (''qrtrust'' # r # ps) ss" "r \<noteq> ''>''"
  obtains s ss' where "ss = ''qrtrust'' # s # ss'" "r = ''*'' \<or> r = s" "match_tokens ps ss'"
  using assms by (auto split: list.splits if_splits)

lemma narrowed_iff:
  assumes "isQrTrustSubscriberSubject a"
  shows "(\<exists>f \<in> set (narrowed_subjects stream a). natsSubjectMatches f s) \<longleftrightarrow>
    natsSubjectMatches a s \<and> (\<exists>t \<in> set (streamMaterializationSubjects stream). natsSubjectMatches t s)"
proof -
  obtain a0 r fam d us where split: "js_split CHR ''.'' a = a0 # r # fam # d # us"
    using subject_has_four [OF assms] by (auto simp: four_tokens)
  note checked = assms [unfolded checked_tokens [OF split]]
  have q: "a0 = ''qrtrust''" "r \<noteq> []" "fam \<noteq> []" "r \<noteq> ''>''" using checked by auto
  have fam: "fam \<noteq> ''*''" "fam \<noteq> ''>''" using checked pattern_tokens by metis+
  have dot: "CHR ''.'' \<notin> set r" using js_split_no_sep [of r "CHR ''.''" a] split by simp
  have rt: "rootTokenFromSubject a = Some r" using q by (simp add: rootTokenFromSubject_def split)
  have in_stream: "natsSubscriberSubjectMatchesStream stream a \<longleftrightarrow> fam \<in> set (streamSubjectFamilies stream)"
    using assms q(3) by (simp add: natsSubscriberSubjectMatchesStream_def split)
  have narrowed: "narrowed_subject r (''qrtrust.*.'' @ u) = ''qrtrust.'' @ r @ ''.'' @ u" for u
    by (simp add: narrowed_subject_def)
  have tokens: "natsSubjectMatches a (''qrtrust.'' @ r @ ''.'' @ u) \<longleftrightarrow>
      match_tokens (fam # d # us) (js_split CHR ''.'' u)" for u
    unfolding natsSubjectMatches_def split root_split [OF dot] q(1) root_step [OF q(4)] by blast
  show ?thesis
  proof
    assume "\<exists>f \<in> set (narrowed_subjects stream a). natsSubjectMatches f s"
    then obtain t where t: "t \<in> set (streamMaterializationSubjects stream)"
      "natsSubjectMatches a (narrowed_subject r t)" "natsSubjectMatches (narrowed_subject r t) s"
      by (auto simp: narrowed_subjects_def rt split: if_splits)
    obtain u where u: "t = ''qrtrust.*.'' @ u" "\<forall>w \<in> set (js_split CHR ''.'' u). w \<noteq> ''*'' \<and> w \<noteq> ''>''"
      using template_shape [OF t(1)] by metis
    have "match_tokens (''qrtrust'' # r # js_split CHR ''.'' u) (js_split CHR ''.'' s)"
      using t(3) by (simp only: u(1) narrowed natsSubjectMatches_def root_split [OF dot])
    then obtain s1 ss where s: "js_split CHR ''.'' s = ''qrtrust'' # s1 # ss" "r = ''*'' \<or> r = s1"
      "match_tokens (js_split CHR ''.'' u) ss" using q(4) by (rule root_stepD)
    have ss: "ss = js_split CHR ''.'' u" using s(3) match_literal [OF u(2)] by simp
    have "match_tokens (fam # d # us) (js_split CHR ''.'' u)" using t(2) unfolding u(1) narrowed tokens .
    then have "natsSubjectMatches a s"
      using s(2) unfolding natsSubjectMatches_def split s(1) ss q(1) root_step [OF q(4)] by blast
    moreover have "natsSubjectMatches t s"
      using s(3) by (simp add: natsSubjectMatches_def u(1) template_split s(1) del: append_Cons)
    ultimately show "natsSubjectMatches a s \<and> (\<exists>t \<in> set (streamMaterializationSubjects stream). natsSubjectMatches t s)"
      using t(1) by blast
  next
    assume m: "natsSubjectMatches a s \<and> (\<exists>t \<in> set (streamMaterializationSubjects stream). natsSubjectMatches t s)"
    then obtain t where t: "t \<in> set (streamMaterializationSubjects stream)" "natsSubjectMatches t s" by blast
    obtain u where u: "t = ''qrtrust.*.'' @ u" "\<forall>w \<in> set (js_split CHR ''.'' u). w \<noteq> ''*'' \<and> w \<noteq> ''>''"
      "hd (js_split CHR ''.'' u) \<in> set (streamSubjectFamilies stream)"
      using template_shape [OF t(1)] by metis
    have "match_tokens (''qrtrust'' # r # fam # d # us) (js_split CHR ''.'' s)"
      using m q(1) by (simp only: natsSubjectMatches_def split)
    then obtain s1 ss where s: "js_split CHR ''.'' s = ''qrtrust'' # s1 # ss" "r = ''*'' \<or> r = s1"
      "match_tokens (fam # d # us) ss" using q(4) by (rule root_stepD)
    have "match_tokens (js_split CHR ''.'' u) ss"
      using t(2) by (simp add: natsSubjectMatches_def u(1) template_split s(1) del: append_Cons)
    then have ss: "ss = js_split CHR ''.'' u" using match_literal [OF u(2)] by simp
    have "hd ss = fam" using s(3) fam by (cases ss) (auto split: if_splits)
    then have "natsSubscriberSubjectMatchesStream stream a" using in_stream u(3) ss by simp
    moreover have "natsSubjectMatches a (narrowed_subject r t)"
      unfolding u(1) narrowed tokens using s(3) unfolding ss .
    moreover have "natsSubjectMatches (narrowed_subject r t) s"
      using s(2) unfolding u(1) narrowed natsSubjectMatches_def root_split [OF dot] s(1) root_step [OF q(4)]
        match_literal [OF u(2)] ss by blast
    ultimately show "\<exists>f \<in> set (narrowed_subjects stream a). natsSubjectMatches f s"
      using t(1) by (auto simp: narrowed_subjects_def rt)
  qed
qed

text \<open>What the narrowing gives passes the guards of the worker.\<close>

lemma control_never_narrowed:
  assumes "a \<in> set controlPlaneSubscriberSubjects" "t \<in> set (streamMaterializationSubjects stream)"
  shows "\<not> natsSubjectMatches a (narrowed_subject controlPlaneSubjectRoot t)"
proof -
  have "list_all (\<lambda>stream. list_all (\<lambda>a. list_all (\<lambda>t. \<not> natsSubjectMatches a (narrowed_subject controlPlaneSubjectRoot t))
      (streamMaterializationSubjects stream)) controlPlaneSubscriberSubjects)
      [Governance_stream, Runtime_stream, Scanner_audit_stream]" by code_simp
  then show ?thesis using assms by (cases stream) (auto simp: list_all_iff)
qed

lemma narrowed_subject_ok:
  assumes "isQrTrustSubscriberSubject a" "f \<in> set (narrowed_subjects stream a)"
  shows "natsSubscriberSubjectMatchesStream stream f \<and> natsSubjectMatches a f"
proof -
  obtain a0 r fam d us where split: "js_split CHR ''.'' a = a0 # r # fam # d # us"
    using subject_has_four [OF assms(1)] by (auto simp: four_tokens)
  note checked = assms(1) [unfolded checked_tokens [OF split]]
  have r: "rootTokenFromSubject a = Some r" "plain_or_star r"
    using checked by (auto simp: rootTokenFromSubject_def split plain_or_star_def)
  have dot: "CHR ''.'' \<notin> set r" using js_split_no_sep [of r "CHR ''.''" a] split by simp
  obtain t where t: "t \<in> set (streamMaterializationSubjects stream)" "f = narrowed_subject r t"
    "natsSubjectMatches a f"
    using assms(2) by (auto simp: narrowed_subjects_def r split: if_splits)
  obtain u g e vs where u: "t = ''qrtrust.*.'' @ u" "js_split CHR ''.'' u = g # e # vs"
    "g \<in> set (streamSubjectFamilies stream)" "g \<in> set natsSubjectFamilies" "vs \<noteq> []" "last vs = ''v1''"
    "\<forall>w \<in> set (g # e # vs). natsSubjectTokenPattern w"
    using t(1) by (rule template_tokens)
  have "f = ''qrtrust.'' @ r @ ''.'' @ u" by (simp add: t(2) u(1) narrowed_subject_def)
  then have f: "js_split CHR ''.'' f = ''qrtrust'' # r # g # e # vs" by (simp only: root_split [OF dot] u(2))
  have control: "r \<noteq> controlPlaneSubjectRoot"
    using checked t control_never_narrowed by metis
  have v: "e # vs = butlast (e # vs) @ [''v1'']" "butlast (e # vs) \<noteq> []"
    using u(5,6) append_butlast_last_id [of "e # vs"] by auto
  have "\<forall>w \<in> set (butlast (e # vs)). plain_or_star w"
    using u(7) by (auto simp: plain_or_star_def dest: in_set_butlastD split: if_splits)
  then have "subject_grammar (''qrtrust'' # r # g # butlast (e # vs) @ [''v1''])"
    by (rule event_kind [OF r(2) control u(4) v(2)])
  then have "isQrTrustSubscriberSubject f" unfolding subject_grammar_iff f using v(1) by simp
  moreover have "g \<noteq> []" using u(4) pattern_tokens by metis
  ultimately show ?thesis
    using t(3) u(3) by (simp add: natsSubscriberSubjectMatchesStream_def f)
qed

lemma effective_subjects:
  assumes "\<forall>a \<in> set (na_subjects authorization). isQrTrustSubscriberSubject a"
  shows "effective_filter_subjects authorization None = Inr fs \<longleftrightarrow>
    fs \<noteq> [] \<and> fs = natsSubscriberMaterializationSubjectsForStream authorization Governance_stream"
proof -
  let ?fs = "natsSubscriberMaterializationSubjectsForStream authorization Governance_stream"
  have "natsSubscriberSubjectMatchesStream Governance_stream f \<and> natsSubscriberSubjectAllowed authorization f"
    if "f \<in> set ?fs" for f
    using that narrowed_subject_ok assms
    by (fastforce simp: natsSubscriberMaterializationSubjectsForStream_def natsSubscriberSubjectAllowed_def list_ex_iff)
  then show ?thesis
    by (auto simp: effective_filter_subjects_def Let_def keep_truthy_def filter_empty_conv)
qed


subsection \<open>Authorisations\<close>

lemma nonempty_string_iff: "is_nonempty_string v \<longleftrightarrow> (\<exists>s. v = JStr s \<and> s \<noteq> [])"
  by (cases v) (auto simp: is_nonempty_string_def)

lemma decoded_authorization:
  assumes "decodeNatsSubscriberAuthorizationRow row i = Inr a"
  shows "na_subscriber_id a = i" "get_prop row ''durable_name'' = JStr (na_durable_name a)"
    "na_durable_name a \<noteq> []" "get_prop row ''subjects'' = strings_json (na_subjects a)"
    "\<forall>s \<in> set (na_subjects a). isQrTrustSubscriberSubject s"
proof -
  have strs: "list_all (\<lambda>v. is_nonempty_string v \<and> isQrTrustSubscriberSubject (str_of v)) vs \<Longrightarrow>
      vs = map JStr (map str_of vs) \<and> (\<forall>s \<in> set (map str_of vs). isQrTrustSubscriberSubject s)" for vs
    by (induction vs) (auto simp: nonempty_string_iff)
  show "na_subscriber_id a = i" "get_prop row ''durable_name'' = JStr (na_durable_name a)"
    "na_durable_name a \<noteq> []"
    using assms by (auto simp: decodeNatsSubscriberAuthorizationRow_def Let_def nonempty_string_iff split: if_splits)
  obtain vs where vs: "get_prop row ''subjects'' = JArr vs" "na_subjects a = map str_of vs"
    "list_all (\<lambda>v. is_nonempty_string v \<and> isQrTrustSubscriberSubject (str_of v)) vs"
    using assms
    by (auto simp: decodeNatsSubscriberAuthorizationRow_def Let_def js_array_every_def split: if_splits jsval.splits)
  then show "get_prop row ''subjects'' = strings_json (na_subjects a)"
    "\<forall>s \<in> set (na_subjects a). isQrTrustSubscriberSubject s"
    using strs [OF vs(3)] by (auto simp: strings_json_def)
qed

lemma strings_json_inj: "strings_json xs = strings_json ys \<longleftrightarrow> xs = ys"
  by (auto simp: strings_json_def inj_map_eq_map inj_def)

lemma authorization_row:
  assumes "row \<in> set (authorization_rows le subscribers subjects i)"
  obtains s where "s \<in> set subscribers" "sr_subscriber_id s = i" "sr_status s = ''active''"
    "row = JObj [(''subscriber_id'', JStr i), (''durable_name'', JStr (sr_durable_name s)),
       (''subjects'', strings_json (sort_by le (map snd (filter (\<lambda>(j, _). j = i) subjects))))]"
    "\<exists>x. (i, x) \<in> set subjects"
  using assms that by (auto simp: authorization_rows_def Let_def filter_empty_conv split: if_splits)


subsection \<open>One message\<close>

lemma payload_decodes:
  assumes "envelope_valid P e"
  shows "decode_payload family P Inr (JObj [(''envelope'', envelope_json e)]) =
    Inr \<lparr>ne_envelope = e, ne_body = NoBody\<rparr>"
  using assms
  by (simp add: decode_payload_def has_prop_def get_prop_def envelope_round_trip decodeEventEnvelope_def Let_def)

text \<open>What an accepted report says of the sync of a single event.\<close>

definition accepted_report :: "string \<Rightarrow> sync_report \<Rightarrow> bool" where
  "accepted_report eventType rep \<longleftrightarrow>
     vr_missing_artifacts rep = [] \<and> vr_artifact_hash_mismatches rep = [] \<and> vr_rejected_status_events rep = [] \<and>
     1 \<le> vr_processed_events rep \<and> 1 \<le> vr_fetched_artifacts rep \<and>
     (governanceEventRequiresSignatureValidation eventType \<longrightarrow> 1 \<le> vr_validated_trust_artifacts rep) \<and>
     (governanceEventRequiresCacheMutation eventType \<longrightarrow>
        1 \<le> vr_projected_issuers rep + vr_projected_destination_policies rep +
          vr_applied_status_events rep + vr_applied_key_status_events rep)"

lemma acceptance_iff:
  "fst (natsGovernanceSyncReportAcceptance event rep) \<longleftrightarrow> accepted_report (ee_type (ne_envelope event)) rep"
  by (auto simp: natsGovernanceSyncReportAcceptance_def accepted_report_def Let_def)

lemma single_sync:
  assumes "sync_event P get verify h event (start_state c rs) = (st, Done ())" "sy_fetched st \<noteq> 0"
    "sy_mismatches st = []" "sy_rejected st = []"
  shows "\<exists>b. intact P get (ne_envelope event) b \<and> sy_cache st = map_option (cache_run (event_ops P (ne_envelope event) b)) c \<and>
    (signature_gate (verify rs) b = Done (if sy_validated st = 0 then Gate_unrecognized else Gate_accepted))"
proof -
  obtain a where a: "get (ee_artifact_id (ne_envelope event)) = Inr (Some a)"
    using assms(1,2) by (auto simp: sync_event_def start_state_def Let_def split: sum.splits option.splits if_splits)
  have h: "sa_artifact_hash a = ee_artifact_hash (ne_envelope event)" "sa_artifact_hash a = sha256_of P (sa_body a)"
    using assms(1-3) a by (auto simp: sync_event_def start_state_def Let_def split: if_splits)
  have int: "intact P get (ne_envelope event) (sa_body a)" using a h by (auto simp: intact_def)
  show ?thesis
    using assms a h int
    by (auto simp: sync_event_def start_state_def Let_def project_cache
        split: if_splits outcome.splits gate_result.splits intro!: exI [of _ "sa_body a"])
qed

lemma worker_sync:
  assumes "worker_sync_reference P get verify event c = (c', Done rep)"
  obtains st where "sync_event P get (\<lambda>_. verify) False event (start_state (Some c) []) = (st, Done ())"
    "sy_cache st = Some c'" "rep = sync_report_of 1 st"
proof -
  obtain st r where st: "sync_event P get (\<lambda>_. verify) False event (start_state (Some c) []) = (st, r)" by fastforce
  have r: "r = Done ()" using assms st
    by (auto simp: worker_sync_reference_def memory_publish_def memory_recent_def syncRecent_def split: outcome.splits)
  then have e: "sync_events P get (\<lambda>_. verify) False [event] (start_state (Some c) []) = (st, Done ())"
    using st by simp
  obtain ops where "sy_cache st = map_option (cache_run ops) (sy_cache (start_state (Some c) []))"
    using events_justified [OF e, of "\<lambda>_. True"] by blast
  then obtain c1 where "sy_cache st = Some c1" by (simp add: start_state_def)
  with e assms st r that show thesis
    by (auto simp: worker_sync_reference_def memory_publish_def memory_recent_def syncRecent_def)
qed


subsection \<open>The loop\<close>

text \<open>
  A bounded loop returns when each message uses up one of the deliveries that the server can still
  make; what every step keeps of the counters holds at its end.
\<close>

lemma bounded_loop_returns:
  assumes timed_out: "\<And>c. kept c \<Longrightarrow> kept (timed_out c)"
    and handled: "\<And>message c w w' c'. handle message c w = (w', Inr c') \<Longrightarrow> kept c \<Longrightarrow> below c \<Longrightarrow> kept c'"
    and delivery: "\<And>w w1 message c w2 r. pull w = (w1, Inr (Some message)) \<Longrightarrow>
      handle message c w1 = (w2, r) \<Longrightarrow> remaining w2 < (remaining w :: nat)"
    and "kept c"
  shows "\<exists>w' r. subscriber_loop pull aborted below True timed_out handle c w = Some (w', r) \<and>
     (case r of Inl _ \<Rightarrow> True | Inr c' \<Rightarrow> kept c')"
  using \<open>kept c\<close>
proof (induction "remaining w" arbitrary: c w rule: less_induct)
  case less
  show ?case
  proof (cases "below c \<and> \<not> aborted w")
    case False
    then show ?thesis using less.prems by (subst subscriber_loop.simps) auto
  next
    case go: True
    obtain w1 x where x: "pull w = (w1, x)" by fastforce
    consider cause where "x = Inl cause" | "x = Inr None" | message where "x = Inr (Some message)"
      by (cases x; cases "projr x") auto
    then show ?thesis
    proof cases
      case 1
      then show ?thesis using go x by (subst subscriber_loop.simps) auto
    next
      case 2
      then show ?thesis using go x less.prems timed_out by (subst subscriber_loop.simps) auto
    next
      case 3
      obtain w2 h where h: "handle message c w1 = (w2, h)" by fastforce
      have fewer: "remaining w2 < remaining w" using delivery h x 3 by blast
      show ?thesis
      proof (cases h)
        case (Inl cause)
        then show ?thesis using go x 3 h by (subst subscriber_loop.simps) auto
      next
        case (Inr c')
        then have "kept c'" using handled h go less.prems by blast
        then show ?thesis
          using less.hyps [OF fewer, of c'] go x 3 h Inr by (subst subscriber_loop.simps) auto
      qed
    qed
  qed
qed

text \<open>The counts of the governance subscriber, with a bound.\<close>

definition governance_counts :: "int \<Rightarrow> governance_report \<Rightarrow> bool" where
  "governance_counts k c \<longleftrightarrow>
     gr_received_messages c =
       gr_consumed_messages c + gr_rejected_sync_reports c + gr_malformed_messages c + gr_sync_failures c \<and>
     gr_sync_runs c = gr_consumed_messages c \<and>
     gr_terminated_messages c \<le> gr_rejected_sync_reports c + gr_malformed_messages c \<and>
     gr_nacked_messages c \<le> gr_sync_failures c \<and>
     int (gr_consumed_messages c) \<le> max 0 k \<and>
     (gr_last_sync_report c = None \<longleftrightarrow> gr_consumed_messages c = 0)"

lemma counts_result:
  "governance_counts k c \<Longrightarrow> int (gr_consumed_messages c) < k \<Longrightarrow>
     governance_counts k (count_result r (c\<lparr>gr_received_messages := gr_received_messages c + 1\<rparr>))"
  by (cases r) (auto simp: governance_counts_def one_if_def)

text \<open>A message server that runs out of deliveries: \<open>left\<close> bounds what it can still deliver.\<close>

definition finite_deliveries :: "('d, 'm) nats_connection \<Rightarrow> ('m \<Rightarrow> nat) \<Rightarrow> bool" where
  "finite_deliveries C left \<longleftrightarrow>
     (\<forall>s n m m' message. nc_next C s n m = (m', Inr (Some message)) \<longrightarrow> left m' < left m \<and>
        (\<forall>m. left (fst (nm_ack message m)) \<le> left m \<and>
             (\<forall>i. left (fst (nm_nak message i m)) \<le> left m) \<and> (\<forall>i. left (fst (nm_term message i m)) \<le> left m)))"


lemma settled_keeps:
  assumes "finite_deliveries C left" "nc_next C s n m = (m1, Inr (Some message))"
    "processNatsGovernanceMessage P parse syncReference message (m1, x) = (w2, r)"
  shows "left (fst w2) < left m"
proof -
  obtain m2 x' where w2: "w2 = (m2, x')" by fastforce
  have f: "left m1 < left m" "left (fst (nm_ack message k)) \<le> left k"
    "left (fst (nm_nak message i k)) \<le> left k" "left (fst (nm_term message t k)) \<le> left k" for k i t
    using assms(1,2) unfolding finite_deliveries_def by blast+
  have ack: "nm_ack message k = (k', b) \<Longrightarrow> left k' \<le> left k"
    and nak: "nm_nak message i k = (k', b) \<Longrightarrow> left k' \<le> left k"
    and terminated: "nm_term message t k = (k', b) \<Longrightarrow> left k' \<le> left k" for k k' b i t
    using f(2,3,4) by (metis fst_conv)+
  have "left m2 \<le> left m1"
    using assms(3) w2 by (auto simp: processNatsGovernanceMessage_def Let_def termMessage_def nakMessage_def
        split: sum.splits prod.splits outcome.splits bool.splits if_splits dest: ack nak terminated order_trans)
  then show ?thesis using f(1) w2 by simp
qed


lemma governance_loop_returns:
  fixes C :: "('d, 'm) nats_connection" and w :: "'m \<times> 's"
  assumes "finite_deliveries C left" "gc_max_messages config = Some k"
  shows "\<exists>w' r. governance_loop P parse C config aborted syncReference streamName w = Some (w', r) \<and>
    (case r of Inl _ \<Rightarrow> True | Inr rep \<Rightarrow> governance_counts k rep)"
proof -
  let ?handle = "handle_governance_message P parse syncReference ::
    ('d, 'm) nats_message \<Rightarrow> governance_report \<Rightarrow> 'm \<times> 's \<Rightarrow> ('m \<times> 's) \<times> (thrown + governance_report)"
  let ?timed_out = "\<lambda>c. c\<lparr>gr_timed_out_polls := gr_timed_out_polls c + 1\<rparr>"
  let ?below = "\<lambda>c. below_max_messages (Some k) (gr_consumed_messages c)"
  have "\<exists>w' r. subscriber_loop (pull_next C streamName (gc_durable_name config)) aborted ?below True ?timed_out ?handle
      no_messages w = Some (w', r) \<and> (case r of Inl _ \<Rightarrow> True | Inr c' \<Rightarrow> governance_counts k c')"
  proof (rule bounded_loop_returns [where remaining = "\<lambda>w. left (fst w)"])
    show "governance_counts k c \<Longrightarrow> governance_counts k (?timed_out c)" for c
      by (simp add: governance_counts_def)
    show "governance_counts k c'" if "?handle message c u = (u', Inr c')" "governance_counts k c" "?below c"
      for message c u u' c'
      using that counts_result [of k c]
      by (auto simp: handle_governance_message_def below_max_messages_def split: prod.splits)
    show "left (fst u2) < left (fst u)"
      if pulls: "pull_next C streamName (gc_durable_name config) u = (u1, Inr (Some message))"
        and handles: "?handle message c u1 = (u2, r)"
      for u u1 message c u2 r
    proof -
      obtain m x where u: "u = (m, x)" by fastforce
      obtain m1 y where y: "nc_next C streamName (gc_durable_name config) m = (m1, y)" by fastforce
      have "((m1, x), y) = (u1, Inr (Some message))" using pulls by (simp add: pull_next_def u y)
      then have pulled: "nc_next C streamName (gc_durable_name config) m = (m1, Inr (Some message))" "u1 = (m1, x)"
        using y by simp_all
      obtain res where "processNatsGovernanceMessage P parse syncReference message (m1, x) = (u2, res)"
        using handles by (auto simp: handle_governance_message_def pulled(2) split: prod.splits)
      then show ?thesis using settled_keeps [OF assms(1) pulled(1)] u by simp
    qed
    show "governance_counts k no_messages" by (simp add: governance_counts_def no_messages_def)
  qed
  then show ?thesis by (simp add: governance_loop_def assms(2))
qed

subsection \<open>The sync path as an interface\<close>

text \<open>
  What the subscriber relies on: when the path reports a sync that is accepted, the event took
  effect, as \<open>effect\<close> says of the states before and after.
\<close>

locale governance_sync =
  fixes syncReference :: "network_event \<Rightarrow> 's \<Rightarrow> 's \<times> sync_report outcome"
    and effect :: "network_event \<Rightarrow> 's \<Rightarrow> 's \<Rightarrow> bool"
  assumes accepted_effect: "syncReference event s = (s', Done rep) \<Longrightarrow>
      accepted_report (ee_type (ne_envelope event)) rep \<Longrightarrow> effect event s s'"
begin

lemma acknowledged_effect:
  assumes "processNatsGovernanceMessage P parse syncReference message (m, s) = ((m', s'), Synced rep)"
  shows "\<exists>event. decodeNatsGovernancePayload P parse (nm_data message) = Inr event \<and> effect event s s' \<and>
    nm_ack message m = (m', True)"
proof -
  obtain event where e: "decodeNatsGovernancePayload P parse (nm_data message) = Inr event"
    using assms by (auto simp: processNatsGovernanceMessage_def Let_def split: sum.splits prod.splits)
  obtain s1 res where res: "syncReference event s = (s1, res)" by fastforce
  note run = assms [unfolded processNatsGovernanceMessage_def Let_def prod.case e sum.case res]
  obtain report where report: "res = Done report" using run by (cases res) (auto split: prod.splits)
  obtain accepted reason where acc: "natsGovernanceSyncReportAcceptance event report = (accepted, reason)"
    by fastforce
  have ok: "accepted" using run report acc by (auto split: prod.splits if_splits)
  obtain m1 b where ack: "nm_ack message m = (m1, b)" by fastforce
  have "b \<and> m' = m1 \<and> s' = s1" using run report acc ok ack by (cases b) (auto split: prod.splits)
  then show ?thesis
    using e ack accepted_effect [of event s s1 report] res report acc ok acceptance_iff [of event report] by auto
qed

end

text \<open>
  The path of the worker: the artifact of the event is intact, the cache took exactly the calls
  that its body holds, and where the type demands it the body was verified in its scope.
\<close>

definition verified_effect ::
  "platform \<Rightarrow> (string \<Rightarrow> net_error + signed_artifact option) \<Rightarrow> key_registry \<Rightarrow> key_material_loader \<Rightarrow>
     network_event \<Rightarrow> verifier_cache \<Rightarrow> verifier_cache \<Rightarrow> bool" where
  "verified_effect P get rs load event c c' \<longleftrightarrow>
     (\<exists>b. intact P get (ne_envelope event) b \<and> c' = cache_run (event_ops P (ne_envelope event) b) c \<and>
        (governanceEventRequiresSignatureValidation (ee_type (ne_envelope event)) \<longrightarrow>
           trustArtifactScopeMatchesBody b \<and>
           (\<exists>k \<in> set (registry_snapshot rs). signed_under k b \<and> verified_with P load k b)))"

interpretation worker_sync: governance_sync
  "worker_sync_reference P get (verifyTrustArtifact P (memory_lookup rs) load)" "verified_effect P get rs load"
  for P get rs load
proof unfold_locales
  fix event c c' rep
  let ?verify = "verifyTrustArtifact P (memory_lookup rs) load"
  assume a: "worker_sync_reference P get ?verify event c = (c', Done rep)"
    "accepted_report (ee_type (ne_envelope event)) rep"
  obtain st where st: "sync_event P get (\<lambda>_. ?verify) False event (start_state (Some c) []) = (st, Done ())"
    "sy_cache st = Some c'" "rep = sync_report_of 1 st"
    using a(1) by (rule worker_sync)
  have n: "sy_fetched st \<noteq> 0" "sy_mismatches st = []" "sy_rejected st = []"
    "governanceEventRequiresSignatureValidation (ee_type (ne_envelope event)) \<Longrightarrow> sy_validated st \<noteq> 0"
    using a(2) by (simp_all add: st(3) accepted_report_def sync_report_of_def)
  obtain b where b: "intact P get (ne_envelope event) b"
    "sy_cache st = map_option (cache_run (event_ops P (ne_envelope event) b)) (Some c)"
    "signature_gate ?verify b = Done (if sy_validated st = 0 then Gate_unrecognized else Gate_accepted)"
    using single_sync [OF st(1) n(1-3)] by blast
  have "trustArtifactScopeMatchesBody b \<and>
      (\<exists>k \<in> set (registry_snapshot rs). signed_under k b \<and> verified_with P load k b)"
    if "governanceEventRequiresSignatureValidation (ee_type (ne_envelope event))"
    using n(4) [OF that] b(3) gate_accepted_scope verifier.gate_accepted [of P rs load b] by simp
  then show "verified_effect P get rs load event c c'"
    using b st(2) by (auto simp: verified_effect_def)
qed


subsection \<open>Properties\<close>

text \<open>
  C32. An authorisation that is loaded from the tables is well typed and complete: it belongs to an
  active subscriber with that id, names its durable consumer, and lists exactly its subjects, at
  least one, each of which is in the grammar of subjects: a root that is not the control plane with
  a whole family or a kind of event, or one of the two subjects of the control plane.
\<close>

theorem loaded_authorization_is_well_typed:
  assumes "loadNatsSubscriberAuthorization
      (\<lambda>i k. (k, Inr (authorization_rows le subscribers subjects i))) subscriberId k = (k', Inr a)"
  shows "na_subscriber_id a = subscriberId \<and> na_durable_name a \<noteq> [] \<and> na_subjects a \<noteq> [] \<and>
    set (na_subjects a) = {s. (subscriberId, s) \<in> set subjects} \<and>
    (\<forall>s \<in> set (na_subjects a). subject_grammar (js_split CHR ''.'' s)) \<and>
    (\<exists>s \<in> set subscribers. sr_subscriber_id s = subscriberId \<and> sr_status s = ''active'' \<and>
       na_durable_name a = sr_durable_name s)"
proof -
  obtain row rows where rows: "authorization_rows le subscribers subjects subscriberId = row # rows"
    and dec: "decodeNatsSubscriberAuthorizationRow row subscriberId = Inr a"
    using assms by (auto simp: loadNatsSubscriberAuthorization_def split: list.splits)
  have "row \<in> set (authorization_rows le subscribers subjects subscriberId)" by (simp add: rows)
  then obtain s where s: "s \<in> set subscribers" "sr_subscriber_id s = subscriberId" "sr_status s = ''active''"
    "row = JObj [(''subscriber_id'', JStr subscriberId), (''durable_name'', JStr (sr_durable_name s)),
       (''subjects'', strings_json (sort_by le (map snd (filter (\<lambda>(j, _). j = subscriberId) subjects))))]"
    "\<exists>x. (subscriberId, x) \<in> set subjects" by (rule authorization_row)
  note d = decoded_authorization [OF dec]
  have "na_subjects a = sort_by le (map snd (filter (\<lambda>(j, _). j = subscriberId) subjects))"
    using d(4) by (simp add: s(4) get_prop_def strings_json_inj)
  then have "set (na_subjects a) = {x. (subscriberId, x) \<in> set subjects}"
    by (force simp flip: set_mset_mset)
  moreover have "na_durable_name a = sr_durable_name s" using d(2) by (simp add: s(4) get_prop_def)
  ultimately show ?thesis using d(1,3,5) s subject_grammar_iff by auto
qed

definition fx_subscribers :: "subscriber_row list" where
  "fx_subscribers = [\<lparr>sr_subscriber_id = ''s'', sr_durable_name = ''d'', sr_status = ''active''\<rparr>]"

definition fx_subjects :: "(string \<times> string) list" where
  "fx_subjects = [(''s'', ''qrtrust.root-r.issuer.>''), (''s'', ''qrtrust.*.destination.policy.published.v1''),
     (''t'', ''qrtrust.root-r.root.>'')]"

definition fx_authorization :: subscriber_authorization where
  "fx_authorization = \<lparr>na_subscriber_id = ''s'', na_durable_name = ''d'',
     na_subjects = [''qrtrust.*.destination.policy.published.v1'', ''qrtrust.root-r.issuer.>'']\<rparr>"

lemma fx_loaded:
  "loadNatsSubscriberAuthorization (\<lambda>i k. (k, Inr (authorization_rows js_le fx_subscribers fx_subjects i))) ''s'' () =
     ((), Inr fx_authorization)"
  by code_simp

theorem loaded_authorization_is_well_typed_witness:
  "subject_grammar (js_split CHR ''.'' ''qrtrust.root-r.issuer.>'') \<and>
     \<not> isQrTrustSubscriberSubject ''qrtrust.*.>.root.v1''"
proof -
  have "\<not> isQrTrustSubscriberSubject ''qrtrust.*.>.root.v1''" by code_simp
  then show ?thesis
    using loaded_authorization_is_well_typed [OF fx_loaded] by (simp add: fx_authorization_def)
qed

text \<open>The types of the messages that match a template of the governance stream.\<close>

definition materialized_types :: "string list" where
  "materialized_types =
     [''root.manifest.published'', ''delegated_authority.manifest.published'', ''issuer.record.published'',
      ''issuer.status.changed'', ''destination.policy.published'', ''destination.policy.revoked'',
      ''trust-key.status.changed'', ''certificate.status.changed'']"

lemma tail_matches_template:
  assumes "map_of eventTypeToSubjectTail typ' = Some tail" "CHR ''.'' \<notin> set r" "r \<noteq> []"
  shows "(\<exists>t \<in> set (streamMaterializationSubjects Governance_stream).
      natsSubjectMatches t (''qrtrust.'' @ r @ ''.'' @ tail @ ''.v1'')) \<longleftrightarrow> typ' \<in> set materialized_types"
proof -
  have all: "list_all (\<lambda>(typ', tail).
      list_ex (\<lambda>t. match_tokens (tl (tl (js_split CHR ''.'' t))) (js_split CHR ''.'' (tail @ ''.v1'')))
        (streamMaterializationSubjects Governance_stream) = (typ' \<in> set materialized_types)) eventTypeToSubjectTail"
    by code_simp
  have ex: "(\<exists>t \<in> set (streamMaterializationSubjects Governance_stream).
      match_tokens (tl (tl (js_split CHR ''.'' t))) (js_split CHR ''.'' (tail @ ''.v1''))) \<longleftrightarrow>
      typ' \<in> set materialized_types"
    using bspec [OF all [unfolded list_all_iff list_ex_iff] map_of_SomeD [OF assms(1)]] unfolding prod.case .
  have "natsSubjectMatches t (''qrtrust.'' @ r @ ''.'' @ (tail @ ''.v1'')) \<longleftrightarrow>
      match_tokens (tl (tl (js_split CHR ''.'' t))) (js_split CHR ''.'' (tail @ ''.v1''))"
    if "t \<in> set (streamMaterializationSubjects Governance_stream)" for t
    using that
  proof (rule template_tokens)
    fix u assume u: "t = ''qrtrust.*.'' @ u"
    show ?thesis unfolding natsSubjectMatches_def root_split [OF assms(2)] u template_split by simp
  qed
  then show ?thesis using ex by simp
qed

text \<open>
  C30. The filter of the consumer is exact: of the messages that publication makes of events, those
  that match a subject the worker consumes are those whose subject is authorised and whose type is
  one that the governance sync materialises.
\<close>

theorem consumer_filter_is_exact:
  assumes "loadNatsSubscriberAuthorization query subscriberId k = (k', Inr a)"
    and "effective_filter_subjects a None = Inr filters"
    and "jetStreamMessageFromEvent event = Done m"
  shows "(\<exists>f \<in> set filters. natsSubjectMatches f (jm_subject m)) \<longleftrightarrow>
    natsSubscriberSubjectAllowed a (jm_subject m) \<and> ee_type (ne_envelope event) \<in> set materialized_types"
  using assms(3)
proof (rule message_Done)
  let ?e = "ne_envelope event"
  let ?r = "normalizeSubjectToken (ee_root_program_id ?e)"
  fix tail stream
  assume m: "map_of eventTypeToSubjectTail (ee_type ?e) = Some tail" "subjectRootFromEnvelope ?e = Inr ?r"
    "jm_subject m = ''qrtrust.'' @ ?r @ ''.'' @ tail @ ''.v1''"
  obtain row where "decodeNatsSubscriberAuthorizationRow row subscriberId = Inr a"
    using assms(1) by (auto simp: loadNatsSubscriberAuthorization_def split: prod.splits sum.splits list.splits)
  note ok = decoded_authorization(5) [OF this]
  have filters: "filters = natsSubscriberMaterializationSubjectsForStream a Governance_stream"
    using assms(2) effective_subjects [OF ok] by simp
  have r: "CHR ''.'' \<notin> set ?r" "?r \<noteq> []"
    using dot_no_token [OF normalized_token] m(2) by (auto simp: subjectRootFromEnvelope_def Let_def split: if_splits)
  have "(\<exists>f \<in> set filters. natsSubjectMatches f (jm_subject m)) \<longleftrightarrow>
      (\<exists>s \<in> set (na_subjects a). \<exists>f \<in> set (narrowed_subjects Governance_stream s). natsSubjectMatches f (jm_subject m))"
    by (auto simp: filters natsSubscriberMaterializationSubjectsForStream_def)
  also have "\<dots> \<longleftrightarrow> natsSubscriberSubjectAllowed a (jm_subject m) \<and>
      (\<exists>t \<in> set (streamMaterializationSubjects Governance_stream). natsSubjectMatches t (jm_subject m))"
    using narrowed_iff [of _ Governance_stream "jm_subject m"] ok
    by (auto simp: natsSubscriberSubjectAllowed_def list_ex_iff)
  finally show ?thesis using tail_matches_template [OF m(1) r] m(3) by simp
qed

theorem consumer_filter_is_exact_witness:
  "\<exists>m filters. jetStreamMessageFromEvent (fx_event ''issuer.record.published'' None) = Done m \<and>
     effective_filter_subjects fx_authorization None = Inr filters \<and>
     (\<exists>f \<in> set filters. natsSubjectMatches f (jm_subject m)) \<and> length filters = 3"
proof -
  let ?r = "jetStreamMessageFromEvent (fx_event ''issuer.record.published'' None)"
  let ?f = "effective_filter_subjects fx_authorization None"
  have "case ?r of Done m \<Rightarrow> natsSubscriberSubjectAllowed fx_authorization (jm_subject m) | _ \<Rightarrow> False" by code_simp
  then obtain m where m: "?r = Done m" "natsSubscriberSubjectAllowed fx_authorization (jm_subject m)"
    by (cases ?r) auto
  have "case ?f of Inr fs \<Rightarrow> length fs = 3 | _ \<Rightarrow> False" by code_simp
  then obtain fs where fs: "?f = Inr fs" "length fs = 3" by (cases ?f) auto
  have "ee_type (ne_envelope (fx_event ''issuer.record.published'' None)) \<in> set materialized_types"
    by (simp add: fx_event_def materialized_types_def)
  then show ?thesis
    using consumer_filter_is_exact [OF fx_loaded fs(1) m(1)] m fs by blast
qed

text \<open>A message that logs the methods that are called on it.\<close>

datatype settlement = Ack | Nak int | Term string

definition logging_message :: "'d \<Rightarrow> bool \<Rightarrow> bool \<Rightarrow> bool \<Rightarrow> ('d, settlement list) nats_message" where
  "logging_message d ack_ok nak_ok term_ok =
     \<lparr>nm_data = d, nm_ack = (\<lambda>m. (m @ [Ack], ack_ok)), nm_nak = (\<lambda>ms m. (m @ [Nak ms], nak_ok)),
      nm_term = (\<lambda>reason m. (m @ [Term reason], term_ok))\<rparr>"

text \<open>
  C31. Every message is settled, once: a payload that does not decode terminates it and leaves the
  state alone; otherwise its event is synced, and the message is acknowledged if the report is
  accepted, terminated with the reason of the report gate if it is not, and given back for
  redelivery if the sync fails, in whatever way, or if the acknowledgement itself does.
\<close>

theorem messages_are_settled:
  assumes "processNatsGovernanceMessage P parse syncReference (logging_message d ack_ok nak_ok term_ok) (m, s) =
      ((m', s'), r)"
  shows "(case decodeNatsGovernancePayload P parse d of
      Inl _ \<Rightarrow> r = Malformed term_ok \<and> s' = s \<and> m' = m @ [Term ''malformed governance envelope payload'']
    | Inr event \<Rightarrow> s' = fst (syncReference event s) \<and>
        (case snd (syncReference event s) of
           Done rep \<Rightarrow>
             if \<not> accepted_report (ee_type (ne_envelope event)) rep then
               (let reason = snd (natsGovernanceSyncReportAcceptance event rep)
                in r = Sync_rejected term_ok reason \<and> m' = m @ [Term reason])
             else if ack_ok then r = Synced rep \<and> m' = m @ [Ack]
             else r = Sync_failed nak_ok \<and> m' = m @ [Ack, Nak 1000]
         | _ \<Rightarrow> r = Sync_failed nak_ok \<and> m' = m @ [Nak 1000]))"
proof (cases "decodeNatsGovernancePayload P parse d")
  case (Inl e)
  then show ?thesis
    using assms by (simp add: processNatsGovernanceMessage_def logging_message_def termMessage_def)
next
  case (Inr event)
  obtain s1 res where res: "syncReference event s = (s1, res)" by fastforce
  show ?thesis
  proof (cases res)
    case (Done rep)
    obtain accepted reason where acc: "natsGovernanceSyncReportAcceptance event rep = (accepted, reason)" by fastforce
    show ?thesis
      using assms Inr res Done acc acceptance_iff [of event rep]
      by (cases accepted; cases ack_ok)
         (auto simp: processNatsGovernanceMessage_def logging_message_def termMessage_def nakMessage_def Let_def)
  qed (use assms Inr res in \<open>simp_all add: processNatsGovernanceMessage_def logging_message_def nakMessage_def Let_def\<close>)
qed

definition fx_delivery :: "jsval \<Rightarrow> jsval \<Rightarrow> (settlement list \<times> verifier_cache) \<times> message_result" where
  "fx_delivery payload body =
     processNatsGovernanceMessage fx_platform Inr
       (worker_sync_reference fx_platform (fx_store body)
          (verifyTrustArtifact fx_platform (memory_lookup demo_registry) inline_load))
       (logging_message payload True True True) ([], makeDemoVerifierCache)"

definition fx_payload :: "string \<Rightarrow> jsval" where
  "fx_payload typ' = JObj [(''envelope'', envelope_json (ne_envelope (fx_event typ' None)))]"

definition fx_revoked_authority :: jsval where
  "fx_revoked_authority = fx_revocation_body [(''target_type'', JStr ''delegated_authority'')]"

theorem messages_are_settled_witness:
  "fst (fst (fx_delivery (fx_payload ''issuer.status.changed'') fx_revoked_authority)) = [Ack] \<and>
   fst (fst (fx_delivery (JStr ''x'') fx_revoked_authority)) = [Term ''malformed governance envelope payload'']"
proof -
  let ?r = "fx_delivery (JStr ''x'') fx_revoked_authority"
  have r: "?r = ((fst (fst ?r), snd (fst ?r)), snd ?r)" by simp
  have "case decodeNatsGovernancePayload fx_platform Inr (JStr ''x'') of Inl _ \<Rightarrow> True | Inr _ \<Rightarrow> False" by code_simp
  then obtain e where "decodeNatsGovernancePayload fx_platform Inr (JStr ''x'') = Inl e"
    by (cases "decodeNatsGovernancePayload fx_platform Inr (JStr ''x'')") auto
  then have bad: "fst (fst ?r) = [Term ''malformed governance envelope payload'']"
    using messages_are_settled [OF r [unfolded fx_delivery_def]] by (simp add: fx_delivery_def)
  have "fst (fst (fx_delivery (fx_payload ''issuer.status.changed'') fx_revoked_authority)) = [Ack]" by code_simp
  then show ?thesis using bad by simp
qed

text \<open>
  C29. An acknowledgement means the event took effect: its payload decodes, the artifact that it
  references is stored with the announced hash, and the cache of the worker took exactly the calls
  that the body of the artifact holds; for every kind of event but a key status and the kinds that
  the worker does not subscribe to, that body was verified, in the scope it claims, with an active
  key of the registry.
\<close>

theorem acknowledged_message_was_verified:
  assumes "processNatsGovernanceMessage P parse
      (worker_sync_reference P get (verifyTrustArtifact P (memory_lookup rs) load)) message (m, c) =
      ((m', c'), Synced rep)"
  shows "\<exists>event b. decodeNatsGovernancePayload P parse (nm_data message) = Inr event \<and>
    intact P get (ne_envelope event) b \<and> c' = cache_run (event_ops P (ne_envelope event) b) c \<and>
    (ee_type (ne_envelope event) \<in> set materialized_types - {''trust-key.status.changed''} \<longrightarrow>
       trustArtifactScopeMatchesBody b \<and>
       (\<exists>k \<in> set (registry_snapshot rs). signed_under k b \<and> verified_with P load k b))"
proof -
  have "governanceEventRequiresSignatureValidation t"
    if "t \<in> set materialized_types - {''trust-key.status.changed''}" for t
    using that by (auto simp: materialized_types_def governanceEventRequiresSignatureValidation_def
        governanceEventRequiresCacheMutation_def)
  then show ?thesis
    using worker_sync.acknowledged_effect [OF assms] unfolding verified_effect_def by blast
qed

theorem acknowledged_message_was_verified_witness:
  "\<exists>k \<in> set (registry_snapshot demo_registry). signed_under k fx_revoked_authority"
proof -
  let ?r = "fx_delivery (fx_payload ''issuer.status.changed'') fx_revoked_authority"
  have "case snd ?r of Synced _ \<Rightarrow> True | _ \<Rightarrow> False" by code_simp
  then obtain rep where "snd ?r = Synced rep" by (cases "snd ?r") auto
  then have r: "?r = ((fst (fst ?r), snd (fst ?r)), Synced rep)" by (metis prod.collapse)
  obtain event b where e: "decodeNatsGovernancePayload fx_platform Inr (fx_payload ''issuer.status.changed'') = Inr event"
    "intact fx_platform (fx_store fx_revoked_authority) (ne_envelope event) b"
    "ee_type (ne_envelope event) \<in> set materialized_types - {''trust-key.status.changed''} \<longrightarrow>
       (\<exists>k \<in> set (registry_snapshot demo_registry). signed_under k b)"
    using acknowledged_message_was_verified [OF r [unfolded fx_delivery_def]]
    by (auto simp: logging_message_def)
  have "case decodeNatsGovernancePayload fx_platform Inr (fx_payload ''issuer.status.changed'') of
      Inr e \<Rightarrow> ee_type (ne_envelope e) = ''issuer.status.changed'' | _ \<Rightarrow> False" by code_simp
  then have "ee_type (ne_envelope event) = ''issuer.status.changed''" by (simp add: e(1))
  moreover have "b = fx_revoked_authority" using e(2) by (auto simp: intact_def fx_store_def split: if_splits)
  ultimately show ?thesis using e(3) by (simp add: materialized_types_def)
qed

text \<open>
  A subscriber with a bound on its messages returns, against a server that stops to deliver
  (each pull uses up a delivery, and settling a message adds none): it reports an error of the
  client, or counts that add up: every message is consumed, rejected, malformed or failed, each
  consumed one is a sync run, at most the bound are consumed, and the last report is there exactly
  if one was.
\<close>

theorem bounded_subscriber_returns:
  assumes "finite_deliveries C left" and "gc_max_messages config = Some k"
  shows "\<exists>w' r. runNatsGovernanceSubscriber P parse number N C config aborted syncReference w = Some (w', r) \<and>
    (case r of Inl _ \<Rightarrow> True | Inr rep \<Rightarrow> governance_counts k rep)"
proof -
  obtain m s where w: "w = (m, s)" by fastforce
  obtain m1 e where ensure: "ensureDurableConsumer number C
      (case gc_stream_name config of None \<Rightarrow> ''QRTRUST_GOVERNANCE'' | Some n \<Rightarrow> n) (expectedConsumerConfig N config) m = (m1, e)"
    by fastforce
  obtain m2 o' where consumer: "nc_consumer C (case gc_stream_name config of None \<Rightarrow> ''QRTRUST_GOVERNANCE'' | Some n \<Rightarrow> n)
      (gc_durable_name config) m1 = (m2, o')" by fastforce
  obtain w3 r3 where loop: "governance_loop P parse C config aborted syncReference
      (case gc_stream_name config of None \<Rightarrow> ''QRTRUST_GOVERNANCE'' | Some n \<Rightarrow> n) (m2, s) = Some (w3, r3)"
    "case r3 of Inl _ \<Rightarrow> True | Inr rep \<Rightarrow> governance_counts k rep"
    using governance_loop_returns [OF assms] by blast
  show ?thesis
    using ensure consumer loop w
    by (cases e; cases o'; cases r3)
       (auto simp: runNatsGovernanceSubscriber_def run_subscriber_def Let_def split: prod.splits)
qed

definition fx_connection :: "(jsval, jsval list) nats_connection" where
  "fx_connection =
     \<lparr>nc_manager = (\<lambda>m. (m, Inr ())), nc_info = (\<lambda>_ _ m. (m, Inl (JStr ''404''))), nc_delete = (\<lambda>_ _ m. (m, Inr ())),
      nc_add = (\<lambda>_ _ m. (m, Inr ())), nc_consumer = (\<lambda>_ _ m. (m, Inr ())),
      nc_next = (\<lambda>_ _ m. case m of
         [] \<Rightarrow> (m, Inr None)
       | d # ds \<Rightarrow> (ds, Inr (Some \<lparr>nm_data = d, nm_ack = (\<lambda>m. (m, True)), nm_nak = (\<lambda>_ m. (m, True)),
                                nm_term = (\<lambda>_ m. (m, True))\<rparr>))),
      nc_missing = (\<lambda>cause. cause = JStr ''404'')\<rparr>"

definition fx_subscriber :: subscriber_config where
  "fx_subscriber = \<lparr>gc_stream_name = None, gc_durable_name = ''d'', gc_filter_subject = None, gc_filter_subjects = None,
     gc_deliver_policy = None, gc_max_messages = Some 5, gc_ack_wait_ms = None, gc_max_deliver = None,
     gc_delete_consumer_on_stop = True\<rparr>"

definition fx_run ::
  "((jsval list \<times> verifier_cache) \<times> (subscriber_error + governance_report)) option" where
  "fx_run = runNatsGovernanceSubscriber fx_platform Inr (\<lambda>_. NaN)
       \<lparr>np_ack_explicit = JStr ''explicit'', np_deliver_all = JStr ''all'', np_replay_instant = JStr ''instant''\<rparr>
       fx_connection fx_subscriber (\<lambda>_. False)
       (worker_sync_reference fx_platform (fx_store fx_revoked_authority)
          (verifyTrustArtifact fx_platform (memory_lookup demo_registry) inline_load))
       ([JStr ''x'', fx_payload ''issuer.status.changed''], makeDemoVerifierCache)"

theorem bounded_subscriber_returns_witness:
  "\<exists>w' r. fx_run = Some (w', r) \<and> (case r of Inl _ \<Rightarrow> True | Inr rep \<Rightarrow> governance_counts 5 rep)"
proof -
  have f: "finite_deliveries fx_connection length"
    by (auto simp: finite_deliveries_def fx_connection_def split: list.splits)
  have k: "gc_max_messages fx_subscriber = Some 5" by (simp add: fx_subscriber_def)
  show ?thesis unfolding fx_run_def by (rule bounded_subscriber_returns [OF f k])
qed

text \<open>
  What the gate on the report comes too late for: a policy body that the sync does not recognise is
  projected without a signature; the message is then terminated, as nothing was validated, but the
  policy is in the cache. And the revocation of a trust key is acknowledged although the worker has
  no registry that it could be applied to.
\<close>

lemma rejected_message_changes_the_cache:
  "(case fx_delivery
          (JObj [(''envelope'', envelope_json (ne_envelope (fx_event ''destination.policy.published'' (Some ''issuer:i''))))])
          fx_unsigned_policy of
      ((trace, c), Sync_rejected _ reason) \<Rightarrow>
        trace = [Term reason] \<and> reason = ''governance_event_not_signature_validated'' \<and>
        length (policiesByKey c) = length (policiesByKey makeDemoVerifierCache) + 1
    | _ \<Rightarrow> False)"
  by code_simp

lemma key_revocation_is_acknowledged_unapplied:
  "(case fx_delivery (fx_payload ''trust-key.status.changed'')
        (fx_revocation_body [(''target_type'', JStr ''trust_key''),
           (''key_id'', JStr (tk_key_id demoDelegatedAuthorityTrustKey))]) of
      ((trace, c), Synced rep) \<Rightarrow> trace = [Ack] \<and> vr_applied_key_status_events rep = 0
    | _ \<Rightarrow> False)"
  by code_simp

end
