(* ===== verification/SigningCustody.thy ===== *)
theory SigningCustody
  imports SignatureFacts Propagation
begin

text \<open>
  The custody of signing keys, \<^verbatim>\<open>network/src/services/signing-custody.ts\<close>: which private key may sign a
  request, the providers of its material, and the signer of trust artifacts. A payload is the
  canonical value whose JSON text is signed.
\<close>

subsection \<open>Requests and keys\<close>

datatype signing_source =
  Signing_fixture | Signing_environment | Signing_filesystem | Signing_managed | Signing_static

datatype signing_scope = Sign_root_program | Sign_delegated_authority | Sign_issuer

record signing_key_record =
  sk_key_id :: string
  sk_signer_id :: string
  sk_root_program_id :: string
  sk_algorithm_id :: string
  sk_scope :: signing_scope
  sk_status :: trust_key_status
  sk_private_key_material_ref :: string
  sk_delegated_authority_id :: "string option"

record custody_request =
  cr_payload :: jsval
  cr_signed_by :: string
  cr_root_program_id :: string
  cr_accepted_algorithm_ids :: "string list option"
  cr_delegated_authority_id :: "string option"
  cr_key_id :: "string option"

record custody_signature =
  cs_key_id :: string
  cs_signer_id :: string
  cs_algorithm_id :: string
  cs_signature :: string
  cs_private_key_material_ref :: string
  cs_source :: signing_source

type_synonym custody_provider = "custody_request \<Rightarrow> net_error + custody_signature option"

definition signingKeyMatchesScope :: "signing_key_record \<Rightarrow> custody_request \<Rightarrow> bool" where
  "signingKeyMatchesScope key request =
     (case sk_scope key of
        Sign_root_program \<Rightarrow>
          sk_signer_id key = cr_root_program_id request \<and> cr_signed_by request = cr_root_program_id request
      | Sign_delegated_authority \<Rightarrow>
          cr_delegated_authority_id request \<noteq> None \<and>
          sk_delegated_authority_id key = cr_delegated_authority_id request \<and>
          Some (sk_signer_id key) = cr_delegated_authority_id request \<and>
          Some (cr_signed_by request) = cr_delegated_authority_id request
      | Sign_issuer \<Rightarrow>
          cr_delegated_authority_id request \<noteq> None \<and>
          sk_delegated_authority_id key = cr_delegated_authority_id request \<and>
          sk_signer_id key = cr_signed_by request)"

definition accepted_signing_algorithms :: "custody_request \<Rightarrow> string list" where
  "accepted_signing_algorithms request =
     (case cr_accepted_algorithm_ids request of None \<Rightarrow> [''ed25519''] | Some ids \<Rightarrow> ids)"

fun key_status_string :: "trust_key_status \<Rightarrow> string" where
  "key_status_string Key_active = ''active''"
| "key_status_string Key_suspended = ''suspended''"
| "key_status_string Key_revoked = ''revoked''"
| "key_status_string Key_expired = ''expired''"

definition selectSigningKey ::
  "signing_key_record list \<Rightarrow> custody_request \<Rightarrow> net_error + signing_key_record option" where
  "selectSigningKey signingKeys request =
     (let candidates = filter (\<lambda>key. case keep_truthy (cr_key_id request) of
            Some keyId \<Rightarrow> sk_key_id key = keyId
          | None \<Rightarrow> sk_signer_id key = cr_signed_by request \<and>
                    sk_root_program_id key = cr_root_program_id request) signingKeys
      in if candidates = [] then Inr None
         else
           (let scoped = filter (\<lambda>key. signingKeyMatchesScope key request) candidates
            in if scoped = [] then
                 Inl (SigningCustodyError
                   (''Signing key exists but does not match requested signer scope for '' @ cr_signed_by request @ ''.'')
                   (OtherCause (JObj [(''signed_by'', JStr (cr_signed_by request))])))
               else
                 (let algorithmMatch = filter (\<lambda>key. sk_algorithm_id key \<in> set (accepted_signing_algorithms request)) scoped
                  in case algorithmMatch of
                       [] \<Rightarrow> Inl (SigningCustodyError
                         (''No accepted signing algorithm is available for '' @ cr_signed_by request @ ''.'')
                         (OtherCause (JObj [(''accepted_algorithm_ids'',
                            strings_json (accepted_signing_algorithms request))])))
                     | first # _ \<Rightarrow>
                         (case find (\<lambda>key. sk_status key = Key_active) algorithmMatch of
                            None \<Rightarrow> Inl (SigningCustodyError
                              (''Signing key is not active for '' @ cr_signed_by request @ ''.'')
                              (OtherCause (JObj [(''status'', JStr (key_status_string (sk_status first)))])))
                          | Some activeKey \<Rightarrow> Inr (Some activeKey)))))"


subsection \<open>Providers\<close>

text \<open>
  \<open>sign payload pem\<close> is \<^verbatim>\<open>crypto.sign\<close> with the private key of a PEM text, in base64url, or what it
  throws.
\<close>

type_synonym ed25519_sign = "jsval \<Rightarrow> string \<Rightarrow> jsval + string"

definition custody_signature_of :: "signing_key_record \<Rightarrow> string \<Rightarrow> signing_source \<Rightarrow> custody_signature" where
  "custody_signature_of key signature source =
     \<lparr>cs_key_id = sk_key_id key, cs_signer_id = sk_signer_id key, cs_algorithm_id = sk_algorithm_id key,
      cs_signature = signature, cs_private_key_material_ref = sk_private_key_material_ref key, cs_source = source\<rparr>"

definition signEd25519Payload ::
  "ed25519_sign \<Rightarrow> jsval \<Rightarrow> string \<Rightarrow> signing_key_record \<Rightarrow> signing_source \<Rightarrow> net_error + custody_signature" where
  "signEd25519Payload sign payload privateKeyPem key source =
     (if sk_algorithm_id key \<noteq> ''ed25519'' then
        Inl (SigningCustodyError
          (''Unsupported signing algorithm for '' @ sk_key_id key @ '': '' @ sk_algorithm_id key @ ''.'')
          (OtherCause (JObj [(''algorithm_id'', JStr (sk_algorithm_id key))])))
      else case sign payload privateKeyPem of
             Inl cause \<Rightarrow> Inl (SigningCustodyError
               (''Unable to sign canonical trust artifact payload for '' @ sk_key_id key @ ''.'') (OtherCause cause))
           | Inr signature \<Rightarrow> Inr (custody_signature_of key signature source))"

text \<open>\<^verbatim>\<open>yield* selectSigningKey(...)\<close> and \<^verbatim>\<open>if (!key) return undefined\<close>.\<close>

definition with_signing_key ::
  "signing_key_record list \<Rightarrow> custody_request \<Rightarrow> (signing_key_record \<Rightarrow> net_error + custody_signature option) \<Rightarrow>
     net_error + custody_signature option" where
  "with_signing_key signingKeys request body =
     and_then (selectSigningKey signingKeys request) (\<lambda>key.
       case key of None \<Rightarrow> Inr None | Some key \<Rightarrow> body key)"

definition some_signature :: "net_error + custody_signature \<Rightarrow> net_error + custody_signature option" where
  "some_signature r = and_then r (\<lambda>signature. Inr (Some signature))"

definition static_sign ::
  "ed25519_sign \<Rightarrow> signing_key_record list \<Rightarrow> (string \<times> string) list \<Rightarrow> signing_source \<Rightarrow> custody_provider" where
  "static_sign sign signingKeys materialByRef source request =
     with_signing_key signingKeys request (\<lambda>key.
       case keep_truthy (map_of materialByRef (sk_private_key_material_ref key)) of
         None \<Rightarrow> Inl (SigningCustodyError
           (''Private signing material is unavailable for '' @ sk_key_id key @ ''.'')
           (OtherCause (JObj [(''private_key_material_ref'', JStr (sk_private_key_material_ref key))])))
       | Some pem \<Rightarrow> some_signature (signEd25519Payload sign (cr_payload request) pem key source))"

definition environment_sign ::
  "ed25519_sign \<Rightarrow> signing_key_record list \<Rightarrow> (string \<Rightarrow> string option) \<Rightarrow> custody_provider" where
  "environment_sign sign signingKeys env request =
     with_signing_key signingKeys request (\<lambda>key.
       if \<not> prefix ''env://'' (sk_private_key_material_ref key) then Inr None
       else
         (let envName = drop (length ''env://'') (sk_private_key_material_ref key)
          in case keep_truthy (env envName) of
               None \<Rightarrow> Inl (SigningCustodyError
                 (''Environment signing material '' @ envName @ '' is unavailable for '' @ sk_key_id key @ ''.'')
                 (OtherCause (JObj [(''envName'', JStr envName)])))
             | Some pem \<Rightarrow> some_signature (signEd25519Payload sign (cr_payload request) pem key Signing_environment)))"

definition signingFilePathFromMaterialRef ::
  "file_host \<Rightarrow> file_options \<Rightarrow> string \<Rightarrow> net_error + string option" where
  "signingFilePathFromMaterialRef H options materialRef =
     (if \<not> prefix ''file://'' materialRef then Inr None
      else case fileURLToPath H materialRef of
             None \<Rightarrow> Inl (SigningCustodyError
               (''Invalid private signing-material reference: '' @ materialRef @ ''.'') (OtherCause (JStr materialRef)))
           | Some filePath \<Rightarrow>
               if isAbsolute H filePath then
                 Inr (if fo_allowAbsolutePaths options = Some False then None else Some filePath)
               else Inr (Some (resolve_path H
                      (case fo_baseDirectory options of None \<Rightarrow> cwd H | Some d \<Rightarrow> d) filePath)))"

definition file_sign ::
  "ed25519_sign \<Rightarrow> file_host \<Rightarrow> signing_key_record list \<Rightarrow> file_options \<Rightarrow> custody_provider" where
  "file_sign sign H signingKeys options request =
     with_signing_key signingKeys request (\<lambda>key.
       and_then (signingFilePathFromMaterialRef H options (sk_private_key_material_ref key)) (\<lambda>filePath.
         case keep_truthy filePath of
           None \<Rightarrow> Inr None
         | Some path \<Rightarrow>
             (case readFile H path of
                Inl cause \<Rightarrow> Inl (SigningCustodyError
                  (''Unable to load private signing material for '' @ sk_key_id key @ '' from '' @
                   sk_private_key_material_ref key @ ''.'') (OtherCause cause))
              | Inr pem \<Rightarrow> some_signature (signEd25519Payload sign (cr_payload request) pem key Signing_filesystem))))"

definition managed_sign ::
  "(jsval \<Rightarrow> signing_key_record \<Rightarrow> string \<Rightarrow> net_error + string) \<Rightarrow> signing_key_record list \<Rightarrow>
     string list option \<Rightarrow> custody_provider" where
  "managed_sign client signingKeys accepted request =
     with_signing_key signingKeys request (\<lambda>key.
       if \<not> managedMaterialRefIsAccepted (sk_private_key_material_ref key) accepted then Inr None
       else and_then (client (cr_payload request) key (sk_private_key_material_ref key)) (\<lambda>signature.
              if signature = [] then
                Inl (SigningCustodyError
                  (''Managed signing custody provider returned an empty signature for '' @ sk_key_id key @ ''.'')
                  (OtherCause (JObj [(''private_key_material_ref'', JStr (sk_private_key_material_ref key))])))
              else Inr (Some (custody_signature_of key signature Signing_managed))))"

fun composite_sign :: "custody_provider list \<Rightarrow> custody_provider" where
  "composite_sign [] request = Inr None"
| "composite_sign (provider # providers) request =
     and_then (provider request) (\<lambda>signature.
       case signature of Some s \<Rightarrow> Inr (Some s) | None \<Rightarrow> composite_sign providers request)"

text \<open>The demo keys; the PEM texts of the fixture are arguments.\<close>

definition demoRootSigningKey :: signing_key_record where
  "demoRootSigningKey =
     \<lparr>sk_key_id = tk_key_id demoRootTrustKey, sk_signer_id = tk_signer_id demoRootTrustKey,
      sk_root_program_id = tk_root_program_id demoRootTrustKey, sk_algorithm_id = tk_algorithm_id demoRootTrustKey,
      sk_scope = Sign_root_program, sk_status = tk_status demoRootTrustKey,
      sk_private_key_material_ref = ''pem://fixture/private/root/qrtrust-demo-2026'',
      sk_delegated_authority_id = None\<rparr>"

definition demoDelegatedAuthoritySigningKey :: signing_key_record where
  "demoDelegatedAuthoritySigningKey =
     (let key = demoDelegatedAuthorityTrustKey in
      \<lparr>sk_key_id = tk_key_id key, sk_signer_id = tk_signer_id key, sk_root_program_id = tk_root_program_id key,
       sk_algorithm_id = tk_algorithm_id key, sk_scope = Sign_delegated_authority, sk_status = tk_status key,
       sk_private_key_material_ref = ''pem://fixture/private/authority/qrtrust-demo-merchant-web'',
       sk_delegated_authority_id = Some (case tk_delegated_authority_id key of
          None \<Rightarrow> ns_delegated_authority_id demoNamespace | Some a \<Rightarrow> a)\<rparr>)"

definition demoReplacementDelegatedAuthoritySigningKey :: signing_key_record where
  "demoReplacementDelegatedAuthoritySigningKey =
     demoDelegatedAuthoritySigningKey
       \<lparr>sk_key_id := tk_key_id demoReplacementDelegatedAuthorityTrustKey,
        sk_private_key_material_ref := ''pem://fixture/private/authority/qrtrust-demo-merchant-web-v2''\<rparr>"

definition demoUnauthorizedIssuerSigningKey :: signing_key_record where
  "demoUnauthorizedIssuerSigningKey =
     \<lparr>sk_key_id = ''key:issuer:acme-demo:ed25519:fixture'', sk_signer_id = ns_issuer_id demoNamespace,
      sk_root_program_id = ns_root_program_id demoNamespace, sk_algorithm_id = ''ed25519'', sk_scope = Sign_issuer,
      sk_status = Key_active,
      sk_private_key_material_ref = ''pem://fixture/private/authority/qrtrust-demo-merchant-web'',
      sk_delegated_authority_id = Some (ns_delegated_authority_id demoNamespace)\<rparr>"

definition demo_signing_keys :: "signing_key_record list" where
  "demo_signing_keys = [demoRootSigningKey, demoDelegatedAuthoritySigningKey,
     demoReplacementDelegatedAuthoritySigningKey, demoUnauthorizedIssuerSigningKey]"

definition fixturePrivateKeyMaterialByRef :: "string \<Rightarrow> string \<Rightarrow> (string \<times> string) list" where
  "fixturePrivateKeyMaterialByRef rootPem authorityPem =
     [(sk_private_key_material_ref demoRootSigningKey, rootPem),
      (sk_private_key_material_ref demoDelegatedAuthoritySigningKey, authorityPem),
      (sk_private_key_material_ref demoReplacementDelegatedAuthoritySigningKey, authorityPem)]"

definition fixture_sign :: "ed25519_sign \<Rightarrow> string \<Rightarrow> string \<Rightarrow> custody_provider" where
  "fixture_sign sign rootPem authorityPem =
     static_sign sign demo_signing_keys (fixturePrivateKeyMaterialByRef rootPem authorityPem) Signing_fixture"

definition default_sign ::
  "ed25519_sign \<Rightarrow> file_host \<Rightarrow> (string \<Rightarrow> string option) \<Rightarrow> string \<Rightarrow> string \<Rightarrow> custody_provider" where
  "default_sign sign H env rootPem authorityPem =
     composite_sign [environment_sign sign [] env,
       file_sign sign H [] \<lparr>fo_baseDirectory = None, fo_allowAbsolutePaths = None\<rparr>,
       fixture_sign sign rootPem authorityPem]"


subsection \<open>The signer of trust artifacts\<close>

record signing_input =
  gi_body :: jsval
  gi_signed_by :: string
  gi_root_program_id :: string
  gi_accepted_algorithm_ids :: "string list option"
  gi_delegated_authority_id :: "string option"
  gi_key_id :: "string option"

record signing_result =
  gs_body :: jsval
  gs_signer_id :: string
  gs_key_id :: string
  gs_algorithm_id :: string
  gs_private_key_material_ref :: string
  gs_source :: signing_source

text \<open>\<^verbatim>\<open>{ ...v }\<close>: the properties of an object, the indexed elements of an array or a string, else none.\<close>

definition spread :: "jsval \<Rightarrow> (string \<times> jsval) list" where
  "spread v =
     (case v of
        JObj kvs \<Rightarrow> kvs
      | JArr xs \<Rightarrow> zip (map nat_string [0..<length xs]) xs
      | JStr s \<Rightarrow> zip (map nat_string [0..<length s]) (map (\<lambda>c. JStr [c]) s)
      | _ \<Rightarrow> [])"

text \<open>\<^verbatim>\<open>{ ...kvs, k: v, ... }\<close>.\<close>

definition set_props :: "(string \<times> jsval) list \<Rightarrow> (string \<times> jsval) list \<Rightarrow> (string \<times> jsval) list" where
  "set_props updates kvs = fold (\<lambda>(k, v). js_map_set k v) updates kvs"

definition normalizeSigningBody :: "signing_input \<Rightarrow> (string \<times> jsval) list" where
  "normalizeSigningBody input =
     set_props
       ([(''root_program_id'', JStr (gi_root_program_id input)), (''signed_by'', JStr (gi_signed_by input))]
        @ opt_prop ''delegated_authority_id'' JStr (keep_truthy (gi_delegated_authority_id input)))
       (spread (gi_body input))"

definition trustSignatureStatus :: string where
  "trustSignatureStatus = ''ed25519-signed''"

definition custody_request_of :: "platform \<Rightarrow> signing_input \<Rightarrow> custody_request" where
  "custody_request_of P input =
     \<lparr>cr_payload = trustSignaturePayload P (JObj (normalizeSigningBody input)), cr_signed_by = gi_signed_by input,
      cr_root_program_id = gi_root_program_id input,
      cr_accepted_algorithm_ids = Some (case gi_accepted_algorithm_ids input of None \<Rightarrow> [''ed25519''] | Some ids \<Rightarrow> ids),
      cr_delegated_authority_id = keep_truthy (gi_delegated_authority_id input),
      cr_key_id = keep_truthy (gi_key_id input)\<rparr>"

definition signTrustArtifact :: "platform \<Rightarrow> custody_provider \<Rightarrow> signing_input \<Rightarrow> net_error + signing_result" where
  "signTrustArtifact P custody input =
     and_then (custody (custody_request_of P input)) (\<lambda>signature.
       case signature of
         None \<Rightarrow> Inl (SigningCustodyError
           (''No signing custody provider could sign as '' @ gi_signed_by input @ ''.'')
           (OtherCause (JObj [(''signed_by'', JStr (gi_signed_by input)),
              (''root_program_id'', JStr (gi_root_program_id input)),
              (''delegated_authority_id'', opt_str (gi_delegated_authority_id input)),
              (''key_id'', opt_str (gi_key_id input))])))
       | Some s \<Rightarrow> Inr
           \<lparr>gs_body = JObj (set_props
               [(''signature_algorithm_id'', JStr (cs_algorithm_id s)), (''signature_input'', JStr trustSignatureInput),
                (''signature'', JStr (cs_signature s)), (''signature_status'', JStr trustSignatureStatus)]
               (normalizeSigningBody input)),
            gs_signer_id = cs_signer_id s, gs_key_id = cs_key_id s, gs_algorithm_id = cs_algorithm_id s,
            gs_private_key_material_ref = cs_private_key_material_ref s, gs_source = cs_source s\<rparr>)"

end
