(* ===== verification/GovernancePublication.thy ===== *)
theory GovernancePublication
  imports SigningCustody Materialization
begin

text \<open>
  The publication of a governance bundle, \<^verbatim>\<open>network/src/services/governance-publication.ts\<close> and
  \<^verbatim>\<open>authority-publication.ts\<close>: a plan of four artifacts (root manifest, authority manifest, issuer
  record, destination policy) is signed as a whole and then published one after the other.
\<close>

subsection \<open>Plans\<close>

type_synonym governance_plan =
  "artifact_publication_input \<times> artifact_publication_input \<times> artifact_publication_input \<times>
     artifact_publication_input"

definition referenceRootManifestBody :: jsval where
  "referenceRootManifestBody = JObj
     [(''artifact_type'', JStr ''root_manifest''),
      (''schema_version'', JStr ''0.1.0''),
      (''root_program_id'', JStr (ns_root_program_id demoNamespace)),
      (''name'', JStr ''QR Trust Demo Root''),
      (''program_scope'', JStr (''Reference implementation for managed issuer verification, destination binding, ''
         @ ''and scanner-visible decisions.'')),
      (''accepted_algorithm_ids'', strings_json [''ed25519'']),
      (''trust_keys'', JArr [JObj
         [(''key_id'', JStr (tk_key_id demoRootTrustKey)),
          (''signer_id'', JStr (tk_signer_id demoRootTrustKey)),
          (''algorithm_id'', JStr (tk_algorithm_id demoRootTrustKey)),
          (''public_key_material_ref'', JStr (tk_public_key_material_ref demoRootTrustKey)),
          (''status'', JStr (key_status_string (tk_status demoRootTrustKey)))]]),
      (''policy_constraints'', JObj
         [(''allows_unenrolled_qr_as_unverified'', JBool True),
          (''requires_root_scoped_issuer_namespace'', JBool True),
          (''requires_destination_policy'', JBool True),
          (''requires_cache_freshness_metadata'', JBool True),
          (''requires_scanner_visible_decision_state'', JBool True)]),
      (''delegated_authorities'', JArr [JObj
         [(''delegated_authority_id'', JStr (ns_delegated_authority_id demoNamespace)),
          (''name'', JStr ''QR Trust Demo Merchant Web Authority''),
          (''manifest_ref'', JStr ''art_authority_qrtrust_demo_merchant_web_v1''),
          (''status'', JStr ''active'')]]),
      (''publication'', JObj
         [(''published_at'', JStr (ip_cache_generated_at demoIssuerProjection)),
          (''valid_until'', JStr (ip_cache_expires_at demoIssuerProjection)),
          (''signed_by'', JStr (ns_root_program_id demoNamespace)),
          (''signature_status'', JStr ''ed25519-signed'')])]"

definition referenceDelegatedAuthorityBody :: jsval where
  "referenceDelegatedAuthorityBody = JObj
     [(''artifact_type'', JStr ''delegated_authority_manifest''),
      (''schema_version'', JStr ''0.1.0''),
      (''root_program_id'', JStr (ns_root_program_id demoNamespace)),
      (''delegated_authority_id'', JStr (ns_delegated_authority_id demoNamespace)),
      (''operator_name'', JStr ''QR Trust Demo Merchant Web Authority''),
      (''operator_class'', JStr ''merchant_operator''),
      (''scope'', strings_json [''merchant-web'']),
      (''trust_keys'', JArr [JObj
         [(''key_id'', JStr (tk_key_id demoDelegatedAuthorityTrustKey)),
          (''signer_id'', JStr (tk_signer_id demoDelegatedAuthorityTrustKey)),
          (''algorithm_id'', JStr (tk_algorithm_id demoDelegatedAuthorityTrustKey)),
          (''public_key_material_ref'', JStr (tk_public_key_material_ref demoDelegatedAuthorityTrustKey)),
          (''status'', JStr (key_status_string (tk_status demoDelegatedAuthorityTrustKey)))]]),
      (''assurance_requirements'', JObj
         [(''domain_control_required'', JBool True),
          (''business_identity_proofing'', JStr ''fixture-verified-business''),
          (''destination_policy_required'', JBool True),
          (''runtime_safety_policy_required'', JBool True)]),
      (''enrolled_issuers'', JArr [JObj
         [(''issuer_id'', JStr (ns_issuer_id demoNamespace)),
          (''issuer_record_ref'', JStr ''art_issuer_acme_demo_v1''),
          (''assurance_tier'', JStr (ip_assurance_tier demoIssuerProjection)),
          (''status'', JStr ''active'')]]),
      (''publication'', JObj
         [(''published_at'', JStr (ip_cache_generated_at demoIssuerProjection)),
          (''valid_until'', JStr (ip_cache_expires_at demoIssuerProjection)),
          (''signed_by'', JStr (ns_root_program_id demoNamespace)),
          (''signature_status'', JStr ''ed25519-signed'')])]"

definition referenceIssuerRecordBody :: jsval where
  "referenceIssuerRecordBody = JObj
     [(''artifact_type'', JStr ''issuer_record''),
      (''schema_version'', JStr ''0.1.0''),
      (''issuer_namespace'', namespace_json demoNamespace),
      (''issuer_display_name'', JStr (ip_issuer_display_name demoIssuerProjection)),
      (''issuer_class'', JStr ''business''),
      (''assurance_tier'', JStr (ip_assurance_tier demoIssuerProjection)),
      (''certificate_refs'', strings_json [''cert:acme-demo:web-signing:v1'']),
      (''destination_policies'', JArr [JObj
         [(''destination_policy_id'', JStr (ip_destination_policy_id demoIssuerProjection)),
          (''policy_ref'', JStr ''art_policy_acme_demo_v1''),
          (''status'', JStr ''active'')]]),
      (''inspection_scope'', JObj
         [(''passive_public_checks'', JBool True),
          (''runtime_reputation_checks'', JStr ''fixture-only''),
          (''authenticated_or_invasive_testing'', JBool False)]),
      (''status'', JObj
         [(''issuer_status'', JStr ''active''),
          (''certificate_status'', JStr ''active''),
          (''status_event_ref'', JStr ''status:acme-demo:active:v1'')]),
      (''publication'', JObj
         [(''published_at'', JStr (ip_cache_generated_at demoIssuerProjection)),
          (''valid_until'', JStr (ip_cache_expires_at demoIssuerProjection)),
          (''signed_by'', JStr (ns_delegated_authority_id demoNamespace)),
          (''signature_status'', JStr ''ed25519-signed'')])]"

definition referenceDestinationPolicyBody :: jsval where
  "referenceDestinationPolicyBody = destinationPolicyArtifactBody demoDestinationPolicyProjection"

definition rootManifestPublicationInput :: "int \<Rightarrow> artifact_publication_input" where
  "rootManifestPublicationInput occurredAt =
     \<lparr>ap_artifact_type = ''root_manifest'', ap_artifact_id = ''art_root_qrtrust_demo_2026_v1'', ap_version = 1,
      ap_root_program_id = ns_root_program_id demoNamespace, ap_body = referenceRootManifestBody,
      ap_occurredAt = occurredAt, ap_eventType = ''root.manifest.published'',
      ap_delegated_authority_id = None, ap_issuer_id = None, ap_destination_policy_id = None,
      ap_artifact_ref = None, ap_previous_version = None,
      ap_reason = Some ''fixture root manifest publication''\<rparr>"

definition delegatedAuthorityPublicationInput :: "int \<Rightarrow> artifact_publication_input" where
  "delegatedAuthorityPublicationInput occurredAt =
     \<lparr>ap_artifact_type = ''delegated_authority_manifest'',
      ap_artifact_id = ''art_authority_qrtrust_demo_merchant_web_v1'', ap_version = 1,
      ap_root_program_id = ns_root_program_id demoNamespace, ap_body = referenceDelegatedAuthorityBody,
      ap_occurredAt = occurredAt, ap_eventType = ''delegated_authority.manifest.published'',
      ap_delegated_authority_id = Some (ns_delegated_authority_id demoNamespace), ap_issuer_id = None,
      ap_destination_policy_id = None, ap_artifact_ref = None, ap_previous_version = None,
      ap_reason = Some ''fixture delegated authority publication''\<rparr>"

definition issuerRecordPublicationInput :: "int \<Rightarrow> artifact_publication_input" where
  "issuerRecordPublicationInput occurredAt =
     \<lparr>ap_artifact_type = ''issuer_record'', ap_artifact_id = ''art_issuer_acme_demo_v1'', ap_version = 1,
      ap_root_program_id = ns_root_program_id demoNamespace, ap_body = referenceIssuerRecordBody,
      ap_occurredAt = occurredAt, ap_eventType = ''issuer.record.published'',
      ap_delegated_authority_id = Some (ns_delegated_authority_id demoNamespace),
      ap_issuer_id = Some (ns_issuer_id demoNamespace),
      ap_destination_policy_id = Some (ip_destination_policy_id demoIssuerProjection),
      ap_artifact_ref = None, ap_previous_version = None, ap_reason = Some ''fixture issuer publication''\<rparr>"

definition destinationPolicyPublicationInput :: "int \<Rightarrow> artifact_publication_input" where
  "destinationPolicyPublicationInput occurredAt =
     \<lparr>ap_artifact_type = ''destination_policy'', ap_artifact_id = ''art_policy_acme_demo_v1'', ap_version = 1,
      ap_root_program_id = ns_root_program_id demoNamespace, ap_body = referenceDestinationPolicyBody,
      ap_occurredAt = occurredAt, ap_eventType = ''destination.policy.published'',
      ap_delegated_authority_id = Some (ns_delegated_authority_id demoNamespace),
      ap_issuer_id = Some (ns_issuer_id demoNamespace),
      ap_destination_policy_id = Some (ip_destination_policy_id demoIssuerProjection),
      ap_artifact_ref = None, ap_previous_version = None,
      ap_reason = Some ''fixture destination policy publication''\<rparr>"

definition planReferenceGovernancePublication :: "int \<Rightarrow> governance_plan" where
  "planReferenceGovernancePublication occurredAt =
     (rootManifestPublicationInput occurredAt, delegatedAuthorityPublicationInput occurredAt,
      issuerRecordPublicationInput occurredAt, destinationPolicyPublicationInput occurredAt)"


subsection \<open>Signing a plan\<close>

definition signatureAlignedPublicationBody :: "jsval \<Rightarrow> jsval" where
  "signatureAlignedPublicationBody body =
     (case get_prop body ''publication'' of
        JObj publication \<Rightarrow>
          JObj (js_map_set ''publication''
            (JObj (set_props [(''signed_by'', get_prop body ''signed_by''),
                              (''signature_status'', get_prop body ''signature_status'')] publication))
            (spread body))
      | _ \<Rightarrow> body)"

type_synonym artifact_signer = "signing_input \<Rightarrow> net_error + signing_result"

definition signPublicationInput ::
  "artifact_signer \<Rightarrow> string \<Rightarrow> string \<Rightarrow> string option \<Rightarrow> artifact_publication_input \<Rightarrow>
     net_error + artifact_publication_input" where
  "signPublicationInput signer signedBy rootProgramId delegatedAuthorityId input =
     and_then (signer
       \<lparr>gi_body = ap_body input, gi_signed_by = signedBy, gi_root_program_id = rootProgramId,
        gi_accepted_algorithm_ids = None, gi_delegated_authority_id = keep_truthy delegatedAuthorityId,
        gi_key_id = None\<rparr>) (\<lambda>signed.
       Inr (input\<lparr>ap_body := signatureAlignedPublicationBody (gs_body signed)\<rparr>))"

text \<open>Manifests are signed by the root, records and policies by the authority of the artifact.\<close>

definition sign_as_root :: "artifact_signer \<Rightarrow> artifact_publication_input \<Rightarrow> net_error + artifact_publication_input" where
  "sign_as_root signer input =
     signPublicationInput signer (ap_root_program_id input) (ap_root_program_id input) None input"

definition sign_as_authority ::
  "artifact_signer \<Rightarrow> artifact_publication_input \<Rightarrow> net_error + artifact_publication_input" where
  "sign_as_authority signer input =
     signPublicationInput signer
       (case ap_delegated_authority_id input of Some a \<Rightarrow> a | None \<Rightarrow> ap_root_program_id input)
       (ap_root_program_id input) (keep_truthy (ap_delegated_authority_id input)) input"

definition signGovernancePublicationPlan :: "governance_plan \<Rightarrow> artifact_signer \<Rightarrow> net_error + governance_plan" where
  "signGovernancePublicationPlan plan signer =
     (let (root_input, authority_input, issuer_input, policy_input) = plan in
      and_then (sign_as_root signer root_input) (\<lambda>rootManifest.
      and_then (sign_as_root signer authority_input) (\<lambda>delegatedAuthority.
      and_then (sign_as_authority signer issuer_input) (\<lambda>issuerRecord.
      and_then (sign_as_authority signer policy_input) (\<lambda>destinationPolicy.
        Inr (rootManifest, delegatedAuthority, issuerRecord, destinationPolicy))))))"


subsection \<open>Publication services\<close>

record publication_report =
  pb_root_manifest_artifact_id :: string
  pb_delegated_authority_artifact_id :: string
  pb_issuer_record_artifact_id :: string
  pb_destination_policy_artifact_id :: string
  pb_published_artifacts :: int

text \<open>\<^verbatim>\<open>yield*\<close> of a call of the publisher: its state is kept also when it fails.\<close>

definition then_publish ::
  "('p, 'a) call \<Rightarrow> ('a \<Rightarrow> ('p, 'b) call) \<Rightarrow> ('p, 'b) call" where
  "then_publish m f p = (case m p of (p', Inl e) \<Rightarrow> (p', Inl e) | (p', Inr x) \<Rightarrow> f x p')"

type_synonym 'p artifact_publisher = "artifact_publication_input \<Rightarrow> ('p, artifact_publication_result) call"

definition publish_signed_artifacts :: "'p artifact_publisher \<Rightarrow> governance_plan \<Rightarrow> ('p, publication_report) call" where
  "publish_signed_artifacts publisher signedArtifacts =
     (let (root_input, authority_input, issuer_input, policy_input) = signedArtifacts;
          artifact_id = (\<lambda>result. sa_artifact_id (pr_artifact result)) in
      then_publish (publisher root_input) (\<lambda>rootManifest.
      then_publish (publisher authority_input) (\<lambda>delegatedAuthority.
      then_publish (publisher issuer_input) (\<lambda>issuerRecord.
      then_publish (publisher policy_input) (\<lambda>destinationPolicy.
        (\<lambda>p. (p, Inr
          \<lparr>pb_root_manifest_artifact_id = artifact_id rootManifest,
           pb_delegated_authority_artifact_id = artifact_id delegatedAuthority,
           pb_issuer_record_artifact_id = artifact_id issuerRecord,
           pb_destination_policy_artifact_id = artifact_id destinationPolicy,
           pb_published_artifacts = 4\<rparr>)))))))"

definition publishReferenceBundle ::
  "'p artifact_publisher \<Rightarrow> artifact_signer \<Rightarrow> int \<Rightarrow> ('p, publication_report) call" where
  "publishReferenceBundle publisher signer observedAt p =
     (case signGovernancePublicationPlan (planReferenceGovernancePublication observedAt) signer of
        Inl e \<Rightarrow> (p, Inl e)
      | Inr signedArtifacts \<Rightarrow> publish_signed_artifacts publisher signedArtifacts p)"

definition authorityPublicationEventTypes :: "string list" where
  "authorityPublicationEventTypes =
     [''root.manifest.published'', ''delegated_authority.manifest.published'', ''issuer.record.published'',
      ''destination.policy.published'']"

record authority_publication_report = publication_report +
  pb_source :: string
  pb_published_event_types :: "string list"

definition publishGovernanceBundle ::
  "('i \<Rightarrow> ('s, governance_plan) call) \<Rightarrow> 'p artifact_publisher \<Rightarrow> artifact_signer \<Rightarrow> 'i \<Rightarrow>
     ('s \<times> 'p, authority_publication_report) call" where
  "publishGovernanceBundle planGovernancePublication publisher signer input st =
     (let (s, p) = st in
      case planGovernancePublication input s of
        (s', Inl e) \<Rightarrow> ((s', p), Inl e)
      | (s', Inr plan) \<Rightarrow>
          (case signGovernancePublicationPlan plan signer of
             Inl e \<Rightarrow> ((s', p), Inl e)
           | Inr signedArtifacts \<Rightarrow>
               (case publish_signed_artifacts publisher signedArtifacts p of
                  (p', Inl e) \<Rightarrow> ((s', p'), Inl e)
                | (p', Inr report) \<Rightarrow> ((s', p'), Inr (publication_report.extend report
                    (authority_publication_report.fields ''postgres_governance_publication_source''
                       authorityPublicationEventTypes))))))"

end
