(* ===== verification/GovernanceSource.thy ===== *)
theory GovernanceSource
  imports GovernancePublication Persistence
begin

text \<open>
  The source of governance bundles, \<^verbatim>\<open>network/src/services/postgres-governance-publication-source.ts\<close>:
  the statement that selects a bundle, read as a function on the tables, the decoding of its row, and
  the plan of the four artifacts that is made of it. What the code throws is the text of its message.
\<close>

subsection \<open>Rows\<close>

record governance_row =
  gr_root_program_id :: string
  gr_root_name :: string
  gr_root_program_scope :: string
  gr_root_accepted_algorithm_ids :: "string list"
  gr_root_trust_keys :: "trust_key_record list"
  gr_root_policy_constraints :: jsval
  gr_root_status :: string
  gr_delegated_authority_id :: string
  gr_delegated_authority_name :: string
  gr_delegated_authority_type :: string
  gr_delegated_authority_scope :: jsval
  gr_delegated_authority_assurance_requirements :: jsval
  gr_delegated_authority_trust_keys :: "trust_key_record list"
  gr_delegated_authority_status :: string
  gr_issuer_id :: string
  gr_issuer_display_name :: string
  gr_issuer_class :: string
  gr_issuer_assurance_tier :: string
  gr_issuer_assurance_evidence :: jsval
  gr_issuer_enrollment_status :: string
  gr_issuer_certificate_refs :: "string list"
  gr_issuer_certificate_status :: string
  gr_issuer_status_event_ref :: string
  gr_issuer_status_event_status :: string
  gr_issuer_status_event_published_at :: string
  gr_destination_policy_id :: string
  gr_destination_policy_usage_policy :: string
  gr_destination_policy_approved_destinations :: "jsval list"
  gr_destination_policy_redirect_policy :: jsval
  gr_destination_policy_runtime_safety_policy :: jsval
  gr_destination_policy_version :: int
  gr_destination_policy_status :: string

text \<open>A column of a driver row: a value, or the \<^verbatim>\<open>Date\<close> of a timestamp, an object without properties.\<close>

datatype column = Column jsval | Timestamp int

fun column_value :: "column \<Rightarrow> jsval" where
  "column_value (Column v) = v"
| "column_value (Timestamp _) = JObj []"

type_synonym driver_row = "(string \<times> column) list"

definition field_value :: "driver_row \<Rightarrow> string \<Rightarrow> jsval" where
  "field_value row field = (case map_of row field of None \<Rightarrow> JUndefined | Some c \<Rightarrow> column_value c)"


subsection \<open>Checks of a row\<close>

definition missing_field :: "string \<Rightarrow> string" where
  "missing_field field = ''Postgres governance publication row is missing '' @ field @ ''.''"

definition requireStringValue :: "jsval \<Rightarrow> string \<Rightarrow> string + string" where
  "requireStringValue value field =
     (case value of
        JStr s \<Rightarrow> if length s > 0 then Inr s else Inl (missing_field field)
      | _ \<Rightarrow> Inl (missing_field field))"

definition requireLiteralValue :: "jsval \<Rightarrow> string \<Rightarrow> string list \<Rightarrow> string + string" where
  "requireLiteralValue value field allowed =
     (if value \<in> set (map JStr allowed) then Inr (str_of value)
      else Inl (''Postgres governance publication row has invalid '' @ field @ ''.''))"

definition object_value :: "jsval \<Rightarrow> string \<Rightarrow> string + jsval" where
  "object_value value field = (if is_record value then Inr value else Inl (field @ '' must be an object.''))"

definition array_value :: "jsval \<Rightarrow> string \<Rightarrow> string + jsval list" where
  "array_value value field = (case value of JArr xs \<Rightarrow> Inr xs | _ \<Rightarrow> Inl (field @ '' must be an array.''))"

definition boolean_value :: "jsval \<Rightarrow> string \<Rightarrow> string + bool" where
  "boolean_value value field = (case value of JBool b \<Rightarrow> Inr b | _ \<Rightarrow> Inl (field @ '' must be a boolean.''))"

text \<open>\<open>parse\<close> is \<^verbatim>\<open>JSON.parse\<close>, \<open>None\<close> where it throws.\<close>

definition parseJson :: "(string \<Rightarrow> jsval option) \<Rightarrow> jsval \<Rightarrow> string + jsval" where
  "parseJson parse value =
     (case value of
        JStr s \<Rightarrow> (case parse s of None \<Rightarrow> Inl ''SyntaxError'' | Some v \<Rightarrow> Inr v)
      | _ \<Rightarrow> Inr value)"

definition all_digits :: "string \<Rightarrow> bool" where
  "all_digits s = (s \<noteq> [] \<and> list_all is_digit s)"

definition positiveIntegerOrDefault :: "jsval \<Rightarrow> int \<Rightarrow> string \<Rightarrow> string + int" where
  "positiveIntegerOrDefault value fallback field =
     (case value of
        JUndefined \<Rightarrow> Inr fallback
      | JNull \<Rightarrow> Inr fallback
      | JNum (Fin q) \<Rightarrow>
          if snd (quotient_of q) = 1 \<and> q > 0 then Inr (fst (quotient_of q))
          else Inl (field @ '' must be a positive integer.'')
      | JStr s \<Rightarrow>
          if all_digits s \<and> decimal_value s > 0 then Inr (int (decimal_value s))
          else Inl (field @ '' must be a positive integer.'')
      | _ \<Rightarrow> Inl (field @ '' must be a positive integer.''))"

definition requireNonNegativeIntegerValue :: "jsval \<Rightarrow> string \<Rightarrow> string + int" where
  "requireNonNegativeIntegerValue value field =
     (case value of
        JNum (Fin q) \<Rightarrow>
          if snd (quotient_of q) = 1 \<and> q \<ge> 0 then Inr (fst (quotient_of q))
          else Inl (field @ '' must be a non-negative integer.'')
      | JStr s \<Rightarrow>
          if all_digits s then Inr (int (decimal_value s))
          else Inl (field @ '' must be a non-negative integer.'')
      | _ \<Rightarrow> Inl (field @ '' must be a non-negative integer.''))"

definition normalizeHost :: "string \<Rightarrow> string" where
  "normalizeHost value = js_lower (drop_trailing_dot (js_trim value))"

definition requireHttpsUrlValue :: "platform \<Rightarrow> jsval \<Rightarrow> string \<Rightarrow> string + string" where
  "requireHttpsUrlValue P value field =
     and_then (requireStringValue value field) (\<lambda>s.
       let rawValue = js_trim s
       in case new_url P rawValue of
            None \<Rightarrow> Inl (field @ '' must be a valid URL.'')
          | Some u \<Rightarrow>
              if protocol u \<noteq> ''https:'' then Inl (field @ '' must use https.'')
              else if username u \<noteq> [] \<or> password u \<noteq> [] then Inl (field @ '' must not include credentials.'')
              else Inr rawValue)"

definition requireHostnameValue :: "jsval \<Rightarrow> string \<Rightarrow> string + string" where
  "requireHostnameValue value field =
     and_then (requireStringValue value field) (\<lambda>s.
       let host = normalizeHost s
       in if length host = 0 \<or> length host > 253 \<or> sublist ''://'' host \<or> CHR ''/'' \<in> set host \<or>
             CHR '':'' \<in> set host \<or> list_ex is_js_space host then Inl (field @ '' must be a DNS hostname.'')
          else if list_ex (\<lambda>part. \<not> is_dns_label part) (js_split CHR ''.'' host) then
            Inl (field @ '' must be a DNS hostname.'')
          else Inr host)"

definition requirePathPrefixValue :: "jsval \<Rightarrow> string \<Rightarrow> string + string" where
  "requirePathPrefixValue value field =
     and_then (requireStringValue value field) (\<lambda>s.
       let pathPrefix = js_trim s
       in if \<not> prefix ''/'' pathPrefix then Inl (field @ '' must start with /.'') else Inr pathPrefix)"

text \<open>\<^verbatim>\<open>arrayValue(value, field).map(f)\<close>.\<close>

definition array_values ::
  "(jsval \<Rightarrow> string + 'a) \<Rightarrow> jsval \<Rightarrow> string \<Rightarrow> string + 'a list" where
  "array_values f value field = and_then (array_value value field) (map_result f)"


subsection \<open>Decoding a row\<close>

fun key_scope_of :: "string \<Rightarrow> trust_key_scope" where
  "key_scope_of s = (if s = ''root_program'' then Scope_root_program else Scope_delegated_authority)"

fun key_status_of :: "string \<Rightarrow> trust_key_status" where
  "key_status_of s =
     (if s = ''active'' then Key_active else if s = ''suspended'' then Key_suspended
      else if s = ''revoked'' then Key_revoked else Key_expired)"

definition trustKeyRecordFromUnknown ::
  "(string \<Rightarrow> jsval option) \<Rightarrow> jsval \<Rightarrow> string + trust_key_record" where
  "trustKeyRecordFromUnknown parse value =
     and_then (parseJson parse value) (\<lambda>parsed.
     and_then (object_value parsed ''trust key'') (\<lambda>row.
     and_then (requireStringValue (get_prop row ''key_id'') ''key_id'') (\<lambda>keyId.
     and_then (requireStringValue (get_prop row ''signer_id'') ''signer_id'') (\<lambda>signerId.
     and_then (requireStringValue (get_prop row ''root_program_id'') ''root_program_id'') (\<lambda>rootProgramId.
     and_then (requireStringValue (get_prop row ''algorithm_id'') ''algorithm_id'') (\<lambda>algorithmId.
     and_then (requireLiteralValue (get_prop row ''scope'') ''scope'' [''root_program'', ''delegated_authority''])
       (\<lambda>scope.
     and_then (requireLiteralValue (get_prop row ''status'') ''status''
                 [''active'', ''suspended'', ''revoked'', ''expired'']) (\<lambda>status.
     and_then (requireStringValue (get_prop row ''public_key_material_ref'') ''public_key_material_ref'')
       (\<lambda>materialRef.
       Inr \<lparr>tk_key_id = keyId, tk_signer_id = signerId, tk_root_program_id = rootProgramId,
            tk_algorithm_id = algorithmId, tk_scope = key_scope_of scope, tk_status = key_status_of status,
            tk_public_key_material_ref = materialRef,
            tk_public_key_material_pem = keep_truthy (str_opt (get_prop row ''public_key_material_pem'')),
            tk_delegated_authority_id = keep_truthy (str_opt (get_prop row ''delegated_authority_id''))\<rparr>)))))))))"

definition requireStringField :: "driver_row \<Rightarrow> string \<Rightarrow> string + string" where
  "requireStringField row field = requireStringValue (field_value row field) field"

definition requireLiteralField :: "driver_row \<Rightarrow> string \<Rightarrow> string list \<Rightarrow> string + string" where
  "requireLiteralField row field allowed = requireLiteralValue (field_value row field) field allowed"

definition requireTimestampStringField :: "platform \<Rightarrow> driver_row \<Rightarrow> string \<Rightarrow> string + string" where
  "requireTimestampStringField P row field =
     (case map_of row field of
        Some (Timestamp t) \<Rightarrow> Inr (iso_string P t)
      | _ \<Rightarrow> requireStringValue (field_value row field) field)"

definition requireObjectField :: "(string \<Rightarrow> jsval option) \<Rightarrow> driver_row \<Rightarrow> string \<Rightarrow> string + jsval" where
  "requireObjectField parse row field =
     and_then (parseJson parse (field_value row field)) (\<lambda>v. object_value v field)"

definition requireArrayField ::
  "(string \<Rightarrow> jsval option) \<Rightarrow> driver_row \<Rightarrow> string \<Rightarrow> string + jsval list" where
  "requireArrayField parse row field =
     and_then (parseJson parse (field_value row field)) (\<lambda>v. array_value v field)"

definition requireStringArrayField ::
  "(string \<Rightarrow> jsval option) \<Rightarrow> driver_row \<Rightarrow> string \<Rightarrow> string + string list" where
  "requireStringArrayField parse row field =
     and_then (requireArrayField parse row field) (map_result (\<lambda>value. requireStringValue value field))"

definition requireTrustKeyArrayField ::
  "(string \<Rightarrow> jsval option) \<Rightarrow> driver_row \<Rightarrow> string \<Rightarrow> string + trust_key_record list" where
  "requireTrustKeyArrayField parse row field =
     and_then (requireArrayField parse row field) (map_result (trustKeyRecordFromUnknown parse))"

text \<open>
  The only number of a row is the version, an SQL integer: its driver value is integral, and below
  \<open>2 ^ 53\<close> the number of a text of digits is exact.
\<close>

definition requireNumberField :: "driver_row \<Rightarrow> string \<Rightarrow> string + int" where
  "requireNumberField row field =
     (case field_value row field of
        JNum (Fin q) \<Rightarrow> Inr \<lfloor>q\<rfloor>
      | JStr s \<Rightarrow> if all_digits s then Inr (int (decimal_value s)) else Inl (missing_field field)
      | _ \<Rightarrow> Inl (missing_field field))"

definition postgresGovernancePublicationBundleRowFromRecord ::
  "platform \<Rightarrow> (string \<Rightarrow> jsval option) \<Rightarrow> driver_row \<Rightarrow> string + governance_row" where
  "postgresGovernancePublicationBundleRowFromRecord P parse row =
     and_then (requireStringField row ''root_program_id'') (\<lambda>rootId.
     and_then (requireStringField row ''root_name'') (\<lambda>rootName.
     and_then (requireStringField row ''root_program_scope'') (\<lambda>rootScope.
     and_then (requireStringArrayField parse row ''root_accepted_algorithm_ids'') (\<lambda>algorithms.
     and_then (requireTrustKeyArrayField parse row ''root_trust_keys'') (\<lambda>rootKeys.
     and_then (requireObjectField parse row ''root_policy_constraints'') (\<lambda>constraints.
     and_then (requireLiteralField row ''root_status'' [''active'']) (\<lambda>rootStatus.
     and_then (requireStringField row ''delegated_authority_id'') (\<lambda>authorityId.
     and_then (requireStringField row ''delegated_authority_name'') (\<lambda>authorityName.
     and_then (requireStringField row ''delegated_authority_type'') (\<lambda>authorityType.
     and_then (requireObjectField parse row ''delegated_authority_scope'') (\<lambda>authorityScope.
     and_then (requireObjectField parse row ''delegated_authority_assurance_requirements'') (\<lambda>requirements.
     and_then (requireTrustKeyArrayField parse row ''delegated_authority_trust_keys'') (\<lambda>authorityKeys.
     and_then (requireLiteralField row ''delegated_authority_status'' [''active'']) (\<lambda>authorityStatus.
     and_then (requireStringField row ''issuer_id'') (\<lambda>issuerId.
     and_then (requireStringField row ''issuer_display_name'') (\<lambda>displayName.
     and_then (requireStringField row ''issuer_class'') (\<lambda>issuerClass.
     and_then (requireStringField row ''issuer_assurance_tier'') (\<lambda>tier.
     and_then (requireObjectField parse row ''issuer_assurance_evidence'') (\<lambda>evidence.
     and_then (requireLiteralField row ''issuer_enrollment_status'' [''active'']) (\<lambda>enrollment.
     and_then (requireStringArrayField parse row ''issuer_certificate_refs'') (\<lambda>certificates.
     and_then (requireLiteralField row ''issuer_certificate_status'' [''active'']) (\<lambda>certificate.
     and_then (requireStringField row ''issuer_status_event_ref'') (\<lambda>eventRef.
     and_then (requireLiteralField row ''issuer_status_event_status''
                 [''active'', ''suspended'', ''revoked'', ''expired'', ''retired'']) (\<lambda>eventStatus.
     and_then (requireTimestampStringField P row ''issuer_status_event_published_at'') (\<lambda>eventAt.
     and_then (requireStringField row ''destination_policy_id'') (\<lambda>policyId.
     and_then (requireLiteralField row ''destination_policy_usage_policy''
                 [''reusable_public'', ''one_time'', ''time_limited'']) (\<lambda>usage.
     and_then (requireArrayField parse row ''destination_policy_approved_destinations'') (\<lambda>destinations.
     and_then (requireObjectField parse row ''destination_policy_redirect_policy'') (\<lambda>redirect.
     and_then (requireObjectField parse row ''destination_policy_runtime_safety_policy'') (\<lambda>runtime.
     and_then (requireNumberField row ''destination_policy_version'') (\<lambda>version.
     and_then (requireLiteralField row ''destination_policy_status'' [''active'']) (\<lambda>policyStatus.
       Inr
       \<lparr>gr_root_program_id = rootId, gr_root_name = rootName, gr_root_program_scope = rootScope,
        gr_root_accepted_algorithm_ids = algorithms, gr_root_trust_keys = rootKeys,
        gr_root_policy_constraints = constraints, gr_root_status = rootStatus,
        gr_delegated_authority_id = authorityId, gr_delegated_authority_name = authorityName,
        gr_delegated_authority_type = authorityType, gr_delegated_authority_scope = authorityScope,
        gr_delegated_authority_assurance_requirements = requirements,
        gr_delegated_authority_trust_keys = authorityKeys, gr_delegated_authority_status = authorityStatus,
        gr_issuer_id = issuerId, gr_issuer_display_name = displayName, gr_issuer_class = issuerClass,
        gr_issuer_assurance_tier = tier, gr_issuer_assurance_evidence = evidence,
        gr_issuer_enrollment_status = enrollment, gr_issuer_certificate_refs = certificates,
        gr_issuer_certificate_status = certificate, gr_issuer_status_event_ref = eventRef,
        gr_issuer_status_event_status = eventStatus, gr_issuer_status_event_published_at = eventAt,
        gr_destination_policy_id = policyId, gr_destination_policy_usage_policy = usage,
        gr_destination_policy_approved_destinations = destinations,
        gr_destination_policy_redirect_policy = redirect,
        gr_destination_policy_runtime_safety_policy = runtime,
        gr_destination_policy_version = version, gr_destination_policy_status = policyStatus\<rparr>))))))))))))))))))))))))))))))))"

definition decodePostgresGovernancePublicationRows ::
  "platform \<Rightarrow> (string \<Rightarrow> jsval option) \<Rightarrow> driver_row list \<Rightarrow> net_error + governance_row list" where
  "decodePostgresGovernancePublicationRows P parse rows =
     map_error (\<lambda>e. PersistenceError ''Postgres governance publication bundle row decoding failed.''
         (OtherCause (JStr e)))
       (map_result (postgresGovernancePublicationBundleRowFromRecord P parse) rows)"


subsection \<open>The bundle statement\<close>

record governance_source_input =
  gsi_namespace :: issuer_namespace
  gsi_destination_policy_id :: string
  gsi_observedAt :: int

definition governancePublicationBundleByPolicyCommand :: "platform \<Rightarrow> governance_source_input \<Rightarrow> sql_command" where
  "governancePublicationBundleByPolicyCommand P input =
     \<lparr>sc_name = ''governance_publication.bundle_by_issuer_policy'',
      sc_values =
        [SText (ns_root_program_id (gsi_namespace input)),
         SText (ns_delegated_authority_id (gsi_namespace input)),
         SText (ns_issuer_id (gsi_namespace input)),
         SText (gsi_destination_policy_id input),
         SText (iso_string P (gsi_observedAt input))]\<rparr>"

text \<open>The columns that the statement reads of each table.\<close>

record root_program_row =
  rt_root_program_id :: string
  rt_name :: string
  rt_program_scope :: string
  rt_accepted_algorithm_ids :: "string list"
  rt_policy_constraints :: jsval
  rt_status :: string

record authority_row =
  at_root_program_id :: string
  at_delegated_authority_id :: string
  at_name :: string
  at_authority_type :: string
  at_scope :: jsval
  at_assurance_requirements :: jsval
  at_status :: string

record issuer_row =
  it_root_program_id :: string
  it_delegated_authority_id :: string
  it_issuer_id :: string
  it_display_name :: string
  it_issuer_class :: string
  it_assurance_tier :: string
  it_assurance_evidence :: jsval
  it_enrollment_status :: string

record policy_row =
  pt_root_program_id :: string
  pt_delegated_authority_id :: string
  pt_issuer_id :: string
  pt_destination_policy_id :: string
  pt_usage_policy :: string
  pt_approved_destinations :: jsval
  pt_redirect_policy :: jsval
  pt_runtime_safety_policy :: jsval
  pt_version :: int
  pt_status :: string

record certificate_row =
  ct_root_program_id :: string
  ct_delegated_authority_id :: string
  ct_issuer_id :: string
  ct_certificate_id :: string
  ct_key_status :: string
  ct_not_before :: int
  ct_not_after :: int

record status_event_row =
  st_root_program_id :: string
  st_delegated_authority_id :: string
  st_issuer_id :: "string option"
  st_target_type :: string
  st_target_id :: string
  st_status_event_id :: string
  st_status :: string
  st_effective_at :: int
  st_created_at :: int

record governance_tables =
  gt_root_programs :: "root_program_row list"
  gt_delegated_authorities :: "authority_row list"
  gt_issuers :: "issuer_row list"
  gt_destination_policies :: "policy_row list"
  gt_issuer_certificates :: "certificate_row list"
  gt_trust_keys :: "trust_key_record list"
  gt_status_events :: "status_event_row list"

text \<open>\<open>le\<close> is the order of the collation of the database.\<close>

definition bundle_certificates ::
  "(string \<Rightarrow> string \<Rightarrow> bool) \<Rightarrow> certificate_row list \<Rightarrow> issuer_row \<Rightarrow> int \<Rightarrow> string list" where
  "bundle_certificates le certificates i now =
     sort_by le (map ct_certificate_id (filter (\<lambda>c.
       ct_root_program_id c = it_root_program_id i \<and>
       ct_delegated_authority_id c = it_delegated_authority_id i \<and>
       ct_issuer_id c = it_issuer_id i \<and> ct_key_status c = ''active'' \<and>
       ct_not_before c \<le> now \<and> ct_not_after c > now) certificates))"

definition key_le :: "(string \<Rightarrow> string \<Rightarrow> bool) \<Rightarrow> trust_key_record \<Rightarrow> trust_key_record \<Rightarrow> bool" where
  "key_le le k l = le (tk_key_id k) (tk_key_id l)"

definition bundle_root_keys ::
  "(string \<Rightarrow> string \<Rightarrow> bool) \<Rightarrow> trust_key_record list \<Rightarrow> root_program_row \<Rightarrow> trust_key_record list" where
  "bundle_root_keys le keys rp =
     sort_by (key_le le) (filter (\<lambda>k.
       tk_root_program_id k = rt_root_program_id rp \<and> tk_signer_id k = rt_root_program_id rp \<and>
       tk_scope k = Scope_root_program \<and> tk_status k = Key_active \<and>
       tk_algorithm_id k \<in> set (rt_accepted_algorithm_ids rp)) keys)"

definition bundle_authority_keys ::
  "(string \<Rightarrow> string \<Rightarrow> bool) \<Rightarrow> trust_key_record list \<Rightarrow> root_program_row \<Rightarrow> authority_row \<Rightarrow> trust_key_record list" where
  "bundle_authority_keys le keys rp da =
     sort_by (key_le le) (filter (\<lambda>k.
       tk_root_program_id k = rt_root_program_id rp \<and>
       tk_delegated_authority_id k = Some (at_delegated_authority_id da) \<and>
       tk_signer_id k = at_delegated_authority_id da \<and>
       tk_scope k = Scope_delegated_authority \<and> tk_status k = Key_active \<and>
       tk_algorithm_id k \<in> set (rt_accepted_algorithm_ids rp)) keys)"

text \<open>\<^verbatim>\<open>order by effective_at desc, created_at desc limit 1\<close>.\<close>

definition later_event :: "status_event_row \<Rightarrow> status_event_row \<Rightarrow> bool" where
  "later_event a b =
     (st_effective_at a > st_effective_at b \<or>
      st_effective_at a = st_effective_at b \<and> st_created_at a \<ge> st_created_at b)"

definition latest_issuer_status ::
  "status_event_row list \<Rightarrow> issuer_row \<Rightarrow> int \<Rightarrow> status_event_row option" where
  "latest_issuer_status events i now =
     (case sort_by later_event (filter (\<lambda>e.
        st_root_program_id e = it_root_program_id i \<and>
        st_delegated_authority_id e = it_delegated_authority_id i \<and>
        st_issuer_id e = Some (it_issuer_id i) \<and> st_target_type e \<in> {''issuer'', ''issuer_record''} \<and>
        st_target_id e = it_issuer_id i \<and> st_effective_at e \<le> now) events) of
        [] \<Rightarrow> None | e # _ \<Rightarrow> Some e)"

definition null_or_str :: "string option \<Rightarrow> jsval" where
  "null_or_str x = (case x of None \<Rightarrow> JNull | Some s \<Rightarrow> JStr s)"

fun key_scope_string :: "trust_key_scope \<Rightarrow> string" where
  "key_scope_string Scope_root_program = ''root_program''"
| "key_scope_string Scope_delegated_authority = ''delegated_authority''"

text \<open>The \<^verbatim>\<open>jsonb_build_object\<close> of a key; that of an authority key also holds its authority.\<close>

definition key_object :: "bool \<Rightarrow> trust_key_record \<Rightarrow> jsval" where
  "key_object of_authority k = JObj
     ([(''key_id'', JStr (tk_key_id k)), (''signer_id'', JStr (tk_signer_id k)),
       (''root_program_id'', JStr (tk_root_program_id k))]
      @ (if of_authority then [(''delegated_authority_id'', null_or_str (tk_delegated_authority_id k))] else [])
      @ [(''algorithm_id'', JStr (tk_algorithm_id k)), (''scope'', JStr (key_scope_string (tk_scope k))),
         (''status'', JStr (key_status_string (tk_status k))),
         (''public_key_material_ref'', JStr (tk_public_key_material_ref k)),
         (''public_key_material_pem'', null_or_str (tk_public_key_material_pem k))])"

definition bundle_row ::
  "(string \<Rightarrow> string \<Rightarrow> bool) \<Rightarrow> governance_tables \<Rightarrow> int \<Rightarrow> root_program_row \<Rightarrow> authority_row \<Rightarrow>
     issuer_row \<Rightarrow> policy_row \<Rightarrow> driver_row" where
  "bundle_row le T now rp da i dp =
     (let issuer_status = latest_issuer_status (gt_status_events T) i now in
      [(''root_program_id'', Column (JStr (rt_root_program_id rp))),
       (''root_name'', Column (JStr (rt_name rp))),
       (''root_program_scope'', Column (JStr (rt_program_scope rp))),
       (''root_accepted_algorithm_ids'', Column (strings_json (rt_accepted_algorithm_ids rp))),
       (''root_trust_keys'', Column (JArr (map (key_object False) (bundle_root_keys le (gt_trust_keys T) rp)))),
       (''root_policy_constraints'', Column (rt_policy_constraints rp)),
       (''root_status'', Column (JStr (rt_status rp))),
       (''delegated_authority_id'', Column (JStr (at_delegated_authority_id da))),
       (''delegated_authority_name'', Column (JStr (at_name da))),
       (''delegated_authority_type'', Column (JStr (at_authority_type da))),
       (''delegated_authority_scope'', Column (at_scope da)),
       (''delegated_authority_assurance_requirements'', Column (at_assurance_requirements da)),
       (''delegated_authority_trust_keys'',
          Column (JArr (map (key_object True) (bundle_authority_keys le (gt_trust_keys T) rp da)))),
       (''delegated_authority_status'', Column (JStr (at_status da))),
       (''issuer_id'', Column (JStr (it_issuer_id i))),
       (''issuer_display_name'', Column (JStr (it_display_name i))),
       (''issuer_class'', Column (JStr (it_issuer_class i))),
       (''issuer_assurance_tier'', Column (JStr (it_assurance_tier i))),
       (''issuer_assurance_evidence'', Column (it_assurance_evidence i)),
       (''issuer_enrollment_status'', Column (JStr (it_enrollment_status i))),
       (''issuer_certificate_refs'',
          Column (strings_json (bundle_certificates le (gt_issuer_certificates T) i now))),
       (''issuer_certificate_status'', Column (JStr ''active'')),
       (''issuer_status_event_ref'', Column (JStr (case issuer_status of
          Some e \<Rightarrow> st_status_event_id e
        | None \<Rightarrow> ''status:'' @ without_prefix ''issuer:'' (it_issuer_id i) @ '':active:v1''))),
       (''issuer_status_event_status'', Column (JStr (case issuer_status of
          Some e \<Rightarrow> st_status e | None \<Rightarrow> it_enrollment_status i))),
       (''issuer_status_event_published_at'', Timestamp (case issuer_status of
          Some e \<Rightarrow> st_effective_at e | None \<Rightarrow> now)),
       (''destination_policy_id'', Column (JStr (pt_destination_policy_id dp))),
       (''destination_policy_usage_policy'', Column (JStr (pt_usage_policy dp))),
       (''destination_policy_approved_destinations'', Column (pt_approved_destinations dp)),
       (''destination_policy_redirect_policy'', Column (pt_redirect_policy dp)),
       (''destination_policy_runtime_safety_policy'', Column (pt_runtime_safety_policy dp)),
       (''destination_policy_version'', Column (int_json (pt_version dp))),
       (''destination_policy_status'', Column (JStr (pt_status dp)))])"

text \<open>The joins and the condition of the statement.\<close>

definition bundle_selected ::
  "(string \<Rightarrow> string \<Rightarrow> bool) \<Rightarrow> governance_tables \<Rightarrow> string \<Rightarrow> string \<Rightarrow> string \<Rightarrow> string \<Rightarrow> int \<Rightarrow>
     root_program_row \<Rightarrow> authority_row \<Rightarrow> issuer_row \<Rightarrow> policy_row \<Rightarrow> bool" where
  "bundle_selected le T rootId authorityId issuerId policyId now rp da i dp \<longleftrightarrow>
     at_root_program_id da = rt_root_program_id rp \<and>
     it_root_program_id i = at_root_program_id da \<and>
     it_delegated_authority_id i = at_delegated_authority_id da \<and>
     pt_root_program_id dp = it_root_program_id i \<and>
     pt_delegated_authority_id dp = it_delegated_authority_id i \<and>
     pt_issuer_id dp = it_issuer_id i \<and>
     bundle_certificates le (gt_issuer_certificates T) i now \<noteq> [] \<and>
     bundle_root_keys le (gt_trust_keys T) rp \<noteq> [] \<and>
     bundle_authority_keys le (gt_trust_keys T) rp da \<noteq> [] \<and>
     rt_root_program_id rp = rootId \<and> at_delegated_authority_id da = authorityId \<and>
     it_issuer_id i = issuerId \<and> pt_destination_policy_id dp = policyId \<and>
     rt_status rp = ''active'' \<and> at_status da = ''active'' \<and> it_enrollment_status i = ''active'' \<and>
     (case latest_issuer_status (gt_status_events T) i now of
        Some e \<Rightarrow> st_status e | None \<Rightarrow> it_enrollment_status i) = ''active'' \<and>
     pt_status dp = ''active''"

definition bundle_rows ::
  "(string \<Rightarrow> string \<Rightarrow> bool) \<Rightarrow> governance_tables \<Rightarrow> string \<Rightarrow> string \<Rightarrow> string \<Rightarrow> string \<Rightarrow> int \<Rightarrow> driver_row list" where
  "bundle_rows le T rootId authorityId issuerId policyId now =
     take 1 (map (\<lambda>(rp, da, i, dp). bundle_row le T now rp da i dp)
       (filter (\<lambda>(rp, da, i, dp). bundle_selected le T rootId authorityId issuerId policyId now rp da i dp)
         (List.product (gt_root_programs T) (List.product (gt_delegated_authorities T)
           (List.product (gt_issuers T) (gt_destination_policies T))))))"

text \<open>
  The executor of \<^verbatim>\<open>postgres-driver.ts\<close> on the database: the statement with its parameters, then the
  decoding of its rows. \<open>dbError\<close> is the error of the database on a statement it cannot run.
\<close>

definition query_governance_bundle ::
  "platform \<Rightarrow> (string \<Rightarrow> jsval option) \<Rightarrow> (string \<Rightarrow> string \<Rightarrow> bool) \<Rightarrow> net_error \<Rightarrow> governance_tables \<Rightarrow>
     sql_command \<Rightarrow> net_error + governance_row list" where
  "query_governance_bundle P parse le dbError T command =
     (if sc_name command \<noteq> ''governance_publication.bundle_by_issuer_policy'' then Inr []
      else case sc_values command of
        [SText rootId, SText authorityId, SText issuerId, SText policyId, SText observedAt] \<Rightarrow>
          (case date_parse P observedAt of
             None \<Rightarrow> Inl dbError
           | Some now \<Rightarrow> decodePostgresGovernancePublicationRows P parse
               (bundle_rows le T rootId authorityId issuerId policyId now))
      | _ \<Rightarrow> Inl dbError)"


subsection \<open>The plan of a bundle\<close>

text \<open>\<^verbatim>\<open>value.toLowerCase().replace(/[^a-z0-9]+/g, "_").replace(/^_+|_+$/g, "")\<close>.\<close>

definition slug :: "string \<Rightarrow> string" where
  "slug value =
     (let s = map (\<lambda>c. if c = CHR ''-'' then CHR ''_'' else c) (replace_other (js_lower value));
          is_underscore = (\<lambda>c. c = CHR ''_'')
      in rev (dropWhile is_underscore (rev (dropWhile is_underscore s))))"

text \<open>\<^verbatim>\<open>value.replace(/:v\d+$/i, "")\<close>.\<close>

definition without_version :: "string \<Rightarrow> string" where
  "without_version value =
     (case dropWhile is_digit (rev value) of
        v # c # rest \<Rightarrow>
          if is_digit (last (CHR ''x'' # value)) \<and> v \<in> {CHR ''v'', CHR ''V''} \<and> c = CHR '':'' then rev rest else value
      | _ \<Rightarrow> value)"

definition artifactSlug :: "string \<Rightarrow> string \<Rightarrow> string" where
  "artifactSlug value pre =
     slug (without_version (if prefix (pre @ '':'') value then drop (length pre + 1) value else value))"

record governance_artifact_ids =
  ga_root_manifest_artifact_id :: string
  ga_delegated_authority_artifact_id :: string
  ga_issuer_record_artifact_id :: string
  ga_destination_policy_artifact_id :: string

definition governanceArtifactIds :: "governance_row \<Rightarrow> governance_artifact_ids" where
  "governanceArtifactIds row =
     \<lparr>ga_root_manifest_artifact_id = ''art_root_'' @ artifactSlug (gr_root_program_id row) ''root'' @ ''_v1'',
      ga_delegated_authority_artifact_id =
        ''art_authority_'' @ artifactSlug (gr_delegated_authority_id row) ''authority'' @ ''_v1'',
      ga_issuer_record_artifact_id = ''art_issuer_'' @ artifactSlug (gr_issuer_id row) ''issuer'' @ ''_v1'',
      ga_destination_policy_artifact_id =
        ''art_policy_'' @ artifactSlug (gr_destination_policy_id row) ''policy'' @ ''_v'' @
        int_string (gr_destination_policy_version row)\<rparr>"

definition namespaceFromRow :: "governance_row \<Rightarrow> issuer_namespace" where
  "namespaceFromRow row =
     \<lparr>ns_root_program_id = gr_root_program_id row, ns_delegated_authority_id = gr_delegated_authority_id row,
      ns_issuer_id = gr_issuer_id row\<rparr>"

text \<open>\<^verbatim>\<open>new Date(ms).toISOString()\<close> throws out of the range of dates.\<close>

definition valid_time :: "int \<Rightarrow> bool" where
  "valid_time ms = (\<bar>ms\<bar> \<le> 8640000000000000)"

definition validUntil :: "platform \<Rightarrow> int \<Rightarrow> jsval \<Rightarrow> string + string" where
  "validUntil P occurredAt runtimeSafetyPolicy =
     and_then (positiveIntegerOrDefault (get_prop runtimeSafetyPolicy ''publication_ttl_seconds'') 86400
                 ''publication_ttl_seconds'') (\<lambda>ttlSeconds.
       let ms = occurredAt + ttlSeconds * 1000
       in if valid_time ms then Inr (iso_string P ms) else Inl ''Invalid time value'')"

definition publicationMetadata :: "platform \<Rightarrow> int \<Rightarrow> string \<Rightarrow> jsval \<Rightarrow> string + jsval" where
  "publicationMetadata P occurredAt signedBy runtimeSafetyPolicy =
     and_then (validUntil P occurredAt runtimeSafetyPolicy) (\<lambda>valid_until.
       Inr (JObj
         [(''published_at'', JStr (iso_string P occurredAt)), (''valid_until'', JStr valid_until),
          (''signed_by'', JStr signedBy), (''signature_status'', JStr ''pending_publication_signature'')]))"

definition trustKeyManifestEntry :: "trust_key_record \<Rightarrow> jsval" where
  "trustKeyManifestEntry key = JObj
     [(''key_id'', JStr (tk_key_id key)), (''signer_id'', JStr (tk_signer_id key)),
      (''algorithm_id'', JStr (tk_algorithm_id key)),
      (''public_key_material_ref'', JStr (tk_public_key_material_ref key)),
      (''status'', JStr (key_status_string (tk_status key)))]"

definition delegatedAuthorityScopeFromRow :: "jsval \<Rightarrow> string list" where
  "delegatedAuthorityScopeFromRow scope =
     (let allowedOperatorScope = get_prop scope ''allowed_operator_scope''
      in if js_array_every is_str allowedOperatorScope then map str_of (elements allowedOperatorScope)
         else map fst (filter (\<lambda>(_, value). value = JBool True) (spread scope)))"

definition rootManifestBodyFromRow ::
  "platform \<Rightarrow> governance_row \<Rightarrow> governance_artifact_ids \<Rightarrow> int \<Rightarrow> string + jsval" where
  "rootManifestBodyFromRow P row ids occurredAt =
     and_then (publicationMetadata P occurredAt (gr_root_program_id row)
                 (gr_destination_policy_runtime_safety_policy row)) (\<lambda>publication.
       Inr (JObj
         [(''artifact_type'', JStr ''root_manifest''), (''schema_version'', JStr ''0.1.0''),
          (''root_program_id'', JStr (gr_root_program_id row)), (''name'', JStr (gr_root_name row)),
          (''program_scope'', JStr (gr_root_program_scope row)),
          (''accepted_algorithm_ids'', strings_json (gr_root_accepted_algorithm_ids row)),
          (''trust_keys'', JArr (map trustKeyManifestEntry (gr_root_trust_keys row))),
          (''policy_constraints'', gr_root_policy_constraints row),
          (''delegated_authorities'', JArr [JObj
             [(''delegated_authority_id'', JStr (gr_delegated_authority_id row)),
              (''name'', JStr (gr_delegated_authority_name row)),
              (''manifest_ref'', JStr (ga_delegated_authority_artifact_id ids)),
              (''status'', JStr (gr_delegated_authority_status row))]]),
          (''publication'', publication)]))"

definition delegatedAuthorityManifestBodyFromRow ::
  "platform \<Rightarrow> governance_row \<Rightarrow> governance_artifact_ids \<Rightarrow> int \<Rightarrow> string + jsval" where
  "delegatedAuthorityManifestBodyFromRow P row ids occurredAt =
     and_then (publicationMetadata P occurredAt (gr_root_program_id row)
                 (gr_destination_policy_runtime_safety_policy row)) (\<lambda>publication.
       Inr (JObj
         [(''artifact_type'', JStr ''delegated_authority_manifest''), (''schema_version'', JStr ''0.1.0''),
          (''root_program_id'', JStr (gr_root_program_id row)),
          (''delegated_authority_id'', JStr (gr_delegated_authority_id row)),
          (''operator_name'', JStr (gr_delegated_authority_name row)),
          (''operator_class'', JStr (gr_delegated_authority_type row)),
          (''scope'', strings_json (delegatedAuthorityScopeFromRow (gr_delegated_authority_scope row))),
          (''trust_keys'', JArr (map trustKeyManifestEntry (gr_delegated_authority_trust_keys row))),
          (''assurance_requirements'', gr_delegated_authority_assurance_requirements row),
          (''enrolled_issuers'', JArr [JObj
             [(''issuer_id'', JStr (gr_issuer_id row)),
              (''issuer_record_ref'', JStr (ga_issuer_record_artifact_id ids)),
              (''assurance_tier'', JStr (gr_issuer_assurance_tier row)),
              (''status'', JStr (gr_issuer_enrollment_status row))]]),
          (''publication'', publication)]))"

definition issuerRecordBodyFromRow ::
  "platform \<Rightarrow> governance_row \<Rightarrow> governance_artifact_ids \<Rightarrow> int \<Rightarrow> string + jsval" where
  "issuerRecordBodyFromRow P row ids occurredAt =
     and_then (publicationMetadata P occurredAt (gr_delegated_authority_id row)
                 (gr_destination_policy_runtime_safety_policy row)) (\<lambda>publication.
       Inr (JObj
         [(''artifact_type'', JStr ''issuer_record''), (''schema_version'', JStr ''0.1.0''),
          (''issuer_namespace'', namespace_json (namespaceFromRow row)),
          (''issuer_display_name'', JStr (gr_issuer_display_name row)),
          (''issuer_class'', JStr (gr_issuer_class row)),
          (''assurance_tier'', JStr (gr_issuer_assurance_tier row)),
          (''assurance_evidence'', gr_issuer_assurance_evidence row),
          (''certificate_refs'', strings_json (gr_issuer_certificate_refs row)),
          (''destination_policies'', JArr [JObj
             [(''destination_policy_id'', JStr (gr_destination_policy_id row)),
              (''policy_ref'', JStr (ga_destination_policy_artifact_id ids)),
              (''usage_policy'', JStr (gr_destination_policy_usage_policy row)),
              (''status'', JStr (gr_destination_policy_status row))]]),
          (''inspection_scope'', JObj
             [(''passive_public_checks'', JBool True),
              (''runtime_reputation_checks'', JStr ''delegated-provider''),
              (''authenticated_or_invasive_testing'', JBool False)]),
          (''status'', JObj
             [(''issuer_status'', JStr (gr_issuer_status_event_status row)),
              (''certificate_status'', JStr (gr_issuer_certificate_status row)),
              (''status_event_ref'', JStr (gr_issuer_status_event_ref row))]),
          (''publication'', publication)]))"

definition destinationRuleFromUnknown :: "platform \<Rightarrow> jsval \<Rightarrow> string + destination_policy_rule" where
  "destinationRuleFromUnknown P value =
     and_then (object_value value ''destination policy rule'') (\<lambda>rule.
     and_then (requireStringValue (get_prop rule ''destination_id'') ''destination_id'') (\<lambda>destinationId.
     and_then (requireHttpsUrlValue P (get_prop rule ''expected_final_url'') ''expected_final_url'') (\<lambda>url.
     and_then (array_values (\<lambda>host. requireHostnameValue host ''allowed_hosts[]'')
                 (get_prop rule ''allowed_hosts'') ''allowed_hosts'') (\<lambda>hosts.
     and_then (boolean_value (get_prop rule ''allow_subdomains'') ''allow_subdomains'') (\<lambda>subdomains.
     and_then (array_values (\<lambda>path. requirePathPrefixValue path ''path_prefixes[]'')
                 (get_prop rule ''path_prefixes'') ''path_prefixes'') (\<lambda>paths.
     and_then (requireLiteralValue (get_prop rule ''query_policy'') ''query_policy''
                 [''none'', ''allow_known_payment_query'']) (\<lambda>query.
     and_then (if truthy (get_prop rule ''allowed_query_keys'') then
                 and_then (array_values (\<lambda>key. requireStringValue key ''allowed_query_keys[]'')
                             (get_prop rule ''allowed_query_keys'') ''allowed_query_keys'') (\<lambda>keys. Inr (Some keys))
               else Inr None) (\<lambda>keys.
       Inr \<lparr>dr_destination_id = destinationId, dr_expected_final_url = url, dr_allowed_hosts = hosts,
            dr_allow_subdomains = subdomains, dr_path_prefixes = paths, dr_query_policy = query,
            dr_allowed_query_keys = keys\<rparr>))))))))"

definition governanceRedirectPolicyFromUnknown :: "platform \<Rightarrow> jsval \<Rightarrow> string + redirect_policy_projection" where
  "governanceRedirectPolicyFromUnknown P value =
     and_then (array_values (\<lambda>u. requireHttpsUrlValue P u ''resolver_urls[]'')
                 (get_prop value ''resolver_urls'') ''resolver_urls'') (\<lambda>resolvers.
     and_then (array_values (\<lambda>u. requireHttpsUrlValue P u ''expected_final_destinations[]'')
                 (get_prop value ''expected_final_destinations'') ''expected_final_destinations'') (\<lambda>finals.
     and_then (array_values (\<lambda>host. requireHostnameValue host ''allowed_redirect_hosts[]'')
                 (get_prop value ''allowed_redirect_hosts'') ''allowed_redirect_hosts'') (\<lambda>hosts.
     and_then (requireNonNegativeIntegerValue (get_prop value ''max_redirect_hops'') ''max_redirect_hops'') (\<lambda>hops.
     and_then (boolean_value (get_prop value ''nested_shorteners_allowed'') ''nested_shorteners_allowed'')
       (\<lambda>nested.
     and_then (boolean_value (get_prop value ''scanner_must_display_resolver_and_final_destination'')
                 ''scanner_must_display_resolver_and_final_destination'') (\<lambda>display.
       Inr \<lparr>rp_resolver_urls = resolvers, rp_expected_final_destinations = finals,
            rp_allowed_redirect_hosts = hosts, rp_max_redirect_hops = hops,
            rp_nested_shorteners_allowed = nested,
            rp_scanner_must_display_resolver_and_final_destination = display\<rparr>))))))"

definition destinationPolicyProjectionFromRow ::
  "platform \<Rightarrow> governance_row \<Rightarrow> int \<Rightarrow> string + destination_policy_projection" where
  "destinationPolicyProjectionFromRow P row occurredAt =
     and_then (map_result (destinationRuleFromUnknown P) (gr_destination_policy_approved_destinations row))
       (\<lambda>approvedDestinations.
     and_then (governanceRedirectPolicyFromUnknown P (gr_destination_policy_redirect_policy row)) (\<lambda>redirect.
     and_then (validUntil P occurredAt (gr_destination_policy_runtime_safety_policy row)) (\<lambda>expires.
       Inr \<lparr>dp_namespace = namespaceFromRow row, dp_destination_policy_id = gr_destination_policy_id row,
            dp_approved_destinations = approvedDestinations, dp_redirect_policy = redirect,
            dp_allowed_hosts =
              uniqueStrings (concat (map (\<lambda>d. map normalizeHost (dr_allowed_hosts d)) approvedDestinations)),
            dp_allow_subdomains = list_ex dr_allow_subdomains approvedDestinations,
            dp_cache_generated_at = iso_string P occurredAt, dp_cache_expires_at = expires\<rparr>)))"

definition destinationPolicyBodyFromRow ::
  "platform \<Rightarrow> governance_row \<Rightarrow> destination_policy_projection \<Rightarrow> int \<Rightarrow> string + jsval" where
  "destinationPolicyBodyFromRow P row policy occurredAt =
     and_then (publicationMetadata P occurredAt (ns_delegated_authority_id (dp_namespace policy))
                 (gr_destination_policy_runtime_safety_policy row)) (\<lambda>publication.
       Inr (JObj
         [(''artifact_type'', JStr ''destination_policy''), (''schema_version'', JStr ''0.1.0''),
          (''root_program_id'', JStr (ns_root_program_id (dp_namespace policy))),
          (''delegated_authority_id'', JStr (ns_delegated_authority_id (dp_namespace policy))),
          (''issuer_id'', JStr (ns_issuer_id (dp_namespace policy))),
          (''destination_policy_id'', JStr (dp_destination_policy_id policy)),
          (''usage_policy'', JStr (gr_destination_policy_usage_policy row)),
          (''approved_destinations'', JArr (map rule_json (dp_approved_destinations policy))),
          (''redirect_policy'', redirect_json (dp_redirect_policy policy)),
          (''runtime_safety_policy'', gr_destination_policy_runtime_safety_policy row),
          (''publication'', publication)]))"

definition source_artifact ::
  "string \<Rightarrow> string \<Rightarrow> int \<Rightarrow> string \<Rightarrow> jsval \<Rightarrow> int \<Rightarrow> string \<Rightarrow> string option \<Rightarrow> string option \<Rightarrow> string option \<Rightarrow>
     string \<Rightarrow> artifact_publication_input" where
  "source_artifact artifactType artifactId version rootId body occurredAt eventType authorityId issuerId policyId reason =
     \<lparr>ap_artifact_type = artifactType, ap_artifact_id = artifactId, ap_version = version, ap_root_program_id = rootId,
      ap_body = body, ap_occurredAt = occurredAt, ap_eventType = eventType,
      ap_delegated_authority_id = authorityId, ap_issuer_id = issuerId, ap_destination_policy_id = policyId,
      ap_artifact_ref = None, ap_previous_version = None, ap_reason = Some reason\<rparr>"

definition planGovernancePublicationFromPostgresRow ::
  "platform \<Rightarrow> governance_row \<Rightarrow> int \<Rightarrow> string + governance_plan" where
  "planGovernancePublicationFromPostgresRow P row occurredAt =
     (let ids = governanceArtifactIds row; ns = namespaceFromRow row in
      and_then (destinationPolicyProjectionFromRow P row occurredAt) (\<lambda>destinationPolicy.
      and_then (rootManifestBodyFromRow P row ids occurredAt) (\<lambda>rootBody.
      and_then (delegatedAuthorityManifestBodyFromRow P row ids occurredAt) (\<lambda>authorityBody.
      and_then (issuerRecordBodyFromRow P row ids occurredAt) (\<lambda>issuerBody.
      and_then (destinationPolicyBodyFromRow P row destinationPolicy occurredAt) (\<lambda>policyBody.
        Inr
         (source_artifact ''root_manifest'' (ga_root_manifest_artifact_id ids) 1 (gr_root_program_id row) rootBody
            occurredAt ''root.manifest.published'' None None None
            ''source-of-truth root manifest publication'',
          source_artifact ''delegated_authority_manifest'' (ga_delegated_authority_artifact_id ids) 1
            (gr_root_program_id row) authorityBody occurredAt ''delegated_authority.manifest.published''
            (Some (gr_delegated_authority_id row)) None None
            ''source-of-truth delegated authority publication'',
          source_artifact ''issuer_record'' (ga_issuer_record_artifact_id ids) 1 (gr_root_program_id row) issuerBody
            occurredAt ''issuer.record.published'' (Some (gr_delegated_authority_id row))
            (Some (gr_issuer_id row)) (Some (gr_destination_policy_id row))
            ''source-of-truth issuer record publication'',
          source_artifact ''destination_policy'' (ga_destination_policy_artifact_id ids)
            (gr_destination_policy_version row) (ns_root_program_id ns) policyBody occurredAt
            ''destination.policy.published'' (Some (ns_delegated_authority_id ns)) (Some (ns_issuer_id ns))
            (Some (dp_destination_policy_id destinationPolicy))
            ''source-of-truth destination policy publication'')))))))"


subsection \<open>The source and its executors\<close>

definition requireSingleGovernancePublicationBundle ::
  "governance_row list \<Rightarrow> governance_source_input \<Rightarrow> net_error + governance_row" where
  "requireSingleGovernancePublicationBundle rows input =
     (case rows of
        [row] \<Rightarrow> if gr_issuer_status_event_status row = ''active'' then Inr row else
          Inl (PersistenceError ''Governance publication source could not resolve one active bundle.''
            (OtherCause (JObj [(''namespace'', namespace_json (gsi_namespace input)),
               (''destination_policy_id'', JStr (gsi_destination_policy_id input)), (''row_count'', int_json 1)])))
      | _ \<Rightarrow>
          Inl (PersistenceError ''Governance publication source could not resolve one active bundle.''
            (OtherCause (JObj [(''namespace'', namespace_json (gsi_namespace input)),
               (''destination_policy_id'', JStr (gsi_destination_policy_id input)),
               (''row_count'', int_json (int (length rows)))]))))"

definition planGovernancePublication ::
  "platform \<Rightarrow> (sql_command \<Rightarrow> ('e, governance_row list) call) \<Rightarrow> governance_source_input \<Rightarrow>
     ('e, governance_plan) call" where
  "planGovernancePublication P queryGovernancePublicationBundle input e =
     (case queryGovernancePublicationBundle (governancePublicationBundleByPolicyCommand P input) e of
        (e', Inl err) \<Rightarrow> (e', Inl err)
      | (e', Inr rows) \<Rightarrow> (e',
          and_then (requireSingleGovernancePublicationBundle rows input) (\<lambda>row.
            map_error (\<lambda>cause. PersistenceError ''Postgres governance publication bundle planning failed.''
                (OtherCause (JStr cause)))
              (planGovernancePublicationFromPostgresRow P row (gsi_observedAt input)))))"

definition recording_governance_query ::
  "governance_row list \<Rightarrow> sql_command \<Rightarrow> (sql_command list, governance_row list) call" where
  "recording_governance_query rows command commands =
     (commands @ [command],
      if sc_name command \<noteq> ''governance_publication.bundle_by_issuer_policy'' then Inr []
      else Inr (filter (\<lambda>row.
        Some (gr_root_program_id row) = stringCommandValue command 0 \<and>
        Some (gr_delegated_authority_id row) = stringCommandValue command 1 \<and>
        Some (gr_issuer_id row) = stringCommandValue command 2 \<and>
        Some (gr_destination_policy_id row) = stringCommandValue command 3) rows))"

definition postgres_governance_query ::
  "platform \<Rightarrow> (string \<Rightarrow> jsval option) \<Rightarrow> (string \<Rightarrow> string \<Rightarrow> bool) \<Rightarrow> net_error \<Rightarrow>
     sql_command \<Rightarrow> (governance_tables, governance_row list) call" where
  "postgres_governance_query P parse le dbError command T =
     (T, query_governance_bundle P parse le dbError T command)"

end
