(* ===== verification/SigningCustodyFacts.thy ===== *)
theory SigningCustodyFacts
  imports SigningCustody
begin

text \<open>
  Facts on the custody of signing keys: which keys a provider signs with, what a signed body holds,
  and that the verifier accepts what the signer signs.
\<close>

subsection \<open>Selection\<close>

text \<open>A key that may sign a request.\<close>

definition licensed :: "signing_key_record \<Rightarrow> custody_request \<Rightarrow> bool" where
  "licensed k r \<longleftrightarrow>
     sk_status k = Key_active \<and> signingKeyMatchesScope k r \<and>
     sk_algorithm_id k \<in> set (accepted_signing_algorithms r) \<and>
     (case keep_truthy (cr_key_id r) of
        Some i \<Rightarrow> sk_key_id k = i
      | None \<Rightarrow> sk_signer_id k = cr_signed_by r \<and> sk_root_program_id k = cr_root_program_id r)"

lemma selected_licensed:
  assumes "selectSigningKey keys r = Inr (Some k)"
  shows "k \<in> set keys \<and> licensed k r"
proof -
  let ?c = "\<lambda>key. case keep_truthy (cr_key_id r) of Some i \<Rightarrow> sk_key_id key = i
    | None \<Rightarrow> sk_signer_id key = cr_signed_by r \<and> sk_root_program_id key = cr_root_program_id r"
  have "find (\<lambda>key. sk_status key = Key_active)
      (filter (\<lambda>key. sk_algorithm_id key \<in> set (accepted_signing_algorithms r))
        (filter (\<lambda>key. signingKeyMatchesScope key r) (filter ?c keys))) = Some k"
    using assms by (simp add: selectSigningKey_def Let_def split: if_splits list.splits option.splits)
  then show ?thesis by (auto simp: licensed_def dest!: find_SomeD)
qed

lemma licensed_signer: "licensed k r \<Longrightarrow> sk_signer_id k = cr_signed_by r"
  by (auto simp: licensed_def signingKeyMatchesScope_def split: signing_scope.splits)

lemma with_signing_key_Some:
  assumes "with_signing_key keys r body = Inr (Some s)"
  obtains k where "k \<in> set keys" "licensed k r" "body k = Inr (Some s)"
  using assms selected_licensed [of keys r] that
  by (auto simp: with_signing_key_def and_then_Inr split: option.splits)


subsection \<open>Providers\<close>

definition signed_with :: "signing_key_record \<Rightarrow> custody_signature \<Rightarrow> bool" where
  "signed_with k s \<longleftrightarrow> s = custody_signature_of k (cs_signature s) (cs_source s)"

locale signing_custody =
  fixes sign :: custody_provider
    and keys :: "signing_key_record list"
  assumes licensed_only: "sign r = Inr (Some s) \<Longrightarrow> \<exists>k \<in> set keys. licensed k r \<and> signed_with k s"

lemma more_keys: "signing_custody p ks \<Longrightarrow> set ks \<subseteq> set keys \<Longrightarrow> signing_custody p keys"
  unfolding signing_custody_def by blast

lemma licensed_witness:
  "k \<in> set keys \<Longrightarrow> licensed k r \<Longrightarrow> \<exists>k' \<in> set keys. licensed k' r \<and> signed_with k' (custody_signature_of k sig source)"
  by (auto simp: signed_with_def custody_signature_of_def)

lemma payload_signed:
  "some_signature (signEd25519Payload sign payload pem k source) = Inr (Some s) \<longleftrightarrow>
     sk_algorithm_id k = ''ed25519'' \<and> (\<exists>sig. sign payload pem = Inr sig \<and> s = custody_signature_of k sig source)"
  by (auto simp: some_signature_def signEd25519Payload_def split: sum.splits)

interpretation static_custody: signing_custody "static_sign sign keys materials source" keys
  for sign keys materials source
  by unfold_locales
     (auto simp: static_sign_def payload_signed split: option.splits elim!: with_signing_key_Some
       intro: licensed_witness)

interpretation environment_custody: signing_custody "environment_sign sign keys env" keys for sign keys env
  by unfold_locales
     (auto simp: environment_sign_def payload_signed Let_def split: option.splits if_splits
       elim!: with_signing_key_Some
       intro: licensed_witness)

interpretation file_custody: signing_custody "file_sign sign H keys options" keys for sign H keys options
proof unfold_locales
  fix r s
  assume "file_sign sign H keys options r = Inr (Some s)"
  then obtain k x where k: "k \<in> set keys" "licensed k r"
    and x: "(case keep_truthy x of None \<Rightarrow> Inr None
       | Some path \<Rightarrow> (case readFile H path of
            Inl cause \<Rightarrow> Inl (SigningCustodyError (''Unable to load private signing material for '' @ sk_key_id k @
              '' from '' @ sk_private_key_material_ref k @ ''.'') (OtherCause cause))
          | Inr pem \<Rightarrow> some_signature (signEd25519Payload sign (cr_payload r) pem k Signing_filesystem)))
       = Inr (Some s)"
    unfolding file_sign_def and_then_Inr by (elim with_signing_key_Some) (auto simp: and_then_Inr)
  then show "\<exists>k \<in> set keys. licensed k r \<and> signed_with k s"
    by (cases "keep_truthy x"; cases "readFile H (the (keep_truthy x))")
      (auto simp: payload_signed intro: licensed_witness)
qed

interpretation managed_custody: signing_custody "managed_sign client keys accepted" keys
  for client keys accepted
  by unfold_locales
     (auto simp: managed_sign_def and_then_Inr split: if_splits elim!: with_signing_key_Some
       intro: licensed_witness)

text \<open>A composite of providers, each over some of the keys.\<close>

locale signing_custodians =
  fixes providers :: "custody_provider list"
    and keys :: "signing_key_record list"
  assumes each_provider: "\<forall>p \<in> set providers. signing_custody p keys"

sublocale signing_custodians \<subseteq> composite: signing_custody "composite_sign providers" keys
proof unfold_locales
  fix r s
  assume "composite_sign providers r = Inr (Some s)"
  with each_provider show "\<exists>k \<in> set keys. licensed k r \<and> signed_with k s"
  proof (induction providers)
    case (Cons p ps)
    have p: "signing_custody p keys" using Cons.prems(1) by simp
    show ?case
    proof (cases "\<exists>s. p r = Inr (Some s)")
      case True
      then show ?thesis using Cons.prems(2) signing_custody.licensed_only [OF p] by auto
    next
      case False
      then have "composite_sign ps r = Inr (Some s)"
        using Cons.prems(2) by (auto simp: and_then_Inr split: option.splits)
      then show ?thesis using Cons.IH Cons.prems(1) by simp
    qed
  qed simp
qed

interpretation deployed_custody: signing_custodians
  "[environment_sign sign envKeys env, file_sign sign H fileKeys options, managed_sign client managedKeys accepted,
    static_sign sign staticKeys materials source]" "envKeys @ fileKeys @ managedKeys @ staticKeys"
  for sign envKeys env H fileKeys options client managedKeys accepted staticKeys materials source
proof unfold_locales
  note more = more_keys [where keys = "envKeys @ fileKeys @ managedKeys @ staticKeys"]
  show "\<forall>p \<in> set [environment_sign sign envKeys env, file_sign sign H fileKeys options,
      managed_sign client managedKeys accepted, static_sign sign staticKeys materials source].
      signing_custody p (envKeys @ fileKeys @ managedKeys @ staticKeys)"
    using more [OF environment_custody.signing_custody_axioms, of envKeys sign env]
      more [OF file_custody.signing_custody_axioms, of fileKeys sign H options]
      more [OF managed_custody.signing_custody_axioms, of managedKeys client accepted]
      more [OF static_custody.signing_custody_axioms, of staticKeys sign materials source] by auto
qed


subsection \<open>Signed bodies\<close>

lemma set_props_simps [simp]:
  "set_props [] kvs = kvs"
  "set_props ((k, v) # us) kvs = set_props us (js_map_set k v kvs)"
  by (simp_all add: set_props_def)

lemma get_set_props:
  "get_prop (JObj (set_props us kvs)) k =
     (case map_of (rev us) k of Some v \<Rightarrow> v | None \<Rightarrow> get_prop (JObj kvs) k)"
proof (induction us arbitrary: kvs rule: rev_induct)
  case (snoc u us)
  then show ?case by (cases u) (simp add: set_props_def get_prop_def update_conv')
qed (simp add: get_prop_def)

lemma filter_update:
  "\<not> Q k \<Longrightarrow> filter (\<lambda>(k, v). Q k) (js_map_set k v kvs) = filter (\<lambda>(k, v). Q k) kvs"
  by (induction kvs) auto

lemma strip_set_props:
  "\<forall>(k, v) \<in> set us. k \<in> set signature_fields \<Longrightarrow>
     stripSignatureMetadata (JObj (set_props us kvs)) = stripSignatureMetadata (JObj kvs)"
proof (induction us arbitrary: kvs)
  case (Cons u us)
  then show ?case using filter_update [of "\<lambda>k. k \<notin> set signature_fields" "fst u" "snd u" kvs] by (cases u) simp
qed simp

lemma normalized_fields:
  "get_prop (JObj (normalizeSigningBody input)) ''signed_by'' = JStr (gi_signed_by input)"
  "get_prop (JObj (normalizeSigningBody input)) ''root_program_id'' = JStr (gi_root_program_id input)"
  "get_prop (JObj (normalizeSigningBody input)) ''delegated_authority_id'' =
     (case keep_truthy (gi_delegated_authority_id input) of
        Some d \<Rightarrow> JStr d | None \<Rightarrow> get_prop (JObj (spread (gi_body input))) ''delegated_authority_id'')"
  "get_prop (JObj (normalizeSigningBody input)) ''accepted_algorithm_ids'' =
     get_prop (JObj (spread (gi_body input))) ''accepted_algorithm_ids''"
  unfolding normalizeSigningBody_def get_set_props
  by (cases "keep_truthy (gi_delegated_authority_id input)"; simp add: opt_prop_def)+

text \<open>The signature fields are outside of the payload that they sign.\<close>

lemma signed_payload:
  assumes "signTrustArtifact P custody input = Inr r"
  shows "trustSignaturePayload P (gs_body r) = cr_payload (custody_request_of P input)"
    "\<exists>s. custody (custody_request_of P input) = Inr (Some s) \<and> gs_signer_id r = cs_signer_id s \<and>
       gs_key_id r = cs_key_id s \<and> gs_algorithm_id r = cs_algorithm_id s \<and>
       gs_private_key_material_ref r = cs_private_key_material_ref s \<and> gs_source r = cs_source s \<and>
       get_prop (gs_body r) ''signature'' = JStr (cs_signature s) \<and>
       get_prop (gs_body r) ''signature_algorithm_id'' = JStr (cs_algorithm_id s)"
    "get_prop (gs_body r) ''signature_input'' = JStr trustSignatureInput"
    "get_prop (gs_body r) ''signature_status'' = JStr trustSignatureStatus"
    "get_prop (gs_body r) ''signed_by'' = JStr (gi_signed_by input)"
    "get_prop (gs_body r) ''root_program_id'' = JStr (gi_root_program_id input)"
    "\<exists>kvs. gs_body r = JObj kvs"
proof -
  obtain s where s: "custody (custody_request_of P input) = Inr (Some s)"
    and r: "r = \<lparr>gs_body = JObj (set_props
               [(''signature_algorithm_id'', JStr (cs_algorithm_id s)), (''signature_input'', JStr trustSignatureInput),
                (''signature'', JStr (cs_signature s)), (''signature_status'', JStr trustSignatureStatus)]
               (normalizeSigningBody input)),
            gs_signer_id = cs_signer_id s, gs_key_id = cs_key_id s, gs_algorithm_id = cs_algorithm_id s,
            gs_private_key_material_ref = cs_private_key_material_ref s, gs_source = cs_source s\<rparr>"
    using assms by (auto simp: signTrustArtifact_def and_then_Inr split: option.splits)
  let ?us = "[(''signature_algorithm_id'', JStr (cs_algorithm_id s)), (''signature_input'', JStr trustSignatureInput),
      (''signature'', JStr (cs_signature s)), (''signature_status'', JStr trustSignatureStatus)]"
  have "\<forall>(k, v) \<in> set ?us. k \<in> set signature_fields" by (simp add: signature_fields_def)
  from strip_set_props [OF this, of "normalizeSigningBody input"]
  show "trustSignaturePayload P (gs_body r) = cr_payload (custody_request_of P input)"
    unfolding r trustSignaturePayload_def custody_request_of_def by (simp only: signing_result.simps custody_request.simps)
  have body: "gs_body r = JObj (set_props ?us (normalizeSigningBody input))" by (simp only: r signing_result.simps)
  note get = get_set_props [of ?us "normalizeSigningBody input", folded body]
  show "\<exists>s. custody (custody_request_of P input) = Inr (Some s) \<and> gs_signer_id r = cs_signer_id s \<and>
       gs_key_id r = cs_key_id s \<and> gs_algorithm_id r = cs_algorithm_id s \<and>
       gs_private_key_material_ref r = cs_private_key_material_ref s \<and> gs_source r = cs_source s \<and>
       get_prop (gs_body r) ''signature'' = JStr (cs_signature s) \<and>
       get_prop (gs_body r) ''signature_algorithm_id'' = JStr (cs_algorithm_id s)"
    using s by (intro exI [of _ s]) (simp add: get, simp add: r)
  show "get_prop (gs_body r) ''signature_input'' = JStr trustSignatureInput"
    "get_prop (gs_body r) ''signature_status'' = JStr trustSignatureStatus" by (simp_all add: get)
  show "get_prop (gs_body r) ''signed_by'' = JStr (gi_signed_by input)"
    "get_prop (gs_body r) ''root_program_id'' = JStr (gi_root_program_id input)"
    by (simp_all add: get normalized_fields)
  show "\<exists>kvs. gs_body r = JObj kvs" by (simp add: body)
qed


subsection \<open>Who signs\<close>

definition fx_sign :: ed25519_sign where
  "fx_sign payload pem = Inr (''signed with '' @ pem)"

definition fx_materials :: "(string \<times> string) list" where
  "fx_materials = fixturePrivateKeyMaterialByRef ''root'' ''authority''"

definition fx_no_files :: file_host where
  "fx_no_files = \<lparr>fileURLToPath = (\<lambda>_. None), isAbsolute = (\<lambda>_. False), resolve_path = (\<lambda>d p. p),
     readFile = (\<lambda>_. Inl JNull), cwd = []\<rparr>"

definition fx_manifest_input :: signing_input where
  "fx_manifest_input =
     \<lparr>gi_body = JObj [(''artifact_type'', JStr ''root_manifest''), (''signature'', JStr ''old'')],
      gi_signed_by = ''root:qrtrust-demo:2026'', gi_root_program_id = ''root:qrtrust-demo:2026'',
      gi_accepted_algorithm_ids = None, gi_delegated_authority_id = None, gi_key_id = None\<rparr>"

abbreviation deployed_sign where
  "deployed_sign sign envKeys env H fileKeys options client managedKeys accepted staticKeys materials source \<equiv>
     composite_sign [environment_sign sign envKeys env, file_sign sign H fileKeys options,
       managed_sign client managedKeys accepted, static_sign sign staticKeys materials source]"

text \<open>
  C33. Over the composite of the four custody providers (environment, files, managed client and static
  materials, in this order, each with any keys) the artifact signer signs only with a registered signing key that is active, belongs to
  the party the body names as its signer, has one of the accepted algorithms and the scope of the
  request: a root key signs for its own root only, any other key under the delegated authority of the
  request only, and a request that names a key is signed with that key. The signed body names the
  signer and the root of the request and the algorithm of the key.
\<close>

theorem only_licensed_keys_sign:
  assumes "signTrustArtifact P (deployed_sign sign envKeys env H fileKeys options client managedKeys accepted
      staticKeys materials source) input = Inr r"
  shows "\<exists>k \<in> set (envKeys @ fileKeys @ managedKeys @ staticKeys).
     sk_status k = Key_active \<and> sk_key_id k = gs_key_id r \<and>
     sk_signer_id k = gi_signed_by input \<and> gs_signer_id r = gi_signed_by input \<and>
     sk_algorithm_id k \<in> set (case gi_accepted_algorithm_ids input of None \<Rightarrow> [''ed25519''] | Some ids \<Rightarrow> ids) \<and>
     (case sk_scope k of
        Sign_root_program \<Rightarrow> gi_signed_by input = gi_root_program_id input
      | Sign_delegated_authority \<Rightarrow> gi_delegated_authority_id input = Some (gi_signed_by input) \<and>
          sk_delegated_authority_id k = Some (gi_signed_by input)
      | Sign_issuer \<Rightarrow> sk_delegated_authority_id k \<noteq> None \<and>
          sk_delegated_authority_id k = gi_delegated_authority_id input) \<and>
     (\<forall>i. keep_truthy (gi_key_id input) = Some i \<longrightarrow> gs_key_id r = i) \<and>
     get_prop (gs_body r) ''signed_by'' = JStr (sk_signer_id k) \<and>
     get_prop (gs_body r) ''root_program_id'' = JStr (gi_root_program_id input) \<and>
     get_prop (gs_body r) ''signature_algorithm_id'' = JStr (sk_algorithm_id k)"
proof -
  let ?q = "custody_request_of P input"
  obtain s where s: "deployed_sign sign envKeys env H fileKeys options client managedKeys accepted
      staticKeys materials source ?q = Inr (Some s)"
    and gs: "gs_signer_id r = cs_signer_id s" "gs_key_id r = cs_key_id s"
      "get_prop (gs_body r) ''signature_algorithm_id'' = JStr (cs_algorithm_id s)"
    using signed_payload(2) [OF assms] by blast
  obtain k where k: "k \<in> set (envKeys @ fileKeys @ managedKeys @ staticKeys)" "licensed k ?q" "signed_with k s"
    using deployed_custody.composite.licensed_only [OF s] by blast
  have fields: "cs_signer_id s = sk_signer_id k" "cs_key_id s = sk_key_id k" "cs_algorithm_id s = sk_algorithm_id k"
    using k(3) unfolding signed_with_def by (metis custody_signature_of_def custody_signature.select_convs)+
  have request: "cr_signed_by ?q = gi_signed_by input" "cr_root_program_id ?q = gi_root_program_id input"
    "cr_delegated_authority_id ?q = keep_truthy (gi_delegated_authority_id input)"
    "keep_truthy (cr_key_id ?q) = keep_truthy (gi_key_id input)"
    "accepted_signing_algorithms ?q =
       (case gi_accepted_algorithm_ids input of None \<Rightarrow> [''ed25519''] | Some ids \<Rightarrow> ids)"
    by (auto simp: custody_request_of_def accepted_signing_algorithms_def keep_truthy_def split: option.splits)
  have signer: "sk_signer_id k = gi_signed_by input" using licensed_signer [OF k(2)] by (simp add: request)
  have scope: "case sk_scope k of
        Sign_root_program \<Rightarrow> gi_signed_by input = gi_root_program_id input
      | Sign_delegated_authority \<Rightarrow> gi_delegated_authority_id input = Some (gi_signed_by input) \<and>
          sk_delegated_authority_id k = Some (gi_signed_by input)
      | Sign_issuer \<Rightarrow> sk_delegated_authority_id k \<noteq> None \<and>
          sk_delegated_authority_id k = gi_delegated_authority_id input"
    using k(2) by (cases "sk_scope k")
      (auto simp: licensed_def signingKeyMatchesScope_def request keep_truthy_def truthy_str_def split: option.splits if_splits)
  have named: "keep_truthy (gi_key_id input) = Some i \<Longrightarrow> sk_key_id k = i" for i
    using k(2) by (simp add: licensed_def request)
  have k': "sk_status k = Key_active" "sk_algorithm_id k \<in>
      set (case gi_accepted_algorithm_ids input of None \<Rightarrow> [''ed25519''] | Some ids \<Rightarrow> ids)"
    using k(2) by (simp_all add: licensed_def request)
  show ?thesis
    using k(1) k' signer scope named gs fields signed_payload(5,6) [OF assms] by (intro bexI [of _ k]) auto
qed

theorem only_licensed_keys_sign_witness:
  "\<exists>k \<in> set ([] @ [] @ [] @ demo_signing_keys). sk_status k = Key_active \<and>
     sk_key_id k = tk_key_id demoRootTrustKey \<and> sk_signer_id k = ''root:qrtrust-demo:2026''"
proof -
  obtain r where r: "signTrustArtifact fx_platform (deployed_sign fx_sign [] (\<lambda>_. None) fx_no_files []
      \<lparr>fo_baseDirectory = None, fo_allowAbsolutePaths = None\<rparr> (\<lambda>_ _ _. Inr []) [] None
      demo_signing_keys fx_materials Signing_fixture) fx_manifest_input = Inr r"
    and key: "gs_key_id r = tk_key_id demoRootTrustKey"
  proof -
    have "case signTrustArtifact fx_platform (deployed_sign fx_sign [] (\<lambda>_. None) fx_no_files []
      \<lparr>fo_baseDirectory = None, fo_allowAbsolutePaths = None\<rparr> (\<lambda>_ _ _. Inr []) [] None
      demo_signing_keys fx_materials Signing_fixture) fx_manifest_input of
        Inl _ \<Rightarrow> False | Inr r \<Rightarrow> gs_key_id r = tk_key_id demoRootTrustKey" by code_simp
    then show thesis by (auto split: sum.splits intro: that)
  qed
  have signer: "gi_signed_by fx_manifest_input = ''root:qrtrust-demo:2026''" by code_simp
  show ?thesis using only_licensed_keys_sign [OF r] unfolding key signer by blast
qed


subsection \<open>What the signer signs, the verifier accepts\<close>

text \<open>The lookup that the verifier makes for a body signed for an input.\<close>

definition verification_query :: "signing_input \<Rightarrow> string list \<Rightarrow> trust_key_lookup_input" where
  "verification_query input algorithms =
     \<lparr>li_signed_by = gi_signed_by input, li_root_program_id = gi_root_program_id input,
      li_accepted_algorithm_ids = algorithms,
      li_delegated_authority_id =
        (case keep_truthy (gi_delegated_authority_id input) of
           Some d \<Rightarrow> Some d
         | None \<Rightarrow> keep_truthy (str_opt (get_prop (JObj (spread (gi_body input))) ''delegated_authority_id'')))\<rparr>"

lemma signed_body_lookup:
  assumes "signTrustArtifact P custody input = Inr r"
    and "accepted_algorithms (get_prop (JObj (spread (gi_body input))) ''accepted_algorithm_ids'') = Some algorithms"
  shows "lookup_for_artifact (\<lambda>i. Inr (lookup i)) (gs_body r) = Done (lookup (verification_query input algorithms))"
proof -
  obtain us where us: "gs_body r = JObj (set_props us (normalizeSigningBody input))"
    and keys: "map fst us = [''signature_algorithm_id'', ''signature_input'', ''signature'', ''signature_status'']"
    using assms(1)
    by (auto simp: signTrustArtifact_def and_then_Inr simp del: set_props_simps split: option.splits)
  have other: "get_prop (gs_body r) k = get_prop (JObj (normalizeSigningBody input)) k"
    if "k \<notin> set (map fst us)" for k
    using that by (simp add: us get_set_props map_of_eq_None_iff [THEN iffD2])
  have "keep_truthy (str_opt (get_prop (gs_body r) ''delegated_authority_id'')) =
      li_delegated_authority_id (verification_query input algorithms)"
    using keep_str_opt keep_truthy_Some
    by (subst other) (auto simp: keys normalized_fields verification_query_def keep_truthy_def truthy_str_def
        split: option.splits)
  moreover have "get_prop (gs_body r) ''accepted_algorithm_ids'' =
      get_prop (JObj (spread (gi_body input))) ''accepted_algorithm_ids''"
    by (subst other) (simp_all add: keys normalized_fields)
  ultimately show ?thesis
    using assms(2) signed_payload(5,6) [OF assms(1)]
    by (simp add: lookup_for_artifact_def verification_query_def)
qed

text \<open>The loaded material of a registry key verifies what is signed with a private key.\<close>

definition pairs_with ::
  "platform \<Rightarrow> ed25519_sign \<Rightarrow> key_material_loader \<Rightarrow> trust_key_record \<Rightarrow> string \<Rightarrow> bool" where
  "pairs_with P sign load k pem \<longleftrightarrow>
     (\<exists>m. load k = Inr (Some m) \<and>
        (\<forall>payload sig. sign payload pem = Inr sig \<longrightarrow>
           sig \<noteq> [] \<and> verify_ed25519 P payload (km_public_key_material_pem m) (JStr sig)))"

lemma static_sign_Some:
  assumes "static_sign sign keys materials source request = Inr (Some s)"
  obtains k pem where "k \<in> set keys" "licensed k request" "sk_algorithm_id k = ''ed25519''"
    "map_of materials (sk_private_key_material_ref k) = Some pem" "sign (cr_payload request) pem = Inr (cs_signature s)"
    "cs_algorithm_id s = ''ed25519''"
  using assms
  by (auto simp: static_sign_def payload_signed keep_truthy_def custody_signature_of_def
      split: option.splits if_splits elim!: with_signing_key_Some)

lemma signing_round_trip:
  assumes signed: "signTrustArtifact P (static_sign sign keys materials source) input = Inr r"
    and algorithms: "accepted_algorithms (get_prop (JObj (spread (gi_body input))) ''accepted_algorithm_ids'')
      = Some algorithms"
    and usable: "k \<in> set (registry_snapshot rs)" "usable_key (verification_query input algorithms) k"
    and pairs: "\<forall>tk \<in> set (registry_snapshot rs). usable_key (verification_query input algorithms) tk \<longrightarrow>
      (\<forall>sk pem. sk \<in> set keys \<and> licensed sk (custody_request_of P input) \<and>
         map_of materials (sk_private_key_material_ref sk) = Some pem \<longrightarrow> pairs_with P sign load tk pem)"
  shows "verifyTrustArtifact P (\<lambda>i. Inr (lookupSignerKey i rs)) load (gs_body r) =
     Done \<lparr>sv_accepted = True, sv_signer = JStr (gi_signed_by input), sv_reason = Signature_verified\<rparr>"
proof -
  let ?q = "verification_query input algorithms"
  obtain s where s: "static_sign sign keys materials source (custody_request_of P input) = Inr (Some s)"
    and body: "get_prop (gs_body r) ''signature'' = JStr (cs_signature s)"
      "get_prop (gs_body r) ''signature_algorithm_id'' = JStr (cs_algorithm_id s)"
    using signed_payload(2) [OF signed] by blast
  obtain sk pem where sk: "sk \<in> set keys" "licensed sk (custody_request_of P input)"
      "map_of materials (sk_private_key_material_ref sk) = Some pem"
    and sig: "sign (cr_payload (custody_request_of P input)) pem = Inr (cs_signature s)"
      "cs_algorithm_id s = ''ed25519''"
    using static_sign_Some [OF s] by metis
  obtain tk where tk: "lookupSignerKey ?q rs = \<lparr>lr_key = Some tk, lr_reason = None\<rparr>"
      "tk \<in> set (registry_snapshot rs)" "usable_key ?q tk"
    using find_mem_Some [of k _ "usable_key ?q", OF usable] select_Some find_SomeD lookupSignerKey_def by metis
  obtain m where m: "load tk = Inr (Some m)" "cs_signature s \<noteq> []"
      "verify_ed25519 P (cr_payload (custody_request_of P input)) (km_public_key_material_pem m)
         (JStr (cs_signature s))"
    using pairs tk(2,3) sk sig(1) unfolding pairs_with_def by metis
  have "verifyEd25519Signature P (gs_body r) (km_public_key_material_pem m)"
    using m(3) by (simp add: verifyEd25519Signature_def signed_payload(1) [OF signed] body)
  then show ?thesis
    using m(1,2) sig(2)
    by (simp add: verifyTrustArtifact_def signed_body_lookup [OF signed algorithms] tk(1) body
        signed_payload(3,5) [OF signed])
qed

text \<open>
  C34. What the signer signs the verifier accepts: a body signed with static private materials is
  accepted, as signed by the party of the request, by a verifier whose registry holds a usable key for
  it, when the public material of every usable key verifies the signatures of the private material
  that may sign the request. The signature is made over the normalised body before the signature
  fields are set, and verified over the stored body after they are stripped.
\<close>

theorem signed_artifact_is_accepted:
  assumes signed: "signTrustArtifact P (static_sign sign keys materials source) input = Inr r"
    and algorithms: "accepted_algorithms (get_prop (JObj (spread (gi_body input))) ''accepted_algorithm_ids'')
      = Some algorithms"
    and usable: "k \<in> set (registry_snapshot rs)" "usable_key (verification_query input algorithms) k"
    and pairs: "\<forall>tk \<in> set (registry_snapshot rs). usable_key (verification_query input algorithms) tk \<longrightarrow>
      (\<forall>sk pem. sk \<in> set keys \<and> licensed sk (custody_request_of P input) \<and>
         map_of materials (sk_private_key_material_ref sk) = Some pem \<longrightarrow> pairs_with P sign load tk pem)"
  shows "verifyTrustArtifact P (\<lambda>i. Inr (lookupSignerKey i rs)) load (gs_body r) =
     Done \<lparr>sv_accepted = True, sv_signer = JStr (gi_signed_by input), sv_reason = Signature_verified\<rparr>"
  using assms by (rule signing_round_trip)

definition fx_pair_sign :: ed25519_sign where
  "fx_pair_sign payload pem = Inr (if pem = ''root'' then demoRootPublicKeyPem else demoDelegatedAuthorityPublicKeyPem)"

theorem signed_artifact_is_accepted_witness:
  "\<exists>r. signTrustArtifact fx_platform (fixture_sign fx_pair_sign ''root'' ''authority'') fx_manifest_input = Inr r \<and>
     verifyTrustArtifact fx_platform (\<lambda>i. Inr (lookupSignerKey i (makeInMemoryTrustKeyRegistry [demoRootTrustKey])))
       inline_load (gs_body r) =
     Done \<lparr>sv_accepted = True, sv_signer = JStr ''root:qrtrust-demo:2026'', sv_reason = Signature_verified\<rparr>"
proof -
  obtain r where r: "signTrustArtifact fx_platform (static_sign fx_pair_sign demo_signing_keys fx_materials
      Signing_fixture) fx_manifest_input = Inr r"
  proof -
    have "isl (signTrustArtifact fx_platform (static_sign fx_pair_sign demo_signing_keys fx_materials
      Signing_fixture) fx_manifest_input) = False" by code_simp
    then show thesis by (auto simp: isl_def intro: that) (metis sum.exhaust that)
  qed
  have registry: "set (registry_snapshot (makeInMemoryTrustKeyRegistry [demoRootTrustKey])) = {demoRootTrustKey}"
    by code_simp
  have algorithms: "accepted_algorithms (get_prop (JObj (spread (gi_body fx_manifest_input)))
      ''accepted_algorithm_ids'') = Some [''ed25519'']" by code_simp
  have usable: "usable_key (verification_query fx_manifest_input [''ed25519'']) demoRootTrustKey" by code_simp
  have keys: "list_all (\<lambda>sk. licensed sk (custody_request_of fx_platform fx_manifest_input) \<longrightarrow>
      sk = demoRootSigningKey) demo_signing_keys" by code_simp
  have material: "map_of fx_materials (sk_private_key_material_ref demoRootSigningKey) = Some ''root''" by code_simp
  have load: "case inline_load demoRootTrustKey of
      Inr (Some m) \<Rightarrow> km_public_key_material_pem m = demoRootPublicKeyPem | _ \<Rightarrow> False"
    and pem: "demoRootPublicKeyPem \<noteq> []" by code_simp+
  have pairs: "pairs_with fx_platform fx_pair_sign inline_load demoRootTrustKey ''root''"
    using load pem by (auto simp: pairs_with_def fx_pair_sign_def fx_platform_def split: sum.splits option.splits)
  have "verifyTrustArtifact fx_platform (\<lambda>i. Inr (lookupSignerKey i (makeInMemoryTrustKeyRegistry [demoRootTrustKey])))
      inline_load (gs_body r) =
     Done \<lparr>sv_accepted = True, sv_signer = JStr (gi_signed_by fx_manifest_input), sv_reason = Signature_verified\<rparr>"
    by (rule signed_artifact_is_accepted [OF r algorithms _ usable])
      (use registry keys material pairs in \<open>auto simp: list_all_iff\<close>)
  moreover have "gi_signed_by fx_manifest_input = ''root:qrtrust-demo:2026''" by code_simp
  ultimately show ?thesis using r by (auto simp: fixture_sign_def fx_materials_def)
qed

text \<open>
  A key that is named by its id is taken without a look at its root: a key of one root program signs
  under another root, when both know the delegated authority by the same id.
\<close>

lemma named_key_signs_for_another_root:
  "\<exists>k \<in> set demo_signing_keys. sk_root_program_id k = ''root:qrtrust-demo:2026'' \<and>
     selectSigningKey demo_signing_keys
       \<lparr>cr_payload = JNull, cr_signed_by = ''authority:qrtrust-demo:merchant-web'',
        cr_root_program_id = ''root:elsewhere'', cr_accepted_algorithm_ids = None,
        cr_delegated_authority_id = Some ''authority:qrtrust-demo:merchant-web'',
        cr_key_id = Some (sk_key_id demoDelegatedAuthoritySigningKey)\<rparr> = Inr (Some k)"
proof -
  have "demoDelegatedAuthoritySigningKey \<in> set demo_signing_keys" by (simp add: demo_signing_keys_def)
  moreover have "sk_root_program_id demoDelegatedAuthoritySigningKey = ''root:qrtrust-demo:2026'' \<and>
     selectSigningKey demo_signing_keys
       \<lparr>cr_payload = JNull, cr_signed_by = ''authority:qrtrust-demo:merchant-web'',
        cr_root_program_id = ''root:elsewhere'', cr_accepted_algorithm_ids = None,
        cr_delegated_authority_id = Some ''authority:qrtrust-demo:merchant-web'',
        cr_key_id = Some (sk_key_id demoDelegatedAuthoritySigningKey)\<rparr> = Inr (Some demoDelegatedAuthoritySigningKey)"
    by code_simp
  ultimately show ?thesis by blast
qed

end
