(* ===== verification/GovernanceFacts.thy ===== *)
theory GovernanceFacts
  imports GovernanceSource SigningCustodyFacts VerifierSyncFacts MaterializationFacts
begin

text \<open>
  Facts on governance bundles: what a planned bundle holds, that its signed artifacts pass the gate
  of the verifier sync and form a chain that materialises, and what its publication stores and
  announces.
\<close>

subsection \<open>Aligned bodies\<close>

lemma update_same: "map_of kvs k = Some v \<Longrightarrow> js_map_set k v kvs = kvs"
  by (induction kvs) auto

lemma strip_update:
  assumes "map_of kvs k = Some old" "f new = f old"
  shows "map (\<lambda>(k, v). (k, f v)) (filter (\<lambda>(k, v). Q k) (js_map_set k new kvs)) =
     map (\<lambda>(k, v). (k, f v)) (filter (\<lambda>(k, v). Q k) kvs)"
  using assms by (induction kvs) auto

lemma strip_obj:
  "stripSignatureMetadata (JObj kvs) = JObj (map (\<lambda>(k, v). (k, stripSignatureMetadata v))
     (filter (\<lambda>(k, v). k \<notin> set signature_fields) kvs))"
  by simp

lemma aligned_payload:
  assumes "get_prop (JObj kvs) ''publication'' = JObj pub"
    and "get_prop (JObj pub) ''signed_by'' = get_prop (JObj kvs) ''signed_by''"
    and "get_prop (JObj kvs) ''signed_by'' \<noteq> JUndefined"
  shows "trustSignaturePayload P (signatureAlignedPublicationBody (JObj kvs)) = trustSignaturePayload P (JObj kvs)"
proof -
  let ?pub = "set_props [(''signed_by'', get_prop (JObj kvs) ''signed_by''),
      (''signature_status'', get_prop (JObj kvs) ''signature_status'')] pub"
  have kvs: "map_of kvs ''publication'' = Some (JObj pub)"
    using assms(1) by (auto simp: get_prop_def split: option.splits)
  have "map_of pub ''signed_by'' = Some (get_prop (JObj kvs) ''signed_by'')"
    using assms(2,3) by (auto simp: get_prop_def split: option.splits)
  then have "?pub = js_map_set ''signature_status'' (get_prop (JObj kvs) ''signature_status'') pub"
    by (simp only: set_props_simps update_same)
  then have strip: "stripSignatureMetadata (JObj ?pub) = stripSignatureMetadata (JObj pub)"
    using strip_set_props [of "[(''signature_status'', get_prop (JObj kvs) ''signature_status'')]" pub]
    by (simp add: signature_fields_def)
  have "signatureAlignedPublicationBody (JObj kvs) = JObj (js_map_set ''publication'' (JObj ?pub) kvs)"
    by (simp only: signatureAlignedPublicationBody_def assms(1) jsval.case spread_def)
  with strip_update [OF kvs, where f = stripSignatureMetadata and Q = "\<lambda>k. k \<notin> set signature_fields", OF strip]
  show ?thesis unfolding trustSignaturePayload_def strip_obj by simp
qed

lemma aligned_other:
  "k \<noteq> ''publication'' \<Longrightarrow> get_prop (signatureAlignedPublicationBody (JObj kvs)) k = get_prop (JObj kvs) k"
  by (auto simp: signatureAlignedPublicationBody_def get_prop_def spread_def update_conv' split: jsval.splits)

lemma aligned_publication:
  "get_prop (JObj kvs) ''publication'' = JObj pub \<Longrightarrow>
   get_prop (signatureAlignedPublicationBody (JObj kvs)) ''publication'' =
     JObj (set_props [(''signed_by'', get_prop (JObj kvs) ''signed_by''),
       (''signature_status'', get_prop (JObj kvs) ''signature_status'')] pub)"
  by (simp add: signatureAlignedPublicationBody_def spread_def get_prop_def update_conv' del: set_props_simps)

lemma aligned_record: "\<exists>kvs'. signatureAlignedPublicationBody (JObj kvs) = JObj kvs'"
  by (auto simp: signatureAlignedPublicationBody_def split: jsval.splits)


subsection \<open>Signed bodies of a plan\<close>

text \<open>What signing leaves of a body, and what it sets.\<close>

definition set_by_signing :: "string list" where
  "set_by_signing = [''signed_by'', ''root_program_id'', ''delegated_authority_id'', ''publication'',
     ''signature_algorithm_id'', ''signature_input'', ''signature'', ''signature_status'']"

lemma signPublicationInput_Inr:
  "signPublicationInput signer by_id root_id authority input = Inr signed \<longleftrightarrow>
     (\<exists>r. signer \<lparr>gi_body = ap_body input, gi_signed_by = by_id, gi_root_program_id = root_id,
        gi_accepted_algorithm_ids = None, gi_delegated_authority_id = keep_truthy authority, gi_key_id = None\<rparr> = Inr r \<and>
        signed = input\<lparr>ap_body := signatureAlignedPublicationBody (gs_body r)\<rparr>)"
  by (auto simp: signPublicationInput_def and_then_Inr)

lemma verify_cong:
  assumes "\<And>k. k \<in> {''signed_by'', ''root_program_id'', ''delegated_authority_id'', ''accepted_algorithm_ids'',
      ''signature_algorithm_id'', ''signature_input'', ''signature''} \<Longrightarrow> get_prop a k = get_prop b k"
    and "trustSignaturePayload P a = trustSignaturePayload P b"
  shows "verifyTrustArtifact P lookup load a = verifyTrustArtifact P lookup load b"
proof -
  have same: "get_prop a ''signed_by'' = get_prop b ''signed_by''"
    "get_prop a ''root_program_id'' = get_prop b ''root_program_id''"
    "get_prop a ''delegated_authority_id'' = get_prop b ''delegated_authority_id''"
    "get_prop a ''accepted_algorithm_ids'' = get_prop b ''accepted_algorithm_ids''"
    "get_prop a ''signature_algorithm_id'' = get_prop b ''signature_algorithm_id''"
    "get_prop a ''signature_input'' = get_prop b ''signature_input''"
    "get_prop a ''signature'' = get_prop b ''signature''"
    by (rule assms(1), simp)+
  show ?thesis
    unfolding verifyTrustArtifact_def lookup_for_artifact_def verifyEd25519Signature_def rejected_def same assms(2)
    by (rule refl)
qed

text \<open>The signing input of an artifact.\<close>

definition plan_signing_input :: "string \<Rightarrow> string option \<Rightarrow> artifact_publication_input \<Rightarrow> signing_input" where
  "plan_signing_input by_id authority input =
     \<lparr>gi_body = ap_body input, gi_signed_by = by_id, gi_root_program_id = ap_root_program_id input,
      gi_accepted_algorithm_ids = None, gi_delegated_authority_id = keep_truthy authority, gi_key_id = None\<rparr>"

lemma signed_artifact:
  assumes signed: "signPublicationInput (signTrustArtifact P custody) by_id (ap_root_program_id input) authority input
      = Inr signed"
    and body: "ap_body input = JObj kvs" "get_prop (JObj kvs) ''publication'' = JObj pub"
  obtains r where "signTrustArtifact P custody (plan_signing_input by_id authority input) = Inr r"
    "signed = input\<lparr>ap_body := signatureAlignedPublicationBody (gs_body r)\<rparr>"
    "\<And>k. k \<notin> set set_by_signing \<Longrightarrow> get_prop (ap_body signed) k = get_prop (JObj kvs) k"
    "get_prop (ap_body signed) ''signed_by'' = JStr by_id"
    "get_prop (ap_body signed) ''root_program_id'' = JStr (ap_root_program_id input)"
    "get_prop (ap_body signed) ''delegated_authority_id'' =
       (case keep_truthy authority of Some d \<Rightarrow> JStr d | None \<Rightarrow> get_prop (JObj kvs) ''delegated_authority_id'')"
    "get_prop (ap_body signed) ''signature_status'' = JStr trustSignatureStatus"
    "get_prop (ap_body signed) ''publication'' =
       JObj (set_props [(''signed_by'', JStr by_id), (''signature_status'', JStr trustSignatureStatus)] pub)"
    "is_record (ap_body signed)"
    "\<And>lookup load. get_prop (JObj pub) ''signed_by'' = JStr by_id \<Longrightarrow>
       verifyTrustArtifact P lookup load (ap_body signed) = verifyTrustArtifact P lookup load (gs_body r)"
proof -
  let ?i = "plan_signing_input by_id authority input"
  obtain r where r: "signTrustArtifact P custody ?i = Inr r"
    and s: "signed = input\<lparr>ap_body := signatureAlignedPublicationBody (gs_body r)\<rparr>"
    using signed by (auto simp: signPublicationInput_Inr plan_signing_input_def)
  obtain us where us: "gs_body r = JObj (set_props us (normalizeSigningBody ?i))"
    and keys: "set (map fst us) \<subseteq> {''signature_algorithm_id'', ''signature_input'', ''signature'', ''signature_status''}"
    using r by (auto simp: signTrustArtifact_def and_then_Inr simp del: set_props_simps split: option.splits)
  have unsigned: "get_prop (gs_body r) k = get_prop (JObj (normalizeSigningBody ?i)) k"
    if "k \<notin> {''signature_algorithm_id'', ''signature_input'', ''signature'', ''signature_status''}" for k
  proof -
    have "k \<notin> fst ` set (rev us)" using that keys by auto
    then have "map_of (rev us) k = None" by (simp add: map_of_eq_None_iff)
    then show ?thesis by (simp add: us get_set_props del: get_prop_obj)
  qed
  have norm: "get_prop (JObj (normalizeSigningBody ?i)) k = get_prop (JObj kvs) k"
    if "k \<notin> {''signed_by'', ''root_program_id'', ''delegated_authority_id''}" for k
    using that unfolding normalizeSigningBody_def get_set_props
    by (auto simp: plan_signing_input_def body(1) spread_def opt_prop_def simp del: get_prop_obj split: option.splits)
  have publication: "get_prop (gs_body r) ''publication'' = JObj pub"
    by (simp add: unsigned norm body(2) del: get_prop_obj)
  have by_id: "get_prop (gs_body r) ''signed_by'' = JStr by_id"
    "get_prop (gs_body r) ''signature_status'' = JStr trustSignatureStatus"
    "get_prop (gs_body r) ''root_program_id'' = JStr (ap_root_program_id input)"
    using signed_payload(4-6) [OF r] by (simp_all add: plan_signing_input_def)
  have authority: "get_prop (gs_body r) ''delegated_authority_id'' =
      (case keep_truthy authority of Some d \<Rightarrow> JStr d | None \<Rightarrow> get_prop (JObj kvs) ''delegated_authority_id'')"
    using keep_truthy_Some
    by (simp add: unsigned normalized_fields plan_signing_input_def spread_def body(1) keep_truthy_def truthy_str_def
        del: get_prop_obj split: option.splits)
  note rewrite = s us [symmetric]
  show thesis
  proof (rule that [OF r s])
    show "get_prop (ap_body signed) k = get_prop (JObj kvs) k" if "k \<notin> set set_by_signing" for k
      using that aligned_other [of k] unsigned [of k] norm [of k]
      by (auto simp: s us set_by_signing_def simp del: get_prop_obj)
    show "get_prop (ap_body signed) ''signed_by'' = JStr by_id"
      "get_prop (ap_body signed) ''root_program_id'' = JStr (ap_root_program_id input)"
      "get_prop (ap_body signed) ''delegated_authority_id'' =
       (case keep_truthy authority of Some d \<Rightarrow> JStr d | None \<Rightarrow> get_prop (JObj kvs) ''delegated_authority_id'')"
      "get_prop (ap_body signed) ''signature_status'' = JStr trustSignatureStatus"
      using by_id authority unfolding s us by (simp_all add: aligned_other del: get_prop_obj)
    show "get_prop (ap_body signed) ''publication'' =
       JObj (set_props [(''signed_by'', JStr by_id), (''signature_status'', JStr trustSignatureStatus)] pub)"
      using by_id publication unfolding s us by (simp add: aligned_publication del: get_prop_obj set_props_simps)
    show "is_record (ap_body signed)"
      using aligned_record [of "set_props us (normalizeSigningBody ?i)"] by (auto simp: s us)
    show "verifyTrustArtifact P lookup load (ap_body signed) = verifyTrustArtifact P lookup load (gs_body r)"
      if "get_prop (JObj pub) ''signed_by'' = JStr by_id" for lookup load
    proof (rule verify_cong)
      show "trustSignaturePayload P (ap_body signed) = trustSignaturePayload P (gs_body r)"
        using publication by_id that unfolding s us by (simp add: aligned_payload del: get_prop_obj)
      show "get_prop (ap_body signed) k = get_prop (gs_body r) k"
        if "k \<in> {''signed_by'', ''root_program_id'', ''delegated_authority_id'', ''accepted_algorithm_ids'',
          ''signature_algorithm_id'', ''signature_input'', ''signature''}" for k
        using that aligned_other [of k] by (auto simp: s us simp del: get_prop_obj)
    qed
  qed
qed


subsection \<open>Decoded rows\<close>

text \<open>The type of a decoded row.\<close>

definition governance_row_wf :: "governance_row \<Rightarrow> bool" where
  "governance_row_wf row \<longleftrightarrow>
     list_all (\<lambda>s. s \<noteq> [])
       [gr_root_program_id row, gr_delegated_authority_id row, gr_issuer_id row, gr_destination_policy_id row,
        gr_issuer_display_name row, gr_issuer_assurance_tier row, gr_issuer_status_event_ref row] \<and>
     list_all (\<lambda>s. s \<noteq> []) (gr_issuer_certificate_refs row) \<and>
     list_all is_record
       [gr_root_policy_constraints row, gr_delegated_authority_scope row,
        gr_delegated_authority_assurance_requirements row, gr_issuer_assurance_evidence row,
        gr_destination_policy_redirect_policy row, gr_destination_policy_runtime_safety_policy row] \<and>
     list_all (\<lambda>s. s = ''active'')
       [gr_root_status row, gr_delegated_authority_status row, gr_issuer_enrollment_status row,
        gr_issuer_certificate_status row, gr_destination_policy_status row] \<and>
     gr_issuer_status_event_status row \<in> {''active'', ''suspended'', ''revoked'', ''expired'', ''retired''} \<and>
     gr_destination_policy_usage_policy row \<in> {''reusable_public'', ''one_time'', ''time_limited''}"

lemma requireStringValue_Inr: "requireStringValue v f = Inr s \<longleftrightarrow> v = JStr s \<and> s \<noteq> []"
  by (cases v) (auto simp: requireStringValue_def)

lemma requireLiteralValue_Inr: "requireLiteralValue v f allowed = Inr s \<longleftrightarrow> v = JStr s \<and> s \<in> set allowed"
  by (auto simp: requireLiteralValue_def)

lemma object_field_record: "requireObjectField parse row f = Inr v \<Longrightarrow> is_record v"
  by (auto simp: requireObjectField_def and_then_Inr object_value_def split: if_splits)

lemma string_array_nonempty: "requireStringArrayField parse row f = Inr ss \<Longrightarrow> list_all (\<lambda>s. s \<noteq> []) ss"
  by (auto simp: requireStringArrayField_def and_then_Inr requireStringValue_Inr list_all_iff dest!: map_result_mem)

lemma string_field_nonempty: "requireStringField row f = Inr s \<Longrightarrow> s \<noteq> []"
  by (simp add: requireStringField_def requireStringValue_Inr)

lemma literal_field_allowed: "requireLiteralField row f allowed = Inr s \<Longrightarrow> s \<in> set allowed"
  by (simp add: requireLiteralField_def requireLiteralValue_Inr)

lemma literal_fields:
  "requireLiteralField row f [''active''] = Inr s \<Longrightarrow> s = ''active''"
  "requireLiteralField row f [''active'', ''suspended'', ''revoked'', ''expired'', ''retired''] = Inr s \<Longrightarrow>
     s \<in> {''active'', ''suspended'', ''revoked'', ''expired'', ''retired''}"
  "requireLiteralField row f [''reusable_public'', ''one_time'', ''time_limited''] = Inr s \<Longrightarrow>
     s \<in> {''reusable_public'', ''one_time'', ''time_limited''}"
  by (drule literal_field_allowed, simp)+

lemma decoded_row_wf:
  assumes "postgresGovernancePublicationBundleRowFromRecord P parse r = Inr row"
  shows "governance_row_wf row"
  using assms unfolding postgresGovernancePublicationBundleRowFromRecord_def and_then_Inr
  apply (elim exE conjE)
  apply (simp only: sum.inject)
  apply hypsubst
  unfolding governance_row_wf_def governance_row.select_convs list.pred_inject
  by (intro conjI list.pred_inject(1); (erule string_field_nonempty object_field_record string_array_nonempty literal_fields))

lemma decoded_rows_wf:
  "decodePostgresGovernancePublicationRows P parse rs = Inr rows \<Longrightarrow> row \<in> set rows \<Longrightarrow> governance_row_wf row"
  by (auto simp: decodePostgresGovernancePublicationRows_def dest!: map_result_mem decoded_row_wf)


subsection \<open>Planned bodies\<close>

definition plan_publication :: "platform \<Rightarrow> int \<Rightarrow> string \<Rightarrow> string \<Rightarrow> (string \<times> jsval) list" where
  "plan_publication P now by_id until =
     [(''published_at'', JStr (iso_string P now)), (''valid_until'', JStr until),
      (''signed_by'', JStr by_id), (''signature_status'', JStr ''pending_publication_signature'')]"

lemma metadata_Inr:
  "publicationMetadata P now by_id rt = Inr v \<longleftrightarrow>
     (\<exists>until. validUntil P now rt = Inr until \<and> v = JObj (plan_publication P now by_id until))"
  by (auto simp: publicationMetadata_def and_then_Inr plan_publication_def)

lemma planned:
  assumes "planGovernancePublicationFromPostgresRow P row now = Inr (a1, a2, a3, a4)"
  obtains policy where "destinationPolicyProjectionFromRow P row now = Inr policy"
    "rootManifestBodyFromRow P row (governanceArtifactIds row) now = Inr (ap_body a1)"
    "delegatedAuthorityManifestBodyFromRow P row (governanceArtifactIds row) now = Inr (ap_body a2)"
    "issuerRecordBodyFromRow P row (governanceArtifactIds row) now = Inr (ap_body a3)"
    "destinationPolicyBodyFromRow P row policy now = Inr (ap_body a4)"
    "map ap_root_program_id [a1, a2, a3, a4] = replicate 4 (gr_root_program_id row)"
    "map ap_delegated_authority_id [a1, a2, a3, a4] = None # replicate 3 (Some (gr_delegated_authority_id row))"
    "map ap_artifact_id [a1, a2, a3, a4] =
       [ga_root_manifest_artifact_id (governanceArtifactIds row),
        ga_delegated_authority_artifact_id (governanceArtifactIds row),
        ga_issuer_record_artifact_id (governanceArtifactIds row),
        ga_destination_policy_artifact_id (governanceArtifactIds row)]"
    "map ap_eventType [a1, a2, a3, a4] = authorityPublicationEventTypes"
    "map ap_artifact_type [a1, a2, a3, a4] =
       [''root_manifest'', ''delegated_authority_manifest'', ''issuer_record'', ''destination_policy'']"
  using assms unfolding planGovernancePublicationFromPostgresRow_def Let_def and_then_Inr
  apply (elim exE conjE)
  apply (simp only: sum.inject prod.inject)
  apply (elim conjE)
  apply hypsubst
  by (rule that, assumption)
     (simp_all add: source_artifact_def namespaceFromRow_def authorityPublicationEventTypes_def numeral_eq_Suc)

lemma manifest_entries: "js_array_every isTrustKeyManifestEntry (JArr (map trustKeyManifestEntry ks))"
proof -
  have "isTrustKeyManifestEntry (trustKeyManifestEntry k)" for k
    by (cases "tk_status k")
      (simp_all add: isTrustKeyManifestEntry_def trustKeyManifestEntry_def isOneOf_def certificateStatuses_def)
  then show ?thesis by (simp add: js_array_every_def list_all_iff)
qed

lemma every_string [simp]: "js_array_every is_str (strings_json ss)"
  by (simp add: js_array_every_def strings_json_def list_all_iff)

lemma policy_json_recognised:
  "js_array_every isDestinationPolicyDestination (JArr (map rule_json ds))"
  "isRedirectPolicy (redirect_json r)"
proof -
  have "isDestinationPolicyDestination (rule_json d)" for d
    using rule_props [of d] by (auto simp: isDestinationPolicyDestination_def rule_json_def split: option.splits)
  then show "js_array_every isDestinationPolicyDestination (JArr (map rule_json ds))"
    by (simp add: js_array_every_def list_all_iff)
  show "isRedirectPolicy (redirect_json r)"
    using redirect_props [of r] by (simp add: isRedirectPolicy_def redirect_json_def int_json_def)
qed


subsection \<open>The gate of the verifier sync\<close>

text \<open>The form of a body that was signed and aligned.\<close>

definition signed_form ::
  "jsval \<Rightarrow> string \<Rightarrow> string \<Rightarrow> jsval \<Rightarrow> (string \<times> jsval) list \<Rightarrow> (string \<times> jsval) list \<Rightarrow> bool" where
  "signed_form b by_id root_id authority kvs pub \<longleftrightarrow>
     is_record b \<and> (\<forall>k. k \<notin> set set_by_signing \<longrightarrow> get_prop b k = get_prop (JObj kvs) k) \<and>
     get_prop b ''signed_by'' = JStr by_id \<and> get_prop b ''root_program_id'' = JStr root_id \<and>
     get_prop b ''delegated_authority_id'' = authority \<and>
     get_prop b ''signature_status'' = JStr trustSignatureStatus \<and>
     get_prop b ''publication'' =
       JObj (set_props [(''signed_by'', JStr by_id), (''signature_status'', JStr trustSignatureStatus)] pub)"

lemma signed_other: "signed_form b by_id root_id authority kvs pub \<Longrightarrow> k \<notin> set set_by_signing \<Longrightarrow>
    get_prop b k = get_prop (JObj kvs) k"
  by (simp add: signed_form_def)

lemma signed_fields:
  assumes "signed_form b by_id root_id authority kvs pub"
  shows "is_record b" "is_objectish b" "get_prop b ''signed_by'' = JStr by_id" "get_prop b ''root_program_id'' = JStr root_id"
    "get_prop b ''delegated_authority_id'' = authority" "get_prop b ''signature_status'' = JStr trustSignatureStatus"
    "get_prop b ''publication'' =
       JObj (set_props [(''signed_by'', JStr by_id), (''signature_status'', JStr trustSignatureStatus)] pub)"
  using assms by (auto simp: signed_form_def is_record_iff simp del: get_prop_obj set_props_simps)

lemma signed_publication:
  "get_prop (JObj (set_props [(''signed_by'', JStr by_id), (''signature_status'', JStr st)]
     (plan_publication P now by_id until))) ''published_at'' = JStr (iso_string P now)"
  "get_prop (JObj (set_props [(''signed_by'', JStr by_id), (''signature_status'', JStr st)]
     (plan_publication P now by_id until))) ''valid_until'' = JStr until"
  "get_prop (JObj (set_props [(''signed_by'', JStr by_id), (''signature_status'', JStr st)]
     (plan_publication P now by_id until))) ''signed_by'' = JStr by_id"
  "get_prop (JObj (set_props [(''signed_by'', JStr by_id), (''signature_status'', JStr st)]
     (plan_publication P now by_id until))) ''signature_status'' = JStr st"
  by (simp_all add: plan_publication_def)

lemma publication_by: "get_prop (JObj (plan_publication P now by_id until)) ''signed_by'' = JStr by_id"
  by (simp add: plan_publication_def)

lemma gate_accepts:
  assumes "recognizedTrustArtifact b" "trustArtifactScopeMatchesBody b"
    and "verify b = Done \<lparr>sv_accepted = True, sv_signer = s, sv_reason = r\<rparr>"
  shows "signature_gate verify b = Done Gate_accepted"
  using assms by (simp add: signature_gate_def)

lemma root_body_props:
  assumes "rootManifestBodyFromRow P row ids now = Inr b"
  shows "get_prop b ''artifact_type'' = JStr ''root_manifest''" "get_prop b ''schema_version'' = JStr ''0.1.0''"
    "get_prop b ''name'' = JStr (gr_root_name row)"
    "get_prop b ''accepted_algorithm_ids'' = strings_json (gr_root_accepted_algorithm_ids row)"
    "get_prop b ''trust_keys'' = JArr (map trustKeyManifestEntry (gr_root_trust_keys row))"
    "get_prop b ''policy_constraints'' = gr_root_policy_constraints row"
    "get_prop b ''delegated_authorities'' = JArr [JObj
       [(''delegated_authority_id'', JStr (gr_delegated_authority_id row)),
        (''name'', JStr (gr_delegated_authority_name row)),
        (''manifest_ref'', JStr (ga_delegated_authority_artifact_id ids)),
        (''status'', JStr (gr_delegated_authority_status row))]]"
    "get_prop b ''delegated_authority_id'' = JUndefined"
  using assms by (simp_all add: rootManifestBodyFromRow_def and_then_Inr) (elim exE conjE; hypsubst; simp)+

lemma root_manifest_recognised:
  assumes "rootManifestBodyFromRow P row ids now = Inr (JObj kvs)" and wf: "governance_row_wf row"
    and form: "signed_form b by_id (gr_root_program_id row) authority kvs (plan_publication P now by_id until)"
  shows "isRootManifestArtifactBody b" "trustArtifactScopeMatchesBody b"
proof -
  have props: "get_prop b ''artifact_type'' = JStr ''root_manifest''" "get_prop b ''schema_version'' = JStr ''0.1.0''"
    "get_prop b ''name'' = JStr (gr_root_name row)"
    "get_prop b ''accepted_algorithm_ids'' = strings_json (gr_root_accepted_algorithm_ids row)"
    "get_prop b ''trust_keys'' = JArr (map trustKeyManifestEntry (gr_root_trust_keys row))"
    "get_prop b ''policy_constraints'' = gr_root_policy_constraints row"
    "get_prop b ''delegated_authorities'' = JArr [JObj
       [(''delegated_authority_id'', JStr (gr_delegated_authority_id row)),
        (''name'', JStr (gr_delegated_authority_name row)),
        (''manifest_ref'', JStr (ga_delegated_authority_artifact_id ids)),
        (''status'', JStr (gr_delegated_authority_status row))]]"
    by (subst signed_other [OF form], simp add: set_by_signing_def, rule root_body_props [OF assms(1)])+
  have listed: "is_record (gr_root_policy_constraints row)" "gr_delegated_authority_status row = ''active''"
    using wf by (simp_all add: governance_row_wf_def)
  show r: "isRootManifestArtifactBody b"
    unfolding isRootManifestArtifactBody_def signed_fields(2-) [OF form] props isPublicationMetadata_def
      signed_publication listed(2)
    using listed(1) by (simp add: manifest_entries signed_fields(2) [OF form] js_array_every_def [of isDelegatedAuthorityManifestEntry]
        isDelegatedAuthorityManifestEntry_def isOneOf_def lifecycleStatuses_def del: set_props_simps)
  show "trustArtifactScopeMatchesBody b"
    by (simp add: trustArtifactScopeMatchesBody_def r publication_matches_signature_def signed_fields [OF form]
        signed_publication del: set_props_simps get_prop_obj)
qed

lemma authority_body_props:
  assumes "delegatedAuthorityManifestBodyFromRow P row ids now = Inr b"
  shows "get_prop b ''artifact_type'' = JStr ''delegated_authority_manifest''"
    "get_prop b ''schema_version'' = JStr ''0.1.0''"
    "get_prop b ''operator_name'' = JStr (gr_delegated_authority_name row)"
    "get_prop b ''operator_class'' = JStr (gr_delegated_authority_type row)"
    "get_prop b ''scope'' = strings_json (delegatedAuthorityScopeFromRow (gr_delegated_authority_scope row))"
    "get_prop b ''trust_keys'' = JArr (map trustKeyManifestEntry (gr_delegated_authority_trust_keys row))"
    "get_prop b ''assurance_requirements'' = gr_delegated_authority_assurance_requirements row"
    "get_prop b ''enrolled_issuers'' = JArr [JObj
       [(''issuer_id'', JStr (gr_issuer_id row)), (''issuer_record_ref'', JStr (ga_issuer_record_artifact_id ids)),
        (''assurance_tier'', JStr (gr_issuer_assurance_tier row)),
        (''status'', JStr (gr_issuer_enrollment_status row))]]"
    "get_prop b ''accepted_algorithm_ids'' = JUndefined"
    "get_prop b ''delegated_authority_id'' = JStr (gr_delegated_authority_id row)"
  using assms by (simp_all add: delegatedAuthorityManifestBodyFromRow_def and_then_Inr) (elim exE conjE; hypsubst; simp)+

lemma authority_manifest_recognised:
  assumes "delegatedAuthorityManifestBodyFromRow P row ids now = Inr (JObj kvs)" and wf: "governance_row_wf row"
    and form: "signed_form b by_id (gr_root_program_id row) (JStr authority) kvs (plan_publication P now by_id until)"
  shows "isDelegatedAuthorityManifestArtifactBody b" "trustArtifactScopeMatchesBody b"
proof -
  have props: "get_prop b ''artifact_type'' = JStr ''delegated_authority_manifest''"
    "get_prop b ''schema_version'' = JStr ''0.1.0''"
    "get_prop b ''operator_name'' = JStr (gr_delegated_authority_name row)"
    "get_prop b ''operator_class'' = JStr (gr_delegated_authority_type row)"
    "get_prop b ''scope'' = strings_json (delegatedAuthorityScopeFromRow (gr_delegated_authority_scope row))"
    "get_prop b ''trust_keys'' = JArr (map trustKeyManifestEntry (gr_delegated_authority_trust_keys row))"
    "get_prop b ''assurance_requirements'' = gr_delegated_authority_assurance_requirements row"
    "get_prop b ''enrolled_issuers'' = JArr [JObj
       [(''issuer_id'', JStr (gr_issuer_id row)), (''issuer_record_ref'', JStr (ga_issuer_record_artifact_id ids)),
        (''assurance_tier'', JStr (gr_issuer_assurance_tier row)),
        (''status'', JStr (gr_issuer_enrollment_status row))]]"
    by (subst signed_other [OF form], simp add: set_by_signing_def, rule authority_body_props [OF assms(1)])+
  have listed: "is_record (gr_delegated_authority_assurance_requirements row)"
    "gr_issuer_enrollment_status row = ''active''"
    using wf by (simp_all add: governance_row_wf_def)
  show r: "isDelegatedAuthorityManifestArtifactBody b"
    unfolding isDelegatedAuthorityManifestArtifactBody_def signed_fields(2-) [OF form] props isPublicationMetadata_def
      signed_publication listed(2)
    using listed(1) by (simp add: manifest_entries signed_fields(2) [OF form] js_array_every_def [of isEnrolledIssuerManifestEntry]
        isEnrolledIssuerManifestEntry_def isOneOf_def lifecycleStatuses_def del: set_props_simps)
  have "\<not> isRootManifestArtifactBody b" by (simp add: isRootManifestArtifactBody_def props(1))
  then show "trustArtifactScopeMatchesBody b"
    by (simp add: trustArtifactScopeMatchesBody_def r publication_matches_signature_def signed_fields [OF form]
        signed_publication del: set_props_simps get_prop_obj)
qed

lemma issuer_body_props:
  assumes "issuerRecordBodyFromRow P row ids now = Inr b"
  shows "get_prop b ''artifact_type'' = JStr ''issuer_record''"
    "get_prop b ''issuer_namespace'' = namespace_json (namespaceFromRow row)"
    "get_prop b ''issuer_display_name'' = JStr (gr_issuer_display_name row)"
    "get_prop b ''issuer_class'' = JStr (gr_issuer_class row)"
    "get_prop b ''assurance_tier'' = JStr (gr_issuer_assurance_tier row)"
    "get_prop b ''certificate_refs'' = strings_json (gr_issuer_certificate_refs row)"
    "get_prop b ''destination_policies'' = JArr [JObj
       [(''destination_policy_id'', JStr (gr_destination_policy_id row)),
        (''policy_ref'', JStr (ga_destination_policy_artifact_id ids)),
        (''usage_policy'', JStr (gr_destination_policy_usage_policy row)),
        (''status'', JStr (gr_destination_policy_status row))]]"
    "get_prop b ''status'' = JObj
       [(''issuer_status'', JStr (gr_issuer_status_event_status row)),
        (''certificate_status'', JStr (gr_issuer_certificate_status row)),
        (''status_event_ref'', JStr (gr_issuer_status_event_ref row))]"
    "get_prop b ''issuer_id'' = JUndefined" "get_prop b ''accepted_algorithm_ids'' = JUndefined"
  using assms by (simp_all add: issuerRecordBodyFromRow_def and_then_Inr) (elim exE conjE; hypsubst; simp)+

lemma namespace_props:
  "get_prop (namespace_json ns) ''root_program_id'' = JStr (ns_root_program_id ns)"
  "get_prop (namespace_json ns) ''delegated_authority_id'' = JStr (ns_delegated_authority_id ns)"
  "get_prop (namespace_json ns) ''issuer_id'' = JStr (ns_issuer_id ns)"
  "truthy (namespace_json ns)" "is_record (namespace_json ns)"
  by (simp_all add: namespace_json_def)

lemma issuer_record_recognised:
  assumes "issuerRecordBodyFromRow P row ids now = Inr (JObj kvs)" and wf: "governance_row_wf row"
    and form: "signed_form b by_id (gr_root_program_id row) (JStr (gr_delegated_authority_id row)) kvs
      (plan_publication P now by_id until)"
  shows "isIssuerRecordArtifactBody b" "trustArtifactScopeMatchesBody b"
proof -
  have props: "get_prop b ''artifact_type'' = JStr ''issuer_record''"
    "get_prop b ''issuer_namespace'' = namespace_json (namespaceFromRow row)"
    "get_prop b ''issuer_display_name'' = JStr (gr_issuer_display_name row)"
    "get_prop b ''issuer_class'' = JStr (gr_issuer_class row)"
    "get_prop b ''assurance_tier'' = JStr (gr_issuer_assurance_tier row)"
    "get_prop b ''destination_policies'' = JArr [JObj
       [(''destination_policy_id'', JStr (gr_destination_policy_id row)),
        (''policy_ref'', JStr (ga_destination_policy_artifact_id ids)),
        (''usage_policy'', JStr (gr_destination_policy_usage_policy row)),
        (''status'', JStr (gr_destination_policy_status row))]]"
    "get_prop b ''status'' = JObj
       [(''issuer_status'', JStr (gr_issuer_status_event_status row)),
        (''certificate_status'', JStr (gr_issuer_certificate_status row)),
        (''status_event_ref'', JStr (gr_issuer_status_event_ref row))]"
    "get_prop b ''issuer_id'' = JUndefined"
    by (subst signed_other [OF form], simp add: set_by_signing_def, rule issuer_body_props [OF assms(1)])+
  have listed: "gr_issuer_certificate_status row = ''active''" "gr_destination_policy_status row = ''active''"
    "gr_issuer_status_event_status row \<in> set lifecycleStatuses"
    using wf by (simp_all add: governance_row_wf_def lifecycleStatuses_def)
  show r: "isIssuerRecordArtifactBody b"
    unfolding isIssuerRecordArtifactBody_def Let_def signed_fields(2-) [OF form] props signed_publication listed(1,2)
      namespace_props
    using listed(3) by (auto simp: namespace_props(4) signed_fields(2) [OF form] js_array_every_def [of isIssuerDestinationPolicyRef]
        isIssuerDestinationPolicyRef_def isOneOf_def lifecycleStatuses_def certificateStatuses_def simp del: set_props_simps)
  have "\<not> isRootManifestArtifactBody b" "\<not> isDelegatedAuthorityManifestArtifactBody b"
    by (simp_all add: isRootManifestArtifactBody_def isDelegatedAuthorityManifestArtifactBody_def props(1))
  then show "trustArtifactScopeMatchesBody b"
    by (simp add: trustArtifactScopeMatchesBody_def r Let_def signed_fields [OF form] props namespace_props
        namespaceFromRow_def del: set_props_simps get_prop_obj)
qed

lemma policy_row_props:
  assumes "destinationPolicyBodyFromRow P row policy now = Inr b"
  shows "get_prop b ''artifact_type'' = JStr ''destination_policy''"
    "get_prop b ''issuer_id'' = JStr (ns_issuer_id (dp_namespace policy))"
    "get_prop b ''destination_policy_id'' = JStr (dp_destination_policy_id policy)"
    "get_prop b ''approved_destinations'' = JArr (map rule_json (dp_approved_destinations policy))"
    "get_prop b ''redirect_policy'' = redirect_json (dp_redirect_policy policy)"
    "get_prop b ''runtime_safety_policy'' = gr_destination_policy_runtime_safety_policy row"
    "get_prop b ''accepted_algorithm_ids'' = JUndefined"
  using assms by (simp_all add: destinationPolicyBodyFromRow_def and_then_Inr) (elim exE conjE; hypsubst; simp)+

lemma destination_policy_recognised:
  assumes "destinationPolicyBodyFromRow P row policy now = Inr (JObj kvs)"
    and form: "signed_form b by_id root_id (JStr authority) kvs (plan_publication P now by_id until)"
  shows "isDestinationPolicyArtifactBody b" "trustArtifactScopeMatchesBody b"
proof -
  have props: "get_prop b ''artifact_type'' = JStr ''destination_policy''"
    "get_prop b ''issuer_id'' = JStr (ns_issuer_id (dp_namespace policy))"
    "get_prop b ''destination_policy_id'' = JStr (dp_destination_policy_id policy)"
    "get_prop b ''approved_destinations'' = JArr (map rule_json (dp_approved_destinations policy))"
    "get_prop b ''redirect_policy'' = redirect_json (dp_redirect_policy policy)"
    by (subst signed_other [OF form], simp add: set_by_signing_def, rule policy_row_props [OF assms(1)])+
  show r: "isDestinationPolicyArtifactBody b"
    unfolding isDestinationPolicyArtifactBody_def Let_def signed_fields(2-) [OF form] props signed_publication
    by (simp add: policy_json_recognised signed_fields(2) [OF form] del: set_props_simps)
  have "\<not> isRootManifestArtifactBody b" "\<not> isDelegatedAuthorityManifestArtifactBody b"
    "\<not> isIssuerRecordArtifactBody b"
    by (simp_all add: isRootManifestArtifactBody_def isDelegatedAuthorityManifestArtifactBody_def
        isIssuerRecordArtifactBody_def Let_def props(1))
  then show "trustArtifactScopeMatchesBody b"
    by (simp add: trustArtifactScopeMatchesBody_def r signed_fields [OF form] props del: set_props_simps get_prop_obj)
qed


text \<open>Every planned body is an object whose publication names its signer.\<close>

lemma planned_publications:
  "rootManifestBodyFromRow P row ids now = Inr b \<Longrightarrow>
     \<exists>kvs until. b = JObj kvs \<and> validUntil P now (gr_destination_policy_runtime_safety_policy row) = Inr until \<and>
       get_prop (JObj kvs) ''publication'' = JObj (plan_publication P now (gr_root_program_id row) until)"
  "delegatedAuthorityManifestBodyFromRow P row ids now = Inr b \<Longrightarrow>
     \<exists>kvs until. b = JObj kvs \<and> validUntil P now (gr_destination_policy_runtime_safety_policy row) = Inr until \<and>
       get_prop (JObj kvs) ''publication'' = JObj (plan_publication P now (gr_root_program_id row) until)"
  "issuerRecordBodyFromRow P row ids now = Inr b \<Longrightarrow>
     \<exists>kvs until. b = JObj kvs \<and> validUntil P now (gr_destination_policy_runtime_safety_policy row) = Inr until \<and>
       get_prop (JObj kvs) ''publication'' = JObj (plan_publication P now (gr_delegated_authority_id row) until)"
  "destinationPolicyBodyFromRow P row policy now = Inr b \<Longrightarrow>
     \<exists>kvs until. b = JObj kvs \<and> validUntil P now (gr_destination_policy_runtime_safety_policy row) = Inr until \<and>
       get_prop (JObj kvs) ''publication'' =
         JObj (plan_publication P now (ns_delegated_authority_id (dp_namespace policy)) until)"
  unfolding rootManifestBodyFromRow_def delegatedAuthorityManifestBodyFromRow_def issuerRecordBodyFromRow_def
    destinationPolicyBodyFromRow_def and_then_Inr metadata_Inr
  by (simp_all only: sum.inject) (elim exE conjE, intro exI conjI, erule sym, assumption, hypsubst, simp)+

lemma planned_policy_namespace:
  "destinationPolicyProjectionFromRow P row now = Inr policy \<Longrightarrow>
     dp_namespace policy = namespaceFromRow row \<and> dp_destination_policy_id policy = gr_destination_policy_id row"
  by (auto simp: destinationPolicyProjectionFromRow_def and_then_Inr)

end
