(* ===== verification/GovernanceBundles.thy ===== *)
theory GovernanceBundles
  imports GovernanceFacts
begin

text \<open>
  Properties of governance bundles: the signed artifacts pass the gate of the verifier sync, what a
  publication stores and announces, and what a synced bundle makes of the cache.
\<close>

subsection \<open>The lookups of a bundle\<close>

definition bundle_query :: "governance_row \<Rightarrow> string \<Rightarrow> string list \<Rightarrow> string option \<Rightarrow> trust_key_lookup_input" where
  "bundle_query row by_id algorithms authority =
     \<lparr>li_signed_by = by_id, li_root_program_id = gr_root_program_id row, li_accepted_algorithm_ids = algorithms,
      li_delegated_authority_id = authority\<rparr>"

text \<open>The lookups that a verifier makes for the artifacts of a bundle.\<close>

definition bundle_queries :: "governance_row \<Rightarrow> trust_key_lookup_input list" where
  "bundle_queries row =
     [bundle_query row (gr_root_program_id row) (gr_root_accepted_algorithm_ids row) None,
      bundle_query row (gr_root_program_id row) [''ed25519''] (Some (gr_delegated_authority_id row)),
      bundle_query row (gr_delegated_authority_id row) [''ed25519''] (Some (gr_delegated_authority_id row))]"

text \<open>
  The registry holds a usable key for a lookup, and the public material of every such key verifies
  what the private materials of its signer sign.
\<close>

definition signing_backed ::
  "platform \<Rightarrow> ed25519_sign \<Rightarrow> signing_key_record list \<Rightarrow> (string \<times> string) list \<Rightarrow> key_material_loader \<Rightarrow>
     key_registry \<Rightarrow> trust_key_lookup_input \<Rightarrow> bool" where
  "signing_backed P sign keys materials load rs q \<longleftrightarrow>
     list_ex (usable_key q) (registry_snapshot rs) \<and>
     (\<forall>k \<in> set (registry_snapshot rs). usable_key q k \<longrightarrow>
        (\<forall>sk \<in> set keys. sk_signer_id sk = li_signed_by q \<longrightarrow>
           (\<forall>pem. map_of materials (sk_private_key_material_ref sk) = Some pem \<longrightarrow>
              pairs_with P sign load k pem)))"

lemma backed_signature:
  assumes signed: "signTrustArtifact P (static_sign sign keys materials source) input = Inr r"
    and algorithms: "accepted_algorithms (get_prop (JObj (spread (gi_body input))) ''accepted_algorithm_ids'')
      = Some algorithms"
    and backed: "signing_backed P sign keys materials load rs (verification_query input algorithms)"
  shows "verifyTrustArtifact P (\<lambda>i. Inr (lookupSignerKey i rs)) load (gs_body r) =
     Done \<lparr>sv_accepted = True, sv_signer = JStr (gi_signed_by input), sv_reason = Signature_verified\<rparr>"
proof -
  obtain k where k: "k \<in> set (registry_snapshot rs)" "usable_key (verification_query input algorithms) k"
    using backed by (auto simp: signing_backed_def list_ex_iff)
  have signer: "sk_signer_id sk = li_signed_by (verification_query input algorithms)"
    if "licensed sk (custody_request_of P input)" for sk
    using licensed_signer [OF that] by (simp add: custody_request_of_def verification_query_def)
  show ?thesis
    by (rule signing_round_trip [OF signed algorithms k])
      (use backed signer in \<open>auto simp: signing_backed_def\<close>)
qed

lemma strings_accepted: "accepted_algorithms (strings_json xs) = Some xs"
proof -
  have "concat (map (\<lambda>x. case x of JStr s \<Rightarrow> [s] | _ \<Rightarrow> []) (map JStr xs)) = xs" by (induction xs) auto
  then show ?thesis by (simp add: accepted_algorithms_def strings_json_def)
qed

lemma default_accepted: "accepted_algorithms JUndefined = Some [''ed25519'']"
  by (simp add: accepted_algorithms_def)

text \<open>A planned body that is signed has the signed form and is accepted.\<close>

lemma signed_plan_artifact:
  assumes signed: "signPublicationInput (signTrustArtifact P (static_sign sign keys materials source)) by_id
      (ap_root_program_id input) authority input = Inr signed_input"
    and body: "ap_body input = JObj kvs" "get_prop (JObj kvs) ''publication'' = JObj (plan_publication P now by_id until)"
    and algorithms: "accepted_algorithms (get_prop (JObj kvs) ''accepted_algorithm_ids'') = Some algorithms"
    and backed: "signing_backed P sign keys materials load rs
      (verification_query (plan_signing_input by_id authority input) algorithms)"
  shows "signed_form (ap_body signed_input) by_id (ap_root_program_id input)
      (case keep_truthy authority of Some d \<Rightarrow> JStr d | None \<Rightarrow> get_prop (JObj kvs) ''delegated_authority_id'')
      kvs (plan_publication P now by_id until)"
    "verifyTrustArtifact P (\<lambda>i. Inr (lookupSignerKey i rs)) load (ap_body signed_input) =
      Done \<lparr>sv_accepted = True, sv_signer = JStr by_id, sv_reason = Signature_verified\<rparr>"
    "signed_input = input\<lparr>ap_body := ap_body signed_input\<rparr>"
proof -
  obtain r where r: "signTrustArtifact P (static_sign sign keys materials source)
        (plan_signing_input by_id authority input) = Inr r"
    "signed_input = input\<lparr>ap_body := signatureAlignedPublicationBody (gs_body r)\<rparr>"
    "\<And>k. k \<notin> set set_by_signing \<Longrightarrow> get_prop (ap_body signed_input) k = get_prop (JObj kvs) k"
    "get_prop (ap_body signed_input) ''signed_by'' = JStr by_id"
    "get_prop (ap_body signed_input) ''root_program_id'' = JStr (ap_root_program_id input)"
    "get_prop (ap_body signed_input) ''delegated_authority_id'' =
       (case keep_truthy authority of Some d \<Rightarrow> JStr d | None \<Rightarrow> get_prop (JObj kvs) ''delegated_authority_id'')"
    "get_prop (ap_body signed_input) ''signature_status'' = JStr trustSignatureStatus"
    "get_prop (ap_body signed_input) ''publication'' =
       JObj (set_props [(''signed_by'', JStr by_id), (''signature_status'', JStr trustSignatureStatus)]
         (plan_publication P now by_id until))"
    "is_record (ap_body signed_input)"
    "\<And>lookup load. get_prop (JObj (plan_publication P now by_id until)) ''signed_by'' = JStr by_id \<Longrightarrow>
       verifyTrustArtifact P lookup load (ap_body signed_input) = verifyTrustArtifact P lookup load (gs_body r)"
    by (rule signed_artifact [OF signed body]) blast
  show "signed_form (ap_body signed_input) by_id (ap_root_program_id input)
      (case keep_truthy authority of Some d \<Rightarrow> JStr d | None \<Rightarrow> get_prop (JObj kvs) ''delegated_authority_id'')
      kvs (plan_publication P now by_id until)"
    unfolding signed_form_def using r(3-9) by blast
  have fields: "gi_body (plan_signing_input by_id authority input) = JObj kvs"
    "gi_signed_by (plan_signing_input by_id authority input) = by_id"
    by (simp_all add: plan_signing_input_def body(1))
  show "verifyTrustArtifact P (\<lambda>i. Inr (lookupSignerKey i rs)) load (ap_body signed_input) =
      Done \<lparr>sv_accepted = True, sv_signer = JStr by_id, sv_reason = Signature_verified\<rparr>"
    unfolding r(10) [OF publication_by] using backed_signature [OF r(1) _ backed] algorithms
    by (simp add: fields spread_def)
  show "signed_input = input\<lparr>ap_body := ap_body signed_input\<rparr>" by (simp add: r(2))
qed


lemma keep_nonempty: "s \<noteq> [] \<Longrightarrow> keep_truthy (Some s) = Some s" "keep_truthy None = None"
  by (simp_all add: keep_truthy_def truthy_str_def)

text \<open>The signed artifacts of a plan, recognised and verified.\<close>

definition gate_ready ::
  "(jsval \<Rightarrow> signature_result outcome) \<Rightarrow> string \<Rightarrow> artifact_publication_input \<Rightarrow> artifact_publication_input \<Rightarrow> bool" where
  "gate_ready verify by_id planned_input signed_input \<longleftrightarrow>
     signed_input = planned_input\<lparr>ap_body := ap_body signed_input\<rparr> \<and>
     get_prop (ap_body signed_input) ''signed_by'' = JStr by_id \<and>
     signature_gate verify (ap_body signed_input) = Done Gate_accepted"

lemma signed_root_manifest:
  assumes body: "rootManifestBodyFromRow P row ids now = Inr (ap_body a)" and wf: "governance_row_wf row"
    and root_id: "ap_root_program_id a = gr_root_program_id row"
    and signed: "sign_as_root (signTrustArtifact P (static_sign sign keys materials source)) a = Inr s"
    and backed: "\<forall>q \<in> set (bundle_queries row). signing_backed P sign keys materials load rs q"
  obtains kvs until where "ap_body a = JObj kvs"
    "signed_form (ap_body s) (gr_root_program_id row) (gr_root_program_id row) JUndefined kvs
       (plan_publication P now (gr_root_program_id row) until)"
    "validUntil P now (gr_destination_policy_runtime_safety_policy row) = Inr until"
    "gate_ready (verifyTrustArtifact P (\<lambda>i. Inr (lookupSignerKey i rs)) load) (gr_root_program_id row) a s"
proof -
  obtain kvs until where k: "ap_body a = JObj kvs"
    "validUntil P now (gr_destination_policy_runtime_safety_policy row) = Inr until"
    "get_prop (JObj kvs) ''publication'' = JObj (plan_publication P now (gr_root_program_id row) until)"
    using planned_publications(1) [OF body] by blast
  note props = root_body_props [OF body, unfolded k(1)]
  have query: "verification_query (plan_signing_input (ap_root_program_id a) None a) (gr_root_accepted_algorithm_ids row)
      = bundle_query row (gr_root_program_id row) (gr_root_accepted_algorithm_ids row) None"
    using props(8)
    by (simp add: verification_query_def plan_signing_input_def bundle_query_def root_id k(1) spread_def keep_nonempty
        del: get_prop_obj)
  have algorithms: "accepted_algorithms (get_prop (JObj kvs) ''accepted_algorithm_ids'') =
      Some (gr_root_accepted_algorithm_ids row)"
    unfolding props(4) by (rule strings_accepted)
  note form = signed_plan_artifact [OF signed [unfolded sign_as_root_def] k(1) _ algorithms, unfolded root_id, OF k(3)]
  have "signing_backed P sign keys materials load rs
      (verification_query (plan_signing_input (gr_root_program_id row) None a) (gr_root_accepted_algorithm_ids row))"
    using backed query by (simp add: root_id bundle_queries_def)
  note form = form [OF this, unfolded keep_nonempty option.case props(8)]
  have "isRootManifestArtifactBody (ap_body s)" "trustArtifactScopeMatchesBody (ap_body s)"
    using root_manifest_recognised [OF body [unfolded k(1)] wf form(1)] by blast+
  then have "signature_gate (verifyTrustArtifact P (\<lambda>i. Inr (lookupSignerKey i rs)) load) (ap_body s)
      = Done Gate_accepted"
    by (simp add: signature_gate_def recognizedTrustArtifact_def form(2))
  then show thesis
    using that [OF k(1) form(1) k(2)] form(3) signed_fields(3) [OF form(1)] by (simp add: gate_ready_def)
qed

lemma signed_authority_manifest:
  assumes body: "delegatedAuthorityManifestBodyFromRow P row ids now = Inr (ap_body a)" and wf: "governance_row_wf row"
    and root_id: "ap_root_program_id a = gr_root_program_id row"
    and signed: "sign_as_root (signTrustArtifact P (static_sign sign keys materials source)) a = Inr s"
    and backed: "\<forall>q \<in> set (bundle_queries row). signing_backed P sign keys materials load rs q"
  obtains kvs until where "ap_body a = JObj kvs"
    "signed_form (ap_body s) (gr_root_program_id row) (gr_root_program_id row) (JStr (gr_delegated_authority_id row)) kvs
       (plan_publication P now (gr_root_program_id row) until)"
    "validUntil P now (gr_destination_policy_runtime_safety_policy row) = Inr until"
    "gate_ready (verifyTrustArtifact P (\<lambda>i. Inr (lookupSignerKey i rs)) load) (gr_root_program_id row) a s"
proof -
  obtain kvs until where k: "ap_body a = JObj kvs"
    "validUntil P now (gr_destination_policy_runtime_safety_policy row) = Inr until"
    "get_prop (JObj kvs) ''publication'' = JObj (plan_publication P now (gr_root_program_id row) until)"
    using planned_publications(2) [OF body] by blast
  note props = authority_body_props [OF body, unfolded k(1)]
  have named: "gr_delegated_authority_id row \<noteq> []" using wf by (simp add: governance_row_wf_def)
  have query: "verification_query (plan_signing_input (ap_root_program_id a) None a) [''ed25519'']
      = bundle_query row (gr_root_program_id row) [''ed25519''] (Some (gr_delegated_authority_id row))"
    using props(10) named
    by (simp add: verification_query_def plan_signing_input_def bundle_query_def root_id k(1) spread_def keep_nonempty
        del: get_prop_obj)
  have algorithms: "accepted_algorithms (get_prop (JObj kvs) ''accepted_algorithm_ids'') = Some [''ed25519'']"
    unfolding props(9) by (rule default_accepted)
  note form = signed_plan_artifact [OF signed [unfolded sign_as_root_def] k(1) _ algorithms, unfolded root_id, OF k(3)]
  have "signing_backed P sign keys materials load rs
      (verification_query (plan_signing_input (gr_root_program_id row) None a) [''ed25519''])"
    using backed query by (simp add: root_id bundle_queries_def)
  note form = form [OF this, unfolded keep_nonempty option.case props(10)]
  have "isDelegatedAuthorityManifestArtifactBody (ap_body s)" "trustArtifactScopeMatchesBody (ap_body s)"
    using authority_manifest_recognised [OF body [unfolded k(1)] wf form(1)] by blast+
  then have "signature_gate (verifyTrustArtifact P (\<lambda>i. Inr (lookupSignerKey i rs)) load) (ap_body s)
      = Done Gate_accepted"
    by (simp add: signature_gate_def recognizedTrustArtifact_def form(2))
  then show thesis
    using that [OF k(1) form(1) k(2)] form(3) signed_fields(3) [OF form(1)] by (simp add: gate_ready_def)
qed

lemma authority_query:
  assumes "ap_body a = JObj kvs" "get_prop (JObj kvs) ''accepted_algorithm_ids'' = JUndefined"
    "ap_root_program_id a = gr_root_program_id row" "governance_row_wf row"
    "ap_delegated_authority_id a = Some (gr_delegated_authority_id row)"
    and signed: "sign_as_authority signer a = Inr s"
    and backed: "\<forall>q \<in> set (bundle_queries row). signing_backed P sign keys materials load rs q"
  shows "signPublicationInput signer (gr_delegated_authority_id row) (ap_root_program_id a)
      (Some (gr_delegated_authority_id row)) a = Inr s"
    "accepted_algorithms (get_prop (JObj kvs) ''accepted_algorithm_ids'') = Some [''ed25519'']"
    "signing_backed P sign keys materials load rs
      (verification_query (plan_signing_input (gr_delegated_authority_id row) (Some (gr_delegated_authority_id row)) a)
        [''ed25519''])"
    "keep_truthy (Some (gr_delegated_authority_id row)) = Some (gr_delegated_authority_id row)"
proof -
  have named: "gr_delegated_authority_id row \<noteq> []" using assms(4) by (simp add: governance_row_wf_def)
  show "signPublicationInput signer (gr_delegated_authority_id row) (ap_root_program_id a)
      (Some (gr_delegated_authority_id row)) a = Inr s"
    using signed named by (simp add: sign_as_authority_def assms(5) keep_nonempty)
  show "accepted_algorithms (get_prop (JObj kvs) ''accepted_algorithm_ids'') = Some [''ed25519'']"
    unfolding assms(2) by (rule default_accepted)
  have "verification_query (plan_signing_input (gr_delegated_authority_id row) (Some (gr_delegated_authority_id row)) a)
        [''ed25519''] = bundle_query row (gr_delegated_authority_id row) [''ed25519'']
          (Some (gr_delegated_authority_id row))"
    using named by (simp add: verification_query_def plan_signing_input_def bundle_query_def assms(3) keep_nonempty)
  then show "signing_backed P sign keys materials load rs
      (verification_query (plan_signing_input (gr_delegated_authority_id row) (Some (gr_delegated_authority_id row)) a)
        [''ed25519''])"
    using backed by (simp add: bundle_queries_def)
  show "keep_truthy (Some (gr_delegated_authority_id row)) = Some (gr_delegated_authority_id row)"
    using named by (rule keep_nonempty)
qed

lemma signed_issuer_record:
  assumes body: "issuerRecordBodyFromRow P row ids now = Inr (ap_body a)" and wf: "governance_row_wf row"
    and root_id: "ap_root_program_id a = gr_root_program_id row"
    and authority: "ap_delegated_authority_id a = Some (gr_delegated_authority_id row)"
    and signed: "sign_as_authority (signTrustArtifact P (static_sign sign keys materials source)) a = Inr s"
    and backed: "\<forall>q \<in> set (bundle_queries row). signing_backed P sign keys materials load rs q"
  obtains kvs until where "ap_body a = JObj kvs"
    "signed_form (ap_body s) (gr_delegated_authority_id row) (gr_root_program_id row)
       (JStr (gr_delegated_authority_id row)) kvs (plan_publication P now (gr_delegated_authority_id row) until)"
    "validUntil P now (gr_destination_policy_runtime_safety_policy row) = Inr until"
    "gate_ready (verifyTrustArtifact P (\<lambda>i. Inr (lookupSignerKey i rs)) load) (gr_delegated_authority_id row) a s"
proof -
  obtain kvs until where k: "ap_body a = JObj kvs"
    "validUntil P now (gr_destination_policy_runtime_safety_policy row) = Inr until"
    "get_prop (JObj kvs) ''publication'' = JObj (plan_publication P now (gr_delegated_authority_id row) until)"
    using planned_publications(3) [OF body] by blast
  note q = authority_query [OF k(1) issuer_body_props(10) [OF body, unfolded k(1)] root_id wf authority signed backed]
  note form = signed_plan_artifact [OF q(1) k(1) k(3) q(2) q(3), unfolded root_id q(4) option.case]
  have "isIssuerRecordArtifactBody (ap_body s)" "trustArtifactScopeMatchesBody (ap_body s)"
    using issuer_record_recognised [OF body [unfolded k(1)] wf form(1)] by blast+
  then have "signature_gate (verifyTrustArtifact P (\<lambda>i. Inr (lookupSignerKey i rs)) load) (ap_body s)
      = Done Gate_accepted"
    by (simp add: signature_gate_def recognizedTrustArtifact_def form(2))
  then show thesis
    using that [OF k(1) form(1) k(2)] form(3) signed_fields(3) [OF form(1)] by (simp add: gate_ready_def)
qed

lemma signed_destination_policy:
  assumes body: "destinationPolicyBodyFromRow P row policy now = Inr (ap_body a)" and wf: "governance_row_wf row"
    and policy: "dp_namespace policy = namespaceFromRow row"
    and root_id: "ap_root_program_id a = gr_root_program_id row"
    and authority: "ap_delegated_authority_id a = Some (gr_delegated_authority_id row)"
    and signed: "sign_as_authority (signTrustArtifact P (static_sign sign keys materials source)) a = Inr s"
    and backed: "\<forall>q \<in> set (bundle_queries row). signing_backed P sign keys materials load rs q"
  obtains kvs until where "ap_body a = JObj kvs"
    "signed_form (ap_body s) (gr_delegated_authority_id row) (gr_root_program_id row)
       (JStr (gr_delegated_authority_id row)) kvs (plan_publication P now (gr_delegated_authority_id row) until)"
    "validUntil P now (gr_destination_policy_runtime_safety_policy row) = Inr until"
    "gate_ready (verifyTrustArtifact P (\<lambda>i. Inr (lookupSignerKey i rs)) load) (gr_delegated_authority_id row) a s"
proof -
  have by_id: "ns_delegated_authority_id (dp_namespace policy) = gr_delegated_authority_id row"
    by (simp add: policy namespaceFromRow_def)
  obtain kvs until where k: "ap_body a = JObj kvs"
    "validUntil P now (gr_destination_policy_runtime_safety_policy row) = Inr until"
    "get_prop (JObj kvs) ''publication'' = JObj (plan_publication P now (gr_delegated_authority_id row) until)"
    using planned_publications(4) [OF body] unfolding by_id by blast
  note q = authority_query [OF k(1) policy_row_props(7) [OF body, unfolded k(1)] root_id wf authority signed backed]
  note form = signed_plan_artifact [OF q(1) k(1) k(3) q(2) q(3), unfolded root_id q(4) option.case]
  have "isDestinationPolicyArtifactBody (ap_body s)" "trustArtifactScopeMatchesBody (ap_body s)"
    using destination_policy_recognised [OF body [unfolded k(1)] form(1)] by blast+
  then have "signature_gate (verifyTrustArtifact P (\<lambda>i. Inr (lookupSignerKey i rs)) load) (ap_body s)
      = Done Gate_accepted"
    by (simp add: signature_gate_def recognizedTrustArtifact_def form(2))
  then show thesis
    using that [OF k(1) form(1) k(2)] form(3) signed_fields(3) [OF form(1)] by (simp add: gate_ready_def)
qed

end
