(* ===== verification/BundlePublication.thy ===== *)
theory BundlePublication
  imports GovernanceBundles
begin

text \<open>
  The publication of a bundle over any artifact store and event bus: the four artifacts go out in order,
  and what has gone out when one of them fails stays stored and announced.
\<close>

subsection \<open>Publishing one after another\<close>

fun publish_all ::
  "'p artifact_publisher \<Rightarrow> artifact_publication_input list \<Rightarrow> 'p \<Rightarrow>
     'p \<times> artifact_publication_result list \<times> net_error option" where
  "publish_all publisher [] p = (p, [], None)"
| "publish_all publisher (input # inputs) p =
     (case publisher input p of
        (p', Inl e) \<Rightarrow> (p', [], Some e)
      | (p', Inr result) \<Rightarrow>
          (case publish_all publisher inputs p' of (p'', results, e) \<Rightarrow> (p'', result # results, e)))"

definition report_of :: "artifact_publication_result list \<Rightarrow> publication_report" where
  "report_of results =
     (let artifact_id = (\<lambda>i. sa_artifact_id (pr_artifact (results ! i))) in
      \<lparr>pb_root_manifest_artifact_id = artifact_id 0, pb_delegated_authority_artifact_id = artifact_id 1,
       pb_issuer_record_artifact_id = artifact_id 2, pb_destination_policy_artifact_id = artifact_id 3,
       pb_published_artifacts = int (length results)\<rparr>)"

lemma bundle_in_order:
  "publish_signed_artifacts publisher (a, b, c, d) p =
     (case publish_all publisher [a, b, c, d] p of
        (p', results, Some e) \<Rightarrow> (p', Inl e) | (p', results, None) \<Rightarrow> (p', Inr (report_of results)))"
  by (simp add: publish_signed_artifacts_def then_publish_def report_of_def split: prod.split sum.split)

lemma bundle_run:
  assumes "planGovernancePublication' input e = (e', Inr plan)"
    and "signGovernancePublicationPlan plan signer = Inr (a, b, c, d)"
    and "publish_all publisher [a, b, c, d] p = (p', results, err)"
  shows "publishGovernanceBundle planGovernancePublication' publisher signer input (e, p) =
    ((e', p'), case err of
       Some x \<Rightarrow> Inl x
     | None \<Rightarrow> Inr (publication_report.extend (report_of results)
         (authority_publication_report.fields ''postgres_governance_publication_source''
            authorityPublicationEventTypes)))"
  using assms unfolding publishGovernanceBundle_def
  by (simp add: bundle_in_order del: publish_all.simps split: option.split)

lemma publish_all_length:
  "publish_all publisher inputs p = (p', results, e) \<Longrightarrow>
     length results \<le> length inputs \<and> (e = None \<longleftrightarrow> length results = length inputs)"
  by (induction inputs arbitrary: p results) (fastforce split: prod.splits sum.splits)+

text \<open>An event that announces a stored artifact.\<close>

definition announces ::
  "platform \<Rightarrow> (string \<Rightarrow> 's \<Rightarrow> signed_artifact option) \<Rightarrow> 's \<Rightarrow> artifact_publication_input \<Rightarrow> network_event \<Rightarrow> bool" where
  "announces P get s input event \<longleftrightarrow>
     (\<exists>a. get (ap_artifact_id input) s = Some a \<and> ne_body event = ArtifactBody a \<and>
        sa_artifact_id a = ap_artifact_id input \<and> sa_body a = ap_body input \<and>
        sa_artifact_hash a = sha256_of P (ap_body input) \<and>
        envelope_valid P (ne_envelope event) \<and> ee_type (ne_envelope event) = ap_eventType input \<and>
        ee_artifact_id (ne_envelope event) = ap_artifact_id input \<and>
        ee_artifact_hash (ne_envelope event) = sha256_of P (ap_body input))"

lemma announced_names:
  assumes "list_all2 (announces P get s) inputs events"
  shows "map (\<lambda>e. ee_type (ne_envelope e)) events = map ap_eventType inputs"
    "map (\<lambda>e. ee_artifact_id (ne_envelope e)) events = map ap_artifact_id inputs"
  using assms by (induction rule: list_all2_induct) (auto simp: announces_def)

context publication_backend
begin

lemma publish_one:
  assumes "publishArtifact P put publish input (s, b) = ((s', b'), r)"
  shows "case r of
      Inl e \<Rightarrow> recent b' = recent b
    | Inr res \<Rightarrow> recent b' = recent b @ [pr_event res] \<and> announces P get s' input (pr_event res) \<and>
        sa_artifact_id (pr_artifact res) = ap_artifact_id input"
    "k \<noteq> ap_artifact_id input \<Longrightarrow> get k s' = get k s"
proof -
  show "case r of
      Inl e \<Rightarrow> recent b' = recent b
    | Inr res \<Rightarrow> recent b' = recent b @ [pr_event res] \<and> announces P get s' input (pr_event res) \<and>
        sa_artifact_id (pr_artifact res) = ap_artifact_id input"
    using assms
    by (auto simp: publishArtifact_def Let_def publication_envelope_def announces_def
        split: prod.splits sum.splits dest!: put_get [where k = "ap_artifact_id input"] publish_recent publish_failed)
  show "get k s' = get k s" if "k \<noteq> ap_artifact_id input"
    using assms that
    by (auto simp: publishArtifact_def Let_def split: prod.splits sum.splits
        dest!: put_get [where k = k] put_failed [where k = k])
qed

lemma publish_all_keeps:
  "publish_all (publishArtifact P put publish) inputs (s, b) = ((s', b'), results, e) \<Longrightarrow>
     k \<notin> set (map ap_artifact_id inputs) \<Longrightarrow> get k s' = get k s"
proof (induction inputs arbitrary: s b results)
  case (Cons i inputs)
  then show ?case
    by (fastforce split: prod.splits sum.splits dest: publish_one(2) [where k = k])
qed simp

text \<open>
  The events of a run of publications are those of a prefix of its inputs, in order; each announces
  an artifact that is still stored at the end.
\<close>

lemma publish_all_announces:
  assumes "publish_all (publishArtifact P put publish) inputs (s, b) = ((s', b'), results, e)"
    and "distinct (map ap_artifact_id inputs)"
  shows "recent b' = recent b @ map pr_event results"
    "list_all2 (announces P get s') (take (length results) inputs) (map pr_event results)"
    "map (\<lambda>r. sa_artifact_id (pr_artifact r)) results = map ap_artifact_id (take (length results) inputs)"
proof -
  have "recent b' = recent b @ map pr_event results \<and>
    list_all2 (announces P get s') (take (length results) inputs) (map pr_event results) \<and>
    map (\<lambda>r. sa_artifact_id (pr_artifact r)) results = map ap_artifact_id (take (length results) inputs)"
    using assms
  proof (induction inputs arbitrary: s b results)
    case (Cons i inputs)
    obtain s1 b1 r where one: "publishArtifact P put publish i (s, b) = ((s1, b1), r)" by (metis surj_pair)
    show ?case
    proof (cases r)
      case (Inl err)
      then show ?thesis using Cons.prems one publish_one(1) [OF one] by auto
    next
      case (Inr res)
      then obtain rest where rest: "publish_all (publishArtifact P put publish) inputs (s1, b1) = ((s', b'), rest, e)"
        "results = res # rest" using Cons.prems(1) one by (auto split: prod.splits)
      have kept: "get (ap_artifact_id i) s' = get (ap_artifact_id i) s1"
        by (rule publish_all_keeps [OF rest(1)]) (use Cons.prems(2) in simp)
      show ?thesis
        using Cons.IH [OF rest(1)] Cons.prems(2) publish_one(1) [OF one] kept
        by (simp add: Inr rest(2) announces_def)
    qed
  qed simp
  then show "recent b' = recent b @ map pr_event results"
    "list_all2 (announces P get s') (take (length results) inputs) (map pr_event results)"
    "map (\<lambda>r. sa_artifact_id (pr_artifact r)) results = map ap_artifact_id (take (length results) inputs)" by auto
qed

end

subsection \<open>The artifacts of a bundle\<close>

lemma signed_frame:
  assumes "signGovernancePublicationPlan (a1, a2, a3, a4) signer = Inr (s1, s2, s3, s4)"
  shows "list_all2 (\<lambda>a s. s = a\<lparr>ap_body := ap_body s\<rparr>) [a1, a2, a3, a4] [s1, s2, s3, s4]"
  using assms
  by (auto simp: signGovernancePublicationPlan_def and_then_Inr sign_as_root_def sign_as_authority_def
      signPublicationInput_def)

lemma planned_envelopes:
  assumes "planGovernancePublicationFromPostgresRow P row now = Inr (a1, a2, a3, a4)"
  shows "map ap_issuer_id [a1, a2, a3, a4] = [None, None, Some (gr_issuer_id row), Some (gr_issuer_id row)]"
    "map ap_destination_policy_id [a1, a2, a3, a4] =
       [None, None, Some (gr_destination_policy_id row), Some (gr_destination_policy_id row)]"
    "map ap_version [a1, a2, a3, a4] = [1, 1, 1, gr_destination_policy_version row]"
    "map ap_occurredAt [a1, a2, a3, a4] = replicate 4 now"
    "map ap_previous_version [a1, a2, a3, a4] = replicate 4 None"
proof -
  obtain policy where "destinationPolicyProjectionFromRow P row now = Inr policy"
    "dp_destination_policy_id policy = gr_destination_policy_id row"
    by (rule planned [OF assms]) (use planned_policy_namespace in blast)
  then show "map ap_issuer_id [a1, a2, a3, a4] = [None, None, Some (gr_issuer_id row), Some (gr_issuer_id row)]"
    "map ap_destination_policy_id [a1, a2, a3, a4] =
       [None, None, Some (gr_destination_policy_id row), Some (gr_destination_policy_id row)]"
    "map ap_version [a1, a2, a3, a4] = [1, 1, 1, gr_destination_policy_version row]"
    "map ap_occurredAt [a1, a2, a3, a4] = replicate 4 now"
    "map ap_previous_version [a1, a2, a3, a4] = replicate 4 None"
    using assms
    by (auto simp: planGovernancePublicationFromPostgresRow_def Let_def and_then_Inr source_artifact_def
        namespaceFromRow_def numeral_eq_Suc)
qed

lemma planned_types_and_ids:
  assumes "planGovernancePublicationFromPostgresRow P row now = Inr (a1, a2, a3, a4)"
    and "signGovernancePublicationPlan (a1, a2, a3, a4) signer = Inr (s1, s2, s3, s4)"
  shows "map ap_eventType [s1, s2, s3, s4] = authorityPublicationEventTypes"
    "distinct (map ap_artifact_id [s1, s2, s3, s4])"
proof -
  have same: "ap_eventType s1 = ap_eventType a1" "ap_eventType s2 = ap_eventType a2"
    "ap_eventType s3 = ap_eventType a3" "ap_eventType s4 = ap_eventType a4"
    "ap_artifact_id s1 = ap_artifact_id a1" "ap_artifact_id s2 = ap_artifact_id a2"
    "ap_artifact_id s3 = ap_artifact_id a3" "ap_artifact_id s4 = ap_artifact_id a4"
    using signed_frame [OF assms(2)] by simp_all (metis artifact_publication_input.ext_inject
      artifact_publication_input.surjective artifact_publication_input.update_convs(5))+
  from assms(1) show "map ap_eventType [s1, s2, s3, s4] = authorityPublicationEventTypes"
    by (rule planned) (simp add: same)
  from assms(1) show "distinct (map ap_artifact_id [s1, s2, s3, s4])"
    by (rule planned) (simp add: same governanceArtifactIds_def)
qed

end
