(* ===== verification/BundleSource.thy ===== *)
theory BundleSource
  imports BundlePublication
begin

text \<open>
  What a row of the bundle statement says about the tables, and which rows and keys of the tables the plan of a
  bundle was made of; the four artifacts it is signed to.
\<close>

subsection \<open>Ordered selections\<close>

text \<open>The head of a sorted list precedes every element, for a total preorder.\<close>

lemma insort_head:
  assumes "\<And>a b c. le a b \<Longrightarrow> le b c \<Longrightarrow> le a c" "\<And>a b. le a b \<or> le b a"
    and "\<forall>y \<in> set ys. le (hd ys) y"
  shows "\<forall>y \<in> set (insort_by le x ys). le (hd (insort_by le x ys)) y"
proof (cases ys)
  case (Cons y zs)
  have set: "set (insort_by le x zs) = insert x (set zs)" for x zs
    by (metis mset_insort_by set_mset_add_mset_insert set_mset_mset)
  have "le x z" if "le x y" "z \<in> set ys" for z using assms(1) [OF that(1)] assms(3) that(2) Cons by auto
  then show ?thesis using assms(2) [of x] assms(2) [of y] assms(3) Cons by (auto simp: set)
qed (use assms(2) in auto)

lemma sort_by_head:
  assumes "\<And>a b c. le a b \<Longrightarrow> le b c \<Longrightarrow> le a c" "\<And>a b. le a b \<or> le b a"
    and "sort_by le xs = y # ys" "x \<in> set xs"
  shows "le y x"
proof -
  have "\<forall>z \<in> set (sort_by le xs). le (hd (sort_by le xs)) z"
    unfolding sort_by_def
  proof (induction xs)
    case (Cons z zs)
    show ?case using insort_head [of le, OF assms(1,2) Cons.IH] by simp
  qed simp
  moreover have "x \<in> set (sort_by le xs)" using assms(4) by (metis mset_sort_by set_mset_mset)
  ultimately show ?thesis by (auto simp: assms(3))
qed

definition concerns_issuer :: "issuer_row \<Rightarrow> int \<Rightarrow> status_event_row \<Rightarrow> bool" where
  "concerns_issuer i now e \<longleftrightarrow>
     st_root_program_id e = it_root_program_id i \<and> st_delegated_authority_id e = it_delegated_authority_id i \<and>
     st_issuer_id e = Some (it_issuer_id i) \<and> st_target_type e \<in> {''issuer'', ''issuer_record''} \<and>
     st_target_id e = it_issuer_id i \<and> st_effective_at e \<le> now"

text \<open>An event that makes an issuer inactive is taken back by a later one that is effective too.\<close>

lemma latest_status_overrides:
  assumes "case latest_issuer_status events i now of Some e \<Rightarrow> st_status e = s | None \<Rightarrow> True"
    and "e \<in> set events" "concerns_issuer i now e"
  shows "\<exists>e' \<in> set events. concerns_issuer i now e' \<and> later_event e' e \<and> st_status e' = s"
proof -
  let ?es = "filter (concerns_issuer i now) events"
  have sorted: "latest_issuer_status events i now = (case sort_by later_event ?es of [] \<Rightarrow> None | e # _ \<Rightarrow> Some e)"
    by (simp add: latest_issuer_status_def concerns_issuer_def [abs_def])
  have "set (sort_by later_event ?es) \<noteq> {}" using assms(2,3) by auto
  then obtain e' es where e': "sort_by later_event ?es = e' # es" by (cases "sort_by later_event ?es") auto
  have "later_event e' e"
    by (rule sort_by_head [OF _ _ e']) (use assms(2,3) in \<open>auto simp: later_event_def\<close>)
  moreover have "e' \<in> set ?es" using set_sort_by [of later_event ?es] unfolding e' by (metis list.set_intros(1))
  ultimately show ?thesis using assms(1) sorted e' by auto
qed


subsection \<open>The columns of a decoded row\<close>

lemma decoded_columns:
  assumes "postgresGovernancePublicationBundleRowFromRecord P parse r = Inr row"
  shows "requireStringField r ''root_program_id'' = Inr (gr_root_program_id row)"
    "requireStringField r ''delegated_authority_id'' = Inr (gr_delegated_authority_id row)"
    "requireStringField r ''issuer_id'' = Inr (gr_issuer_id row)"
    "requireStringField r ''destination_policy_id'' = Inr (gr_destination_policy_id row)"
    "requireTrustKeyArrayField parse r ''root_trust_keys'' = Inr (gr_root_trust_keys row)"
    "requireTrustKeyArrayField parse r ''delegated_authority_trust_keys'' = Inr (gr_delegated_authority_trust_keys row)"
    "requireStringArrayField parse r ''issuer_certificate_refs'' = Inr (gr_issuer_certificate_refs row)"
proof -
  have "requireStringField r ''root_program_id'' = Inr (gr_root_program_id row) \<and>
    requireStringField r ''delegated_authority_id'' = Inr (gr_delegated_authority_id row) \<and>
    requireStringField r ''issuer_id'' = Inr (gr_issuer_id row) \<and>
    requireStringField r ''destination_policy_id'' = Inr (gr_destination_policy_id row) \<and>
    requireTrustKeyArrayField parse r ''root_trust_keys'' = Inr (gr_root_trust_keys row) \<and>
    requireTrustKeyArrayField parse r ''delegated_authority_trust_keys'' = Inr (gr_delegated_authority_trust_keys row) \<and>
    requireStringArrayField parse r ''issuer_certificate_refs'' = Inr (gr_issuer_certificate_refs row)"
    using assms unfolding postgresGovernancePublicationBundleRowFromRecord_def and_then_Inr
    apply (elim exE conjE)
    apply (drule sum.inject(2) [THEN iffD1])
    apply hypsubst
    unfolding governance_row.select_convs
    by (intro conjI; assumption)
  then show "requireStringField r ''root_program_id'' = Inr (gr_root_program_id row)"
    "requireStringField r ''delegated_authority_id'' = Inr (gr_delegated_authority_id row)"
    "requireStringField r ''issuer_id'' = Inr (gr_issuer_id row)"
    "requireStringField r ''destination_policy_id'' = Inr (gr_destination_policy_id row)"
    "requireTrustKeyArrayField parse r ''root_trust_keys'' = Inr (gr_root_trust_keys row)"
    "requireTrustKeyArrayField parse r ''delegated_authority_trust_keys'' = Inr (gr_delegated_authority_trust_keys row)"
    "requireStringArrayField parse r ''issuer_certificate_refs'' = Inr (gr_issuer_certificate_refs row)" by blast+
qed

text \<open>The fields of a key survive the object that the statement builds of it.\<close>

definition same_key :: "trust_key_record \<Rightarrow> trust_key_record \<Rightarrow> bool" where
  "same_key k l \<longleftrightarrow> tk_key_id k = tk_key_id l \<and> tk_signer_id k = tk_signer_id l \<and>
     tk_root_program_id k = tk_root_program_id l \<and> tk_algorithm_id k = tk_algorithm_id l \<and>
     tk_scope k = tk_scope l \<and> tk_status k = tk_status l \<and>
     tk_public_key_material_ref k = tk_public_key_material_ref l"

lemma key_object_round_trip:
  "trustKeyRecordFromUnknown parse (key_object b k) = Inr l \<Longrightarrow> same_key k l"
  by (cases "tk_scope k"; cases "tk_status k"; cases b)
     (auto simp: trustKeyRecordFromUnknown_def and_then_Inr parseJson_def key_object_def object_value_def
        requireStringValue_Inr requireLiteralValue_Inr same_key_def)

lemma key_array:
  assumes "requireTrustKeyArrayField parse r f = Inr ls" "field_value r f = JArr (map (key_object b) ks)"
  shows "list_all2 same_key ks ls"
proof -
  have "list_all2 (\<lambda>v l. trustKeyRecordFromUnknown parse v = Inr l) (map (key_object b) ks) ls"
    using assms by (simp add: requireTrustKeyArrayField_def requireArrayField_def parseJson_def array_value_def
        and_then_Inr map_result_Inr)
  then show ?thesis using key_object_round_trip by (auto simp: list_all2_map1 elim!: list_all2_mono)
qed

lemma string_array:
  assumes "requireStringArrayField parse r f = Inr ss" "field_value r f = strings_json ts"
  shows "ss = ts"
proof -
  have "list_all2 (\<lambda>v s. requireStringValue v f = Inr s) (map JStr ts) ss"
    using assms by (simp add: requireStringArrayField_def requireArrayField_def parseJson_def array_value_def
        strings_json_def and_then_Inr map_result_Inr)
  then show ?thesis
    by (simp add: list_all2_map1 requireStringValue_Inr) (metis (mono_tags, lifting) list.rel_eq list_all2_mono)
qed

lemma bundle_columns:
  "field_value (bundle_row le T now rp da i dp) ''root_program_id'' = JStr (rt_root_program_id rp)"
  "field_value (bundle_row le T now rp da i dp) ''delegated_authority_id'' = JStr (at_delegated_authority_id da)"
  "field_value (bundle_row le T now rp da i dp) ''issuer_id'' = JStr (it_issuer_id i)"
  "field_value (bundle_row le T now rp da i dp) ''destination_policy_id'' = JStr (pt_destination_policy_id dp)"
  "field_value (bundle_row le T now rp da i dp) ''root_trust_keys'' =
     JArr (map (key_object False) (bundle_root_keys le (gt_trust_keys T) rp))"
  "field_value (bundle_row le T now rp da i dp) ''delegated_authority_trust_keys'' =
     JArr (map (key_object True) (bundle_authority_keys le (gt_trust_keys T) rp da))"
  "field_value (bundle_row le T now rp da i dp) ''issuer_certificate_refs'' =
     strings_json (bundle_certificates le (gt_issuer_certificates T) i now)"
  by (simp_all add: field_value_def bundle_row_def Let_def)

text \<open>A decoded bundle comes from rows of the tables that the statement selects.\<close>

lemma decoded_bundle:
  assumes "query_governance_bundle P parse le dbError T (governancePublicationBundleByPolicyCommand P input) = Inr [row]"
    and "date_parse P (iso_string P (gsi_observedAt input)) = Some now"
  obtains rp da i dp where "rp \<in> set (gt_root_programs T)" "da \<in> set (gt_delegated_authorities T)"
    "i \<in> set (gt_issuers T)" "dp \<in> set (gt_destination_policies T)"
    "bundle_selected le T (ns_root_program_id (gsi_namespace input)) (ns_delegated_authority_id (gsi_namespace input))
       (ns_issuer_id (gsi_namespace input)) (gsi_destination_policy_id input) now rp da i dp"
    "gr_root_program_id row = rt_root_program_id rp" "gr_delegated_authority_id row = at_delegated_authority_id da"
    "gr_issuer_id row = it_issuer_id i" "gr_destination_policy_id row = pt_destination_policy_id dp"
    "list_all2 same_key (bundle_root_keys le (gt_trust_keys T) rp) (gr_root_trust_keys row)"
    "list_all2 same_key (bundle_authority_keys le (gt_trust_keys T) rp da) (gr_delegated_authority_trust_keys row)"
    "gr_issuer_certificate_refs row = bundle_certificates le (gt_issuer_certificates T) i now"
proof -
  let ?ns = "gsi_namespace input"
  let ?rows = "bundle_rows le T (ns_root_program_id ?ns) (ns_delegated_authority_id ?ns) (ns_issuer_id ?ns)
    (gsi_destination_policy_id input) now"
  have "map_result (postgresGovernancePublicationBundleRowFromRecord P parse) ?rows = Inr [row]"
    using assms by (simp add: query_governance_bundle_def governancePublicationBundleByPolicyCommand_def
        decodePostgresGovernancePublicationRows_def map_error_Inr)
  then obtain r where r: "r \<in> set ?rows" "postgresGovernancePublicationBundleRowFromRecord P parse r = Inr row"
    by (meson list.set_intros(1) map_result_mem)
  then obtain rp da i dp where sel: "rp \<in> set (gt_root_programs T)" "da \<in> set (gt_delegated_authorities T)"
    "i \<in> set (gt_issuers T)" "dp \<in> set (gt_destination_policies T)"
    "bundle_selected le T (ns_root_program_id ?ns) (ns_delegated_authority_id ?ns)
       (ns_issuer_id ?ns) (gsi_destination_policy_id input) now rp da i dp"
    and row: "r = bundle_row le T now rp da i dp"
    unfolding bundle_rows_def by (auto dest!: in_set_takeD)
  note columns = decoded_columns [OF r(2), unfolded row]
  show thesis
    using columns(1-4) string_array [OF columns(7) bundle_columns(7)]
      key_array [OF columns(5) bundle_columns(5)] key_array [OF columns(6) bundle_columns(6)]
    by (intro that [OF sel])
       (simp_all add: requireStringField_def bundle_columns requireStringValue_Inr)
qed

lemma plan_row:
  assumes "snd (planGovernancePublication P (postgres_governance_query P parse le dbError) input T) = Inr plan"
  obtains row where
    "query_governance_bundle P parse le dbError T (governancePublicationBundleByPolicyCommand P input) = Inr [row]"
  using assms
  by (auto simp: planGovernancePublication_def postgres_governance_query_def and_then_Inr
      requireSingleGovernancePublicationBundle_def split: sum.splits list.splits if_splits)

text \<open>The keys of a selection, as the entries of a manifest name them.\<close>

lemma same_key_entries: "list_all2 same_key ks ls \<Longrightarrow> map trustKeyManifestEntry ls = map trustKeyManifestEntry ks"
  by (induction rule: list_all2_induct) (auto simp: same_key_def trustKeyManifestEntry_def)


subsection \<open>The signed artifacts of a bundle\<close>

lemma planned_from_row:
  assumes "query_governance_bundle P parse le dbError T (governancePublicationBundleByPolicyCommand P input) = Inr [row]"
    and "snd (planGovernancePublication P (postgres_governance_query P parse le dbError) input T) = Inr plan"
  shows "planGovernancePublicationFromPostgresRow P row (gsi_observedAt input) = Inr plan"
    "governance_row_wf row" "gr_issuer_status_event_status row = ''active''"
proof -
  show "planGovernancePublicationFromPostgresRow P row (gsi_observedAt input) = Inr plan"
    "gr_issuer_status_event_status row = ''active''"
    using assms(2) unfolding planGovernancePublication_def postgres_governance_query_def assms(1)
    by (auto simp: and_then_Inr requireSingleGovernancePublicationBundle_def map_error_def split: if_splits sum.splits)
  show "governance_row_wf row"
    using assms(1) decoded_rows_wf unfolding query_governance_bundle_def
    by (fastforce split: if_splits list.splits sql_value.splits option.splits)
qed

text \<open>The four signed artifacts of a bundle: their form, and that the gate takes them.\<close>

lemma signed_bundle:
  assumes row: "query_governance_bundle P parse le dbError T (governancePublicationBundleByPolicyCommand P input)
      = Inr [row]"
    and plan: "snd (planGovernancePublication P (postgres_governance_query P parse le dbError) input T) = Inr plan"
    and signed: "signGovernancePublicationPlan plan (signTrustArtifact P (static_sign sign keys materials source))
      = Inr (s1, s2, s3, s4)"
    and backed: "\<forall>q \<in> set (bundle_queries row). signing_backed P sign keys materials load rs q"
  obtains a1 a2 a3 a4 k1 k2 k3 k4 policy until where
    "planGovernancePublicationFromPostgresRow P row (gsi_observedAt input) = Inr (a1, a2, a3, a4)"
    "signGovernancePublicationPlan (a1, a2, a3, a4) (signTrustArtifact P (static_sign sign keys materials source))
      = Inr (s1, s2, s3, s4)"
    "destinationPolicyProjectionFromRow P row (gsi_observedAt input) = Inr policy"
    "rootManifestBodyFromRow P row (governanceArtifactIds row) (gsi_observedAt input) = Inr (JObj k1)"
    "delegatedAuthorityManifestBodyFromRow P row (governanceArtifactIds row) (gsi_observedAt input) = Inr (JObj k2)"
    "issuerRecordBodyFromRow P row (governanceArtifactIds row) (gsi_observedAt input) = Inr (JObj k3)"
    "destinationPolicyBodyFromRow P row policy (gsi_observedAt input) = Inr (JObj k4)"
    "signed_form (ap_body s1) (gr_root_program_id row) (gr_root_program_id row) JUndefined k1
       (plan_publication P (gsi_observedAt input) (gr_root_program_id row) until)"
    "signed_form (ap_body s2) (gr_root_program_id row) (gr_root_program_id row) (JStr (gr_delegated_authority_id row)) k2
       (plan_publication P (gsi_observedAt input) (gr_root_program_id row) until)"
    "signed_form (ap_body s3) (gr_delegated_authority_id row) (gr_root_program_id row)
       (JStr (gr_delegated_authority_id row)) k3
       (plan_publication P (gsi_observedAt input) (gr_delegated_authority_id row) until)"
    "signed_form (ap_body s4) (gr_delegated_authority_id row) (gr_root_program_id row)
       (JStr (gr_delegated_authority_id row)) k4
       (plan_publication P (gsi_observedAt input) (gr_delegated_authority_id row) until)"
    "map (\<lambda>s. signature_gate (verifyTrustArtifact P (\<lambda>i. Inr (lookupSignerKey i rs)) load) (ap_body s))
      [s1, s2, s3, s4] = replicate 4 (Done Gate_accepted)"
    "validUntil P (gsi_observedAt input) (gr_destination_policy_runtime_safety_policy row) = Inr until"
proof -
  note from_row = planned_from_row [OF row plan]
  obtain a1 a2 a3 a4 where parts: "plan = (a1, a2, a3, a4)" by (cases plan)
  obtain policy where p: "destinationPolicyProjectionFromRow P row (gsi_observedAt input) = Inr policy"
    "rootManifestBodyFromRow P row (governanceArtifactIds row) (gsi_observedAt input) = Inr (ap_body a1)"
    "delegatedAuthorityManifestBodyFromRow P row (governanceArtifactIds row) (gsi_observedAt input) = Inr (ap_body a2)"
    "issuerRecordBodyFromRow P row (governanceArtifactIds row) (gsi_observedAt input) = Inr (ap_body a3)"
    "destinationPolicyBodyFromRow P row policy (gsi_observedAt input) = Inr (ap_body a4)"
    "map ap_root_program_id [a1, a2, a3, a4] = replicate 4 (gr_root_program_id row)"
    "map ap_delegated_authority_id [a1, a2, a3, a4] = None # replicate 3 (Some (gr_delegated_authority_id row))"
    by (rule planned [OF from_row(1) [unfolded parts]])
  have ids: "ap_root_program_id a1 = gr_root_program_id row" "ap_root_program_id a2 = gr_root_program_id row"
    "ap_root_program_id a3 = gr_root_program_id row" "ap_root_program_id a4 = gr_root_program_id row"
    "ap_delegated_authority_id a3 = Some (gr_delegated_authority_id row)"
    "ap_delegated_authority_id a4 = Some (gr_delegated_authority_id row)"
    using p(6,7) by (simp_all add: numeral_eq_Suc)
  let ?signer = "signTrustArtifact P (static_sign sign keys materials source)"
  have s: "sign_as_root ?signer a1 = Inr s1" "sign_as_root ?signer a2 = Inr s2"
    "sign_as_authority ?signer a3 = Inr s3" "sign_as_authority ?signer a4 = Inr s4"
    using signed by (auto simp: parts signGovernancePublicationPlan_def and_then_Inr)
  have namespace: "dp_namespace policy = namespaceFromRow row" using planned_policy_namespace [OF p(1)] by simp
  obtain k1 u1 where 1: "ap_body a1 = JObj k1"
    "signed_form (ap_body s1) (gr_root_program_id row) (gr_root_program_id row) JUndefined k1
       (plan_publication P (gsi_observedAt input) (gr_root_program_id row) u1)"
    "validUntil P (gsi_observedAt input) (gr_destination_policy_runtime_safety_policy row) = Inr u1"
    "gate_ready (verifyTrustArtifact P (\<lambda>i. Inr (lookupSignerKey i rs)) load) (gr_root_program_id row) a1 s1"
    by (rule signed_root_manifest [OF p(2) from_row(2) ids(1) s(1) backed])
  obtain k2 u2 where 2: "ap_body a2 = JObj k2"
    "signed_form (ap_body s2) (gr_root_program_id row) (gr_root_program_id row) (JStr (gr_delegated_authority_id row)) k2
       (plan_publication P (gsi_observedAt input) (gr_root_program_id row) u2)"
    "validUntil P (gsi_observedAt input) (gr_destination_policy_runtime_safety_policy row) = Inr u2"
    "gate_ready (verifyTrustArtifact P (\<lambda>i. Inr (lookupSignerKey i rs)) load) (gr_root_program_id row) a2 s2"
    by (rule signed_authority_manifest [OF p(3) from_row(2) ids(2) s(2) backed])
  obtain k3 u3 where 3: "ap_body a3 = JObj k3"
    "signed_form (ap_body s3) (gr_delegated_authority_id row) (gr_root_program_id row)
       (JStr (gr_delegated_authority_id row)) k3
       (plan_publication P (gsi_observedAt input) (gr_delegated_authority_id row) u3)"
    "validUntil P (gsi_observedAt input) (gr_destination_policy_runtime_safety_policy row) = Inr u3"
    "gate_ready (verifyTrustArtifact P (\<lambda>i. Inr (lookupSignerKey i rs)) load) (gr_delegated_authority_id row) a3 s3"
    by (rule signed_issuer_record [OF p(4) from_row(2) ids(3,5) s(3) backed])
  obtain k4 u4 where 4: "ap_body a4 = JObj k4"
    "signed_form (ap_body s4) (gr_delegated_authority_id row) (gr_root_program_id row)
       (JStr (gr_delegated_authority_id row)) k4
       (plan_publication P (gsi_observedAt input) (gr_delegated_authority_id row) u4)"
    "validUntil P (gsi_observedAt input) (gr_destination_policy_runtime_safety_policy row) = Inr u4"
    "gate_ready (verifyTrustArtifact P (\<lambda>i. Inr (lookupSignerKey i rs)) load) (gr_delegated_authority_id row) a4 s4"
    by (rule signed_destination_policy [OF p(5) from_row(2) namespace ids(4,6) s(4) backed])
  have until: "u2 = u1" "u3 = u1" "u4 = u1" using 1(3) 2(3) 3(3) 4(3) by simp_all
  show thesis
    using that [OF from_row(1) [unfolded parts] signed [unfolded parts] p(1) p(2-5) [unfolded 1(1) 2(1) 3(1) 4(1)]
        1(2) 2(2) [unfolded until] 3(2) [unfolded until] 4(2) [unfolded until] _ 1(3)] 1(4) 2(4) 3(4) 4(4)
    by (simp add: gate_ready_def numeral_eq_Suc)
qed

text \<open>
  The id of an issuer record comes from the slug of the issuer alone: issuers whose ids differ in
  punctuation, or that belong to different root programs, share it.
\<close>

lemma issuers_share_an_artifact_id:
  assumes "gr_issuer_id r = ''issuer:a-b''" "gr_issuer_id r' = ''issuer:a_b''"
  shows "ga_issuer_record_artifact_id (governanceArtifactIds r) = ga_issuer_record_artifact_id (governanceArtifactIds r')"
proof -
  have "artifactSlug ''issuer:a-b'' ''issuer'' = artifactSlug ''issuer:a_b'' ''issuer''" by code_simp
  then show ?thesis by (simp add: governanceArtifactIds_def assms)
qed

end
