(* ===== verification/BundleFacts.thy ===== *)
theory BundleFacts
  imports BundleSource
begin

text \<open>
  What becomes of a bundle of the governance tables: the signed artifacts pass the gate of the verifier
  sync, the records it was made of were active, and what a publication stores and announces.
\<close>

subsection \<open>A bundle of the tables\<close>

definition fx_governance_tables :: governance_tables where
  "fx_governance_tables =
     \<lparr>gt_root_programs = [\<lparr>rt_root_program_id = ''root:qrtrust-demo:2026'', rt_name = ''R'', rt_program_scope = ''s'',
        rt_accepted_algorithm_ids = [''ed25519''], rt_policy_constraints = JObj [], rt_status = ''active''\<rparr>],
      gt_delegated_authorities = [\<lparr>at_root_program_id = ''root:qrtrust-demo:2026'',
        at_delegated_authority_id = ''authority:qrtrust-demo:merchant-web'', at_name = ''A'', at_authority_type = ''t'',
        at_scope = JObj [(''web'', JBool True), (''pay'', JBool False)], at_assurance_requirements = JObj [],
        at_status = ''active''\<rparr>],
      gt_issuers = [\<lparr>it_root_program_id = ''root:qrtrust-demo:2026'',
        it_delegated_authority_id = ''authority:qrtrust-demo:merchant-web'', it_issuer_id = ''issuer:i'',
        it_display_name = ''I'', it_issuer_class = ''c'', it_assurance_tier = ''t'', it_assurance_evidence = JObj [],
        it_enrollment_status = ''active''\<rparr>],
      gt_destination_policies = [\<lparr>pt_root_program_id = ''root:qrtrust-demo:2026'',
        pt_delegated_authority_id = ''authority:qrtrust-demo:merchant-web'', pt_issuer_id = ''issuer:i'',
        pt_destination_policy_id = ''policy:p:v1'', pt_usage_policy = ''reusable_public'',
        pt_approved_destinations = JArr [rule_json fx_rule], pt_redirect_policy = redirect_json fx_redirect,
        pt_runtime_safety_policy = JObj [(''publication_ttl_seconds'', int_json 18403200)],
        pt_version = 1, pt_status = ''active''\<rparr>],
      gt_issuer_certificates = [\<lparr>ct_root_program_id = ''root:qrtrust-demo:2026'',
        ct_delegated_authority_id = ''authority:qrtrust-demo:merchant-web'', ct_issuer_id = ''issuer:i'',
        ct_certificate_id = ''cert:1'', ct_key_status = ''active'', ct_not_before = 0,
        ct_not_after = 1798675200000\<rparr>],
      gt_trust_keys = [demoRootTrustKey, demoDelegatedAuthorityTrustKey],
      gt_status_events = []\<rparr>"

definition fx_bundle_input :: governance_source_input where
  "fx_bundle_input =
     \<lparr>gsi_namespace = \<lparr>ns_root_program_id = ''root:qrtrust-demo:2026'',
        ns_delegated_authority_id = ''authority:qrtrust-demo:merchant-web'', ns_issuer_id = ''issuer:i''\<rparr>,
      gsi_destination_policy_id = ''policy:p:v1'', gsi_observedAt = fx_now\<rparr>"

definition fx_bundle_query :: "sql_command \<Rightarrow> (governance_tables, governance_row list) call" where
  "fx_bundle_query = postgres_governance_query fx_platform (\<lambda>_. None) js_le
     (PersistenceError ''db'' (OtherCause JUndefined))"

definition fx_bundle_plan :: "net_error + governance_plan" where
  "fx_bundle_plan = snd (planGovernancePublication fx_platform fx_bundle_query fx_bundle_input fx_governance_tables)"

definition fx_bundle_signer :: artifact_signer where
  "fx_bundle_signer = signTrustArtifact fx_platform (static_sign fx_pair_sign demo_signing_keys fx_materials
     Signing_fixture)"

definition fx_row :: governance_row where
  "fx_row =
     \<lparr>gr_root_program_id = ''root:qrtrust-demo:2026'', gr_root_name = ''R'', gr_root_program_scope = ''s'',
      gr_root_accepted_algorithm_ids = [''ed25519''], gr_root_trust_keys = [demoRootTrustKey],
      gr_root_policy_constraints = JObj [], gr_root_status = ''active'',
      gr_delegated_authority_id = ''authority:qrtrust-demo:merchant-web'', gr_delegated_authority_name = ''A'',
      gr_delegated_authority_type = ''t'', gr_delegated_authority_scope = JObj [(''web'', JBool True), (''pay'', JBool False)],
      gr_delegated_authority_assurance_requirements = JObj [],
      gr_delegated_authority_trust_keys = [demoDelegatedAuthorityTrustKey], gr_delegated_authority_status = ''active'',
      gr_issuer_id = ''issuer:i'', gr_issuer_display_name = ''I'', gr_issuer_class = ''c'', gr_issuer_assurance_tier = ''t'',
      gr_issuer_assurance_evidence = JObj [], gr_issuer_enrollment_status = ''active'',
      gr_issuer_certificate_refs = [''cert:1''], gr_issuer_certificate_status = ''active'',
      gr_issuer_status_event_ref = ''status:i:active:v1'', gr_issuer_status_event_status = ''active'',
      gr_issuer_status_event_published_at = ''2026-06-01T00:00:00.000Z'', gr_destination_policy_id = ''policy:p:v1'',
      gr_destination_policy_usage_policy = ''reusable_public'',
      gr_destination_policy_approved_destinations = [rule_json fx_rule],
      gr_destination_policy_redirect_policy = redirect_json fx_redirect,
      gr_destination_policy_runtime_safety_policy = JObj [(''publication_ttl_seconds'', int_json 18403200)],
      gr_destination_policy_version = 1, gr_destination_policy_status = ''active''\<rparr>"

lemma fx_bundle_row:
  "query_governance_bundle fx_platform (\<lambda>_. None) js_le (PersistenceError ''db'' (OtherCause JUndefined))
     fx_governance_tables (governancePublicationBundleByPolicyCommand fx_platform fx_bundle_input) = Inr [fx_row]"
  by code_simp

lemma fx_bundle_planned:
  obtains plan where "planGovernancePublicationFromPostgresRow fx_platform fx_row fx_now = Inr plan"
    "fx_bundle_plan = Inr plan"
    "planGovernancePublication fx_platform fx_bundle_query fx_bundle_input fx_governance_tables =
      (fx_governance_tables, Inr plan)"
proof -
  have "\<not> isl (planGovernancePublicationFromPostgresRow fx_platform fx_row fx_now)" by code_simp
  then obtain plan where plan: "planGovernancePublicationFromPostgresRow fx_platform fx_row fx_now = Inr plan"
    by (cases "planGovernancePublicationFromPostgresRow fx_platform fx_row fx_now") auto
  moreover have "gr_issuer_status_event_status fx_row = ''active''" by (simp add: fx_row_def)
  moreover have "gsi_observedAt fx_bundle_input = fx_now" by (simp add: fx_bundle_input_def)
  ultimately have "planGovernancePublication fx_platform fx_bundle_query fx_bundle_input fx_governance_tables =
      (fx_governance_tables, Inr plan)"
    by (simp add: planGovernancePublication_def fx_bundle_query_def postgres_governance_query_def fx_bundle_row
        requireSingleGovernancePublicationBundle_def and_then_def)
  then show thesis using that plan by (simp add: fx_bundle_plan_def)
qed

lemma fx_selects:
  "selectSigningKey demo_signing_keys
     \<lparr>cr_payload = p, cr_signed_by = ''root:qrtrust-demo:2026'', cr_root_program_id = ''root:qrtrust-demo:2026'',
      cr_accepted_algorithm_ids = Some [''ed25519''], cr_delegated_authority_id = None, cr_key_id = None\<rparr> =
   Inr (Some demoRootSigningKey)"
  "selectSigningKey demo_signing_keys
     \<lparr>cr_payload = p, cr_signed_by = ''authority:qrtrust-demo:merchant-web'',
      cr_root_program_id = ''root:qrtrust-demo:2026'', cr_accepted_algorithm_ids = Some [''ed25519''],
      cr_delegated_authority_id = Some ''authority:qrtrust-demo:merchant-web'', cr_key_id = None\<rparr> =
   Inr (Some demoDelegatedAuthoritySigningKey)"
  by code_simp+

lemma fx_signs:
  assumes "k = demoRootSigningKey \<or> k = demoDelegatedAuthoritySigningKey"
    and "selectSigningKey demo_signing_keys (custody_request_of fx_platform input) = Inr (Some k)"
  obtains r where "fx_bundle_signer input = Inr r"
proof -
  have "list_all (\<lambda>k. sk_algorithm_id k = ''ed25519'' \<and>
      keep_truthy (map_of fx_materials (sk_private_key_material_ref k)) \<noteq> None)
      [demoRootSigningKey, demoDelegatedAuthoritySigningKey]" by code_simp
  then have "sk_algorithm_id k = ''ed25519''"
    "\<exists>pem. keep_truthy (map_of fx_materials (sk_private_key_material_ref k)) = Some pem" using assms(1) by auto
  then show thesis
    using that by (auto simp: fx_bundle_signer_def signTrustArtifact_def static_sign_def with_signing_key_def
      assms(2) some_signature_def signEd25519Payload_def fx_pair_sign_def)
qed

definition fx_stored :: "artifact_publication_input \<Rightarrow> jsval \<Rightarrow> signed_artifact" where
  "fx_stored a b = \<lparr>sa_artifact_id = ap_artifact_id a, sa_artifact_hash = ''sha256:00'',
     sa_artifact_type = ap_artifact_type a, sa_version = ap_version a, sa_body = b\<rparr>"

definition fx_announceable :: "artifact_publication_input \<Rightarrow> bool" where
  "fx_announceable a \<longleftrightarrow> ap_eventType a \<noteq> [] \<and> ap_artifact_id a \<noteq> [] \<and> 1 \<le> ap_version a \<and>
     ap_occurredAt a = fx_now \<and> ap_previous_version a = None \<and> root_program_id_ok (ap_root_program_id a) \<and>
     opt_all (prefix ''authority:'') (keep_truthy (ap_delegated_authority_id a)) \<and>
     opt_all (prefix ''issuer:'') (keep_truthy (ap_issuer_id a)) \<and>
     opt_all (prefix ''policy:'') (keep_truthy (ap_destination_policy_id a))"

lemma fx_announceable_valid:
  "fx_announceable a \<Longrightarrow> envelope_valid fx_platform (publication_envelope fx_platform a (fx_stored a JNull))"
proof -
  have "date_parse fx_platform (iso_string fx_platform fx_now) \<noteq> None" by code_simp
  then show "fx_announceable a \<Longrightarrow> ?thesis"
    by (simp add: fx_announceable_def envelope_valid_def publication_envelope_def fx_stored_def
        eventIdForPublication_def opt_all_def)
qed

lemma fx_bundle_artifacts:
  obtains a1 a2 a3 a4 s1 s2 s3 s4 where "fx_bundle_plan = Inr (a1, a2, a3, a4)"
    "signGovernancePublicationPlan (a1, a2, a3, a4) fx_bundle_signer = Inr (s1, s2, s3, s4)"
    "list_all (\<lambda>a. envelope_valid fx_platform (publication_envelope fx_platform a (fx_stored a JNull))) [a1, a2, a3, a4]"
proof -
  obtain plan where "planGovernancePublicationFromPostgresRow fx_platform fx_row fx_now = Inr plan"
    and found: "fx_bundle_plan = Inr plan" by (rule fx_bundle_planned)
  moreover obtain a1 a2 a3 a4 where parts: "plan = (a1, a2, a3, a4)" by (cases plan)
  ultimately have p: "planGovernancePublicationFromPostgresRow fx_platform fx_row fx_now = Inr (a1, a2, a3, a4)"
    by simp
  have r: "gr_root_program_id fx_row = ''root:qrtrust-demo:2026''"
    "gr_delegated_authority_id fx_row = ''authority:qrtrust-demo:merchant-web''"
    "gr_issuer_id fx_row = ''issuer:i''" "gr_destination_policy_id fx_row = ''policy:p:v1''"
    "gr_destination_policy_version fx_row = 1" by (simp_all add: fx_row_def)
  from p have ids: "ap_root_program_id a1 = ''root:qrtrust-demo:2026''" "ap_root_program_id a2 = ''root:qrtrust-demo:2026''"
    "ap_root_program_id a3 = ''root:qrtrust-demo:2026''" "ap_root_program_id a4 = ''root:qrtrust-demo:2026''"
    "ap_delegated_authority_id a3 = Some ''authority:qrtrust-demo:merchant-web''"
    "ap_delegated_authority_id a4 = Some ''authority:qrtrust-demo:merchant-web''"
    by (rule planned, simp add: r numeral_eq_Suc)+
  from p have "list_all fx_announceable [a1, a2, a3, a4]"
    by (rule planned)
      (use planned_envelopes [OF p] in \<open>simp add: r numeral_eq_Suc fx_announceable_def governanceArtifactIds_def
        keep_nonempty opt_all_def root_program_id_ok_def authorityPublicationEventTypes_def\<close>)
  then have valid: "list_all (\<lambda>a. envelope_valid fx_platform (publication_envelope fx_platform a (fx_stored a JNull)))
      [a1, a2, a3, a4]"
    by (simp add: fx_announceable_valid)
  have as_root: "\<exists>s. sign_as_root fx_bundle_signer a = Inr s"
    if "ap_root_program_id a = ''root:qrtrust-demo:2026''" for a
    by (rule fx_signs [of demoRootSigningKey "plan_signing_input ''root:qrtrust-demo:2026'' None a"])
      (simp_all add: custody_request_of_def plan_signing_input_def keep_nonempty that fx_selects sign_as_root_def
        signPublicationInput_def and_then_def)
  have as_authority: "\<exists>s. sign_as_authority fx_bundle_signer a = Inr s"
    if "ap_root_program_id a = ''root:qrtrust-demo:2026''"
      "ap_delegated_authority_id a = Some ''authority:qrtrust-demo:merchant-web''" for a
    by (rule fx_signs [of demoDelegatedAuthoritySigningKey "plan_signing_input ''authority:qrtrust-demo:merchant-web''
          (Some ''authority:qrtrust-demo:merchant-web'') a"])
      (simp_all add: custody_request_of_def plan_signing_input_def keep_nonempty that fx_selects sign_as_authority_def
        signPublicationInput_def and_then_def)
  show thesis
    using as_root [OF ids(1)] as_root [OF ids(2)] as_authority [OF ids(3,5)] as_authority [OF ids(4,6)]
      that [OF found [unfolded parts] _ valid]
    by (auto simp: signGovernancePublicationPlan_def and_then_Inr)
qed

lemma fx_backed:
  assumes "gr_root_program_id row = ''root:qrtrust-demo:2026''"
    "gr_delegated_authority_id row = ''authority:qrtrust-demo:merchant-web''"
    "gr_root_accepted_algorithm_ids row = [''ed25519'']"
  shows "\<forall>q \<in> set (bundle_queries row).
     signing_backed fx_platform fx_pair_sign demo_signing_keys fx_materials inline_load demo_registry q"
proof -
  let ?q = "\<lambda>by_id a. \<lparr>li_signed_by = by_id, li_root_program_id = ''root:qrtrust-demo:2026'',
    li_accepted_algorithm_ids = [''ed25519''], li_delegated_authority_id = a\<rparr>"
  let ?authority = "''authority:qrtrust-demo:merchant-web''" and ?root = "''root:qrtrust-demo:2026''"
  have usable: "list_all (\<lambda>(q, k). filter (usable_key q) (registry_snapshot demo_registry) = [k])
      [(?q ?root None, demoRootTrustKey), (?q ?root (Some ?authority), demoRootTrustKey),
       (?q ?authority (Some ?authority), demoDelegatedAuthorityTrustKey)]" by code_simp
  have materials: "list_all (\<lambda>sk. \<forall>(by_id, pem) \<in> set [(?root, ''root''), (?authority, ''authority'')].
      sk_signer_id sk = by_id \<longrightarrow> map_of fx_materials (sk_private_key_material_ref sk) \<in> {None, Some pem})
      demo_signing_keys" by code_simp
  have load: "list_all (\<lambda>(k, pem). pem \<noteq> [] \<and> (case inline_load k of
      Inr (Some m) \<Rightarrow> km_public_key_material_pem m = pem | _ \<Rightarrow> False))
      [(demoRootTrustKey, demoRootPublicKeyPem), (demoDelegatedAuthorityTrustKey, demoDelegatedAuthorityPublicKeyPem)]"
    by code_simp
  have pairs: "pairs_with fx_platform fx_pair_sign inline_load demoRootTrustKey ''root''"
    "pairs_with fx_platform fx_pair_sign inline_load demoDelegatedAuthorityTrustKey ''authority''"
    using load by (auto simp: pairs_with_def fx_pair_sign_def fx_platform_def split: sum.splits option.splits)
  have backed: "signing_backed fx_platform fx_pair_sign demo_signing_keys fx_materials inline_load demo_registry q"
    if only: "filter (usable_key q) (registry_snapshot demo_registry) = [k]"
      and materials: "\<forall>sk \<in> set demo_signing_keys. sk_signer_id sk = li_signed_by q \<longrightarrow>
        map_of fx_materials (sk_private_key_material_ref sk) \<in> {None, Some pem}"
      and pairs: "pairs_with fx_platform fx_pair_sign inline_load k pem" for q k pem
  proof -
    have "{x \<in> set (registry_snapshot demo_registry). usable_key q x} = {k}"
      using arg_cong [OF only, of set] by simp
    then show ?thesis using materials pairs by (fastforce simp: signing_backed_def list_ex_iff)
  qed
  show ?thesis
    using usable materials pairs
    by (auto simp: bundle_queries_def bundle_query_def assms list_all_iff intro!: backed)
qed


subsection \<open>The gate of the verifier sync\<close>

text \<open>
  C35. A bundle of the governance tables that is signed with the static materials passes the gate of
  the verifier sync, artifact by artifact: the signed root and authority manifests under the root, the
  signed issuer record and destination policy under the authority of the bundle. Planning, the record of
  a publication that signing rewrites afterwards, and the recognition of the four artifact types by the
  verifier thus agree. It is required that the registry of the verifier holds a usable key for each of the
  three lookups and that its public material verifies what the private materials of the signer sign.
\<close>

theorem signed_bundle_passes_the_gate:
  assumes row: "query_governance_bundle P parse le dbError T (governancePublicationBundleByPolicyCommand P input)
      = Inr [row]"
    and plan: "snd (planGovernancePublication P (postgres_governance_query P parse le dbError) input T) = Inr plan"
    and signed: "signGovernancePublicationPlan plan (signTrustArtifact P (static_sign sign keys materials source))
      = Inr (s1, s2, s3, s4)"
    and backed: "\<forall>q \<in> set (bundle_queries row). signing_backed P sign keys materials load rs q"
  shows "map (\<lambda>s. signature_gate (verifyTrustArtifact P (\<lambda>i. Inr (lookupSignerKey i rs)) load) (ap_body s))
      [s1, s2, s3, s4] = replicate 4 (Done Gate_accepted) \<and>
    map (\<lambda>s. get_prop (ap_body s) ''signed_by'') [s1, s2, s3, s4] =
      map JStr [gr_root_program_id row, gr_root_program_id row, gr_delegated_authority_id row,
        gr_delegated_authority_id row]"
  by (rule signed_bundle [OF assms]) (simp add: signed_fields(3))

theorem signed_bundle_passes_the_gate_witness:
  "\<exists>plan s1 s2 s3 s4. fx_bundle_plan = Inr plan \<and>
     signGovernancePublicationPlan plan fx_bundle_signer = Inr (s1, s2, s3, s4) \<and>
     map (\<lambda>s. signature_gate (verifyTrustArtifact fx_platform (\<lambda>i. Inr (lookupSignerKey i demo_registry)) inline_load)
        (ap_body s)) [s1, s2, s3, s4] = replicate 4 (Done Gate_accepted)"
proof -
  obtain a1 a2 a3 a4 s1 s2 s3 s4 where signed: "fx_bundle_plan = Inr (a1, a2, a3, a4)"
    "signGovernancePublicationPlan (a1, a2, a3, a4) fx_bundle_signer = Inr (s1, s2, s3, s4)"
    by (rule fx_bundle_artifacts)
  have "map (\<lambda>s. signature_gate (verifyTrustArtifact fx_platform (\<lambda>i. Inr (lookupSignerKey i demo_registry)) inline_load)
        (ap_body s)) [s1, s2, s3, s4] = replicate 4 (Done Gate_accepted)"
    using signed_bundle_passes_the_gate [OF fx_bundle_row signed(1) [unfolded fx_bundle_plan_def fx_bundle_query_def]
        signed(2) [unfolded fx_bundle_signer_def] fx_backed]
    by (simp only: fx_row_def governance_row.select_convs)
  then show ?thesis using signed(1,2) by blast
qed


subsection \<open>Publication\<close>

text \<open>The outcome of the four publications, by the events they announced.\<close>

definition bundle_outcome :: "(net_error + authority_publication_report) \<Rightarrow> network_event list \<Rightarrow> bool" where
  "bundle_outcome r events \<longleftrightarrow>
     (case r of
        Inl err \<Rightarrow> length events < 4
      | Inr report \<Rightarrow> length events = 4 \<and> pb_published_artifacts report = 4 \<and>
          pb_published_event_types report = map (\<lambda>e. ee_type (ne_envelope e)) events \<and>
          [pb_root_manifest_artifact_id report, pb_delegated_authority_artifact_id report,
           pb_issuer_record_artifact_id report, pb_destination_policy_artifact_id report] =
            map (\<lambda>e. ee_artifact_id (ne_envelope e)) events)"

lemma signed_bundle_is_announced:
  assumes plan: "planGovernancePublication P query input e = (e1, Inr (a1, a2, a3, a4))"
    and signed: "signGovernancePublicationPlan (a1, a2, a3, a4) signer = Inr (s1, s2, s3, s4)"
    and run: "publishGovernanceBundle (planGovernancePublication P query) (publishArtifact P memory_put memory_publish)
      signer input (e, (s, b)) = ((e', (s', b')), r)"
  shows "\<exists>events. memory_recent b' = memory_recent b @ events \<and>
    list_all2 (announces P memory_get s') (take (length events) [s1, s2, s3, s4]) events \<and>
    map (\<lambda>e. ee_type (ne_envelope e)) events = take (length events) authorityPublicationEventTypes \<and>
    bundle_outcome r events"
proof -
  let ?signed = "[s1, s2, s3, s4]"
  obtain row where "planGovernancePublicationFromPostgresRow P row (gsi_observedAt input) = Inr (a1, a2, a3, a4)"
    using plan unfolding planGovernancePublication_def
    by (auto simp: and_then_Inr map_error_Inr split: prod.splits sum.splits)
  note names = planned_types_and_ids [OF this signed]
  obtain st bus results err where all: "publish_all (publishArtifact P memory_put memory_publish) ?signed (s, b) =
      ((st, bus), results, err)" by (metis prod_cases4 surj_pair)
  have state: "s' = st" "b' = bus"
    and result: "r = (case err of Some x \<Rightarrow> Inl x | None \<Rightarrow> Inr (publication_report.extend (report_of results)
      (authority_publication_report.fields ''postgres_governance_publication_source'' authorityPublicationEventTypes)))"
    using bundle_run [where planGovernancePublication' = "planGovernancePublication P query" and input = input
        and e = e, OF plan signed all] run by simp_all
  note facts = memory.publish_all_announces [OF all names(2)]
  note seen = announced_names [OF facts(2)]
  have types: "map ap_eventType (take (length results) ?signed) = take (length results) authorityPublicationEventTypes"
    by (simp only: take_map [symmetric] names(1))
  have "bundle_outcome r (map pr_event results)"
  proof (cases err)
    case None
    then have "length results = 4" using publish_all_length [OF all] by simp
    then obtain r1 r2 r3 r4 where "results = [r1, r2, r3, r4]"
      by (auto simp: numeral_eq_Suc length_Suc_conv)
    then show ?thesis
      using result None seen facts(3) types
      by (simp add: bundle_outcome_def report_of_def publication_report.defs authority_publication_report.defs
          authorityPublicationEventTypes_def)
  qed (use result publish_all_length [OF all] in \<open>auto simp: bundle_outcome_def\<close>)
  moreover have "map (\<lambda>e. ee_type (ne_envelope e)) (map pr_event results) =
      take (length (map pr_event results)) authorityPublicationEventTypes" using seen(1) types by simp
  ultimately show ?thesis
    using facts(1,2) state by (intro exI [of _ "map pr_event results"]) simp
qed

text \<open>
  C36. The service that publishes a bundle of the governance tables announces the four signed artifacts
  of the plan it made: the root manifest, the authority manifest, the issuer record and the destination
  policy, in this order. When planning or signing fails it announces nothing; when one of the four
  publications fails, the events it has added announce a proper prefix of these; when it succeeds there
  are all four, and the report names their artifacts and types. Every announced artifact is in the store
  afterwards with the signed body, unspoilt by the later ones, and its envelope is valid and carries its
  id, its event type and the hash of that body.
\<close>

theorem bundle_is_announced_in_order:
  assumes "publishGovernanceBundle (planGovernancePublication P query) (publishArtifact P memory_put memory_publish)
      signer input (e, (s, b)) = ((e', (s', b')), r)"
  shows "case snd (planGovernancePublication P query input e) of
      Inl err \<Rightarrow> r = Inl err \<and> (s', b') = (s, b)
    | Inr plan \<Rightarrow>
        (case signGovernancePublicationPlan plan signer of
           Inl err \<Rightarrow> r = Inl err \<and> (s', b') = (s, b)
         | Inr (s1, s2, s3, s4) \<Rightarrow> \<exists>events.
             memory_recent b' = memory_recent b @ events \<and>
             list_all2 (announces P memory_get s') (take (length events) [s1, s2, s3, s4]) events \<and>
             map (\<lambda>e. ee_type (ne_envelope e)) events = take (length events) authorityPublicationEventTypes \<and>
             bundle_outcome r events)"
proof -
  obtain e1 planned where q: "planGovernancePublication P query input e = (e1, planned)" by (metis surj_pair)
  show ?thesis
  proof (cases planned)
    case (Inl err)
    then show ?thesis using assms q by (simp add: publishGovernanceBundle_def)
  next
    case plan: (Inr plan)
    show ?thesis
    proof (cases "signGovernancePublicationPlan plan signer")
      case (Inl err)
      then show ?thesis using assms q plan by (simp add: publishGovernanceBundle_def)
    next
      case (Inr signed)
      obtain a1 a2 a3 a4 where a: "plan = (a1, a2, a3, a4)" by (cases plan)
      obtain s1 s2 s3 s4 where s: "signed = (s1, s2, s3, s4)" by (cases signed)
      note signs = Inr [unfolded a s]
      show ?thesis
        using signed_bundle_is_announced [OF q [unfolded plan a] signs assms]
        unfolding q plan a snd_conv sum.case signs prod.case .
    qed
  qed
qed

lemma fx_sha: "sha256_of fx_platform b = ''sha256:00''"
  by (simp add: sha256_of_def hashJson_def fx_platform_def)

lemma fx_publishes:
  assumes "envelope_valid fx_platform (publication_envelope fx_platform a (fx_stored a JNull))"
  obtains s' b' res where "publishArtifact fx_platform memory_put memory_publish (a\<lparr>ap_body := v\<rparr>) (s, b) =
    ((s', b'), Inr res)"
proof -
  have "publication_envelope fx_platform (a\<lparr>ap_body := v\<rparr>) (fx_stored a v) =
      publication_envelope fx_platform a (fx_stored a JNull)"
    by (simp add: publication_envelope_def fx_stored_def eventIdForPublication_def)
  then show thesis
    using that assms by (simp add: publishArtifact_def memory_put_def memory_publish_def fx_sha fx_stored_def
        decodeEventEnvelope_def Let_def)
qed

lemma fx_bundle_run:
  obtains a1 a2 a3 a4 s1 s2 s3 s4 store bus results where "fx_bundle_plan = Inr (a1, a2, a3, a4)"
    "signGovernancePublicationPlan (a1, a2, a3, a4) fx_bundle_signer = Inr (s1, s2, s3, s4)"
    "publish_all (publishArtifact fx_platform memory_put memory_publish) [s1, s2, s3, s4] ([], []) =
       ((store, bus), results, None)"
    "distinct (map ap_artifact_id [s1, s2, s3, s4])"
proof -
  obtain a1 a2 a3 a4 s1 s2 s3 s4 where signed: "fx_bundle_plan = Inr (a1, a2, a3, a4)"
    "signGovernancePublicationPlan (a1, a2, a3, a4) fx_bundle_signer = Inr (s1, s2, s3, s4)"
    "list_all (\<lambda>a. envelope_valid fx_platform (publication_envelope fx_platform a (fx_stored a JNull))) [a1, a2, a3, a4]"
    by (rule fx_bundle_artifacts)
  have out: "\<exists>t b' res. publishArtifact fx_platform memory_put memory_publish s (t0, b0) = ((t, b'), Inr res)"
    if "s = a\<lparr>ap_body := ap_body s\<rparr>" "a \<in> {a1, a2, a3, a4}" for s a t0 b0
    by (subst that(1)) (rule fx_publishes [of a], use signed(3) that(2) in auto)
  note frame = signed_frame [OF signed(2)]
  let ?publish = "publishArtifact fx_platform memory_put memory_publish"
  obtain t1 c1 r1 where 1: "?publish s1 ([], []) = ((t1, c1), Inr r1)" using out [of s1 a1] frame by fastforce
  obtain t2 c2 r2 where 2: "?publish s2 (t1, c1) = ((t2, c2), Inr r2)" using out [of s2 a2] frame by fastforce
  obtain t3 c3 r3 where 3: "?publish s3 (t2, c2) = ((t3, c3), Inr r3)" using out [of s3 a3] frame by fastforce
  obtain t4 c4 r4 where 4: "?publish s4 (t3, c3) = ((t4, c4), Inr r4)" using out [of s4 a4] frame by fastforce
  have "planGovernancePublicationFromPostgresRow fx_platform fx_row fx_now = Inr (a1, a2, a3, a4)"
    using fx_bundle_planned signed(1) by (metis Inr_inject)
  then have "distinct (map ap_artifact_id [s1, s2, s3, s4])" by (rule planned_types_and_ids(2) [OF _ signed(2)])
  then show thesis using that [OF signed(1,2)] 1 2 3 4 by simp
qed

theorem bundle_is_announced_in_order_witness:
  "\<exists>plan s1 s2 s3 s4 s' b' report. fx_bundle_plan = Inr plan \<and>
     signGovernancePublicationPlan plan fx_bundle_signer = Inr (s1, s2, s3, s4) \<and>
     publishGovernanceBundle (planGovernancePublication fx_platform fx_bundle_query)
       (publishArtifact fx_platform memory_put memory_publish) fx_bundle_signer fx_bundle_input
       (fx_governance_tables, ([], [])) = ((fx_governance_tables, (s', b')), Inr report) \<and>
     list_all2 (announces fx_platform memory_get s') [s1, s2, s3, s4] (memory_recent b') \<and>
     pb_published_event_types report = map (\<lambda>e. ee_type (ne_envelope e)) (memory_recent b')"
proof -
  obtain a1 a2 a3 a4 s1 s2 s3 s4 store bus results where r: "fx_bundle_plan = Inr (a1, a2, a3, a4)"
    "signGovernancePublicationPlan (a1, a2, a3, a4) fx_bundle_signer = Inr (s1, s2, s3, s4)"
    "publish_all (publishArtifact fx_platform memory_put memory_publish) [s1, s2, s3, s4] ([], []) =
       ((store, bus), results, None)" by (rule fx_bundle_run)
  have plan: "planGovernancePublication fx_platform fx_bundle_query fx_bundle_input fx_governance_tables =
      (fx_governance_tables, Inr (a1, a2, a3, a4))"
    using fx_bundle_planned r(1) by (metis Inr_inject)
  obtain report where run: "publishGovernanceBundle (planGovernancePublication fx_platform fx_bundle_query)
      (publishArtifact fx_platform memory_put memory_publish) fx_bundle_signer fx_bundle_input
      (fx_governance_tables, ([], [])) = ((fx_governance_tables, (store, bus)), Inr report)"
    using bundle_run [where planGovernancePublication' = "planGovernancePublication fx_platform fx_bundle_query"
        and input = fx_bundle_input and e = fx_governance_tables, OF plan r(2,3)] by auto
  from bundle_is_announced_in_order [OF run] obtain events where events:
    "memory_recent bus = memory_recent [] @ events" "list_all2 (announces fx_platform memory_get store)
      (take (length events) [s1, s2, s3, s4]) events" "bundle_outcome (Inr report) events"
    unfolding plan snd_conv sum.case prod.case r(2) by blast
  then have "list_all2 (announces fx_platform memory_get store) [s1, s2, s3, s4] (memory_recent bus) \<and>
      pb_published_event_types report = map (\<lambda>e. ee_type (ne_envelope e)) (memory_recent bus)"
    by (simp add: bundle_outcome_def memory_recent_def)
  then show ?thesis using run r(1,2) by blast
qed


subsection \<open>The records behind a bundle\<close>

text \<open>
  C37. A bundle is planned only from one root program, authority, issuer and destination policy with
  the ids of the request, all active and each under the one before, as of the instant of the request: an
  event that makes the issuer inactive is taken back by a later effective one; the issuer record refers
  to the certificates of the issuer that are active and in their validity window, at least one; the root
  and the authority manifest list, at least one each, the active keys of the trust key table that belong to
  the root or to the authority and have an algorithm the root accepts.
\<close>

theorem planned_bundle_comes_from_active_records:
  assumes "snd (planGovernancePublication P (postgres_governance_query P parse le dbError) input T) = Inr (a1, a2, a3, a4)"
    and "date_parse P (iso_string P (gsi_observedAt input)) = Some now"
  shows "\<exists>rp \<in> set (gt_root_programs T). \<exists>da \<in> set (gt_delegated_authorities T).
    \<exists>i \<in> set (gt_issuers T). \<exists>dp \<in> set (gt_destination_policies T).
      rt_root_program_id rp = ns_root_program_id (gsi_namespace input) \<and> rt_status rp = ''active'' \<and>
      at_root_program_id da = rt_root_program_id rp \<and>
      at_delegated_authority_id da = ns_delegated_authority_id (gsi_namespace input) \<and> at_status da = ''active'' \<and>
      it_root_program_id i = rt_root_program_id rp \<and>
      it_delegated_authority_id i = at_delegated_authority_id da \<and>
      it_issuer_id i = ns_issuer_id (gsi_namespace input) \<and> it_enrollment_status i = ''active'' \<and>
      pt_root_program_id dp = rt_root_program_id rp \<and> pt_delegated_authority_id dp = at_delegated_authority_id da \<and>
      pt_issuer_id dp = it_issuer_id i \<and> pt_destination_policy_id dp = gsi_destination_policy_id input \<and>
      pt_status dp = ''active'' \<and>
      (\<forall>e \<in> set (gt_status_events T). concerns_issuer i now e \<longrightarrow>
         (\<exists>e' \<in> set (gt_status_events T). concerns_issuer i now e' \<and> later_event e' e \<and> st_status e' = ''active'')) \<and>
      (\<exists>refs. refs \<noteq> [] \<and> get_prop (ap_body a3) ''certificate_refs'' = strings_json refs \<and>
         (\<forall>ref \<in> set refs. \<exists>c \<in> set (gt_issuer_certificates T).
            ct_certificate_id c = ref \<and> ct_root_program_id c = rt_root_program_id rp \<and>
            ct_delegated_authority_id c = at_delegated_authority_id da \<and> ct_issuer_id c = it_issuer_id i \<and>
            ct_key_status c = ''active'' \<and> ct_not_before c \<le> now \<and> now < ct_not_after c)) \<and>
      (\<exists>ks. ks \<noteq> [] \<and> get_prop (ap_body a1) ''trust_keys'' = JArr (map trustKeyManifestEntry ks) \<and>
         (\<forall>k \<in> set ks. k \<in> set (gt_trust_keys T) \<and> tk_status k = Key_active \<and> tk_scope k = Scope_root_program \<and>
            tk_signer_id k = rt_root_program_id rp \<and> tk_root_program_id k = rt_root_program_id rp \<and>
            tk_algorithm_id k \<in> set (rt_accepted_algorithm_ids rp))) \<and>
      (\<exists>ks. ks \<noteq> [] \<and> get_prop (ap_body a2) ''trust_keys'' = JArr (map trustKeyManifestEntry ks) \<and>
         (\<forall>k \<in> set ks. k \<in> set (gt_trust_keys T) \<and> tk_status k = Key_active \<and>
            tk_scope k = Scope_delegated_authority \<and> tk_signer_id k = at_delegated_authority_id da \<and>
            tk_root_program_id k = rt_root_program_id rp \<and>
            tk_delegated_authority_id k = Some (at_delegated_authority_id da) \<and>
            tk_algorithm_id k \<in> set (rt_accepted_algorithm_ids rp)))"
proof -
  obtain row where query: "query_governance_bundle P parse le dbError T
      (governancePublicationBundleByPolicyCommand P input) = Inr [row]" by (rule plan_row [OF assms(1)])
  note from_row = planned_from_row [OF query assms(1)]
  obtain policy where bodies:
    "rootManifestBodyFromRow P row (governanceArtifactIds row) (gsi_observedAt input) = Inr (ap_body a1)"
    "delegatedAuthorityManifestBodyFromRow P row (governanceArtifactIds row) (gsi_observedAt input) = Inr (ap_body a2)"
    "issuerRecordBodyFromRow P row (governanceArtifactIds row) (gsi_observedAt input) = Inr (ap_body a3)"
    by (rule planned [OF from_row(1)])
  obtain rp da i dp where rows: "rp \<in> set (gt_root_programs T)" "da \<in> set (gt_delegated_authorities T)"
    "i \<in> set (gt_issuers T)" "dp \<in> set (gt_destination_policies T)"
    and sel: "bundle_selected le T (ns_root_program_id (gsi_namespace input))
      (ns_delegated_authority_id (gsi_namespace input)) (ns_issuer_id (gsi_namespace input))
      (gsi_destination_policy_id input) now rp da i dp"
    and keys: "list_all2 same_key (bundle_root_keys le (gt_trust_keys T) rp) (gr_root_trust_keys row)"
      "list_all2 same_key (bundle_authority_keys le (gt_trust_keys T) rp da) (gr_delegated_authority_trust_keys row)"
    and refs: "gr_issuer_certificate_refs row = bundle_certificates le (gt_issuer_certificates T) i now"
    by (rule decoded_bundle [OF query assms(2)])
  have status: "\<exists>e' \<in> set (gt_status_events T). concerns_issuer i now e' \<and> later_event e' e \<and> st_status e' = ''active''"
    if "e \<in> set (gt_status_events T)" "concerns_issuer i now e" for e
    by (rule latest_status_overrides [OF _ that]) (use sel in \<open>auto simp: bundle_selected_def split: option.splits\<close>)
  note sel' = sel [unfolded bundle_selected_def]
  show ?thesis
  proof (intro bexI conjI)
    show "\<exists>refs. refs \<noteq> [] \<and> get_prop (ap_body a3) ''certificate_refs'' = strings_json refs \<and>
         (\<forall>ref \<in> set refs. \<exists>c \<in> set (gt_issuer_certificates T).
            ct_certificate_id c = ref \<and> ct_root_program_id c = rt_root_program_id rp \<and>
            ct_delegated_authority_id c = at_delegated_authority_id da \<and> ct_issuer_id c = it_issuer_id i \<and>
            ct_key_status c = ''active'' \<and> ct_not_before c \<le> now \<and> now < ct_not_after c)"
      using sel' issuer_body_props(6) [OF bodies(3)] refs
      by (intro exI [of _ "gr_issuer_certificate_refs row"]) (auto simp: bundle_certificates_def)
    show "\<exists>ks. ks \<noteq> [] \<and> get_prop (ap_body a1) ''trust_keys'' = JArr (map trustKeyManifestEntry ks) \<and>
         (\<forall>k \<in> set ks. k \<in> set (gt_trust_keys T) \<and> tk_status k = Key_active \<and> tk_scope k = Scope_root_program \<and>
            tk_signer_id k = rt_root_program_id rp \<and> tk_root_program_id k = rt_root_program_id rp \<and>
            tk_algorithm_id k \<in> set (rt_accepted_algorithm_ids rp))"
      using sel' root_body_props(5) [OF bodies(1)] same_key_entries [OF keys(1)]
      by (intro exI [of _ "bundle_root_keys le (gt_trust_keys T) rp"]) (auto simp: bundle_root_keys_def)
    show "\<exists>ks. ks \<noteq> [] \<and> get_prop (ap_body a2) ''trust_keys'' = JArr (map trustKeyManifestEntry ks) \<and>
         (\<forall>k \<in> set ks. k \<in> set (gt_trust_keys T) \<and> tk_status k = Key_active \<and>
            tk_scope k = Scope_delegated_authority \<and> tk_signer_id k = at_delegated_authority_id da \<and>
            tk_root_program_id k = rt_root_program_id rp \<and>
            tk_delegated_authority_id k = Some (at_delegated_authority_id da) \<and>
            tk_algorithm_id k \<in> set (rt_accepted_algorithm_ids rp))"
      using sel' authority_body_props(6) [OF bodies(2)] same_key_entries [OF keys(2)]
      by (intro exI [of _ "bundle_authority_keys le (gt_trust_keys T) rp da"]) (auto simp: bundle_authority_keys_def)
  qed (use sel' rows status in auto)
qed

theorem planned_bundle_comes_from_active_records_witness:
  "\<exists>a1 a2 a3 a4. fx_bundle_plan = Inr (a1, a2, a3, a4) \<and>
     (\<exists>refs. refs \<noteq> [] \<and> get_prop (ap_body a3) ''certificate_refs'' = strings_json refs)"
proof -
  obtain plan where "fx_bundle_plan = Inr plan" by (rule fx_bundle_planned)
  moreover obtain a1 a2 a3 a4 where "plan = (a1, a2, a3, a4)" by (cases plan)
  ultimately have plan: "fx_bundle_plan = Inr (a1, a2, a3, a4)" by simp
  have now: "date_parse fx_platform (iso_string fx_platform fx_now) = Some fx_now" by code_simp
  then have "date_parse fx_platform (iso_string fx_platform (gsi_observedAt fx_bundle_input)) = Some fx_now"
    by (simp add: fx_bundle_input_def)
  from planned_bundle_comes_from_active_records
      [OF plan [unfolded fx_bundle_plan_def fx_bundle_query_def] this] plan
  show ?thesis by blast
qed

end
