(* ===== verification/BundleSync.thy ===== *)
theory BundleSync
  imports BundleSource
begin

text \<open>
  The sync of a signed bundle: which cache calls its four artifacts make, and what they leave of the
  other authorities of the root and of the other issuers of the authority.
\<close>

subsection \<open>The cache calls of an artifact\<close>

lemma ops_by_type:
  "get_prop b ''artifact_type'' = JStr ''root_manifest'' \<Longrightarrow>
     event_ops P e b = opt_list OpUpsertRootAuthorityContext (rootAuthorityContextFromArtifact b)"
  "get_prop b ''artifact_type'' = JStr ''delegated_authority_manifest'' \<Longrightarrow>
     event_ops P e b = opt_list OpUpsertDelegatedAuthorityIssuerContext (delegatedAuthorityIssuerContextFromArtifact b)"
  "get_prop b ''artifact_type'' = JStr ''issuer_record'' \<Longrightarrow>
     event_ops P e b = opt_list OpUpsertIssuer (issuerProjectionFromArtifact b)"
  "get_prop b ''artifact_type'' = JStr ''destination_policy'' \<Longrightarrow> event_ops P e b = policy_ops P e b"
  by (simp_all add: event_ops_def opt_list_def policy_ops_def rootAuthorityContextFromArtifact_def
      isRootManifestArtifactBody_def delegatedAuthorityIssuerContextFromArtifact_def
      isDelegatedAuthorityManifestArtifactBody_def issuerProjectionFromArtifact_def isIssuerRecordArtifactBody_def
      destinationPolicyProjectionFromArtifact_def artifactBodyTypeIs_def statusEventFromArtifact_def
      isRevocationStatusArtifactBody_def isAssuranceStatusArtifactBody_def Let_def)

definition row_issuer :: "platform \<Rightarrow> governance_row \<Rightarrow> int \<Rightarrow> string \<Rightarrow> issuer_projection" where
  "row_issuer P row now until =
     \<lparr>ip_namespace = namespaceFromRow row, ip_issuer_display_name = gr_issuer_display_name row,
      ip_assurance_tier = gr_issuer_assurance_tier row,
      ip_destination_policy_id = gr_destination_policy_id row, ip_allowed_hosts = [],
      ip_cache_generated_at = iso_string P now, ip_cache_expires_at = until\<rparr>"

text \<open>The calls of the manifests and of the issuer record of a bundle.\<close>

lemma root_manifest_ops:
  assumes "rootManifestBodyFromRow P row ids now = Inr (JObj kvs)" and wf: "governance_row_wf row"
    and form: "signed_form b by_id (gr_root_program_id row) authority kvs (plan_publication P now by_id until)"
  shows "event_ops P e b = [OpUpsertRootAuthorityContext
    \<lparr>rac_root_program_id = gr_root_program_id row,
     rac_active_delegated_authority_ids = [gr_delegated_authority_id row]\<rparr>]"
proof -
  have props: "get_prop b ''artifact_type'' = JStr ''root_manifest''"
    "get_prop b ''delegated_authorities'' = JArr [JObj
       [(''delegated_authority_id'', JStr (gr_delegated_authority_id row)),
        (''name'', JStr (gr_delegated_authority_name row)),
        (''manifest_ref'', JStr (ga_delegated_authority_artifact_id ids)),
        (''status'', JStr (gr_delegated_authority_status row))]]"
    by (subst signed_other [OF form], simp add: set_by_signing_def, rule root_body_props [OF assms(1)])+
  have "gr_delegated_authority_status row = ''active''" using wf by (simp add: governance_row_wf_def)
  then have "rootAuthorityContextFromArtifact b = Some
    \<lparr>rac_root_program_id = gr_root_program_id row,
     rac_active_delegated_authority_ids = [gr_delegated_authority_id row]\<rparr>"
    using root_manifest_recognised(1) [OF assms]
    by (simp add: rootAuthorityContextFromArtifact_def active_ids_def props(2) signed_fields(4) [OF form])
  then show ?thesis by (simp add: ops_by_type(1) [OF props(1)] opt_list_def)
qed

lemma authority_manifest_ops:
  assumes "delegatedAuthorityManifestBodyFromRow P row ids now = Inr (JObj kvs)" and wf: "governance_row_wf row"
    and form: "signed_form b by_id (gr_root_program_id row) (JStr (gr_delegated_authority_id row)) kvs
      (plan_publication P now by_id until)"
  shows "event_ops P e b = [OpUpsertDelegatedAuthorityIssuerContext
    \<lparr>daic_root_program_id = gr_root_program_id row, daic_delegated_authority_id = gr_delegated_authority_id row,
     daic_active_issuer_ids = [gr_issuer_id row]\<rparr>]"
proof -
  have props: "get_prop b ''artifact_type'' = JStr ''delegated_authority_manifest''"
    "get_prop b ''enrolled_issuers'' = JArr [JObj
       [(''issuer_id'', JStr (gr_issuer_id row)), (''issuer_record_ref'', JStr (ga_issuer_record_artifact_id ids)),
        (''assurance_tier'', JStr (gr_issuer_assurance_tier row)),
        (''status'', JStr (gr_issuer_enrollment_status row))]]"
    by (subst signed_other [OF form], simp add: set_by_signing_def, rule authority_body_props [OF assms(1)])+
  have "gr_issuer_enrollment_status row = ''active''" using wf by (simp add: governance_row_wf_def)
  then have "delegatedAuthorityIssuerContextFromArtifact b = Some
    \<lparr>daic_root_program_id = gr_root_program_id row, daic_delegated_authority_id = gr_delegated_authority_id row,
     daic_active_issuer_ids = [gr_issuer_id row]\<rparr>"
    using authority_manifest_recognised(1) [OF assms]
    by (simp add: delegatedAuthorityIssuerContextFromArtifact_def active_ids_def props(2) signed_fields(4,5) [OF form])
  then show ?thesis by (simp add: ops_by_type(2) [OF props(1)] opt_list_def)
qed

lemma issuer_record_ops:
  assumes "issuerRecordBodyFromRow P row ids now = Inr (JObj kvs)" and wf: "governance_row_wf row"
    and "gr_issuer_status_event_status row = ''active''"
    and form: "signed_form b by_id (gr_root_program_id row) (JStr (gr_delegated_authority_id row)) kvs
      (plan_publication P now by_id until)"
  shows "event_ops P e b = [OpUpsertIssuer (row_issuer P row now until)]"
proof -
  have props: "get_prop b ''artifact_type'' = JStr ''issuer_record''"
    "get_prop b ''issuer_namespace'' = namespace_json (namespaceFromRow row)"
    "get_prop b ''issuer_display_name'' = JStr (gr_issuer_display_name row)"
    "get_prop b ''assurance_tier'' = JStr (gr_issuer_assurance_tier row)"
    "get_prop b ''destination_policies'' = JArr [JObj
       [(''destination_policy_id'', JStr (gr_destination_policy_id row)),
        (''policy_ref'', JStr (ga_destination_policy_artifact_id ids)),
        (''usage_policy'', JStr (gr_destination_policy_usage_policy row)),
        (''status'', JStr (gr_destination_policy_status row))]]"
    "get_prop b ''status'' = JObj
       [(''issuer_status'', JStr (gr_issuer_status_event_status row)),
        (''certificate_status'', JStr (gr_issuer_certificate_status row)),
        (''status_event_ref'', JStr (gr_issuer_status_event_ref row))]"
    by (subst signed_other [OF form], simp add: set_by_signing_def, rule issuer_body_props [OF assms(1)])+
  have "gr_issuer_certificate_status row = ''active''" "gr_destination_policy_status row = ''active''"
    using wf by (simp_all add: governance_row_wf_def)
  moreover have "get_prop (get_prop b ''publication'') ''published_at'' = JStr (iso_string P now)"
    "get_prop (get_prop b ''publication'') ''valid_until'' = JStr until"
    by (simp_all only: signed_fields(7) [OF form] signed_publication)
  ultimately have "issuerProjectionFromArtifact b = Some (row_issuer P row now until)"
    using issuer_record_recognised(1) [OF assms(1) wf form] assms(3)
    by (simp add: issuerProjectionFromArtifact_def Let_def props(2-) namespace_props namespace_of_def row_issuer_def
        namespaceFromRow_def)
  then show ?thesis by (simp add: ops_by_type(3) [OF props(1)] opt_list_def)
qed


subsection \<open>Syncing accepted artifacts\<close>

lemma accepted_project:
  assumes "announces P get store input event"
    and "ap_eventType input \<noteq> ''scanner.decision.recorded''"
    and "signature_gate (verify (sy_registry st)) (ap_body input) = Done Gate_accepted"
  shows "sync_event P (\<lambda>i. Inr (get i store)) verify h event st =
    (project_artifact P h (ne_envelope event) (ap_body input)
      (st\<lparr>sy_fetched := sy_fetched st + 1, sy_validated := sy_validated st + 1\<rparr>), Done ())"
  using assms by (auto simp: announces_def sync_event_def Let_def)

lemma sync_announced:
  assumes "list_all2 (announces P get store) inputs events"
    and "\<forall>a \<in> set inputs. ap_eventType a \<noteq> ''scanner.decision.recorded'' \<and>
      signature_gate (verify (sy_registry st)) (ap_body a) = Done Gate_accepted \<and>
      \<not> isRevocationStatusArtifactBody (ap_body a)"
  shows "\<exists>st'. sync_events P (\<lambda>i. Inr (get i store)) verify h events st = (st', Done ()) \<and>
    sy_registry st' = sy_registry st \<and> sy_validated st' = sy_validated st + length events \<and>
    sy_cache st' = map_option (cache_run (concat (map (\<lambda>(a, e). event_ops P (ne_envelope e) (ap_body a))
      (zip inputs events)))) (sy_cache st)"
  using assms
proof (induction arbitrary: st rule: list_all2_induct)
  case (Cons a inputs e events)
  obtain st1 where st1: "st1 = project_artifact P h (ne_envelope e) (ap_body a)
      (st\<lparr>sy_fetched := sy_fetched st + 1, sy_validated := sy_validated st + 1\<rparr>)" by blast
  have step: "sync_event P (\<lambda>i. Inr (get i store)) verify h e st = (st1, Done ())"
    unfolding st1 by (rule accepted_project) (use Cons in auto)
  have registry: "sy_registry st1 = sy_registry st" using Cons.prems by (simp add: st1 project_registry)
  have cache: "sy_cache st1 = map_option (cache_run (event_ops P (ne_envelope e) (ap_body a))) (sy_cache st)"
    by (simp add: st1 project_cache)
  have validated: "sy_validated st1 = Suc (sy_validated st)" by (simp add: st1)
  have "\<exists>st'. sync_events P (\<lambda>i. Inr (get i store)) verify h events st1 = (st', Done ()) \<and>
    sy_registry st' = sy_registry st1 \<and> sy_validated st' = sy_validated st1 + length events \<and>
    sy_cache st' = map_option (cache_run (concat (map (\<lambda>(a, e). event_ops P (ne_envelope e) (ap_body a))
      (zip inputs events)))) (sy_cache st1)"
    by (rule Cons.IH) (use Cons.prems registry in auto)
  then show ?case
    by (auto simp: step registry cache validated cache_run_append option.map_comp o_def)
qed simp


subsection \<open>What the manifests of a bundle withdraw\<close>

text \<open>The calls of a signed bundle: two contexts, the issuer, and the policy when it is valid.\<close>

definition bundle_calls ::
  "governance_row \<Rightarrow> issuer_projection \<Rightarrow> destination_policy_projection list \<Rightarrow> cache_op list" where
  "bundle_calls row issuer policies =
     [OpUpsertRootAuthorityContext
        \<lparr>rac_root_program_id = gr_root_program_id row,
         rac_active_delegated_authority_ids = [gr_delegated_authority_id row]\<rparr>,
      OpUpsertDelegatedAuthorityIssuerContext
        \<lparr>daic_root_program_id = gr_root_program_id row, daic_delegated_authority_id = gr_delegated_authority_id row,
         daic_active_issuer_ids = [gr_issuer_id row]\<rparr>,
      OpUpsertIssuer issuer] @ map OpUpsertDestinationPolicy policies"

lemma policies_keep:
  "activeDelegatedAuthoritiesByRoot (cache_run (map OpUpsertDestinationPolicy ps) c) = activeDelegatedAuthoritiesByRoot c"
  "activeIssuersByAuthority (cache_run (map OpUpsertDestinationPolicy ps) c) = activeIssuersByAuthority c"
  "issuersByPolicyKey (cache_run (map OpUpsertDestinationPolicy ps) c) = issuersByPolicyKey c"
  "acceptedRoots (cache_run (map OpUpsertDestinationPolicy ps) c) = acceptedRoots c"
  by (induction ps arbitrary: c) (simp_all add: upsertDestinationPolicy_def)

lemma issuer_key_split:
  "authorityIssuerKey ns = authority_prefix (ns_root_program_id ns) (ns_delegated_authority_id ns) @ ns_issuer_id ns"
  by (simp add: authorityIssuerKey_def authority_prefix_def)

text \<open>After these calls the root of the bundle trusts the namespace of the bundle and no other.\<close>

lemma bundle_calls_trust:
  assumes "ns_root_program_id ns = gr_root_program_id row"
  shows "namespace_trusted (cache_run (bundle_calls row issuer policies) c) ns \<longleftrightarrow>
    acceptedRoots c (gr_root_program_id row) \<and> ns = namespaceFromRow row"
proof -
  let ?c = "cache_run (bundle_calls row issuer policies) c"
  have issuers: "set (activeIssuersByAuthority ?c) =
      insert (authorityIssuerKey (namespaceFromRow row))
        {key \<in> set (activeIssuersByAuthority c).
           \<not> prefix (authority_prefix (gr_root_program_id row) (gr_delegated_authority_id row)) key}"
    by (auto simp: bundle_calls_def policies_keep upsertIssuer_def putProjection_def upsertRootAuthorityContext_def
        replaceRootAuthorityContextSync_def upsertDelegatedAuthorityIssuerContext_def
        replaceDelegatedAuthorityIssuerContextSync_def mergeDelegatedAuthorityIssuerContextSync_def Let_def
        js_set_add_def namespaceFromRow_def)
  have roots: "map_of (activeDelegatedAuthoritiesByRoot ?c) (gr_root_program_id row) = Some [gr_delegated_authority_id row]"
    by (simp add: bundle_calls_def policies_keep upsertIssuer_def putProjection_def upsertRootAuthorityContext_def
        replaceRootAuthorityContextSync_def upsertDelegatedAuthorityIssuerContext_def
        replaceDelegatedAuthorityIssuerContextSync_def mergeDelegatedAuthorityIssuerContextSync_def Let_def
        js_unique_def js_set_add_def AList.update_conv')
  have accepted: "acceptedRoots ?c = acceptedRoots c"
    by (simp add: bundle_calls_def policies_keep upsertIssuer_def putProjection_def upsertRootAuthorityContext_def
        replaceRootAuthorityContextSync_def upsertDelegatedAuthorityIssuerContext_def
        replaceDelegatedAuthorityIssuerContextSync_def mergeDelegatedAuthorityIssuerContextSync_def Let_def)
  show ?thesis
    using assms
    by (cases ns) (auto simp: namespace_trusted_def accepted hasAuthorityContext_def roots issuers issuer_key_split
        namespaceFromRow_def)
qed

text \<open>A sync of the announced artifacts of a signed bundle makes exactly these calls.\<close>

lemma synced_bundle:
  assumes row: "query_governance_bundle P parse le dbError T (governancePublicationBundleByPolicyCommand P input)
      = Inr [row]"
    and plan: "snd (planGovernancePublication P (postgres_governance_query P parse le dbError) input T) = Inr plan"
    and signed: "signGovernancePublicationPlan plan (signTrustArtifact P (static_sign sign keys materials source))
      = Inr (s1, s2, s3, s4)"
    and backed: "\<forall>q \<in> set (bundle_queries row). signing_backed P sign keys materials load rs q"
    and announced: "list_all2 (announces P get store) [s1, s2, s3, s4] events"
  obtains policies until report where
    "syncRecent P (\<lambda>i. Inr (get i store)) (\<lambda>rs. verifyTrustArtifact P (\<lambda>i. Inr (lookupSignerKey i rs)) load)
       h events (Some c) rs =
     ((Some (cache_run (bundle_calls row (row_issuer P row (gsi_observedAt input) until) policies) c), rs), Done report)"
    "vr_validated_trust_artifacts report = 4"
    "validUntil P (gsi_observedAt input) (gr_destination_policy_runtime_safety_policy row) = Inr until"
proof -
  let ?verify = "\<lambda>rs. verifyTrustArtifact P (\<lambda>i. Inr (lookupSignerKey i rs)) load"
  note from_row = planned_from_row [OF row plan]
  obtain a1 a2 a3 a4 k1 k2 k3 k4 policy until where b:
    "planGovernancePublicationFromPostgresRow P row (gsi_observedAt input) = Inr (a1, a2, a3, a4)"
    "signGovernancePublicationPlan (a1, a2, a3, a4) (signTrustArtifact P (static_sign sign keys materials source))
      = Inr (s1, s2, s3, s4)"
    "rootManifestBodyFromRow P row (governanceArtifactIds row) (gsi_observedAt input) = Inr (JObj k1)"
    "delegatedAuthorityManifestBodyFromRow P row (governanceArtifactIds row) (gsi_observedAt input) = Inr (JObj k2)"
    "issuerRecordBodyFromRow P row (governanceArtifactIds row) (gsi_observedAt input) = Inr (JObj k3)"
    "destinationPolicyBodyFromRow P row policy (gsi_observedAt input) = Inr (JObj k4)"
    and form1: "signed_form (ap_body s1) (gr_root_program_id row) (gr_root_program_id row) JUndefined k1
       (plan_publication P (gsi_observedAt input) (gr_root_program_id row) until)"
    and form2: "signed_form (ap_body s2) (gr_root_program_id row) (gr_root_program_id row)
       (JStr (gr_delegated_authority_id row)) k2
       (plan_publication P (gsi_observedAt input) (gr_root_program_id row) until)"
    and form3: "signed_form (ap_body s3) (gr_delegated_authority_id row) (gr_root_program_id row)
       (JStr (gr_delegated_authority_id row)) k3
       (plan_publication P (gsi_observedAt input) (gr_delegated_authority_id row) until)"
    and form4: "signed_form (ap_body s4) (gr_delegated_authority_id row) (gr_root_program_id row)
       (JStr (gr_delegated_authority_id row)) k4
       (plan_publication P (gsi_observedAt input) (gr_delegated_authority_id row) until)"
    and gates: "map (\<lambda>s. signature_gate (?verify rs) (ap_body s)) [s1, s2, s3, s4] = replicate 4 (Done Gate_accepted)"
    and until: "validUntil P (gsi_observedAt input) (gr_destination_policy_runtime_safety_policy row) = Inr until"
    by (rule signed_bundle [OF row plan signed backed])
  have types: "get_prop (ap_body s1) ''artifact_type'' = JStr ''root_manifest''"
    "get_prop (ap_body s2) ''artifact_type'' = JStr ''delegated_authority_manifest''"
    "get_prop (ap_body s3) ''artifact_type'' = JStr ''issuer_record''"
    "get_prop (ap_body s4) ''artifact_type'' = JStr ''destination_policy''"
    by (subst signed_other [OF form1] signed_other [OF form2] signed_other [OF form3] signed_other [OF form4],
      simp add: set_by_signing_def, rule root_body_props(1) [OF b(3)] authority_body_props(1) [OF b(4)]
      issuer_body_props(1) [OF b(5)] policy_row_props(1) [OF b(6)])+
  have ready: "\<forall>a \<in> set [s1, s2, s3, s4]. ap_eventType a \<noteq> ''scanner.decision.recorded'' \<and>
      signature_gate (?verify (sy_registry (start_state (Some c) rs))) (ap_body a) = Done Gate_accepted \<and>
      \<not> isRevocationStatusArtifactBody (ap_body a)"
    using planned_types_and_ids(1) [OF b(1,2)] gates types artifact_types
    by (fastforce simp: authorityPublicationEventTypes_def start_state_def numeral_eq_Suc)
  obtain e1 e2 e3 e4 where events: "events = [e1, e2, e3, e4]"
    using announced by (auto simp: list_all2_Cons1)
  obtain ps where policy: "event_ops P (ne_envelope e4) (ap_body s4) = map OpUpsertDestinationPolicy ps"
  proof -
    have "\<exists>ps. policy_ops P (ne_envelope e4) (ap_body s4) = map OpUpsertDestinationPolicy ps"
      by (auto simp: policy_ops_def split: option.splits sum.splits intro: exI [of _ "[]"] exI [of _ "[x]" for x])
    then show thesis using that by (auto simp: ops_by_type(4) [OF types(4)])
  qed
  let ?issuer = "row_issuer P row (gsi_observedAt input) until"
  have calls: "concat (map (\<lambda>(a, e). event_ops P (ne_envelope e) (ap_body a)) (zip [s1, s2, s3, s4] events)) =
      bundle_calls row ?issuer ps"
    by (simp add: events bundle_calls_def policy root_manifest_ops [OF b(3) from_row(2) form1]
        authority_manifest_ops [OF b(4) from_row(2) form2] issuer_record_ops [OF b(5) from_row(2,3) form3])
  obtain st' where st': "sync_events P (\<lambda>i. Inr (get i store)) ?verify h events (start_state (Some c) rs) = (st', Done ())"
    "sy_registry st' = rs" "sy_validated st' = 4"
    "sy_cache st' = Some (cache_run (bundle_calls row ?issuer ps) c)"
    using sync_announced [where verify = ?verify and h = h, OF announced ready] calls
    by (auto simp: start_state_def events)
  show thesis
    by (rule that [of until ps "sync_report_of (length events) st'"])
      (simp_all add: syncRecent_def st' sync_report_of_def until)
qed

end
