(* ===== verification/BundleSyncFacts.thy ===== *)
theory BundleSyncFacts
  imports BundleFacts BundleSync
begin

text \<open>
  From the governance tables to the cache of a verifier: what a published and synced bundle establishes,
  and what it withdraws.
\<close>

text \<open>
  C38. A bundle of the governance tables that is signed, published and synced takes hold of its root
  program: all four artifacts are validated, the registry of keys is untouched, the record of the issuer is
  in the cache with the window of the publication, the namespace of the bundle is trusted whenever the
  verifier accepts the root, and no other namespace of that root is trusted any more or resolved,
  whatever earlier bundles of the root had published.
\<close>

theorem synced_bundle_is_exclusive:
  assumes row: "query_governance_bundle P parse le dbError T (governancePublicationBundleByPolicyCommand P input)
      = Inr [row]"
    and plan: "snd (planGovernancePublication P (postgres_governance_query P parse le dbError) input T) = Inr plan"
    and signed: "signGovernancePublicationPlan plan (signTrustArtifact P (static_sign sign keys materials source))
      = Inr (s1, s2, s3, s4)"
    and backed: "\<forall>q \<in> set (bundle_queries row). signing_backed P sign keys materials load rs q"
    and announced: "list_all2 (announces P memory_get store) [s1, s2, s3, s4] events"
    and sync: "syncRecent P (\<lambda>i. Inr (memory_get i store))
      (\<lambda>rs. verifyTrustArtifact P (\<lambda>i. Inr (lookupSignerKey i rs)) load) h events (Some c) rs = ((Some c', rs'), r)"
  shows "rs' = rs \<and> (\<exists>report. r = Done report \<and> vr_validated_trust_artifacts report = 4) \<and>
    (\<exists>issuer. map_of (issuersByPolicyKey c') (issuer_key issuer) = Some issuer \<and>
       ip_namespace issuer = namespaceFromRow row \<and>
       ip_destination_policy_id issuer = gr_destination_policy_id row \<and>
       ip_cache_generated_at issuer = iso_string P (gsi_observedAt input) \<and>
       validUntil P (gsi_observedAt input) (gr_destination_policy_runtime_safety_policy row) =
         Inr (ip_cache_expires_at issuer)) \<and>
    (\<forall>ns. ns_root_program_id ns = gr_root_program_id row \<longrightarrow>
       (namespace_trusted c' ns \<longleftrightarrow> acceptedRoots c (gr_root_program_id row) \<and> ns = namespaceFromRow row)) \<and>
    (\<forall>u host res. resolveByDestination P c' u host = Some res \<longrightarrow>
       ns_root_program_id (dp_namespace (res_policy res)) = gr_root_program_id row \<longrightarrow>
       dp_namespace (res_policy res) = namespaceFromRow row)"
proof -
  obtain policies until report where
    run: "syncRecent P (\<lambda>i. Inr (memory_get i store)) (\<lambda>rs. verifyTrustArtifact P (\<lambda>i. Inr (lookupSignerKey i rs)) load)
       h events (Some c) rs =
     ((Some (cache_run (bundle_calls row (row_issuer P row (gsi_observedAt input) until) policies) c), rs), Done report)"
    and four: "vr_validated_trust_artifacts report = 4"
    and until: "validUntil P (gsi_observedAt input) (gr_destination_policy_runtime_safety_policy row) = Inr until"
    by (rule synced_bundle [OF row plan signed backed announced])
  let ?issuer = "row_issuer P row (gsi_observedAt input) until"
  have out: "c' = cache_run (bundle_calls row ?issuer policies) c" "rs' = rs" "r = Done report"
    using sync run by simp_all
  note trust = bundle_calls_trust [where row = row and issuer = ?issuer and policies = policies and c = c, folded out(1)]
  have "map_of (issuersByPolicyKey c') (issuer_key ?issuer) = Some ?issuer"
    by (simp add: out(1) bundle_calls_def policies_keep upsertIssuer_def putProjection_def AList.update_conv')
  then have "\<exists>issuer. map_of (issuersByPolicyKey c') (issuer_key issuer) = Some issuer \<and>
       ip_namespace issuer = namespaceFromRow row \<and>
       ip_destination_policy_id issuer = gr_destination_policy_id row \<and>
       ip_cache_generated_at issuer = iso_string P (gsi_observedAt input) \<and>
       validUntil P (gsi_observedAt input) (gr_destination_policy_runtime_safety_policy row) =
         Inr (ip_cache_expires_at issuer)"
    by (intro exI [of _ ?issuer]) (simp add: row_issuer_def until)
  then show ?thesis using out(2,3) four trust resolved_trusted by blast
qed

theorem synced_bundle_is_exclusive_witness:
  "\<exists>store events c' report. syncRecent fx_platform (\<lambda>i. Inr (memory_get i store))
      (\<lambda>rs. verifyTrustArtifact fx_platform (\<lambda>i. Inr (lookupSignerKey i rs)) inline_load) True events
      (Some fx_cache) demo_registry = ((Some c', demo_registry), Done report) \<and>
     vr_validated_trust_artifacts report = 4 \<and> namespace_trusted c' (namespaceFromRow fx_row)"
proof -
  obtain a1 a2 a3 a4 s1 s2 s3 s4 store bus results where r: "fx_bundle_plan = Inr (a1, a2, a3, a4)"
    "signGovernancePublicationPlan (a1, a2, a3, a4) fx_bundle_signer = Inr (s1, s2, s3, s4)"
    "publish_all (publishArtifact fx_platform memory_put memory_publish) [s1, s2, s3, s4] ([], []) =
       ((store, bus), results, None)" "distinct (map ap_artifact_id [s1, s2, s3, s4])" by (rule fx_bundle_run)
  have all: "length results = 4" using publish_all_length [OF r(3)] by simp
  have announced: "list_all2 (announces fx_platform memory_get store) [s1, s2, s3, s4] (map pr_event results)"
    using memory.publish_all_announces(2) [OF r(3,4)] by (simp add: all)
  have backed: "\<forall>q \<in> set (bundle_queries fx_row).
     signing_backed fx_platform fx_pair_sign demo_signing_keys fx_materials inline_load demo_registry q"
    by (rule fx_backed) (simp_all add: fx_row_def)
  note facts = fx_bundle_row r(1) [unfolded fx_bundle_plan_def fx_bundle_query_def]
    r(2) [unfolded fx_bundle_signer_def] backed announced
  obtain c' report where run: "syncRecent fx_platform (\<lambda>i. Inr (memory_get i store))
      (\<lambda>rs. verifyTrustArtifact fx_platform (\<lambda>i. Inr (lookupSignerKey i rs)) inline_load) True (map pr_event results)
      (Some fx_cache) demo_registry = ((Some c', demo_registry), Done report)"
    by (rule synced_bundle [OF facts, where c = fx_cache and h = True])
  have "ns_root_program_id (namespaceFromRow fx_row) = gr_root_program_id fx_row" by (simp add: namespaceFromRow_def)
  moreover have "acceptedRoots fx_cache (gr_root_program_id fx_row)"
    by (simp add: fx_cache_def fx_row_def) code_simp
  ultimately show ?thesis
    using synced_bundle_is_exclusive [OF facts run] run by blast
qed

end
