(* ===== verification/PostgresTrustKeys.thy ===== *)
theory PostgresTrustKeys
  imports GovernanceSource
begin

text \<open>
  The trust key registry on Postgres, \<^verbatim>\<open>network/src/services/postgres-trust-key-registry.ts\<close>: its
  statements, the recording executor of the smoke programs, the registry over any executor, the decoding of
  driver rows, and the four statements read as functions on the table of keys.
\<close>

subsection \<open>Rows and statements\<close>

text \<open>An absent and a null authority or PEM are both \<open>None\<close>.\<close>

record key_row =
  kr_key_id :: string
  kr_root_program_id :: string
  kr_delegated_authority_id :: "string option"
  kr_signer_id :: string
  kr_algorithm_id :: string
  kr_public_key_material_ref :: string
  kr_public_key_material_pem :: "string option"
  kr_scope :: trust_key_scope
  kr_key_status :: trust_key_status

definition trustKeyLookupCommand :: "trust_key_lookup_input \<Rightarrow> sql_command" where
  "trustKeyLookupCommand input =
     \<lparr>sc_name = ''trust_keys.lookup'', sc_values = [SText (li_root_program_id input), SText (li_signed_by input)]\<rparr>"

definition trustKeySnapshotCommand :: sql_command where
  "trustKeySnapshotCommand = \<lparr>sc_name = ''trust_keys.snapshot'', sc_values = []\<rparr>"

definition trustKeyUpsertCommand :: "trust_key_record \<Rightarrow> sql_command" where
  "trustKeyUpsertCommand key =
     \<lparr>sc_name = ''trust_keys.upsert'',
      sc_values = [SText (tk_key_id key), SText (tk_root_program_id key), sql_text (tk_delegated_authority_id key),
        SText (tk_signer_id key), SText (tk_algorithm_id key), SText (tk_public_key_material_ref key),
        sql_text (tk_public_key_material_pem key), SText (key_scope_string (tk_scope key)),
        SText (key_status_string (tk_status key))]\<rparr>"

definition trustKeyStatusUpdateCommand :: "trust_key_status_update \<Rightarrow> sql_command" where
  "trustKeyStatusUpdateCommand input =
     \<lparr>sc_name = ''trust_keys.update_status'',
      sc_values = [SText (ku_root_program_id input), SText (ku_key_id input),
        SText (key_status_string (ku_status input)), sql_text (ku_delegated_authority_id input)]\<rparr>"


subsection \<open>The recording executor\<close>

definition key_command_missing :: "sql_command \<Rightarrow> string \<Rightarrow> string" where
  "key_command_missing command label =
     ''Postgres trust key command '' @ sc_name command @ '' is missing '' @ label @ ''.''"

definition requireKeyCommandValue :: "sql_command \<Rightarrow> nat \<Rightarrow> string \<Rightarrow> string + string" where
  "requireKeyCommandValue command i label =
     (case stringCommandValue command i of None \<Rightarrow> Inl (key_command_missing command label) | Some s \<Rightarrow> Inr s)"

definition requireScopeCommandValue :: "sql_command \<Rightarrow> nat \<Rightarrow> string + trust_key_scope" where
  "requireScopeCommandValue command i =
     (case stringCommandValue command i of
        Some s \<Rightarrow>
          if s = ''root_program'' \<or> s = ''delegated_authority'' then Inr (key_scope_of s)
          else Inl (''Postgres trust key command '' @ sc_name command @ '' has invalid scope.'')
      | None \<Rightarrow> Inl (''Postgres trust key command '' @ sc_name command @ '' has invalid scope.''))"

definition statusCommandValue :: "sql_command \<Rightarrow> nat \<Rightarrow> trust_key_status option" where
  "statusCommandValue command i =
     (case stringCommandValue command i of
        Some s \<Rightarrow> if s \<in> {''active'', ''suspended'', ''revoked'', ''expired''} then Some (key_status_of s) else None
      | None \<Rightarrow> None)"

definition requireStatusCommandValue :: "sql_command \<Rightarrow> nat \<Rightarrow> string + trust_key_status" where
  "requireStatusCommandValue command i =
     (case statusCommandValue command i of
        Some st \<Rightarrow> Inr st
      | None \<Rightarrow> Inl (''Postgres trust key command '' @ sc_name command @ '' has invalid key_status.''))"

definition rowFromUpsertCommand :: "sql_command \<Rightarrow> string + key_row" where
  "rowFromUpsertCommand command =
     and_then (requireKeyCommandValue command 0 ''key_id'') (\<lambda>keyId.
     and_then (requireKeyCommandValue command 1 ''root_program_id'') (\<lambda>rootProgramId.
     and_then (requireKeyCommandValue command 3 ''signer_id'') (\<lambda>signerId.
     and_then (requireKeyCommandValue command 4 ''algorithm_id'') (\<lambda>algorithmId.
     and_then (requireKeyCommandValue command 5 ''public_key_material_ref'') (\<lambda>materialRef.
     and_then (requireScopeCommandValue command 7) (\<lambda>scope.
     and_then (requireStatusCommandValue command 8) (\<lambda>status.
       Inr \<lparr>kr_key_id = keyId, kr_root_program_id = rootProgramId,
            kr_delegated_authority_id = stringCommandValue command 2, kr_signer_id = signerId,
            kr_algorithm_id = algorithmId, kr_public_key_material_ref = materialRef,
            kr_public_key_material_pem = stringCommandValue command 6, kr_scope = scope,
            kr_key_status = status\<rparr>)))))))"

definition rowFromStatusUpdateCommand ::
  "sql_command \<Rightarrow> (string \<times> key_row) list \<Rightarrow> (string \<times> key_row) list \<times> key_row option" where
  "rowFromStatusUpdateCommand command rows =
     (case (stringCommandValue command 0, stringCommandValue command 1, statusCommandValue command 2) of
        (Some rootProgramId, Some keyId, Some keyStatus) \<Rightarrow>
          (case map_of rows keyId of
             None \<Rightarrow> (rows, None)
           | Some row \<Rightarrow>
               if kr_root_program_id row \<noteq> rootProgramId then (rows, None)
               else if stringCommandValue command 3 \<noteq> None \<and>
                       kr_delegated_authority_id row \<noteq> stringCommandValue command 3 then (rows, None)
               else
                 (let updated = row\<lparr>kr_key_status := keyStatus\<rparr>
                  in (js_map_set (kr_key_id updated) updated rows, Some updated)))
      | _ \<Rightarrow> (rows, None))"

type_synonym recording_keys = "(string \<times> key_row) list \<times> sql_command list"

definition makeRecordingPostgresTrustKeyRegistryExecutor :: "key_row list \<Rightarrow> recording_keys" where
  "makeRecordingPostgresTrustKeyRegistryExecutor initialRows =
     (fold (\<lambda>row. js_map_set (kr_key_id row) row) initialRows [], [])"

type_synonym 'k key_query = "sql_command \<Rightarrow> 'k \<Rightarrow> 'k \<times> key_row list outcome"

definition recording_query_keys :: "recording_keys key_query" where
  "recording_query_keys command st =
     (let (rows, commands) = st; commands' = commands @ [command]
      in if sc_name command = ''trust_keys.lookup'' then
           ((rows, commands'), Done (filter (\<lambda>row.
              Some (kr_root_program_id row) = stringCommandValue command 0 \<and>
              Some (kr_signer_id row) = stringCommandValue command 1) (map snd rows)))
         else if sc_name command = ''trust_keys.snapshot'' then ((rows, commands'), Done (map snd rows))
         else if sc_name command = ''trust_keys.upsert'' then
           (case rowFromUpsertCommand command of
              Inl message \<Rightarrow> ((rows, commands'), Died (ErrorThrown message))
            | Inr row \<Rightarrow> ((js_map_set (kr_key_id row) row rows, commands'), Done [row]))
         else if sc_name command = ''trust_keys.update_status'' then
           (case rowFromStatusUpdateCommand command rows of
              (rows', Some row) \<Rightarrow> ((rows', commands'), Done [row])
            | (rows', None) \<Rightarrow> ((rows', commands'), Done []))
         else ((rows, commands'), Done []))"


subsection \<open>The registry over an executor\<close>

definition trustKeyRecordFromRow :: "key_row \<Rightarrow> trust_key_record" where
  "trustKeyRecordFromRow row =
     \<lparr>tk_key_id = kr_key_id row, tk_signer_id = kr_signer_id row, tk_root_program_id = kr_root_program_id row,
      tk_algorithm_id = kr_algorithm_id row, tk_scope = kr_scope row, tk_status = kr_key_status row,
      tk_public_key_material_ref = kr_public_key_material_ref row,
      tk_public_key_material_pem = keep_truthy (kr_public_key_material_pem row),
      tk_delegated_authority_id = keep_truthy (kr_delegated_authority_id row)\<rparr>"

definition map_rows :: "(key_row list \<Rightarrow> 'a outcome) \<Rightarrow> 'k \<times> key_row list outcome \<Rightarrow> 'k \<times> 'a outcome" where
  "map_rows f r =
     (case r of (k, Done rows) \<Rightarrow> (k, f rows) | (k, Failed e) \<Rightarrow> (k, Failed e) | (k, Died d) \<Rightarrow> (k, Died d))"

definition postgres_lookupSignerKey ::
  "'k key_query \<Rightarrow> trust_key_lookup_input \<Rightarrow> 'k \<Rightarrow> 'k \<times> trust_key_lookup_result outcome" where
  "postgres_lookupSignerKey query input k =
     map_rows (\<lambda>rows. Done (selectTrustKeyForLookup (map trustKeyRecordFromRow rows) input))
       (query (trustKeyLookupCommand input) k)"

definition requireSingleTrustKeyRow :: "key_row list \<Rightarrow> string \<Rightarrow> key_row outcome" where
  "requireSingleTrustKeyRow rows operation =
     (case rows of
        row # _ \<Rightarrow> Done row
      | [] \<Rightarrow> Failed (PersistenceError (''Postgres trust key '' @ operation @ '' failed.'')
          (OtherCause (JStr (''No trust key row returned for '' @ operation @ ''.'')))))"

definition postgres_upsertTrustKey ::
  "'k key_query \<Rightarrow> trust_key_record \<Rightarrow> 'k \<Rightarrow> 'k \<times> trust_key_record outcome" where
  "postgres_upsertTrustKey query key k =
     map_rows (\<lambda>rows. case requireSingleTrustKeyRow rows ''upsert'' of
         Done row \<Rightarrow> Done (trustKeyRecordFromRow row) | Failed e \<Rightarrow> Failed e | Died d \<Rightarrow> Died d)
       (query (trustKeyUpsertCommand key) k)"

definition postgres_updateTrustKeyStatus ::
  "'k key_query \<Rightarrow> trust_key_status_update \<Rightarrow> 'k \<Rightarrow> 'k \<times> bool outcome" where
  "postgres_updateTrustKeyStatus query input k =
     map_rows (\<lambda>rows. Done (length rows > 0)) (query (trustKeyStatusUpdateCommand input) k)"

definition postgres_key_snapshot :: "'k key_query \<Rightarrow> 'k \<Rightarrow> 'k \<times> trust_key_record list outcome" where
  "postgres_key_snapshot query k =
     map_rows (\<lambda>rows. Done (map trustKeyRecordFromRow rows)) (query trustKeySnapshotCommand k)"


subsection \<open>Driver rows\<close>

definition requireKeyStringField :: "driver_row \<Rightarrow> string \<Rightarrow> string + string" where
  "requireKeyStringField row field =
     (case field_value row field of
        JStr s \<Rightarrow> if length s = 0 then Inl (''Postgres trust key row is missing '' @ field @ ''.'') else Inr s
      | _ \<Rightarrow> Inl (''Postgres trust key row is missing '' @ field @ ''.''))"

definition optionalKeyStringField :: "driver_row \<Rightarrow> string \<Rightarrow> string option" where
  "optionalKeyStringField row field =
     (case field_value row field of JStr s \<Rightarrow> if length s > 0 then Some s else None | _ \<Rightarrow> None)"

definition requireScopeField :: "driver_row \<Rightarrow> string \<Rightarrow> string + trust_key_scope" where
  "requireScopeField row field =
     (let value = field_value row field
      in if value \<in> {JStr ''root_program'', JStr ''delegated_authority''} then Inr (key_scope_of (str_of value))
         else Inl (''Postgres trust key row has invalid '' @ field @ ''.''))"

definition requireStatusField :: "driver_row \<Rightarrow> string \<Rightarrow> string + trust_key_status" where
  "requireStatusField row field =
     (let value = field_value row field
      in if value \<in> {JStr ''active'', JStr ''suspended'', JStr ''revoked'', JStr ''expired''}
         then Inr (key_status_of (str_of value))
         else Inl (''Postgres trust key row has invalid '' @ field @ ''.''))"

definition postgresTrustKeyRowFromRecord :: "driver_row \<Rightarrow> string + key_row" where
  "postgresTrustKeyRowFromRecord row =
     and_then (requireKeyStringField row ''key_id'') (\<lambda>keyId.
     and_then (requireKeyStringField row ''root_program_id'') (\<lambda>rootProgramId.
     and_then (requireKeyStringField row ''signer_id'') (\<lambda>signerId.
     and_then (requireKeyStringField row ''algorithm_id'') (\<lambda>algorithmId.
     and_then (requireKeyStringField row ''public_key_material_ref'') (\<lambda>materialRef.
     and_then (requireScopeField row ''scope'') (\<lambda>scope.
     and_then (requireStatusField row ''key_status'') (\<lambda>status.
       Inr \<lparr>kr_key_id = keyId, kr_root_program_id = rootProgramId,
            kr_delegated_authority_id = optionalKeyStringField row ''delegated_authority_id'',
            kr_signer_id = signerId, kr_algorithm_id = algorithmId, kr_public_key_material_ref = materialRef,
            kr_public_key_material_pem = optionalKeyStringField row ''public_key_material_pem'',
            kr_scope = scope, kr_key_status = status\<rparr>)))))))"

definition decodePostgresTrustKeyRows :: "driver_row list \<Rightarrow> net_error + key_row list" where
  "decodePostgresTrustKeyRows rows =
     map_error (\<lambda>cause. PersistenceError ''Postgres trust key row decoding failed.'' (OtherCause (JStr cause)))
       (map_result postgresTrustKeyRowFromRecord rows)"


subsection \<open>The statements on the table\<close>

text \<open>
  A stored row and its \<^verbatim>\<open>created_at\<close>, which the database sets on insertion and an upsert keeps. \<open>le\<close> is
  the order of the collation.
\<close>

type_synonym key_table = "(int \<times> key_row) list"

definition key_driver_row :: "key_row \<Rightarrow> driver_row" where
  "key_driver_row r =
     [(''key_id'', Column (JStr (kr_key_id r))), (''root_program_id'', Column (JStr (kr_root_program_id r))),
      (''delegated_authority_id'', Column (null_or_str (kr_delegated_authority_id r))),
      (''signer_id'', Column (JStr (kr_signer_id r))), (''algorithm_id'', Column (JStr (kr_algorithm_id r))),
      (''public_key_material_ref'', Column (JStr (kr_public_key_material_ref r))),
      (''public_key_material_pem'', Column (null_or_str (kr_public_key_material_pem r))),
      (''scope'', Column (JStr (key_scope_string (kr_scope r)))),
      (''key_status'', Column (JStr (key_status_string (kr_key_status r))))]"

definition created_before :: "(string \<Rightarrow> string \<Rightarrow> bool) \<Rightarrow> int \<times> key_row \<Rightarrow> int \<times> key_row \<Rightarrow> bool" where
  "created_before le a b =
     (fst a < fst b \<or> fst a = fst b \<and> le (kr_key_id (snd a)) (kr_key_id (snd b)))"

definition snapshot_before :: "(string \<Rightarrow> string \<Rightarrow> bool) \<Rightarrow> int \<times> key_row \<Rightarrow> int \<times> key_row \<Rightarrow> bool" where
  "snapshot_before le a b =
     (let (x, y) = (snd a, snd b)
      in if kr_root_program_id x \<noteq> kr_root_program_id y then le (kr_root_program_id x) (kr_root_program_id y)
         else if kr_signer_id x \<noteq> kr_signer_id y then le (kr_signer_id x) (kr_signer_id y)
         else le (kr_key_id x) (kr_key_id y))"

fun text_of :: "sql_value \<Rightarrow> string option" where
  "text_of (SText s) = Some s"
| "text_of _ = None"

definition upsert_key_row :: "int \<Rightarrow> key_row \<Rightarrow> key_table \<Rightarrow> key_table" where
  "upsert_key_row now row table =
     (if kr_key_id row \<in> set (map (kr_key_id \<circ> snd) table)
      then map (\<lambda>(t, r). if kr_key_id r = kr_key_id row then (t, row) else (t, r)) table
      else table @ [(now, row)])"

definition status_update_matches :: "string \<Rightarrow> string \<Rightarrow> string option \<Rightarrow> key_row \<Rightarrow> bool" where
  "status_update_matches rootId keyId authority r \<longleftrightarrow>
     kr_root_program_id r = rootId \<and> kr_key_id r = keyId \<and>
     (authority = None \<or> kr_delegated_authority_id r = authority)"

text \<open>
  The trigger of \<^verbatim>\<open>docs/public/network-contracts/reference-postgres-schema.sql\<close> on updated rows: no
  row leaves the status revoked.
\<close>

definition leaves_revoked :: "key_row \<Rightarrow> trust_key_status \<Rightarrow> bool" where
  "leaves_revoked old new \<longleftrightarrow> kr_key_status old = Key_revoked \<and> new \<noteq> Key_revoked"

text \<open>
  \<open>admits\<close> stands for the constraints of the table, \<open>dbError\<close> for the error of a statement that violates
  one, is refused by the trigger or has parameters of other types.
\<close>

definition sql_trust_keys ::
  "(string \<Rightarrow> string \<Rightarrow> bool) \<Rightarrow> (key_row \<Rightarrow> bool) \<Rightarrow> net_error \<Rightarrow> int \<Rightarrow> sql_command \<Rightarrow> key_table \<Rightarrow>
     key_table \<times> (net_error + driver_row list)" where
  "sql_trust_keys le admits dbError now command table =
     (let rows = (\<lambda>ts. Inr (map (key_driver_row \<circ> snd) ts)) in
      if sc_name command = ''trust_keys.lookup'' then
        (case sc_values command of
           [SText rootId, SText signerId] \<Rightarrow>
             (table, rows (sort_by (created_before le)
               (filter (\<lambda>(_, r). kr_root_program_id r = rootId \<and> kr_signer_id r = signerId) table)))
         | _ \<Rightarrow> (table, Inl dbError))
      else if sc_name command = ''trust_keys.snapshot'' then
        (table, rows (sort_by (snapshot_before le) table))
      else if sc_name command = ''trust_keys.upsert'' then
        (case sc_values command of
           [SText keyId, SText rootId, authority, SText signerId, SText algorithmId, SText materialRef, pem,
            SText scope, SText status] \<Rightarrow>
             (let row = \<lparr>kr_key_id = keyId, kr_root_program_id = rootId,
                kr_delegated_authority_id = text_of authority, kr_signer_id = signerId,
                kr_algorithm_id = algorithmId, kr_public_key_material_ref = materialRef,
                kr_public_key_material_pem = text_of pem, kr_scope = key_scope_of scope,
                kr_key_status = key_status_of status\<rparr>
              in if \<not> admits row \<or>
                    list_ex (\<lambda>(_, r). kr_key_id r = keyId \<and> leaves_revoked r (kr_key_status row)) table
                 then (table, Inl dbError) else (upsert_key_row now row table, rows [(now, row)]))
         | _ \<Rightarrow> (table, Inl dbError))
      else if sc_name command = ''trust_keys.update_status'' then
        (case sc_values command of
           [SText rootId, SText keyId, SText status, authority] \<Rightarrow>
             (let hit = status_update_matches rootId keyId (text_of authority);
                  set_status = (\<lambda>r. r\<lparr>kr_key_status := key_status_of status\<rparr>)
              in if list_ex (\<lambda>(_, r). hit r \<and> leaves_revoked r (key_status_of status)) table
                 then (table, Inl dbError)
                 else
                 (map (\<lambda>(t, r). if hit r then (t, set_status r) else (t, r)) table,
                  rows (map (\<lambda>(t, r). (t, set_status r)) (filter (\<lambda>(_, r). hit r) table))))
         | _ \<Rightarrow> (table, Inl dbError))
      else (table, Inr []))"

text \<open>The executor of \<^verbatim>\<open>postgres-driver.ts\<close>: the statement, then the decoding of what it returns.\<close>

definition postgres_query_keys ::
  "(string \<Rightarrow> string \<Rightarrow> bool) \<Rightarrow> (key_row \<Rightarrow> bool) \<Rightarrow> net_error \<Rightarrow> ('c \<Rightarrow> 'c \<times> int) \<Rightarrow> (key_table \<times> 'c) key_query" where
  "postgres_query_keys le admits dbError tick command st =
     (let (table, c) = st; (c', now) = tick c;
          (table', result) = sql_trust_keys le admits dbError now command table
      in ((table', c'),
          case result of
            Inl e \<Rightarrow> Failed e
          | Inr rows \<Rightarrow> (case decodePostgresTrustKeyRows rows of Inl e \<Rightarrow> Failed e | Inr keys \<Rightarrow> Done keys)))"

end
