(* ===== verification/PostgresTrustKeyFacts.thy ===== *)
theory PostgresTrustKeyFacts
  imports PostgresTrustKeys TrustKeyFacts
begin

text \<open>
  The registry on Postgres implements the in-memory registry: a history of writes answers the same, and
  afterwards every lookup selects the same key.
\<close>

subsection \<open>Keys and rows\<close>

definition row_of_key :: "trust_key_record \<Rightarrow> key_row" where
  "row_of_key k =
     \<lparr>kr_key_id = tk_key_id k, kr_root_program_id = tk_root_program_id k,
      kr_delegated_authority_id = tk_delegated_authority_id k, kr_signer_id = tk_signer_id k,
      kr_algorithm_id = tk_algorithm_id k, kr_public_key_material_ref = tk_public_key_material_ref k,
      kr_public_key_material_pem = tk_public_key_material_pem k, kr_scope = tk_scope k, kr_key_status = tk_status k\<rparr>"

text \<open>A key without empty texts.\<close>

definition storable_key :: "trust_key_record \<Rightarrow> bool" where
  "storable_key k \<longleftrightarrow>
     list_all (\<lambda>s. s \<noteq> []) [tk_key_id k, tk_root_program_id k, tk_signer_id k, tk_algorithm_id k,
       tk_public_key_material_ref k] \<and>
     tk_public_key_material_pem k \<noteq> Some [] \<and> tk_delegated_authority_id k \<noteq> Some []"

lemma key_strings [simp]:
  "key_scope_of (key_scope_string s) = s" "key_status_of (key_status_string st) = st"
  by (cases s; simp) (cases st; simp)

lemma row_round_trip: "storable_key k \<Longrightarrow> trustKeyRecordFromRow (row_of_key k) = k"
  by (cases "tk_public_key_material_pem k"; cases "tk_delegated_authority_id k")
     (auto simp: trustKeyRecordFromRow_def row_of_key_def storable_key_def keep_truthy_def truthy_str_def)

lemma rows_round_trip: "list_all storable_key ks \<Longrightarrow> map trustKeyRecordFromRow (map row_of_key ks) = ks"
  by (induction ks) (simp_all add: row_round_trip)

lemma decode_driver_row:
  assumes "storable_key k"
  shows "postgresTrustKeyRowFromRecord (key_driver_row (row_of_key k)) = Inr (row_of_key k)"
  using assms
  by (cases "tk_scope k"; cases "tk_status k"; cases "tk_public_key_material_pem k"; cases "tk_delegated_authority_id k")
     (auto simp: postgresTrustKeyRowFromRecord_def key_driver_row_def row_of_key_def field_value_def null_or_str_def
        requireKeyStringField_def optionalKeyStringField_def requireScopeField_def requireStatusField_def
        storable_key_def)

lemma decode_driver_rows:
  "list_all storable_key ks \<Longrightarrow>
     decodePostgresTrustKeyRows (map key_driver_row (map row_of_key ks)) = Inr (map row_of_key ks)"
  by (auto simp: decodePostgresTrustKeyRows_def map_result_Inr list_all2_map1 list_all2_map2 list_all_iff
      intro!: list.rel_refl_strong decode_driver_row)

lemma row_status: "(row_of_key k)\<lparr>kr_key_status := st\<rparr> = row_of_key (k\<lparr>tk_status := st\<rparr>)"
  by (simp add: row_of_key_def)

lemma row_fields [simp]:
  "kr_key_id (row_of_key k) = tk_key_id k" "kr_root_program_id (row_of_key k) = tk_root_program_id k"
  "kr_signer_id (row_of_key k) = tk_signer_id k"
  "kr_delegated_authority_id (row_of_key k) = tk_delegated_authority_id k"
  by (simp_all add: row_of_key_def)


subsection \<open>Tables and registries\<close>

text \<open>
  A table stands for a registry: the same keys in the same order, each created after the one before and
  none as late as the next statement.
\<close>

type_synonym dated_keys = "(int \<times> trust_key_record) list"

definition table_of :: "dated_keys \<Rightarrow> key_table" where
  "table_of tks = map (\<lambda>(t, k). (t, row_of_key k)) tks"

definition registry_of :: "dated_keys \<Rightarrow> key_registry" where
  "registry_of tks = map (\<lambda>(t, k). (tk_key_id k, k)) tks"

definition dated :: "int \<Rightarrow> dated_keys \<Rightarrow> bool" where
  "dated now tks \<longleftrightarrow> list_all (storable_key \<circ> snd) tks \<and> sorted_wrt (<) (map fst tks) \<and>
     list_all (\<lambda>t. t < now) (map fst tks) \<and> distinct (map (tk_key_id \<circ> snd) tks)"

definition stands_for :: "('c \<Rightarrow> 'c \<times> int) \<Rightarrow> key_table \<times> 'c \<Rightarrow> key_registry \<Rightarrow> bool" where
  "stands_for tick st records \<longleftrightarrow>
     (\<exists>tks. fst st = table_of tks \<and> records = registry_of tks \<and> dated (snd (tick (snd st))) tks)"

definition clock_advances :: "('c \<Rightarrow> 'c \<times> int) \<Rightarrow> bool" where
  "clock_advances tick \<longleftrightarrow> (\<forall>c. snd (tick c) < snd (tick (fst (tick c))))"

lemma snapshot_of: "registry_snapshot (registry_of tks) = map snd tks"
  by (simp add: registry_snapshot_def registry_of_def case_prod_beta)

lemma rows_of: "map snd (table_of tks) = map row_of_key (map snd tks)"
  by (simp add: table_of_def case_prod_beta)

lemma dated_later: "dated now tks \<Longrightarrow> now \<le> later \<Longrightarrow> dated later tks"
  by (fastforce simp: dated_def list_all_iff)

lemma insort_least: "\<forall>y \<in> set ys. le x y \<Longrightarrow> insort_by le x ys = x # ys"
  by (cases ys) auto

lemma sort_sorted_id: "sorted_wrt le xs \<Longrightarrow> sort_by le xs = xs"
  unfolding sort_by_def by (induction xs) (auto simp: insort_least)

lemma created_sorted:
  assumes "sorted_wrt (<) (map fst tks)"
  shows "sorted_wrt (created_before le) (table_of tks)"
  using assms unfolding table_of_def sorted_wrt_map
  by (rule sorted_wrt_mono_rel [rotated]) (auto simp: created_before_def)

lemma select_candidates:
  "selectTrustKeyForLookup
     (filter (\<lambda>k. tk_root_program_id k = li_root_program_id i \<and> tk_signer_id k = li_signed_by i) ks) i =
   selectTrustKeyForLookup ks i"
proof -
  have "filter (\<lambda>c. tk_signer_id c = li_signed_by i \<and> tk_root_program_id c = li_root_program_id i)
      (filter (\<lambda>k. tk_root_program_id k = li_root_program_id i \<and> tk_signer_id k = li_signed_by i) ks) =
    filter (\<lambda>c. tk_signer_id c = li_signed_by i \<and> tk_root_program_id c = li_root_program_id i) ks"
    by (auto simp: filter_filter intro: filter_cong)
  then show ?thesis by (simp only: selectTrustKeyForLookup_def)
qed

lemma dated_filter: "dated now tks \<Longrightarrow> dated now (filter p tks)"
  unfolding dated_def sorted_wrt_map
  by (auto simp: list_all_iff distinct_map inj_on_def intro: sorted_wrt_filter)

lemma sort_by_map: "sort_by le (map f xs) = map f (sort_by (\<lambda>a b. le (f a) (f b)) xs)"
proof -
  have "insort_by le (f x) (map f ys) = map f (insort_by (\<lambda>a b. le (f a) (f b)) x ys)" for x ys
    by (induction ys) auto
  then show ?thesis unfolding sort_by_def by (induction xs) auto
qed

text \<open>Lookups and snapshots.\<close>

lemma lookup_agrees:
  assumes "stands_for tick st records"
  shows "snd (postgres_lookupSignerKey (postgres_query_keys le admits dbError tick) i st) =
    Done (lookupSignerKey i records)"
proof -
  obtain table c where st: "st = (table, c)" by (cases st)
  obtain tks where tks: "table = table_of tks" "records = registry_of tks" "dated (snd (tick c)) tks"
    using assms by (auto simp: stands_for_def st)
  let ?p = "\<lambda>k. tk_root_program_id k = li_root_program_id i \<and> tk_signer_id k = li_signed_by i"
  let ?hits = "filter (?p \<circ> snd) tks"
  have hits: "filter (\<lambda>(_, r). kr_root_program_id r = li_root_program_id i \<and> kr_signer_id r = li_signed_by i)
      (table_of tks) = table_of ?hits"
    by (simp add: table_of_def filter_map o_def case_prod_beta)
  have dated: "dated (snd (tick c)) ?hits" using tks(3) by (rule dated_filter)
  then have sorted: "sort_by (created_before le) (table_of ?hits) = table_of ?hits"
    by (intro sort_sorted_id created_sorted) (simp add: dated_def)
  have keys: "map snd ?hits = filter ?p (map snd tks)" by (simp add: filter_map o_def)
  have "list_all storable_key (map snd ?hits)" using dated by (simp add: dated_def list.pred_map)
  then have good: "list_all storable_key (filter ?p (map snd tks))" unfolding keys .
  have sql: "snd (sql_trust_keys le admits dbError now (trustKeyLookupCommand i) table) =
      Inr (map key_driver_row (map row_of_key (filter ?p (map snd tks))))" for now
    unfolding keys [symmetric]
    by (simp add: sql_trust_keys_def trustKeyLookupCommand_def tks(1) hits sorted
        map_map [symmetric] rows_of del: map_map)
  have "snd (postgres_query_keys le admits dbError tick (trustKeyLookupCommand i) st) =
      Done (map row_of_key (filter ?p (map snd tks)))"
    by (simp add: postgres_query_keys_def st case_prod_beta Let_def sql decode_driver_rows [OF good] del: map_map)
  then show ?thesis
    by (cases "postgres_query_keys le admits dbError tick (trustKeyLookupCommand i) st")
       (simp add: postgres_lookupSignerKey_def map_rows_def rows_round_trip [OF good] select_candidates
         lookupSignerKey_def tks(2) snapshot_of del: map_map)
qed

lemma snapshot_agrees:
  assumes "stands_for tick st records"
  obtains ks where "snd (postgres_key_snapshot (postgres_query_keys le admits dbError tick) st) = Done ks"
    "mset ks = mset (registry_snapshot records)"
proof -
  obtain table c where st: "st = (table, c)" by (cases st)
  obtain tks where tks: "table = table_of tks" "records = registry_of tks" "dated (snd (tick c)) tks"
    using assms by (auto simp: stands_for_def st)
  let ?sorted = "sort_by (\<lambda>a b. snapshot_before le (fst a, row_of_key (snd a)) (fst b, row_of_key (snd b))) tks"
  have sorted: "sort_by (snapshot_before le) (table_of tks) = table_of ?sorted"
    by (simp add: table_of_def sort_by_map case_prod_beta)
  have "list_all storable_key (map snd ?sorted)"
    using tks(3) by (simp add: dated_def list_all_iff)
  then have good: "list_all storable_key (map snd ?sorted)" .
  have "snd (sql_trust_keys le admits dbError now trustKeySnapshotCommand table) =
      Inr (map key_driver_row (map row_of_key (map snd ?sorted)))" for now
    by (simp add: sql_trust_keys_def trustKeySnapshotCommand_def tks(1) sorted map_map [symmetric] rows_of del: map_map)
  then have "snd (postgres_query_keys le admits dbError tick trustKeySnapshotCommand st) =
      Done (map row_of_key (map snd ?sorted))"
    by (simp add: postgres_query_keys_def st case_prod_beta Let_def decode_driver_rows [OF good] del: map_map)
  then have "snd (postgres_key_snapshot (postgres_query_keys le admits dbError tick) st) = Done (map snd ?sorted)"
    by (cases "postgres_query_keys le admits dbError tick trustKeySnapshotCommand st")
       (simp add: postgres_key_snapshot_def map_rows_def rows_round_trip [OF good] del: map_map)
  moreover have "mset (map snd ?sorted) = mset (registry_snapshot records)"
    by (simp add: tks(2) snapshot_of)
  ultimately show thesis by (rule that)
qed


subsection \<open>Writes\<close>

datatype key_reply = Stored trust_key_record | Updated bool

fun memory_reply :: "registry_op \<Rightarrow> key_registry \<Rightarrow> key_reply" where
  "memory_reply (OpUpsertKey key) records = Stored key"
| "memory_reply (OpUpdateKeyStatus input) records = Updated (snd (updateTrustKeyStatus input records))"

text \<open>The in-memory registry with final revocations: a write that takes a key out of revoked is refused.\<close>

fun unrevokes :: "registry_op \<Rightarrow> key_registry \<Rightarrow> bool" where
  "unrevokes (OpUpsertKey key) records =
     (case map_of records (tk_key_id key) of
        None \<Rightarrow> False | Some k \<Rightarrow> tk_status k = Key_revoked \<and> tk_status key \<noteq> Key_revoked)"
| "unrevokes (OpUpdateKeyStatus u) records =
     (case map_of records (ku_key_id u) of
        None \<Rightarrow> False
      | Some k \<Rightarrow> trustKeyIsWithinUpdateScope k u \<and> tk_status k = Key_revoked \<and> ku_status u \<noteq> Key_revoked)"

definition terminal_step :: "registry_op \<Rightarrow> key_registry \<Rightarrow> key_registry" where
  "terminal_step op records = (if unrevokes op records then records else registry_step op records)"

definition terminal_run :: "registry_op list \<Rightarrow> key_registry \<Rightarrow> key_registry" where
  "terminal_run ops records = fold terminal_step ops records"

fun terminal_replies :: "net_error \<Rightarrow> registry_op list \<Rightarrow> key_registry \<Rightarrow> key_reply outcome list" where
  "terminal_replies e [] records = []"
| "terminal_replies e (op # ops) records =
     (if unrevokes op records then Failed e else Done (memory_reply op records)) #
     terminal_replies e ops (terminal_step op records)"

definition reply_as :: "('a \<Rightarrow> key_reply) \<Rightarrow> 'k \<times> 'a outcome \<Rightarrow> 'k \<times> key_reply outcome" where
  "reply_as f r = (case r of (k, Done x) \<Rightarrow> (k, Done (f x)) | (k, Failed e) \<Rightarrow> (k, Failed e) | (k, Died d) \<Rightarrow> (k, Died d))"

fun postgres_key_call :: "'k key_query \<Rightarrow> registry_op \<Rightarrow> 'k \<Rightarrow> 'k \<times> key_reply outcome" where
  "postgres_key_call query (OpUpsertKey key) k = reply_as Stored (postgres_upsertTrustKey query key k)"
| "postgres_key_call query (OpUpdateKeyStatus input) k = reply_as Updated (postgres_updateTrustKeyStatus query input k)"

fun postgres_key_calls :: "'k key_query \<Rightarrow> registry_op list \<Rightarrow> 'k \<Rightarrow> 'k \<times> key_reply outcome list" where
  "postgres_key_calls query [] k = (k, [])"
| "postgres_key_calls query (op # ops) k =
     (let (k1, r) = postgres_key_call query op k; (k2, rs) = postgres_key_calls query ops k1 in (k2, r # rs))"

text \<open>A write that the table can take.\<close>

fun storable_op :: "(key_row \<Rightarrow> bool) \<Rightarrow> registry_op \<Rightarrow> bool" where
  "storable_op admits (OpUpsertKey k) = (storable_key k \<and> admits (row_of_key k))"
| "storable_op admits (OpUpdateKeyStatus u) = True"

definition put_dated :: "int \<Rightarrow> trust_key_record \<Rightarrow> dated_keys \<Rightarrow> dated_keys" where
  "put_dated now key tks =
     (if tk_key_id key \<in> set (map (tk_key_id \<circ> snd) tks)
      then map (\<lambda>(t, k). if tk_key_id k = tk_key_id key then (t, key) else (t, k)) tks
      else tks @ [(now, key)])"

lemma put_dated_rows: "upsert_key_row now (row_of_key key) (table_of tks) = table_of (put_dated now key tks)"
  by (auto simp: upsert_key_row_def put_dated_def table_of_def o_def case_prod_beta)

lemma update_absent: "k \<notin> set (map fst xs) \<Longrightarrow> AList.update k v xs = xs @ [(k, v)]"
  by (induction xs) auto

lemma update_present:
  "distinct (map fst xs) \<Longrightarrow> k \<in> set (map fst xs) \<Longrightarrow>
     AList.update k v xs = map (\<lambda>(i, x). if i = k then (i, v) else (i, x)) xs"
proof (induction xs)
  case (Cons a xs)
  have "k \<notin> fst ` set xs \<Longrightarrow> map (\<lambda>(i, x). if i = k then (i, v) else (i, x)) xs = xs"
    by (rule map_idI) (auto simp: image_iff)
  then show ?case using Cons by (cases a) auto
qed simp

lemma put_dated_registry:
  assumes "distinct (map (tk_key_id \<circ> snd) tks)"
  shows "js_map_set (tk_key_id key) key (registry_of tks) = registry_of (put_dated now key tks)"
proof (cases "tk_key_id key \<in> set (map (tk_key_id \<circ> snd) tks)")
  case True
  then show ?thesis
    using assms update_present [of "registry_of tks" "tk_key_id key" key]
    by (auto simp: put_dated_def registry_of_def o_def case_prod_beta)
next
  case False
  then show ?thesis
    using update_absent [of "tk_key_id key" "registry_of tks" key]
    by (auto simp: put_dated_def registry_of_def o_def case_prod_beta)
qed

lemma dated_put:
  assumes "dated now tks" "storable_key key" "now < later"
  shows "dated later (put_dated now key tks)"
proof -
  have same: "map fst (map (\<lambda>(t, k). if tk_key_id k = tk_key_id key then (t, key) else (t, k)) tks) = map fst tks"
    "map (tk_key_id \<circ> snd) (map (\<lambda>(t, k). if tk_key_id k = tk_key_id key then (t, key) else (t, k)) tks) =
       map (tk_key_id \<circ> snd) tks"
    by (auto simp: case_prod_beta)
  show ?thesis
    using assms unfolding dated_def put_dated_def
    by (auto simp: same sorted_wrt_append list_all_iff simp del: map_map split: if_splits)
qed

text \<open>A status update reaches the one row of its key, in its root and authority.\<close>

definition update_hits :: "trust_key_status_update \<Rightarrow> trust_key_record \<Rightarrow> bool" where
  "update_hits u k \<longleftrightarrow> tk_key_id k = ku_key_id u \<and> trustKeyIsWithinUpdateScope k u"

definition set_dated :: "trust_key_status_update \<Rightarrow> dated_keys \<Rightarrow> dated_keys" where
  "set_dated u tks = map (\<lambda>(t, k). if update_hits u k then (t, k\<lparr>tk_status := ku_status u\<rparr>) else (t, k)) tks"

lemma matches_iff:
  "status_update_matches (ku_root_program_id u) (ku_key_id u) (ku_delegated_authority_id u) (row_of_key k) \<longleftrightarrow>
     update_hits u k"
  by (auto simp: status_update_matches_def update_hits_def trustKeyIsWithinUpdateScope_def)

text \<open>A write is refused by the trigger exactly when it takes a key out of revoked.\<close>

lemma registry_entry:
  assumes "distinct (map (tk_key_id \<circ> snd) tks)"
  shows "map_of (registry_of tks) i = Some k \<longleftrightarrow> k \<in> snd ` set tks \<and> tk_key_id k = i"
proof -
  have "distinct (map fst (registry_of tks))" using assms by (simp add: registry_of_def o_def case_prod_beta)
  then show ?thesis by (force simp: map_of_eq_Some_iff registry_of_def)
qed

lemma unrevokes_iff:
  assumes "distinct (map (tk_key_id \<circ> snd) tks)"
  shows "unrevokes (OpUpsertKey key) (registry_of tks) \<longleftrightarrow>
      list_ex (\<lambda>(_, r). kr_key_id r = tk_key_id key \<and> leaves_revoked r (tk_status key)) (table_of tks)"
    and "unrevokes (OpUpdateKeyStatus u) (registry_of tks) \<longleftrightarrow>
      list_ex (\<lambda>(_, r). status_update_matches (ku_root_program_id u) (ku_key_id u) (ku_delegated_authority_id u) r \<and>
        leaves_revoked r (ku_status u)) (table_of tks)"
proof -
  have entry: "(case map_of (registry_of tks) i of None \<Rightarrow> False | Some k \<Rightarrow> P k) \<longleftrightarrow>
      (\<exists>k \<in> snd ` set tks. tk_key_id k = i \<and> P k)" for i P
  proof (cases "map_of (registry_of tks) i")
    case None
    then show ?thesis using registry_entry [OF assms, of i] by auto
  next
    case (Some k)
    then have k: "k \<in> snd ` set tks" "tk_key_id k = i" using registry_entry [OF assms, of i k] by simp_all
    have "k' = k" if "k' \<in> snd ` set tks" "tk_key_id k' = i" for k'
      using registry_entry [OF assms, of i k'] that Some by simp
    then have "(\<exists>k' \<in> snd ` set tks. tk_key_id k' = i \<and> P k') \<longleftrightarrow> P k" using k by metis
    then show ?thesis using Some by simp
  qed
  have status: "kr_key_status (row_of_key k) = tk_status k" for k by (simp add: row_of_key_def)
  have hits: "list_ex (\<lambda>(_, r). q r) (table_of tks) \<longleftrightarrow> (\<exists>k \<in> snd ` set tks. q (row_of_key k))" for q
    by (force simp: list_ex_iff table_of_def)
  show "unrevokes (OpUpsertKey key) (registry_of tks) \<longleftrightarrow>
      list_ex (\<lambda>(_, r). kr_key_id r = tk_key_id key \<and> leaves_revoked r (tk_status key)) (table_of tks)"
    by (simp add: entry hits leaves_revoked_def row_of_key_def)
  show "unrevokes (OpUpdateKeyStatus u) (registry_of tks) \<longleftrightarrow>
      list_ex (\<lambda>(_, r). status_update_matches (ku_root_program_id u) (ku_key_id u) (ku_delegated_authority_id u) r \<and>
        leaves_revoked r (ku_status u)) (table_of tks)"
    by (simp add: entry hits leaves_revoked_def matches_iff update_hits_def conj_assoc status)
qed

lemma upsert_agrees:
  assumes st: "stands_for tick st records" and op: "storable_key key" "admits (row_of_key key)"
    and final: "\<not> unrevokes (OpUpsertKey key) records" and clock: "clock_advances tick"
  obtains st' where
    "postgres_upsertTrustKey (postgres_query_keys le admits dbError tick) key st = (st', Done key)"
    "stands_for tick st' (upsertTrustKey key records)"
proof -
  obtain table c where s: "st = (table, c)" by (cases st)
  obtain tks where tks: "table = table_of tks" "records = registry_of tks" "dated (snd (tick c)) tks"
    using st by (auto simp: stands_for_def s)
  have allowed: "\<not> list_ex (\<lambda>(_, r). kr_key_id r = tk_key_id key \<and> leaves_revoked r (tk_status key)) table"
    using final tks(3) unrevokes_iff(1) [of tks key] by (simp add: tks(1,2) dated_def del: unrevokes.simps)
  have "sql_trust_keys le admits dbError now (trustKeyUpsertCommand key) table =
      (upsert_key_row now (row_of_key key) table, Inr [key_driver_row (row_of_key key)])" for now
    using op(2) allowed by (cases "tk_delegated_authority_id key"; cases "tk_public_key_material_pem key")
      (simp_all add: sql_trust_keys_def trustKeyUpsertCommand_def sql_text_def row_of_key_def Let_def
        del: key_scope_of.simps key_status_of.simps)
  then have out: "postgres_upsertTrustKey (postgres_query_keys le admits dbError tick) key st =
      ((upsert_key_row (snd (tick c)) (row_of_key key) table, fst (tick c)), Done key)"
    using decode_driver_rows [of "[key]"] op(1)
    by (simp add: postgres_upsertTrustKey_def postgres_query_keys_def s Let_def case_prod_beta map_rows_def
        requireSingleTrustKeyRow_def row_round_trip)
  have "snd (tick c) < snd (tick (fst (tick c)))" using clock by (simp add: clock_advances_def)
  then have "stands_for tick (upsert_key_row (snd (tick c)) (row_of_key key) table, fst (tick c)) (upsertTrustKey key records)"
    using dated_put [OF tks(3) op(1)] tks(3)
    by (auto simp: stands_for_def tks(1,2) put_dated_rows upsertTrustKey_def dated_def
        put_dated_registry [where now = "snd (tick c)"])
  then show thesis using that out by blast
qed

lemma set_dated_registry:
  assumes "distinct (map (tk_key_id \<circ> snd) tks)"
  shows "updateTrustKeyStatus u (registry_of tks) = (registry_of (set_dated u tks), list_ex (update_hits u \<circ> snd) tks)"
proof (cases "\<exists>t k. (t, k) \<in> set tks \<and> tk_key_id k = ku_key_id u")
  case True
  then obtain t k where k: "(t, k) \<in> set tks" "tk_key_id k = ku_key_id u" by blast
  have only: "k' = k" if "(t', k') \<in> set tks" "tk_key_id k' = ku_key_id u" for t' k'
    using assms k that by (metis (no_types, lifting) comp_apply distinct_map inj_onD snd_conv)
  have "distinct (map fst (registry_of tks))" using assms by (simp add: registry_of_def o_def case_prod_beta)
  moreover have "(ku_key_id u, k) \<in> set (registry_of tks)" using k by (force simp: registry_of_def)
  ultimately have found: "map_of (registry_of tks) (ku_key_id u) = Some k" by simp
  show ?thesis
  proof (cases "trustKeyIsWithinUpdateScope k u")
    case True
    let ?k = "k\<lparr>tk_status := ku_status u\<rparr>"
    have hit: "tk_key_id k' = tk_key_id ?k \<longleftrightarrow> update_hits u k'" if "(t', k') \<in> set tks" for t' k'
      using only [OF that] True k(2) by (auto simp: update_hits_def)
    have "tk_key_id ?k \<in> set (map (tk_key_id \<circ> snd) tks)" using k(1) by force
    then have "put_dated t ?k tks = map (\<lambda>(t, k'). if tk_key_id k' = tk_key_id ?k then (t, ?k) else (t, k')) tks"
      by (simp add: put_dated_def)
    also have "\<dots> = set_dated u tks"
      unfolding set_dated_def using hit only k(2) by (intro map_cong) (auto simp: update_hits_def)
    finally have "put_dated t ?k tks = set_dated u tks" .
    moreover have "list_ex (update_hits u \<circ> snd) tks"
      using k True by (force simp: list_ex_iff update_hits_def)
    ultimately show ?thesis
      using put_dated_registry [OF assms, of ?k t] found True k(2) by (simp add: updateTrustKeyStatus_def)
  next
    case False
    have none: "\<not> update_hits u k'" if "(t', k') \<in> set tks" for t' k'
      using only [OF that] False by (auto simp: update_hits_def)
    then have "set_dated u tks = tks" by (auto simp: set_dated_def intro!: map_idI)
    then show ?thesis using none found False by (auto simp: updateTrustKeyStatus_def list_ex_iff)
  qed
next
  case False
  then have "map_of (registry_of tks) (ku_key_id u) = None"
    by (force simp: map_of_eq_None_iff registry_of_def)
  moreover have "set_dated u tks = tks" using False by (auto simp: set_dated_def update_hits_def intro!: map_idI)
  ultimately show ?thesis using False by (force simp: updateTrustKeyStatus_def list_ex_iff update_hits_def)
qed

lemma dated_set: "dated now tks \<Longrightarrow> dated now (set_dated u tks)"
proof -
  have same: "map fst (set_dated u tks) = map fst tks" "map (tk_key_id \<circ> snd) (set_dated u tks) = map (tk_key_id \<circ> snd) tks"
    by (auto simp: set_dated_def case_prod_beta)
  have "list_all (storable_key \<circ> snd) tks \<Longrightarrow> list_all (storable_key \<circ> snd) (set_dated u tks)"
    by (auto simp: set_dated_def list_all_iff storable_key_def split: if_splits)
  then show "dated now tks \<Longrightarrow> ?thesis" by (simp add: dated_def same)
qed

lemma update_agrees:
  assumes st: "stands_for tick st records" and final: "\<not> unrevokes (OpUpdateKeyStatus u) records" and clock: "clock_advances tick"
  obtains st' where
    "postgres_updateTrustKeyStatus (postgres_query_keys le admits dbError tick) u st =
       (st', Done (snd (updateTrustKeyStatus u records)))"
    "stands_for tick st' (fst (updateTrustKeyStatus u records))"
proof -
  obtain table c where s: "st = (table, c)" by (cases st)
  obtain tks where tks: "table = table_of tks" "records = registry_of tks" "dated (snd (tick c)) tks"
    using st by (auto simp: stands_for_def s)
  let ?hits = "map (\<lambda>k. k\<lparr>tk_status := ku_status u\<rparr>) (filter (update_hits u) (map snd tks))"
  have good: "list_all storable_key ?hits"
    using tks(3) by (auto simp: dated_def list_all_iff storable_key_def)
  have allowed: "\<not> list_ex (\<lambda>(_, r). status_update_matches (ku_root_program_id u) (ku_key_id u)
      (ku_delegated_authority_id u) r \<and> leaves_revoked r (ku_status u)) (table_of tks)"
    using final tks(3) unrevokes_iff(2) [of tks u] by (simp add: tks(1,2) dated_def del: unrevokes.simps)
  have sql: "sql_trust_keys le admits dbError now (trustKeyStatusUpdateCommand u) table =
      (table_of (set_dated u tks), Inr (map key_driver_row (map row_of_key ?hits)))" for now
  proof -
    have texts: "text_of (sql_text (ku_delegated_authority_id u)) = ku_delegated_authority_id u"
      by (cases "ku_delegated_authority_id u") (simp_all add: sql_text_def)
    show ?thesis
      using allowed
      by (auto simp: sql_trust_keys_def trustKeyStatusUpdateCommand_def texts tks(1) table_of_def set_dated_def Let_def
          case_prod_beta matches_iff row_status filter_map o_def simp del: key_status_of.simps)
  qed
  have "filter (update_hits u) (map snd tks) \<noteq> [] \<longleftrightarrow> list_ex (update_hits u \<circ> snd) tks"
    by (auto simp: list_ex_iff filter_empty_conv)
  then have out: "postgres_updateTrustKeyStatus (postgres_query_keys le admits dbError tick) u st =
      ((table_of (set_dated u tks), fst (tick c)), Done (list_ex (update_hits u \<circ> snd) tks))"
    using decode_driver_rows [OF good]
    by (simp add: postgres_updateTrustKeyStatus_def postgres_query_keys_def s Let_def case_prod_beta map_rows_def sql
        del: map_map)
  have later: "snd (tick c) \<le> snd (tick (fst (tick c)))" using clock by (simp add: clock_advances_def less_imp_le)
  have "distinct (map (tk_key_id \<circ> snd) tks)" using tks(3) by (simp add: dated_def)
  note memory = set_dated_registry [OF this, of u, folded tks(2)]
  have "stands_for tick (table_of (set_dated u tks), fst (tick c)) (registry_of (set_dated u tks))"
    using dated_later [OF dated_set [OF tks(3)] later] by (auto simp: stands_for_def)
  then show thesis using that out memory by simp
qed

text \<open>A refused write leaves the table as it was.\<close>

lemma refused_agrees:
  assumes st: "stands_for tick st records" and refused: "unrevokes op records" and clock: "clock_advances tick"
  obtains st' where
    "postgres_key_call (postgres_query_keys le admits dbError tick) op st = (st', Failed dbError)"
    "stands_for tick st' records"
proof -
  obtain table c where s: "st = (table, c)" by (cases st)
  obtain tks where tks: "table = table_of tks" "records = registry_of tks" "dated (snd (tick c)) tks"
    using st by (auto simp: stands_for_def s)
  have distinct: "distinct (map (tk_key_id \<circ> snd) tks)" using tks(3) by (simp add: dated_def)
  have "postgres_key_call (postgres_query_keys le admits dbError tick) op st = ((table, fst (tick c)), Failed dbError)"
  proof (cases op)
    case (OpUpsertKey key)
    have "sql_trust_keys le admits dbError now (trustKeyUpsertCommand key) table = (table, Inl dbError)" for now
      using refused unrevokes_iff(1) [OF distinct, of key]
      by (cases "tk_delegated_authority_id key"; cases "tk_public_key_material_pem key")
        (simp_all add: sql_trust_keys_def trustKeyUpsertCommand_def sql_text_def OpUpsertKey tks(1,2) Let_def
          del: key_scope_of.simps key_status_of.simps unrevokes.simps)
    then show ?thesis
      by (simp add: OpUpsertKey postgres_upsertTrustKey_def postgres_query_keys_def s Let_def case_prod_beta
          map_rows_def reply_as_def)
  next
    case (OpUpdateKeyStatus u)
    have texts: "text_of (sql_text (ku_delegated_authority_id u)) = ku_delegated_authority_id u"
      by (cases "ku_delegated_authority_id u") (simp_all add: sql_text_def)
    have "sql_trust_keys le admits dbError now (trustKeyStatusUpdateCommand u) table = (table, Inl dbError)" for now
      using refused unrevokes_iff(2) [OF distinct, of u]
      by (simp add: sql_trust_keys_def trustKeyStatusUpdateCommand_def texts OpUpdateKeyStatus tks(1,2) Let_def
          del: key_status_of.simps unrevokes.simps)
    then show ?thesis
      by (simp add: OpUpdateKeyStatus postgres_updateTrustKeyStatus_def postgres_query_keys_def s Let_def case_prod_beta
          map_rows_def reply_as_def)
  qed
  moreover have "snd (tick c) \<le> snd (tick (fst (tick c)))" using clock by (simp add: clock_advances_def less_imp_le)
  then have "stands_for tick (table, fst (tick c)) records"
    using dated_later [OF tks(3)] by (auto simp: stands_for_def tks(1,2))
  ultimately show thesis by (rule that)
qed

lemma calls_agree:
  assumes "stands_for tick st records" "clock_advances tick" "\<forall>op \<in> set ops. storable_op admits op"
  shows "\<exists>st'. postgres_key_calls (postgres_query_keys le admits dbError tick) ops st =
      (st', terminal_replies dbError ops records) \<and> stands_for tick st' (terminal_run ops records)"
  using assms
proof (induction ops arbitrary: st records)
  case (Cons op ops)
  let ?query = "postgres_query_keys le admits dbError tick"
  obtain st1 where one: "postgres_key_call ?query op st =
      (st1, if unrevokes op records then Failed dbError else Done (memory_reply op records))"
    "stands_for tick st1 (terminal_step op records)"
  proof (cases "unrevokes op records")
    case True
    then show thesis
      using refused_agrees [OF Cons.prems(1) True Cons.prems(2)] that by (metis terminal_step_def)
  next
    case False
    show thesis
    proof (cases op)
      case (OpUpsertKey key)
      then have ok: "storable_key key" "admits (row_of_key key)" using Cons.prems(3) by auto
      obtain st' where "postgres_upsertTrustKey ?query key st = (st', Done key)"
        "stands_for tick st' (upsertTrustKey key records)"
        by (rule upsert_agrees [where admits = admits, OF Cons.prems(1) ok False [unfolded OpUpsertKey] Cons.prems(2)])
      then show thesis
        using False by (intro that) (simp_all add: OpUpsertKey reply_as_def terminal_step_def del: unrevokes.simps)
    next
      case (OpUpdateKeyStatus u)
      obtain st' where "postgres_updateTrustKeyStatus ?query u st = (st', Done (snd (updateTrustKeyStatus u records)))"
        "stands_for tick st' (fst (updateTrustKeyStatus u records))"
        by (rule update_agrees [OF Cons.prems(1) False [unfolded OpUpdateKeyStatus] Cons.prems(2)])
      then show thesis
        using False by (intro that) (simp_all add: OpUpdateKeyStatus reply_as_def terminal_step_def del: unrevokes.simps)
    qed
  qed
  have "\<exists>st'. postgres_key_calls ?query ops st1 = (st', terminal_replies dbError ops (terminal_step op records)) \<and>
      stands_for tick st' (terminal_run ops (terminal_step op records))"
    by (rule Cons.IH [OF one(2) Cons.prems(2)]) (use Cons.prems(3) in simp)
  then show ?case by (auto simp: one(1) terminal_run_def)
qed (simp add: terminal_run_def)

text \<open>Over the guarded registry a revocation is final, and the guard does nothing else.\<close>

lemma terminal_step_keeps_revoked:
  assumes "map_of records i = Some k" "tk_status k = Key_revoked"
  shows "\<exists>k'. map_of (terminal_step op records) i = Some k' \<and> tk_status k' = Key_revoked"
  using assms
  by (cases op) (auto simp: terminal_step_def upsertTrustKey_def updateTrustKeyStatus_def update_conv split: option.splits if_splits)

lemma revocation_is_final:
  assumes "map_of records i = Some k" "tk_status k = Key_revoked"
  shows "\<exists>k'. map_of (terminal_run ops records) i = Some k' \<and> tk_status k' = Key_revoked"
  using assms
proof (induction ops arbitrary: records k)
  case (Cons op ops)
  then show ?case using terminal_step_keeps_revoked [OF Cons.prems, of op] by (auto simp: terminal_run_def)
qed (simp add: terminal_run_def)


subsection \<open>Properties\<close>

text \<open>
  C39. The trust key registry on Postgres implements the in-memory registry with final revocations. From an
  empty table, every history of upserts and status updates gives the replies of the in-memory registry,
  except that a write that takes a key out of revoked fails and changes nothing; afterwards every lookup of a
  signer selects the same key with the same reason, and the snapshot holds the same keys. It is required
  that the clock of the database advances between statements, so that the order of creation is the order of
  insertion, and that the upserted keys have no empty texts and satisfy the constraints of the table.
\<close>

theorem postgres_registry_implements_memory_registry:
  assumes "clock_advances tick" "\<forall>op \<in> set ops. storable_op admits op"
    and "postgres_key_calls (postgres_query_keys le admits dbError tick) ops ([], c) = (st, replies)"
  shows "replies = terminal_replies dbError ops [] \<and>
    (\<forall>i. snd (postgres_lookupSignerKey (postgres_query_keys le admits dbError tick) i st) =
       Done (lookupSignerKey i (terminal_run ops []))) \<and>
    (\<exists>ks. snd (postgres_key_snapshot (postgres_query_keys le admits dbError tick) st) = Done ks \<and>
       mset ks = mset (registry_snapshot (terminal_run ops [])))"
proof -
  have "stands_for tick ([], c) []" by (auto simp: stands_for_def dated_def table_of_def registry_of_def)
  then have st: "stands_for tick st (terminal_run ops [])" "replies = terminal_replies dbError ops []"
    using calls_agree [OF _ assms(1,2), of "([], c)" "[]" le dbError] assms(3) by auto
  then show ?thesis using lookup_agrees [OF st(1)] snapshot_agrees [OF st(1)] by metis
qed

definition fx_key_clock :: "int \<Rightarrow> int \<times> int" where
  "fx_key_clock c = (c + 1, c)"

definition fx_key_history :: "registry_op list" where
  "fx_key_history =
     (let revoke = \<lparr>ku_root_program_id = tk_root_program_id demoRootTrustKey,
        ku_key_id = tk_key_id demoDelegatedAuthorityTrustKey, ku_status = Key_revoked,
        ku_delegated_authority_id = tk_delegated_authority_id demoDelegatedAuthorityTrustKey\<rparr>
      in [OpUpsertKey demoRootTrustKey, OpUpsertKey demoDelegatedAuthorityTrustKey, OpUpdateKeyStatus revoke,
          OpUpdateKeyStatus (revoke\<lparr>ku_status := Key_active\<rparr>)])"

definition fx_db_error :: net_error where
  "fx_db_error = PersistenceError ''db'' (OtherCause JNull)"

theorem postgres_registry_implements_memory_registry_witness:
  "\<exists>st. postgres_key_calls (postgres_query_keys js_le (\<lambda>_. True) fx_db_error fx_key_clock) fx_key_history ([], 0) =
     (st, [Done (Stored demoRootTrustKey), Done (Stored demoDelegatedAuthorityTrustKey), Done (Updated True),
       Failed fx_db_error])"
proof -
  let ?query = "postgres_query_keys js_le (\<lambda>_. True) fx_db_error fx_key_clock"
  have clock: "clock_advances fx_key_clock" by (simp add: clock_advances_def fx_key_clock_def)
  have "storable_key demoRootTrustKey \<and> storable_key demoDelegatedAuthorityTrustKey" by code_simp
  then have ok: "\<forall>op \<in> set fx_key_history. storable_op (\<lambda>_. True) op" by (simp add: fx_key_history_def Let_def)
  obtain st replies where run: "postgres_key_calls ?query fx_key_history ([], 0) = (st, replies)" by fastforce
  have "terminal_replies fx_db_error fx_key_history [] =
      [Done (Stored demoRootTrustKey), Done (Stored demoDelegatedAuthorityTrustKey), Done (Updated True),
       Failed fx_db_error]"
    by code_simp
  then show ?thesis
    using postgres_registry_implements_memory_registry [OF clock ok run] run by simp
qed

text \<open>The in-memory registry takes the same history as a reactivation of the key.\<close>

lemma memory_registry_reactivates_a_revoked_key:
  "map_option tk_status (map_of (registry_run fx_key_history []) (tk_key_id demoDelegatedAuthorityTrustKey)) =
     Some Key_active"
  by code_simp

text \<open>
  The recording executor takes an empty authority for none and updates the key, where the statement and
  the in-memory registry refuse.
\<close>

lemma recording_executor_ignores_an_empty_authority:
  "snd (postgres_updateTrustKeyStatus recording_query_keys
     \<lparr>ku_root_program_id = ''root:r'', ku_key_id = ''k'', ku_status = Key_revoked, ku_delegated_authority_id = Some []\<rparr>
     (makeRecordingPostgresTrustKeyRegistryExecutor
       [\<lparr>kr_key_id = ''k'', kr_root_program_id = ''root:r'', kr_delegated_authority_id = Some ''authority:a'',
         kr_signer_id = ''authority:a'', kr_algorithm_id = ''ed25519'', kr_public_key_material_ref = ''m'',
         kr_public_key_material_pem = None, kr_scope = Scope_delegated_authority, kr_key_status = Key_active\<rparr>])) =
   Done True"
  by code_simp

end
