(* ===== verification/PublicationContext.thy ===== *)
theory PublicationContext
  imports GovernanceSource
begin

text \<open>
  What the publication gate is told about an issuer: the domain proofs and the enrollment read from
  Postgres, \<^verbatim>\<open>network/src/services/postgres-domain-proof-store.ts\<close> and
  \<^verbatim>\<open>postgres-destination-policy-publication-context.ts\<close>. The two statements are functions on their
  tables; the executors are the recording one and that of \<^verbatim>\<open>postgres-driver.ts\<close>.
\<close>

subsection \<open>Domain proofs\<close>

record proof_row =
  xr_domain_proof_id :: string
  xr_root_program_id :: string
  xr_delegated_authority_id :: string
  xr_issuer_id :: string
  xr_domain :: string
  xr_proof_method :: domain_proof_method
  xr_verification_status :: proof_verification_status
  xr_verified_at :: "string option"
  xr_expires_at :: "string option"
  xr_evidence_ref :: "string option"

definition namespace_values :: "issuer_namespace \<Rightarrow> sql_value list" where
  "namespace_values ns =
     [SText (ns_root_program_id ns), SText (ns_delegated_authority_id ns), SText (ns_issuer_id ns)]"

definition issuerDomainProofsByIssuerCommand :: "issuer_namespace \<Rightarrow> sql_command" where
  "issuerDomainProofsByIssuerCommand ns =
     \<lparr>sc_name = ''issuer_domain_proofs.by_issuer'', sc_values = namespace_values ns\<rparr>"

definition domainProofRecordFromPostgresRow :: "proof_row \<Rightarrow> domain_proof" where
  "domainProofRecordFromPostgresRow row =
     \<lparr>dpr_namespace = \<lparr>ns_root_program_id = xr_root_program_id row,
        ns_delegated_authority_id = xr_delegated_authority_id row, ns_issuer_id = xr_issuer_id row\<rparr>,
      dpr_domain = xr_domain row, dpr_proof_method = xr_proof_method row,
      dpr_verification_status = xr_verification_status row,
      dpr_verified_at = keep_truthy (xr_verified_at row), dpr_expires_at = keep_truthy (xr_expires_at row),
      dpr_evidence_ref = keep_truthy (xr_evidence_ref row)\<rparr>"

definition loadIssuerDomainProofs ::
  "(sql_command \<Rightarrow> ('k, proof_row list) call) \<Rightarrow> issuer_namespace \<Rightarrow> ('k, domain_proof list) call" where
  "loadIssuerDomainProofs queryDomainProofs ns k =
     (case queryDomainProofs (issuerDomainProofsByIssuerCommand ns) k of
        (k', Inl e) \<Rightarrow> (k', Inl e)
      | (k', Inr rows) \<Rightarrow> (k', Inr (map domainProofRecordFromPostgresRow rows)))"

definition recording_domain_proofs ::
  "proof_row list \<Rightarrow> sql_command \<Rightarrow> (sql_command list, proof_row list) call" where
  "recording_domain_proofs rows command commands =
     (commands @ [command],
      if sc_name command \<noteq> ''issuer_domain_proofs.by_issuer'' then Inr []
      else Inr (filter (\<lambda>row.
        Some (xr_root_program_id row) = stringCommandValue command 0 \<and>
        Some (xr_delegated_authority_id row) = stringCommandValue command 1 \<and>
        Some (xr_issuer_id row) = stringCommandValue command 2) rows))"

text \<open>Decoding; \<open>what\<close> names the kind of row in the message.\<close>

definition requireRowString :: "string \<Rightarrow> driver_row \<Rightarrow> string \<Rightarrow> string + string" where
  "requireRowString what row field =
     (case field_value row field of
        JStr s \<Rightarrow> if length s = 0 then Inl (''Postgres '' @ what @ '' row is missing '' @ field @ ''.'') else Inr s
      | _ \<Rightarrow> Inl (''Postgres '' @ what @ '' row is missing '' @ field @ ''.''))"

definition optionalRowString :: "driver_row \<Rightarrow> string \<Rightarrow> string option" where
  "optionalRowString row field =
     (case field_value row field of JStr s \<Rightarrow> if length s > 0 then Some s else None | _ \<Rightarrow> None)"

definition optionalTimestampField :: "platform \<Rightarrow> driver_row \<Rightarrow> string \<Rightarrow> string option" where
  "optionalTimestampField P row field =
     (case map_of row field of
        Some (Timestamp t) \<Rightarrow> Some (iso_string P t)
      | _ \<Rightarrow> optionalRowString row field)"

definition proof_methods :: "(string \<times> domain_proof_method) list" where
  "proof_methods = [(''dns_txt'', Dns_txt), (''https_well_known'', Https_well_known),
     (''payment_processor'', Payment_processor), (''enterprise_directory'', Enterprise_directory),
     (''manual_review'', Manual_review)]"

definition verification_statuses :: "(string \<times> proof_verification_status) list" where
  "verification_statuses = [(''pending'', Proof_pending), (''verified'', Proof_verified), (''failed'', Proof_failed),
     (''expired'', Proof_expired), (''revoked'', Proof_revoked)]"

definition enrollment_statuses :: "(string \<times> enrollment_status) list" where
  "enrollment_statuses = [(''pending'', Enrollment_pending), (''active'', Enrollment_active),
     (''suspended'', Enrollment_suspended), (''revoked'', Enrollment_revoked), (''expired'', Enrollment_expired)]"

definition require_listed :: "string \<Rightarrow> (string \<times> 'a) list \<Rightarrow> driver_row \<Rightarrow> string \<Rightarrow> string + 'a" where
  "require_listed what listed row field =
     (case field_value row field of
        JStr s \<Rightarrow> (case map_of listed s of
            Some x \<Rightarrow> Inr x | None \<Rightarrow> Inl (''Postgres '' @ what @ '' row has invalid '' @ field @ ''.''))
      | _ \<Rightarrow> Inl (''Postgres '' @ what @ '' row has invalid '' @ field @ ''.''))"

definition requireProofMethodField :: "driver_row \<Rightarrow> string \<Rightarrow> string + domain_proof_method" where
  "requireProofMethodField = require_listed ''domain proof'' proof_methods"

definition requireVerificationStatusField :: "driver_row \<Rightarrow> string \<Rightarrow> string + proof_verification_status" where
  "requireVerificationStatusField = require_listed ''domain proof'' verification_statuses"

definition postgresDomainProofRowFromRecord :: "platform \<Rightarrow> driver_row \<Rightarrow> string + proof_row" where
  "postgresDomainProofRowFromRecord P row =
     (let require = requireRowString ''domain proof'' row in
      and_then (require ''domain_proof_id'') (\<lambda>proofId.
      and_then (require ''root_program_id'') (\<lambda>rootProgramId.
      and_then (require ''delegated_authority_id'') (\<lambda>authorityId.
      and_then (require ''issuer_id'') (\<lambda>issuerId.
      and_then (require ''domain'') (\<lambda>dom.
      and_then (requireProofMethodField row ''proof_method'') (\<lambda>proofMethod.
      and_then (requireVerificationStatusField row ''verification_status'') (\<lambda>status.
        Inr \<lparr>xr_domain_proof_id = proofId, xr_root_program_id = rootProgramId,
             xr_delegated_authority_id = authorityId, xr_issuer_id = issuerId, xr_domain = dom,
             xr_proof_method = proofMethod, xr_verification_status = status,
             xr_verified_at = optionalTimestampField P row ''verified_at'',
             xr_expires_at = optionalTimestampField P row ''expires_at'',
             xr_evidence_ref = optionalRowString row ''evidence_ref''\<rparr>))))))))"

definition decodePostgresDomainProofRows :: "platform \<Rightarrow> driver_row list \<Rightarrow> net_error + proof_row list" where
  "decodePostgresDomainProofRows P rows =
     map_error (\<lambda>cause. PersistenceError ''Postgres domain proof row decoding failed.'' (OtherCause (JStr cause)))
       (map_result (postgresDomainProofRowFromRecord P) rows)"


subsection \<open>Enrollment and the context\<close>

record enrollment_row =
  er_root_program_id :: string
  er_delegated_authority_id :: string
  er_issuer_id :: string
  er_display_name :: string
  er_assurance_tier :: string
  er_enrollment_status :: enrollment_status

definition issuerEnrollmentByNamespaceCommand :: "issuer_namespace \<Rightarrow> sql_command" where
  "issuerEnrollmentByNamespaceCommand ns =
     \<lparr>sc_name = ''issuers.by_namespace'', sc_values = namespace_values ns\<rparr>"

definition issuerEnrollmentProjectionFromRow :: "enrollment_row \<Rightarrow> issuer_enrollment" where
  "issuerEnrollmentProjectionFromRow row =
     \<lparr>ie_namespace = \<lparr>ns_root_program_id = er_root_program_id row,
        ns_delegated_authority_id = er_delegated_authority_id row, ns_issuer_id = er_issuer_id row\<rparr>,
      ie_issuer_display_name = er_display_name row, ie_assurance_tier = er_assurance_tier row,
      ie_enrollment_status = er_enrollment_status row\<rparr>"

definition requireSingleIssuerEnrollment ::
  "enrollment_row list \<Rightarrow> issuer_namespace \<Rightarrow> string \<Rightarrow> net_error + issuer_enrollment" where
  "requireSingleIssuerEnrollment rows ns artifactId =
     (case rows of
        [row] \<Rightarrow> Inr (issuerEnrollmentProjectionFromRow row)
      | _ \<Rightarrow> Inl (PersistenceError ''Destination policy publication context is missing issuer enrollment.''
          (OtherCause (JObj [(''artifact_id'', JStr artifactId), (''namespace'', namespace_json ns),
             (''row_count'', int_json (int (length rows)))]))))"

definition resolveDestinationPolicyContext ::
  "(sql_command \<Rightarrow> ('k, enrollment_row list) call) \<Rightarrow> (sql_command \<Rightarrow> ('k, proof_row list) call) \<Rightarrow>
     artifact_publication_input \<Rightarrow> destination_policy_projection \<Rightarrow>
     ('k, destination_policy_publication_context) call" where
  "resolveDestinationPolicyContext queryIssuerEnrollment queryDomainProofs input policy k =
     (let ns = dp_namespace policy in
      case queryIssuerEnrollment (issuerEnrollmentByNamespaceCommand ns) k of
        (k', Inl e) \<Rightarrow> (k', Inl e)
      | (k', Inr issuerRows) \<Rightarrow>
          (case requireSingleIssuerEnrollment issuerRows ns (ap_artifact_id input) of
             Inl e \<Rightarrow> (k', Inl e)
           | Inr issuer \<Rightarrow>
               (case queryDomainProofs (issuerDomainProofsByIssuerCommand ns) k' of
                  (k'', Inl e) \<Rightarrow> (k'', Inl e)
                | (k'', Inr proofRows) \<Rightarrow>
                    (k'', Inr \<lparr>pc_issuer = issuer,
                      pc_domain_proofs = map domainProofRecordFromPostgresRow proofRows\<rparr>))))"

definition recording_issuer_enrollment ::
  "enrollment_row list \<Rightarrow> sql_command \<Rightarrow> (sql_command list, enrollment_row list) call" where
  "recording_issuer_enrollment rows command commands =
     (commands @ [command],
      if sc_name command \<noteq> ''issuers.by_namespace'' then Inr []
      else Inr (filter (\<lambda>row.
        Some (er_root_program_id row) = stringCommandValue command 0 \<and>
        Some (er_delegated_authority_id row) = stringCommandValue command 1 \<and>
        Some (er_issuer_id row) = stringCommandValue command 2) rows))"

definition requireEnrollmentStatusField :: "driver_row \<Rightarrow> string \<Rightarrow> string + enrollment_status" where
  "requireEnrollmentStatusField = require_listed ''destination-policy issuer'' enrollment_statuses"

definition postgresDestinationPolicyIssuerRowFromRecord :: "driver_row \<Rightarrow> string + enrollment_row" where
  "postgresDestinationPolicyIssuerRowFromRecord row =
     (let require = requireRowString ''destination-policy issuer'' row in
      and_then (require ''root_program_id'') (\<lambda>rootProgramId.
      and_then (require ''delegated_authority_id'') (\<lambda>authorityId.
      and_then (require ''issuer_id'') (\<lambda>issuerId.
      and_then (require ''display_name'') (\<lambda>displayName.
      and_then (require ''assurance_tier'') (\<lambda>tier.
      and_then (requireEnrollmentStatusField row ''enrollment_status'') (\<lambda>status.
        Inr \<lparr>er_root_program_id = rootProgramId, er_delegated_authority_id = authorityId, er_issuer_id = issuerId,
             er_display_name = displayName, er_assurance_tier = tier, er_enrollment_status = status\<rparr>)))))))"

definition decodePostgresDestinationPolicyIssuerRows :: "driver_row list \<Rightarrow> net_error + enrollment_row list" where
  "decodePostgresDestinationPolicyIssuerRows rows =
     map_error (\<lambda>cause. PersistenceError ''Postgres destination-policy issuer row decoding failed.''
         (OtherCause (JStr cause)))
       (map_result postgresDestinationPolicyIssuerRowFromRecord rows)"


subsection \<open>The statements on the tables\<close>

record proof_table_row =
  xt_domain_proof_id :: string
  xt_namespace :: issuer_namespace
  xt_domain :: string
  xt_proof_method :: string
  xt_verification_status :: string
  xt_verified_at :: "int option"
  xt_expires_at :: "int option"
  xt_evidence_ref :: "string option"
  xt_created_at :: int

record context_tables =
  cx_issuers :: "issuer_row list"
  cx_domain_proofs :: "proof_table_row list"

definition issuer_row_namespace :: "issuer_row \<Rightarrow> issuer_namespace" where
  "issuer_row_namespace i =
     \<lparr>ns_root_program_id = it_root_program_id i, ns_delegated_authority_id = it_delegated_authority_id i,
      ns_issuer_id = it_issuer_id i\<rparr>"

definition enrollment_driver_row :: "issuer_row \<Rightarrow> driver_row" where
  "enrollment_driver_row i =
     [(''root_program_id'', Column (JStr (it_root_program_id i))),
      (''delegated_authority_id'', Column (JStr (it_delegated_authority_id i))),
      (''issuer_id'', Column (JStr (it_issuer_id i))), (''display_name'', Column (JStr (it_display_name i))),
      (''assurance_tier'', Column (JStr (it_assurance_tier i))),
      (''enrollment_status'', Column (JStr (it_enrollment_status i)))]"

definition timestamp_column :: "int option \<Rightarrow> column" where
  "timestamp_column t = (case t of None \<Rightarrow> Column JNull | Some t \<Rightarrow> Timestamp t)"

definition proof_driver_row :: "proof_table_row \<Rightarrow> driver_row" where
  "proof_driver_row p =
     [(''domain_proof_id'', Column (JStr (xt_domain_proof_id p))),
      (''root_program_id'', Column (JStr (ns_root_program_id (xt_namespace p)))),
      (''delegated_authority_id'', Column (JStr (ns_delegated_authority_id (xt_namespace p)))),
      (''issuer_id'', Column (JStr (ns_issuer_id (xt_namespace p)))),
      (''domain'', Column (JStr (xt_domain p))), (''proof_method'', Column (JStr (xt_proof_method p))),
      (''verification_status'', Column (JStr (xt_verification_status p))),
      (''verified_at'', timestamp_column (xt_verified_at p)), (''expires_at'', timestamp_column (xt_expires_at p)),
      (''evidence_ref'', Column (null_or_str (xt_evidence_ref p)))]"

definition status_rank :: "string \<Rightarrow> nat" where
  "status_rank s =
     (if s = ''verified'' then 1 else if s = ''pending'' then 2 else if s = ''failed'' then 3
      else if s = ''expired'' then 4 else if s = ''revoked'' then 5 else 6)"

text \<open>The \<^verbatim>\<open>order by\<close> of the proofs; \<open>le\<close> is the order of the collation.\<close>

definition proof_before :: "(string \<Rightarrow> string \<Rightarrow> bool) \<Rightarrow> proof_table_row \<Rightarrow> proof_table_row \<Rightarrow> bool" where
  "proof_before le a b =
     (let ra = status_rank (xt_verification_status a); rb = status_rank (xt_verification_status b)
      in if ra \<noteq> rb then ra < rb
         else if xt_domain a \<noteq> xt_domain b then le (xt_domain a) (xt_domain b)
         else if xt_created_at a \<noteq> xt_created_at b then xt_created_at a > xt_created_at b
         else le (xt_domain_proof_id a) (xt_domain_proof_id b))"

definition sql_domain_proofs ::
  "(string \<Rightarrow> string \<Rightarrow> bool) \<Rightarrow> net_error \<Rightarrow> sql_command \<Rightarrow> context_tables \<Rightarrow> net_error + driver_row list" where
  "sql_domain_proofs le dbError command T =
     (if sc_name command \<noteq> ''issuer_domain_proofs.by_issuer'' then Inr []
      else case sc_values command of
        [SText rootId, SText authorityId, SText issuerId] \<Rightarrow>
          Inr (map proof_driver_row (sort_by (proof_before le) (filter (\<lambda>p.
            xt_namespace p = \<lparr>ns_root_program_id = rootId, ns_delegated_authority_id = authorityId,
              ns_issuer_id = issuerId\<rparr>) (cx_domain_proofs T))))
      | _ \<Rightarrow> Inl dbError)"

definition sql_issuer_enrollment ::
  "net_error \<Rightarrow> sql_command \<Rightarrow> context_tables \<Rightarrow> net_error + driver_row list" where
  "sql_issuer_enrollment dbError command T =
     (if sc_name command \<noteq> ''issuers.by_namespace'' then Inr []
      else case sc_values command of
        [SText rootId, SText authorityId, SText issuerId] \<Rightarrow>
          Inr (map enrollment_driver_row (take 1 (filter (\<lambda>i.
            it_root_program_id i = rootId \<and> it_delegated_authority_id i = authorityId \<and>
            it_issuer_id i = issuerId) (cx_issuers T))))
      | _ \<Rightarrow> Inl dbError)"

definition postgres_domain_proofs ::
  "platform \<Rightarrow> (string \<Rightarrow> string \<Rightarrow> bool) \<Rightarrow> net_error \<Rightarrow> sql_command \<Rightarrow> (context_tables, proof_row list) call" where
  "postgres_domain_proofs P le dbError command T =
     (T, and_then (sql_domain_proofs le dbError command T) (decodePostgresDomainProofRows P))"

definition postgres_issuer_enrollment ::
  "net_error \<Rightarrow> sql_command \<Rightarrow> (context_tables, enrollment_row list) call" where
  "postgres_issuer_enrollment dbError command T =
     (T, and_then (sql_issuer_enrollment dbError command T) decodePostgresDestinationPolicyIssuerRows)"

text \<open>The resolver of the publication service over tables that do not change meanwhile.\<close>

definition postgres_context ::
  "platform \<Rightarrow> (string \<Rightarrow> string \<Rightarrow> bool) \<Rightarrow> net_error \<Rightarrow> context_tables \<Rightarrow> artifact_publication_input \<Rightarrow>
     destination_policy_projection \<Rightarrow> net_error + destination_policy_publication_context" where
  "postgres_context P le dbError T input policy =
     snd (resolveDestinationPolicyContext (postgres_issuer_enrollment dbError) (postgres_domain_proofs P le dbError)
       input policy T)"

end
