(* ===== verification/PublicationContextFacts.thy ===== *)
theory PublicationContextFacts
  imports PublicationContext DestinationPolicyFacts BundleSource
begin

text \<open>
  The publication gate over Postgres: what the tables hold when a destination policy is published, and
  which of several proofs of a domain counts.
\<close>

subsection \<open>Decoded rows\<close>

lemma require_listed_Inr:
  "require_listed what listed row field = Inr x \<longleftrightarrow> (\<exists>s. field_value row field = JStr s \<and> map_of listed s = Some x)"
  by (cases "field_value row field") (auto simp: require_listed_def split: option.splits)

lemma requireRowString_Inr:
  "requireRowString what row field = Inr s \<longleftrightarrow> field_value row field = JStr s \<and> s \<noteq> []"
  by (cases "field_value row field") (auto simp: requireRowString_def)

text \<open>The row of the table behind a decoded proof.\<close>

lemma decoded_proof:
  assumes "postgresDomainProofRowFromRecord P (proof_driver_row p) = Inr row"
  shows "dpr_namespace (domainProofRecordFromPostgresRow row) = xt_namespace p"
    "dpr_domain (domainProofRecordFromPostgresRow row) = xt_domain p"
    "dpr_verification_status (domainProofRecordFromPostgresRow row) = Proof_verified \<Longrightarrow>
       xt_verification_status p = ''verified''"
    "dpr_expires_at (domainProofRecordFromPostgresRow row) =
       keep_truthy (map_option (iso_string P) (xt_expires_at p))"
proof -
  have row: "xr_root_program_id row = ns_root_program_id (xt_namespace p) \<and>
      xr_delegated_authority_id row = ns_delegated_authority_id (xt_namespace p) \<and>
      xr_issuer_id row = ns_issuer_id (xt_namespace p) \<and> xr_domain row = xt_domain p \<and>
      map_of verification_statuses (xt_verification_status p) = Some (xr_verification_status row) \<and>
      xr_expires_at row = map_option (iso_string P) (xt_expires_at p)"
    using assms
    by (auto simp: postgresDomainProofRowFromRecord_def Let_def and_then_Inr requireRowString_Inr
        requireProofMethodField_def requireVerificationStatusField_def require_listed_Inr proof_driver_row_def
        field_value_def optionalTimestampField_def optionalRowString_def timestamp_column_def split: option.splits)
  then show "dpr_namespace (domainProofRecordFromPostgresRow row) = xt_namespace p"
    "dpr_domain (domainProofRecordFromPostgresRow row) = xt_domain p"
    "dpr_expires_at (domainProofRecordFromPostgresRow row) = keep_truthy (map_option (iso_string P) (xt_expires_at p))"
    by (simp_all add: domainProofRecordFromPostgresRow_def)
  show "xt_verification_status p = ''verified''"
    if "dpr_verification_status (domainProofRecordFromPostgresRow row) = Proof_verified"
    using row that by (auto simp: domainProofRecordFromPostgresRow_def verification_statuses_def split: if_splits)
qed

lemma decoded_enrollment:
  assumes "postgresDestinationPolicyIssuerRowFromRecord (enrollment_driver_row i) = Inr row"
  shows "ie_namespace (issuerEnrollmentProjectionFromRow row) = issuer_row_namespace i"
    "ie_enrollment_status (issuerEnrollmentProjectionFromRow row) = Enrollment_active \<Longrightarrow>
       it_enrollment_status i = ''active''"
proof -
  have row: "er_root_program_id row = it_root_program_id i \<and> er_delegated_authority_id row = it_delegated_authority_id i \<and>
      er_issuer_id row = it_issuer_id i \<and>
      map_of enrollment_statuses (it_enrollment_status i) = Some (er_enrollment_status row)"
    using assms
    by (auto simp: postgresDestinationPolicyIssuerRowFromRecord_def Let_def and_then_Inr requireRowString_Inr
        requireEnrollmentStatusField_def require_listed_Inr enrollment_driver_row_def field_value_def)
  then show "ie_namespace (issuerEnrollmentProjectionFromRow row) = issuer_row_namespace i"
    by (simp add: issuerEnrollmentProjectionFromRow_def issuer_row_namespace_def)
  show "it_enrollment_status i = ''active''"
    if "ie_enrollment_status (issuerEnrollmentProjectionFromRow row) = Enrollment_active"
    using row that by (auto simp: issuerEnrollmentProjectionFromRow_def enrollment_statuses_def split: if_splits)
qed

text \<open>A context read from the tables.\<close>

lemma context_from_tables:
  assumes "postgres_context P le dbError T input policy = Inr ctx"
  obtains i where "i \<in> set (cx_issuers T)" "issuer_row_namespace i = dp_namespace policy"
    "ie_namespace (pc_issuer ctx) = dp_namespace policy"
    "ie_enrollment_status (pc_issuer ctx) = Enrollment_active \<Longrightarrow> it_enrollment_status i = ''active''"
    "\<And>x. x \<in> set (pc_domain_proofs ctx) \<Longrightarrow> \<exists>p \<in> set (cx_domain_proofs T).
       xt_namespace p = dp_namespace policy \<and> dpr_namespace x = xt_namespace p \<and> dpr_domain x = xt_domain p \<and>
       (dpr_verification_status x = Proof_verified \<longrightarrow> xt_verification_status p = ''verified'') \<and>
       dpr_expires_at x = keep_truthy (map_option (iso_string P) (xt_expires_at p))"
proof -
  let ?ns = "dp_namespace policy"
  let ?hits = "filter (\<lambda>i. it_root_program_id i = ns_root_program_id ?ns \<and>
    it_delegated_authority_id i = ns_delegated_authority_id ?ns \<and> it_issuer_id i = ns_issuer_id ?ns) (cx_issuers T)"
  let ?proofs = "sort_by (proof_before le) (filter (\<lambda>p. xt_namespace p = ?ns) (cx_domain_proofs T))"
  have ns: "\<lparr>ns_root_program_id = ns_root_program_id ?ns, ns_delegated_authority_id = ns_delegated_authority_id ?ns,
      ns_issuer_id = ns_issuer_id ?ns\<rparr> = ?ns" by simp
  have sql: "sql_issuer_enrollment dbError (issuerEnrollmentByNamespaceCommand ?ns) T =
      Inr (map enrollment_driver_row (take 1 ?hits))"
    "sql_domain_proofs le dbError (issuerDomainProofsByIssuerCommand ?ns) T = Inr (map proof_driver_row ?proofs)"
    by (simp_all add: ns sql_issuer_enrollment_def issuerEnrollmentByNamespaceCommand_def namespace_values_def
        sql_domain_proofs_def issuerDomainProofsByIssuerCommand_def)
  obtain issuerRow proofRows where
    one: "map_result postgresDestinationPolicyIssuerRowFromRecord (map enrollment_driver_row (take 1 ?hits)) = Inr [issuerRow]"
    and proofs: "map_result (postgresDomainProofRowFromRecord P) (map proof_driver_row ?proofs) = Inr proofRows"
    and ctx: "ctx = \<lparr>pc_issuer = issuerEnrollmentProjectionFromRow issuerRow,
      pc_domain_proofs = map domainProofRecordFromPostgresRow proofRows\<rparr>"
    using assms
    by (auto simp: postgres_context_def resolveDestinationPolicyContext_def Let_def postgres_issuer_enrollment_def
        postgres_domain_proofs_def sql and_then_Inr decodePostgresDestinationPolicyIssuerRows_def
        decodePostgresDomainProofRows_def requireSingleIssuerEnrollment_def split: sum.splits list.splits)
  obtain i where i: "i \<in> set ?hits" "postgresDestinationPolicyIssuerRowFromRecord (enrollment_driver_row i) = Inr issuerRow"
    using map_result_mem [OF one, of issuerRow] by (auto dest: in_set_takeD)
  have namespace: "issuer_row_namespace i = ?ns" using i(1) by (simp add: issuer_row_namespace_def)
  show thesis
  proof (rule that [of i])
    show "i \<in> set (cx_issuers T)" "issuer_row_namespace i = ?ns" using i(1) namespace by auto
    show "ie_namespace (pc_issuer ctx) = ?ns" using decoded_enrollment(1) [OF i(2)] by (simp add: ctx namespace)
    show "it_enrollment_status i = ''active''" if "ie_enrollment_status (pc_issuer ctx) = Enrollment_active"
      using decoded_enrollment(2) [OF i(2)] that by (simp add: ctx)
    fix x assume "x \<in> set (pc_domain_proofs ctx)"
    then obtain row where row: "row \<in> set proofRows" "x = domainProofRecordFromPostgresRow row" by (auto simp: ctx)
    then obtain p where p: "p \<in> set ?proofs" "postgresDomainProofRowFromRecord P (proof_driver_row p) = Inr row"
      using map_result_mem [OF proofs row(1)] by auto
    show "\<exists>p \<in> set (cx_domain_proofs T).
       xt_namespace p = ?ns \<and> dpr_namespace x = xt_namespace p \<and> dpr_domain x = xt_domain p \<and>
       (dpr_verification_status x = Proof_verified \<longrightarrow> xt_verification_status p = ''verified'') \<and>
       dpr_expires_at x = keep_truthy (map_option (iso_string P) (xt_expires_at p))"
      using p(1) decoded_proof [OF p(2)] row(2) by (intro bexI [of _ p]) auto
  qed
qed


text \<open>A host is proved in the tables: by an active issuer and a current proof of its namespace.\<close>

definition host_proved_in_tables ::
  "platform \<Rightarrow> context_tables \<Rightarrow> destination_policy_projection \<Rightarrow> int \<Rightarrow> url \<Rightarrow> bool" where
  "host_proved_in_tables P T policy now u \<longleftrightarrow>
     (\<exists>i \<in> set (cx_issuers T). issuer_row_namespace i = dp_namespace policy \<and> it_enrollment_status i = ''active'') \<and>
     (\<exists>rule \<in> set (dp_approved_destinations policy). \<exists>p \<in> set (cx_domain_proofs T).
        xt_namespace p = dp_namespace policy \<and> xt_verification_status p = ''verified'' \<and>
        proofCoversDestination rule (xt_domain p) (normalizeDomain (hostname u)) \<and>
        (case xt_expires_at p of None \<Rightarrow> True | Some t \<Rightarrow> js_less (iso_string P now) (iso_string P t)))"

lemma host_proved_by_tables:
  assumes ctx: "postgres_context P le dbError T input policy = Inr ctx"
    and iso: "\<forall>t. iso_string P t \<noteq> []"
    and proved: "host_proved P \<lparr>gi_issuer = pc_issuer ctx, gi_destination_policy = policy,
      gi_domain_proofs = pc_domain_proofs ctx, gi_observed_at = now\<rparr> u"
  shows "host_proved_in_tables P T policy now u"
proof (rule context_from_tables [OF ctx])
  fix i
  assume i: "i \<in> set (cx_issuers T)" "issuer_row_namespace i = dp_namespace policy"
    "ie_enrollment_status (pc_issuer ctx) = Enrollment_active \<Longrightarrow> it_enrollment_status i = ''active''"
    and rows: "\<And>x. x \<in> set (pc_domain_proofs ctx) \<Longrightarrow> \<exists>p \<in> set (cx_domain_proofs T).
       xt_namespace p = dp_namespace policy \<and> dpr_namespace x = xt_namespace p \<and> dpr_domain x = xt_domain p \<and>
       (dpr_verification_status x = Proof_verified \<longrightarrow> xt_verification_status p = ''verified'') \<and>
       dpr_expires_at x = keep_truthy (map_option (iso_string P) (xt_expires_at p))"
  obtain rule x where x: "rule \<in> set (dp_approved_destinations policy)" "x \<in> set (pc_domain_proofs ctx)"
    "proofCoversDestination rule (dpr_domain x) (normalizeDomain (hostname u))" "proof_current P x now"
    using proved by (auto simp: host_proved_def)
  obtain p where p: "p \<in> set (cx_domain_proofs T)" "xt_namespace p = dp_namespace policy" "dpr_domain x = xt_domain p"
    "dpr_verification_status x = Proof_verified \<longrightarrow> xt_verification_status p = ''verified''"
    "dpr_expires_at x = keep_truthy (map_option (iso_string P) (xt_expires_at p))" using rows [OF x(2)] by blast
  have "case xt_expires_at p of None \<Rightarrow> True | Some t \<Rightarrow> js_less (iso_string P now) (iso_string P t)"
    using x(4) p(5) iso by (auto simp: proof_current_def keep_truthy_def truthy_str_def split: option.splits if_splits)
  moreover have "xt_verification_status p = ''verified''" using x(4) p(4) by (simp add: proof_current_def)
  moreover have "it_enrollment_status i = ''active''" using i(3) proved by (simp add: host_proved_def)
  ultimately show ?thesis
    unfolding host_proved_in_tables_def using i(1,2) x(1,3) p(1,2,3) by metis
qed


subsection \<open>Properties\<close>

text \<open>
  C40. Over the tables of Postgres, a destination policy is published only when it approves a destination
  and, for each host of each approved destination, the issuer of its namespace has an active row and the
  domain proofs hold a row of that namespace that covers the host, is verified, and has no expiry or one
  after the instant of the publication.
\<close>

theorem policy_published_over_postgres_is_proved:
  assumes "publishPolicyAwareArtifact P (publishArtifact P memory_put memory_publish) (postgres_context P le dbError T)
      input (s, b) = ((s', b'), Done res)"
    and "ap_artifact_type input = ''destination_policy''"
    and "\<forall>t. iso_string P t \<noteq> []"
  shows "\<exists>policy. destinationPolicyProjectionFromArtifactPublicationInput P input = Inr policy \<and>
    dp_approved_destinations policy \<noteq> [] \<and>
    (\<forall>rule \<in> set (dp_approved_destinations policy). \<exists>u. parseExpectedFinalUrl P (dr_expected_final_url rule) = Some u \<and>
       (\<forall>host \<in> set (destinationHostCandidates rule u). \<exists>hu. urlForHost P host (protocol u) = Inr hu \<and>
          host_proved_in_tables P T policy (ap_occurredAt input) hu))"
  using assms(1,2)
proof (rule aware_Done)
  fix policy ctx pinput pres
  assume policy: "destinationPolicyProjectionFromArtifactPublicationInput P input = Inr policy"
    "postgres_context P le dbError T input policy = Inr ctx"
    and pinput: "pinput = \<lparr>pi_issuer = pc_issuer ctx, pi_destination_policy = policy,
       pi_domain_proofs = pc_domain_proofs ctx, pi_artifact_id = ap_artifact_id input,
       pi_version = ap_version input, pi_occurredAt = ap_occurredAt input,
       pi_reason = keep_truthy (ap_reason input)\<rparr>"
    and done': "publishDestinationPolicy P (publishArtifact P memory_put memory_publish) pinput (s, b) =
      ((s', b'), Done pres)"
  let ?g = "\<lparr>gi_issuer = pc_issuer ctx, gi_destination_policy = policy,
      gi_domain_proofs = pc_domain_proofs ctx, gi_observed_at = ap_occurredAt input\<rparr>"
  have "policy_gate_input pinput = ?g" by (simp add: pinput policy_gate_input_def)
  then have "dp_approved_destinations policy \<noteq> []"
    "\<forall>rule \<in> set (dp_approved_destinations policy). rule_proved P ?g rule"
    using publishable_gate_has_domain_control [of P ?g "ps_gate pres"] publish_Done(1,2) [OF done'] by simp_all
  then show ?thesis
    using policy(1) host_proved_by_tables [OF policy(2) assms(3)] unfolding rule_proved_def by metis
qed

definition fx_context_tables :: context_tables where
  "fx_context_tables =
     \<lparr>cx_issuers = [\<lparr>it_root_program_id = ''root:r'', it_delegated_authority_id = ''authority:a'',
        it_issuer_id = ''issuer:i'', it_display_name = ''I'', it_issuer_class = ''c'', it_assurance_tier = ''t'',
        it_assurance_evidence = JNull, it_enrollment_status = ''active''\<rparr>],
      cx_domain_proofs = [\<lparr>xt_domain_proof_id = ''proof:1'', xt_namespace = fx_ns, xt_domain = ''H.x.'',
        xt_proof_method = ''dns_txt'', xt_verification_status = ''verified'', xt_verified_at = None,
        xt_expires_at = None, xt_evidence_ref = None, xt_created_at = 0\<rparr>]\<rparr>"

theorem policy_published_over_postgres_is_proved_witness:
  "\<exists>s b res policy.
     publishPolicyAwareArtifact fx_platform (publishArtifact fx_platform memory_put memory_publish)
       (postgres_context fx_platform js_le (PersistenceError ''db'' (OtherCause JNull)) fx_context_tables)
       fx_policy_work ([], []) = ((s, b), Done res) \<and>
     destinationPolicyProjectionFromArtifactPublicationInput fx_platform fx_policy_work = Inr policy \<and>
     (\<forall>rule \<in> set (dp_approved_destinations policy). \<exists>u.
        parseExpectedFinalUrl fx_platform (dr_expected_final_url rule) = Some u)"
proof -
  let ?run = "publishPolicyAwareArtifact fx_platform (publishArtifact fx_platform memory_put memory_publish)
      (postgres_context fx_platform js_le (PersistenceError ''db'' (OtherCause JNull)) fx_context_tables)
      fx_policy_work ([], [])"
  have "(case snd ?run of Done _ \<Rightarrow> True | _ \<Rightarrow> False)" by code_simp
  then obtain res where "snd ?run = Done res" by (auto split: outcome.splits)
  then obtain s b where run: "?run = ((s, b), Done res)" by (metis prod.collapse)
  have "ap_artifact_type fx_policy_work = ''destination_policy''" "\<forall>t. iso_string fx_platform t \<noteq> []"
    by (simp_all add: fx_policy_work_def fx_platform_def fx_iso_def)
  then show ?thesis
    using policy_published_over_postgres_is_proved [OF run] run by blast
qed

end
