(* ===== verification/PostgresCache.thy ===== *)
theory PostgresCache
  imports GovernanceSource
begin

text \<open>
  The verifier cache on Postgres, \<^verbatim>\<open>network/src/services/postgres-verifier-cache.ts\<close>: the reader, which
  decodes the rows of a verifier into an in-memory cache for each call, the writer with its statements,
  and what the statements do to the table \<^verbatim>\<open>verifier_cache_entries\<close>.
\<close>

subsection \<open>Checks of a row\<close>

definition expected :: "string \<Rightarrow> string \<Rightarrow> string" where
  "expected label what = ''Expected '' @ label @ '' to '' @ what @ ''.''"

definition requireRecord :: "jsval \<Rightarrow> string \<Rightarrow> string + jsval" where
  "requireRecord value label = (if is_record value then Inr value else Inl (expected label ''be an object''))"

definition requireEntryArray :: "jsval \<Rightarrow> string \<Rightarrow> string + jsval list" where
  "requireEntryArray row field =
     (case get_prop row field of JArr xs \<Rightarrow> Inr xs | _ \<Rightarrow> Inl (expected field ''be an array''))"

definition requireEntryString :: "jsval \<Rightarrow> string \<Rightarrow> string + string" where
  "requireEntryString value field =
     (case value of
        JStr s \<Rightarrow> if length s > 0 then Inr s else Inl (expected field ''be a non-empty string'')
      | _ \<Rightarrow> Inl (expected field ''be a non-empty string''))"

definition requireEntryHttpsUrl :: "platform \<Rightarrow> jsval \<Rightarrow> string \<Rightarrow> string + string" where
  "requireEntryHttpsUrl P value field =
     (let rawValue = (case value of JStr s \<Rightarrow> js_trim s | _ \<Rightarrow> [])
      in if rawValue = [] then Inl (expected field ''be a non-empty string'')
         else case new_url P rawValue of
           None \<Rightarrow> Inl (expected field ''be a valid URL'')
         | Some u \<Rightarrow>
             if protocol u \<noteq> ''https:'' then Inl (expected field ''use https'')
             else if username u \<noteq> [] \<or> password u \<noteq> [] then Inl (expected field ''omit credentials'')
             else Inr rawValue)"

definition requireEntryHostname :: "jsval \<Rightarrow> string \<Rightarrow> string + string" where
  "requireEntryHostname value field =
     (let host = (case value of JStr s \<Rightarrow> js_lower (drop_trailing_dot (js_trim s)) | _ \<Rightarrow> [])
      in if length host = 0 \<or> length host > 253 \<or> sublist ''://'' host \<or> CHR ''/'' \<in> set host \<or>
            CHR '':'' \<in> set host \<or> list_ex is_js_space host then Inl (expected field ''be a DNS hostname'')
         else if list_ex (\<lambda>part. \<not> is_dns_label part) (js_split CHR ''.'' host) then
           Inl (expected field ''be a DNS hostname'')
         else Inr host)"

definition requireEntryPathPrefix :: "jsval \<Rightarrow> string \<Rightarrow> string + string" where
  "requireEntryPathPrefix value field =
     (let pathPrefix = (case value of JStr s \<Rightarrow> js_trim s | _ \<Rightarrow> [])
      in if \<not> prefix ''/'' pathPrefix then Inl (expected field ''start with /'') else Inr pathPrefix)"

definition requireEntryLiteral :: "jsval \<Rightarrow> string \<Rightarrow> string list \<Rightarrow> string + string" where
  "requireEntryLiteral row field allowed =
     (let value = get_prop row field
      in if value \<in> set (map JStr allowed) then Inr (str_of value)
         else Inl (expected field (''be one of: '' @ js_join '', '' allowed)))"

definition requireEntryStrings :: "jsval \<Rightarrow> string \<Rightarrow> string + string list" where
  "requireEntryStrings row field =
     and_then (requireEntryArray row field) (\<lambda>value.
       if list_all is_str value then Inr (map str_of value) else Inl (expected field ''contain only strings''))"

definition optionalEntryStrings :: "jsval \<Rightarrow> string \<Rightarrow> string + string list option" where
  "optionalEntryStrings row field =
     (if get_prop row field = JUndefined then Inr None
      else and_then (requireEntryStrings row field) (\<lambda>ss. Inr (Some ss)))"

definition requireEntryBoolean :: "jsval \<Rightarrow> string \<Rightarrow> string + bool" where
  "requireEntryBoolean row field =
     (case get_prop row field of JBool b \<Rightarrow> Inr b | _ \<Rightarrow> Inl (expected field ''be a boolean''))"

definition requireEntryNumber :: "jsval \<Rightarrow> string \<Rightarrow> string + rat" where
  "requireEntryNumber row field =
     (case get_prop row field of JNum (Fin q) \<Rightarrow> Inr q | _ \<Rightarrow> Inl (expected field ''be a finite number''))"

definition requireEntryNonNegativeInteger :: "jsval \<Rightarrow> string \<Rightarrow> string + int" where
  "requireEntryNonNegativeInteger row field =
     and_then (requireEntryNumber row field) (\<lambda>q.
       if snd (quotient_of q) = 1 \<and> q \<ge> 0 then Inr (fst (quotient_of q))
       else Inl (expected field ''be a non-negative integer''))"

definition isoTimestampField :: "platform \<Rightarrow> driver_row \<Rightarrow> string \<Rightarrow> string + string" where
  "isoTimestampField P row field =
     (let date = (case map_of row field of
                    Some (Timestamp t) \<Rightarrow> Some t
                  | Some (Column (JStr s)) \<Rightarrow> date_parse P s
                  | _ \<Rightarrow> None)
      in case date of None \<Rightarrow> Inl (expected field ''be a timestamp'') | Some t \<Rightarrow> Inr (iso_string P t))"


subsection \<open>Decoding an entry\<close>

definition isPlaceholderIssuerProjection :: "jsval \<Rightarrow> bool" where
  "isPlaceholderIssuerProjection issuerProjection \<longleftrightarrow>
     get_prop issuerProjection ''placeholder'' = JBool True \<or>
     get_prop issuerProjection ''projection_kind'' = JStr ''placeholder''"

definition authorityContextAllowsResolution :: "jsval \<Rightarrow> bool" where
  "authorityContextAllowsResolution projection =
     (let authorityContext = get_prop projection ''authority_context''
      in is_record authorityContext \<and>
         get_prop authorityContext ''root_manifest_authorizes_authority'' = JBool True \<and>
         get_prop authorityContext ''delegated_authority_authorizes_issuer'' = JBool True)"

definition decodeApprovedDestination :: "platform \<Rightarrow> nat \<times> jsval \<Rightarrow> string + destination_policy_rule" where
  "decodeApprovedDestination P iv =
     and_then (requireRecord (snd iv) (''approved_destinations['' @ nat_string (fst iv) @ '']'')) (\<lambda>entry.
     and_then (optionalEntryStrings entry ''allowed_query_keys'') (\<lambda>allowedQueryKeys.
     and_then (requireEntryString (get_prop entry ''destination_id'') ''destination_id'') (\<lambda>destinationId.
     and_then (requireEntryHttpsUrl P (get_prop entry ''expected_final_url'') ''expected_final_url'') (\<lambda>url.
     and_then (requireEntryStrings entry ''allowed_hosts'') (\<lambda>hosts.
     and_then (map_result (\<lambda>h. requireEntryHostname (JStr h) ''allowed_hosts[]'') hosts) (\<lambda>allowedHosts.
     and_then (requireEntryBoolean entry ''allow_subdomains'') (\<lambda>allowSubdomains.
     and_then (requireEntryStrings entry ''path_prefixes'') (\<lambda>paths.
     and_then (map_result (\<lambda>p. requireEntryPathPrefix (JStr p) ''path_prefixes[]'') paths) (\<lambda>pathPrefixes.
     and_then (requireEntryLiteral entry ''query_policy'' [''none'', ''allow_known_payment_query'']) (\<lambda>queryPolicy.
       Inr \<lparr>dr_destination_id = destinationId, dr_expected_final_url = url, dr_allowed_hosts = allowedHosts,
            dr_allow_subdomains = allowSubdomains, dr_path_prefixes = pathPrefixes,
            dr_query_policy = queryPolicy, dr_allowed_query_keys = allowedQueryKeys\<rparr>))))))))))"

definition decodeApprovedDestinations :: "platform \<Rightarrow> jsval list \<Rightarrow> string + destination_policy_rule list" where
  "decodeApprovedDestinations P values = map_result (decodeApprovedDestination P) (enumerate 0 values)"

definition decodeRedirectPolicy :: "platform \<Rightarrow> jsval \<Rightarrow> string + redirect_policy_projection" where
  "decodeRedirectPolicy P entry =
     (let urls = (\<lambda>field label. and_then (requireEntryStrings entry field)
                    (map_result (\<lambda>u. requireEntryHttpsUrl P (JStr u) label)))
      in and_then (urls ''resolver_urls'' ''resolver_urls[]'') (\<lambda>resolverUrls.
         and_then (urls ''expected_final_destinations'' ''expected_final_destinations[]'') (\<lambda>finals.
         and_then (requireEntryStrings entry ''allowed_redirect_hosts'') (\<lambda>hosts.
         and_then (map_result (\<lambda>h. requireEntryHostname (JStr h) ''allowed_redirect_hosts[]'') hosts)
           (\<lambda>redirectHosts.
         and_then (requireEntryNonNegativeInteger entry ''max_redirect_hops'') (\<lambda>hops.
         and_then (requireEntryBoolean entry ''nested_shorteners_allowed'') (\<lambda>nested.
         and_then (requireEntryBoolean entry ''scanner_must_display_resolver_and_final_destination'') (\<lambda>display.
           Inr \<lparr>rp_resolver_urls = resolverUrls, rp_expected_final_destinations = finals,
                rp_allowed_redirect_hosts = redirectHosts, rp_max_redirect_hops = hops,
                rp_nested_shorteners_allowed = nested,
                rp_scanner_must_display_resolver_and_final_destination = display\<rparr>))))))))"

type_synonym cache_entry = "issuer_projection \<times> destination_policy_projection"

definition decodeVerifierCacheEntryRow :: "platform \<Rightarrow> driver_row \<Rightarrow> string + cache_entry option" where
  "decodeVerifierCacheEntryRow P row =
     (let column = (\<lambda>field. requireEntryString (field_value row field) field) in
      and_then (column ''root_program_id'') (\<lambda>rootProgramId.
      and_then (column ''delegated_authority_id'') (\<lambda>authorityId.
      and_then (column ''issuer_id'') (\<lambda>issuerId.
      and_then (requireRecord (field_value row ''scanner_trust_projection'') ''scanner_trust_projection'')
        (\<lambda>projection.
      if \<not> authorityContextAllowsResolution projection then Inr None else
      and_then (requireRecord (get_prop projection ''issuer'') ''issuer'') (\<lambda>issuerProjection.
      if isPlaceholderIssuerProjection issuerProjection then Inr None else
      and_then (requireRecord (get_prop projection ''destination_policy'') ''destination_policy'')
        (\<lambda>policyProjection.
      and_then (requireEntryArray policyProjection ''approved_destinations'') (\<lambda>destinations.
      and_then (decodeApprovedDestinations P destinations) (\<lambda>approvedDestinations.
      and_then (isoTimestampField P row ''cache_generated_at'') (\<lambda>generatedAt.
      and_then (isoTimestampField P row ''cache_expires_at'') (\<lambda>expiresAt.
      and_then (column ''destination_policy_id'') (\<lambda>policyId.
      and_then (requireEntryString (get_prop issuerProjection ''display_name'') ''display_name'') (\<lambda>displayName.
      and_then (requireEntryString (get_prop issuerProjection ''assurance_tier'') ''assurance_tier'') (\<lambda>tier.
      and_then (requireRecord (get_prop policyProjection ''redirect_policy'') ''redirect_policy'')
        (\<lambda>redirectRecord.
      and_then (decodeRedirectPolicy P redirectRecord) (\<lambda>redirectPolicy.
        (let ns = \<lparr>ns_root_program_id = rootProgramId, ns_delegated_authority_id = authorityId,
               ns_issuer_id = issuerId\<rparr>;
             allowedHosts = js_unique (concat (map dr_allowed_hosts approvedDestinations))
         in Inr (Some
           (\<lparr>ip_namespace = ns, ip_issuer_display_name = displayName, ip_assurance_tier = tier,
             ip_destination_policy_id = policyId, ip_allowed_hosts = allowedHosts,
             ip_cache_generated_at = generatedAt, ip_cache_expires_at = expiresAt\<rparr>,
            \<lparr>dp_namespace = ns, dp_destination_policy_id = policyId,
             dp_approved_destinations = approvedDestinations, dp_redirect_policy = redirectPolicy,
             dp_allowed_hosts = allowedHosts,
             dp_allow_subdomains = list_ex dr_allow_subdomains approvedDestinations,
             dp_cache_generated_at = generatedAt, dp_cache_expires_at = expiresAt\<rparr>)))))))))))))))))))"


subsection \<open>The reader\<close>

record postgres_cache_options =
  pco_verifier_id :: string
  pco_accepted_root_program_ids :: "string list option"

text \<open>
  A client takes a statement and its values; what it throws is already the typed error of its caller. The
  statement of the reader has no name in the source.
\<close>

type_synonym 'k cache_query = "sql_command \<Rightarrow> ('k, driver_row list) call"

definition load_command :: "postgres_cache_options \<Rightarrow> sql_command" where
  "load_command options =
     \<lparr>sc_name = ''verifier_cache_entries.load'', sc_values = [SText (pco_verifier_id options)]\<rparr>"

definition loadCache ::
  "platform \<Rightarrow> 'k cache_query \<Rightarrow> postgres_cache_options \<Rightarrow> ('k, verifier_cache) call" where
  "loadCache P query options k =
     (case query (load_command options) k of
        (k', Inl e) \<Rightarrow> (k', Inl e)
      | (k', Inr rows) \<Rightarrow>
          (k', map_error (\<lambda>cause. PersistenceError ''Postgres verifier-cache read failed.'' (OtherCause (JStr cause)))
            (and_then (map_result (decodeVerifierCacheEntryRow P) rows) (\<lambda>decoded.
               (let entries = concat (map (\<lambda>e. case e of None \<Rightarrow> [] | Some x \<Rightarrow> [x]) decoded)
                in Inr (makeInMemoryVerifierCache (map fst entries) (map snd entries)
                    (makeAcceptedRootPolicy (case pco_accepted_root_program_ids options of
                       None \<Rightarrow> [] | Some ids \<Rightarrow> ids))))))))"

definition emptyVerifierCache :: verifier_cache where
  "emptyVerifierCache = makeInMemoryVerifierCache [] [] acceptAllRootsPolicy"

definition loadCacheOrMiss ::
  "platform \<Rightarrow> 'k cache_query \<Rightarrow> postgres_cache_options \<Rightarrow> 'k \<Rightarrow> 'k \<times> verifier_cache" where
  "loadCacheOrMiss P query options k =
     (case loadCache P query options k of
        (k', Inl _) \<Rightarrow> (k', emptyVerifierCache) | (k', Inr cache) \<Rightarrow> (k', cache))"

definition postgres_resolveByHost ::
  "platform \<Rightarrow> 'k cache_query \<Rightarrow> postgres_cache_options \<Rightarrow> string \<Rightarrow> 'k \<Rightarrow> 'k \<times> issuer_projection option" where
  "postgres_resolveByHost P query options host k =
     (let (k', cache) = loadCacheOrMiss P query options k in (k', resolveByHost cache host))"

definition postgres_resolveByDestination ::
  "platform \<Rightarrow> 'k cache_query \<Rightarrow> postgres_cache_options \<Rightarrow> url \<Rightarrow> string option \<Rightarrow> 'k \<Rightarrow>
     'k \<times> destination_resolution option" where
  "postgres_resolveByDestination P query options destinationUrl issuerHintHost k =
     (let (k', cache) = loadCacheOrMiss P query options k
      in (k', resolveByDestination P cache destinationUrl issuerHintHost))"


subsection \<open>The statements of the writer\<close>

definition fallbackIssuerProjection :: "destination_policy_projection \<Rightarrow> jsval" where
  "fallbackIssuerProjection projection = JObj
     [(''namespace'', namespace_json (dp_namespace projection)),
      (''projection_kind'', JStr ''placeholder''), (''placeholder'', JBool True),
      (''display_name'', JStr (ns_issuer_id (dp_namespace projection))),
      (''assurance_tier'', JStr ''source_of_truth_destination_policy'')]"

definition emptyDestinationPolicyProjection :: "string \<Rightarrow> jsval" where
  "emptyDestinationPolicyProjection destinationPolicyId = JObj
     [(''destination_policy_id'', JStr destinationPolicyId),
      (''approved_destinations'', JArr []),
      (''redirect_policy'', JObj
        [(''resolver_urls'', JArr []), (''expected_final_destinations'', JArr []),
         (''allowed_redirect_hosts'', JArr []), (''max_redirect_hops'', int_json 0),
         (''nested_shorteners_allowed'', JBool False),
         (''scanner_must_display_resolver_and_final_destination'', JBool True)])]"

definition entry_key_values :: "postgres_cache_options \<Rightarrow> issuer_namespace \<Rightarrow> sql_value list" where
  "entry_key_values options ns =
     [SText (pco_verifier_id options), SText (ns_root_program_id ns), SText (ns_delegated_authority_id ns),
      SText (ns_issuer_id ns)]"

definition upsertVerifierCacheDestinationPolicyCommand ::
  "postgres_cache_options \<Rightarrow> destination_policy_projection \<Rightarrow> jsval \<Rightarrow> sql_command" where
  "upsertVerifierCacheDestinationPolicyCommand options projection authorityContext =
     \<lparr>sc_name = ''verifier_cache_entries.upsert_destination_policy'',
      sc_values = entry_key_values options (dp_namespace projection) @
        [SText (dp_destination_policy_id projection),
         SJson (JObj
           [(''authority_context'', authorityContext),
            (''issuer'', fallbackIssuerProjection projection),
            (''destination_policy'', JObj
              [(''destination_policy_id'', JStr (dp_destination_policy_id projection)),
               (''approved_destinations'', JArr (map rule_json (dp_approved_destinations projection))),
               (''redirect_policy'', redirect_json (dp_redirect_policy projection))])]),
         SText (dp_cache_generated_at projection), SText (dp_cache_expires_at projection)]\<rparr>"

definition upsertVerifierCacheIssuerCommand ::
  "postgres_cache_options \<Rightarrow> issuer_projection \<Rightarrow> jsval \<Rightarrow> sql_command" where
  "upsertVerifierCacheIssuerCommand options projection authorityContext =
     \<lparr>sc_name = ''verifier_cache_entries.upsert_issuer_projection'',
      sc_values = entry_key_values options (ip_namespace projection) @
        [SText (ip_destination_policy_id projection),
         SJson (JObj
           [(''authority_context'', authorityContext),
            (''issuer'', JObj
              [(''namespace'', namespace_json (ip_namespace projection)),
               (''display_name'', JStr (ip_issuer_display_name projection)),
               (''assurance_tier'', JStr (ip_assurance_tier projection))]),
            (''destination_policy'', emptyDestinationPolicyProjection (ip_destination_policy_id projection))]),
         SText (ip_cache_generated_at projection), SText (ip_cache_expires_at projection)]\<rparr>"

definition upsertVerifierCacheRootAuthorityContextCommand ::
  "postgres_cache_options \<Rightarrow> root_authority_context \<Rightarrow> sql_command" where
  "upsertVerifierCacheRootAuthorityContextCommand options ctx =
     \<lparr>sc_name = ''verifier_cache_entries.upsert_root_authority_context'',
      sc_values = [SText (pco_verifier_id options), SText (rac_root_program_id ctx),
        STexts (rac_active_delegated_authority_ids ctx)]\<rparr>"

definition upsertVerifierCacheDelegatedAuthorityIssuerContextCommand ::
  "postgres_cache_options \<Rightarrow> delegated_authority_issuer_context \<Rightarrow> sql_command" where
  "upsertVerifierCacheDelegatedAuthorityIssuerContextCommand options ctx =
     \<lparr>sc_name = ''verifier_cache_entries.upsert_delegated_authority_issuer_context'',
      sc_values = [SText (pco_verifier_id options), SText (daic_root_program_id ctx),
        SText (daic_delegated_authority_id ctx), STexts (daic_active_issuer_ids ctx)]\<rparr>"

definition updateVerifierCacheIssuerAssuranceTierCommand ::
  "postgres_cache_options \<Rightarrow> issuer_namespace \<Rightarrow> string \<Rightarrow> sql_command" where
  "updateVerifierCacheIssuerAssuranceTierCommand options ns tier =
     \<lparr>sc_name = ''verifier_cache_entries.update_issuer_assurance_tier'',
      sc_values = entry_key_values options ns @ [SText tier]\<rparr>"

definition deleteVerifierCacheIssuerCommand :: "postgres_cache_options \<Rightarrow> issuer_namespace \<Rightarrow> sql_command" where
  "deleteVerifierCacheIssuerCommand options ns =
     \<lparr>sc_name = ''verifier_cache_entries.delete_issuer'', sc_values = entry_key_values options ns\<rparr>"

definition deleteVerifierCacheDestinationPolicyCommand ::
  "postgres_cache_options \<Rightarrow> issuer_namespace \<Rightarrow> string \<Rightarrow> sql_command" where
  "deleteVerifierCacheDestinationPolicyCommand options ns policyId =
     \<lparr>sc_name = ''verifier_cache_entries.delete_destination_policy'',
      sc_values = entry_key_values options ns @ [SText policyId]\<rparr>"

definition deleteVerifierCacheDelegatedAuthorityCommand ::
  "postgres_cache_options \<Rightarrow> delegated_authority_key \<Rightarrow> sql_command" where
  "deleteVerifierCacheDelegatedAuthorityCommand options key =
     \<lparr>sc_name = ''verifier_cache_entries.delete_delegated_authority'',
      sc_values = [SText (pco_verifier_id options), SText (dak_root_program_id key),
        SText (dak_delegated_authority_id key)]\<rparr>"


subsection \<open>The writer\<close>

text \<open>The two maps of the closure and the state of the database.\<close>

record writer_contexts =
  wc_activeDelegatedAuthoritiesByRoot :: "(string \<times> string list) list"
  wc_activeIssuersByAuthority :: "(string \<times> string list) list"

definition authorityContextKey :: "string \<Rightarrow> string \<Rightarrow> string" where
  "authorityContextKey rootProgramId delegatedAuthorityId =
     js_join unit_separator [rootProgramId, delegatedAuthorityId]"

definition recordRootAuthorityContext :: "root_authority_context \<Rightarrow> writer_contexts \<Rightarrow> writer_contexts" where
  "recordRootAuthorityContext ctx w =
     w\<lparr>wc_activeDelegatedAuthoritiesByRoot :=
         js_map_set (rac_root_program_id ctx) (js_unique (rac_active_delegated_authority_ids ctx))
           (wc_activeDelegatedAuthoritiesByRoot w)\<rparr>"

definition recordDelegatedAuthorityIssuerContext ::
  "delegated_authority_issuer_context \<Rightarrow> writer_contexts \<Rightarrow> writer_contexts" where
  "recordDelegatedAuthorityIssuerContext ctx w =
     w\<lparr>wc_activeIssuersByAuthority :=
         js_map_set (authorityContextKey (daic_root_program_id ctx) (daic_delegated_authority_id ctx))
           (js_unique (daic_active_issuer_ids ctx)) (wc_activeIssuersByAuthority w)\<rparr>"

definition forgetDelegatedAuthority :: "delegated_authority_key \<Rightarrow> writer_contexts \<Rightarrow> writer_contexts" where
  "forgetDelegatedAuthority key w =
     (let byRoot = wc_activeDelegatedAuthoritiesByRoot w
      in w\<lparr>wc_activeDelegatedAuthoritiesByRoot :=
             (case map_of byRoot (dak_root_program_id key) of
                None \<Rightarrow> byRoot
              | Some xs \<Rightarrow> js_map_set (dak_root_program_id key)
                  (filter (\<lambda>a. a \<noteq> dak_delegated_authority_id key) xs) byRoot),
           wc_activeIssuersByAuthority :=
             js_map_delete (authorityContextKey (dak_root_program_id key) (dak_delegated_authority_id key))
               (wc_activeIssuersByAuthority w)\<rparr>)"

definition authorityContextProjection :: "writer_contexts \<Rightarrow> issuer_namespace \<Rightarrow> jsval" where
  "authorityContextProjection w ns =
     (let has = (\<lambda>m k x. case map_of m k of None \<Rightarrow> False | Some xs \<Rightarrow> x \<in> set xs)
      in JObj
       [(''root_manifest_authorizes_authority'',
           JBool (has (wc_activeDelegatedAuthoritiesByRoot w) (ns_root_program_id ns)
             (ns_delegated_authority_id ns))),
        (''delegated_authority_authorizes_issuer'',
           JBool (has (wc_activeIssuersByAuthority w)
             (authorityContextKey (ns_root_program_id ns) (ns_delegated_authority_id ns)) (ns_issuer_id ns)))])"

definition execute_as ::
  "'k cache_query \<Rightarrow> sql_command \<Rightarrow> 'a \<Rightarrow> writer_contexts \<times> 'k \<Rightarrow> (writer_contexts \<times> 'k) \<times> (net_error + 'a)"
where
  "execute_as query command result st =
     (let (w, k) = st; (k', r) = query command k
      in ((w, k'), case r of Inl e \<Rightarrow> Inl e | Inr _ \<Rightarrow> Inr result))"

definition verifierCacheCommandReturnedRows ::
  "'k cache_query \<Rightarrow> sql_command \<Rightarrow> writer_contexts \<times> 'k \<Rightarrow> (writer_contexts \<times> 'k) \<times> (net_error + bool)" where
  "verifierCacheCommandReturnedRows query command st =
     (let (w, k) = st; (k', r) = query command k
      in ((w, k'), case r of Inl e \<Rightarrow> Inl e | Inr rows \<Rightarrow> Inr (length rows > 0)))"

definition pg_upsertIssuer where
  "pg_upsertIssuer query options projection st =
     execute_as query (upsertVerifierCacheIssuerCommand options projection
       (authorityContextProjection (fst st) (ip_namespace projection))) projection st"

definition pg_upsertDestinationPolicy where
  "pg_upsertDestinationPolicy query options projection st =
     execute_as query (upsertVerifierCacheDestinationPolicyCommand options projection
       (authorityContextProjection (fst st) (dp_namespace projection))) projection st"

definition pg_upsertRootAuthorityContext where
  "pg_upsertRootAuthorityContext query options ctx st =
     execute_as query (upsertVerifierCacheRootAuthorityContextCommand options ctx) ()
       (recordRootAuthorityContext ctx (fst st), snd st)"

definition pg_upsertDelegatedAuthorityIssuerContext where
  "pg_upsertDelegatedAuthorityIssuerContext query options ctx st =
     execute_as query (upsertVerifierCacheDelegatedAuthorityIssuerContextCommand options ctx) ()
       (recordDelegatedAuthorityIssuerContext ctx (fst st), snd st)"

definition pg_updateIssuerAssuranceTier where
  "pg_updateIssuerAssuranceTier query options ns tier st =
     verifierCacheCommandReturnedRows query (updateVerifierCacheIssuerAssuranceTierCommand options ns tier) st"

definition pg_removeIssuer where
  "pg_removeIssuer query options ns st =
     verifierCacheCommandReturnedRows query (deleteVerifierCacheIssuerCommand options ns) st"

definition pg_removeDestinationPolicy where
  "pg_removeDestinationPolicy query options ns policyId st =
     verifierCacheCommandReturnedRows query (deleteVerifierCacheDestinationPolicyCommand options ns policyId) st"

definition pg_removeDestinationPoliciesForIssuer where
  "pg_removeDestinationPoliciesForIssuer query options ns st =
     verifierCacheCommandReturnedRows query (deleteVerifierCacheIssuerCommand options ns) st"

definition pg_removeDelegatedAuthority where
  "pg_removeDelegatedAuthority query options key st =
     verifierCacheCommandReturnedRows query (deleteVerifierCacheDelegatedAuthorityCommand options key)
       (forgetDelegatedAuthority key (fst st), snd st)"

text \<open>A call of the writer, with its result left out, and a history of calls.\<close>

fun pg_step :: "'k cache_query \<Rightarrow> postgres_cache_options \<Rightarrow> cache_op \<Rightarrow> writer_contexts \<times> 'k \<Rightarrow> writer_contexts \<times> 'k"
where
  "pg_step q o' (OpUpsertIssuer p) st = fst (pg_upsertIssuer q o' p st)"
| "pg_step q o' (OpUpsertDestinationPolicy p) st = fst (pg_upsertDestinationPolicy q o' p st)"
| "pg_step q o' (OpUpsertRootAuthorityContext c) st = fst (pg_upsertRootAuthorityContext q o' c st)"
| "pg_step q o' (OpUpsertDelegatedAuthorityIssuerContext c) st =
     fst (pg_upsertDelegatedAuthorityIssuerContext q o' c st)"
| "pg_step q o' (OpUpdateIssuerAssuranceTier ns t) st = fst (pg_updateIssuerAssuranceTier q o' ns t st)"
| "pg_step q o' (OpRemoveIssuer ns) st = fst (pg_removeIssuer q o' ns st)"
| "pg_step q o' (OpRemoveDestinationPolicy ns i) st = fst (pg_removeDestinationPolicy q o' ns i st)"
| "pg_step q o' (OpRemoveDestinationPoliciesForIssuer ns) st =
     fst (pg_removeDestinationPoliciesForIssuer q o' ns st)"
| "pg_step q o' (OpRemoveDelegatedAuthority k) st = fst (pg_removeDelegatedAuthority q o' k st)"

definition pg_run ::
  "'k cache_query \<Rightarrow> postgres_cache_options \<Rightarrow> cache_op list \<Rightarrow> writer_contexts \<times> 'k \<Rightarrow> writer_contexts \<times> 'k" where
  "pg_run query options ops st = fold (pg_step query options) ops st"

end
