(* ===== verification/PostgresCacheTable.thy ===== *)
theory PostgresCacheTable
  imports PostgresCache
begin

text \<open>
  What the statements of \<^verbatim>\<open>network/src/services/postgres-verifier-cache.ts\<close>, and the entry statement of
  \<^verbatim>\<open>postgres-persistence.ts\<close>, do to the table of
  \<^verbatim>\<open>docs/public/network-contracts/reference-postgres-schema.sql\<close>.
\<close>

subsection \<open>Tables\<close>

text \<open>The projection column holds an object: every statement writes one.\<close>

record cache_row =
  vc_verifier_id :: string
  vc_namespace :: issuer_namespace
  vc_destination_policy_id :: string
  vc_source_artifact_hashes :: "string list"
  vc_projection :: "(string \<times> jsval) list"
  vc_generated_at :: int
  vc_expires_at :: int
  vc_freshness_status :: string
  vc_created_at :: int

record published_row =
  pa_artifact_type :: string
  pa_root_program_id :: string
  pa_delegated_authority_id :: "string option"
  pa_canonical_json :: jsval
  pa_publication_status :: string

record cache_db =
  cd_entries :: "cache_row list"
  cd_artifacts :: "published_row list"

text \<open>
  The engine: the reading of a timestamp text, the text of a JSON number, array or object, the foreign
  key of the table to the policies, and the error of a statement.
\<close>

record postgres_engine =
  en_timestamptz :: "string \<Rightarrow> int option"
  en_json_text :: "jsval \<Rightarrow> string"
  en_admits :: "issuer_namespace \<Rightarrow> string \<Rightarrow> bool"
  en_error :: net_error


subsection \<open>JSON operators\<close>

text \<open>\<^verbatim>\<open>v->>'k'\<close>, \<^verbatim>\<open>a || b\<close> and \<^verbatim>\<open>coalesce(v->'k', w)\<close>.\<close>

definition arrow_text :: "postgres_engine \<Rightarrow> jsval \<Rightarrow> string \<Rightarrow> string option" where
  "arrow_text E v k =
     (case get_prop v k of
        JUndefined \<Rightarrow> None
      | JNull \<Rightarrow> None
      | JStr s \<Rightarrow> Some s
      | JBool b \<Rightarrow> Some (if b then ''true'' else ''false'')
      | w \<Rightarrow> Some (en_json_text E w))"

fun json_list :: "jsval \<Rightarrow> jsval list" where
  "json_list (JArr xs) = xs"
| "json_list v = [v]"

definition jsonb_concat :: "jsval \<Rightarrow> jsval \<Rightarrow> jsval" where
  "jsonb_concat a b =
     (case (a, b) of
        (JObj xs, JObj ys) \<Rightarrow> JObj (fold (\<lambda>(k, v). js_map_set k v) ys xs)
      | _ \<Rightarrow> JArr (json_list a @ json_list b))"

definition coalesce_prop :: "(string \<times> jsval) list \<Rightarrow> string \<Rightarrow> jsval \<Rightarrow> jsval" where
  "coalesce_prop kvs k w = (case map_of kvs k of None \<Rightarrow> w | Some v \<Rightarrow> v)"


subsection \<open>The durable authority context\<close>

text \<open>
  Whether a manifest lists an id as active; \<open>None\<close> when its list is not an array, which fails the
  statement.
\<close>

definition lists_active :: "postgres_engine \<Rightarrow> string \<Rightarrow> string \<Rightarrow> string \<Rightarrow> jsval \<Rightarrow> bool option" where
  "lists_active E field idField i manifest =
     (case get_prop manifest field of
        JUndefined \<Rightarrow> Some False
      | JArr xs \<Rightarrow> Some (list_ex (\<lambda>x. arrow_text E x idField = Some i \<and> arrow_text E x ''status'' = Some ''active'') xs)
      | _ \<Rightarrow> None)"

definition exists_listing :: "('a \<Rightarrow> bool option) \<Rightarrow> 'a list \<Rightarrow> bool option" where
  "exists_listing f xs =
     (if None \<in> set (map f xs) then None else Some (list_ex (\<lambda>x. f x = Some True) xs))"

definition published_manifests :: "string \<Rightarrow> string \<Rightarrow> cache_db \<Rightarrow> published_row list" where
  "published_manifests artifactType rootProgramId db =
     filter (\<lambda>a. pa_root_program_id a = rootProgramId \<and> pa_artifact_type a = artifactType \<and>
       pa_publication_status a = ''published'') (cd_artifacts db)"

definition root_authorizes :: "postgres_engine \<Rightarrow> cache_db \<Rightarrow> issuer_namespace \<Rightarrow> bool option" where
  "root_authorizes E db ns =
     exists_listing (\<lambda>a. lists_active E ''delegated_authorities'' ''delegated_authority_id''
         (ns_delegated_authority_id ns) (pa_canonical_json a))
       (published_manifests ''root_manifest'' (ns_root_program_id ns) db)"

definition authority_authorizes :: "postgres_engine \<Rightarrow> cache_db \<Rightarrow> issuer_namespace \<Rightarrow> bool option" where
  "authority_authorizes E db ns =
     exists_listing (\<lambda>a. lists_active E ''enrolled_issuers'' ''issuer_id'' (ns_issuer_id ns) (pa_canonical_json a))
       (filter (\<lambda>a. pa_delegated_authority_id a = Some (ns_delegated_authority_id ns))
         (published_manifests ''delegated_authority_manifest'' (ns_root_program_id ns) db))"

definition durableAuthorityContextSql :: "postgres_engine \<Rightarrow> cache_db \<Rightarrow> issuer_namespace \<Rightarrow> jsval option" where
  "durableAuthorityContextSql E db ns =
     (case (root_authorizes E db ns, authority_authorizes E db ns) of
        (Some r, Some a) \<Rightarrow> Some (JObj
          [(''authority_context'', JObj
             [(''root_manifest_authorizes_authority'', JBool r),
              (''delegated_authority_authorizes_issuer'', JBool a)])])
      | _ \<Rightarrow> None)"


subsection \<open>Rows and their changes\<close>

definition entry_is :: "string \<Rightarrow> issuer_namespace \<Rightarrow> string \<Rightarrow> cache_row \<Rightarrow> bool" where
  "entry_is verifierId ns policyId r \<longleftrightarrow>
     vc_verifier_id r = verifierId \<and> vc_namespace r = ns \<and> vc_destination_policy_id r = policyId"

text \<open>\<^verbatim>\<open>insert ... on conflict do update\<close> on the primary key.\<close>

definition upsert_entry :: "(cache_row \<Rightarrow> cache_row \<Rightarrow> cache_row) \<Rightarrow> cache_row \<Rightarrow> cache_row list \<Rightarrow> cache_row list" where
  "upsert_entry merge excluded rows =
     (let hit = entry_is (vc_verifier_id excluded) (vc_namespace excluded) (vc_destination_policy_id excluded)
      in if list_ex hit rows then map (\<lambda>r. if hit r then merge r excluded else r) rows
         else rows @ [excluded])"

text \<open>The merges of the two projections: context and freshness bounds, and the one part each replaces.\<close>

definition merge_bounds :: "cache_row \<Rightarrow> cache_row \<Rightarrow> cache_row" where
  "merge_bounds r excluded =
     r\<lparr>vc_generated_at := max (vc_generated_at r) (vc_generated_at excluded),
       vc_expires_at := min (vc_expires_at r) (vc_expires_at excluded),
       vc_freshness_status := vc_freshness_status excluded\<rparr>"

definition jsonb_set :: "string \<Rightarrow> jsval \<Rightarrow> (string \<times> jsval) list \<Rightarrow> (string \<times> jsval) list" where
  "jsonb_set k v kvs = js_map_set k v kvs"

definition merge_policy :: "cache_row \<Rightarrow> cache_row \<Rightarrow> cache_row" where
  "merge_policy r excluded =
     (let part = get_prop (JObj (vc_projection excluded)); old = vc_projection r
      in (merge_bounds r excluded)\<lparr>vc_projection :=
           jsonb_set ''destination_policy'' (part ''destination_policy'')
             (jsonb_set ''issuer'' (coalesce_prop old ''issuer'' (part ''issuer''))
               (jsonb_set ''authority_context'' (part ''authority_context'') old))\<rparr>)"

definition merge_issuer :: "cache_row \<Rightarrow> cache_row \<Rightarrow> cache_row" where
  "merge_issuer r excluded =
     (let part = get_prop (JObj (vc_projection excluded)); old = vc_projection r
      in (merge_bounds r excluded)\<lparr>vc_projection :=
           jsonb_set ''issuer'' (part ''issuer'')
             (jsonb_set ''destination_policy'' (coalesce_prop old ''destination_policy'' (part ''destination_policy''))
               (jsonb_set ''authority_context'' (part ''authority_context'') old))\<rparr>)"

text \<open>The entry of \<^verbatim>\<open>verifier_cache_entries.upsert\<close> replaces all but the key and the creation.\<close>

definition replace_entry :: "cache_row \<Rightarrow> cache_row \<Rightarrow> cache_row" where
  "replace_entry r excluded = excluded\<lparr>vc_created_at := vc_created_at r\<rparr>"

definition insert_entry ::
  "postgres_engine \<Rightarrow> (cache_row \<Rightarrow> cache_row \<Rightarrow> cache_row) \<Rightarrow> cache_row \<Rightarrow> cache_db \<Rightarrow>
     cache_db \<times> (net_error + driver_row list)" where
  "insert_entry E merge excluded db =
     (let hit = entry_is (vc_verifier_id excluded) (vc_namespace excluded) (vc_destination_policy_id excluded)
      in if \<not> list_ex hit (cd_entries db) \<and> \<not> en_admits E (vc_namespace excluded) (vc_destination_policy_id excluded)
         then (db, Inl (en_error E))
         else (db\<lparr>cd_entries := upsert_entry merge excluded (cd_entries db)\<rparr>, Inr []))"

text \<open>An issuer or policy projection; \<open>projection\<close> is the parameter of type JSON.\<close>

definition sql_upsert_projection ::
  "postgres_engine \<Rightarrow> (cache_row \<Rightarrow> cache_row \<Rightarrow> cache_row) \<Rightarrow> int \<Rightarrow> string \<Rightarrow> issuer_namespace \<Rightarrow> string \<Rightarrow>
     jsval \<Rightarrow> string \<Rightarrow> string \<Rightarrow> cache_db \<Rightarrow> cache_db \<times> (net_error + driver_row list)" where
  "sql_upsert_projection E merge now verifierId ns policyId projection generatedAt expiresAt db =
     (case (map_option (jsonb_concat (json_value projection)) (durableAuthorityContextSql E db ns),
            en_timestamptz E generatedAt, en_timestamptz E expiresAt) of
        (Some (JObj kvs), Some generated, Some expires) \<Rightarrow>
          insert_entry E merge
            \<lparr>vc_verifier_id = verifierId, vc_namespace = ns, vc_destination_policy_id = policyId,
             vc_source_artifact_hashes = [], vc_projection = kvs, vc_generated_at = generated,
             vc_expires_at = expires, vc_freshness_status = ''fresh'', vc_created_at = now\<rparr> db
      | _ \<Rightarrow> (db, Inl (en_error E)))"

definition set_context_flag :: "string \<Rightarrow> bool \<Rightarrow> cache_row \<Rightarrow> cache_row" where
  "set_context_flag flag b r =
     r\<lparr>vc_projection := jsonb_set ''authority_context''
         (jsonb_concat (coalesce_prop (vc_projection r) ''authority_context'' (JObj [])) (JObj [(flag, JBool b)]))
         (vc_projection r)\<rparr>"

text \<open>\<^verbatim>\<open>jsonb_set(projection, '{issuer,assurance_tier}', tier, true)\<close>; there is nothing to set without an issuer.\<close>

definition set_issuer_tier :: "string \<Rightarrow> cache_row \<Rightarrow> cache_row" where
  "set_issuer_tier tier r =
     (case map_of (vc_projection r) ''issuer'' of
        Some (JObj kvs) \<Rightarrow> r\<lparr>vc_projection :=
          jsonb_set ''issuer'' (JObj (js_map_set ''assurance_tier'' (JStr tier) kvs)) (vc_projection r)\<rparr>
      | _ \<Rightarrow> r)"

definition placeholder_entry :: "postgres_engine \<Rightarrow> cache_row \<Rightarrow> bool" where
  "placeholder_entry E r \<longleftrightarrow>
     (let issuer = get_prop (JObj (vc_projection r)) ''issuer''
      in arrow_text E issuer ''placeholder'' = Some ''true'' \<or>
         arrow_text E issuer ''projection_kind'' = Some ''placeholder'')"

definition returning_one :: driver_row where
  "returning_one = [(''?column?'', Column (int_json 1))]"

definition update_entries ::
  "(cache_row \<Rightarrow> bool) \<Rightarrow> (cache_row \<Rightarrow> cache_row) \<Rightarrow> cache_db \<Rightarrow> cache_db" where
  "update_entries hit f db = db\<lparr>cd_entries := map (\<lambda>r. if hit r then f r else r) (cd_entries db)\<rparr>"

definition delete_entries ::
  "(cache_row \<Rightarrow> bool) \<Rightarrow> cache_db \<Rightarrow> cache_db \<times> (net_error + driver_row list)" where
  "delete_entries hit db =
     (db\<lparr>cd_entries := filter (\<lambda>r. \<not> hit r) (cd_entries db)\<rparr>,
      Inr (map (\<lambda>_. returning_one) (filter hit (cd_entries db))))"

definition entry_driver_row :: "cache_row \<Rightarrow> driver_row" where
  "entry_driver_row r =
     [(''verifier_id'', Column (JStr (vc_verifier_id r))),
      (''root_program_id'', Column (JStr (ns_root_program_id (vc_namespace r)))),
      (''delegated_authority_id'', Column (JStr (ns_delegated_authority_id (vc_namespace r)))),
      (''issuer_id'', Column (JStr (ns_issuer_id (vc_namespace r)))),
      (''destination_policy_id'', Column (JStr (vc_destination_policy_id r))),
      (''scanner_trust_projection'', Column (JObj (vc_projection r))),
      (''cache_generated_at'', Timestamp (vc_generated_at r)),
      (''cache_expires_at'', Timestamp (vc_expires_at r)),
      (''freshness_status'', Column (JStr (vc_freshness_status r)))]"

definition latest_expiry_first :: "cache_row \<Rightarrow> cache_row \<Rightarrow> bool" where
  "latest_expiry_first a b \<longleftrightarrow>
     vc_expires_at a > vc_expires_at b \<or> vc_expires_at a = vc_expires_at b \<and> vc_created_at a \<ge> vc_created_at b"


subsection \<open>The statements\<close>

definition namespace_of :: "string \<Rightarrow> string \<Rightarrow> string \<Rightarrow> issuer_namespace" where
  "namespace_of rootId authorityId issuerId =
     \<lparr>ns_root_program_id = rootId, ns_delegated_authority_id = authorityId, ns_issuer_id = issuerId\<rparr>"

definition in_root :: "string \<Rightarrow> string \<Rightarrow> cache_row \<Rightarrow> bool" where
  "in_root verifierId rootId r \<longleftrightarrow> vc_verifier_id r = verifierId \<and> ns_root_program_id (vc_namespace r) = rootId"

definition in_authority :: "string \<Rightarrow> string \<Rightarrow> string \<Rightarrow> cache_row \<Rightarrow> bool" where
  "in_authority verifierId rootId authorityId r \<longleftrightarrow>
     in_root verifierId rootId r \<and> ns_delegated_authority_id (vc_namespace r) = authorityId"

definition of_issuer :: "string \<Rightarrow> issuer_namespace \<Rightarrow> cache_row \<Rightarrow> bool" where
  "of_issuer verifierId ns r \<longleftrightarrow> vc_verifier_id r = verifierId \<and> vc_namespace r = ns"

definition sql_write_entries ::
  "postgres_engine \<Rightarrow> int \<Rightarrow> sql_command \<Rightarrow> cache_db \<Rightarrow> cache_db \<times> (net_error + driver_row list)" where
  "sql_write_entries E now command db =
     (let name = sc_name command in
      case sc_values command of
        [SText v, SText r, SText a, SText i, SText p, SJson projection, SText generatedAt, SText expiresAt] \<Rightarrow>
          if name = ''verifier_cache_entries.upsert_destination_policy'' then
            sql_upsert_projection E merge_policy now v (namespace_of r a i) p projection generatedAt expiresAt db
          else if name = ''verifier_cache_entries.upsert_issuer_projection'' then
            sql_upsert_projection E merge_issuer now v (namespace_of r a i) p projection generatedAt expiresAt db
          else (db, Inl (en_error E))
      | [SText v, SText r, SText a, SText i, SText p, STexts hashes, SJson projection, SText generatedAt,
         SText expiresAt, SText freshness] \<Rightarrow>
          if name = ''verifier_cache_entries.upsert'' then
            (case (json_value projection, en_timestamptz E generatedAt, en_timestamptz E expiresAt) of
               (JObj kvs, Some generated, Some expires) \<Rightarrow>
                 insert_entry E replace_entry
                   \<lparr>vc_verifier_id = v, vc_namespace = namespace_of r a i, vc_destination_policy_id = p,
                    vc_source_artifact_hashes = hashes, vc_projection = kvs, vc_generated_at = generated,
                    vc_expires_at = expires, vc_freshness_status = freshness, vc_created_at = now\<rparr> db
             | _ \<Rightarrow> (db, Inl (en_error E)))
          else (db, Inl (en_error E))
      | [SText v, SText r, STexts ids] \<Rightarrow>
          if name = ''verifier_cache_entries.upsert_root_authority_context'' then
            (update_entries (in_root v r) (\<lambda>e. set_context_flag ''root_manifest_authorizes_authority''
               (ns_delegated_authority_id (vc_namespace e) \<in> set ids) e) db, Inr [])
          else (db, Inl (en_error E))
      | [SText v, SText r, SText a, STexts ids] \<Rightarrow>
          if name = ''verifier_cache_entries.upsert_delegated_authority_issuer_context'' then
            (update_entries (in_authority v r a) (\<lambda>e. set_context_flag ''delegated_authority_authorizes_issuer''
               (ns_issuer_id (vc_namespace e) \<in> set ids) e) db, Inr [])
          else (db, Inl (en_error E))
      | [SText v, SText r, SText a, SText i, SText x] \<Rightarrow>
          if name = ''verifier_cache_entries.update_issuer_assurance_tier'' then
            (let hit = (\<lambda>e. of_issuer v (namespace_of r a i) e \<and> \<not> placeholder_entry E e)
             in (update_entries hit (set_issuer_tier x) db,
                 Inr (map (\<lambda>_. returning_one) (filter hit (cd_entries db)))))
          else if name = ''verifier_cache_entries.delete_destination_policy'' then
            delete_entries (entry_is v (namespace_of r a i) x) db
          else (db, Inl (en_error E))
      | [SText v, SText r, SText a, SText i] \<Rightarrow>
          if name = ''verifier_cache_entries.delete_issuer'' then
            delete_entries (of_issuer v (namespace_of r a i)) db
          else (db, Inl (en_error E))
      | [SText v, SText r, SText a] \<Rightarrow>
          if name = ''verifier_cache_entries.delete_delegated_authority'' then
            delete_entries (in_authority v r a) db
          else (db, Inl (en_error E))
      | _ \<Rightarrow> (db, Inl (en_error E)))"

text \<open>The client of the cache over the database and its clock.\<close>

definition cache_client :: "postgres_engine \<Rightarrow> ('c \<Rightarrow> 'c \<times> int) \<Rightarrow> (cache_db \<times> 'c) cache_query" where
  "cache_client E tick command st =
     (let (db, c) = st; (c', now) = tick c
      in if sc_name command = ''verifier_cache_entries.load'' then
           ((db, c'), case sc_values command of
              [SText v] \<Rightarrow> Inr (map entry_driver_row
                (sort_by latest_expiry_first (filter (\<lambda>r. vc_verifier_id r = v) (cd_entries db))))
            | _ \<Rightarrow> Inl (en_error E))
         else (let (db', r) = sql_write_entries E now command db in ((db', c'), r)))"

end
