(* ===== verification/PostgresCacheFacts.thy ===== *)
theory PostgresCacheFacts
  imports PostgresCacheTable ScannerFacts
begin

text \<open>
  The scanner over the verifier cache on Postgres: which rows back a green decision, what removals
  exclude, and how the freshness bounds of an entry move.
\<close>

subsection \<open>Decoded entries\<close>

lemma requireEntryString_Inr [simp]: "requireEntryString v f = Inr s \<longleftrightarrow> v = JStr s \<and> s \<noteq> []"
  by (cases v) (auto simp: requireEntryString_def)

lemma requireRecord_Inr [simp]: "requireRecord v l = Inr w \<longleftrightarrow> is_record v \<and> w = v"
  by (auto simp: requireRecord_def)

definition allowed_entry :: "cache_row \<Rightarrow> bool" where
  "allowed_entry r \<longleftrightarrow>
     authorityContextAllowsResolution (JObj (vc_projection r)) \<and>
     \<not> isPlaceholderIssuerProjection (get_prop (JObj (vc_projection r)) ''issuer'')"

definition decodes_to :: "platform \<Rightarrow> cache_row \<Rightarrow> cache_entry \<Rightarrow> bool" where
  "decodes_to P r e \<longleftrightarrow> decodeVerifierCacheEntryRow P (entry_driver_row r) = Inr (Some e)"

lemma entry_fields [simp]:
  "field_value (entry_driver_row r) ''root_program_id'' = JStr (ns_root_program_id (vc_namespace r))"
  "field_value (entry_driver_row r) ''delegated_authority_id'' = JStr (ns_delegated_authority_id (vc_namespace r))"
  "field_value (entry_driver_row r) ''issuer_id'' = JStr (ns_issuer_id (vc_namespace r))"
  "field_value (entry_driver_row r) ''destination_policy_id'' = JStr (vc_destination_policy_id r)"
  "field_value (entry_driver_row r) ''scanner_trust_projection'' = JObj (vc_projection r)"
  "isoTimestampField P (entry_driver_row r) ''cache_generated_at'' = Inr (iso_string P (vc_generated_at r))"
  "isoTimestampField P (entry_driver_row r) ''cache_expires_at'' = Inr (iso_string P (vc_expires_at r))"
  by (simp_all add: field_value_def entry_driver_row_def isoTimestampField_def)

lemma decodes_toD:
  assumes "decodes_to P r (i, p)"
  shows "allowed_entry r" "ip_namespace i = vc_namespace r" "dp_namespace p = vc_namespace r"
    "ip_destination_policy_id i = vc_destination_policy_id r"
    "dp_destination_policy_id p = vc_destination_policy_id r"
    "ip_cache_generated_at i = iso_string P (vc_generated_at r)"
    "dp_cache_generated_at p = iso_string P (vc_generated_at r)"
    "ip_cache_expires_at i = iso_string P (vc_expires_at r)"
    "dp_cache_expires_at p = iso_string P (vc_expires_at r)"
  using assms
  by (auto simp: decodes_to_def decodeVerifierCacheEntryRow_def Let_def and_then_Inr allowed_entry_def
      split: if_splits)


subsection \<open>The loaded cache\<close>

text \<open>Of the projections with one key the last stays, of issuers and of policies alike.\<close>

lemma fold_update_lookup:
  "map_of (fold (\<lambda>x. js_map_set (key x) (val x)) xs m) k =
     (case find (\<lambda>x. key x = k) (rev xs) of None \<Rightarrow> map_of m k | Some x \<Rightarrow> Some (val x))"
  by (induction xs rule: rev_induct) (auto simp: update_conv')

lemma seed_fields [simp]:
  "issuersByPolicyKey (seedAuthorityContext ns s) = issuersByPolicyKey s"
  "policiesByKey (seedAuthorityContext ns s) = policiesByKey s"
  "acceptedRoots (seedAuthorityContext ns s) = acceptedRoots s"
  by (simp_all add: seedAuthorityContext_def mergeDelegatedAuthorityIssuerContextSync_def
      mergeRootAuthorityContextSync_def Let_def)

lemma make_fields:
  "issuersByPolicyKey (makeInMemoryVerifierCache is ps roots) = fold (\<lambda>i. js_map_set (issuer_key i) i) is []"
  "policiesByKey (makeInMemoryVerifierCache is ps roots) = fold (\<lambda>p. js_map_set (policy_key p) p) ps []"
  "acceptedRoots (makeInMemoryVerifierCache is ps roots) = roots"
proof -
  have one: "issuersByPolicyKey (fold (\<lambda>p s. seedAuthorityContext (ip_namespace p) (putProjection p s)) is s) =
      fold (\<lambda>i. js_map_set (issuer_key i) i) is (issuersByPolicyKey s)"
    "policiesByKey (fold (\<lambda>p s. seedAuthorityContext (ip_namespace p) (putProjection p s)) is s) = policiesByKey s"
    "acceptedRoots (fold (\<lambda>p s. seedAuthorityContext (ip_namespace p) (putProjection p s)) is s) = acceptedRoots s"
    for s by (induction "is" arbitrary: s) (simp_all add: putProjection_def)
  have two: "issuersByPolicyKey (fold (\<lambda>p s. seedAuthorityContext (dp_namespace p) (fst (upsertDestinationPolicy p s))) ps s) =
      issuersByPolicyKey s"
    "policiesByKey (fold (\<lambda>p s. seedAuthorityContext (dp_namespace p) (fst (upsertDestinationPolicy p s))) ps s) =
      fold (\<lambda>p. js_map_set (policy_key p) p) ps (policiesByKey s)"
    "acceptedRoots (fold (\<lambda>p s. seedAuthorityContext (dp_namespace p) (fst (upsertDestinationPolicy p s))) ps s) =
      acceptedRoots s"
    for s by (induction ps arbitrary: s) (simp_all add: upsertDestinationPolicy_def)
  show "issuersByPolicyKey (makeInMemoryVerifierCache is ps roots) = fold (\<lambda>i. js_map_set (issuer_key i) i) is []"
    "policiesByKey (makeInMemoryVerifierCache is ps roots) = fold (\<lambda>p. js_map_set (policy_key p) p) ps []"
    "acceptedRoots (makeInMemoryVerifierCache is ps roots) = roots"
    by (simp_all add: makeInMemoryVerifierCache_def Let_def one two)
qed

text \<open>A resolution over a cache made of entries takes issuer and policy from one of them.\<close>

lemma resolved_entry:
  assumes cache: "cache = makeInMemoryVerifierCache (map fst es) (map snd es) roots"
    and keys: "\<forall>(i, p) \<in> set es. issuer_key i = policy_key p"
    and res: "resolveByDestination P cache u h = Some r"
  obtains i p host where "(i, p) \<in> set es" "res_policy r = p" "res_issuer r = materializeIssuer i p host"
    "roots (ns_root_program_id (dp_namespace p))"
proof -
  let ?p = "res_policy r"
  obtain i host where i: "map_of (issuersByPolicyKey cache) (policy_key ?p) = Some i"
    "res_issuer r = materializeIssuer i ?p host" using resolved_issuer [OF res] by blast
  have "cache_wf cache" unfolding cache by (rule wf_make)
  then have wf: "distinct (map fst (policiesByKey cache))" "entries (\<lambda>k p. k = policy_key p) (policiesByKey cache)"
    by (simp_all add: cache_wf_def)
  obtain k where k: "(k, ?p) \<in> set (policiesByKey cache)" using resolved_stored [OF res] by auto
  have "k = policy_key ?p" by (rule entries_mem [OF wf(2) k])
  then have p: "map_of (policiesByKey cache) (policy_key ?p) = Some ?p" using map_of_is_SomeI [OF wf(1) k] by simp
  have same: "find (\<lambda>e. issuer_key (fst e) = k) (rev es) = find (\<lambda>e. policy_key (snd e) = k) (rev es)" for k
  proof (rule find_cong [OF refl])
    fix e assume "e \<in> set (rev es)"
    then have "issuer_key (fst e) = policy_key (snd e)" using keys by (cases e) auto
    then show "(issuer_key (fst e) = k) = (policy_key (snd e) = k)" by (simp only:)
  qed
  have "map_of (fold (\<lambda>e. js_map_set (issuer_key (fst e)) (fst e)) es []) (policy_key ?p) = Some i"
    "map_of (fold (\<lambda>e. js_map_set (policy_key (snd e)) (snd e)) es []) (policy_key ?p) = Some ?p"
    using i(1) p by (simp_all add: cache make_fields fold_map o_def)
  then obtain e where e: "find (\<lambda>e. policy_key (snd e) = policy_key ?p) (rev es) = Some e" "fst e = i" "snd e = ?p"
    by (auto simp: fold_update_lookup same split: option.splits)
  then have "e \<in> set es" by (metis find_Some_iff nth_mem set_rev)
  then have "(i, ?p) \<in> set es" using e(2,3) by (metis prod.collapse)
  moreover have "roots (ns_root_program_id (dp_namespace ?p))"
    using resolved_trusted [OF res] by (simp add: namespace_trusted_def cache make_fields)
  ultimately show thesis using that i(2) by blast
qed


text \<open>A resolution over Postgres comes from a row of its verifier.\<close>

lemma entry_keys:
  assumes "decodes_to P r (i, p)"
  shows "issuer_key i = policy_key p"
  using decodes_toD [OF assms] by (simp add: issuer_key_def policy_key_def)

lemma loaded_cache:
  assumes "loadCache P (cache_client E tick) options (db, c) = (k', Inr cache)"
  obtains es where "cache = makeInMemoryVerifierCache (map fst es) (map snd es)
      (makeAcceptedRootPolicy (case pco_accepted_root_program_ids options of None \<Rightarrow> [] | Some ids \<Rightarrow> ids))"
    "\<forall>e \<in> set es. \<exists>r \<in> set (cd_entries db). vc_verifier_id r = pco_verifier_id options \<and> decodes_to P r e"
proof -
  let ?rows = "sort_by latest_expiry_first (filter (\<lambda>r. vc_verifier_id r = pco_verifier_id options) (cd_entries db))"
  obtain decoded where decoded: "map_result (decodeVerifierCacheEntryRow P) (map entry_driver_row ?rows) = Inr decoded"
    and cache: "cache = makeInMemoryVerifierCache
        (map fst (concat (map (\<lambda>e. case e of None \<Rightarrow> [] | Some x \<Rightarrow> [x]) decoded)))
        (map snd (concat (map (\<lambda>e. case e of None \<Rightarrow> [] | Some x \<Rightarrow> [x]) decoded)))
        (makeAcceptedRootPolicy (case pco_accepted_root_program_ids options of None \<Rightarrow> [] | Some ids \<Rightarrow> ids))"
    using assms
    by (auto simp: loadCache_def load_command_def cache_client_def Let_def case_prod_beta map_error_Inr and_then_Inr
        split: sum.splits)
  have "\<exists>r \<in> set (cd_entries db). vc_verifier_id r = pco_verifier_id options \<and> decodes_to P r e"
    if "Some e \<in> set decoded" for e
    using map_result_mem [OF decoded that] by (auto simp: decodes_to_def)
  then show thesis by (intro that [OF cache]) (auto split: option.splits)
qed

definition pg_resolve ::
  "platform \<Rightarrow> postgres_engine \<Rightarrow> ('c \<Rightarrow> 'c \<times> int) \<Rightarrow> postgres_cache_options \<Rightarrow> cache_db \<times> 'c \<Rightarrow> url \<Rightarrow>
     string option \<Rightarrow> destination_resolution option" where
  "pg_resolve P E tick options st u h = snd (postgres_resolveByDestination P (cache_client E tick) options u h st)"

definition accepted_root :: "postgres_cache_options \<Rightarrow> string \<Rightarrow> bool" where
  "accepted_root options rootId \<longleftrightarrow> (\<exists>ids. pco_accepted_root_program_ids options = Some ids \<and> rootId \<in> set ids)"

lemma empty_unresolved [simp]: "resolveByDestination P emptyVerifierCache u h = None"
proof (cases "resolveByDestination P emptyVerifierCache u h")
  case (Some r)
  then show ?thesis using resolved_stored [OF Some] by (simp add: emptyVerifierCache_def make_fields)
qed

lemma pg_resolved:
  assumes "pg_resolve P E tick options (db, c) u h = Some res"
  obtains r i host where "r \<in> set (cd_entries db)" "vc_verifier_id r = pco_verifier_id options"
    "decodes_to P r (i, res_policy res)" "res_issuer res = materializeIssuer i (res_policy res) host"
    "accepted_root options (ns_root_program_id (vc_namespace r))"
proof -
  obtain k' cache where load: "loadCache P (cache_client E tick) options (db, c) = (k', Inr cache)"
    "resolveByDestination P cache u h = Some res"
    using assms
    by (auto simp: pg_resolve_def postgres_resolveByDestination_def loadCacheOrMiss_def split: prod.splits sum.splits)
  obtain es where cache: "cache = makeInMemoryVerifierCache (map fst es) (map snd es)
      (makeAcceptedRootPolicy (case pco_accepted_root_program_ids options of None \<Rightarrow> [] | Some ids \<Rightarrow> ids))"
    and rows: "\<forall>e \<in> set es. \<exists>r \<in> set (cd_entries db). vc_verifier_id r = pco_verifier_id options \<and> decodes_to P r e"
    using loaded_cache [OF load(1)] by blast
  have "\<forall>(i, p) \<in> set es. issuer_key i = policy_key p" using rows entry_keys by fast
  then obtain i p host where e: "(i, p) \<in> set es" "res_policy res = p" "res_issuer res = materializeIssuer i p host"
    "makeAcceptedRootPolicy (case pco_accepted_root_program_ids options of None \<Rightarrow> [] | Some ids \<Rightarrow> ids)
       (ns_root_program_id (dp_namespace p))"
    using resolved_entry [OF cache _ load(2)] by blast
  obtain r where r: "r \<in> set (cd_entries db)" "vc_verifier_id r = pco_verifier_id options" "decodes_to P r (i, p)"
    using rows e(1) by blast
  have "accepted_root options (ns_root_program_id (vc_namespace r))"
    using e(4) decodes_toD(3) [OF r(3)] 
    by (cases "pco_accepted_root_program_ids options") (simp_all add: accepted_root_def makeAcceptedRootPolicy_def)
  then show thesis using that r e(2,3) by blast
qed



subsection \<open>What a call of the writer does to the rows\<close>

text \<open>A change that leaves the key and the freshness bounds of a row.\<close>

definition keeps_row :: "(cache_row \<Rightarrow> cache_row) \<Rightarrow> bool" where
  "keeps_row f \<longleftrightarrow> (\<forall>r. vc_verifier_id (f r) = vc_verifier_id r \<and> vc_namespace (f r) = vc_namespace r \<and>
     vc_destination_policy_id (f r) = vc_destination_policy_id r \<and> vc_expires_at (f r) = vc_expires_at r)"

fun upserts :: "cache_op \<Rightarrow> issuer_namespace \<Rightarrow> string \<Rightarrow> bool" where
  "upserts (OpUpsertIssuer p) ns i = (ip_namespace p = ns \<and> ip_destination_policy_id p = i)"
| "upserts (OpUpsertDestinationPolicy p) ns i = (dp_namespace p = ns \<and> dp_destination_policy_id p = i)"
| "upserts _ ns i = False"

fun removes :: "cache_op \<Rightarrow> issuer_namespace \<Rightarrow> string \<Rightarrow> bool" where
  "removes (OpRemoveIssuer ns') ns i = (ns' = ns)"
| "removes (OpRemoveDestinationPolicy ns' i') ns i = (ns' = ns \<and> i' = i)"
| "removes (OpRemoveDestinationPoliciesForIssuer ns') ns i = (ns' = ns)"
| "removes (OpRemoveDelegatedAuthority key) ns i = delegatedAuthorityEquals ns key"
| "removes _ ns i = False"

lemma namespace_of_id [simp]:
  "namespace_of (ns_root_program_id ns) (ns_delegated_authority_id ns) (ns_issuer_id ns) = ns"
  by (simp add: namespace_of_def)

lemma keeps_context [simp]: "keeps_row (\<lambda>e. set_context_flag flag (b e) e)"
  by (simp add: keeps_row_def set_context_flag_def)

lemma keeps_tier [simp]: "keeps_row (set_issuer_tier tier)"
  by (auto simp: keeps_row_def set_issuer_tier_def split: option.splits jsval.splits)

abbreviation rows_of_state :: "writer_contexts \<times> cache_db \<times> 'c \<Rightarrow> cache_row list" where
  "rows_of_state st \<equiv> cd_entries (fst (snd st))"

lemma insert_entry_rows:
  "cd_entries (fst (insert_entry E merge ex db)) = cd_entries db \<or>
   cd_entries (fst (insert_entry E merge ex db)) = upsert_entry merge ex (cd_entries db)"
  by (simp add: insert_entry_def Let_def)

lemma sql_upsert_projection_rows:
  "cd_entries (fst (sql_upsert_projection E merge now v ns i projection g e db)) = cd_entries db \<or>
   (\<exists>ex. cd_entries (fst (sql_upsert_projection E merge now v ns i projection g e db)) =
       upsert_entry merge ex (cd_entries db) \<and>
      vc_verifier_id ex = v \<and> vc_namespace ex = ns \<and> vc_destination_policy_id ex = i)"
  (is "?same \<or> ?put")
proof (rule ccontr)
  assume no: "\<not> (?same \<or> ?put)"
  have "cd_entries (fst (insert_entry E merge ex db)) = cd_entries db"
    if "vc_verifier_id ex = v" "vc_namespace ex = ns" "vc_destination_policy_id ex = i"
      "sql_upsert_projection E merge now v ns i projection g e db = insert_entry E merge ex db" for ex
    using insert_entry_rows [of E merge ex db] no that by auto
  then have "?same"
    by (auto simp: sql_upsert_projection_def split: option.splits jsval.splits)
  with no show False by simp
qed

lemma pg_step_rows:
  assumes rows_def: "rows = rows_of_state st"
    and rows'_def: "rows' = rows_of_state (pg_step (cache_client E tick) options op st)"
  obtains (same) "rows' = rows"
  | (put) merge ex where "rows' = upsert_entry merge ex rows" "merge = merge_policy \<or> merge = merge_issuer"
      "vc_verifier_id ex = pco_verifier_id options" "upserts op (vc_namespace ex) (vc_destination_policy_id ex)"
  | (change) hit f where "rows' = map (\<lambda>r. if hit r then f r else r) rows" "keeps_row f"
  | (drop) hit where "rows' = filter (\<lambda>r. \<not> hit r) rows"
      "\<And>r. hit r \<longleftrightarrow> vc_verifier_id r = pco_verifier_id options \<and> removes op (vc_namespace r) (vc_destination_policy_id r)"
proof -
  obtain w db c where st: "st = (w, db, c)" by (cases st) auto
  note effect = cache_client_def sql_write_entries_def execute_as_def verifierCacheCommandReturnedRows_def
    Let_def case_prod_beta entry_key_values_def
  show thesis
  proof (cases op)
    case (OpUpsertIssuer p)
    show thesis
      using sql_upsert_projection_rows [of E merge_issuer _ "pco_verifier_id options" "ip_namespace p"
          "ip_destination_policy_id p"]
      by (rule disjE) (auto simp: OpUpsertIssuer rows_def rows'_def st pg_upsertIssuer_def
          upsertVerifierCacheIssuerCommand_def effect intro: same put)
  next
    case (OpUpsertDestinationPolicy p)
    show thesis
      using sql_upsert_projection_rows [of E merge_policy _ "pco_verifier_id options" "dp_namespace p"
          "dp_destination_policy_id p"]
      by (rule disjE) (auto simp: OpUpsertDestinationPolicy rows_def rows'_def st pg_upsertDestinationPolicy_def
          upsertVerifierCacheDestinationPolicyCommand_def effect intro: same put)
  next
    case (OpUpsertRootAuthorityContext x)
    show thesis
      by (rule change [of "in_root (pco_verifier_id options) (rac_root_program_id x)"
          "\<lambda>e. set_context_flag ''root_manifest_authorizes_authority''
             (ns_delegated_authority_id (vc_namespace e) \<in> set (rac_active_delegated_authority_ids x)) e"])
        (simp_all add: OpUpsertRootAuthorityContext rows_def rows'_def st
          pg_upsertRootAuthorityContext_def upsertVerifierCacheRootAuthorityContextCommand_def effect update_entries_def)
  next
    case (OpUpsertDelegatedAuthorityIssuerContext x)
    show thesis
      by (rule change [of "in_authority (pco_verifier_id options) (daic_root_program_id x)
            (daic_delegated_authority_id x)"
          "\<lambda>e. set_context_flag ''delegated_authority_authorizes_issuer''
             (ns_issuer_id (vc_namespace e) \<in> set (daic_active_issuer_ids x)) e"])
        (simp_all add: OpUpsertDelegatedAuthorityIssuerContext rows_def rows'_def st
          pg_upsertDelegatedAuthorityIssuerContext_def
          upsertVerifierCacheDelegatedAuthorityIssuerContextCommand_def effect update_entries_def)
  next
    case (OpUpdateIssuerAssuranceTier ns tier)
    show thesis
      by (rule change [of "\<lambda>e. of_issuer (pco_verifier_id options) ns e \<and> \<not> placeholder_entry E e"
          "set_issuer_tier tier"])
        (simp_all add: OpUpdateIssuerAssuranceTier rows_def rows'_def st
          pg_updateIssuerAssuranceTier_def updateVerifierCacheIssuerAssuranceTierCommand_def effect update_entries_def)
  next
    case (OpRemoveIssuer ns)
    show thesis
      by (rule drop [of "of_issuer (pco_verifier_id options) ns"]) (auto simp: OpRemoveIssuer rows_def rows'_def st
          pg_removeIssuer_def deleteVerifierCacheIssuerCommand_def effect delete_entries_def of_issuer_def)
  next
    case (OpRemoveDestinationPolicy ns i)
    show thesis
      by (rule drop [of "entry_is (pco_verifier_id options) ns i"]) (auto simp: OpRemoveDestinationPolicy rows_def
          rows'_def st pg_removeDestinationPolicy_def deleteVerifierCacheDestinationPolicyCommand_def effect
          delete_entries_def entry_is_def)
  next
    case (OpRemoveDestinationPoliciesForIssuer ns)
    show thesis
      by (rule drop [of "of_issuer (pco_verifier_id options) ns"]) (auto simp: OpRemoveDestinationPoliciesForIssuer
          rows_def rows'_def st pg_removeDestinationPoliciesForIssuer_def deleteVerifierCacheIssuerCommand_def effect
          delete_entries_def of_issuer_def)
  next
    case (OpRemoveDelegatedAuthority key)
    show thesis
      by (rule drop [of "in_authority (pco_verifier_id options) (dak_root_program_id key)
          (dak_delegated_authority_id key)"]) (auto simp: OpRemoveDelegatedAuthority rows_def rows'_def st
          pg_removeDelegatedAuthority_def deleteVerifierCacheDelegatedAuthorityCommand_def effect delete_entries_def
          in_authority_def in_root_def delegatedAuthorityEquals_def)
  qed
qed


subsection \<open>The scanner over Postgres\<close>

text \<open>The reader satisfies the contract of the scanner: a namespace is trusted by an allowed row.\<close>

definition pg_trusted :: "postgres_cache_options \<Rightarrow> cache_db \<times> 'c \<Rightarrow> issuer_namespace \<Rightarrow> bool" where
  "pg_trusted options st ns \<longleftrightarrow>
     (\<exists>r \<in> set (cd_entries (fst st)). vc_verifier_id r = pco_verifier_id options \<and> allowed_entry r \<and>
        vc_namespace r = ns \<and> accepted_root options (ns_root_program_id ns))"

lemma pg_resolve_in_memory:
  "\<exists>cache. \<forall>u h. pg_resolve P E tick options st u h = resolveByDestination P cache u h"
  by (cases "loadCacheOrMiss P (cache_client E tick) options st")
    (auto simp: pg_resolve_def postgres_resolveByDestination_def)

interpretation pg: scanner_client "pg_resolve P E tick options" "pg_trusted options"
  "standard_inspect P ro po" memory_publish memory_recent for P E tick options ro po
proof unfold_locales
  fix st u h r
  assume res: "pg_resolve P E tick options st u h = Some r"
  obtain db c where st: "st = (db, c)" by (cases st)
  show "pg_trusted options st (dp_namespace (res_policy r))"
  proof (rule pg_resolved [OF res [unfolded st]])
    fix row i
    assume row: "row \<in> set (cd_entries db)" "vc_verifier_id row = pco_verifier_id options"
      "decodes_to P row (i, res_policy r)" "accepted_root options (ns_root_program_id (vc_namespace row))"
    show ?thesis
      unfolding pg_trusted_def st
      by (rule bexI [of _ row]) (simp_all add: row decodes_toD(1,3) [OF row(3)])
  qed
  obtain cache where cache: "\<And>u h. pg_resolve P E tick options st u h = resolveByDestination P cache u h"
    using pg_resolve_in_memory by blast
  show "res_binding_status r = Mismatch \<Longrightarrow> res_reason_codes r \<noteq> []"
    using vc.resolve_mismatch [OF res [unfolded cache]] .
  show "js_le (ip_cache_expires_at (res_issuer r)) (dp_cache_expires_at (res_policy r))"
    using vc.resolve_expiry [OF res [unfolded cache]] .
qed

text \<open>A row that backs a green decision at an instant.\<close>

definition row_governance :: "cache_row \<Rightarrow> governance_projection" where
  "row_governance r =
     \<lparr>gp_root_program_id = ns_root_program_id (vc_namespace r),
      gp_delegated_authority_id = ns_delegated_authority_id (vc_namespace r),
      gp_issuer_id = ns_issuer_id (vc_namespace r), gp_destination_policy_id = vc_destination_policy_id r\<rparr>"

definition stored_instants_parse :: "platform \<Rightarrow> cache_db \<Rightarrow> bool" where
  "stored_instants_parse P db \<longleftrightarrow>
     (\<forall>r \<in> set (cd_entries db). date_parse P (iso_string P (vc_expires_at r)) = Some (vc_expires_at r) \<and>
        date_parse P (iso_string P (vc_generated_at r)) = Some (vc_generated_at r))"

lemma green_row:
  assumes "decide P (pg_resolve P E tick options (db, c)) inspect publish uuid input b = (b', Done d)"
    and "sd_decision_color d = Green" and "stored_instants_parse P db"
  obtains r where "r \<in> set (cd_entries db)" "vc_verifier_id r = pco_verifier_id options" "allowed_entry r"
    "accepted_root options (ns_root_program_id (vc_namespace r))" "sd_governance d = Some (row_governance r)"
    "vc_generated_at r \<le> si_observedAt input" "si_observedAt input < vc_expires_at r"
  using assms(1,2)
proof (rule green_decision)
  fix u res v
  assume g: "green_grounds P (pg_resolve P E tick options (db, c)) inspect input u res v"
    and d: "d = makeGreenDecision P uuid input (destinationFromUrl u) res v"
  then obtain r i host where r: "r \<in> set (cd_entries db)" "vc_verifier_id r = pco_verifier_id options"
    "decodes_to P r (i, res_policy res)" "res_issuer res = materializeIssuer i (res_policy res) host"
    "accepted_root options (ns_root_program_id (vc_namespace r))"
    by (auto simp: green_grounds_def elim: pg_resolved)
  note row = decodes_toD [OF r(3)]
  have dates: "ip_cache_expires_at (res_issuer res) = iso_string P (vc_expires_at r)"
    "ip_cache_generated_at (res_issuer res) = iso_string P (vc_generated_at r)"
    by (simp_all add: r(4) row minIsoDate_pair maxIsoDate_pair)
  have "date_parse P (iso_string P (vc_expires_at r)) = Some (vc_expires_at r)"
    "date_parse P (iso_string P (vc_generated_at r)) = Some (vc_generated_at r)"
    using assms(3) r(1) by (simp_all add: stored_instants_parse_def)
  then have "vc_generated_at r \<le> si_observedAt input" "si_observedAt input < vc_expires_at r"
    using g by (auto simp: green_grounds_def fresh_iff dates)
  moreover have "sd_governance d = Some (row_governance r)"
    by (simp add: d governance_of_def row_governance_def r(4) row materializeIssuer_def)
  ultimately show thesis using that r(1,2,5) row(1) by blast
qed

text \<open>What no call brings back, what keeps an entry and its expiry.\<close>

lemma step_no_rows:
  assumes "\<forall>r \<in> set (rows_of_state st). vc_verifier_id r = pco_verifier_id options \<longrightarrow> \<not> bad (vc_namespace r)"
    and "\<forall>ns i. upserts op ns i \<longrightarrow> \<not> bad ns"
  shows "\<forall>r \<in> set (rows_of_state (pg_step (cache_client E tick) options op st)).
    vc_verifier_id r = pco_verifier_id options \<longrightarrow> \<not> bad (vc_namespace r)"
proof (cases rule: pg_step_rows [OF refl refl, of E tick options op st, case_names same put change drop])
  case (put merge ex)
  then show ?thesis
    using assms
    by (auto simp: upsert_entry_def Let_def merge_policy_def merge_issuer_def merge_bounds_def split: if_splits)
qed (use assms in \<open>auto simp: keeps_row_def split: if_splits\<close>)

lemma run_no_rows:
  assumes "\<forall>r \<in> set (rows_of_state st). vc_verifier_id r = pco_verifier_id options \<longrightarrow> \<not> bad (vc_namespace r)"
    and "\<forall>op \<in> set ops. \<forall>ns i. upserts op ns i \<longrightarrow> \<not> bad ns"
  shows "\<forall>r \<in> set (rows_of_state (pg_run (cache_client E tick) options ops st)).
    vc_verifier_id r = pco_verifier_id options \<longrightarrow> \<not> bad (vc_namespace r)"
  using assms
proof (induction ops arbitrary: st)
  case (Cons op ops)
  have "\<forall>r \<in> set (rows_of_state (pg_step (cache_client E tick) options op st)).
      vc_verifier_id r = pco_verifier_id options \<longrightarrow> \<not> bad (vc_namespace r)"
    by (rule step_no_rows [OF Cons.prems(1)]) (use Cons.prems(2) in simp)
  from Cons.IH [OF this] Cons.prems(2) show ?case by (simp add: pg_run_def)
qed (simp add: pg_run_def)

lemma removed_authority_rows:
  "\<forall>r \<in> set (rows_of_state (pg_step (cache_client E tick) options (OpRemoveDelegatedAuthority key) st)).
     vc_verifier_id r = pco_verifier_id options \<longrightarrow> \<not> delegatedAuthorityEquals (vc_namespace r) key"
  by (cases st) (auto simp: pg_removeDelegatedAuthority_def deleteVerifierCacheDelegatedAuthorityCommand_def
      verifierCacheCommandReturnedRows_def cache_client_def sql_write_entries_def delete_entries_def Let_def
      case_prod_beta in_authority_def in_root_def delegatedAuthorityEquals_def)

definition held_until :: "(cache_row \<Rightarrow> bool) \<Rightarrow> int \<Rightarrow> cache_row list \<Rightarrow> bool" where
  "held_until hit t rows \<longleftrightarrow> (\<exists>r \<in> set rows. hit r) \<and> (\<forall>r \<in> set rows. hit r \<longrightarrow> vc_expires_at r \<le> t)"

lemma merge_keeps:
  assumes "merge = merge_policy \<or> merge = merge_issuer"
  shows "entry_is v ns i (merge r ex) = entry_is v ns i r" "vc_expires_at (merge r ex) \<le> vc_expires_at r"
  using assms by (auto simp: merge_policy_def merge_issuer_def merge_bounds_def entry_is_def Let_def)

lemma held_map:
  assumes "held_until hit t rows" "\<And>r. hit (f r) = hit r" "\<And>r. vc_expires_at (f r) \<le> vc_expires_at r"
  shows "held_until hit t (map f rows)"
proof -
  obtain r where r: "r \<in> set rows" "hit r" using assms(1) by (auto simp: held_until_def)
  then have "f r \<in> set (map f rows)" "hit (f r)" by (simp_all add: assms(2))
  moreover have "vc_expires_at (f r') \<le> t" if "r' \<in> set rows" "hit (f r')" for r'
    using assms(1) that order_trans [OF assms(3)] by (simp add: held_until_def assms(2))
  ultimately show ?thesis unfolding held_until_def by (metis (mono_tags) imageE list.set_map)
qed

lemma step_held:
  assumes "held_until (entry_is (pco_verifier_id options) ns i) t (rows_of_state st)" "\<not> removes op ns i"
  shows "held_until (entry_is (pco_verifier_id options) ns i) t
    (rows_of_state (pg_step (cache_client E tick) options op st))"
proof (cases rule: pg_step_rows [OF refl refl, of E tick options op st, case_names same put change drop])
  case (put merge ex)
  let ?rows = "rows_of_state st" and ?hit = "entry_is (pco_verifier_id options) ns i"
  let ?same = "entry_is (vc_verifier_id ex) (vc_namespace ex) (vc_destination_policy_id ex)"
  note keeps = merge_keeps [OF put(2)]
  show ?thesis
  proof (cases "list_ex ?same ?rows")
    case True
    then have "rows_of_state (pg_step (cache_client E tick) options op st) =
        map (\<lambda>r. if ?same r then merge r ex else r) ?rows" by (simp add: put(1) upsert_entry_def)
    moreover have "held_until ?hit t (map (\<lambda>r. if ?same r then merge r ex else r) ?rows)"
      by (rule held_map [OF assms(1)]) (simp_all add: keeps)
    ultimately show ?thesis by simp
  next
    case False
    then have "\<not> ?hit ex" using assms(1) by (auto simp: held_until_def list_ex_iff entry_is_def)
    then show ?thesis
      using assms(1) False by (auto simp: put(1) upsert_entry_def held_until_def)
  qed
next
  case (change hit f)
  have "held_until (entry_is (pco_verifier_id options) ns i) t (map (\<lambda>r. if hit r then f r else r) (rows_of_state st))"
    by (rule held_map [OF assms(1)]) (use change(2) in \<open>simp_all add: keeps_row_def entry_is_def\<close>)
  then show ?thesis by (simp add: change(1))
next
  case (drop hit)
  then show ?thesis using assms by (auto simp: held_until_def entry_is_def)
qed (use assms in simp)

lemma run_held:
  assumes "held_until (entry_is (pco_verifier_id options) ns i) t (rows_of_state st)" "\<forall>op \<in> set ops. \<not> removes op ns i"
  shows "held_until (entry_is (pco_verifier_id options) ns i) t
    (rows_of_state (pg_run (cache_client E tick) options ops st))"
  using assms
proof (induction ops arbitrary: st)
  case (Cons op ops)
  then show ?case using step_held [OF Cons.prems(1), of op E tick] by (simp add: pg_run_def)
qed (simp add: pg_run_def)



text \<open>The entry statement of the persistence service.\<close>

lemma written_entry_context:
  assumes "cache_client E tick (verifierCacheEntryCommand input) (db, c) = ((db', c'), Inr rows)"
    and "r \<in> set (cd_entries db')"
    and "entry_is (cp_verifier_id input) (ip_namespace (cp_issuer input)) (dp_destination_policy_id (cp_policy input)) r"
  shows "map_of (vc_projection r) ''authority_context'' = None"
proof -
  let ?ns = "ip_namespace (cp_issuer input)" and ?policyId = "dp_destination_policy_id (cp_policy input)"
  obtain hashes a b g e f where command: "verifierCacheEntryCommand input =
      \<lparr>sc_name = ''verifier_cache_entries.upsert'',
       sc_values = [SText (cp_verifier_id input), SText (ns_root_program_id ?ns),
         SText (ns_delegated_authority_id ?ns), SText (ns_issuer_id ?ns), SText ?policyId, STexts hashes,
         SJson (JObj [(''issuer'', JObj a), (''destination_policy'', JObj b)]), SText g, SText e, SText f]\<rparr>"
    by (simp add: verifierCacheEntryCommand_def Let_def)
  have json: "json_value (JObj [(''issuer'', JObj a), (''destination_policy'', JObj b)]) =
      JObj [(''issuer'', json_value (JObj a)), (''destination_policy'', json_value (JObj b))]"
    by (simp del: json_value.simps(1) add: json_value.simps(1) [of "[(''issuer'', JObj a), (''destination_policy'', JObj b)]"])
  have ran: "sql_write_entries E (snd (tick c)) (verifierCacheEntryCommand input) db = (db', Inr rows)"
    using assms(1) unfolding cache_client_def command by (auto simp: Let_def case_prod_beta prod_eq_iff)
  then obtain generated expires where times: "en_timestamptz E g = Some generated" "en_timestamptz E e = Some expires"
    by (cases "en_timestamptz E g"; cases "en_timestamptz E e") (simp_all add: sql_write_entries_def command json)
  let ?ex = "\<lparr>vc_verifier_id = cp_verifier_id input, vc_namespace = ?ns, vc_destination_policy_id = ?policyId,
      vc_source_artifact_hashes = hashes,
      vc_projection = [(''issuer'', json_value (JObj a)), (''destination_policy'', json_value (JObj b))],
      vc_generated_at = generated, vc_expires_at = expires, vc_freshness_status = f, vc_created_at = snd (tick c)\<rparr>"
  have db': "insert_entry E replace_entry ?ex db = (db', Inr rows)"
    using ran times by (simp add: sql_write_entries_def command json)
  have rows: "cd_entries db' = upsert_entry replace_entry ?ex (cd_entries db)"
    using db' by (auto simp: insert_entry_def Let_def split: if_splits)
  show ?thesis
    using assms(2,3)
    by (auto simp: rows upsert_entry_def Let_def replace_entry_def entry_is_def list_ex_iff split: if_splits)
qed


subsection \<open>Properties\<close>

definition fx_engine :: postgres_engine where
  "fx_engine = \<lparr>en_timestamptz = map_of fx_dates, en_json_text = (\<lambda>_. []), en_admits = (\<lambda>_ _. True),
     en_error = PersistenceError ''db'' (OtherCause JNull)\<rparr>"

definition fx_tick :: "int \<Rightarrow> int \<times> int" where
  "fx_tick c = (c + 1, c)"

definition fx_options :: postgres_cache_options where
  "fx_options = \<lparr>pco_verifier_id = ''v'', pco_accepted_root_program_ids = Some [''root:r'']\<rparr>"

definition fx_listing :: "string \<Rightarrow> string \<Rightarrow> string list \<Rightarrow> jsval" where
  "fx_listing field idField ids =
     JObj [(field, JArr (map (\<lambda>i. JObj [(idField, JStr i), (''status'', JStr ''active'')]) ids))]"

definition fx_cache_db :: cache_db where
  "fx_cache_db =
     \<lparr>cd_entries = [],
      cd_artifacts =
        \<lparr>pa_artifact_type = ''root_manifest'', pa_root_program_id = ''root:r'', pa_delegated_authority_id = None,
         pa_canonical_json = fx_listing ''delegated_authorities'' ''delegated_authority_id''
           [''authority:a'', ''authority:b''], pa_publication_status = ''published''\<rparr> #
        map (\<lambda>a. \<lparr>pa_artifact_type = ''delegated_authority_manifest'', pa_root_program_id = ''root:r'',
           pa_delegated_authority_id = Some a,
           pa_canonical_json = fx_listing ''enrolled_issuers'' ''issuer_id'' [''issuer:i''],
           pa_publication_status = ''published''\<rparr>) [''authority:a'', ''authority:b'']\<rparr>"

abbreviation fx_pg_client :: "(cache_db \<times> int) cache_query" where
  "fx_pg_client \<equiv> cache_client fx_engine fx_tick"

definition fx_pg_start :: "writer_contexts \<times> cache_db \<times> int" where
  "fx_pg_start = (\<lparr>wc_activeDelegatedAuthoritiesByRoot = [], wc_activeIssuersByAuthority = []\<rparr>, fx_cache_db, 0)"

definition fx_pg_state :: "cache_op list \<Rightarrow> writer_contexts \<times> cache_db \<times> int" where
  "fx_pg_state ops = pg_run fx_pg_client fx_options ops fx_pg_start"

definition fx_pg_decide :: "cache_db \<times> int \<Rightarrow> network_event list \<times> scanner_decision outcome" where
  "fx_pg_decide st = decide fx_platform (pg_resolve fx_platform fx_engine fx_tick fx_options st)
     (standard_inspect fx_platform fx_redirect_options fx_calm) memory_publish ''u'' (fx_scan ''https://h.x/pay'') []"

definition fx_publish_a :: "cache_op list" where
  "fx_publish_a = [OpUpsertIssuer fx_issuer, OpUpsertDestinationPolicy fx_policy]"

definition fx_publish_b :: "cache_op list" where
  "fx_publish_b = [OpUpsertIssuer (fx_issuer\<lparr>ip_namespace := fx_ns2\<rparr>),
     OpUpsertDestinationPolicy (fx_policy\<lparr>dp_namespace := fx_ns2\<rparr>)]"

lemma fx_pg_green: "outcome_color (snd (fx_pg_decide (snd (fx_pg_state fx_publish_a)))) = Some Green"
  by code_simp

lemma fx_pg_decided:
  assumes "outcome_color (snd (fx_pg_decide st)) = Some c"
  obtains b d where "fx_pg_decide st = (b, Done d)" "sd_decision_color d = c"
  using outcome_color_Some [OF assms] by (metis prod.collapse)

text \<open>
  C21. A green decision over the verifier cache on Postgres rests on a row of its verifier, under an accepted
  root, whose authority context holds both flags and whose issuer is no placeholder: the decision names the
  namespace and policy of that row and is made within its freshness bounds. It is required that the
  instants of the table survive their text.
\<close>

theorem postgres_green_decision_is_backed:
  assumes "decide P (pg_resolve P E tick options (db, c)) (standard_inspect P ro po) memory_publish uuid input b =
      (b', Done d)"
    and "sd_decision_color d = Green" and "stored_instants_parse P db"
  shows "sd_risk_score d = Some 0 \<and>
    (\<exists>r \<in> set (cd_entries db). vc_verifier_id r = pco_verifier_id options \<and> sd_governance d = Some (row_governance r) \<and>
       accepted_root options (ns_root_program_id (vc_namespace r)) \<and>
       (let projection = JObj (vc_projection r); context' = get_prop projection ''authority_context'' in
          get_prop context' ''root_manifest_authorizes_authority'' = JBool True \<and>
          get_prop context' ''delegated_authority_authorizes_issuer'' = JBool True \<and>
          get_prop (get_prop projection ''issuer'') ''placeholder'' \<noteq> JBool True) \<and>
       vc_generated_at r \<le> si_observedAt input \<and> si_observedAt input < vc_expires_at r)"
proof (rule green_row [OF assms])
  fix r
  assume r: "r \<in> set (cd_entries db)" "vc_verifier_id r = pco_verifier_id options" "allowed_entry r"
    "accepted_root options (ns_root_program_id (vc_namespace r))" "sd_governance d = Some (row_governance r)"
    "vc_generated_at r \<le> si_observedAt input" "si_observedAt input < vc_expires_at r"
  have "sd_risk_score d = Some 0" using pg.green_means [OF assms(1,2)] by blast
  then show ?thesis
    using r by (intro conjI bexI [of _ r])
      (simp_all add: allowed_entry_def authorityContextAllowsResolution_def isPlaceholderIssuerProjection_def Let_def)
qed

theorem postgres_green_decision_is_backed_witness:
  "\<exists>b d. fx_pg_decide (snd (fx_pg_state fx_publish_a)) = (b, Done d) \<and> sd_risk_score d = Some 0 \<and>
     sd_governance d \<noteq> None"
proof -
  obtain b d where d: "fx_pg_decide (snd (fx_pg_state fx_publish_a)) = (b, Done d)" "sd_decision_color d = Green"
    using fx_pg_green by (rule fx_pg_decided)
  obtain db c where st: "snd (fx_pg_state fx_publish_a) = (db, c)" by (cases "snd (fx_pg_state fx_publish_a)")
  have "list_all (\<lambda>r. date_parse fx_platform (iso_string fx_platform (vc_expires_at r)) = Some (vc_expires_at r) \<and>
      date_parse fx_platform (iso_string fx_platform (vc_generated_at r)) = Some (vc_generated_at r))
    (cd_entries (fst (snd (fx_pg_state fx_publish_a))))" by code_simp
  then have "stored_instants_parse fx_platform db" by (simp add: st stored_instants_parse_def list_all_iff)
  then show ?thesis
    using postgres_green_decision_is_backed [OF d(1) [unfolded fx_pg_decide_def st] d(2)] d(1) by blast
qed

text \<open>
  Once a delegated authority is removed from the cache on Postgres, no history of calls that upserts
  no issuer and no policy of the authority lets a scan be green for it; calls that name the authority
  or its issuers active again do not.
\<close>

lemma postgres_removed_authority_never_green:
  assumes "\<forall>op \<in> set ops. \<forall>ns i. upserts op ns i \<longrightarrow> \<not> delegatedAuthorityEquals ns key"
    and "snd (pg_run (cache_client E tick) options ops
        (fst (pg_removeDelegatedAuthority (cache_client E tick) options key st))) = (db, c)"
    and "decide P (pg_resolve P E tick options (db, c)) inspect publish uuid input b = (b', Done d)"
    and "sd_decision_color d = Green" and "stored_instants_parse P db"
  shows "\<exists>g. sd_governance d = Some g \<and>
    \<not> (gp_root_program_id g = dak_root_program_id key \<and>
       gp_delegated_authority_id g = dak_delegated_authority_id key)"
proof -
  let ?st = "fst (pg_removeDelegatedAuthority (cache_client E tick) options key st)"
  have "pg_step (cache_client E tick) options (OpRemoveDelegatedAuthority key) st = ?st" by simp
  then have "\<forall>r \<in> set (rows_of_state ?st). vc_verifier_id r = pco_verifier_id options \<longrightarrow>
      \<not> delegatedAuthorityEquals (vc_namespace r) key"
    using removed_authority_rows [where options = options and key = key and E = E and tick = tick and st = st] by simp
  from run_no_rows [OF this assms(1), of E tick] have gone: "\<forall>r \<in> set (cd_entries db).
      vc_verifier_id r = pco_verifier_id options \<longrightarrow> \<not> delegatedAuthorityEquals (vc_namespace r) key"
    by (simp add: assms(2))
  show ?thesis
    by (rule green_row [OF assms(3-5)]) (use gone in \<open>auto simp: row_governance_def delegatedAuthorityEquals_def\<close>)
qed

text \<open>
  The freshness bounds of an entry on Postgres never widen: once every row of a namespace and policy
  has expired, no history of calls that does not remove it, whatever issuers and policies it upserts, lets a
  scan be green for it again.
\<close>

lemma expired_postgres_entry_stays_expired:
  assumes "held_until (entry_is (pco_verifier_id options) ns i) t (rows_of_state st)"
    and "\<forall>op \<in> set ops. \<not> removes op ns i"
    and "snd (pg_run (cache_client E tick) options ops st) = (db, c)"
    and "decide P (pg_resolve P E tick options (db, c)) inspect publish uuid input b = (b', Done d)"
    and "sd_decision_color d = Green" and "t \<le> si_observedAt input" and "stored_instants_parse P db"
  shows "\<exists>g. sd_governance d = Some g \<and>
    (gp_root_program_id g, gp_delegated_authority_id g, gp_issuer_id g, gp_destination_policy_id g) \<noteq>
      (ns_root_program_id ns, ns_delegated_authority_id ns, ns_issuer_id ns, i)"
proof -
  have held: "held_until (entry_is (pco_verifier_id options) ns i) t (cd_entries db)"
    using run_held [OF assms(1,2), of E tick] by (simp add: assms(3))
  show ?thesis
  proof (rule green_row [OF assms(4,5,7)])
    fix r
    assume r: "r \<in> set (cd_entries db)" "vc_verifier_id r = pco_verifier_id options"
      "sd_governance d = Some (row_governance r)" "si_observedAt input < vc_expires_at r"
    have "\<not> entry_is (pco_verifier_id options) ns i r"
      using held r(1,4) assms(6) by (force simp: held_until_def)
    then have "vc_namespace r \<noteq> ns \<or> vc_destination_policy_id r \<noteq> i" using r(2) by (simp add: entry_is_def)
    then show ?thesis using r(3) by (cases ns; cases "vc_namespace r") (auto simp: row_governance_def)
  qed
qed

text \<open>
  The entry that the persistence of the read model writes carries no authority context, so the reader
  over Postgres never resolves its policy, until a later statement adds one.
\<close>

lemma read_model_entry_is_not_resolved:
  assumes "cache_client E tick (verifierCacheEntryCommand input) (db, c) = (st, Inr rows)"
    and "pco_verifier_id options = cp_verifier_id input"
    and "pg_resolve P E tick options st u h = Some res"
  shows "\<not> (dp_namespace (res_policy res) = ip_namespace (cp_issuer input) \<and>
    dp_destination_policy_id (res_policy res) = dp_destination_policy_id (cp_policy input))"
proof
  assume same: "dp_namespace (res_policy res) = ip_namespace (cp_issuer input) \<and>
    dp_destination_policy_id (res_policy res) = dp_destination_policy_id (cp_policy input)"
  obtain db' c' where st: "st = (db', c')" by (cases st)
  obtain r i host where r: "r \<in> set (cd_entries db')" "vc_verifier_id r = pco_verifier_id options"
    "decodes_to P r (i, res_policy res)" using pg_resolved [OF assms(3) [unfolded st]] by metis
  note row = decodes_toD(1,3,5) [OF r(3)]
  have "entry_is (cp_verifier_id input) (ip_namespace (cp_issuer input)) (dp_destination_policy_id (cp_policy input)) r"
    using r(2) row(2,3) same assms(2) by (simp add: entry_is_def)
  then have "map_of (vc_projection r) ''authority_context'' = None"
    using written_entry_context [OF assms(1) [unfolded st] r(1)] by simp
  then show False
    using row(1) by (simp add: allowed_entry_def authorityContextAllowsResolution_def get_prop_def)
qed

subsection \<open>Where Postgres and memory differ\<close>

text \<open>
  After a removed authority the in-memory cache waits for a root context; on Postgres the published
  manifests, which still list it, authorise the next upsert of its issuer and policy.
\<close>

lemma removed_authority_returns_with_its_artifacts:
  "outcome_color (snd (fx_pg_decide (snd (pg_run fx_pg_client fx_options fx_publish_a
     (fst (pg_removeDelegatedAuthority fx_pg_client fx_options fx_key (fx_pg_state fx_publish_a))))))) = Some Green"
  by code_simp

end
