(* ===== verification/Spec2Isabelle.thy ===== *)
theory Spec2Isabelle
  imports ScannerFacts VerifierSyncFacts ReadModelFacts SubscriberFacts BundleSyncFacts
    PostgresTrustKeyFacts PublicationContextFacts PostgresCacheFacts
begin

text \<open>
  The trust network of QR Trust, \<^verbatim>\<open>src/network/src\<close>: what a scanner decides about the URL of
  a QR code, and the machinery that decision rests on.

  \<^bold>\<open>The program.\<close> A verifier holds a cache of issuer records and destination policies, which
  root programs and delegated authorities publish as signed artifacts. A scan parses the
  payload, resolves its destination in the cache, checks the freshness of the entry, asks a
  runtime provider and returns a green, orange or red decision. Artifacts are signed with keys
  of a trust key registry; policies are published behind a domain control gate.

  \<^bold>\<open>The theories.\<close> Files are named relative to \<^verbatim>\<open>src/network/src/services\<close>.
  \<^item> \<open>Prelude\<close>: JavaScript strings, maps, sets, untyped values, results; the host platform.
  \<^item> \<open>VerifierCache\<close>: \<^verbatim>\<open>verifier-cache.ts\<close>, \<^verbatim>\<open>accepted-root-policy.ts\<close>. The maps and sets of
    \<^verbatim>\<open>makeInMemoryVerifierCache\<close> are the record \<^typ>\<open>verifier_cache\<close>; each method is a function on
    it. \<open>VerifierCacheFacts\<close>: the representation invariant, what a bound resolution means, what
    removals exclude; the interfaces \<open>verifier_cache_reader\<close> and \<open>verifier_cache_writer\<close>.
  \<^item> \<open>Hash\<close>, \<open>Contracts\<close>: \<^verbatim>\<open>../hash.ts\<close>, \<^verbatim>\<open>../contracts.ts\<close>.
  \<^item> \<open>RuntimeSafety\<close>: \<^verbatim>\<open>runtime-safety.ts\<close> and its provider contracts.
  \<^item> \<open>DomainProof\<close>: \<^verbatim>\<open>domain-proof.ts\<close>, \<^verbatim>\<open>destination-policy-publication-gate.ts\<close>.
  \<^item> \<open>EventBus\<close>: \<^verbatim>\<open>event-bus.ts\<close>, \<^verbatim>\<open>artifact-store.ts\<close>, \<^verbatim>\<open>artifact-publication.ts\<close>.
  \<^item> \<open>ScannerDecision\<close>: \<^verbatim>\<open>scanner-decision.ts\<close>; \<open>ScannerFacts\<close>: when a decision is green and why.
  \<^item> \<open>TrustKeys\<close>: \<^verbatim>\<open>trust-key-registry.ts\<close>, \<^verbatim>\<open>key-rotation-policy.ts\<close>; \<open>TrustKeyFacts\<close>: lookups,
    confinement of updates, retirement, rotation.
  \<^item> \<open>SignatureVerification\<close>: \<^verbatim>\<open>signature-verification.ts\<close>, \<^verbatim>\<open>key-material.ts\<close>;
    \<open>SignatureFacts\<close>: what an accepted signature means.
  \<^item> \<open>DestinationPolicy\<close>: \<^verbatim>\<open>destination-policy-publication.ts\<close>, the decoders of a policy body and
    the guarded publication; \<open>DestinationPolicyFacts\<close>: the gate cannot be bypassed, the round
    trip of the published body.
  \<^item> \<open>VerifierSync\<close>: \<^verbatim>\<open>verifier-sync.ts\<close>, from recent events to the cache and the registry
    (\<^typ>\<open>sync_state\<close> holds both and the counters of the loop); \<open>VerifierSyncFacts\<close>: a sync is a
    history of cache calls, each justified by an intact and verified artifact; which key a status
    event can change.
  \<^item> \<open>Propagation\<close>: \<^verbatim>\<open>nats-propagation.ts\<close> and the sink of \<^verbatim>\<open>nats-live-publisher.ts\<close>, from an event to the
    subject, stream and payload of its message; \<open>PropagationFacts\<close>: subjects are confined, sinks
    satisfy the contract \<open>message_sink\<close>.
  \<^item> \<open>WorkQueue\<close>: the claim and the marks of a work table, read from the SQL statements of
    \<^verbatim>\<open>postgres-event-outbox-worker.ts\<close>, and the loop of a supervisor; \<open>WorkQueueFacts\<close>: leases, histories
    of a queue, when the loop stops; the contract \<open>progressing_worker\<close>, under which a supervised
    queue is drained.
  \<^item> \<open>Outbox\<close>: \<^verbatim>\<open>event-outbox-publisher.ts\<close>, \<^verbatim>\<open>event-outbox-worker.ts\<close>, \<^verbatim>\<open>event-outbox-metrics.ts\<close>,
    \<^verbatim>\<open>event-outbox-supervisor.ts\<close>; \<open>OutboxFacts\<close>: a pass settles its batch, a supervised outbox is
    drained, payloads round trip.
  \<^item> \<open>Materialization\<close>: \<^verbatim>\<open>verifier-cache-materialization.ts\<close>, the decoders of the five artifacts of a
    chain, its checks and the entry made of it; \<open>MaterializationFacts\<close>: the specification of a chain
    and that materialisation implements it, the window of an entry, what a green decision over it means.
  \<^item> \<open>ReadModel\<close>: \<^verbatim>\<open>verifier-cache-work-item-authorization.ts\<close>, \<^verbatim>\<open>verifier-cache-read-model-worker.ts\<close>;
    \<open>ReadModelFacts\<close>: what an authorised item means and which items a pass completes.
  \<^item> \<open>QueueWorkers\<close>: the queues of publications and of read model items, their workers, supervisors and
    Postgres statements (\<^verbatim>\<open>artifact-publication-queue-*.ts\<close>, \<^verbatim>\<open>verifier-cache-read-model-queue-*.ts\<close>,
    \<^verbatim>\<open>postgres-artifact-publication-queue.ts\<close>, \<^verbatim>\<open>postgres-verifier-cache-read-model-queue.ts\<close>);
    \<open>QueueWorkersFacts\<close>: the contract of a queue store and what a supervised worker does under it;
    \<open>ArtifactQueueFacts\<close>: publications.
  \<^item> \<open>Persistence\<close>: \<^verbatim>\<open>postgres-persistence.ts\<close>, \<^verbatim>\<open>postgres-event-bus.ts\<close>, \<^verbatim>\<open>postgres-artifact-store.ts\<close>
    and the transactions of \<^verbatim>\<open>postgres-driver.ts\<close>; \<open>PersistenceFacts\<close>: from the bus through the outbox
    to the sink, what a transaction commits, the store refines the in-memory store.
  \<^item> \<open>Subscriber\<close>: \<^verbatim>\<open>nats-governance-subscriber.ts\<close> and the filter and sync of
    \<^verbatim>\<open>../programs/governance-subscriber-worker-runtime.ts\<close>, from a delivered message to its
    settlement; \<open>SubscriberFacts\<close>: the filter is exact, an acknowledged event took effect, the loop ends.
  \<^item> \<open>SigningCustody\<close>: \<^verbatim>\<open>signing-custody.ts\<close>, which private key signs and the signed body;
    \<open>SigningCustodyFacts\<close>: only licensed keys sign, the verifier accepts what the signer signs.
  \<^item> \<open>GovernancePublication\<close>: \<^verbatim>\<open>governance-publication.ts\<close>, \<^verbatim>\<open>authority-publication.ts\<close>, the four
    artifacts of a bundle, their signing and the services that publish them; \<open>GovernanceSource\<close>:
    \<^verbatim>\<open>postgres-governance-publication-source.ts\<close>, from the governance tables to the plan of a bundle.
  \<^item> \<open>GovernanceFacts\<close>, \<open>GovernanceBundles\<close>: planned and signed bodies, their recognition by the verifier;
    \<open>BundlePublication\<close>: publication in order over any backend; \<open>BundleSource\<close>: the rows behind a bundle;
    \<open>BundleFacts\<close>: the gate takes a signed bundle, what is announced, that its records were active;
    \<open>BundleSync\<close>, \<open>BundleSyncFacts\<close>: from the tables to the cache of a verifier.
  \<^item> \<open>PostgresTrustKeys\<close>: \<^verbatim>\<open>postgres-trust-key-registry.ts\<close>; \<open>PostgresTrustKeyFacts\<close>: it implements the
    in-memory registry.
  \<^item> \<open>PublicationContext\<close>: \<^verbatim>\<open>postgres-domain-proof-store.ts\<close>,
    \<^verbatim>\<open>postgres-destination-policy-publication-context.ts\<close>; \<open>PublicationContextFacts\<close>: what the tables hold
    when a destination policy is published.
  \<^item> \<open>PostgresCache\<close>: \<^verbatim>\<open>postgres-verifier-cache.ts\<close>, the reader that decodes the rows of a verifier for each
    call and the writer with its two maps of active ids (\<^typ>\<open>writer_contexts\<close>); \<open>PostgresCacheTable\<close>: its
    statements, and the entry statement of the read model, as functions on the table of entries and the
    published artifacts (\<^typ>\<open>cache_db\<close>); \<open>PostgresCacheFacts\<close>: which rows back a green decision, what a
    removal excludes, how the bounds of an entry move, and that the reader is a client of the scanner.
  \<^item> this theory: what a synced revocation means for later scans.
  \<^item> \<open>Fixtures\<close>: concrete inputs for the witnesses.

  \<^bold>\<open>Conventions.\<close> Effects are explicit: a stateful interface is a function from its state to a
  new state and a result (\<^typ>\<open>('s, 'a) call\<close>); a typed error is \<open>Inl\<close> or \<open>Failed\<close>, an uncaught
  throw is \<open>Died\<close>. Instants are milliseconds as \<^typ>\<open>int\<close>; a \<^verbatim>\<open>Date\<close> argument is valid. What the
  sources call of the host (URL parsing, dates, SHA-256, Ed25519, locale comparison) is the
  record \<^typ>\<open>platform\<close>, an argument of the definitions, and what a property needs of it is a
  named hypothesis. Loops over collections are structural recursion; the loop of a supervisor, which
  need not end, is a \<open>partial_function (option)\<close>, whose result \<open>None\<close> is not returning; no fuel is used.

  \<^bold>\<open>Not modelled.\<close> The engine of Postgres and the message server: what a statement does is read from
  its text, what the server answers is an argument. The subscriber worker is modelled over the in-memory
  verifier cache, where the deployed worker has the one on Postgres. The metrics of the outbox and the
  migrations, the distribution of verifier profiles, the HTTP runtime of the scanner, the
  evidence and readiness reports, the programs that wire services from the environment, and the user
  interfaces.
\<close>


subsection \<open>From a synced revocation to the scanner\<close>

text \<open>
  An artifact body names a delegated authority active when it is a root manifest of its root
  program that lists the authority with status \<^verbatim>\<open>active\<close>; no other body reactivates it.
\<close>

definition names_active :: "delegated_authority_key \<Rightarrow> jsval \<Rightarrow> bool" where
  "names_active key b \<longleftrightarrow>
     (case rootAuthorityContextFromArtifact b of
        None \<Rightarrow> False | Some c \<Rightarrow> reactivates key (OpUpsertRootAuthorityContext c))"

lemma status_ops_never_reactivate: "op \<in> set (status_ops b) \<Longrightarrow> \<not> reactivates key op"
  by (auto simp: status_ops_def Let_def split: if_splits)

lemma reactivating_body: "op \<in> set (event_ops P e b) \<Longrightarrow> reactivates key op \<Longrightarrow> names_active key b"
  using status_ops_never_reactivate [of op _ key]
  by (cases "rootAuthorityContextFromArtifact b")
     (auto simp: event_ops_def opt_list_def policy_ops_def names_active_def
        split: option.splits sum.splits)

text \<open>The cache after a sync that starts with an accepted revocation of an authority.\<close>

lemma synced_revocation_history:
  assumes "revokes_authority b" "intact P get (ne_envelope event) b"
    and "ee_type (ne_envelope event) \<noteq> ''scanner.decision.recorded''"
    and "signature_gate (verify rs) b = Done Gate_accepted"
    and "syncRecent P get verify h (event # events) (Some c) rs = ((Some c', rs'), r)"
    and quiet: "\<forall>e \<in> set events. \<forall>b'. intact P get (ne_envelope e) b' \<longrightarrow>
      \<not> names_active (revoked_authority b) b'"
  obtains ops where
    "c' = cache_run ops (fst (removeDelegatedAuthority (revoked_authority b) c))"
    "\<forall>op \<in> set ops. \<not> reactivates (revoked_authority b) op"
proof -
  let ?start = "start_state (Some c) rs"
  obtain a where a: "get (ee_artifact_id (ne_envelope event)) = Inr (Some a)" "sa_body a = b"
    "sa_artifact_hash a = ee_artifact_hash (ne_envelope event)" "sa_artifact_hash a = sha256_of P b"
    using assms(2) by (auto simp: intact_def)
  obtain st where one: "sync_event P get verify h event ?start = (st, Done ())"
    "sy_cache st = map_option (cache_run (event_ops P (ne_envelope event) b)) (sy_cache ?start)"
    using accepted_event [of get event a P verify ?start h] a assms(3,4)
    by (auto simp: start_state_def)
  have st: "sy_cache st = Some (fst (removeDelegatedAuthority (revoked_authority b) c))"
    using one(2) revocation_ops [OF assms(1)] by (simp add: start_state_def cache_run_def)
  obtain st2 r2 where rest: "sync_events P get verify h events st = (st2, r2)" by fastforce
  have "sy_cache st2 = Some c'"
    using assms(5) one(1) rest by (auto simp: syncRecent_def split: outcome.splits)
  moreover obtain ops where ops: "sy_cache st2 = map_option (cache_run ops) (sy_cache st)"
    "\<forall>op \<in> set ops. \<exists>e \<in> set events. justified P get (\<lambda>_. True) e op"
    using events_justified [OF rest, of "\<lambda>_. True"] by blast
  ultimately have "c' = cache_run ops (fst (removeDelegatedAuthority (revoked_authority b) c))"
    using st by simp
  moreover have "\<not> reactivates (revoked_authority b) op" if op: "op \<in> set ops" for op
  proof
    assume re: "reactivates (revoked_authority b) op"
    obtain e b' where e: "e \<in> set events" "intact P get (ne_envelope e) b'"
      "op \<in> set (event_ops P (ne_envelope e) b')"
      using ops(2) op by (fastforce simp: justified_def event_ops_def split: if_splits)
    then show False using quiet reactivating_body [OF e(3) re] by blast
  qed
  ultimately show thesis using that by blast
qed

text \<open>
  C4. Once an intact and accepted revocation of a delegated authority is synced, and as long as
  no later event of the sync carries a root manifest that names the authority active again, no
  scan over the synced cache is green for a policy of that authority.
\<close>

theorem synced_revocation_stops_green_scans:
  assumes "revokes_authority b" "intact P get (ne_envelope event) b"
    and "ee_type (ne_envelope event) \<noteq> ''scanner.decision.recorded''"
    and "signature_gate (verify rs) b = Done Gate_accepted"
    and "\<forall>e \<in> set events. \<forall>b'. intact P get (ne_envelope e) b' \<longrightarrow>
      \<not> names_active (revoked_authority b) b'"
    and "syncRecent P get verify h (event # events) (Some c) rs = ((Some c', rs'), r)"
    and "decide P (resolveByDestination P c') inspect publish uuid input bus = (bus', Done d)"
    and "sd_decision_color d = Green"
  shows "\<exists>u res. resolveByDestination P c' u (si_issuerHintHost input) = Some res \<and>
    sd_governance d = Some (governance_of res) \<and>
    \<not> delegatedAuthorityEquals (dp_namespace (res_policy res)) (revoked_authority b)"
  using assms(7,8)
proof (rule green_decision)
  fix u res v
  assume g: "green_grounds P (resolveByDestination P c') inspect input u res v"
    "d = makeGreenDecision P uuid input (destinationFromUrl u) res v"
  obtain ops where ops: "c' = cache_run ops (fst (removeDelegatedAuthority (revoked_authority b) c))"
    "\<forall>op \<in> set ops. \<not> reactivates (revoked_authority b) op"
    using synced_revocation_history [OF assms(1-4,6,5)] by blast
  then show ?thesis
    using g vc.removed_never_resolved [OF ops(2), of P c u "si_issuerHintHost input" res]
    by (fastforce simp: green_grounds_def cache_run_def)
qed

definition fx_two_authorities :: verifier_cache where
  "fx_two_authorities = makeInMemoryVerifierCache [demoIssuerProjection, fx_issuer]
     [demoDestinationPolicyProjection, fx_policy] acceptAllRootsPolicy"

definition fx_revoked_sync :: "(verifier_cache option \<times> key_registry) \<times> sync_report outcome" where
  "fx_revoked_sync = syncRecent fx_platform
     (fx_store (fx_revocation_body [(''target_type'', JStr ''delegated_authority'')])) fx_verify True
     [fx_event ''any'' None] (Some fx_two_authorities) demo_registry"

theorem synced_revocation_stops_green_scans_witness:
  "\<exists>c bus d. fst (fst fx_revoked_sync) = Some c \<and> fx_decide c ''https://h.x/pay'' = (bus, Done d) \<and>
     sd_decision_color d = Green \<and>
     (\<exists>res. sd_governance d = Some (governance_of res) \<and>
        \<not> delegatedAuthorityEquals (dp_namespace (res_policy res))
            (revoked_authority (fx_revocation_body [(''target_type'', JStr ''delegated_authority'')])))"
proof -
  let ?b = "fx_revocation_body [(''target_type'', JStr ''delegated_authority'')]"
  let ?c = "the (fst (fst fx_revoked_sync))"
  have b: "revokes_authority ?b" unfolding revokes_authority_def by code_simp
  have sha: "sha256_of fx_platform ?b = ''sha256:00''" by code_simp
  have i: "intact fx_platform (fx_store ?b) (ne_envelope (fx_event ''any'' None)) ?b"
    by (simp add: intact_def fx_store_def fx_event_def sha)
  have t: "ee_type (ne_envelope (fx_event ''any'' None)) \<noteq> ''scanner.decision.recorded''"
    by (simp add: fx_event_def)
  have gate: "signature_gate (fx_verify demo_registry) ?b = Done Gate_accepted" by code_simp
  have "fst (fst fx_revoked_sync) \<noteq> None" by code_simp
  then have some: "fst (fst fx_revoked_sync) = Some ?c" by auto
  then have run: "fx_revoked_sync = ((Some ?c, snd (fst fx_revoked_sync)), snd fx_revoked_sync)"
    by (metis prod.collapse)
  have "outcome_color (snd (fx_decide ?c ''https://h.x/pay'')) = Some Green" by code_simp
  then obtain bus d where d: "fx_decide ?c ''https://h.x/pay'' = (bus, Done d)" "sd_decision_color d = Green"
    by (rule fx_decided)
  show ?thesis
    using synced_revocation_stops_green_scans [OF b i t gate _ run [unfolded fx_revoked_sync_def]
        d(1) [unfolded fx_decide_def fx_revoked_sync_def] d(2)] some d
    by (auto simp: fx_revoked_sync_def)
qed

end
